(* ===== verification/Prelude.thy ===== *)
theory Prelude
  imports Main "HOL-Library.Char_ord" "HOL-Library.List_Lexorder" "HOL-Library.Sublist"
begin

text \<open>
  Shared vocabulary of the development: Python's exceptions as values, the result type with
  its bind, SQL transactions that roll back on an exception, Python's string predicates,
  dictionaries as association lists in insertion order, and the stable selection sort by key
  that models both \<open>sorted(..., key=...)\<close> and SQL's \<open>order by\<close>.
\<close>

named_theorems result_simps \<open>equations of the result type\<close>
named_theorems dict_simps \<open>lookup and update of insertion-ordered dictionaries\<close>

section \<open>Exceptions as values\<close>

text \<open>One constructor per exception class that the modelled code raises or catches.\<close>

datatype py_exn =
    ValueError string
  | KeyError string
  | TypeError string
  | RuntimeError string
  | OSError string
  | IntegrityError string
  | OperationalError string
  | CursorRejected nat string
  | AlertBlocked string
  | PressureConflict string
  | PublicationError string
  | ActivationRejected string
  | EtcdSafetyError string
  | DispatchError nat string string
  | IdentityRejected string
  | AuthorizationRejected string
  | SouthboundDenied string
  | APISIXAdminError string
  | ConfigError string
  | ProjectionError string
  | SystemExit string
  | CalledProcessError string
  | MaterializationError string
  | NameError string

type_synonym 'a res = "py_exn + 'a"

text \<open>Sequencing: an exception skips the rest, as it does in Python outside a handler.\<close>

fun bindE :: "'e + 'a \<Rightarrow> ('a \<Rightarrow> 'e + 'b) \<Rightarrow> 'e + 'b" where
  "bindE (Inl e) f = Inl e"
| "bindE (Inr x) f = f x"

text \<open>\<open>if not ok: raise e\<close>\<close>

definition require :: "bool \<Rightarrow> 'e \<Rightarrow> 'e + unit" where
  "require ok e = (if ok then Inr () else Inl e)"

fun is_ok :: "'e + 'a \<Rightarrow> bool" where
  "is_ok (Inl e) = False"
| "is_ok (Inr x) = True"

lemma bindE_Inr_iff [result_simps]: "bindE m f = Inr y \<longleftrightarrow> (\<exists>x. m = Inr x \<and> f x = Inr y)"
  by (cases m) auto

lemma bindE_Inl_iff [result_simps]:
  "bindE m f = Inl e \<longleftrightarrow> m = Inl e \<or> (\<exists>x. m = Inr x \<and> f x = Inl e)"
  by (cases m) auto

lemma bindE_assoc: "bindE (bindE m f) g = bindE m (\<lambda>x. bindE (f x) g)"
  by (cases m) auto

lemma require_simps [simp]: "require True e = Inr ()" "require False e = Inl e"
  by (simp_all add: require_def)

lemma require_Inr_iff [result_simps]: "require b e = Inr u \<longleftrightarrow> b"
  by (simp add: require_def)

lemma require_Inl_iff [result_simps]: "require b e = Inl e' \<longleftrightarrow> \<not> b \<and> e = e'"
  by (auto simp: require_def)

text \<open>One guard of a chain \<open>if ... then raise e else ...\<close>.\<close>

lemma is_ok_guard [result_simps]: "is_ok (if b then Inl e else r) \<longleftrightarrow> \<not> b \<and> is_ok r"
  by simp

lemma is_ok_iff: "is_ok r \<longleftrightarrow> (\<exists>x. r = Inr x)"
  by (cases r) auto

text \<open>A \<open>for\<close> loop whose body may raise, over a list, threading an accumulator.\<close>

fun foldE :: "('a \<Rightarrow> 's \<Rightarrow> 'e + 's) \<Rightarrow> 'a list \<Rightarrow> 's \<Rightarrow> 'e + 's" where
  "foldE f [] s = Inr s"
| "foldE f (x # xs) s = bindE (f x s) (foldE f xs)"

lemma foldE_append: "foldE f (xs @ ys) s = bindE (foldE f xs s) (foldE f ys)"
proof (induction xs arbitrary: s)
  case Nil
  then show ?case by simp
next
  case (Cons x xs)
  then show ?case by (cases "f x s") simp_all
qed

lemma foldE_invariant:
  assumes "foldE f xs s = Inr t" and "I s"
    and "\<And>x s s'. x \<in> set xs \<Longrightarrow> I s \<Longrightarrow> f x s = Inr s' \<Longrightarrow> I s'"
  shows "I t"
  using assms
proof (induction xs arbitrary: s)
  case Nil
  then show ?case by simp
next
  case (Cons x xs)
  then obtain s' where s': "f x s = Inr s'" and rest: "foldE f xs s' = Inr t"
    by (auto simp: result_simps)
  have "I s'" by (rule Cons.prems(3) [OF _ Cons.prems(2) s']) simp
  then show ?case
    using Cons.IH [OF rest] Cons.prems(3) by (meson list.set_intros(2))
qed

text \<open>\<open>[f(x) for x in xs]\<close> with a body that may raise.\<close>

fun mapE :: "('a \<Rightarrow> 'e + 'b) \<Rightarrow> 'a list \<Rightarrow> 'e + 'b list" where
  "mapE f [] = Inr []"
| "mapE f (x # xs) = bindE (f x) (\<lambda>y. bindE (mapE f xs) (\<lambda>ys. Inr (y # ys)))"

lemma mapE_Inr_iff: "mapE f xs = Inr ys \<longleftrightarrow> list_all2 (\<lambda>x y. f x = Inr y) xs ys"
  by (induction xs arbitrary: ys) (auto simp: result_simps list_all2_Cons1)

lemma mapE_mem: "mapE f xs = Inr ys \<Longrightarrow> x \<in> set xs \<Longrightarrow> \<exists>y. f x = Inr y"
  by (induction xs arbitrary: ys) (auto simp: result_simps)

text \<open>\<open>[x for x in xs if p(x)]\<close> where the test may raise.\<close>

fun filterE :: "('a \<Rightarrow> 'e + bool) \<Rightarrow> 'a list \<Rightarrow> 'e + 'a list" where
  "filterE p [] = Inr []"
| "filterE p (x # xs) =
     bindE (p x) (\<lambda>b. bindE (filterE p xs) (\<lambda>ys. Inr (if b then x # ys else ys)))"

lemma filterE_Inr:
  "filterE p xs = Inr ys \<Longrightarrow> ys = filter (\<lambda>x. p x = Inr True) xs \<and> (\<forall>x \<in> set xs. is_ok (p x))"
proof (induction xs arbitrary: ys)
  case Nil
  then show ?case by simp
next
  case (Cons x xs)
  then obtain b zs where "p x = Inr b" "filterE p xs = Inr zs" "ys = (if b then x # zs else zs)"
    by (auto simp: result_simps)
  with Cons.IH show ?case by (cases b) auto
qed

section \<open>Transactions\<close>

text \<open>
  \<open>begin immediate ... commit\<close> with \<open>except: rollback; raise\<close>: a body that raises leaves
  the database as it was; a body that returns commits its new state.
\<close>

definition transaction :: "('db \<Rightarrow> 'e + ('a \<times> 'db)) \<Rightarrow> 'db \<Rightarrow> ('e + 'a) \<times> 'db" where
  "transaction body db = (case body db of Inl e \<Rightarrow> (Inl e, db) | Inr (x, db') \<Rightarrow> (Inr x, db'))"

lemma transaction_rollback: "transaction body db = (Inl e, db') \<Longrightarrow> db' = db"
  by (auto simp: transaction_def split: sum.splits prod.splits)

lemma transaction_commit:
  "transaction body db = (Inr x, db') \<longleftrightarrow> body db = Inr (x, db')"
  by (auto simp: transaction_def split: sum.splits prod.splits)

lemma transaction_invariant:
  assumes "transaction body db = (r, db')" and "I db"
    and "\<And>x t. body db = Inr (x, t) \<Longrightarrow> I t"
  shows "I db'"
  using assms by (auto simp: transaction_def split: sum.splits prod.splits)

section \<open>Stateful calls that may raise\<close>

text \<open>
  A call on an outside world (a control plane, an admin API, a container engine) takes the
  world and returns a result or an exception together with the world after the call: what the
  call changed before it raised stays changed.
\<close>

type_synonym ('w, 'a) io = "'w \<Rightarrow> 'a res \<times> 'w"

definition returnS :: "'a \<Rightarrow> ('w, 'a) io" where
  "returnS x = (\<lambda>w. (Inr x, w))"

definition raiseS :: "py_exn \<Rightarrow> ('w, 'a) io" where
  "raiseS e = (\<lambda>w. (Inl e, w))"

definition bindS :: "('w, 'a) io \<Rightarrow> ('a \<Rightarrow> ('w, 'b) io) \<Rightarrow> ('w, 'b) io" where
  "bindS m f = (\<lambda>w. case m w of (Inl e, w') \<Rightarrow> (Inl e, w') | (Inr x, w') \<Rightarrow> f x w')"

text \<open>\<open>try: m except Exception as e: h(e)\<close>\<close>

definition tryS :: "('w, 'a) io \<Rightarrow> (py_exn \<Rightarrow> ('w, 'a) io) \<Rightarrow> ('w, 'a) io" where
  "tryS m h = (\<lambda>w. case m w of (Inl e, w') \<Rightarrow> h e w' | (Inr x, w') \<Rightarrow> (Inr x, w'))"

definition liftS :: "'a res \<Rightarrow> ('w, 'a) io" where
  "liftS r = (\<lambda>w. (r, w))"

fun forS :: "('a \<Rightarrow> ('w, unit) io) \<Rightarrow> 'a list \<Rightarrow> ('w, unit) io" where
  "forS f [] = returnS ()"
| "forS f (x # xs) = bindS (f x) (\<lambda>_. forS f xs)"

lemmas io_defs = returnS_def raiseS_def bindS_def tryS_def liftS_def

lemma bindS_Inr:
  "bindS m f w = (Inr y, w') \<longleftrightarrow> (\<exists>x v. m w = (Inr x, v) \<and> f x v = (Inr y, w'))"
  by (auto simp: bindS_def split: prod.splits sum.splits)

lemma bindS_Inl:
  "bindS m f w = (Inl e, w') \<longleftrightarrow>
     m w = (Inl e, w') \<or> (\<exists>x v. m w = (Inr x, v) \<and> f x v = (Inl e, w'))"
  by (auto simp: bindS_def split: prod.splits sum.splits)

lemma tryS_Inr:
  "tryS m h w = (Inr y, w') \<longleftrightarrow>
     m w = (Inr y, w') \<or> (\<exists>e v. m w = (Inl e, v) \<and> h e v = (Inr y, w'))"
  by (auto simp: tryS_def split: prod.splits sum.splits)

lemma tryS_Inl:
  "tryS m h w = (Inl e', w') \<longleftrightarrow> (\<exists>e v. m w = (Inl e, v) \<and> h e v = (Inl e', w'))"
  by (auto simp: tryS_def split: prod.splits sum.splits)

lemmas io_iffs = bindS_Inr bindS_Inl tryS_Inr tryS_Inl

text \<open>A computation that never changes the observation \<open>f\<close> of the world, whatever its outcome.\<close>

definition keeps :: "('w \<Rightarrow> 'i) \<Rightarrow> ('w, 'a) io \<Rightarrow> bool" where
  "keeps f m \<longleftrightarrow> (\<forall>w. f (snd (m w)) = f w)"

named_theorems keeps_intros \<open>rules for keeps\<close>

lemma keepsD: "keeps f m \<Longrightarrow> m w = (r, w') \<Longrightarrow> f w' = f w"
  unfolding keeps_def by (metis snd_conv)

lemma keepsI: "(\<And>w r w'. m w = (r, w') \<Longrightarrow> f w' = f w) \<Longrightarrow> keeps f m"
  unfolding keeps_def by (metis prod.collapse)

lemma keeps_pure [keeps_intros]:
  "keeps f (returnS x)" "keeps f (raiseS e)" "keeps f (liftS r)"
  by (simp_all add: keeps_def io_defs)

lemma keeps_bindS_reached:
  assumes "keeps f m" and "\<And>w x w'. m w = (Inr x, w') \<Longrightarrow> keeps f (g x)"
  shows "keeps f (bindS m g)"
proof (rule keepsI)
  fix w r w'
  assume "bindS m g w = (r, w')"
  then show "f w' = f w"
    using assms by (auto simp: bindS_def split: prod.splits sum.splits dest: keepsD) (metis keepsD)
qed

lemma keeps_bindS [keeps_intros]: "keeps f m \<Longrightarrow> (\<And>x. keeps f (g x)) \<Longrightarrow> keeps f (bindS m g)"
  by (rule keeps_bindS_reached)

lemma keeps_tryS [keeps_intros]: "keeps f m \<Longrightarrow> (\<And>e. keeps f (h e)) \<Longrightarrow> keeps f (tryS m h)"
  by (rule keepsI) (auto simp: tryS_def split: prod.splits sum.splits dest: keepsD, metis keepsD)

lemma keeps_if [keeps_intros]:
  "(b \<Longrightarrow> keeps f m) \<Longrightarrow> (\<not> b \<Longrightarrow> keeps f n) \<Longrightarrow> keeps f (if b then m else n)"
  by simp

lemma keeps_option [keeps_intros]:
  "(v = None \<Longrightarrow> keeps f m) \<Longrightarrow> (\<And>x. v = Some x \<Longrightarrow> keeps f (g x))
     \<Longrightarrow> keeps f (case v of None \<Rightarrow> m | Some x \<Rightarrow> g x)"
  by (cases v) auto

lemma keeps_forS [keeps_intros]: "(\<And>x. x \<in> set xs \<Longrightarrow> keeps f (g x)) \<Longrightarrow> keeps f (forS g xs)"
  by (induction xs) (simp_all add: keeps_intros)

text \<open>A computation that keeps an invariant of the world, whatever its outcome.\<close>

definition preserves :: "('w \<Rightarrow> bool) \<Rightarrow> ('w, 'a) io \<Rightarrow> bool" where
  "preserves I m \<longleftrightarrow> (\<forall>w. I w \<longrightarrow> I (snd (m w)))"

named_theorems preserves_intros \<open>rules for preserves\<close>

lemma preservesD: "preserves I m \<Longrightarrow> m w = (r, w') \<Longrightarrow> I w \<Longrightarrow> I w'"
  unfolding preserves_def by (metis snd_conv)

lemma preservesI: "(\<And>w r w'. I w \<Longrightarrow> m w = (r, w') \<Longrightarrow> I w') \<Longrightarrow> preserves I m"
  unfolding preserves_def by (metis prod.collapse)

lemma preserves_snd: "preserves I m \<Longrightarrow> I w \<Longrightarrow> I (snd (m w))"
  by (simp add: preserves_def)

lemma preserves_pure [preserves_intros]:
  "preserves I (returnS x)" "preserves I (raiseS e)" "preserves I (liftS r)"
  by (simp_all add: preserves_def io_defs)

lemma preserves_bindS [preserves_intros]:
  assumes "preserves I m" and "\<And>x. preserves I (g x)"
  shows "preserves I (bindS m g)"
proof (rule preservesI)
  fix w r w'
  assume w: "I w" and "bindS m g w = (r, w')"
  then show "I w'"
    using preservesD [OF assms(1) _ w] preservesD [OF assms(2)]
    by (auto simp: bindS_def split: prod.splits sum.splits)
qed

lemma preserves_tryS [preserves_intros]:
  assumes "preserves I m" and "\<And>e. preserves I (h e)"
  shows "preserves I (tryS m h)"
proof (rule preservesI)
  fix w r w'
  assume w: "I w" and "tryS m h w = (r, w')"
  then show "I w'"
    using preservesD [OF assms(1) _ w] preservesD [OF assms(2)]
    by (auto simp: tryS_def split: prod.splits sum.splits)
qed

lemma preserves_if [preserves_intros]:
  "(b \<Longrightarrow> preserves I m) \<Longrightarrow> (\<not> b \<Longrightarrow> preserves I n) \<Longrightarrow> preserves I (if b then m else n)"
  by simp

lemma preserves_option [preserves_intros]:
  "(v = None \<Longrightarrow> preserves I m) \<Longrightarrow> (\<And>x. v = Some x \<Longrightarrow> preserves I (g x))
     \<Longrightarrow> preserves I (case v of None \<Rightarrow> m | Some x \<Rightarrow> g x)"
  by (cases v) auto

lemma preserves_prod [preserves_intros]:
  "(\<And>x y. p = (x, y) \<Longrightarrow> preserves I (g x y)) \<Longrightarrow> preserves I (case p of (x, y) \<Rightarrow> g x y)"
  by (cases p) auto

lemma preserves_transaction [preserves_intros]:
  "(\<And>w x w'. I w \<Longrightarrow> body w = Inr (x, w') \<Longrightarrow> I w') \<Longrightarrow> preserves I (transaction body)"
  by (rule preservesI) (erule transaction_invariant, auto)

section \<open>Strings\<close>

definition starts_with :: "string \<Rightarrow> string \<Rightarrow> bool" where
  "starts_with s p = prefix p s"

definition ends_with :: "string \<Rightarrow> string \<Rightarrow> bool" where
  "ends_with s p = suffix p s"

fun contains :: "string \<Rightarrow> string \<Rightarrow> bool" where
  "contains [] sub = (sub = [])"
| "contains (c # s) sub = (prefix sub (c # s) \<or> contains s sub)"

definition is_space :: "char \<Rightarrow> bool" where
  "is_space c = (c \<in> set [CHR '' '', CHR 0x09, CHR 0x0A, CHR 0x0B, CHR 0x0C, CHR 0x0D,
     CHR 0x1C, CHR 0x1D, CHR 0x1E, CHR 0x1F])"

definition strip :: "string \<Rightarrow> string" where
  "strip s = rev (dropWhile is_space (rev (dropWhile is_space s)))"

definition to_lower :: "char \<Rightarrow> char" where
  "to_lower c = (if CHR ''A'' \<le> c \<and> c \<le> CHR ''Z'' then char_of (of_char c + (32::nat)) else c)"

definition lower :: "string \<Rightarrow> string" where
  "lower s = map to_lower s"

definition is_digit :: "char \<Rightarrow> bool" where
  "is_digit c = (CHR ''0'' \<le> c \<and> c \<le> CHR ''9'')"

definition is_alpha :: "char \<Rightarrow> bool" where
  "is_alpha c = ((CHR ''a'' \<le> c \<and> c \<le> CHR ''z'') \<or> (CHR ''A'' \<le> c \<and> c \<le> CHR ''Z''))"

text \<open>\<open>s.split(c)\<close>\<close>

fun split_on :: "char \<Rightarrow> string \<Rightarrow> string list" where
  "split_on c [] = [[]]"
| "split_on c (x # xs) =
     (if x = c then [] # split_on c xs
      else (case split_on c xs of [] \<Rightarrow> [[x]] | p # ps \<Rightarrow> (x # p) # ps))"

definition rstrip_slash :: "string \<Rightarrow> string" where
  "rstrip_slash s = rev (dropWhile (\<lambda>c. c = CHR ''/'') (rev s))"

definition is_hex :: "char \<Rightarrow> bool" where
  "is_hex c \<longleftrightarrow> is_digit c \<or> (CHR ''a'' \<le> c \<and> c \<le> CHR ''f'') \<or> (CHR ''A'' \<le> c \<and> c \<le> CHR ''F'')"

definition after_prefix :: "string \<Rightarrow> string \<Rightarrow> string option" where
  "after_prefix p s = (if prefix p s then Some (drop (length p) s) else None)"

lemma after_prefix_append [simp]: "after_prefix p (p @ s) = Some s"
  by (simp add: after_prefix_def)

lemma contains_iff: "contains s sub \<longleftrightarrow> (\<exists>xs ys. s = xs @ sub @ ys)"
proof (induction s)
  case Nil
  then show ?case by simp
next
  case (Cons c s)
  then show ?case by (auto simp: prefix_def Cons_eq_append_conv)
qed

section \<open>Lists\<close>

lemma find_some_mem: "find P xs = Some x \<Longrightarrow> x \<in> set xs \<and> P x"
  by (induction xs) (auto split: if_splits)

lemma find_none_iff: "find P xs = None \<longleftrightarrow> (\<forall>x \<in> set xs. \<not> P x)"
  by (induction xs) auto

section \<open>Dictionaries in insertion order\<close>

type_synonym ('k, 'v) dict = "('k \<times> 'v) list"

text \<open>\<open>d[k] = v\<close>: an existing key keeps its place, a new key goes last.\<close>

fun dict_set :: "'k \<Rightarrow> 'v \<Rightarrow> ('k, 'v) dict \<Rightarrow> ('k, 'v) dict" where
  "dict_set k v [] = [(k, v)]"
| "dict_set k v ((k', v') # d) = (if k' = k then (k, v) # d else (k', v') # dict_set k v d)"

definition dict_keys :: "('k, 'v) dict \<Rightarrow> 'k list" where
  "dict_keys d = map fst d"

lemma dict_set_lookup [dict_simps]: "map_of (dict_set k v d) = (map_of d)(k \<mapsto> v)"
  by (induction d) auto

lemma dict_keys_dict_set [dict_simps]:
  "dict_keys (dict_set k v d) = (if k \<in> set (dict_keys d) then dict_keys d else dict_keys d @ [k])"
proof (induction d)
  case Nil
  then show ?case by (simp add: dict_keys_def)
next
  case (Cons p d)
  then show ?case by (cases p) (simp add: dict_keys_def)
qed

lemma dict_set_keys: "set (dict_keys (dict_set k v d)) = insert k (set (dict_keys d))"
  by (auto simp: dict_keys_dict_set)

lemma dict_set_distinct: "distinct (dict_keys d) \<Longrightarrow> distinct (dict_keys (dict_set k v d))"
  by (simp add: dict_keys_dict_set)

lemma dict_lookup_mem: "distinct (dict_keys d) \<Longrightarrow> (k, v) \<in> set d \<longleftrightarrow> map_of d k = Some v"
  by (auto simp: dict_keys_def dest: map_of_SomeD)

section \<open>Sorting\<close>

text \<open>
  \<open>insort_by le\<close> inserts before the first element that is not smaller, so equal keys keep
  their order: the stable sort of \<open>sorted\<close>. A total preorder \<open>le\<close> makes the result sorted.
\<close>

fun insort_by :: "('a \<Rightarrow> 'a \<Rightarrow> bool) \<Rightarrow> 'a \<Rightarrow> 'a list \<Rightarrow> 'a list" where
  "insort_by le x [] = [x]"
| "insort_by le x (y # ys) = (if le x y then x # y # ys else y # insort_by le x ys)"

definition sort_by :: "('a \<Rightarrow> 'a \<Rightarrow> bool) \<Rightarrow> 'a list \<Rightarrow> 'a list" where
  "sort_by le xs = foldr (insort_by le) xs []"

lemma insort_by_set [simp]: "set (insort_by le x xs) = insert x (set xs)"
  by (induction xs) auto

lemma insort_by_length [simp]: "length (insort_by le x xs) = Suc (length xs)"
  by (induction xs) auto

lemma sort_by_Nil [simp]: "sort_by le [] = []"
  by (simp add: sort_by_def)

lemma sort_by_Cons [simp]: "sort_by le (x # xs) = insort_by le x (sort_by le xs)"
  by (simp add: sort_by_def)

lemma sort_by_set [simp]: "set (sort_by le xs) = set xs"
  by (induction xs) auto

lemma sort_by_head: "sort_by le xs = y # ys \<Longrightarrow> y \<in> set xs"
  by (metis list.set_intros(1) sort_by_set)

lemma sort_by_length [simp]: "length (sort_by le xs) = length xs"
  by (induction xs) auto

lemma insort_by_distinct [simp]: "distinct (insort_by le x xs) \<longleftrightarrow> x \<notin> set xs \<and> distinct xs"
  by (induction xs) auto

lemma sort_by_distinct [simp]: "distinct (sort_by le xs) = distinct xs"
  by (induction xs) auto

lemma insort_by_pairwise:
  assumes "\<And>a b. P a b \<Longrightarrow> P b a"
  shows "sorted_wrt P (insort_by le x xs) \<longleftrightarrow> (\<forall>y \<in> set xs. P x y) \<and> sorted_wrt P xs"
  using assms by (induction xs) auto

text \<open>A symmetric relation between all pairs of elements survives sorting.\<close>

lemma sort_by_pairwise:
  assumes "\<And>a b. P a b \<Longrightarrow> P b a"
  shows "sorted_wrt P (sort_by le xs) \<longleftrightarrow> sorted_wrt P xs"
  using insort_by_pairwise [of P] assms by (induction xs) (simp_all, blast?)

text \<open>What a comparison owes to the sort: it is total and transitive.\<close>

locale total_preorder =
  fixes le :: "'a \<Rightarrow> 'a \<Rightarrow> bool"
  assumes le_total: "le x y \<or> le y x"
    and le_trans: "le x y \<Longrightarrow> le y z \<Longrightarrow> le x z"
begin

lemma insort_by_sorted: "sorted_wrt le xs \<Longrightarrow> sorted_wrt le (insort_by le x xs)"
proof (induction xs)
  case Nil
  then show ?case by simp
next
  case (Cons y ys)
  show ?case
  proof (cases "le x y")
    case True
    with Cons.prems show ?thesis by (auto intro: le_trans)
  next
    case False
    with le_total have "le y x" by blast
    with Cons False show ?thesis by auto
  qed
qed

lemma sort_by_sorted: "sorted_wrt le (sort_by le xs)"
  by (induction xs) (auto intro: insort_by_sorted)

lemma sort_by_head_least:
  assumes "sort_by le xs = y # ys" and "x \<in> set xs"
  shows "le y x"
proof -
  have "set (sort_by le xs) = set xs" by simp
  with assms have "x = y \<or> x \<in> set ys" by (metis set_ConsD)
  moreover have "sorted_wrt le (y # ys)" using sort_by_sorted [of xs] assms(1) by simp
  ultimately show ?thesis using le_total [of y y] by auto
qed

end

text \<open>The comparison by a key in a linear order satisfies both laws.\<close>

definition key_le :: "('a \<Rightarrow> 'k::linorder) \<Rightarrow> 'a \<Rightarrow> 'a \<Rightarrow> bool" where
  "key_le key x y = (key x \<le> key y)"

interpretation key_order: total_preorder "key_le key" for key :: "'a \<Rightarrow> 'k::linorder"
  by unfold_locales (auto simp: key_le_def)

text \<open>Two comparisons in sequence: the second decides where the first sees a tie.\<close>

definition lex_le :: "('a \<Rightarrow> 'a \<Rightarrow> bool) \<Rightarrow> ('a \<Rightarrow> 'a \<Rightarrow> bool) \<Rightarrow> 'a \<Rightarrow> 'a \<Rightarrow> bool" where
  "lex_le p q x y = (p x y \<and> (p y x \<longrightarrow> q x y))"

lemma lex_le_total_preorder:
  assumes "total_preorder p" and "total_preorder q"
  shows "total_preorder (lex_le p q)"
proof
  fix x y z
  show "lex_le p q x y \<or> lex_le p q y x"
    using total_preorder.le_total [OF assms(1)] total_preorder.le_total [OF assms(2)]
    by (auto simp: lex_le_def)
  show "lex_le p q x z" if "lex_le p q x y" "lex_le p q y z"
    using that total_preorder.le_trans [OF assms(1)] total_preorder.le_trans [OF assms(2)]
    unfolding lex_le_def by blast
qed

end
