(* ===== verification/Py_Time.thy ===== *)
theory Py_Time
  imports Prelude Complex_Main
begin

text \<open>
  The clock. A reading is the number of microseconds since 0001-01-01T00:00:00Z, which is
  what a timezone-aware \<open>datetime\<close> denotes. \<open>iso_z\<close> is the text that every table stores,
  \<open>isoformat().replace("+00:00", "Z")\<close>: like Python it leaves the fraction out when the
  microseconds are zero. \<open>timestamp\<close> is \<open>datetime.timestamp()\<close>, seconds since the epoch,
  as an exact rational (Python's float is not modelled).
\<close>

section \<open>Calendar\<close>

definition days_before_year :: "nat \<Rightarrow> nat" where
  "days_before_year year =
     (let y = year - 1 in y * 365 + y div 4 - y div 100 + y div 400)"

definition days_in_month :: "nat \<Rightarrow> nat" where
  "days_in_month m = [0, 31, 28, 31, 30, 31, 30, 31, 31, 30, 31, 30, 31] ! m"

definition days_before_month :: "nat \<Rightarrow> nat" where
  "days_before_month m = [0, 0, 31, 59, 90, 120, 151, 181, 212, 243, 273, 304, 334, 365] ! m"

text \<open>\<open>datetime._ord2ymd\<close>: ordinal 1 is 0001-01-01.\<close>

definition ord2ymd :: "nat \<Rightarrow> nat \<times> nat \<times> nat" where
  "ord2ymd ordinal =
     (let n0 = ordinal - 1;
          n400 = n0 div 146097; n1' = n0 mod 146097;
          n100 = n1' div 36524; n2 = n1' mod 36524;
          n4 = n2 div 1461; n3 = n2 mod 1461;
          n1 = n3 div 365; n = n3 mod 365;
          year = n400 * 400 + 1 + n100 * 100 + n4 * 4 + n1
      in if n1 = 4 \<or> n100 = 4 then (year - 1, 12, 31)
         else let leap = (n1 = 3 \<and> (n4 \<noteq> 24 \<or> n100 = 3));
                  month = (n + 50) div 32;
                  preceding = days_before_month month + (if 2 < month \<and> leap then 1 else 0)
              in if n < preceding
                 then (year, month - 1,
                   n - (preceding - (days_in_month (month - 1)
                          + (if month - 1 = 2 \<and> leap then 1 else 0))) + 1)
                 else (year, month, n - preceding + 1))"

section \<open>Rendering\<close>

definition digit :: "nat \<Rightarrow> char" where
  "digit n = ''0123456789'' ! (n mod 10)"

fun pad :: "nat \<Rightarrow> nat \<Rightarrow> string" where
  "pad 0 n = []"
| "pad (Suc k) n = pad k (n div 10) @ [digit n]"

definition us_per_day :: nat where "us_per_day = 86400000000"

definition iso_date :: "nat \<Rightarrow> string" where
  "iso_date day = (case ord2ymd (Suc day) of (y, m, d) \<Rightarrow> pad 4 y @ ''-'' @ pad 2 m @ ''-'' @ pad 2 d)"

definition iso_seconds :: "nat \<Rightarrow> string" where
  "iso_seconds s = pad 2 (s div 3600) @ '':'' @ pad 2 (s div 60 mod 60) @ '':'' @ pad 2 (s mod 60)"

definition iso_z :: "nat \<Rightarrow> string" where
  "iso_z t =
     (let sec = t div 1000000; us = t mod 1000000
      in iso_date (sec div 86400) @ ''T'' @ iso_seconds (sec mod 86400)
         @ (if us = 0 then [] else ''.'' @ pad 6 us) @ ''Z'')"

definition epoch_us :: nat where "epoch_us = 62135596800000000"

definition timestamp :: "nat \<Rightarrow> rat" where
  "timestamp t = (of_nat t - of_nat epoch_us) / 1000000"

definition minutes :: "nat \<Rightarrow> nat" where "minutes m = m * 60000000"

definition days :: "nat \<Rightarrow> nat" where "days d = d * us_per_day"

text \<open>
  What \<open>datetime.fromisoformat\<close> can answer for a text: no timestamp, a timestamp without a
  zone, or an instant. The parser is a parameter wherever the code uses it.
\<close>

datatype iso_parse = NotIso | Naive | Aware nat

lemma pad_numeral [simp]: "pad (numeral k) n = pad (pred_numeral k) (n div 10) @ [digit n]"
  by (subst numeral_eq_Suc) (rule pad.simps)

lemma length_pad [simp]: "length (pad k n) = k"
  by (induction k arbitrary: n) auto

lemma timestamp_mono: "timestamp t \<le> timestamp u \<longleftrightarrow> t \<le> u"
  by (simp add: timestamp_def divide_right_mono field_simps)

lemma timestamp_diff: "t \<le> u \<Longrightarrow> timestamp u - timestamp t = of_nat (u - t) / 1000000"
  by (simp add: timestamp_def of_nat_diff diff_divide_distrib)

lemma iso_z_sample: "iso_z 63902865600500000 = ''2026-01-01T12:00:00.500000Z''"
  by (simp add: iso_z_def iso_date_def iso_seconds_def ord2ymd_def Let_def days_before_month_def
      days_in_month_def digit_def)

text \<open>
  The text order is not the order of time across a second boundary: at a whole second the
  fraction is left out and \<open>Z\<close> sorts after \<open>.\<close>, so every later instant of that second
  has a smaller text.
\<close>

lemma lexorder_prefix: "(xs @ ys < xs @ (zs :: string)) = (ys < zs)"
  by (induction xs) auto

lemma iso_z_same_second:
  assumes "t mod (1000000::nat) = 0" and "k < 1000000"
  shows "(t + k) div 1000000 = t div 1000000" and "(t + k) mod 1000000 = k"
  using assms by (auto elim!: dvdE simp: mod_eq_0_iff_dvd)

lemma iso_z_inverts_in_second:
  assumes "t mod 1000000 = 0" and "0 < k" and "k < 1000000"
  shows "iso_z (t + k) < iso_z t"
proof -
  have "iso_z t = (iso_date (t div 1000000 div 86400) @ ''T'' @ iso_seconds (t div 1000000 mod 86400))
      @ ''Z''"
    using assms(1) by (simp add: iso_z_def Let_def)
  moreover have "iso_z (t + k) =
      (iso_date (t div 1000000 div 86400) @ ''T'' @ iso_seconds (t div 1000000 mod 86400))
      @ ''.'' @ pad 6 k @ ''Z''"
    using iso_z_same_second [OF assms(1) assms(3)] assms(2)
    by (simp add: iso_z_def Let_def del: pad_numeral)
  moreover have "''.'' @ pad 6 k @ ''Z'' < ''Z''" by (simp add: less_char_def)
  ultimately show ?thesis by (simp only: lexorder_prefix)
qed

end
