(* ===== verification/Incidents.thy ===== *)
theory Incidents
  imports Py_Time
begin

text \<open>
  The durable incident store, \<open>tools/operational_incidents.py\<close>, with the history triggers
  that \<open>tools/operational_cursor.py\<close> installs on its table. The SQLite database is a record
  of tables: a table is the list of its rows in insertion order, a trigger is part of the
  operation that fires it, and a transaction rolls back when its body raises. The record is
  extensible, and the later components add their own tables to it.
\<close>

section \<open>Tables\<close>

datatype lifecycle = OPEN | RECOVERING | RESOLVED
datatype severity_level = INFO | WARNING | ERROR | CRITICAL

record incident =
  incident_id :: string
  dedup_key :: string
  module :: string
  event_type :: string
  lifecycle_state :: lifecycle
  severity :: severity_level
  first_seen_at :: string
  last_seen_at :: string
  resolved_at :: "string option"
  correlation_id :: "string option"
  endpoint_ref :: "string option"
  error_code :: "string option"
  impact_summary :: string
  action_required :: bool
  occurrence_count :: nat
  visibility_class :: string

record transition =
  tr_revision :: nat
  tr_incident :: string
  tr_body :: incident

record incident_db =
  incidents :: "incident list"
  transitions :: "transition list"
  history_baseline :: "string option"

fun lifecycle_of :: "string \<Rightarrow> lifecycle option" where
  "lifecycle_of s =
     (if s = ''OPEN'' then Some OPEN else if s = ''RECOVERING'' then Some RECOVERING
      else if s = ''RESOLVED'' then Some RESOLVED else None)"

fun severity_of :: "string \<Rightarrow> severity_level option" where
  "severity_of s =
     (if s = ''INFO'' then Some INFO else if s = ''WARNING'' then Some WARNING
      else if s = ''ERROR'' then Some ERROR else if s = ''CRITICAL'' then Some CRITICAL else None)"

fun severity_rank :: "severity_level \<Rightarrow> nat" where
  "severity_rank CRITICAL = 4"
| "severity_rank ERROR = 3"
| "severity_rank WARNING = 2"
| "severity_rank INFO = 1"

section \<open>History triggers\<close>

text \<open>\<open>revision integer primary key autoincrement\<close>: one more than the largest so far.\<close>

definition last_revision :: "transition list \<Rightarrow> nat" where
  "last_revision ts = foldr (\<lambda>t m. max (tr_revision t) m) ts 0"

definition log_transition :: "incident \<Rightarrow> ('z) incident_db_scheme \<Rightarrow> 'z incident_db_scheme" where
  "log_transition row db = db\<lparr>transitions := transitions db @
     [\<lparr>tr_revision = Suc (last_revision (transitions db)), tr_incident = incident_id row,
       tr_body = row\<rparr>]\<rparr>"

text \<open>\<open>OwnerIncidentCursor.__init__\<close>: the first start records a baseline of existing rows.\<close>

definition init_history :: "nat \<Rightarrow> 'z incident_db_scheme \<Rightarrow> 'z incident_db_scheme" where
  "init_history now db =
     (case history_baseline db of
        Some b \<Rightarrow> db
      | None \<Rightarrow> fold log_transition (incidents db) (db\<lparr>history_baseline := Some (iso_z now)\<rparr>))"

section \<open>Operations\<close>

record open_args =
  oa_dedup_key :: string
  oa_event_type :: string
  oa_severity :: string
  oa_error_code :: "string option"
  oa_impact_summary :: string
  oa_correlation_id :: "string option"
  oa_endpoint_ref :: "string option"
  oa_action_required :: bool
  oa_visibility_class :: string

fun coalesce :: "'a option \<Rightarrow> 'a option \<Rightarrow> 'a option" where
  "coalesce (Some x) y = Some x"
| "coalesce None y = y"

text \<open>The \<open>values(...)\<close> row of the upsert, and its \<open>do update set\<close> clause.\<close>

definition new_incident :: "open_args \<Rightarrow> severity_level \<Rightarrow> string \<Rightarrow> string \<Rightarrow> incident" where
  "new_incident a sev uuid now =
     \<lparr>incident_id = uuid, dedup_key = oa_dedup_key a, module = ''GATEWAY'',
      event_type = oa_event_type a, lifecycle_state = OPEN, severity = sev,
      first_seen_at = now, last_seen_at = now, resolved_at = None,
      correlation_id = oa_correlation_id a, endpoint_ref = oa_endpoint_ref a,
      error_code = oa_error_code a, impact_summary = oa_impact_summary a,
      action_required = oa_action_required a, occurrence_count = 1,
      visibility_class = oa_visibility_class a\<rparr>"

definition reopen :: "incident \<Rightarrow> incident \<Rightarrow> incident" where
  "reopen ex old = old\<lparr>event_type := event_type ex, lifecycle_state := OPEN,
     severity := severity ex, last_seen_at := max (last_seen_at old) (last_seen_at ex),
     resolved_at := None, correlation_id := coalesce (correlation_id ex) (correlation_id old),
     endpoint_ref := coalesce (endpoint_ref ex) (endpoint_ref old),
     error_code := error_code ex, impact_summary := impact_summary ex,
     action_required := action_required ex, occurrence_count := occurrence_count old + 1,
     visibility_class := visibility_class ex\<rparr>"

text \<open>
  \<open>update ... where dedup_key=? returning *\<close>: every matching row is rewritten and logged by
  the update trigger; the first one is what \<open>fetchone\<close> returns.
\<close>

definition update_where ::
  "string \<Rightarrow> (incident \<Rightarrow> incident) \<Rightarrow> 'z incident_db_scheme
     \<Rightarrow> incident option \<times> 'z incident_db_scheme" where
  "update_where key f db =
     (let hit = map f (filter (\<lambda>r. dedup_key r = key) (incidents db));
          rows = map (\<lambda>r. if dedup_key r = key then f r else r) (incidents db)
      in ((case hit of [] \<Rightarrow> None | r # _ \<Rightarrow> Some r),
          fold log_transition hit (db\<lparr>incidents := rows\<rparr>)))"

definition open_incident ::
  "open_args \<Rightarrow> string \<Rightarrow> nat \<Rightarrow> 'z incident_db_scheme \<Rightarrow> incident res \<times> 'z incident_db_scheme" where
  "open_incident a uuid now db =
     (case severity_of (oa_severity a) of
        None \<Rightarrow> (Inl (ValueError ''invalid severity''), db)
      | Some sev \<Rightarrow>
          if oa_dedup_key a = [] \<or> oa_event_type a = [] \<or> oa_impact_summary a = []
          then (Inl (ValueError ''incident identity and safe impact summary are required''), db)
          else if oa_visibility_class a \<noteq> ''RESTRICTED_OPERATIONAL''
          then (Inl (ValueError ''reference store accepts platform operational incidents only''), db)
          else transaction (\<lambda>db.
            let excluded = new_incident a sev uuid (iso_z now) in
            if uuid \<in> set (map incident_id (incidents db)) then Inl (IntegrityError ''incident_id'')
            else (case update_where (oa_dedup_key a) (reopen excluded) db of
                    (Some row, db') \<Rightarrow> Inr (row, db')
                  | (None, _) \<Rightarrow>
                      Inr (excluded, log_transition excluded
                             (db\<lparr>incidents := incidents db @ [excluded]\<rparr>)))) db)"

definition recovering ::
  "string \<Rightarrow> string \<Rightarrow> nat \<Rightarrow> 'z incident_db_scheme \<Rightarrow> incident option \<times> 'z incident_db_scheme" where
  "recovering key impact now db =
     update_where key (\<lambda>r. r\<lparr>lifecycle_state := RECOVERING,
        last_seen_at := max (last_seen_at r) (iso_z now), resolved_at := None,
        impact_summary := impact, action_required := False\<rparr>) db"

definition resolve_incident ::
  "string \<Rightarrow> string \<Rightarrow> nat \<Rightarrow> 'z incident_db_scheme \<Rightarrow> incident option \<times> 'z incident_db_scheme" where
  "resolve_incident key impact now db =
     update_where key (\<lambda>r. r\<lparr>lifecycle_state := RESOLVED,
        last_seen_at := max (last_seen_at r) (iso_z now),
        resolved_at := Some (max (last_seen_at r) (iso_z now)),
        impact_summary := impact, action_required := False\<rparr>) db"

definition get_incident :: "string \<Rightarrow> 'z incident_db_scheme \<Rightarrow> incident res" where
  "get_incident i db =
     (case filter (\<lambda>r. incident_id r = i) (incidents db) of
        [] \<Rightarrow> Inl (KeyError i) | r # _ \<Rightarrow> Inr r)"

section \<open>Queries\<close>

definition key_ge :: "('a \<Rightarrow> 'k::linorder) \<Rightarrow> 'a \<Rightarrow> 'a \<Rightarrow> bool" where
  "key_ge key x y = (key y \<le> key x)"

text \<open>The \<open>order by\<close> of \<open>list_incidents\<close>, the priority profile \<open>ouf.incident-priority.v1\<close>.\<close>

definition priority_le :: "incident \<Rightarrow> incident \<Rightarrow> bool" where
  "priority_le =
     lex_le (key_le (\<lambda>r. if lifecycle_state r = RESOLVED then 1 else (0::nat)))
    (lex_le (key_ge (\<lambda>r. severity_rank (severity r)))
    (lex_le (key_ge action_required)
    (lex_le (key_ge last_seen_at) (key_le incident_id))))"

definition replace_z :: "string \<Rightarrow> string" where
  "replace_z s = concat (map (\<lambda>c. if c = CHR ''Z'' then ''+00:00'' else [c]) s)"

definition normalize_since :: "(string \<Rightarrow> iso_parse) \<Rightarrow> string \<Rightarrow> string res" where
  "normalize_since fromiso v =
     (case fromiso (replace_z v) of
        NotIso \<Rightarrow> Inl (ValueError ''Invalid isoformat string'')
      | Naive \<Rightarrow> Inl (ValueError ''since must be a timezone-aware timestamp'')
      | Aware t \<Rightarrow> Inr (iso_z t))"

fun since_clause :: "(string \<Rightarrow> iso_parse) \<Rightarrow> string option \<Rightarrow> (incident \<Rightarrow> bool) res" where
  "since_clause fromiso None = Inr (\<lambda>_. True)"
| "since_clause fromiso (Some v) =
     bindE (normalize_since fromiso v) (\<lambda>s. Inr (\<lambda>r. s \<le> last_seen_at r))"

fun state_clause :: "string option \<Rightarrow> (incident \<Rightarrow> bool) res" where
  "state_clause None = Inr (\<lambda>_. True)"
| "state_clause (Some s) =
     (case lifecycle_of s of
        None \<Rightarrow> Inl (ValueError ''invalid lifecycle state'')
      | Some l \<Rightarrow> Inr (\<lambda>r. lifecycle_state r = l))"

definition list_incidents ::
  "(string \<Rightarrow> iso_parse) \<Rightarrow> string option \<Rightarrow> int \<Rightarrow> string option \<Rightarrow> 'z incident_db_scheme
     \<Rightarrow> incident list res" where
  "list_incidents fromiso state limit since db =
     (if limit < 1 \<or> 200 < limit then Inl (ValueError ''limit must be between 1 and 200'')
      else bindE (state_clause state) (\<lambda>p.
           bindE (since_clause fromiso since) (\<lambda>q.
           Inr (take (nat limit)
             (sort_by priority_le (filter (\<lambda>r. p r \<and> q r) (incidents db)))))))"

record incident_summary =
  sm_status :: string
  sm_open :: nat
  sm_recovering :: nat
  sm_items :: "incident list"
  sm_truncated :: bool

definition summary ::
  "(string \<Rightarrow> iso_parse) \<Rightarrow> int \<Rightarrow> string option \<Rightarrow> 'z incident_db_scheme \<Rightarrow> incident_summary res" where
  "summary fromiso limit since db =
     bindE (list_incidents fromiso None limit since db) (\<lambda>items.
     bindE (since_clause fromiso since) (\<lambda>q.
     let rows = filter q (incidents db);
         op = length (filter (\<lambda>r. lifecycle_state r = OPEN) rows);
         rc = length (filter (\<lambda>r. lifecycle_state r = RECOVERING) rows)
     in Inr \<lparr>sm_status = (if op \<noteq> 0 then ''DEGRADED''
               else if rc \<noteq> 0 then ''RECOVERING'' else ''HEALTHY''),
             sm_open = op, sm_recovering = rc, sm_items = items,
             sm_truncated = (length items < length rows)\<rparr>))"

section \<open>Well-formed stores\<close>

definition wf_incident :: "incident \<Rightarrow> bool" where
  "wf_incident r \<longleftrightarrow>
     0 < occurrence_count r \<and> (resolved_at r = None \<longleftrightarrow> lifecycle_state r \<noteq> RESOLVED)
     \<and> first_seen_at r \<le> last_seen_at r \<and> module r = ''GATEWAY''"

text \<open>The newest transition of an incident.\<close>

definition latest :: "transition list \<Rightarrow> string \<Rightarrow> incident option" where
  "latest ts i = map_option tr_body (find (\<lambda>t. tr_incident t = i) (rev ts))"

text \<open>
  Revisions only grow, every transition is about a row, and the history is current: the
  newest transition of every row is that row.
\<close>

definition history_current :: "incident list \<Rightarrow> transition list \<Rightarrow> bool" where
  "history_current rows ts \<longleftrightarrow>
     sorted_wrt (<) (map tr_revision ts)
     \<and> (\<forall>t \<in> set ts. tr_incident t = incident_id (tr_body t) \<and> 0 < tr_revision t)
     \<and> (\<forall>r \<in> set rows. latest ts (incident_id r) = Some r)"

definition wf_incident_db :: "'z incident_db_scheme \<Rightarrow> bool" where
  "wf_incident_db db \<longleftrightarrow>
     distinct (map dedup_key (incidents db)) \<and> distinct (map incident_id (incidents db))
     \<and> (\<forall>r \<in> set (incidents db). wf_incident r)
     \<and> history_current (incidents db) (transitions db)"

lemma last_revision_ge: "t \<in> set ts \<Longrightarrow> tr_revision t \<le> last_revision ts"
  by (induction ts) (auto simp: last_revision_def)

lemma latest_append:
  "latest (ts @ [t]) i = (if tr_incident t = i then Some (tr_body t) else latest ts i)"
  by (simp add: latest_def)

lemma log_transition_fields [simp]:
  "incidents (log_transition r db) = incidents db"
  "history_baseline (log_transition r db) = history_baseline db"
  by (simp_all add: log_transition_def)

lemma log_transition_transitions:
  "transitions (log_transition r db) = transitions db @
     [\<lparr>tr_revision = Suc (last_revision (transitions db)), tr_incident = incident_id r, tr_body = r\<rparr>]"
  by (simp add: log_transition_def)

text \<open>Logging a row keeps the history current for the rows in which it replaces its old self.\<close>

lemma history_current_log:
  assumes "history_current rows ts"
    and "\<And>q. q \<in> set rows' \<Longrightarrow> q = r \<or> (q \<in> set rows \<and> incident_id q \<noteq> incident_id r)"
  shows "history_current rows' (ts @
     [\<lparr>tr_revision = Suc (last_revision ts), tr_incident = incident_id r, tr_body = r\<rparr>])"
  using assms last_revision_ge
  by (force simp: history_current_def latest_append sorted_wrt_append less_Suc_eq_le)

lemma filter_dedup_unique:
  assumes "distinct (map dedup_key rows)"
  shows "(filter (\<lambda>r. dedup_key r = k) rows = [] \<and> k \<notin> set (map dedup_key rows))
     \<or> (\<exists>r \<in> set rows. dedup_key r = k \<and> filter (\<lambda>r. dedup_key r = k) rows = [r])"
  using assms
proof (induction rows)
  case Nil
  then show ?case by simp
next
  case (Cons q rows)
  show ?case
  proof (cases "dedup_key q = k")
    case True
    with Cons.prems have "filter (\<lambda>r. dedup_key r = k) rows = []"
      by (simp add: filter_empty_conv) (metis image_eqI)
    with True show ?thesis by auto
  next
    case False
    with Cons show ?thesis by auto
  qed
qed

definition replace_row :: "string \<Rightarrow> (incident \<Rightarrow> incident) \<Rightarrow> incident list \<Rightarrow> incident list" where
  "replace_row k f rows = map (\<lambda>r. if dedup_key r = k then f r else r) rows"

lemma update_where_cases:
  assumes "distinct (map dedup_key (incidents db))"
  obtains (none) "k \<notin> set (map dedup_key (incidents db))" "update_where k f db = (None, db)"
  | (one) r where "r \<in> set (incidents db)" "dedup_key r = k"
      "update_where k f db = (Some (f r),
         log_transition (f r) (db\<lparr>incidents := replace_row k f (incidents db)\<rparr>))"
proof -
  from filter_dedup_unique [OF assms, of k] consider
    "filter (\<lambda>r. dedup_key r = k) (incidents db) = []" "k \<notin> set (map dedup_key (incidents db))"
    | r where "r \<in> set (incidents db)" "dedup_key r = k"
        "filter (\<lambda>r. dedup_key r = k) (incidents db) = [r]" by blast
  then show thesis
  proof cases
    case 1
    then have "map (\<lambda>r. if dedup_key r = k then f r else r) (incidents db) = incidents db"
      by (intro map_idI) auto
    with 1 none show thesis by (simp add: update_where_def)
  next
    case 2
    then show thesis using one by (simp add: update_where_def replace_row_def)
  qed
qed

text \<open>What an update may do to a row without breaking the store.\<close>

definition row_update :: "(incident \<Rightarrow> incident) \<Rightarrow> bool" where
  "row_update f \<longleftrightarrow> (\<forall>r. dedup_key (f r) = dedup_key r \<and> incident_id (f r) = incident_id r
     \<and> (wf_incident r \<longrightarrow> wf_incident (f r)))"

lemma map_replace_row:
  "row_update f \<Longrightarrow> map dedup_key (replace_row k f rows) = map dedup_key rows"
  "row_update f \<Longrightarrow> map incident_id (replace_row k f rows) = map incident_id rows"
  by (auto simp: replace_row_def row_update_def)

lemma update_where_wf:
  assumes "wf_incident_db db" and "row_update f" and "update_where k f db = (res, db')"
  shows "wf_incident_db db'"
proof -
  from assms(1) have dk: "distinct (map dedup_key (incidents db))"
    and di: "distinct (map incident_id (incidents db))" by (auto simp: wf_incident_db_def)
  from dk show ?thesis
  proof (cases rule: update_where_cases [where k = k and f = f])
    case none
    with assms show ?thesis by simp
  next
    case (one r)
    let ?rows = "replace_row k f (incidents db)"
    have uniq: "q = f r \<or> (q \<in> set (incidents db) \<and> incident_id q \<noteq> incident_id (f r))"
      if "q \<in> set ?rows" for q
    proof -
      from that obtain p where p: "p \<in> set (incidents db)"
        and q: "q = (if dedup_key p = k then f p else p)"
        by (auto simp: replace_row_def)
      show ?thesis
      proof (cases "dedup_key p = k")
        case True
        then have "p = r" using dk p one(1,2) by (metis distinct_map inj_onD)
        with True q show ?thesis by simp
      next
        case False
        then have "p \<noteq> r" using one(2) by blast
        then have "incident_id p \<noteq> incident_id r" using di p one(1) by (metis distinct_map inj_onD)
        with False q p assms(2) show ?thesis by (simp add: row_update_def)
      qed
    qed
    have "history_current ?rows (transitions db' )"
      using history_current_log [OF _ uniq] assms(1,3) one(3)
      by (auto simp: wf_incident_db_def log_transition_transitions)
    moreover have "\<forall>q \<in> set ?rows. wf_incident q"
      using assms(1,2) by (auto simp: replace_row_def row_update_def wf_incident_db_def)
    ultimately show ?thesis
      using one(3) assms(3) dk di map_replace_row [OF assms(2), of k "incidents db"]
      by (auto simp: wf_incident_db_def)
  qed
qed

lemma update_where_wf_snd:
  "wf_incident_db db \<Longrightarrow> row_update f \<Longrightarrow> wf_incident_db (snd (update_where k f db))"
  using update_where_wf by (cases "update_where k f db") fastforce

lemma reopen_row_update:
  "wf_incident ex \<Longrightarrow> row_update (reopen (new_incident a sev uuid now))"
  by (auto simp: row_update_def reopen_def new_incident_def wf_incident_def intro: order_trans)

lemma recovering_row_update:
  "row_update (\<lambda>r. r\<lparr>lifecycle_state := RECOVERING, last_seen_at := max (last_seen_at r) now,
     resolved_at := None, impact_summary := impact, action_required := False\<rparr>)"
  by (auto simp: row_update_def wf_incident_def intro: order_trans)

lemma resolve_row_update:
  "row_update (\<lambda>r. r\<lparr>lifecycle_state := RESOLVED, last_seen_at := max (last_seen_at r) now,
     resolved_at := Some (max (last_seen_at r) now), impact_summary := impact,
     action_required := False\<rparr>)"
  by (auto simp: row_update_def wf_incident_def intro: order_trans)

lemma new_incident_wf: "wf_incident (new_incident a sev uuid now)"
  by (simp add: wf_incident_def new_incident_def)

lemma insert_wf:
  assumes "wf_incident_db db" and "wf_incident r"
    and "dedup_key r \<notin> set (map dedup_key (incidents db))"
    and "incident_id r \<notin> set (map incident_id (incidents db))"
  shows "wf_incident_db (log_transition r (db\<lparr>incidents := incidents db @ [r]\<rparr>))"
proof -
  have "q = r \<or> (q \<in> set (incidents db) \<and> incident_id q \<noteq> incident_id r)"
    if "q \<in> set (incidents db @ [r])" for q using that assms(4) by (auto simp: image_iff)
  then have "history_current (incidents db @ [r])
      (transitions (log_transition r (db\<lparr>incidents := incidents db @ [r]\<rparr>)))"
    using history_current_log [of "incidents db" "transitions db" "incidents db @ [r]" r] assms(1)
    by (simp add: wf_incident_db_def log_transition_transitions)
  with assms show ?thesis by (auto simp: wf_incident_db_def)
qed

text \<open>The three ways \<open>open_incident\<close> ends.\<close>

lemma open_incident_cases:
  assumes "distinct (map dedup_key (incidents db))"
  obtains (error) e where "open_incident a uuid now db = (Inl e, db)"
  | (insert) sev where "oa_dedup_key a \<notin> set (map dedup_key (incidents db))"
      "uuid \<notin> set (map incident_id (incidents db))"
      "open_incident a uuid now db =
        (Inr (new_incident a sev uuid (iso_z now)),
         log_transition (new_incident a sev uuid (iso_z now))
           (db\<lparr>incidents := incidents db @ [new_incident a sev uuid (iso_z now)]\<rparr>))"
      "severity_of (oa_severity a) = Some sev"
  | (update) sev r where "r \<in> set (incidents db)" "dedup_key r = oa_dedup_key a"
      "open_incident a uuid now db =
        (Inr (reopen (new_incident a sev uuid (iso_z now)) r),
         snd (update_where (oa_dedup_key a) (reopen (new_incident a sev uuid (iso_z now))) db))"
      "severity_of (oa_severity a) = Some sev"
proof (cases "\<exists>sev. severity_of (oa_severity a) = Some sev \<and> oa_dedup_key a \<noteq> []
    \<and> oa_event_type a \<noteq> [] \<and> oa_impact_summary a \<noteq> []
    \<and> oa_visibility_class a = ''RESTRICTED_OPERATIONAL'' \<and> uuid \<notin> set (map incident_id (incidents db))")
  case False
  then have "\<exists>e. open_incident a uuid now db = (Inl e, db)"
    by (auto simp: open_incident_def transaction_def Let_def split: option.splits)
  then show thesis using error by blast
next
  case True
  then obtain sev where ok: "severity_of (oa_severity a) = Some sev" "oa_dedup_key a \<noteq> []"
    "oa_event_type a \<noteq> []" "oa_impact_summary a \<noteq> []"
    "oa_visibility_class a = ''RESTRICTED_OPERATIONAL''"
    "uuid \<notin> set (map incident_id (incidents db))" by blast
  let ?f = "reopen (new_incident a sev uuid (iso_z now))"
  from assms show thesis
  proof (cases rule: update_where_cases [where k = "oa_dedup_key a" and f = ?f])
    case none
    then show thesis using insert [of sev] ok
      by (auto simp: open_incident_def transaction_def Let_def)
  next
    case (one r)
    then show thesis using update [of r sev] ok
      by (simp add: open_incident_def transaction_def Let_def del: severity_of.simps)
  qed
qed

lemma open_incident_wf:
  assumes "wf_incident_db db"
  shows "wf_incident_db (snd (open_incident a uuid now db))"
proof -
  have dk: "distinct (map dedup_key (incidents db))" using assms by (simp add: wf_incident_db_def)
  then show ?thesis
  proof (cases rule: open_incident_cases [where a = a and uuid = uuid and now = now])
    case (error e)
    with assms show ?thesis by simp
  next
    case (insert sev)
    with insert_wf [OF assms new_incident_wf] show ?thesis by (simp add: new_incident_def)
  next
    case (update sev r)
    then show ?thesis
      by (simp add: update_where_wf_snd [OF assms reopen_row_update [OF new_incident_wf]])
  qed
qed

lemma recovering_wf: "wf_incident_db db \<Longrightarrow> wf_incident_db (snd (recovering key impact now db))"
  unfolding recovering_def by (rule update_where_wf_snd [OF _ recovering_row_update])

lemma resolve_incident_wf:
  "wf_incident_db db \<Longrightarrow> wf_incident_db (snd (resolve_incident key impact now db))"
  unfolding resolve_incident_def by (rule update_where_wf_snd [OF _ resolve_row_update])

section \<open>The history is append-only\<close>

text \<open>
  What an operation on a key may do to the tables: the old transitions stay as they are and at most one
  is added, above all revisions so far, which is a row of the key as it now stands; a change of the rows
  is always logged; no row of another key changes and no incident disappears.
\<close>

definition extends_history :: "string \<Rightarrow> 'z incident_db_scheme \<Rightarrow> 'z incident_db_scheme \<Rightarrow> bool" where
  "extends_history key db db' \<longleftrightarrow>
     (\<exists>ts. transitions db' = transitions db @ ts \<and> length ts \<le> 1 \<and> (ts = [] \<longrightarrow> incidents db' = incidents db)
        \<and> (\<forall>t \<in> set ts. last_revision (transitions db) < tr_revision t \<and> tr_incident t = incident_id (tr_body t)
             \<and> dedup_key (tr_body t) = key \<and> tr_body t \<in> set (incidents db')))
     \<and> filter (\<lambda>r. dedup_key r \<noteq> key) (incidents db') = filter (\<lambda>r. dedup_key r \<noteq> key) (incidents db)
     \<and> (\<exists>new. map incident_id (incidents db') = map incident_id (incidents db) @ new)"

lemma extends_history_refl: "extends_history key db db"
  by (simp add: extends_history_def)

lemma filter_replace_row:
  "row_update f \<Longrightarrow> filter (\<lambda>r. dedup_key r \<noteq> k) (replace_row k f rows) = filter (\<lambda>r. dedup_key r \<noteq> k) rows"
  by (induction rows) (auto simp: replace_row_def row_update_def)

lemma update_where_extends:
  assumes "distinct (map dedup_key (incidents db))" and "row_update f"
  shows "extends_history k db (snd (update_where k f db))"
  using assms(1)
proof (cases rule: update_where_cases [where k = k and f = f])
  case none
  then show ?thesis by (simp add: extends_history_refl)
next
  case (one r)
  have "f r \<in> set (replace_row k f (incidents db))" using one(1,2) by (force simp: replace_row_def)
  with one assms(2) show ?thesis
    by (simp add: extends_history_def log_transition_transitions filter_replace_row map_replace_row(2))
      (simp add: row_update_def)
qed

lemma open_incident_extends:
  assumes "distinct (map dedup_key (incidents db))"
  shows "extends_history (oa_dedup_key a) db (snd (open_incident a uuid now db))"
  using assms
proof (cases rule: open_incident_cases [where a = a and uuid = uuid and now = now])
  case (error e)
  then show ?thesis by (simp add: extends_history_refl)
next
  case (insert sev)
  then show ?thesis by (simp add: extends_history_def log_transition_transitions) (simp add: new_incident_def)
next
  case (update sev r)
  then show ?thesis by (simp add: update_where_extends [OF assms reopen_row_update [OF new_incident_wf]])
qed

lemma recovering_extends:
  "distinct (map dedup_key (incidents db)) \<Longrightarrow> extends_history key db (snd (recovering key impact now db))"
  unfolding recovering_def by (rule update_where_extends [OF _ recovering_row_update])

lemma resolve_incident_extends:
  "distinct (map dedup_key (incidents db)) \<Longrightarrow> extends_history key db (snd (resolve_incident key impact now db))"
  unfolding resolve_incident_def by (rule update_where_extends [OF _ resolve_row_update])

text \<open>
  C23. Every operation of the store keeps it well-formed: deduplication keys and ids stay
  unique, an incident is resolved exactly when it has a resolution time, times do not run
  backwards, and the history ends, for every incident, with its current row. The history is
  append-only: no transition is changed or removed, and an operation adds at most one, a row of its own
  key; the rows of the other keys stay as they are.
\<close>

theorem incident_ops_preserve_wf:
  assumes "wf_incident_db db"
  shows "(wf_incident_db (snd (open_incident a uuid now db))
      \<and> extends_history (oa_dedup_key a) db (snd (open_incident a uuid now db)))
    \<and> (wf_incident_db (snd (recovering key impact now db))
      \<and> extends_history key db (snd (recovering key impact now db)))
    \<and> (wf_incident_db (snd (resolve_incident key impact now db))
      \<and> extends_history key db (snd (resolve_incident key impact now db)))"
proof -
  have "distinct (map dedup_key (incidents db))" using assms by (simp add: wf_incident_db_def)
  note x = open_incident_extends [OF this] recovering_extends [OF this] resolve_incident_extends [OF this]
  show ?thesis
    by (intro conjI x open_incident_wf [OF assms] recovering_wf [OF assms] resolve_incident_wf [OF assms])
qed

definition empty_incident_db :: incident_db where
  "empty_incident_db = \<lparr>incidents = [], transitions = [], history_baseline = Some []\<rparr>"

lemma empty_incident_db_wf: "wf_incident_db empty_incident_db"
  by (simp add: wf_incident_db_def history_current_def empty_incident_db_def)

definition sample_args :: open_args where
  "sample_args = \<lparr>oa_dedup_key = ''k'', oa_event_type = ''E'', oa_severity = ''ERROR'',
     oa_error_code = None, oa_impact_summary = ''i'', oa_correlation_id = None,
     oa_endpoint_ref = None, oa_action_required = True,
     oa_visibility_class = ''RESTRICTED_OPERATIONAL''\<rparr>"

definition sample_db :: incident_db where
  "sample_db = snd (open_incident sample_args ''u1'' 0 empty_incident_db)"

lemma sample_db_wf: "wf_incident_db sample_db"
  unfolding sample_db_def by (rule open_incident_wf [OF empty_incident_db_wf])

theorem incident_ops_preserve_wf_witness:
  "wf_incident_db (snd (resolve_incident ''k'' ''ok'' 5 sample_db))
     \<and> extends_history ''k'' sample_db (snd (resolve_incident ''k'' ''ok'' 5 sample_db))"
  using incident_ops_preserve_wf [OF sample_db_wf] by blast

section \<open>Deduplication\<close>

text \<open>
  C25. Reporting an incident under a key that the store already holds does not create a second
  incident: the same row is reopened with what is reported now, its id and first sighting are kept, its
  counter grows by one and its last sighting (a text) does not decrease. Under a new key it adds one row,
  under the fresh id, open and seen once, now.
\<close>

theorem open_incident_deduplicates:
  assumes "wf_incident_db db" and "open_incident a uuid now db = (Inr r', db')"
  shows "(\<forall>r \<in> set (incidents db). dedup_key r = oa_dedup_key a \<longrightarrow>
       incident_id r' = incident_id r \<and> first_seen_at r' = first_seen_at r
       \<and> occurrence_count r' = Suc (occurrence_count r) \<and> last_seen_at r' = max (last_seen_at r) (iso_z now)
       \<and> incidents db' = map (\<lambda>q. if q = r then r' else q) (incidents db))
    \<and> (oa_dedup_key a \<notin> dedup_key ` set (incidents db) \<longrightarrow>
       incidents db' = incidents db @ [r'] \<and> incident_id r' = uuid \<and> uuid \<notin> incident_id ` set (incidents db)
       \<and> occurrence_count r' = 1 \<and> first_seen_at r' = iso_z now \<and> last_seen_at r' = iso_z now)
    \<and> dedup_key r' = oa_dedup_key a \<and> lifecycle_state r' = OPEN \<and> resolved_at r' = None
    \<and> severity_of (oa_severity a) = Some (severity r') \<and> event_type r' = oa_event_type a
    \<and> error_code r' = oa_error_code a \<and> impact_summary r' = oa_impact_summary a
    \<and> action_required r' = oa_action_required a"
proof -
  have dk: "distinct (map dedup_key (incidents db))" using assms(1) by (simp add: wf_incident_db_def)
  then show ?thesis
  proof (cases rule: open_incident_cases [where a = a and uuid = uuid and now = now])
    case (error e)
    with assms(2) show ?thesis by simp
  next
    case (insert sev)
    then have "r' = new_incident a sev uuid (iso_z now)" "incidents db' = incidents db @ [r']"
      using assms(2) by auto
    with insert(1,2,4) show ?thesis by (auto simp: new_incident_def image_iff simp del: severity_of.simps)
  next
    case (update sev q)
    let ?f = "reopen (new_incident a sev uuid (iso_z now))"
    have same: "(dedup_key p = oa_dedup_key a) = (p = q)" if "p \<in> set (incidents db)" for p
      using dk update(1,2) that by (metis distinct_map inj_onD)
    have r': "r' = ?f q" and db': "db' = snd (update_where (oa_dedup_key a) ?f db)"
      using update(3) assms(2) by auto
    have key: "oa_dedup_key a \<in> dedup_key ` set (incidents db)" using update(1,2) by force
    with dk have "incidents db' = replace_row (oa_dedup_key a) ?f (incidents db)"
      unfolding db'
      by (cases rule: update_where_cases [where k = "oa_dedup_key a" and f = ?f]) auto
    also have "\<dots> = map (\<lambda>p. if p = q then r' else p) (incidents db)"
      unfolding replace_row_def r' by (rule map_cong [OF refl]) (simp add: same)
    finally have rows: "incidents db' = map (\<lambda>p. if p = q then r' else p) (incidents db)" .
    show ?thesis
      using key rows same update(2,4)
      by (auto simp: r' reopen_def new_incident_def simp del: severity_of.simps)
  qed
qed

theorem open_incident_deduplicates_witness:
  "\<exists>r r' db'. open_incident sample_args ''u2'' 7 sample_db = (Inr r', db')
     \<and> r \<in> set (incidents sample_db) \<and> incident_id r' = incident_id r
     \<and> occurrence_count r' = Suc (occurrence_count r)"
proof -
  define r where "r = new_incident sample_args ERROR ''u1'' (iso_z 0)"
  have db: "incidents sample_db = [r]"
    by (simp add: sample_db_def open_incident_def sample_args_def empty_incident_db_def
        transaction_def update_where_def r_def Let_def)
  have key: "dedup_key r = oa_dedup_key sample_args" by (simp add: r_def new_incident_def)
  obtain r' db' where op: "open_incident sample_args ''u2'' 7 sample_db = (Inr r', db')"
    using db by (auto simp: open_incident_def transaction_def update_where_def Let_def
        sample_args_def r_def new_incident_def)
  show ?thesis
    using open_incident_deduplicates [OF sample_db_wf op] db key op by (auto simp del: severity_of.simps)
qed

section \<open>Queries\<close>

interpretation key_desc: total_preorder "key_ge key" for key :: "'a \<Rightarrow> 'k::linorder"
  by unfold_locales (auto simp: key_ge_def)

interpretation priority: total_preorder priority_le
  unfolding priority_le_def
  by (intro lex_le_total_preorder key_order.total_preorder_axioms key_desc.total_preorder_axioms)

lemma sorted_wrt_take: "sorted_wrt le xs \<Longrightarrow> sorted_wrt le (take n xs)"
  by (metis append_take_drop_id sorted_wrt_append)

lemma sorted_wrt_take_drop:
  "sorted_wrt le xs \<Longrightarrow> x \<in> set (take n xs) \<Longrightarrow> y \<in> set (drop n xs) \<Longrightarrow> le x y"
  by (metis append_take_drop_id sorted_wrt_append)

lemma list_incidents_Inr:
  assumes "list_incidents fromiso state limit since db = Inr items"
  obtains p q where "state_clause state = Inr p" "since_clause fromiso since = Inr q"
    "1 \<le> limit" "limit \<le> 200"
    "items = take (nat limit) (sort_by priority_le (filter (\<lambda>r. p r \<and> q r) (incidents db)))"
  using assms by (auto simp: list_incidents_def result_simps split: if_splits)

text \<open>
  A listing holds only stored incidents that pass its filters, at most \<open>limit\<close> of them, in
  priority order, and leaves a matching incident out only when it is full and every listed
  incident ranks at least as high: truncation never hides a more urgent incident.
\<close>

theorem list_incidents_by_priority:
  assumes "list_incidents fromiso state limit since db = Inr items"
  shows "\<exists>p q. state_clause state = Inr p \<and> since_clause fromiso since = Inr q
    \<and> (\<forall>r \<in> set items. r \<in> set (incidents db) \<and> p r \<and> q r)
    \<and> sorted_wrt priority_le items \<and> int (length items) \<le> limit
    \<and> (\<forall>r \<in> set (incidents db). p r \<and> q r \<and> r \<notin> set items
         \<longrightarrow> int (length items) = limit \<and> (\<forall>i \<in> set items. priority_le i r))"
proof -
  obtain p q where pq: "state_clause state = Inr p" "since_clause fromiso since = Inr q"
    and lim: "1 \<le> limit"
    and items: "items = take (nat limit) (sort_by priority_le
      (filter (\<lambda>r. p r \<and> q r) (incidents db)))"
    using list_incidents_Inr [OF assms] by metis
  let ?all = "sort_by priority_le (filter (\<lambda>r. p r \<and> q r) (incidents db))"
  have all: "set ?all = {r \<in> set (incidents db). p r \<and> q r}" by auto
  have left_out: "int (length items) = limit \<and> (\<forall>i \<in> set items. priority_le i r)"
    if "r \<in> set ?all" and "r \<notin> set items" for r
  proof -
    have "set ?all = set items \<union> set (drop (nat limit) ?all)"
      unfolding items by (subst (1) append_take_drop_id [symmetric, of _ "nat limit"]) (rule set_append)
    with that have "r \<in> set (drop (nat limit) ?all)" by blast
    moreover from this have "nat limit < length ?all" by (metis drop_all empty_iff leI list.set(1))
    ultimately show ?thesis
      using items lim sorted_wrt_take_drop [OF priority.sort_by_sorted] by auto
  qed
  have "set items \<subseteq> set ?all" unfolding items by (rule set_take_subset)
  then show ?thesis
    using pq all left_out items lim sorted_wrt_take [OF priority.sort_by_sorted]
    by (intro exI [of _ p] exI [of _ q]) auto
qed

theorem list_incidents_by_priority_witness:
  "\<exists>items. list_incidents (\<lambda>_. NotIso) (Some ''OPEN'') 10 None sample_db = Inr items
     \<and> sorted_wrt priority_le items \<and> int (length items) \<le> 10"
proof -
  obtain items where "list_incidents (\<lambda>_. NotIso) (Some ''OPEN'') 10 None sample_db = Inr items"
    by (auto simp: list_incidents_def)
  with list_incidents_by_priority [OF this] show ?thesis by auto
qed

text \<open>
  Without a time filter the summary is healthy exactly when every stored incident is
  resolved, degraded exactly when some incident is open, and it says it is truncated exactly
  when incidents are missing from its list.
\<close>

theorem summary_status_exact:
  assumes "summary fromiso limit None db = Inr s"
  shows "(sm_status s = ''HEALTHY'' \<longleftrightarrow> (\<forall>r \<in> set (incidents db). lifecycle_state r = RESOLVED))
    \<and> (sm_status s = ''DEGRADED'' \<longleftrightarrow> (\<exists>r \<in> set (incidents db). lifecycle_state r = OPEN))
    \<and> (sm_truncated s \<longleftrightarrow> int (length (incidents db)) > limit)"
proof -
  from assms obtain items where items: "list_incidents fromiso None limit None db = Inr items"
    by (auto simp: summary_def result_simps)
  then have len: "length items = min (length (incidents db)) (nat limit)" and "1 \<le> limit"
    by (auto elim!: list_incidents_Inr)
  have status: "sm_status s =
      (if filter (\<lambda>r. lifecycle_state r = OPEN) (incidents db) \<noteq> [] then ''DEGRADED''
       else if filter (\<lambda>r. lifecycle_state r = RECOVERING) (incidents db) \<noteq> [] then ''RECOVERING''
       else ''HEALTHY'')" and truncated: "sm_truncated s = (length items < length (incidents db))"
    using assms items by (auto simp: summary_def Let_def)
  have resolved: "lifecycle_state r = RESOLVED
      \<longleftrightarrow> lifecycle_state r \<noteq> OPEN \<and> lifecycle_state r \<noteq> RECOVERING" for r :: incident
    by (cases "lifecycle_state r") auto
  have "sm_truncated s \<longleftrightarrow> int (length (incidents db)) > limit"
    using truncated len \<open>1 \<le> limit\<close> by linarith
  then show ?thesis
    unfolding status resolved by (auto simp: filter_empty_conv)
qed

theorem summary_status_exact_witness:
  "\<exists>s. summary (\<lambda>_. NotIso) 5 None sample_db = Inr s \<and> sm_status s = ''DEGRADED''"
proof -
  obtain s where s: "summary (\<lambda>_. NotIso) 5 None sample_db = Inr s"
    by (auto simp: summary_def list_incidents_def Let_def)
  have "\<exists>r \<in> set (incidents sample_db). lifecycle_state r = OPEN"
    by (simp add: sample_db_def open_incident_def sample_args_def empty_incident_db_def
        transaction_def update_where_def new_incident_def Let_def)
  with summary_status_exact [OF s] s show ?thesis by blast
qed

section \<open>Text time\<close>

text \<open>
  The stored times are texts, and at a whole second the text has no fraction: an incident
  seen at the whole second \<open>t\<close> and again \<open>k\<close> microseconds later keeps the earlier sighting as
  its last one, because \<open>max\<close> compares texts.
\<close>

theorem last_seen_lags_within_second:
  assumes "wf_incident_db db" and "r \<in> set (incidents db)" and "dedup_key r = oa_dedup_key a"
    and "last_seen_at r = iso_z t" and "t mod 1000000 = 0" and "0 < k" and "k < 1000000"
    and "open_incident a uuid (t + k) db = (Inr r', db')"
  shows "last_seen_at r' = iso_z t \<and> iso_z (t + k) < last_seen_at r'"
proof -
  have dk: "distinct (map dedup_key (incidents db))" using assms(1) by (simp add: wf_incident_db_def)
  have "last_seen_at r' = max (last_seen_at r) (iso_z (t + k))"
    using dk
  proof (cases rule: open_incident_cases [where a = a and uuid = uuid and now = "t + k"])
    case (error e)
    with assms(8) show ?thesis by simp
  next
    case (insert sev)
    with assms(2,3) show ?thesis by (metis image_eqI list.set_map)
  next
    case (update sev q)
    then have "q = r" using dk assms(2,3) by (metis distinct_map inj_onD)
    with update assms(8) show ?thesis by (auto simp: reopen_def new_incident_def)
  qed
  with iso_z_inverts_in_second [OF assms(5-7)] assms(4) show ?thesis by (simp add: max_def)
qed

theorem last_seen_lags_within_second_witness:
  "\<exists>r' db'. open_incident sample_args ''u2'' 500000 sample_db = (Inr r', db')
     \<and> last_seen_at r' = iso_z 0"
proof -
  define r where "r = new_incident sample_args ERROR ''u1'' (iso_z 0)"
  have db: "incidents sample_db = [r]"
    by (simp add: sample_db_def open_incident_def sample_args_def empty_incident_db_def
        transaction_def update_where_def r_def Let_def)
  have key: "dedup_key r = oa_dedup_key sample_args" "last_seen_at r = iso_z 0"
    by (simp_all add: r_def new_incident_def)
  obtain r' db' where op: "open_incident sample_args ''u2'' (0 + 500000) sample_db = (Inr r', db')"
    using db by (auto simp: open_incident_def transaction_def update_where_def Let_def
        sample_args_def r_def new_incident_def)
  show ?thesis
    using last_seen_lags_within_second [OF sample_db_wf _ key(1) key(2) _ _ _ op] db op by auto
qed

section \<open>The sink interface\<close>

text \<open>
  What the publisher and the etcd gate rely on: opening an incident leaves its key blocked,
  resolving it leaves the key clear, and what the sink holds of any other key stays as it was.
\<close>

locale incident_sink =
  fixes opn :: "open_args \<Rightarrow> 's \<Rightarrow> 's res"
    and rsv :: "string \<Rightarrow> string \<Rightarrow> 's \<Rightarrow> 's res"
    and blocked :: "string \<Rightarrow> 's \<Rightarrow> bool"
    and held :: "string \<Rightarrow> 's \<Rightarrow> 'v"
    and sink_inv :: "'s \<Rightarrow> bool"
  assumes open_inv: "sink_inv s \<Longrightarrow> opn a s = Inr s' \<Longrightarrow> sink_inv s'"
    and open_blocks: "sink_inv s \<Longrightarrow> opn a s = Inr s' \<Longrightarrow> blocked (oa_dedup_key a) s'"
    and open_frame: "sink_inv s \<Longrightarrow> opn a s = Inr s' \<Longrightarrow> k \<noteq> oa_dedup_key a
        \<Longrightarrow> held k s' = held k s"
    and resolve_inv: "sink_inv s \<Longrightarrow> rsv key msg s = Inr s' \<Longrightarrow> sink_inv s'"
    and resolve_clears: "sink_inv s \<Longrightarrow> rsv key msg s = Inr s' \<Longrightarrow> \<not> blocked key s'"
    and resolve_frame: "sink_inv s \<Longrightarrow> rsv key msg s = Inr s' \<Longrightarrow> k \<noteq> key
        \<Longrightarrow> held k s' = held k s"

text \<open>
  The store as a sink: the readings of the clock and of \<open>uuid4\<close> come from a tape, one per call.
\<close>

record sink_state =
  sink_calls :: nat
  sink_db :: incident_db

definition store_open :: "(nat \<Rightarrow> string \<times> nat) \<Rightarrow> open_args \<Rightarrow> sink_state \<Rightarrow> sink_state res" where
  "store_open tape a s =
     (case open_incident a (fst (tape (sink_calls s))) (snd (tape (sink_calls s))) (sink_db s) of
        (Inl e, _) \<Rightarrow> Inl e
      | (Inr _, db) \<Rightarrow> Inr \<lparr>sink_calls = Suc (sink_calls s), sink_db = db\<rparr>)"

definition store_resolve ::
  "(nat \<Rightarrow> string \<times> nat) \<Rightarrow> string \<Rightarrow> string \<Rightarrow> sink_state \<Rightarrow> sink_state res" where
  "store_resolve tape key msg s =
     Inr \<lparr>sink_calls = Suc (sink_calls s),
       sink_db = snd (resolve_incident key msg (snd (tape (sink_calls s))) (sink_db s))\<rparr>"

definition store_blocked :: "string \<Rightarrow> sink_state \<Rightarrow> bool" where
  "store_blocked key s \<longleftrightarrow>
     list_ex (\<lambda>r. dedup_key r = key \<and> lifecycle_state r \<noteq> RESOLVED) (incidents (sink_db s))"

text \<open>Everything that the store holds of a key: its row and its history.\<close>

definition store_held :: "string \<Rightarrow> sink_state \<Rightarrow> incident list \<times> transition list" where
  "store_held key s = (filter (\<lambda>r. dedup_key r = key) (incidents (sink_db s)),
     filter (\<lambda>t. dedup_key (tr_body t) = key) (transitions (sink_db s)))"

lemma extends_history_held:
  assumes "extends_history key (sink_db s) (sink_db s')" and "k \<noteq> key"
  shows "store_held k s' = store_held k s"
proof -
  have pick: "filter (\<lambda>r. dedup_key r = k) rows = filter (\<lambda>r. dedup_key r = k) (filter (\<lambda>r. dedup_key r \<noteq> key) rows)" for rows
    using assms(2) by (auto intro!: filter_cong)
  from assms(1) obtain ts where ts: "transitions (sink_db s') = transitions (sink_db s) @ ts"
    "\<forall>t \<in> set ts. dedup_key (tr_body t) = key"
    and rows: "filter (\<lambda>r. dedup_key r \<noteq> key) (incidents (sink_db s'))
      = filter (\<lambda>r. dedup_key r \<noteq> key) (incidents (sink_db s))"
    unfolding extends_history_def by blast
  have "filter (\<lambda>t. dedup_key (tr_body t) = k) ts = []" using ts(2) assms(2) by (auto simp: filter_empty_conv)
  with ts(1) show ?thesis
    unfolding store_held_def pick [of "incidents (sink_db s')"] pick [of "incidents (sink_db s)"] rows by simp
qed

lemma replace_row_mem: "r \<in> set rows \<Longrightarrow> dedup_key r = k \<Longrightarrow> f r \<in> set (replace_row k f rows)"
  by (auto simp: replace_row_def intro: rev_image_eqI)

lemma store_open_cases:
  assumes "wf_incident_db (sink_db s)" and "store_open tape a s = Inr s'"
  obtains (insert) r where "incidents (sink_db s') = incidents (sink_db s) @ [r]"
      "dedup_key r = oa_dedup_key a" "lifecycle_state r = OPEN" "wf_incident_db (sink_db s')"
  | (update) f where "incidents (sink_db s') = replace_row (oa_dedup_key a) f (incidents (sink_db s))"
      "oa_dedup_key a \<in> dedup_key ` set (incidents (sink_db s))"
      "row_update f" "\<And>r. lifecycle_state (f r) = OPEN" "wf_incident_db (sink_db s')"
proof -
  let ?uuid = "fst (tape (sink_calls s))" and ?now = "snd (tape (sink_calls s))"
  have dk: "distinct (map dedup_key (incidents (sink_db s)))"
    using assms(1) by (simp add: wf_incident_db_def)
  from assms(2) obtain r where op: "open_incident a ?uuid ?now (sink_db s) = (Inr r, sink_db s')"
    by (auto simp: store_open_def split: sum.splits prod.splits)
  have wf: "wf_incident_db (sink_db s')"
    using open_incident_wf [OF assms(1), of a ?uuid ?now] op by simp
  from dk show thesis
  proof (cases rule: open_incident_cases [where a = a and uuid = ?uuid and now = ?now])
    case (error e)
    with op show thesis by simp
  next
    case (insert sev)
    let ?r = "new_incident a sev ?uuid (iso_z ?now)"
    from op insert(3) have db: "sink_db s' = log_transition ?r
        ((sink_db s)\<lparr>incidents := incidents (sink_db s) @ [?r]\<rparr>)" by auto
    show thesis
      by (rule that(1) [of ?r]) (use wf in \<open>simp_all add: db, simp_all add: new_incident_def\<close>)
  next
    case (update sev q)
    let ?f = "reopen (new_incident a sev ?uuid (iso_z ?now))"
    have key: "oa_dedup_key a \<in> dedup_key ` set (incidents (sink_db s))" using update by force
    from dk have "incidents (snd (update_where (oa_dedup_key a) ?f (sink_db s)))
        = replace_row (oa_dedup_key a) ?f (incidents (sink_db s))"
      using key by (cases rule: update_where_cases [where k = "oa_dedup_key a" and f = ?f]) auto
    then show thesis
      using op update(3) key wf reopen_row_update [OF new_incident_wf]
      by (intro that(2) [of ?f]) (auto simp: reopen_def new_incident_def)
  qed
qed

lemma store_resolve_incidents:
  assumes "wf_incident_db (sink_db s)"
  shows "\<exists>f. row_update f \<and> (\<forall>r. lifecycle_state (f r) = RESOLVED)
    \<and> incidents (snd (resolve_incident key msg now (sink_db s)))
      = replace_row key f (incidents (sink_db s))"
proof -
  let ?f = "\<lambda>r. r\<lparr>lifecycle_state := RESOLVED, last_seen_at := max (last_seen_at r) (iso_z now),
     resolved_at := Some (max (last_seen_at r) (iso_z now)), impact_summary := msg,
     action_required := False\<rparr>"
  have dk: "distinct (map dedup_key (incidents (sink_db s)))"
    using assms by (simp add: wf_incident_db_def)
  then have "incidents (snd (update_where key ?f (sink_db s)))
      = replace_row key ?f (incidents (sink_db s))"
  proof (cases rule: update_where_cases [where k = key and f = ?f])
    case none
    then have "replace_row key ?f (incidents (sink_db s)) = incidents (sink_db s)"
      unfolding replace_row_def by (intro map_idI) auto
    with none show ?thesis by simp
  qed simp
  then show ?thesis
    unfolding resolve_incident_def by (intro exI [of _ ?f]) (simp add: resolve_row_update)
qed

interpretation store_sink:
  incident_sink "store_open tape" "store_resolve tape" store_blocked store_held
    "\<lambda>s. wf_incident_db (sink_db s)"
  for tape
proof
  fix a s s' k
  assume wf: "wf_incident_db (sink_db s)" and op: "store_open tape a s = Inr s'"
  show "wf_incident_db (sink_db s')" by (rule store_open_cases [OF wf op])
  show "store_blocked (oa_dedup_key a) s'"
  proof (rule store_open_cases [OF wf op])
    fix f
    assume rows: "incidents (sink_db s') = replace_row (oa_dedup_key a) f (incidents (sink_db s))"
      and key: "oa_dedup_key a \<in> dedup_key ` set (incidents (sink_db s))"
      and f: "row_update f" "\<And>r. lifecycle_state (f r) = OPEN"
    from key obtain x where "x \<in> set (incidents (sink_db s))" "dedup_key x = oa_dedup_key a" by auto
    with rows f replace_row_mem [OF this] show ?thesis
      by (auto simp: store_blocked_def list_ex_iff row_update_def intro!: bexI [of _ "f x"])
  qed (simp add: store_blocked_def)
  from wf op have "extends_history (oa_dedup_key a) (sink_db s) (sink_db s')"
    using open_incident_extends [of "sink_db s" a "fst (tape (sink_calls s))" "snd (tape (sink_calls s))"]
    by (auto simp: store_open_def wf_incident_db_def split: sum.splits prod.splits)
  then show "store_held k s' = store_held k s" if "k \<noteq> oa_dedup_key a"
    using that by (rule extends_history_held)
next
  fix key msg s s' k
  assume wf: "wf_incident_db (sink_db s)" and op: "store_resolve tape key msg s = Inr s'"
  then have s': "sink_db s' = snd (resolve_incident key msg (snd (tape (sink_calls s))) (sink_db s))"
    by (auto simp: store_resolve_def)
  obtain f where f: "row_update f" "\<And>r. lifecycle_state (f r) = RESOLVED"
    "incidents (sink_db s') = replace_row key f (incidents (sink_db s))"
    using store_resolve_incidents [OF wf] unfolding s' by blast
  show "wf_incident_db (sink_db s')" unfolding s' by (rule resolve_incident_wf [OF wf])
  show "\<not> store_blocked key s'"
    using f(2) by (auto simp: store_blocked_def list_ex_iff f(3) replace_row_def split: if_splits)
  have "extends_history key (sink_db s) (sink_db s')"
    using wf unfolding s' wf_incident_db_def by (intro resolve_incident_extends) blast
  then show "store_held k s' = store_held k s" if "k \<noteq> key" using that by (rule extends_history_held)
qed

end
