(* ===== verification/Json.thy ===== *)
theory Json
  imports Prelude
begin

text \<open>
  JSON values as \<open>json.loads\<close> returns them (objects in insertion order), the dictionary
  accessors that the code uses on them, and \<open>urllib.parse.quote(s, safe="")\<close> with its inverse.
\<close>

datatype json =
    JNull
  | JBool bool
  | JInt int
  | JStr string
  | JList "json list"
  | JObj "(string \<times> json) list"

fun is_obj :: "json \<Rightarrow> bool" where
  "is_obj (JObj _) = True"
| "is_obj _ = False"

text \<open>\<open>v.get(k, d)\<close>; a value that is not a dictionary has no \<open>get\<close> and raises.\<close>

fun jget :: "json \<Rightarrow> string \<Rightarrow> json \<Rightarrow> json res" where
  "jget (JObj kvs) k d = Inr (case map_of kvs k of None \<Rightarrow> d | Some v \<Rightarrow> v)"
| "jget _ k d = Inl (TypeError ''object has no attribute get'')"

fun jlookup :: "json \<Rightarrow> string \<Rightarrow> json option" where
  "jlookup (JObj kvs) k = map_of kvs k"
| "jlookup _ k = None"

text \<open>
  \<open>json.dumps(..., sort_keys=True)\<close> sees a value up to the order of keys, which \<open>canon\<close> fixes.
  Python's \<open>==\<close> on such values ignores the order of keys too, and \<open>True == 1\<close>.
\<close>

fun canon :: "json \<Rightarrow> json" where
  "canon (JObj kvs) = JObj (sort_by (key_le fst) (map (\<lambda>(k, v). (k, canon v)) kvs))"
| "canon (JList vs) = JList (map canon vs)"
| "canon v = v"

fun bool_as_int :: "json \<Rightarrow> json" where
  "bool_as_int (JBool b) = JInt (if b then 1 else 0)"
| "bool_as_int (JObj kvs) = JObj (map (\<lambda>(k, v). (k, bool_as_int v)) kvs)"
| "bool_as_int (JList vs) = JList (map bool_as_int vs)"
| "bool_as_int v = v"

definition json_eq :: "json \<Rightarrow> json \<Rightarrow> bool" where
  "json_eq v w \<longleftrightarrow> canon (bool_as_int v) = canon (bool_as_int w)"

lemma json_eq_refl [simp]: "json_eq v v"
  by (simp add: json_eq_def)

lemma json_eq_sym: "json_eq v w = json_eq w v"
  by (auto simp: json_eq_def)

lemma json_eq_trans: "json_eq u v \<Longrightarrow> json_eq v w \<Longrightarrow> json_eq u w"
  by (simp add: json_eq_def)

text \<open>\<open>None\<close> is \<open>null\<close>.\<close>

definition jopt :: "('a \<Rightarrow> json) \<Rightarrow> 'a option \<Rightarrow> json" where
  "jopt f v = (case v of None \<Rightarrow> JNull | Some x \<Rightarrow> f x)"

text \<open>Lists and dictionaries cannot be looked up in a set or a dictionary.\<close>

fun hashable :: "json \<Rightarrow> bool" where
  "hashable (JList _) = False"
| "hashable (JObj _) = False"
| "hashable _ = True"

text \<open>Python's truth value of a JSON value.\<close>

fun json_truthy :: "json \<Rightarrow> bool" where
  "json_truthy JNull = False"
| "json_truthy (JBool b) = b"
| "json_truthy (JInt n) = (n \<noteq> 0)"
| "json_truthy (JStr s) = (s \<noteq> [])"
| "json_truthy (JList xs) = (xs \<noteq> [])"
| "json_truthy (JObj kvs) = (kvs \<noteq> [])"

text \<open>\<open>v or {}\<close>\<close>

definition or_object :: "json \<Rightarrow> json" where
  "or_object v = (if json_truthy v then v else JObj [])"

text \<open>\<open>k in v\<close>: a key, an element or a substring; other values are not iterable.\<close>

fun jin :: "string \<Rightarrow> json \<Rightarrow> bool res" where
  "jin k (JObj kvs) = Inr (k \<in> fst ` set kvs)"
| "jin k (JList vs) = Inr (JStr k \<in> set vs)"
| "jin k (JStr s) = Inr (contains s k)"
| "jin k _ = Inl (TypeError ''argument is not iterable'')"

text \<open>The elements of \<open>for x in v\<close>, and \<open>set(v)\<close>, which needs hashable ones.\<close>

fun jelements :: "json \<Rightarrow> json list res" where
  "jelements (JObj kvs) = Inr (map (\<lambda>(k, _). JStr k) kvs)"
| "jelements (JList vs) = Inr vs"
| "jelements (JStr s) = Inr (map (\<lambda>c. JStr [c]) s)"
| "jelements _ = Inl (TypeError ''object is not iterable'')"

definition jset :: "json list \<Rightarrow> json set res" where
  "jset vs = (if list_all hashable vs then Inr (set vs) else Inl (TypeError ''unhashable type''))"

text \<open>\<open>v[k]\<close> on a dictionary.\<close>

fun jindex :: "json \<Rightarrow> string \<Rightarrow> json res" where
  "jindex (JObj kvs) k = (case map_of kvs k of None \<Rightarrow> Inl (KeyError k) | Some v \<Rightarrow> Inr v)"
| "jindex _ k = Inl (TypeError ''not subscriptable'')"

fun nat_text :: "nat \<Rightarrow> string" where
  "nat_text n = (if n < 10 then [char_of (48 + n)] else nat_text (n div 10) @ [char_of (48 + n mod 10)])"

declare nat_text.simps [simp del]

definition int_text :: "int \<Rightarrow> string" where
  "int_text n = (if n < 0 then ''-'' @ nat_text (nat (- n)) else nat_text (nat n))"

text \<open>A chain \<open>a or b or c\<close> of tests, and \<open>x != v\<close>.\<close>

fun or_chain :: "bool res list \<Rightarrow> bool res" where
  "or_chain [] = Inr False"
| "or_chain (m # ms) = bindE m (\<lambda>b. if b then Inr True else or_chain ms)"

definition jneq :: "json res \<Rightarrow> json \<Rightarrow> bool res" where
  "jneq m v = bindE m (\<lambda>x. Inr (\<not> json_eq x v))"

definition jobj1 :: "string \<Rightarrow> json \<Rightarrow> json" where
  "jobj1 k v = JObj [(k, v)]"

text \<open>\<open>sep.join(xs)\<close> of the elements of a value.\<close>

fun join_with :: "string \<Rightarrow> json list \<Rightarrow> string res" where
  "join_with sep [] = Inr []"
| "join_with sep (JStr s # vs) = bindE (join_with sep vs) (\<lambda>rest. Inr (if vs = [] then s else s @ sep @ rest))"
| "join_with sep (_ # vs) = Inl (TypeError ''expected str instance'')"

text \<open>\<open>re.fullmatch("[A-Za-z0-9...]+", s)\<close> with the further characters of the class.\<close>

definition word_of :: "string \<Rightarrow> string \<Rightarrow> bool" where
  "word_of extra s \<longleftrightarrow> s \<noteq> [] \<and> list_all (\<lambda>c. is_alpha c \<or> is_digit c \<or> c \<in> set extra) s"

definition jstrs :: "string list \<Rightarrow> json" where
  "jstrs xs = JList (map JStr xs)"

definition jdict :: "(string, string) dict \<Rightarrow> json" where
  "jdict d = JObj (map (\<lambda>(k, v). (k, JStr v)) d)"

definition jnat :: "nat \<Rightarrow> json" where
  "jnat n = JInt (int n)"

section \<open>Percent encoding\<close>

definition hex_digit :: "nat \<Rightarrow> char" where
  "hex_digit n = ''0123456789ABCDEF'' ! n"

definition unreserved :: "char \<Rightarrow> bool" where
  "unreserved c \<longleftrightarrow> is_alpha c \<or> is_digit c \<or> c \<in> set ''_.-~''"

definition quote_char :: "char \<Rightarrow> string" where
  "quote_char c =
     (if unreserved c then [c]
      else [CHR ''%'', hex_digit (of_char c div 16), hex_digit (of_char c mod 16)])"

definition quote :: "string \<Rightarrow> string" where
  "quote s = concat (map quote_char s)"

definition hex_value :: "char \<Rightarrow> nat" where
  "hex_value c = (if is_digit c then of_char c - 48 else of_char c - 55)"

fun unquote :: "string \<Rightarrow> string" where
  "unquote [] = []"
| "unquote (c # s) =
     (if c = CHR ''%''
      then (case s of a # b # s' \<Rightarrow> char_of (16 * hex_value a + hex_value b) # unquote s'
            | _ \<Rightarrow> c # unquote s)
      else c # unquote s)"

lemma hex_value_digit:
  assumes "n < 16"
  shows "hex_value (hex_digit n) = n"
proof -
  have "\<forall>n \<in> {0..<16}. hex_value (hex_digit n) = n"
    by (simp add: atLeastLessThan_nat_numeral atLeastLessThanSuc hex_value_def hex_digit_def
        is_digit_def less_eq_char_def)
  with assms show ?thesis by auto
qed

lemma high_nibble: "of_char c div 16 < (16::nat)"
proof -
  have "(of_char c :: nat) < 16 * 16" using of_char_of [where ?'a = nat, of "of_char c"] by simp
  then show ?thesis by (rule less_mult_imp_div_less)
qed

lemma unreserved_not_percent: "\<not> unreserved CHR ''%''"
  by (simp add: unreserved_def is_alpha_def is_digit_def less_eq_char_def)

lemma unquote_quote_char: "unquote (quote_char c @ s) = c # unquote s"
proof (cases "unreserved c")
  case True
  then have "c \<noteq> CHR ''%''" using unreserved_not_percent by blast
  with True show ?thesis by (simp add: quote_char_def)
next
  case False
  with high_nibble show ?thesis
    by (simp add: quote_char_def hex_value_digit)
qed

lemma unquote_quote_id: "unquote (quote s) = s"
proof (induction s)
  case Nil
  then show ?case by (simp add: quote_def)
next
  case (Cons c s)
  then show ?case by (simp add: quote_def unquote_quote_char)
qed

lemma quote_inj: "quote s = quote t \<longleftrightarrow> s = t"
  by (metis unquote_quote_id)

lemma quote_char_no_slash: "CHR ''/'' \<notin> set (quote_char c)"
proof -
  have "\<forall>n \<in> {0..<16}. hex_digit n \<noteq> CHR ''/''"
    by (simp add: atLeastLessThan_nat_numeral atLeastLessThanSuc hex_digit_def)
  moreover note high_nibble [of c]
  moreover have "\<not> unreserved CHR ''/''"
    by (simp add: unreserved_def is_alpha_def is_digit_def less_eq_char_def)
  ultimately show ?thesis by (auto simp: quote_char_def)
qed

lemma quote_no_slash: "CHR ''/'' \<notin> set (quote s)"
  using quote_char_no_slash by (auto simp: quote_def)

end
