(* ===== verification/Compile.thy ===== *)
theory Compile
  imports Json
begin

text \<open>
  The configuration compiler, \<open>tools/compile_config.py\<close>. A document is what \<open>load_documents\<close>
  returns: a YAML file that its JSON schema under \<open>schemas/\<close> accepts, so its shape is that of
  the record of its kind, with \<open>option\<close> for the keys the schema does not require. The YAML
  parser and the schema validator are libraries; their result is the input here. The compiled
  routes keep the code's keys as record fields, and the hash is a parameter.
\<close>

section \<open>Documents\<close>

record capability_doc =
  cap_id :: string
  cap_version :: string
  cap_owner :: string
  cap_operationType :: string
  cap_scope :: string
  cap_toolEligible :: bool
  cap_humanRequired :: "bool option"

record source_doc =
  src_id :: string
  src_version :: string
  src_endpointRef :: string
  src_ownerOutcomePath :: "string option"

record extraction_doc =
  ext_id :: string
  ext_version :: string
  ext_sourceRef :: string

record backend_binding =
  bb_service :: string
  bb_port :: nat
  bb_path :: string

record route_doc =
  rt_id :: string
  rt_version :: string
  rt_exposure :: string
  rt_capabilityRef :: string
  rt_sourceRef :: string
  rt_extractionProfileRef :: "string option"
  rt_method :: string
  rt_path :: string
  rt_uriRegex :: "string option"
  rt_query :: "json option"
  rt_backendBinding :: backend_binding
  rt_identity :: string
  rt_allowedServiceIdentities :: "string list option"
  rt_allowedActorTypes :: "string list option"
  rt_maxRequestBytes :: nat
  rt_timeoutSeconds :: nat

record mcp_endpoint_doc =
  me_id :: string
  me_version :: string
  me_exposure :: string
  me_sourceRef :: string
  me_method :: string
  me_path :: string
  me_backendBinding :: backend_binding
  me_identity :: string
  me_requiredAudience :: string
  me_requiredScope :: string
  me_allowedActorTypes :: "string list"
  me_maxRequestBytes :: nat
  me_timeoutSeconds :: nat
  me_stripClientHeaders :: "string list"
  me_claimProjection :: "(string, string) dict"

record mcp_mediation_doc =
  mm_id :: string
  mm_version :: string
  mm_mode :: string
  mm_method :: string
  mm_path :: string
  mm_identity :: string
  mm_serviceIdentityRef :: string
  mm_requiredScope :: "string option"
  mm_maxRequestBytes :: nat
  mm_timeoutSeconds :: nat

datatype document =
    Capability capability_doc
  | SourceRuntimeProfile source_doc
  | ExtractionRuntimeProfile extraction_doc
  | RouteBinding route_doc
  | McpEndpointBinding mcp_endpoint_doc
  | McpMediationBinding mcp_mediation_doc

datatype kind = KCapability | KSource | KExtraction | KRoute | KMcpEndpoint | KMcpMediation

fun doc_kind :: "document \<Rightarrow> kind" where
  "doc_kind (Capability _) = KCapability"
| "doc_kind (SourceRuntimeProfile _) = KSource"
| "doc_kind (ExtractionRuntimeProfile _) = KExtraction"
| "doc_kind (RouteBinding _) = KRoute"
| "doc_kind (McpEndpointBinding _) = KMcpEndpoint"
| "doc_kind (McpMediationBinding _) = KMcpMediation"

text \<open>\<open>ref(doc)\<close>: \<open>id@version\<close>.\<close>

fun doc_ref :: "document \<Rightarrow> string" where
  "doc_ref (Capability d) = cap_id d @ ''@'' @ cap_version d"
| "doc_ref (SourceRuntimeProfile d) = src_id d @ ''@'' @ src_version d"
| "doc_ref (ExtractionRuntimeProfile d) = ext_id d @ ''@'' @ ext_version d"
| "doc_ref (RouteBinding d) = rt_id d @ ''@'' @ rt_version d"
| "doc_ref (McpEndpointBinding d) = me_id d @ ''@'' @ me_version d"
| "doc_ref (McpMediationBinding d) = mm_id d @ ''@'' @ mm_version d"

type_synonym index = "(kind \<times> string, document) dict"

section \<open>Compiled routes\<close>

record route_policy =
  pol_identity :: string
  pol_allowedServiceIdentities :: "string list option"
  pol_allowedActorTypes :: "string list option"
  pol_requiredAudience :: "string option"
  pol_requiredScope :: "string option"
  pol_maxRequestBytes :: nat
  pol_timeoutSeconds :: nat

record capability_meta =
  cm_capabilityId :: string
  cm_version :: string
  cm_owner :: string
  cm_operationType :: string
  cm_toolEligible :: bool
  cm_humanRequired :: bool

record recovery_binding =
  rb_owner :: string
  rb_service :: string
  rb_pathTemplate :: string

record trusted_identity_meta =
  ti_stripClientHeaders :: "string list"
  ti_claimProjection :: "(string, string) dict"

record mediation_meta =
  md_mode :: string
  md_serviceIdentityRef :: string
  md_serviceIdentity :: "string option"

record compiled_route =
  cr_id :: string
  cr_uri :: string
  cr_methods :: "string list"
  cr_vars :: "string option"
  cr_upstream_id :: "string option"
  cr_service_id :: "string option"
  cr_labels :: "(string, string) dict"
  cr_backend :: "backend_binding option"
  cr_proxy_rewrite :: "string option"
  cr_limit_count :: nat
  cr_policy :: route_policy
  cr_capability :: "capability_meta option"
  cr_query_contract :: "json option"
  cr_recovery :: "recovery_binding option"
  cr_trusted_identity :: "trusted_identity_meta option"
  cr_mediation :: "mediation_meta option"

record artifact =
  art_routes :: "compiled_route list"
  art_sha256 :: string

text \<open>The two sets of matches seen so far: \<open>matches\<close> and \<open>selected_matches\<close>.\<close>

record compile_state =
  cs_routes :: "compiled_route list"
  cs_matches :: "(string \<times> string) list"
  cs_selected :: "(string \<times> string \<times> string) list"

section \<open>Indexing\<close>

definition index_step :: "string \<times> document \<Rightarrow> index \<Rightarrow> index res" where
  "index_step pd ix =
     (let key = (doc_kind (snd pd), doc_ref (snd pd))
      in if map_of ix key \<noteq> None then Inl (ConfigError ''duplicate'')
         else Inr (dict_set key (snd pd) ix))"

fun lookup_capability :: "index \<Rightarrow> string \<Rightarrow> capability_doc option" where
  "lookup_capability ix r =
     (case map_of ix (KCapability, r) of Some (Capability d) \<Rightarrow> Some d | _ \<Rightarrow> None)"

fun lookup_source :: "index \<Rightarrow> string \<Rightarrow> source_doc option" where
  "lookup_source ix r =
     (case map_of ix (KSource, r) of Some (SourceRuntimeProfile d) \<Rightarrow> Some d | _ \<Rightarrow> None)"

fun lookup_extraction :: "index \<Rightarrow> string \<Rightarrow> extraction_doc option" where
  "lookup_extraction ix r =
     (case map_of ix (KExtraction, r) of Some (ExtractionRuntimeProfile d) \<Rightarrow> Some d | _ \<Rightarrow> None)"

definition check_extraction :: "index \<Rightarrow> string \<times> document \<Rightarrow> unit res" where
  "check_extraction ix pd =
     (case snd pd of
        ExtractionRuntimeProfile e \<Rightarrow>
          require (lookup_source ix (ext_sourceRef e) \<noteq> None) (ConfigError ''unresolved sourceRef'')
      | _ \<Rightarrow> Inr ())"

section \<open>Route bindings\<close>

definition truthy :: "'a list option \<Rightarrow> bool" where
  "truthy v = (case v of None \<Rightarrow> False | Some s \<Rightarrow> s \<noteq> [])"

definition or_empty :: "'a list option \<Rightarrow> 'a list" where
  "or_empty v = (case v of None \<Rightarrow> [] | Some xs \<Rightarrow> xs)"

definition selected_has :: "compile_state \<Rightarrow> string \<times> string \<Rightarrow> bool" where
  "selected_has cs m = list_ex (\<lambda>(a, b, _). (a, b) = m) (cs_selected cs)"

definition duplicate_match :: "compile_state \<Rightarrow> string \<times> string \<Rightarrow> string option \<Rightarrow> bool" where
  "duplicate_match cs m regex \<longleftrightarrow>
     m \<in> set (cs_matches cs)
     \<or> (regex = None \<and> selected_has cs m)
     \<or> (case regex of None \<Rightarrow> False | Some r \<Rightarrow> (fst m, snd m, r) \<in> set (cs_selected cs))"

definition note_match :: "string \<times> string \<Rightarrow> string option \<Rightarrow> compile_state \<Rightarrow> compile_state" where
  "note_match m regex cs =
     (case regex of
        None \<Rightarrow> cs\<lparr>cs_matches := m # cs_matches cs\<rparr>
      | Some r \<Rightarrow> cs\<lparr>cs_selected := (fst m, snd m, r) # cs_selected cs\<rparr>)"

definition is_wildcard :: "string \<Rightarrow> bool" where
  "is_wildcard path = (CHR ''*'' \<in> set path)"

definition governed_scheme :: "string \<Rightarrow> bool" where
  "governed_scheme e \<longleftrightarrow> starts_with e ''service://'' \<or> starts_with e ''object://''
     \<or> starts_with e ''registry://''"

text \<open>The guards of one route binding, in the order of the code.\<close>

definition check_route ::
  "index \<Rightarrow> compile_state \<Rightarrow> route_doc \<Rightarrow> (capability_doc \<times> source_doc) res" where
  "check_route ix cs r =
     (case lookup_capability ix (rt_capabilityRef r) of
        None \<Rightarrow> Inl (ConfigError ''unresolved capabilityRef'')
      | Some cap \<Rightarrow>
     (case lookup_source ix (rt_sourceRef r) of
        None \<Rightarrow> Inl (ConfigError ''unresolved sourceRef'')
      | Some src \<Rightarrow>
        if truthy (rt_extractionProfileRef r)
           \<and> lookup_extraction ix (the (rt_extractionProfileRef r)) = None
        then Inl (ConfigError ''unresolved extractionProfileRef'')
        else if rt_exposure r = ''internal'' \<and> or_empty (rt_allowedServiceIdentities r) = []
        then Inl (ConfigError ''internal route requires explicit service identities'')
        else if rt_exposure r = ''public'' \<and> rt_identity r \<notin> {''OIDC'', ''M2M''}
        then Inl (ConfigError ''public route requires token identity'')
        else if \<not> governed_scheme (src_endpointRef src)
        then Inl (ConfigError ''endpointRef must use a governed logical scheme'')
        else if duplicate_match cs (rt_method r, rt_path r) (rt_uriRegex r)
        then Inl (ConfigError ''duplicate route match'')
        else if is_wildcard (rt_path r)
             \<and> (\<not> ends_with (rt_path r) ''/*'' \<or> count_list (rt_path r) CHR ''*'' \<noteq> 1
                \<or> bb_path (rt_backendBinding r) \<noteq> rt_path r)
        then Inl (ConfigError ''wildcard route must preserve its exact bounded namespace'')
        else if truthy (rt_uriRegex r)
             \<and> (\<not> is_wildcard (rt_path r)
                \<or> \<not> starts_with (the (rt_uriRegex r)) (''^'' @ butlast (rt_path r))
                \<or> \<not> ends_with (the (rt_uriRegex r)) ''$'' \<or> length (the (rt_uriRegex r)) > 256)
        then Inl (ConfigError ''URI regex must be anchored within the wildcard namespace'')
        else Inr (cap, src)))"

definition route_of :: "route_doc \<Rightarrow> capability_doc \<Rightarrow> source_doc \<Rightarrow> compiled_route" where
  "route_of r cap src =
     \<lparr>cr_id = rt_id r, cr_uri = rt_path r, cr_methods = [rt_method r],
      cr_vars = (if truthy (rt_uriRegex r) then rt_uriRegex r else None),
      cr_upstream_id = Some (rt_sourceRef r),
      cr_service_id = Some (bb_service (rt_backendBinding r)),
      cr_labels = [(''capability'', rt_capabilityRef r), (''source'', rt_sourceRef r),
                   (''exposure'', rt_exposure r)],
      cr_backend = Some (rt_backendBinding r),
      cr_proxy_rewrite = (if is_wildcard (rt_path r) then None
                          else Some (bb_path (rt_backendBinding r))),
      cr_limit_count = 100,
      cr_policy = \<lparr>pol_identity = rt_identity r,
        pol_allowedServiceIdentities = Some (or_empty (rt_allowedServiceIdentities r)),
        pol_allowedActorTypes = Some (or_empty (rt_allowedActorTypes r)),
        pol_requiredAudience = None, pol_requiredScope = Some (cap_scope cap),
        pol_maxRequestBytes = rt_maxRequestBytes r, pol_timeoutSeconds = rt_timeoutSeconds r\<rparr>,
      cr_capability = Some \<lparr>cm_capabilityId = cap_id cap, cm_version = cap_version cap,
        cm_owner = cap_owner cap, cm_operationType = cap_operationType cap,
        cm_toolEligible = cap_toolEligible cap,
        cm_humanRequired = (case cap_humanRequired cap of None \<Rightarrow> False | Some b \<Rightarrow> b)\<rparr>,
      cr_query_contract = rt_query r,
      cr_recovery = (if truthy (src_ownerOutcomePath src)
        then Some \<lparr>rb_owner = cap_owner cap, rb_service = bb_service (rt_backendBinding r),
                   rb_pathTemplate = the (src_ownerOutcomePath src)\<rparr> else None),
      cr_trusted_identity = None, cr_mediation = None\<rparr>"

definition compile_route :: "index \<Rightarrow> string \<times> document \<Rightarrow> compile_state \<Rightarrow> compile_state res" where
  "compile_route ix pd cs =
     (case snd pd of
        RouteBinding r \<Rightarrow>
          bindE (check_route ix cs r) (\<lambda>(cap, src).
          Inr ((note_match (rt_method r, rt_path r) (rt_uriRegex r) cs)
                 \<lparr>cs_routes := cs_routes cs @ [route_of r cap src]\<rparr>))
      | _ \<Rightarrow> Inr cs)"

section \<open>MCP endpoint and mediation bindings\<close>

definition required_trusted :: "string list" where
  "required_trusted =
     [''X-OUF-Gateway-Verified'', ''X-OUF-Service-Principal'', ''X-OUF-Principal-ID'',
      ''X-OUF-Tenant-ID'', ''X-OUF-Actor-Type'', ''X-OUF-Authentication-Context-Ref'',
      ''X-OUF-Token-Issuer'', ''X-OUF-Token-Audience'', ''X-OUF-Granted-Scopes'']"

definition plain_duplicate :: "compile_state \<Rightarrow> string \<times> string \<Rightarrow> bool" where
  "plain_duplicate cs m \<longleftrightarrow> m \<in> set (cs_matches cs) \<or> selected_has cs m"

definition mcp_route_of :: "mcp_endpoint_doc \<Rightarrow> compiled_route" where
  "mcp_route_of b =
     \<lparr>cr_id = me_id b, cr_uri = me_path b, cr_methods = [me_method b], cr_vars = None,
      cr_upstream_id = Some (me_sourceRef b),
      cr_service_id = Some (bb_service (me_backendBinding b)),
      cr_labels = [(''protocol'', ''MCP''), (''source'', me_sourceRef b),
                   (''exposure'', me_exposure b)],
      cr_backend = Some (me_backendBinding b),
      cr_proxy_rewrite = Some (bb_path (me_backendBinding b)), cr_limit_count = 60,
      cr_policy = \<lparr>pol_identity = me_identity b, pol_allowedServiceIdentities = None,
        pol_allowedActorTypes = Some (me_allowedActorTypes b),
        pol_requiredAudience = Some (me_requiredAudience b),
        pol_requiredScope = Some (me_requiredScope b),
        pol_maxRequestBytes = me_maxRequestBytes b, pol_timeoutSeconds = me_timeoutSeconds b\<rparr>,
      cr_capability = None, cr_query_contract = None, cr_recovery = None,
      cr_trusted_identity = Some \<lparr>ti_stripClientHeaders =
          sort_by (key_le id) (me_stripClientHeaders b),
        ti_claimProjection = me_claimProjection b\<rparr>,
      cr_mediation = None\<rparr>"

definition compile_mcp :: "index \<Rightarrow> string \<times> document \<Rightarrow> compile_state \<Rightarrow> compile_state res" where
  "compile_mcp ix pd cs =
     (case snd pd of
        McpEndpointBinding b \<Rightarrow>
       (case lookup_source ix (me_sourceRef b) of
          None \<Rightarrow> Inl (ConfigError ''unresolved sourceRef'')
        | Some src \<Rightarrow>
          if \<not> starts_with (src_endpointRef src) ''service://''
          then Inl (ConfigError ''MCP endpoint source must use service://'')
          else if plain_duplicate cs (me_method b, me_path b)
          then Inl (ConfigError ''duplicate route match'')
          else if \<not> set required_trusted \<subseteq> set (me_stripClientHeaders b)
          then Inl (ConfigError ''all trusted identity headers must be stripped from client input'')
          else if set (dict_keys (me_claimProjection b))
                  \<noteq> set required_trusted - {''X-OUF-Gateway-Verified''}
          then Inl (ConfigError ''trusted identity claim projection is incomplete'')
          else Inr ((note_match (me_method b, me_path b) None cs)
                      \<lparr>cs_routes := cs_routes cs @ [mcp_route_of b]\<rparr>))
      | _ \<Rightarrow> Inr cs)"

definition mediation_route_of :: "mcp_mediation_doc \<Rightarrow> compiled_route" where
  "mediation_route_of b =
     \<lparr>cr_id = mm_id b, cr_uri = mm_path b, cr_methods = [mm_method b], cr_vars = None,
      cr_upstream_id = None, cr_service_id = None,
      cr_labels = [(''protocol'', ''MCP''), (''mediation'', mm_mode b), (''exposure'', ''internal'')],
      cr_backend = None, cr_proxy_rewrite = None, cr_limit_count = 120,
      cr_policy = \<lparr>pol_identity = mm_identity b, pol_allowedServiceIdentities = None,
        pol_allowedActorTypes = None, pol_requiredAudience = None,
        pol_requiredScope = mm_requiredScope b,
        pol_maxRequestBytes = mm_maxRequestBytes b, pol_timeoutSeconds = mm_timeoutSeconds b\<rparr>,
      cr_capability = None, cr_query_contract = None, cr_recovery = None,
      cr_trusted_identity = None,
      cr_mediation = Some \<lparr>md_mode = mm_mode b, md_serviceIdentityRef = mm_serviceIdentityRef b,
        md_serviceIdentity = None\<rparr>\<rparr>"

definition compile_mediation :: "string \<times> document \<Rightarrow> compile_state \<Rightarrow> compile_state res" where
  "compile_mediation pd cs =
     (case snd pd of
        McpMediationBinding b \<Rightarrow>
          if plain_duplicate cs (mm_method b, mm_path b)
          then Inl (ConfigError ''duplicate route match'')
          else Inr ((note_match (mm_method b, mm_path b) None cs)
                      \<lparr>cs_routes := cs_routes cs @ [mediation_route_of b]\<rparr>)
      | _ \<Rightarrow> Inr cs)"

section \<open>The artifact as JSON\<close>

text \<open>
  The dictionaries that \<open>compile_config\<close> appends to \<open>routes\<close>, key by key, with the constant
  plugin settings; they are what is hashed, staged and recorded.
\<close>

definition plugins_json :: "compiled_route \<Rightarrow> json" where
  "plugins_json r = JObj ([
     (''request-id'', JObj [(''header_name'', JStr ''X-Correlation-ID''),
        (''include_in_response'', JBool True), (''algorithm'', JStr ''uuid'')]),
     (''limit-count'', JObj [(''count'', jnat (cr_limit_count r)), (''time_window'', JInt 60),
        (''rejected_code'', JInt 429)])]
     @ (case cr_proxy_rewrite r of None \<Rightarrow> []
        | Some p \<Rightarrow> [(''proxy-rewrite'', JObj [(''uri'', JStr p)])]))"

definition backend_json :: "backend_binding \<Rightarrow> json" where
  "backend_json b = JObj [(''service'', JStr (bb_service b)), (''port'', jnat (bb_port b)),
     (''path'', JStr (bb_path b))]"

definition capability_json :: "capability_meta \<Rightarrow> json" where
  "capability_json c = JObj [(''capabilityId'', JStr (cm_capabilityId c)),
     (''version'', JStr (cm_version c)), (''owner'', JStr (cm_owner c)),
     (''operationType'', JStr (cm_operationType c)), (''toolEligible'', JBool (cm_toolEligible c)),
     (''humanRequired'', JBool (cm_humanRequired c))]"

definition recovery_json :: "recovery_binding \<Rightarrow> json" where
  "recovery_json b = JObj [(''owner'', JStr (rb_owner b)), (''service'', JStr (rb_service b)),
     (''pathTemplate'', JStr (rb_pathTemplate b))]"

definition route_common_json :: "compiled_route \<Rightarrow> (string \<times> json) list" where
  "route_common_json r =
     [(''id'', JStr (cr_id r)), (''uri'', JStr (cr_uri r)), (''methods'', jstrs (cr_methods r))]
     @ (case cr_vars r of None \<Rightarrow> []
        | Some x \<Rightarrow> [(''vars'', JList [JList [JStr ''uri'', JStr ''~~'', JStr x]])])
     @ [(''upstream_id'', jopt JStr (cr_upstream_id r)), (''service_id'', jopt JStr (cr_service_id r)),
        (''labels'', jdict (cr_labels r)), (''plugins'', plugins_json r),
        (''x-ouf-capability'', jopt capability_json (cr_capability r)),
        (''x-ouf-query-contract'', (case cr_query_contract r of None \<Rightarrow> JObj [] | Some q \<Rightarrow> q)),
        (''x-ouf-recovery-binding'', jopt recovery_json (cr_recovery r))]"

definition binding_json :: "compiled_route \<Rightarrow> json" where
  "binding_json r = JObj (route_common_json r @
     [(''x-ouf-backend-binding'', jopt backend_json (cr_backend r)),
      (''x-ouf-policy'', JObj [
        (''identity'', JStr (pol_identity (cr_policy r))),
        (''allowedServiceIdentities'', jstrs (or_empty (pol_allowedServiceIdentities (cr_policy r)))),
        (''allowedActorTypes'', jstrs (or_empty (pol_allowedActorTypes (cr_policy r)))),
        (''maxRequestBytes'', jnat (pol_maxRequestBytes (cr_policy r))),
        (''timeoutSeconds'', jnat (pol_timeoutSeconds (cr_policy r))),
        (''requiredScope'', jopt JStr (pol_requiredScope (cr_policy r)))])])"

definition mcp_json :: "compiled_route \<Rightarrow> trusted_identity_meta \<Rightarrow> json" where
  "mcp_json r ti = JObj (route_common_json r @
     [(''x-ouf-backend-binding'', jopt backend_json (cr_backend r)),
      (''x-ouf-protocol'', JObj [(''name'', JStr ''MCP''), (''transport'', JStr ''STREAMABLE_HTTP''),
        (''stateless'', JBool True), (''protocolVersion'', JStr ''2026-07-28'')]),
      (''x-ouf-policy'', JObj [
        (''identity'', JStr (pol_identity (cr_policy r))),
        (''requiredAudience'', jopt JStr (pol_requiredAudience (cr_policy r))),
        (''requiredScope'', jopt JStr (pol_requiredScope (cr_policy r))),
        (''allowedActorTypes'', jstrs (or_empty (pol_allowedActorTypes (cr_policy r)))),
        (''maxRequestBytes'', jnat (pol_maxRequestBytes (cr_policy r))),
        (''timeoutSeconds'', jnat (pol_timeoutSeconds (cr_policy r)))]),
      (''x-ouf-trusted-identity'', JObj [
        (''stripClientHeaders'', jstrs (ti_stripClientHeaders ti)),
        (''claimProjection'', jdict (ti_claimProjection ti)),
        (''injectAfterVerification'', JObj [(''X-OUF-Gateway-Verified'', JStr ''true'')])])])"

definition mediation_json :: "compiled_route \<Rightarrow> mediation_meta \<Rightarrow> json" where
  "mediation_json r md = JObj (route_common_json r @
     [(''x-ouf-mediation'', JObj [(''mode'', JStr (md_mode md)),
        (''serviceIdentityRef'', JStr (md_serviceIdentityRef md))]),
      (''x-ouf-policy'', JObj [
        (''identity'', JStr (pol_identity (cr_policy r))),
        (''requiredScope'', jopt JStr (pol_requiredScope (cr_policy r))),
        (''maxRequestBytes'', jnat (pol_maxRequestBytes (cr_policy r))),
        (''timeoutSeconds'', jnat (pol_timeoutSeconds (cr_policy r)))])])"

definition route_json :: "compiled_route \<Rightarrow> json" where
  "route_json r =
     (case cr_trusted_identity r of Some ti \<Rightarrow> mcp_json r ti
      | None \<Rightarrow> (case cr_mediation r of Some md \<Rightarrow> mediation_json r md | None \<Rightarrow> binding_json r))"

definition output_json :: "compiled_route list \<Rightarrow> (string \<times> json) list" where
  "output_json rs = [(''formatVersion'', JStr ''1.0''), (''apisixVersion'', JStr ''3.18.x''),
     (''routes'', JList (map route_json rs))]"

definition artifact_json :: "artifact \<Rightarrow> json" where
  "artifact_json a =
     JObj (output_json (art_routes a) @ [(''configurationSha256'', JStr (art_sha256 a))])"

section \<open>The compiler\<close>

definition empty_compile_state :: compile_state where
  "empty_compile_state = \<lparr>cs_routes = [], cs_matches = [], cs_selected = []\<rparr>"

definition compile_config ::
  "(json \<Rightarrow> string) \<Rightarrow> (string \<times> document) list \<Rightarrow> artifact res" where
  "compile_config sha docs =
     bindE (foldE index_step docs []) (\<lambda>ix.
     bindE (mapE (check_extraction ix) docs) (\<lambda>_.
     bindE (foldE (compile_route ix) docs empty_compile_state) (\<lambda>cs1.
     bindE (foldE (compile_mcp ix) docs cs1) (\<lambda>cs2.
     bindE (foldE compile_mediation docs cs2) (\<lambda>cs3.
     let routes = sort_by (key_le cr_id) (cs_routes cs3)
     in Inr \<lparr>art_routes = routes, art_sha256 = sha (canon (JObj (output_json routes)))\<rparr>)))))"

section \<open>What the index holds\<close>

lemma index_sound:
  assumes "foldE index_step docs [] = Inr ix" and "map_of ix key = Some d"
  shows "d \<in> snd ` set docs \<and> key = (doc_kind d, doc_ref d)"
proof -
  have "\<forall>key d. map_of ix key = Some d \<longrightarrow> d \<in> snd ` set docs \<and> key = (doc_kind d, doc_ref d)"
  proof (rule foldE_invariant [OF assms(1),
        where I = "\<lambda>ix. \<forall>key d. map_of ix key = Some d
          \<longrightarrow> d \<in> snd ` set docs \<and> key = (doc_kind d, doc_ref d)"])
    fix pd ix ix'
    assume "pd \<in> set docs" and "\<forall>key d. map_of ix key = Some d
        \<longrightarrow> d \<in> snd ` set docs \<and> key = (doc_kind d, doc_ref d)" and "index_step pd ix = Inr ix'"
    then show "\<forall>key d. map_of ix' key = Some d
        \<longrightarrow> d \<in> snd ` set docs \<and> key = (doc_kind d, doc_ref d)"
      by (auto simp: index_step_def dict_simps Let_def split: if_splits)
  qed simp
  with assms(2) show ?thesis by blast
qed

lemma lookup_capability_sound:
  "foldE index_step docs [] = Inr ix \<Longrightarrow> lookup_capability ix r = Some d
     \<Longrightarrow> Capability d \<in> snd ` set docs \<and> r = cap_id d @ ''@'' @ cap_version d"
  by (auto split: option.splits document.splits dest!: index_sound)

lemma lookup_source_sound:
  "foldE index_step docs [] = Inr ix \<Longrightarrow> lookup_source ix r = Some d
     \<Longrightarrow> SourceRuntimeProfile d \<in> snd ` set docs \<and> r = src_id d @ ''@'' @ src_version d"
  by (auto split: option.splits document.splits dest!: index_sound)

text \<open>The conditions that an accepted route binding satisfies.\<close>

definition route_governed :: "route_doc \<Rightarrow> source_doc \<Rightarrow> bool" where
  "route_governed r src \<longleftrightarrow>
     (rt_exposure r = ''internal'' \<longrightarrow> or_empty (rt_allowedServiceIdentities r) \<noteq> [])
     \<and> (rt_exposure r = ''public'' \<longrightarrow> rt_identity r \<in> {''OIDC'', ''M2M''})
     \<and> governed_scheme (src_endpointRef src)
     \<and> (is_wildcard (rt_path r) \<longrightarrow> ends_with (rt_path r) ''/*''
          \<and> count_list (rt_path r) CHR ''*'' = 1 \<and> bb_path (rt_backendBinding r) = rt_path r)
     \<and> (truthy (rt_uriRegex r) \<longrightarrow> is_wildcard (rt_path r)
          \<and> starts_with (the (rt_uriRegex r)) (''^'' @ butlast (rt_path r)))"

lemma check_route_Inr:
  assumes "check_route ix cs r = Inr (cap, src)"
  shows "lookup_capability ix (rt_capabilityRef r) = Some cap"
    and "lookup_source ix (rt_sourceRef r) = Some src"
    and "\<not> duplicate_match cs (rt_method r, rt_path r) (rt_uriRegex r)"
    and "route_governed r src"
  using assms
  by (auto simp: check_route_def route_governed_def
      simp del: lookup_capability.simps lookup_source.simps lookup_extraction.simps
      split: option.splits if_splits)

section \<open>No two routes compete\<close>

text \<open>
  Two routes compete when they share method and path and either of them has no URI regex, or
  both have the same one: then a request could match both.
\<close>

definition competes :: "compiled_route \<Rightarrow> compiled_route \<Rightarrow> bool" where
  "competes a b \<longleftrightarrow> cr_methods a = cr_methods b \<and> cr_uri a = cr_uri b
     \<and> (cr_vars a = None \<or> cr_vars b = None \<or> cr_vars a = cr_vars b)"

definition route_recorded :: "compile_state \<Rightarrow> compiled_route \<Rightarrow> bool" where
  "route_recorded cs r \<longleftrightarrow> (\<exists>m. cr_methods r = [m]
     \<and> (case cr_vars r of None \<Rightarrow> (m, cr_uri r) \<in> set (cs_matches cs)
        | Some x \<Rightarrow> (m, cr_uri r, x) \<in> set (cs_selected cs)))"

definition matches_recorded :: "compile_state \<Rightarrow> bool" where
  "matches_recorded cs \<longleftrightarrow> (\<forall>r \<in> set (cs_routes cs). route_recorded cs r)
     \<and> sorted_wrt (\<lambda>a b. \<not> competes a b) (cs_routes cs)"

lemma selected_has_iff: "selected_has cs (m, p) \<longleftrightarrow> (\<exists>x. (m, p, x) \<in> set (cs_selected cs))"
  by (auto simp: selected_has_def list_ex_iff)

lemma note_match_routes [simp]: "cs_routes (note_match m x cs) = cs_routes cs"
  by (simp add: note_match_def split: option.splits)

lemma note_match_grows:
  "set (cs_matches cs) \<subseteq> set (cs_matches (note_match m x cs))"
  "set (cs_selected cs) \<subseteq> set (cs_selected (note_match m x cs))"
  by (auto simp: note_match_def split: option.splits)

lemma route_recorded_routes [simp]: "route_recorded (cs\<lparr>cs_routes := rs\<rparr>) r = route_recorded cs r"
  by (cases "cr_vars r") (simp_all add: route_recorded_def)

lemma route_recorded_note: "route_recorded cs r \<Longrightarrow> route_recorded (note_match m x cs) r"
  using note_match_grows [of cs m x]
  by (auto simp: route_recorded_def split: option.splits)

lemma route_recorded_new:
  "cr_methods r = [m] \<Longrightarrow> route_recorded (note_match (m, cr_uri r) (cr_vars r) cs) r"
  by (auto simp: route_recorded_def note_match_def split: option.splits)

lemma free_match_competes:
  assumes "route_recorded cs a" and "\<not> duplicate_match cs (m, cr_uri r) (cr_vars r)"
    and "cr_methods r = [m]"
  shows "\<not> competes a r"
  using assms
  by (cases "cr_vars a"; cases "cr_vars r")
    (auto simp: route_recorded_def competes_def duplicate_match_def selected_has_iff)

text \<open>Adding a route whose match is free keeps the record of matches.\<close>

lemma matches_recorded_add:
  assumes "matches_recorded cs" and "\<not> duplicate_match cs (m, cr_uri r) (cr_vars r)"
    and "cr_methods r = [m]"
  shows "matches_recorded
    ((note_match (m, cr_uri r) (cr_vars r) cs)\<lparr>cs_routes := cs_routes cs @ [r]\<rparr>)"
  using assms free_match_competes [OF _ assms(2,3)] route_recorded_note route_recorded_new
  by (auto simp: matches_recorded_def sorted_wrt_append)

lemma plain_duplicate_iff: "plain_duplicate cs m \<longleftrightarrow> duplicate_match cs m None"
  by (simp add: plain_duplicate_def duplicate_match_def)

definition regexes_nonempty :: "(string \<times> document) list \<Rightarrow> bool" where
  "regexes_nonempty docs \<longleftrightarrow>
     (\<forall>pd \<in> set docs. case snd pd of RouteBinding r \<Rightarrow> rt_uriRegex r \<noteq> Some [] | _ \<Rightarrow> True)"

lemma compile_route_recorded:
  assumes "compile_route ix pd cs = Inr cs'" and "matches_recorded cs"
    and "case snd pd of RouteBinding r \<Rightarrow> rt_uriRegex r \<noteq> Some [] | _ \<Rightarrow> True"
  shows "matches_recorded cs'"
proof (cases "snd pd")
  case (RouteBinding r)
  with assms(1) obtain cap src where chk: "check_route ix cs r = Inr (cap, src)"
    and cs': "cs' = (note_match (rt_method r, rt_path r) (rt_uriRegex r) cs)
      \<lparr>cs_routes := cs_routes cs @ [route_of r cap src]\<rparr>"
    by (auto simp: compile_route_def result_simps)
  have "cr_vars (route_of r cap src) = rt_uriRegex r"
    using assms(3) RouteBinding by (auto simp: route_of_def truthy_def split: option.splits)
  with matches_recorded_add [OF assms(2), of "rt_method r" "route_of r cap src"]
    check_route_Inr(3) [OF chk] show ?thesis
    unfolding cs' by (simp add: route_of_def)
qed (use assms in \<open>auto simp: compile_route_def\<close>)

lemma compile_mcp_recorded:
  assumes "compile_mcp ix pd cs = Inr cs'" and "matches_recorded cs"
  shows "matches_recorded cs'"
proof (cases "snd pd")
  case (McpEndpointBinding b)
  let ?r = "mcp_route_of b"
  have "\<not> duplicate_match cs (me_method b, cr_uri ?r) (cr_vars ?r)"
    and "cs' = (note_match (me_method b, cr_uri ?r) (cr_vars ?r) cs)
      \<lparr>cs_routes := cs_routes cs @ [?r]\<rparr>" and "cr_methods ?r = [me_method b]"
    using assms(1) McpEndpointBinding
    by (simp_all add: compile_mcp_def plain_duplicate_iff mcp_route_of_def
        del: lookup_source.simps split: option.splits if_splits)
  then show ?thesis using matches_recorded_add [OF assms(2)] by simp
qed (use assms in \<open>auto simp: compile_mcp_def\<close>)

lemma compile_mediation_recorded:
  assumes "compile_mediation pd cs = Inr cs'" and "matches_recorded cs"
  shows "matches_recorded cs'"
proof (cases "snd pd")
  case (McpMediationBinding b)
  let ?r = "mediation_route_of b"
  have "\<not> duplicate_match cs (mm_method b, cr_uri ?r) (cr_vars ?r)"
    and "cs' = (note_match (mm_method b, cr_uri ?r) (cr_vars ?r) cs)
      \<lparr>cs_routes := cs_routes cs @ [?r]\<rparr>" and "cr_methods ?r = [mm_method b]"
    using assms(1) McpMediationBinding
    by (simp_all add: compile_mediation_def plain_duplicate_iff mediation_route_of_def
        split: if_splits)
  then show ?thesis using matches_recorded_add [OF assms(2)] by simp
qed (use assms in \<open>auto simp: compile_mediation_def\<close>)

lemma competes_sym: "\<not> competes a b \<Longrightarrow> \<not> competes b a"
  by (auto simp: competes_def)

lemma compile_config_Inr:
  assumes "compile_config sha docs = Inr a"
  obtains ix cs1 cs2 cs3 where "foldE index_step docs [] = Inr ix"
    "foldE (compile_route ix) docs empty_compile_state = Inr cs1"
    "foldE (compile_mcp ix) docs cs1 = Inr cs2" "foldE compile_mediation docs cs2 = Inr cs3"
    "art_routes a = sort_by (key_le cr_id) (cs_routes cs3)"
    "art_sha256 a = sha (canon (JObj (output_json (art_routes a))))"
  using assms by (auto simp: compile_config_def result_simps Let_def)

text \<open>
  C39. No two compiled routes are declared for the same match: two that share a method and a path
  both carry URI regexes, and these differ. This is the duplicate check of the compiler and no more:
  a wildcard path and a path under it, or two regexes that overlap, are different matches for it. (The
  schema excludes the empty regex.)
\<close>

theorem compile_no_competing_routes:
  assumes "compile_config sha docs = Inr a" and "regexes_nonempty docs"
  shows "sorted_wrt (\<lambda>r q. \<not> competes r q) (art_routes a)"
proof -
  from assms(1) obtain ix cs1 cs2 cs3 where
    1: "foldE (compile_route ix) docs empty_compile_state = Inr cs1" and
    2: "foldE (compile_mcp ix) docs cs1 = Inr cs2" and
    3: "foldE compile_mediation docs cs2 = Inr cs3" and
    r: "art_routes a = sort_by (key_le cr_id) (cs_routes cs3)"
    by (rule compile_config_Inr)
  have "matches_recorded empty_compile_state"
    by (simp add: matches_recorded_def empty_compile_state_def)
  with 1 have "matches_recorded cs1"
    by (rule foldE_invariant)
      (use assms(2) compile_route_recorded in \<open>auto simp: regexes_nonempty_def\<close>)
  with 2 have "matches_recorded cs2" by (rule foldE_invariant) (rule compile_mcp_recorded)
  with 3 have "matches_recorded cs3" by (rule foldE_invariant) (rule compile_mediation_recorded)
  then show ?thesis
    unfolding r by (subst sort_by_pairwise) (auto dest: competes_sym simp: matches_recorded_def)
qed

section \<open>A sample configuration\<close>

definition sample_cap :: capability_doc where
  "sample_cap = \<lparr>cap_id = ''c'', cap_version = ''1.0.0'', cap_owner = ''udp'',
     cap_operationType = ''SEARCH'', cap_scope = ''s'', cap_toolEligible = True,
     cap_humanRequired = None\<rparr>"

definition sample_src :: source_doc where
  "sample_src = \<lparr>src_id = ''src'', src_version = ''1'', src_endpointRef = ''service://b/x'',
     src_ownerOutcomePath = None\<rparr>"

definition sample_route :: "string \<Rightarrow> string \<Rightarrow> string \<Rightarrow> route_doc" where
  "sample_route i v path = \<lparr>rt_id = i, rt_version = v, rt_exposure = ''internal'',
     rt_capabilityRef = ''c@1.0.0'', rt_sourceRef = ''src@1'', rt_extractionProfileRef = None,
     rt_method = ''GET'', rt_path = path, rt_uriRegex = None, rt_query = None,
     rt_backendBinding = \<lparr>bb_service = ''b'', bb_port = 8080, bb_path = path\<rparr>,
     rt_identity = ''M2M'', rt_allowedServiceIdentities = Some [''mcp''],
     rt_allowedActorTypes = None, rt_maxRequestBytes = 1000, rt_timeoutSeconds = 5\<rparr>"

definition sample_docs :: "(string \<times> document) list" where
  "sample_docs = [(''a'', Capability sample_cap), (''b'', SourceRuntimeProfile sample_src),
     (''r1'', RouteBinding (sample_route ''r'' ''1'' ''/one'')),
     (''r2'', RouteBinding (sample_route ''r'' ''2'' ''/two''))]"

lemmas compile_eval = compile_config_def sample_docs_def sample_cap_def sample_src_def
  sample_route_def index_step_def check_extraction_def compile_route_def compile_mcp_def
  compile_mediation_def check_route_def route_of_def duplicate_match_def note_match_def
  selected_has_def is_wildcard_def governed_scheme_def starts_with_def truthy_def or_empty_def
  empty_compile_state_def key_le_def Let_def

lemma sample_docs_compile:
  "compile_config sha sample_docs =
     (let rs = [route_of (sample_route ''r'' ''1'' ''/one'') sample_cap sample_src,
                route_of (sample_route ''r'' ''2'' ''/two'') sample_cap sample_src]
      in Inr \<lparr>art_routes = rs, art_sha256 = sha (canon (JObj (output_json rs)))\<rparr>)"
  by (simp add: compile_eval)

theorem compile_no_competing_routes_witness:
  "\<exists>a. compile_config (\<lambda>_. ''h'') sample_docs = Inr a
     \<and> sorted_wrt (\<lambda>r q. \<not> competes r q) (art_routes a) \<and> length (art_routes a) = 2"
proof -
  obtain a where a: "compile_config (\<lambda>_. ''h'') sample_docs = Inr a" "length (art_routes a) = 2"
    by (auto simp: sample_docs_compile Let_def)
  have "regexes_nonempty sample_docs"
    by (simp add: regexes_nonempty_def sample_docs_def sample_route_def)
  with compile_no_competing_routes [OF a(1)] a show ?thesis by blast
qed

section \<open>Every route is governed\<close>

text \<open>The routes a state holds come from bindings of the configuration.\<close>

definition binding_route :: "(string \<times> document) list \<Rightarrow> compiled_route \<Rightarrow> bool" where
  "binding_route docs q \<longleftrightarrow>
     (\<exists>r cap src. RouteBinding r \<in> snd ` set docs \<and> Capability cap \<in> snd ` set docs
        \<and> SourceRuntimeProfile src \<in> snd ` set docs
        \<and> rt_capabilityRef r = cap_id cap @ ''@'' @ cap_version cap
        \<and> rt_sourceRef r = src_id src @ ''@'' @ src_version src
        \<and> route_governed r src \<and> q = route_of r cap src)
     \<or> (\<exists>b. McpEndpointBinding b \<in> snd ` set docs
        \<and> set required_trusted \<subseteq> set (me_stripClientHeaders b)
        \<and> set (dict_keys (me_claimProjection b)) = set required_trusted - {''X-OUF-Gateway-Verified''}
        \<and> q = mcp_route_of b)
     \<or> (\<exists>b. McpMediationBinding b \<in> snd ` set docs \<and> q = mediation_route_of b)"

lemma compile_route_binding:
  assumes "foldE index_step docs [] = Inr ix" and "pd \<in> set docs"
    and "compile_route ix pd cs = Inr cs'" and "\<forall>q \<in> set (cs_routes cs). binding_route docs q"
  shows "\<forall>q \<in> set (cs_routes cs'). binding_route docs q"
proof (cases "snd pd")
  case (RouteBinding r)
  with assms(3) obtain cap src where chk: "check_route ix cs r = Inr (cap, src)"
    and cs': "cs_routes cs' = cs_routes cs @ [route_of r cap src]"
    by (auto simp: compile_route_def result_simps)
  have "RouteBinding r \<in> snd ` set docs" using assms(2) RouteBinding by force
  with check_route_Inr [OF chk] lookup_capability_sound [OF assms(1)] lookup_source_sound [OF assms(1)]
  have "binding_route docs (route_of r cap src)" unfolding binding_route_def by blast
  with assms(4) cs' show ?thesis by auto
qed (use assms in \<open>auto simp: compile_route_def\<close>)

lemma compile_mcp_binding:
  assumes "pd \<in> set docs" and "compile_mcp ix pd cs = Inr cs'"
    and "\<forall>q \<in> set (cs_routes cs). binding_route docs q"
  shows "\<forall>q \<in> set (cs_routes cs'). binding_route docs q"
proof (cases "snd pd")
  case (McpEndpointBinding b)
  have "McpEndpointBinding b \<in> snd ` set docs" using assms(1) McpEndpointBinding by force
  moreover have routes: "set required_trusted \<subseteq> set (me_stripClientHeaders b)"
    "set (dict_keys (me_claimProjection b)) = set required_trusted - {''X-OUF-Gateway-Verified''}"
    "cs_routes cs' = cs_routes cs @ [mcp_route_of b]"
    using assms(2) McpEndpointBinding
    by (auto simp: compile_mcp_def simp del: lookup_source.simps split: option.splits if_splits)
  ultimately have "binding_route docs (mcp_route_of b)" unfolding binding_route_def by blast
  with routes(3) assms(3) show ?thesis by simp
qed (use assms in \<open>auto simp: compile_mcp_def\<close>)

lemma compile_mediation_binding:
  assumes "pd \<in> set docs" and "compile_mediation pd cs = Inr cs'"
    and "\<forall>q \<in> set (cs_routes cs). binding_route docs q"
  shows "\<forall>q \<in> set (cs_routes cs'). binding_route docs q"
proof (cases "snd pd")
  case (McpMediationBinding b)
  have "McpMediationBinding b \<in> snd ` set docs" using assms(1) McpMediationBinding by force
  then have "binding_route docs (mediation_route_of b)" unfolding binding_route_def by blast
  moreover have "cs_routes cs' = cs_routes cs @ [mediation_route_of b]"
    using assms(2) McpMediationBinding by (auto simp: compile_mediation_def split: if_splits)
  ultimately show ?thesis using assms(3) by simp
qed (use assms in \<open>auto simp: compile_mediation_def\<close>)

lemma compiled_from_bindings:
  assumes "compile_config sha docs = Inr a" and "q \<in> set (art_routes a)"
  shows "binding_route docs q"
proof -
  from assms(1) obtain ix cs1 cs2 cs3 where ix: "foldE index_step docs [] = Inr ix" and
    1: "foldE (compile_route ix) docs empty_compile_state = Inr cs1" and
    2: "foldE (compile_mcp ix) docs cs1 = Inr cs2" and
    3: "foldE compile_mediation docs cs2 = Inr cs3" and
    r: "art_routes a = sort_by (key_le cr_id) (cs_routes cs3)"
    by (rule compile_config_Inr)
  let ?I = "\<lambda>cs. \<forall>q \<in> set (cs_routes cs). binding_route docs q"
  have "?I empty_compile_state" by (simp add: empty_compile_state_def)
  with 1 have "?I cs1" by (rule foldE_invariant) (rule compile_route_binding [OF ix])
  with 2 have "?I cs2" by (rule foldE_invariant) (rule compile_mcp_binding)
  with 3 have "?I cs3" by (rule foldE_invariant) (rule compile_mediation_binding)
  with r assms(2) show ?thesis by simp
qed

text \<open>
  The compiler fails closed. A compiled route that carries a capability comes from a binding
  whose capability and source exist in the same configuration; if it is internal it names the
  service identities it admits, if it is public it requires a token, and a wildcard route keeps
  its bounded namespace. A compiled MCP endpoint strips every trusted identity header from the
  client's request.
\<close>

theorem compiled_routes_governed:
  assumes "compile_config sha docs = Inr a" and "q \<in> set (art_routes a)"
  shows "(cr_capability q \<noteq> None \<longrightarrow>
      (\<exists>r cap src. RouteBinding r \<in> snd ` set docs \<and> Capability cap \<in> snd ` set docs
        \<and> SourceRuntimeProfile src \<in> snd ` set docs
        \<and> rt_capabilityRef r = cap_id cap @ ''@'' @ cap_version cap
        \<and> rt_sourceRef r = src_id src @ ''@'' @ src_version src \<and> route_governed r src
        \<and> q = route_of r cap src))
    \<and> (\<forall>t. cr_trusted_identity q = Some t
        \<longrightarrow> set required_trusted \<subseteq> set (ti_stripClientHeaders t))"
proof -
  from compiled_from_bindings [OF assms] consider
    (route) r cap src where "RouteBinding r \<in> snd ` set docs" "Capability cap \<in> snd ` set docs"
        "SourceRuntimeProfile src \<in> snd ` set docs"
        "rt_capabilityRef r = cap_id cap @ ''@'' @ cap_version cap"
        "rt_sourceRef r = src_id src @ ''@'' @ src_version src" "route_governed r src"
        "q = route_of r cap src"
    | (mcp) b where "set required_trusted \<subseteq> set (me_stripClientHeaders b)" "q = mcp_route_of b"
    | (mediation) b where "q = mediation_route_of b"
    unfolding binding_route_def by blast
  then show ?thesis
  proof cases
    case route
    then have "cr_trusted_identity q = None" by (simp add: route_of_def)
    with route show ?thesis by (intro conjI impI) (blast, simp)
  next
    case mcp
    then show ?thesis by (simp add: mcp_route_of_def)
  next
    case mediation
    then show ?thesis by (simp add: mediation_route_of_def)
  qed
qed

theorem compiled_routes_governed_witness:
  "\<exists>a q. compile_config (\<lambda>_. ''h'') sample_docs = Inr a \<and> q \<in> set (art_routes a)
     \<and> (\<exists>r src. route_governed r src \<and> cr_id q = rt_id r)"
proof -
  define q where "q = route_of (sample_route ''r'' ''1'' ''/one'') sample_cap sample_src"
  obtain a where a: "compile_config (\<lambda>_. ''h'') sample_docs = Inr a" "q \<in> set (art_routes a)"
    by (auto simp: sample_docs_compile Let_def q_def)
  have "cr_capability q \<noteq> None" by (simp add: q_def route_of_def)
  with compiled_routes_governed [OF a] obtain r cap src
    where "route_governed r src" "q = route_of r cap src" by blast
  moreover from this have "cr_id q = rt_id r" by (simp add: route_of_def)
  ultimately show ?thesis using a by blast
qed

section \<open>Order, completeness, identity\<close>

lemma compile_route_length:
  "compile_route ix pd cs = Inr cs' \<Longrightarrow> length (cs_routes cs')
     = length (cs_routes cs) + (if doc_kind (snd pd) = KRoute then 1 else 0)"
  by (cases "snd pd") (auto simp: compile_route_def result_simps)

lemma compile_mcp_length:
  "compile_mcp ix pd cs = Inr cs' \<Longrightarrow> length (cs_routes cs')
     = length (cs_routes cs) + (if doc_kind (snd pd) = KMcpEndpoint then 1 else 0)"
  by (cases "snd pd")
    (auto simp: compile_mcp_def simp del: lookup_source.simps split: option.splits if_splits)

lemma compile_mediation_length:
  "compile_mediation pd cs = Inr cs' \<Longrightarrow> length (cs_routes cs')
     = length (cs_routes cs) + (if doc_kind (snd pd) = KMcpMediation then 1 else 0)"
  by (cases "snd pd") (auto simp: compile_mediation_def split: if_splits)

lemma foldE_length:
  assumes "foldE f docs cs = Inr cs'"
    and "\<And>pd cs cs'. f pd cs = Inr cs' \<Longrightarrow> length (cs_routes cs')
      = length (cs_routes cs) + (if P pd then 1 else 0)"
  shows "length (cs_routes cs') = length (cs_routes cs) + length (filter P docs)"
  using assms(1)
proof (induction docs arbitrary: cs)
  case Nil
  then show ?case by simp
next
  case (Cons pd docs)
  then obtain cs1 where "f pd cs = Inr cs1" "foldE f docs cs1 = Inr cs'"
    by (auto simp: result_simps)
  with Cons.IH [of cs1] assms(2) [of pd cs cs1] show ?case by simp
qed

definition is_binding :: "document \<Rightarrow> bool" where
  "is_binding d \<longleftrightarrow> doc_kind d \<in> {KRoute, KMcpEndpoint, KMcpMediation}"

lemma filter_kinds:
  "length (filter (\<lambda>pd. is_binding (snd pd)) docs) =
     length (filter (\<lambda>pd. doc_kind (snd pd) = KRoute) docs)
     + length (filter (\<lambda>pd. doc_kind (snd pd) = KMcpEndpoint) docs)
     + length (filter (\<lambda>pd. doc_kind (snd pd) = KMcpMediation) docs)"
  by (induction docs) (auto simp: is_binding_def)

text \<open>
  The output is complete and in a fixed order: every binding document yields exactly one
  route, and the routes come sorted by id, so that the order of the files does not show.
\<close>

theorem compile_complete_sorted:
  assumes "compile_config sha docs = Inr a"
  shows "length (art_routes a) = length (filter (\<lambda>pd. is_binding (snd pd)) docs)
    \<and> sorted (map cr_id (art_routes a)) \<and> art_sha256 a = sha (canon (JObj (output_json (art_routes a))))"
proof -
  from assms obtain ix cs1 cs2 cs3 where
    1: "foldE (compile_route ix) docs empty_compile_state = Inr cs1" and
    2: "foldE (compile_mcp ix) docs cs1 = Inr cs2" and
    3: "foldE compile_mediation docs cs2 = Inr cs3" and
    r: "art_routes a = sort_by (key_le cr_id) (cs_routes cs3)" and h: "art_sha256 a = sha (canon (JObj (output_json (art_routes a))))"
    by (rule compile_config_Inr)
  have "length (art_routes a) = length (filter (\<lambda>pd. is_binding (snd pd)) docs)"
    using foldE_length [OF 1 compile_route_length] foldE_length [OF 2 compile_mcp_length]
      foldE_length [OF 3 compile_mediation_length]
    by (simp add: r filter_kinds empty_compile_state_def)
  moreover have "sorted_wrt (key_le cr_id) (art_routes a)"
    unfolding r by (rule key_order.sort_by_sorted)
  ultimately show ?thesis using h by (simp add: sorted_map key_le_def [abs_def])
qed

theorem compile_complete_sorted_witness:
  "\<exists>a. compile_config (\<lambda>_. ''h'') sample_docs = Inr a \<and> length (art_routes a) = 2
     \<and> art_sha256 a = ''h''"
proof -
  obtain a where a: "compile_config (\<lambda>_. ''h'') sample_docs = Inr a"
    by (auto simp: sample_docs_compile Let_def)
  have "length (filter (\<lambda>pd. is_binding (snd pd)) sample_docs) = 2"
    by (simp add: sample_docs_def is_binding_def)
  with compile_complete_sorted [OF a] a show ?thesis by simp
qed

text \<open>
  A route id need not be unique in the output: the duplicate check is on kind, id and
  version, so two versions of one binding with different paths compile to two routes with the
  same id, of which an id-keyed route table keeps one.
\<close>

theorem compile_accepts_duplicate_ids:
  "\<exists>docs a. compile_config sha docs = Inr a \<and> \<not> distinct (map cr_id (art_routes a))
     \<and> distinct (map cr_uri (art_routes a))"
proof -
  obtain a where a: "compile_config sha sample_docs = Inr a"
    "map cr_id (art_routes a) = [''r'', ''r'']" "map cr_uri (art_routes a) = [''/one'', ''/two'']"
    by (auto simp: sample_docs_compile Let_def route_of_def sample_route_def)
  have "\<not> distinct (map cr_id (art_routes a)) \<and> distinct (map cr_uri (art_routes a))"
    unfolding a(2,3) by simp
  with a(1) show ?thesis by blast
qed

end
