(* ===== verification/Activation.thy ===== *)
theory Activation
  imports Compile
begin

text \<open>
  The activation gate, \<open>tools/activation_gate.py\<close>: what a route binding, its capability, its
  source and its extraction profile must satisfy together before publication. The authorization
  gate is an optional parameter: the port \<open>binding_exists\<close>.
\<close>

type_synonym auth_gate = "string \<Rightarrow> string \<Rightarrow> bool"

record activation_evidence =
  ev_capability_ref :: string
  ev_source_ref :: string
  ev_extraction_ref :: "string option"
  ev_backend_service :: string
  ev_authorization_checked :: bool

text \<open>\<open>endpoint_ref.removeprefix("service://").split("/", 1)[0]\<close>\<close>

definition service_of_endpoint :: "string \<Rightarrow> string" where
  "service_of_endpoint e = takeWhile (\<lambda>c. c \<noteq> CHR ''/'') (drop (length ''service://'') e)"

definition validate_route_activation ::
  "route_doc \<Rightarrow> capability_doc \<Rightarrow> source_doc \<Rightarrow> extraction_doc option \<Rightarrow> auth_gate option
     \<Rightarrow> activation_evidence res" where
  "validate_route_activation route cap src ext auth =
     (if cap_id cap @ ''@'' @ cap_version cap \<noteq> rt_capabilityRef route
      then Inl (ActivationRejected ''CAPABILITY_REFERENCE_MISMATCH'')
      else if src_id src @ ''@'' @ src_version src \<noteq> rt_sourceRef route
      then Inl (ActivationRejected ''SOURCE_RUNTIME_REFERENCE_MISMATCH'')
      else if truthy (rt_extractionProfileRef route)
           \<and> (case ext of None \<Rightarrow> True
              | Some x \<Rightarrow> Some (ext_id x @ ''@'' @ ext_version x) \<noteq> rt_extractionProfileRef route)
      then Inl (ActivationRejected ''EXTRACTION_REFERENCE_MISMATCH'')
      else if truthy (rt_extractionProfileRef route) \<and> ext_sourceRef (the ext) \<noteq> rt_sourceRef route
      then Inl (ActivationRejected ''EXTRACTION_SOURCE_MISMATCH'')
      else if starts_with (src_endpointRef src) ''service://''
           \<and> service_of_endpoint (src_endpointRef src) \<noteq> bb_service (rt_backendBinding route)
      then Inl (ActivationRejected ''BACKEND_SOURCE_BINDING_MISMATCH'')
      else if (case auth of None \<Rightarrow> False
               | Some gate \<Rightarrow> \<not> gate (rt_capabilityRef route) (cap_scope cap))
      then Inl (ActivationRejected ''AUTHORIZATION_BINDING_MISSING'')
      else Inr \<lparr>ev_capability_ref = rt_capabilityRef route, ev_source_ref = rt_sourceRef route,
             ev_extraction_ref = rt_extractionProfileRef route,
             ev_backend_service = bb_service (rt_backendBinding route),
             ev_authorization_checked = (auth \<noteq> None)\<rparr>)"

text \<open>What an accepted activation guarantees about the four documents.\<close>

definition activation_consistent ::
  "route_doc \<Rightarrow> capability_doc \<Rightarrow> source_doc \<Rightarrow> extraction_doc option \<Rightarrow> auth_gate option \<Rightarrow> bool" where
  "activation_consistent route cap src ext auth \<longleftrightarrow>
     cap_id cap @ ''@'' @ cap_version cap = rt_capabilityRef route
     \<and> src_id src @ ''@'' @ src_version src = rt_sourceRef route
     \<and> (truthy (rt_extractionProfileRef route) \<longrightarrow>
          (\<exists>x. ext = Some x \<and> Some (ext_id x @ ''@'' @ ext_version x) = rt_extractionProfileRef route
             \<and> ext_sourceRef x = rt_sourceRef route))
     \<and> (\<forall>rest. src_endpointRef src = ''service://'' @ rest \<longrightarrow>
          takeWhile (\<lambda>c. c \<noteq> CHR ''/'') rest = bb_service (rt_backendBinding route))
     \<and> (\<forall>gate. auth = Some gate \<longrightarrow> gate (rt_capabilityRef route) (cap_scope cap))"

lemma service_endpoint_iff:
  "(starts_with e ''service://'' \<longrightarrow> service_of_endpoint e = s)
     \<longleftrightarrow> (\<forall>rest. e = ''service://'' @ rest \<longrightarrow> takeWhile (\<lambda>c. c \<noteq> CHR ''/'') rest = s)"
  by (auto simp: starts_with_def service_of_endpoint_def prefix_def)

lemma activation_decides:
  "is_ok (validate_route_activation route cap src ext auth)
     = activation_consistent route cap src ext auth"
  unfolding validate_route_activation_def activation_consistent_def result_simps is_ok.simps
    service_endpoint_iff [symmetric]
  by (cases ext; cases auth; simp only: option.case option.sel option.inject; blast)

text \<open>
  The gate decides exactly the consistency of the four documents: it accepts when, and only
  when, the references match, the extraction profile belongs to the same source, a
  \<open>service://\<close> source names the bound backend and the authorization binding exists; and the
  evidence it returns says whether authorization was checked.
\<close>

theorem activation_gate_exact:
  "is_ok (validate_route_activation route cap src ext auth)
     = activation_consistent route cap src ext auth
   \<and> (case validate_route_activation route cap src ext auth of
        Inl e \<Rightarrow> True
      | Inr ev \<Rightarrow> ev_authorization_checked ev = (auth \<noteq> None)
          \<and> ev_backend_service ev = bb_service (rt_backendBinding route))"
  by (simp only: activation_decides) (simp add: validate_route_activation_def)

end
