(* ===== verification/Control_Plane.thy ===== *)
theory Control_Plane
  imports Json
begin

text \<open>
  The two halves of the APISIX control plane: \<open>tools/apisix_control_plane.py\<close>, the publication
  adapter with content-addressed revisions over an admin port, and \<open>tools/apisix_admin_http.py\<close>,
  that port over the Admin API. The Admin API itself, the JSON parser and the hash are
  parameters. Every exchange with the server is logged, so that the frame laws of the two
  interfaces are about the requests the code sends, whatever the server answers.
\<close>

type_synonym checks = "(string, bool) dict"

text \<open>\<open>APISIXAdminPort\<close>; \<open>active_revision\<close> returns what the server holds, or \<open>None\<close>.\<close>

record 'w admin_port =
  ap_health :: "('w, bool) io"
  ap_put :: "string \<Rightarrow> json \<Rightarrow> ('w, unit) io"
  ap_read :: "string \<Rightarrow> ('w, json) io"
  ap_probe :: "string \<Rightarrow> ('w, checks) io"
  ap_activate :: "string \<Rightarrow> ('w, unit) io"
  ap_active :: "('w, json) io"
  ap_delete :: "string \<Rightarrow> ('w, unit) io"

text \<open>The publisher's port \<open>ControlPlane\<close>.\<close>

record 'w control_plane =
  pl_healthy :: "('w, bool) io"
  pl_stage :: "json \<Rightarrow> ('w, string) io"
  pl_verify :: "string \<Rightarrow> json \<Rightarrow> ('w, checks) io"
  pl_activate :: "string \<Rightarrow> ('w, unit) io"
  pl_rollback :: "string \<Rightarrow> ('w, unit) io"

section \<open>The publication adapter\<close>

definition revision_for :: "(json \<Rightarrow> string) \<Rightarrow> json \<Rightarrow> string" where
  "revision_for sha art = ''sha256:'' @ sha (canon art)"

definition cp_healthy :: "'w admin_port \<Rightarrow> ('w, bool) io" where
  "cp_healthy adm = tryS (ap_health adm) (\<lambda>_. returnS False)"

definition cp_stage :: "(json \<Rightarrow> string) \<Rightarrow> 'w admin_port \<Rightarrow> json \<Rightarrow> ('w, string) io" where
  "cp_stage sha adm art =
     (let rv = revision_for sha art in
      bindS (ap_put adm rv art) (\<lambda>_.
      bindS (ap_read adm rv) (\<lambda>got.
      if \<not> json_eq got art
      then raiseS (RuntimeError ''APISIX staged revision failed read-after-write verification'')
      else returnS rv)))"

definition is_true :: "checks \<Rightarrow> string \<Rightarrow> bool" where
  "is_true cs k = (map_of cs k = Some True)"

definition cp_verify ::
  "(json \<Rightarrow> string) \<Rightarrow> 'w admin_port \<Rightarrow> string \<Rightarrow> json \<Rightarrow> ('w, checks) io" where
  "cp_verify sha adm rv art =
     (if rv \<noteq> revision_for sha art then returnS [(''artifactIntegrity'', False)]
      else bindS (ap_read adm rv) (\<lambda>got.
        if \<not> json_eq got art then returnS [(''artifactIntegrity'', False)]
        else bindS (ap_probe adm rv) (\<lambda>cs. returnS
          [(''health'', is_true cs ''health''), (''routeBinding'', is_true cs ''routeBinding''),
           (''authorizationNegativePath'', is_true cs ''authorizationNegativePath''),
           (''upstreamReachability'', is_true cs ''upstreamReachability''),
           (''convergence'', is_true cs ''convergence''), (''artifactIntegrity'', True)])))"

definition cp_activate :: "'w admin_port \<Rightarrow> string \<Rightarrow> ('w, unit) io" where
  "cp_activate adm rv =
     bindS (ap_activate adm rv) (\<lambda>_.
     bindS (ap_active adm) (\<lambda>now.
     if now \<noteq> JStr rv
     then raiseS (RuntimeError ''APISIX activation did not converge to staged revision'')
     else returnS ()))"

definition cp_rollback :: "'w admin_port \<Rightarrow> string \<Rightarrow> ('w, unit) io" where
  "cp_rollback adm rv =
     bindS (ap_active adm) (\<lambda>now.
     if now = JStr rv then raiseS (RuntimeError ''refusing to delete active APISIX revision'')
     else ap_delete adm rv)"

definition apisix_plane :: "(json \<Rightarrow> string) \<Rightarrow> 'w admin_port \<Rightarrow> 'w control_plane" where
  "apisix_plane sha adm = \<lparr>pl_healthy = cp_healthy adm, pl_stage = cp_stage sha adm,
     pl_verify = cp_verify sha adm, pl_activate = cp_activate adm, pl_rollback = cp_rollback adm\<rparr>"

section \<open>The Admin API transport\<close>

record http_request =
  rq_method :: string
  rq_url :: string
  rq_key :: string
  rq_body :: "json option"

text \<open>
  What a request can come to: \<open>URLError\<close> (which \<open>urlopen\<close> raises for a status from 400 on, too)
  or \<open>TimeoutError\<close>; any other exception of the connection; or a status with a payload.
\<close>

datatype http_outcome = Unreachable | Broken string | Response nat string

text \<open>\<open>json.loads\<close> of the payload: a value, \<open>JSONDecodeError\<close>, or \<open>UnicodeDecodeError\<close>.\<close>

datatype loaded = Loaded json | NotJson | NotUnicode

record 's http_world =
  hw_server :: 's
  hw_log :: "(http_request \<times> http_outcome) list"

record 's admin_http =
  ah_base_url :: string
  ah_api_key :: string
  ah_serve :: "http_request \<Rightarrow> 's \<Rightarrow> http_outcome \<times> 's"
  ah_loads :: "string \<Rightarrow> loaded"
  ah_polls :: nat

text \<open>
  \<open>__post_init__\<close> over what \<open>urlparse\<close> finds: scheme, host, user and password.
\<close>

record parsed_url =
  pu_scheme :: string
  pu_hostname :: "string option"
  pu_username :: "string option"
  pu_password :: "string option"

definition is_set :: "string option \<Rightarrow> bool" where
  "is_set v = (case v of None \<Rightarrow> False | Some s \<Rightarrow> s \<noteq> [])"

definition admin_init :: "(string \<Rightarrow> parsed_url) \<Rightarrow> 's admin_http \<Rightarrow> 's admin_http res" where
  "admin_init urlparse h =
     (let u = urlparse (ah_base_url h) in
      if pu_scheme u \<noteq> ''https'' \<or> \<not> is_set (pu_hostname u) \<or> is_set (pu_username u)
         \<or> is_set (pu_password u)
      then Inl (ValueError ''APISIX Admin API requires an https origin without URL credentials'')
      else if ah_api_key h = [] then Inl (ValueError ''APISIX Admin API key is required'')
      else Inr (h\<lparr>ah_base_url := rstrip_slash (ah_base_url h)\<rparr>))"

definition request_of :: "'s admin_http \<Rightarrow> string \<Rightarrow> string \<Rightarrow> json option \<Rightarrow> http_request" where
  "request_of h meth path body = \<lparr>rq_method = meth, rq_url = ah_base_url h @ path,
     rq_key = ah_api_key h, rq_body = body\<rparr>"

definition admin_request ::
  "'s admin_http \<Rightarrow> string \<Rightarrow> string \<Rightarrow> json option \<Rightarrow> nat list \<Rightarrow> ('s http_world, json) io" where
  "admin_request h meth path body expected = (\<lambda>w.
     let req = request_of h meth path body;
         (out, s) = ah_serve h req (hw_server w);
         w' = \<lparr>hw_server = s, hw_log = hw_log w @ [(req, out)]\<rparr>
     in (case out of
           Unreachable \<Rightarrow> Inl (APISIXAdminError ''APISIX Admin API request failed'')
         | Broken e \<Rightarrow> Inl (OSError e)
         | Response status payload \<Rightarrow>
             if status \<notin> set expected then Inl (APISIXAdminError ''unexpected APISIX status'')
             else if payload = [] then Inr (JObj [])
             else (case ah_loads h payload of
                     Loaded v \<Rightarrow> Inr v
                   | NotJson \<Rightarrow> Inl (APISIXAdminError ''APISIX Admin API request failed'')
                   | NotUnicode \<Rightarrow> Inl (ValueError ''UnicodeDecodeError'')), w'))"

text \<open>\<open>except APISIXAdminError: return d\<close>\<close>

definition on_admin_error :: "('w, 'a) io \<Rightarrow> 'a \<Rightarrow> ('w, 'a) io" where
  "on_admin_error m d = tryS m (\<lambda>e. case e of APISIXAdminError _ \<Rightarrow> returnS d | _ \<Rightarrow> raiseS e)"

definition admin_health :: "'s admin_http \<Rightarrow> ('s http_world, bool) io" where
  "admin_health h = on_admin_error
     (bindS (admin_request h ''GET'' ''/apisix/admin/routes'' None [200]) (\<lambda>_. returnS True)) False"

definition publication_path :: "string \<Rightarrow> string" where
  "publication_path rv = ''/apisix/admin/plugin_metadata/ouf-publication-'' @ quote rv"

definition pointer_path :: string where
  "pointer_path = ''/apisix/admin/plugin_metadata/ouf-active-publication''"

definition admin_put :: "'s admin_http \<Rightarrow> string \<Rightarrow> json \<Rightarrow> ('s http_world, unit) io" where
  "admin_put h rv art =
     bindS (admin_request h ''PUT'' (publication_path rv)
       (Some (JObj [(''value'', JObj [(''revision'', JStr rv), (''artifact'', art)])])) [200, 201])
       (\<lambda>_. returnS ())"

text \<open>\<open>value.get("value",value).get("value",value.get("value",value))\<close>\<close>

definition value_node :: "json \<Rightarrow> json res" where
  "value_node v = bindE (jget v ''value'' v) (\<lambda>a. jget a ''value'' a)"

definition admin_read :: "'s admin_http \<Rightarrow> string \<Rightarrow> ('s http_world, json) io" where
  "admin_read h rv =
     bindS (admin_request h ''GET'' (publication_path rv) None [200]) (\<lambda>v.
     bindS (liftS (value_node v)) (\<lambda>node.
     case jlookup node ''artifact'' of
       Some art \<Rightarrow> returnS art
     | None \<Rightarrow> raiseS (APISIXAdminError ''staged APISIX revision is unreadable'')))"

definition admin_active :: "'s admin_http \<Rightarrow> ('s http_world, json) io" where
  "admin_active h = (\<lambda>w. case admin_request h ''GET'' pointer_path None [200] w of
       (Inl (APISIXAdminError _), w') \<Rightarrow> (Inr JNull, w')
     | (Inl e, w') \<Rightarrow> (Inl e, w')
     | (Inr v, w') \<Rightarrow> (bindE (value_node v) (\<lambda>node.
          Inr (case jlookup node ''revision'' of None \<Rightarrow> JNull | Some r \<Rightarrow> r)), w'))"

definition admin_probe :: "'s admin_http \<Rightarrow> string \<Rightarrow> ('s http_world, checks) io" where
  "admin_probe h rv =
     bindS (on_admin_error
        (bindS (admin_read h rv) (\<lambda>_. bindS (admin_health h) (\<lambda>ok. returnS (Some ok)))) None)
       (\<lambda>health. case health of
          None \<Rightarrow> returnS [(''health'', False), (''routeBinding'', False),
            (''authorizationNegativePath'', False), (''upstreamReachability'', False),
            (''convergence'', False)]
        | Some ok \<Rightarrow> bindS (admin_active h) (\<lambda>now. returnS [(''health'', ok), (''routeBinding'', True),
            (''authorizationNegativePath'', False), (''upstreamReachability'', False),
            (''convergence'', now = JStr rv)]))"

text \<open>
  The polling loop of \<open>activate_revision\<close>. Its bound is the number of times that the loop test
  finds the clock before the deadline, at most 300 with the default 30 s and 0.1 s of sleep.
\<close>

fun poll_active :: "'s admin_http \<Rightarrow> string \<Rightarrow> nat \<Rightarrow> ('s http_world, unit) io" where
  "poll_active h rv 0 = raiseS (APISIXAdminError ''APISIX activation convergence timeout'')"
| "poll_active h rv (Suc n) =
     bindS (admin_active h) (\<lambda>now. if now = JStr rv then returnS () else poll_active h rv n)"

definition admin_activate :: "'s admin_http \<Rightarrow> string \<Rightarrow> ('s http_world, unit) io" where
  "admin_activate h rv =
     bindS (admin_request h ''PUT'' pointer_path
       (Some (JObj [(''value'', JObj [(''revision'', JStr rv)])])) [200, 201])
       (\<lambda>_. poll_active h rv (ah_polls h))"

definition admin_delete :: "'s admin_http \<Rightarrow> string \<Rightarrow> ('s http_world, unit) io" where
  "admin_delete h rv =
     bindS (admin_request h ''DELETE'' (publication_path rv) None [200, 204]) (\<lambda>_. returnS ())"

definition http_admin :: "'s admin_http \<Rightarrow> 's http_world admin_port" where
  "http_admin h = \<lparr>ap_health = admin_health h, ap_put = admin_put h, ap_read = admin_read h,
     ap_probe = admin_probe h, ap_activate = admin_activate h, ap_active = admin_active h,
     ap_delete = admin_delete h\<rparr>"

section \<open>Interface laws\<close>

text \<open>
  \<open>writes\<close> lists the revisions that were written to the active pointer, in order, and
  \<open>confirmed r\<close> says that the server's last answer named \<open>r\<close> as the active one.
\<close>

locale admin_laws =
  fixes adm :: "'w admin_port"
    and writes :: "'w \<Rightarrow> string list"
    and confirmed :: "string \<Rightarrow> 'w \<Rightarrow> bool"
  assumes health_frame: "ap_health adm w = (r, w') \<Longrightarrow> writes w' = writes w"
    and put_frame: "ap_put adm rv art w = (u, w') \<Longrightarrow> writes w' = writes w"
    and read_frame: "ap_read adm rv w = (v, w') \<Longrightarrow> writes w' = writes w"
    and probe_frame: "ap_probe adm rv w = (c, w') \<Longrightarrow> writes w' = writes w"
    and active_frame: "ap_active adm w = (a, w') \<Longrightarrow> writes w' = writes w"
    and delete_frame: "ap_delete adm rv w = (d, w') \<Longrightarrow> writes w' = writes w"
    and activate_writes: "ap_activate adm rv w = (d, w') \<Longrightarrow> writes w' = writes w @ [rv]"
    and active_confirms: "ap_active adm w = (Inr (JStr rv), w') \<Longrightarrow> confirmed rv w'"

text \<open>What the publisher relies on: only activation moves the pointer, once, and it is confirmed.\<close>

locale plane_laws =
  fixes pl :: "'w control_plane"
    and writes :: "'w \<Rightarrow> string list"
    and confirmed :: "string \<Rightarrow> 'w \<Rightarrow> bool"
  assumes healthy_frame: "pl_healthy pl w = (r, w') \<Longrightarrow> writes w' = writes w"
    and stage_frame: "pl_stage pl art w = (s, w') \<Longrightarrow> writes w' = writes w"
    and verify_frame: "pl_verify pl rv art w = (c, w') \<Longrightarrow> writes w' = writes w"
    and rollback_frame: "pl_rollback pl rv w = (d, w') \<Longrightarrow> writes w' = writes w"
    and activate_once: "pl_activate pl rv w = (d, w') \<Longrightarrow> writes w' = writes w @ [rv]"
    and activate_confirmed: "pl_activate pl rv w = (Inr u, w') \<Longrightarrow> confirmed rv w'"

lemmas plane_defs = apisix_plane_def cp_healthy_def cp_stage_def cp_verify_def cp_activate_def
  cp_rollback_def

sublocale admin_laws \<subseteq> plane_laws "apisix_plane sha adm" writes confirmed for sha
proof unfold_locales
  fix w r w'
  assume "pl_healthy (apisix_plane sha adm) w = (r, w')"
  then show "writes w' = writes w"
    by (auto simp: plane_defs tryS_def returnS_def dest: health_frame split: prod.splits sum.splits)
next
  fix art w s w'
  assume "pl_stage (apisix_plane sha adm) art w = (s, w')"
  then show "writes w' = writes w"
    by (auto simp: plane_defs Let_def bindS_def returnS_def raiseS_def
        dest!: put_frame read_frame split: prod.splits sum.splits if_splits)
next
  fix rv art w c w'
  assume "pl_verify (apisix_plane sha adm) rv art w = (c, w')"
  then show "writes w' = writes w"
    by (auto simp: plane_defs bindS_def returnS_def dest!: probe_frame read_frame
        split: prod.splits sum.splits if_splits)
next
  fix rv w d w'
  assume "pl_rollback (apisix_plane sha adm) rv w = (d, w')"
  then show "writes w' = writes w"
    by (auto simp: plane_defs bindS_def raiseS_def dest!: active_frame delete_frame
        split: prod.splits sum.splits if_splits)
next
  fix rv w d w'
  assume "pl_activate (apisix_plane sha adm) rv w = (d, w')"
  then show "writes w' = writes w @ [rv]"
    by (auto simp: plane_defs bindS_def raiseS_def returnS_def dest!: active_frame activate_writes
        split: prod.splits sum.splits if_splits)
next
  fix rv w u w'
  assume "pl_activate (apisix_plane sha adm) rv w = (Inr u, w')"
  then show "confirmed rv w'"
    by (auto simp: plane_defs bindS_def raiseS_def returnS_def dest!: active_confirms
        split: prod.splits sum.splits if_splits)
qed

section \<open>The Admin API satisfies the laws\<close>

fun written_revision :: "json option \<Rightarrow> string" where
  "written_revision (Some (JObj [(k, JObj [(k', JStr rv)])])) = rv"
| "written_revision v = []"

definition pointer_put :: "'s admin_http \<Rightarrow> http_request \<times> http_outcome \<Rightarrow> bool" where
  "pointer_put h x \<longleftrightarrow> rq_method (fst x) = ''PUT'' \<and> rq_url (fst x) = ah_base_url h @ pointer_path"

definition http_writes :: "'s admin_http \<Rightarrow> 's http_world \<Rightarrow> string list" where
  "http_writes h w = map (written_revision \<circ> rq_body \<circ> fst) (filter (pointer_put h) (hw_log w))"

definition http_confirmed :: "'s admin_http \<Rightarrow> string \<Rightarrow> 's http_world \<Rightarrow> bool" where
  "http_confirmed h rv w \<longleftrightarrow> (\<exists>log payload v node.
     hw_log w = log @ [(request_of h ''GET'' pointer_path None, Response 200 payload)]
     \<and> ah_loads h payload = Loaded v \<and> value_node v = Inr node
     \<and> jlookup node ''revision'' = Some (JStr rv))"

lemma admin_request_log:
  "admin_request h meth path body expected w = (r, w') \<Longrightarrow>
     \<exists>out. hw_log w' = hw_log w @ [(request_of h meth path body, out)]"
  by (auto simp: admin_request_def Let_def split: prod.splits)

lemma other_request_frame:
  assumes "admin_request h meth path body expected w = (r, w')"
    and "meth \<noteq> ''PUT'' \<or> path \<noteq> pointer_path"
  shows "http_writes h w' = http_writes h w"
  using admin_request_log [OF assms(1)] assms(2)
  by (auto simp: http_writes_def pointer_put_def request_of_def)

lemma publication_path_neq [simp]: "publication_path rv \<noteq> pointer_path"
  by (simp add: publication_path_def pointer_path_def)

lemma admin_health_writes: "admin_health h w = (r, w') \<Longrightarrow> http_writes h w' = http_writes h w"
  by (auto simp: admin_health_def on_admin_error_def tryS_def bindS_def returnS_def raiseS_def
      dest!: other_request_frame split: prod.splits sum.splits py_exn.splits)

lemma admin_read_writes: "admin_read h rv w = (r, w') \<Longrightarrow> http_writes h w' = http_writes h w"
  by (auto simp: admin_read_def liftS_def bindS_def returnS_def raiseS_def
      dest!: other_request_frame split: prod.splits sum.splits option.splits)

lemma admin_active_writes: "admin_active h w = (r, w') \<Longrightarrow> http_writes h w' = http_writes h w"
  by (auto simp: admin_active_def dest!: other_request_frame
      split: prod.splits sum.splits py_exn.splits)

lemma admin_probe_writes:
  assumes "admin_probe h rv w = (r, w')"
  shows "http_writes h w' = http_writes h w"
proof -
  define m where "m = on_admin_error
     (bindS (admin_read h rv) (\<lambda>_. bindS (admin_health h) (\<lambda>ok. returnS (Some ok)))) None"
  have m: "http_writes h v' = http_writes h v" if "m v = (x, v')" for v x v'
    using that
    by (auto simp: m_def on_admin_error_def tryS_def bindS_def returnS_def raiseS_def
        dest!: admin_read_writes admin_health_writes split: prod.splits sum.splits py_exn.splits)
  from assms show ?thesis
    unfolding admin_probe_def m_def [symmetric]
    by (auto simp: bindS_def returnS_def dest!: m admin_active_writes
        split: prod.splits sum.splits option.splits)
qed

lemma poll_active_writes: "poll_active h rv n w = (r, w') \<Longrightarrow> http_writes h w' = http_writes h w"
proof (induction n arbitrary: w)
  case 0
  then show ?case by (simp add: raiseS_def)
next
  case (Suc n)
  then show ?case
    by (auto simp: bindS_def returnS_def dest!: admin_active_writes split: prod.splits sum.splits if_splits)
qed

lemma pointer_put_writes:
  assumes "admin_request h ''PUT'' pointer_path
      (Some (JObj [(''value'', JObj [(''revision'', JStr rv)])])) expected w = (r, w')"
  shows "http_writes h w' = http_writes h w @ [rv]"
  using admin_request_log [OF assms]
  by (auto simp: http_writes_def pointer_put_def request_of_def)

lemma admin_active_confirms:
  assumes "admin_active h w = (Inr (JStr rv), w')"
  shows "http_confirmed h rv w'"
proof -
  from assms obtain v node where
    req: "admin_request h ''GET'' pointer_path None [200] w = (Inr v, w')" and
    node: "value_node v = Inr node" "jlookup node ''revision'' = Some (JStr rv)"
    by (auto simp: admin_active_def result_simps split: prod.splits sum.splits py_exn.splits option.splits)
  from node have "v \<noteq> JObj []" by (auto simp: value_node_def)
  with req obtain payload where "ah_loads h payload = Loaded v"
    "hw_log w' = hw_log w @ [(request_of h ''GET'' pointer_path None, Response 200 payload)]"
    by (auto simp: admin_request_def Let_def
        split: prod.splits http_outcome.splits if_splits loaded.splits)
  with node show ?thesis unfolding http_confirmed_def by blast
qed

interpretation http: admin_laws "http_admin h" "http_writes h" "http_confirmed h" for h
proof
  fix w w' :: "'a http_world" and r u v c a d rv art
  show "http_writes h w' = http_writes h w" if "ap_health (http_admin h) w = (r, w')"
    using that by (simp add: http_admin_def admin_health_writes)
  show "http_writes h w' = http_writes h w" if "ap_put (http_admin h) rv art w = (u, w')"
    using that by (auto simp: http_admin_def admin_put_def bindS_def returnS_def
        dest!: other_request_frame split: prod.splits sum.splits)
  show "http_writes h w' = http_writes h w" if "ap_read (http_admin h) rv w = (v, w')"
    using that by (simp add: http_admin_def admin_read_writes)
  show "http_writes h w' = http_writes h w" if "ap_probe (http_admin h) rv w = (c, w')"
    using that by (simp add: http_admin_def admin_probe_writes)
  show "http_writes h w' = http_writes h w" if "ap_active (http_admin h) w = (a, w')"
    using that by (simp add: http_admin_def admin_active_writes)
  show "http_writes h w' = http_writes h w" if "ap_delete (http_admin h) rv w = (d, w')"
    using that by (auto simp: http_admin_def admin_delete_def bindS_def returnS_def
        dest!: other_request_frame split: prod.splits sum.splits)
  show "http_writes h w' = http_writes h w @ [rv]" if "ap_activate (http_admin h) rv w = (d, w')"
    using that by (auto simp: http_admin_def admin_activate_def bindS_def
        dest!: pointer_put_writes poll_active_writes split: prod.splits sum.splits)
  show "http_confirmed h rv w'" if "ap_active (http_admin h) w = (Inr (JStr rv), w')"
    using that by (simp add: http_admin_def admin_active_confirms)
qed

section \<open>What the adapter guarantees\<close>

text \<open>
  C3. Over the Admin API the active pointer moves only by activation: every activation attempt
  writes the revision to the pointer exactly once and returns normally only when the server's
  last answer names that revision; no other operation of the plane writes the pointer.
\<close>

theorem pointer_moves_only_by_activation:
  "(case pl_activate (apisix_plane sha (http_admin h)) rv w of (r, w') \<Rightarrow>
      http_writes h w' = http_writes h w @ [rv] \<and> (is_ok r \<longrightarrow> http_confirmed h rv w'))
   \<and> http_writes h (snd (pl_healthy (apisix_plane sha (http_admin h)) w)) = http_writes h w
   \<and> http_writes h (snd (pl_stage (apisix_plane sha (http_admin h)) art w)) = http_writes h w
   \<and> http_writes h (snd (pl_verify (apisix_plane sha (http_admin h)) rv art w)) = http_writes h w
   \<and> http_writes h (snd (pl_rollback (apisix_plane sha (http_admin h)) rv w)) = http_writes h w"
  by (cases "pl_activate (apisix_plane sha (http_admin h)) rv w")
    (auto simp: is_ok_iff dest: http.activate_once http.activate_confirmed
      intro: http.healthy_frame http.stage_frame http.verify_frame http.rollback_frame
      prod.collapse [symmetric])

lemma admin_read_Inr:
  assumes "admin_read h rv w = (Inr got, w')"
  obtains payload v node where
    "hw_log w' = hw_log w @ [(request_of h ''GET'' (publication_path rv) None, Response 200 payload)]"
    "ah_loads h payload = Loaded v" "value_node v = Inr node" "jlookup node ''artifact'' = Some got"
proof -
  from assms obtain v node where
    req: "admin_request h ''GET'' (publication_path rv) None [200] w = (Inr v, w')" and
    node: "value_node v = Inr node" "jlookup node ''artifact'' = Some got"
    by (auto simp: admin_read_def io_iffs liftS_def returnS_def raiseS_def split: option.splits)
  from node have "v \<noteq> JObj []" by (auto simp: value_node_def)
  with req obtain payload where "ah_loads h payload = Loaded v"
    "hw_log w' = hw_log w @ [(request_of h ''GET'' (publication_path rv) None, Response 200 payload)]"
    by (auto simp: admin_request_def Let_def
        split: prod.splits http_outcome.splits if_splits loaded.splits)
  with node that show thesis by blast
qed

text \<open>
  Staging never trusts the write: a staged revision is named by the hash of the artifact,
  and the last answer of the server, to a read of that revision's node, holds an artifact equal
  to the one staged.
\<close>

theorem stage_reads_back:
  assumes "pl_stage (apisix_plane sha (http_admin h)) art w = (Inr rv, w')"
  shows "rv = revision_for sha art
    \<and> (\<exists>log payload v node got.
         hw_log w' = log @ [(request_of h ''GET'' (publication_path rv) None, Response 200 payload)]
       \<and> ah_loads h payload = Loaded v \<and> value_node v = Inr node
       \<and> jlookup node ''artifact'' = Some got \<and> json_eq got art)"
proof -
  from assms obtain got w1 where "rv = revision_for sha art" "json_eq got art"
    "admin_read h rv w1 = (Inr got, w')"
    by (auto simp: plane_defs http_admin_def Let_def io_iffs returnS_def raiseS_def split: if_splits)
  then show ?thesis by (elim admin_read_Inr) blast
qed

text \<open>An Admin API that answers every request alike, for the witnesses.\<close>

definition echo_http :: "http_outcome \<Rightarrow> json \<Rightarrow> unit admin_http" where
  "echo_http out v = \<lparr>ah_base_url = ''https://admin'', ah_api_key = ''k'',
     ah_serve = (\<lambda>_ s. (out, s)), ah_loads = (\<lambda>_. Loaded v), ah_polls = 2\<rparr>"

definition empty_world :: "unit http_world" where
  "empty_world = \<lparr>hw_server = (), hw_log = []\<rparr>"

theorem stage_reads_back_witness:
  "\<exists>w'. pl_stage (apisix_plane (\<lambda>_. ''h'')
      (http_admin (echo_http (Response 200 ''x'') (JObj [(''artifact'', JInt 7)])))) (JInt 7) empty_world
    = (Inr (revision_for (\<lambda>_. ''h'') (JInt 7)), w') \<and> hw_log w' \<noteq> []"
proof -
  let ?h = "echo_http (Response 200 ''x'') (JObj [(''artifact'', JInt 7)])"
  obtain w' where st: "pl_stage (apisix_plane (\<lambda>_. ''h'') (http_admin ?h)) (JInt 7) empty_world
      = (Inr (revision_for (\<lambda>_. ''h'') (JInt 7)), w')"
    by (auto simp: plane_defs http_admin_def admin_put_def admin_read_def admin_request_def
        echo_http_def empty_world_def io_defs Let_def value_node_def)
  from stage_reads_back [OF st] have "hw_log w' \<noteq> []" by auto
  with st show ?thesis by blast
qed

lemma http_verify_false:
  assumes "pl_verify (apisix_plane sha (http_admin h)) rv art w = (Inr cs, w')"
  shows "\<not> is_true cs ''authorizationNegativePath'' \<and> \<not> is_true cs ''upstreamReachability''"
proof -
  have probe: "\<not> is_true c ''authorizationNegativePath'' \<and> \<not> is_true c ''upstreamReachability''"
    if probe_c: "admin_probe h rv v = (Inr c, v')" for c v v'
  proof -
    from probe_c obtain health u where "(case health of
        None \<Rightarrow> returnS [(''health'', False), (''routeBinding'', False),
            (''authorizationNegativePath'', False), (''upstreamReachability'', False),
            (''convergence'', False)]
      | Some ok \<Rightarrow> bindS (admin_active h) (\<lambda>now. returnS [(''health'', ok), (''routeBinding'', True),
            (''authorizationNegativePath'', False), (''upstreamReachability'', False),
            (''convergence'', now = JStr rv)])) u = (Inr c, v')"
      unfolding admin_probe_def bindS_Inr by blast
    then show ?thesis
      by (cases health) (auto simp: bindS_Inr returnS_def is_true_def)
  qed
  from assms consider "cs = [(''artifactIntegrity'', False)]"
    | c v v' where "admin_probe h rv v = (Inr c, v')"
      "is_true cs ''authorizationNegativePath'' = is_true c ''authorizationNegativePath''"
      "is_true cs ''upstreamReachability'' = is_true c ''upstreamReachability''"
    unfolding plane_defs http_admin_def
    by (auto simp: bindS_Inr returnS_def is_true_def split: if_splits)
  then show ?thesis
  proof cases
    case 1
    then show ?thesis by (simp add: is_true_def)
  next
    case 2
    with probe [OF 2(1)] show ?thesis by simp
  qed
qed

text \<open>
  The verification over the Admin API is never complete: whatever the server answers, the
  negative authorization path and the upstream reachability are reported as not verified, since
  the HTTP adapter leaves both to the environment.
\<close>

theorem http_verify_incomplete:
  assumes "pl_verify (apisix_plane sha (http_admin h)) rv art w = (Inr cs, w')"
  shows "\<not> is_true cs ''authorizationNegativePath'' \<and> \<not> is_true cs ''upstreamReachability''"
  by (rule http_verify_false [OF assms])

theorem http_verify_incomplete_witness:
  "\<exists>cs w'. pl_verify (apisix_plane (\<lambda>_. ''h'')
      (http_admin (echo_http (Response 200 ''x'') (JObj [(''artifact'', JInt 7)]))))
      ''sha256:h'' (JInt 7) empty_world = (Inr cs, w')
    \<and> is_true cs ''artifactIntegrity'' \<and> \<not> is_true cs ''upstreamReachability''"
proof -
  let ?h = "echo_http (Response 200 ''x'') (JObj [(''artifact'', JInt 7)])"
  obtain cs w' where v: "pl_verify (apisix_plane (\<lambda>_. ''h'') (http_admin ?h)) ''sha256:h'' (JInt 7)
      empty_world = (Inr cs, w')" "is_true cs ''artifactIntegrity''"
    by (auto simp: plane_defs http_admin_def admin_probe_def admin_read_def admin_request_def
        admin_health_def admin_active_def on_admin_error_def revision_for_def is_true_def
        echo_http_def empty_world_def io_defs Let_def value_node_def)
  from http_verify_incomplete [OF v(1)] v show ?thesis by blast
qed

text \<open>Polling a pointer that cannot be read: every read fails, and the loop ends with the timeout.\<close>

lemma poll_unreadable:
  assumes "\<And>s. ah_serve h (request_of h ''GET'' pointer_path None) s = (Unreachable, s)"
  shows "poll_active h rv n w = (Inl (APISIXAdminError ''APISIX activation convergence timeout''),
     w\<lparr>hw_log := hw_log w @ replicate n (request_of h ''GET'' pointer_path None, Unreachable)\<rparr>)"
  using assms
  by (induction n arbitrary: w)
    (simp_all add: raiseS_def bindS_def admin_active_def admin_request_def Let_def)

definition pointer_body :: "string \<Rightarrow> json option" where
  "pointer_body rv = Some (JObj [(''value'', JObj [(''revision'', JStr rv)])])"

text \<open>
  C37. \<open>active_revision\<close> turns a failed read of the pointer into \<open>None\<close>, and the rollback takes
  \<open>None\<close> for "some other revision": when the server accepts the write of the active pointer but
  the pointer cannot be read, the activation raises the timeout after its failed reads, and the rollback
  that follows, after one more failed read, deletes, and the server accepts it, the very revision that the
  accepted write has made the active one.
\<close>

theorem rollback_deletes_unreadable_active:
  assumes "\<And>s. ah_serve h (request_of h ''PUT'' pointer_path (pointer_body rv)) s = (Response 200 [], put s)"
    and "\<And>s. ah_serve h (request_of h ''GET'' pointer_path None) s = (Unreachable, s)"
    and "\<And>s. ah_serve h (request_of h ''DELETE'' (publication_path rv) None) s = (Response 200 [], del s)"
  shows "\<exists>w1 w2. pl_activate (apisix_plane sha (http_admin h)) rv w
       = (Inl (APISIXAdminError ''APISIX activation convergence timeout''), w1)
    \<and> hw_server w1 = put (hw_server w)
    \<and> hw_log w1 = hw_log w @ (request_of h ''PUT'' pointer_path (pointer_body rv), Response 200 [])
        # replicate (ah_polls h) (request_of h ''GET'' pointer_path None, Unreachable)
    \<and> last (http_writes h w1) = rv
    \<and> pl_rollback (apisix_plane sha (http_admin h)) rv w1 = (Inr (), w2)
    \<and> hw_server w2 = del (put (hw_server w))
    \<and> hw_log w2 = hw_log w1 @ [(request_of h ''GET'' pointer_path None, Unreachable),
        (request_of h ''DELETE'' (publication_path rv) None, Response 200 [])]"
proof -
  define w1 where "w1 = \<lparr>hw_server = put (hw_server w), hw_log = hw_log w
      @ (request_of h ''PUT'' pointer_path (pointer_body rv), Response 200 [])
        # replicate (ah_polls h) (request_of h ''GET'' pointer_path None, Unreachable)\<rparr>"
  have act: "pl_activate (apisix_plane sha (http_admin h)) rv w
      = (Inl (APISIXAdminError ''APISIX activation convergence timeout''), w1)"
    using assms(1) poll_unreadable [OF assms(2)]
    by (simp add: plane_defs http_admin_def admin_activate_def admin_request_def io_defs Let_def pointer_body_def w1_def)
  then have "last (http_writes h w1) = rv" using http.activate_once [OF act] by simp
  moreover have "pl_rollback (apisix_plane sha (http_admin h)) rv w1 = (Inr (), \<lparr>hw_server = del (hw_server w1),
      hw_log = hw_log w1 @ [(request_of h ''GET'' pointer_path None, Unreachable),
        (request_of h ''DELETE'' (publication_path rv) None, Response 200 [])]\<rparr>)"
    using assms(2,3)
    by (simp add: plane_defs http_admin_def admin_delete_def admin_active_def admin_request_def io_defs Let_def)
  ultimately show ?thesis using act by (simp add: w1_def)
qed

definition unreadable_http :: "unit admin_http" where
  "unreadable_http = \<lparr>ah_base_url = ''https://admin'', ah_api_key = ''k'',
     ah_serve = (\<lambda>r s. (if rq_method r = ''GET'' then Unreachable else Response 200 [], s)),
     ah_loads = (\<lambda>_. NotJson), ah_polls = 3\<rparr>"

theorem rollback_deletes_unreadable_active_witness:
  "\<exists>w1 w2. pl_activate (apisix_plane (\<lambda>_. ''h'') (http_admin unreadable_http)) ''r'' empty_world
      = (Inl (APISIXAdminError ''APISIX activation convergence timeout''), w1)
    \<and> last (http_writes unreadable_http w1) = ''r''
    \<and> pl_rollback (apisix_plane (\<lambda>_. ''h'') (http_admin unreadable_http)) ''r'' w1 = (Inr (), w2)
    \<and> rq_method (fst (last (hw_log w2))) = ''DELETE''"
  using rollback_deletes_unreadable_active [where h = unreadable_http and rv = "''r''" and put = "\<lambda>s. s" and del = "\<lambda>s. s"
      and sha = "\<lambda>_. ''h''" and w = empty_world]
  by (auto simp: unreadable_http_def request_of_def)

text \<open>
  Every revision has a node of its own: the paths of two revisions differ, none of them is
  the path of the active pointer, and a revision cannot add a path segment.
\<close>

theorem revision_nodes_distinct:
  "(publication_path a = publication_path b) = (a = b) \<and> publication_path a \<noteq> pointer_path
   \<and> count_list (publication_path a) CHR ''/'' = 4"
proof -
  have "count_list (quote a) CHR ''/'' = 0" using quote_no_slash by (simp add: count_list_0_iff)
  then show ?thesis by (simp add: publication_path_def pointer_path_def quote_inj)
qed

theorem pointer_moves_only_by_activation_witness:
  "\<exists>w'. pl_activate (apisix_plane (\<lambda>_. ''h'')
        (http_admin (echo_http (Response 200 ''x'') (JObj [(''revision'', JStr ''r'')])))) ''r'' empty_world
      = (Inr (), w')
    \<and> http_confirmed (echo_http (Response 200 ''x'') (JObj [(''revision'', JStr ''r'')])) ''r'' w'"
proof -
  let ?h = "echo_http (Response 200 ''x'') (JObj [(''revision'', JStr ''r'')])"
  obtain w' where act:
    "pl_activate (apisix_plane (\<lambda>_. ''h'') (http_admin ?h)) ''r'' empty_world = (Inr (), w')"
    by (auto simp: plane_defs http_admin_def admin_activate_def admin_active_def admin_request_def
        echo_http_def empty_world_def io_defs Let_def value_node_def numeral_eq_Suc)
  from pointer_moves_only_by_activation [where h = ?h and sha = "\<lambda>_. ''h''" and rv = "''r''"
      and w = empty_world] act
  show ?thesis by (auto simp: case_prod_beta)
qed

end
