(* ===== verification/Publication.thy ===== *)
theory Publication
  imports Incidents Activation Control_Plane
begin

text \<open>
  The publisher, \<open>tools/publication.py\<close>: coalescing of change batches, the file store with its
  atomic writes, the repository governance and the publication state machine over a control
  plane, with the incident sink. The repository's YAML files are read into JSON values; the
  whole of \<open>publish\<close> runs under an exclusive file lock, so it is one step of the store.
\<close>

section \<open>Batches of changes\<close>

record change =
  ch_object_ref :: string
  ch_sequence :: int
  ch_payload :: json

definition coalesce_step :: "change \<Rightarrow> (string, change) dict \<Rightarrow> (string, change) dict" where
  "coalesce_step c seen =
     (case map_of seen (ch_object_ref c) of
        None \<Rightarrow> dict_set (ch_object_ref c) c seen
      | Some cur \<Rightarrow> if ch_sequence c > ch_sequence cur then dict_set (ch_object_ref c) c seen
                    else seen)"

definition coalesce_batch :: "change list \<Rightarrow> int \<Rightarrow> change list res" where
  "coalesce_batch changes maximum =
     (if maximum < 1 then Inl (PublicationError ''maximum batch size must be positive'')
      else let seen = fold coalesce_step changes [] in
        if int (length seen) > maximum
        then Inl (PublicationError ''publication batch exceeds bounded capacity'')
        else Inr (sort_by (key_le ch_object_ref) (map snd seen)))"

section \<open>Manifests and the file store\<close>

datatype pub_status = VALIDATING | COMPILED | APPLYING | VERIFIED | ACTIVE | FAILED | ROLLED_BACK

record manifest =
  mf_publicationId :: string
  mf_environment :: string
  mf_sourceRevisionRef :: string
  mf_artifactSetHash :: string
  mf_status :: pub_status
  mf_createdAt :: string
  mf_activatedAt :: "string option"
  mf_verification :: "checks option"
  mf_previousActive :: "string option"
  mf_controlPlaneRevision :: "string option"
  mf_inputHashes :: "(string, string) dict"

text \<open>
  The directory of the store. \<open>ps_faults\<close> is the tape of the coming writes: \<open>True\<close> is a write
  that fails before \<open>os.replace\<close>, which leaves the target as it was.
\<close>

record pub_store =
  ps_manifests :: "(string, manifest) dict"
  ps_artifacts :: "(string, json) dict"
  ps_active :: "manifest option"
  ps_faults :: "bool list"

definition atomic_write :: "(pub_store \<Rightarrow> pub_store) \<Rightarrow> (pub_store, unit) io" where
  "atomic_write put = (\<lambda>s. case ps_faults s of
       [] \<Rightarrow> (Inr (), put s)
     | f # fs \<Rightarrow> if f then (Inl (OSError ''write failed''), s\<lparr>ps_faults := fs\<rparr>)
                 else (Inr (), put (s\<lparr>ps_faults := fs\<rparr>)))"

definition write_artifact :: "string \<Rightarrow> json \<Rightarrow> (pub_store, unit) io" where
  "write_artifact h art = atomic_write (\<lambda>s. s\<lparr>ps_artifacts := dict_set h art (ps_artifacts s)\<rparr>)"

definition write_manifest :: "manifest \<Rightarrow> (pub_store, unit) io" where
  "write_manifest m =
     atomic_write (\<lambda>s. s\<lparr>ps_manifests := dict_set (mf_publicationId m) m (ps_manifests s)\<rparr>)"

definition write_active :: "manifest \<Rightarrow> (pub_store, unit) io" where
  "write_active m = atomic_write (\<lambda>s. s\<lparr>ps_active := Some m\<rparr>)"

definition store_contains :: "string \<Rightarrow> pub_store \<Rightarrow> bool" where
  "store_contains pid s = (map_of (ps_manifests s) pid \<noteq> None)"

definition record_publication :: "manifest \<Rightarrow> json \<Rightarrow> bool \<Rightarrow> (pub_store, unit) io" where
  "record_publication m art activate = (\<lambda>s.
     if store_contains (mf_publicationId m) s
     then (Inl (PublicationError ''publication manifest is immutable''), s)
     else if (case map_of (ps_artifacts s) (mf_artifactSetHash m) of
                None \<Rightarrow> False | Some old \<Rightarrow> \<not> json_eq old art)
     then (Inl (PublicationError ''artifact hash collision''), s)
     else bindS (if map_of (ps_artifacts s) (mf_artifactSetHash m) = None
                 then write_artifact (mf_artifactSetHash m) art else returnS ())
       (\<lambda>_. bindS (write_manifest m)
       (\<lambda>_. if activate then write_active m else returnS ())) s)"

section \<open>Manifest schema\<close>

text \<open>Python's \<open>$\<close> also matches before a newline that ends the text.\<close>

definition dollar :: "(string \<Rightarrow> bool) \<Rightarrow> string \<Rightarrow> bool" where
  "dollar p s \<longleftrightarrow> p s \<or> (s \<noteq> [] \<and> last s = CHR 0x0A \<and> p (butlast s))"

definition is_alnum :: "char \<Rightarrow> bool" where
  "is_alnum c \<longleftrightarrow> is_alpha c \<or> is_digit c"

definition safe_id :: "string \<Rightarrow> bool" where
  "safe_id s = (case s of [] \<Rightarrow> False
     | c # cs \<Rightarrow> is_alnum c \<and> length cs \<le> 127
         \<and> list_all (\<lambda>x. is_alnum x \<or> x \<in> set ''._-'') cs)"

definition safe_environment :: "string \<Rightarrow> bool" where
  "safe_environment s = (case s of [] \<Rightarrow> False
     | c # cs \<Rightarrow> (is_digit c \<or> c \<in> set ''abcdefghijklmnopqrstuvwxyz'') \<and> length cs \<le> 62
         \<and> list_all (\<lambda>x. is_digit x \<or> x \<in> set ''abcdefghijklmnopqrstuvwxyz-'') cs)"

definition hex64 :: "string \<Rightarrow> bool" where
  "hex64 s \<longleftrightarrow> length s = 64 \<and> list_all (\<lambda>c. c \<in> set ''0123456789abcdef'') s"

text \<open>
  \<open>gateway-publication-manifest-v1.json\<close>. The format checker for \<open>date-time\<close> is a parameter:
  it checks nothing when its optional package is not installed.
\<close>

definition valid_manifest :: "(string \<Rightarrow> bool) \<Rightarrow> manifest \<Rightarrow> bool" where
  "valid_manifest datetime_ok m \<longleftrightarrow>
     dollar safe_id (mf_publicationId m) \<and> dollar safe_environment (mf_environment m)
     \<and> mf_sourceRevisionRef m \<noteq> [] \<and> dollar hex64 (mf_artifactSetHash m)
     \<and> datetime_ok (mf_createdAt m)
     \<and> (case mf_activatedAt m of None \<Rightarrow> True | Some t \<Rightarrow> datetime_ok t)
     \<and> list_all (\<lambda>(_, h). dollar hex64 h) (mf_inputHashes m)"

definition validate_manifest :: "(string \<Rightarrow> bool) \<Rightarrow> manifest \<Rightarrow> unit res" where
  "validate_manifest datetime_ok m =
     require (valid_manifest datetime_ok m) (PublicationError ''invalid publication manifest'')"

section \<open>Repository governance\<close>

record repository =
  rp_catalog :: json
  rp_compat :: json
  rp_overlay :: "string \<Rightarrow> json option"

text \<open>A Python \<open>int\<close>, of which \<open>bool\<close> is a subclass.\<close>

fun as_int :: "json \<Rightarrow> int option" where
  "as_int (JInt i) = Some i"
| "as_int (JBool b) = Some (if b then 1 else 0)"
| "as_int v = None"

definition item_int :: "json \<Rightarrow> string \<Rightarrow> int res" where
  "item_int spec k =
     (case spec of
        JObj kvs \<Rightarrow> (case map_of kvs k of
            None \<Rightarrow> Inl (KeyError k)
          | Some v \<Rightarrow> (case as_int v of None \<Rightarrow> Inl (TypeError ''comparison'') | Some i \<Rightarrow> Inr i))
      | _ \<Rightarrow> Inl (TypeError ''not subscriptable''))"

text \<open>\<open>d.items()\<close>\<close>

fun jitems :: "json \<Rightarrow> (string \<times> json) list res" where
  "jitems (JObj kvs) = Inr kvs"
| "jitems _ = Inl (TypeError ''object has no attribute items'')"

definition check_setting :: "json \<Rightarrow> string \<times> json \<Rightarrow> unit res" where
  "check_setting entries nv =
     bindE (jget entries (fst nv) JNull) (\<lambda>spec.
     if spec = JNull then Inl (PublicationError ''unknown runtime setting'')
     else (case as_int (snd nv) of
        None \<Rightarrow> Inl (PublicationError ''runtime setting outside catalog bounds'')
      | Some i \<Rightarrow>
          bindE (item_int spec ''minimum'') (\<lambda>lo.
          if i < lo then Inl (PublicationError ''runtime setting outside catalog bounds'')
          else bindE (item_int spec ''maximum'') (\<lambda>hi.
            require (i \<le> hi) (PublicationError ''runtime setting outside catalog bounds'')))))"

text \<open>The dictionary comprehension over the documents: a later duplicate wins.\<close>

definition index_all :: "(string \<times> document) list \<Rightarrow> index" where
  "index_all docs = fold (\<lambda>pd. dict_set (doc_kind (snd pd), doc_ref (snd pd)) (snd pd)) docs []"

definition govern_route :: "auth_gate option \<Rightarrow> index \<Rightarrow> string \<times> document \<Rightarrow> unit res" where
  "govern_route gate ix pd =
     (case snd pd of
        RouteBinding r \<Rightarrow>
          (case (lookup_capability ix (rt_capabilityRef r), lookup_source ix (rt_sourceRef r)) of
             (Some cap, Some src) \<Rightarrow>
               (case validate_route_activation r cap src
                    (if truthy (rt_extractionProfileRef r)
                     then lookup_extraction ix (the (rt_extractionProfileRef r)) else None) gate of
                  Inl e \<Rightarrow> Inl (PublicationError ''activation gate failed'')
                | Inr ev \<Rightarrow> Inr ())
           | _ \<Rightarrow> Inl (PublicationError ''activation reference missing''))
      | _ \<Rightarrow> Inr ())"

definition governance ::
  "repository \<Rightarrow> auth_gate option \<Rightarrow> (string \<times> document) list res \<Rightarrow> string \<Rightarrow> unit res" where
  "governance rp gate loaded environment =
     (if environment \<notin> {''dev'', ''test'', ''prod''} then
        Inl (PublicationError ''environment overlay is not governed'')
      else case rp_overlay rp environment of
        None \<Rightarrow> Inl (PublicationError ''environment overlay is not governed'')
      | Some overlay \<Rightarrow>
          bindE (jget (rp_catalog rp) ''entries'' (JObj [])) (\<lambda>entries.
          bindE (jget overlay ''values'' (JObj [])) (\<lambda>values.
          bindE (jitems values) (\<lambda>items.
          bindE (mapE (check_setting entries) items) (\<lambda>_.
          bindE (jget (rp_compat rp) ''policy'' (JObj [])) (\<lambda>policy.
          bindE (jget policy ''rejectUnknownGeneration'' JNull) (\<lambda>reject.
          if reject \<noteq> JBool True
          then Inl (PublicationError ''compatibility policy must reject unknown generations'')
          else bindE loaded (\<lambda>docs.
            bindE (mapE (govern_route gate (index_all docs)) docs) (\<lambda>_. Inr ())))))))))"

section \<open>The publisher\<close>

record ('w, 's) publisher =
  pb_plane :: "'w control_plane"
  pb_clock :: "nat \<Rightarrow> nat"
  pb_gate :: "auth_gate option"
  pb_open :: "(open_args \<Rightarrow> 's \<Rightarrow> 's res) option"
  pb_resolve :: "string \<Rightarrow> string \<Rightarrow> 's \<Rightarrow> 's res"
  pb_repository :: repository
  pb_sha :: "json \<Rightarrow> string"
  pb_datetime :: "string \<Rightarrow> bool"

record ('w, 's) pub_world =
  pw_plane :: 'w
  pw_store :: pub_store
  pw_sink :: 's

definition on_plane :: "('w, 'a) io \<Rightarrow> (('w, 's) pub_world, 'a) io" where
  "on_plane m = (\<lambda>w. case m (pw_plane w) of (r, p) \<Rightarrow> (r, w\<lparr>pw_plane := p\<rparr>))"

definition on_store :: "(pub_store, 'a) io \<Rightarrow> (('w, 's) pub_world, 'a) io" where
  "on_store m = (\<lambda>w. case m (pw_store w) of (r, s) \<Rightarrow> (r, w\<lparr>pw_store := s\<rparr>))"

definition on_sink :: "('s \<Rightarrow> 's res) \<Rightarrow> (('w, 's) pub_world, unit) io" where
  "on_sink f = (\<lambda>w. case f (pw_sink w) of Inl e \<Rightarrow> (Inl e, w) | Inr s \<Rightarrow> (Inr (), w\<lparr>pw_sink := s\<rparr>))"

definition required_checks :: "string list" where
  "required_checks = [''health'', ''routeBinding'', ''authorizationNegativePath'',
     ''upstreamReachability'', ''convergence'']"

definition publication_key :: string where
  "publication_key = ''gateway:publication:blocked''"

definition blocked_args :: "string \<Rightarrow> string \<Rightarrow> string \<Rightarrow> string \<Rightarrow> open_args" where
  "blocked_args pid code impact sev =
     \<lparr>oa_dedup_key = publication_key, oa_event_type = ''GATEWAY_PUBLICATION_BLOCKED'',
      oa_severity = sev, oa_error_code = Some code, oa_impact_summary = impact,
      oa_correlation_id = Some pid, oa_endpoint_ref = Some ''gateway://control-plane/publication'',
      oa_action_required = True, oa_visibility_class = ''RESTRICTED_OPERATIONAL''\<rparr>"

definition raise_incident ::
  "('w, 's) publisher \<Rightarrow> string \<Rightarrow> string \<Rightarrow> string \<Rightarrow> string \<Rightarrow> (('w, 's) pub_world, unit) io" where
  "raise_incident pb pid code impact sev =
     (case pb_open pb of None \<Rightarrow> returnS ()
      | Some opn \<Rightarrow> on_sink (opn (blocked_args pid code impact sev)))"

definition record_manifest ::
  "('w, 's) publisher \<Rightarrow> manifest \<Rightarrow> json \<Rightarrow> bool \<Rightarrow> (('w, 's) pub_world, unit) io" where
  "record_manifest pb m art activate =
     bindS (liftS (validate_manifest (pb_datetime pb) m))
       (\<lambda>_. on_store (record_publication m art activate))"

text \<open>The end of every failing branch: record the manifest, open the incident, return it.\<close>

definition give_up ::
  "('w, 's) publisher \<Rightarrow> manifest \<Rightarrow> json \<Rightarrow> string \<Rightarrow> string \<Rightarrow> string
     \<Rightarrow> (('w, 's) pub_world, manifest) io" where
  "give_up pb m art code impact sev =
     bindS (record_manifest pb m art False) (\<lambda>_.
     bindS (raise_incident pb (mf_publicationId m) code impact sev) (\<lambda>_. returnS m))"

text \<open>The successful end: record the manifest and the active pointer, clear the incident.\<close>

definition conclude ::
  "('w, 's) publisher \<Rightarrow> manifest \<Rightarrow> json \<Rightarrow> (('w, 's) pub_world, manifest) io" where
  "conclude pb m art =
     bindS (record_manifest pb m art True) (\<lambda>_.
     bindS (case pb_open pb of None \<Rightarrow> returnS ()
            | Some _ \<Rightarrow> on_sink (pb_resolve pb publication_key
                ''Gateway configuration publication recovered; the verified revision is ACTIVE.''))
       (\<lambda>_. returnS m))"

definition publish_activation ::
  "('w, 's) publisher \<Rightarrow> manifest \<Rightarrow> json \<Rightarrow> string \<Rightarrow> checks \<Rightarrow> (('w, 's) pub_world, manifest) io" where
  "publish_activation pb m art rv verification =
     bindS (tryS (bindS (on_plane (pl_activate (pb_plane pb) rv)) (\<lambda>_. returnS True))
        (\<lambda>_. returnS False)) (\<lambda>activated.
     if \<not> activated then
       bindS (on_plane (pl_rollback (pb_plane pb) rv)) (\<lambda>_.
       give_up pb (m\<lparr>mf_status := ROLLED_BACK,
           mf_verification := Some (dict_set ''activation'' False verification)\<rparr>) art
         ''PUBLICATION_ACTIVATION_FAILED''
         ''Gateway configuration activation failed and the previous active configuration was preserved.''
         ''ERROR'')
     else conclude pb (m\<lparr>mf_status := ACTIVE, mf_activatedAt := Some (iso_z (pb_clock pb 1))\<rparr>) art)"

definition publish_verification ::
  "('w, 's) publisher \<Rightarrow> manifest \<Rightarrow> json \<Rightarrow> string \<Rightarrow> (('w, 's) pub_world, manifest) io" where
  "publish_verification pb m art rv =
     bindS (tryS (on_plane (pl_verify (pb_plane pb) rv art))
        (\<lambda>_. returnS [(''verification'', False)])) (\<lambda>verification.
     let m' = m\<lparr>mf_verification := Some verification\<rparr> in
     if \<not> list_all (is_true verification) required_checks then
       bindS (on_plane (pl_rollback (pb_plane pb) rv)) (\<lambda>_.
       give_up pb (m'\<lparr>mf_status := ROLLED_BACK\<rparr>) art ''PUBLICATION_VERIFICATION_FAILED''
         ''Gateway configuration verification failed and the staged revision was rolled back.''
         ''ERROR'')
     else publish_activation pb (m'\<lparr>mf_status := VERIFIED\<rparr>) art rv verification)"

definition publish_compiled ::
  "('w, 's) publisher \<Rightarrow> manifest \<Rightarrow> json \<Rightarrow> (('w, 's) pub_world, manifest) io" where
  "publish_compiled pb m art =
     bindS (tryS (on_plane (pl_healthy (pb_plane pb))) (\<lambda>_. returnS False)) (\<lambda>healthy.
     if \<not> healthy then
       give_up pb (m\<lparr>mf_status := FAILED, mf_verification := Some [(''health'', False)]\<rparr>) art
         ''CONTROL_PLANE_UNHEALTHY''
         ''Gateway configuration publication is blocked because the control plane is unavailable.''
         ''CRITICAL''
     else bindS (tryS (bindS (on_plane (pl_stage (pb_plane pb) art)) (\<lambda>rv. returnS (Some rv)))
        (\<lambda>_. returnS None)) (\<lambda>staged.
     case staged of
       None \<Rightarrow>
         give_up pb (m\<lparr>mf_status := FAILED, mf_verification := Some [(''stage'', False)]\<rparr>) art
           ''PUBLICATION_STAGE_FAILED''
           ''Gateway configuration staging failed; no new configuration was activated.'' ''ERROR''
     | Some rv \<Rightarrow> publish_verification pb
         (m\<lparr>mf_status := APPLYING, mf_controlPlaneRevision := Some rv\<rparr>) art rv))"

definition pre_manifest ::
  "('w, 's) publisher \<Rightarrow> string \<Rightarrow> string \<Rightarrow> string \<Rightarrow> manifest option \<Rightarrow> manifest" where
  "pre_manifest pb environment source_revision pid previous =
     \<lparr>mf_publicationId = pid, mf_environment = environment, mf_sourceRevisionRef = source_revision,
      mf_artifactSetHash = replicate 64 CHR ''0'', mf_status = COMPILED,
      mf_createdAt = iso_z (pb_clock pb 0), mf_activatedAt = None, mf_verification = None,
      mf_previousActive = map_option mf_publicationId previous, mf_controlPlaneRevision = None,
      mf_inputHashes = []\<rparr>"

text \<open>\<open>loaded\<close> is what \<open>load_documents\<close> returns for the root, \<open>hashes\<close> what \<open>_input_hashes\<close> does.\<close>

definition compile_governed ::
  "('w, 's) publisher \<Rightarrow> (string \<times> document) list res \<Rightarrow> string \<Rightarrow> artifact res" where
  "compile_governed pb loaded environment =
     bindE (governance (pb_repository pb) (pb_gate pb) loaded environment) (\<lambda>_.
     bindE loaded (compile_config (pb_sha pb)))"

definition publish ::
  "('w, 's) publisher \<Rightarrow> (string \<times> document) list res \<Rightarrow> (string, string) dict \<Rightarrow> string
     \<Rightarrow> string \<Rightarrow> string \<Rightarrow> (('w, 's) pub_world, manifest) io" where
  "publish pb loaded hashes environment source_revision pid = (\<lambda>w.
     if \<not> safe_id pid
     then (Inl (PublicationError ''invalid publication manifest: unsafe publicationId''), w)
     else if store_contains pid (pw_store w)
     then (Inl (PublicationError ''publication manifest is immutable''), w)
     else let pre = pre_manifest pb environment source_revision pid (ps_active (pw_store w)) in
       bindS (liftS (validate_manifest (pb_datetime pb) pre)) (\<lambda>_.
       case compile_governed pb loaded environment of
         Inl e \<Rightarrow> raiseS (PublicationError ''validation/compile failed'')
       | Inr a \<Rightarrow>
           let m = pre\<lparr>mf_artifactSetHash := art_sha256 a, mf_inputHashes := hashes\<rparr> in
           bindS (liftS (validate_manifest (pb_datetime pb) m))
             (\<lambda>_. publish_compiled pb m (artifact_json a))) w)"

section \<open>Coalescing\<close>

text \<open>What the loop over a batch maintains: the newest change of every object seen so far.\<close>

definition newest_of :: "change list \<Rightarrow> (string, change) dict \<Rightarrow> bool" where
  "newest_of cs seen \<longleftrightarrow>
     distinct (dict_keys seen) \<and> set (dict_keys seen) = ch_object_ref ` set cs
     \<and> (\<forall>(k, c) \<in> set seen. c \<in> set cs \<and> ch_object_ref c = k
          \<and> (\<forall>c' \<in> set cs. ch_object_ref c' = k \<longrightarrow> ch_sequence c' \<le> ch_sequence c))"

lemma dict_set_mem:
  "distinct (dict_keys d) \<Longrightarrow>
     (x, y) \<in> set (dict_set k v d) \<longleftrightarrow> (x = k \<and> y = v) \<or> (x \<noteq> k \<and> (x, y) \<in> set d)"
  by (auto simp: dict_lookup_mem dict_set_distinct dict_simps)

lemma newest_of_step:
  assumes "newest_of cs seen"
  shows "newest_of (cs @ [c]) (coalesce_step c seen)"
proof -
  have d: "distinct (dict_keys seen)" and keys: "set (dict_keys seen) = ch_object_ref ` set cs"
    and mem: "\<And>k x. (k, x) \<in> set seen \<Longrightarrow> x \<in> set cs \<and> ch_object_ref x = k
          \<and> (\<forall>c' \<in> set cs. ch_object_ref c' = k \<longrightarrow> ch_sequence c' \<le> ch_sequence x)"
    using assms by (auto simp: newest_of_def)
  show ?thesis
  proof (cases "map_of seen (ch_object_ref c)")
    case None
    then have new: "ch_object_ref c \<notin> ch_object_ref ` set cs"
      using keys by (auto simp: dict_keys_def map_of_eq_None_iff)
    from None have step: "coalesce_step c seen = dict_set (ch_object_ref c) c seen"
      by (simp add: coalesce_step_def)
    have "c' \<in> set cs \<Longrightarrow> ch_object_ref c' \<noteq> ch_object_ref c" for c'
      using new by (metis image_eqI)
    with mem show ?thesis
      unfolding newest_of_def step
      by (auto simp: dict_set_distinct d dict_set_keys keys dict_set_mem [OF d])
  next
    case (Some cur)
    then have cur: "(ch_object_ref c, cur) \<in> set seen" using d by (simp add: dict_lookup_mem)
    then have old: "ch_object_ref c \<in> ch_object_ref ` set cs"
      using mem by (metis image_eqI)
    show ?thesis
    proof (cases "ch_sequence c > ch_sequence cur")
      case True
      with Some have step: "coalesce_step c seen = dict_set (ch_object_ref c) c seen"
        by (simp add: coalesce_step_def)
      have "\<forall>c' \<in> set cs. ch_object_ref c' = ch_object_ref c \<longrightarrow> ch_sequence c' \<le> ch_sequence c"
        using mem [OF cur] True by auto
      with mem show ?thesis
        unfolding newest_of_def step
        by (auto simp: dict_set_distinct d dict_set_keys keys dict_set_mem [OF d])
    next
      case False
      with Some have step: "coalesce_step c seen = seen" by (simp add: coalesce_step_def)
      have "k = ch_object_ref c \<Longrightarrow> ch_sequence c \<le> ch_sequence x" if "(k, x) \<in> set seen" for k x
        using that False Some d by (auto simp: dict_lookup_mem)
      with mem old show ?thesis
        unfolding newest_of_def step by (auto simp: d keys)
    qed
  qed
qed

lemma newest_of_fold: "newest_of cs (fold coalesce_step cs [])"
proof (induction cs rule: rev_induct)
  case Nil
  then show ?case by (simp add: newest_of_def dict_keys_def)
next
  case (snoc c cs)
  then show ?case by (simp add: newest_of_step)
qed

lemma newest_of_length: "newest_of cs seen \<Longrightarrow> length seen = card (ch_object_ref ` set cs)"
  unfolding newest_of_def by (metis dict_keys_def distinct_card length_map)

lemma newest_of_refs: "newest_of cs seen \<Longrightarrow> map ch_object_ref (map snd seen) = dict_keys seen"
  by (auto simp: newest_of_def dict_keys_def)

text \<open>
  A batch is reduced to the newest change of every object: the batch is accepted when, and
  only when, it names at most \<open>maximum\<close> different objects, and the result then holds exactly one
  change per object, in ascending order of the objects, each of them with the highest sequence
  number of its object.
\<close>

theorem coalesce_keeps_newest:
  "case coalesce_batch changes maximum of
     Inl e \<Rightarrow> maximum < 1 \<or> maximum < int (card (ch_object_ref ` set changes))
   | Inr cs \<Rightarrow> 1 \<le> maximum \<and> int (length cs) \<le> maximum
       \<and> sorted_wrt (<) (map ch_object_ref cs)
       \<and> set (map ch_object_ref cs) = ch_object_ref ` set changes
       \<and> (\<forall>c \<in> set cs. c \<in> set changes \<and> (\<forall>c' \<in> set changes.
            ch_object_ref c' = ch_object_ref c \<longrightarrow> ch_sequence c' \<le> ch_sequence c))"
proof -
  define seen where "seen = fold coalesce_step changes []"
  have new: "newest_of changes seen" unfolding seen_def by (rule newest_of_fold)
  note len = newest_of_length [OF new] and refs = newest_of_refs [OF new]
  let ?cs = "sort_by (key_le ch_object_ref) (map snd seen)"
  have "distinct (map ch_object_ref (map snd seen))" unfolding refs using new by (simp add: newest_of_def)
  then have "sorted_wrt (\<lambda>a b. ch_object_ref a \<noteq> ch_object_ref b) (map snd seen)"
    by (simp add: distinct_map distinct_conv_nth sorted_wrt_iff_nth_less inj_on_def)
  then have "sorted_wrt (\<lambda>a b. ch_object_ref a \<noteq> ch_object_ref b) ?cs"
    by (subst sort_by_pairwise) auto
  moreover have "sorted_wrt (key_le ch_object_ref) ?cs" by (rule key_order.sort_by_sorted)
  ultimately have strict: "sorted_wrt (<) (map ch_object_ref ?cs)"
    by (auto simp: sorted_wrt_map sorted_wrt_iff_nth_less key_le_def order.strict_iff_order)
  have set: "set (map ch_object_ref ?cs) = ch_object_ref ` set changes"
  proof -
    have "set (map ch_object_ref ?cs) = set (map ch_object_ref (map snd seen))"
      by (simp add: image_image)
    also have "\<dots> = ch_object_ref ` set changes" unfolding refs using new by (simp add: newest_of_def)
    finally show ?thesis .
  qed
  have newest: "\<forall>c \<in> set ?cs. c \<in> set changes \<and> (\<forall>c' \<in> set changes.
      ch_object_ref c' = ch_object_ref c \<longrightarrow> ch_sequence c' \<le> ch_sequence c)"
    using new by (fastforce simp: newest_of_def)
  show ?thesis
    using strict set newest len by (simp add: coalesce_batch_def seen_def [symmetric] Let_def)
qed

theorem coalesce_keeps_newest_witness:
  "\<exists>cs. coalesce_batch [\<lparr>ch_object_ref = ''a'', ch_sequence = 1, ch_payload = JNull\<rparr>,
      \<lparr>ch_object_ref = ''a'', ch_sequence = 2, ch_payload = JNull\<rparr>] 1 = Inr cs \<and> length cs \<le> 1"
proof -
  let ?b = "[\<lparr>ch_object_ref = ''a'', ch_sequence = 1, ch_payload = JNull\<rparr>,
      \<lparr>ch_object_ref = ''a'', ch_sequence = 2, ch_payload = JNull\<rparr>]"
  obtain cs where "coalesce_batch ?b 1 = Inr cs"
    by (auto simp: coalesce_batch_def coalesce_step_def)
  with coalesce_keeps_newest [where changes = ?b and maximum = 1] show ?thesis by auto
qed

section \<open>The store is crash safe\<close>

text \<open>
  Artifacts are stored under their own hash, every manifest under its id with its artifact
  present, and the active manifest is one of the recorded ones and has status \<open>ACTIVE\<close>.
\<close>

definition store_ok :: "pub_store \<Rightarrow> bool" where
  "store_ok s \<longleftrightarrow>
     (\<forall>h a. map_of (ps_artifacts s) h = Some a \<longrightarrow> jlookup a ''configurationSha256'' = Some (JStr h))
     \<and> (\<forall>pid m. map_of (ps_manifests s) pid = Some m \<longrightarrow>
          mf_publicationId m = pid \<and> map_of (ps_artifacts s) (mf_artifactSetHash m) \<noteq> None)
     \<and> (\<forall>m. ps_active s = Some m \<longrightarrow>
          map_of (ps_manifests s) (mf_publicationId m) = Some m \<and> mf_status m = ACTIVE)"

text \<open>Recorded manifests and artifacts are never changed or removed.\<close>

definition store_grows :: "pub_store \<Rightarrow> pub_store \<Rightarrow> bool" where
  "store_grows s s' \<longleftrightarrow> map_of (ps_manifests s) \<subseteq>\<^sub>m map_of (ps_manifests s')
     \<and> map_of (ps_artifacts s) \<subseteq>\<^sub>m map_of (ps_artifacts s')"

lemma store_grows_refl [simp]: "store_grows s s"
  by (simp add: store_grows_def)

lemma store_grows_trans: "store_grows s t \<Longrightarrow> store_grows t u \<Longrightarrow> store_grows s u"
  by (auto simp: store_grows_def intro: map_le_trans)

lemma store_ok_faults [simp]: "store_ok (s\<lparr>ps_faults := fs\<rparr>) = store_ok s"
  by (simp add: store_ok_def)

lemma store_grows_faults [simp]:
  "store_grows s (t\<lparr>ps_faults := fs\<rparr>) = store_grows s t"
  "store_grows (s\<lparr>ps_faults := fs\<rparr>) t = store_grows s t"
  "store_grows s (t\<lparr>ps_active := a\<rparr>) = store_grows s t"
  by (simp_all add: store_grows_def)

lemma atomic_write_cases:
  assumes "atomic_write put s = (r, s')"
  obtains (failed) e fs where "r = Inl e" "s' = s\<lparr>ps_faults := fs\<rparr>"
  | (written) fs where "r = Inr ()" "s' = put (s\<lparr>ps_faults := fs\<rparr>)"
proof (cases "ps_faults s")
  case Nil
  then have "s\<lparr>ps_faults := []\<rparr> = s" by simp
  with Nil assms written [of "[]"] show thesis by (simp add: atomic_write_def)
next
  case (Cons f fs)
  with assms failed [of _ fs] written [of fs] show thesis
    by (auto simp: atomic_write_def split: if_splits)
qed

lemma put_artifact_ok:
  assumes "store_ok s" and "map_of (ps_artifacts s) h = None"
    and "jlookup art ''configurationSha256'' = Some (JStr h)"
  shows "store_ok (s\<lparr>ps_artifacts := dict_set h art (ps_artifacts s)\<rparr>)
    \<and> store_grows s (s\<lparr>ps_artifacts := dict_set h art (ps_artifacts s)\<rparr>)"
  using assms by (auto simp: store_ok_def store_grows_def dict_simps map_le_def)

lemma put_manifest_ok:
  assumes "store_ok s" and "\<not> store_contains (mf_publicationId m) s"
    and "map_of (ps_artifacts s) (mf_artifactSetHash m) \<noteq> None"
  shows "store_ok (s\<lparr>ps_manifests := dict_set (mf_publicationId m) m (ps_manifests s)\<rparr>)
    \<and> store_grows s (s\<lparr>ps_manifests := dict_set (mf_publicationId m) m (ps_manifests s)\<rparr>)"
  using assms
  by (auto simp: store_ok_def store_grows_def store_contains_def dict_simps map_le_def)

lemma put_active_ok:
  assumes "store_ok s" and "map_of (ps_manifests s) (mf_publicationId m) = Some m"
    and "mf_status m = ACTIVE"
  shows "store_ok (s\<lparr>ps_active := Some m\<rparr>)"
proof -
  let ?t = "s\<lparr>ps_active := Some m\<rparr>"
  have eqs: "ps_artifacts ?t = ps_artifacts s" "ps_manifests ?t = ps_manifests s"
    "ps_active ?t = Some m" by simp_all
  show ?thesis
    using assms unfolding store_ok_def eqs option.inject by blast
qed

text \<open>
  The three outcomes of \<open>record\<close>: nothing but an artifact was written, the manifest was
  written but the pointer was not, or everything was.
\<close>

lemma write_artifact_cases:
  assumes "(if map_of (ps_artifacts s) h = None then write_artifact h art else returnS ()) s = (r, s')"
    and "store_ok s" and "jlookup art ''configurationSha256'' = Some (JStr h)"
  shows "store_ok s' \<and> store_grows s s' \<and> ps_manifests s' = ps_manifests s \<and> ps_active s' = ps_active s
    \<and> (is_ok r \<longrightarrow> map_of (ps_artifacts s') h \<noteq> None)"
proof (cases "map_of (ps_artifacts s) h = None")
  case True
  with assms(1) have "write_artifact h art s = (r, s')" by simp
  then show ?thesis
    unfolding write_artifact_def
  proof (cases rule: atomic_write_cases)
    case (failed e fs)
    with assms(2) show ?thesis by simp
  next
    case (written fs)
    with put_artifact_ok [of "s\<lparr>ps_faults := fs\<rparr>" h art] assms(2,3) True show ?thesis
      by (simp add: dict_simps)
  qed
next
  case False
  with assms show ?thesis by (auto simp: returnS_def)
qed

lemma record_publication_cases:
  assumes rec: "record_publication m art activate s = (r, s')" and ok: "store_ok s"
    and named: "jlookup art ''configurationSha256'' = Some (JStr (mf_artifactSetHash m))"
    and status: "activate \<Longrightarrow> mf_status m = ACTIVE"
  obtains (aborted) e where "r = Inl e" "store_ok s'" "store_grows s s'"
      "ps_manifests s' = ps_manifests s" "ps_active s' = ps_active s"
  | (manifest_only) e where "r = Inl e" "activate" "store_ok s'" "store_grows s s'"
      "map_of (ps_manifests s') = (map_of (ps_manifests s))(mf_publicationId m \<mapsto> m)"
      "ps_active s' = ps_active s"
  | (all) "r = Inr ()" "store_ok s'" "store_grows s s'"
      "map_of (ps_manifests s') = (map_of (ps_manifests s))(mf_publicationId m \<mapsto> m)"
      "ps_active s' = (if activate then Some m else ps_active s)"
proof (cases "store_contains (mf_publicationId m) s
    \<or> (case map_of (ps_artifacts s) (mf_artifactSetHash m) of None \<Rightarrow> False | Some old \<Rightarrow> \<not> json_eq old art)")
  case True
  with rec obtain e where "r = Inl e" "s' = s"
    by (auto simp: record_publication_def split: if_splits)
  then show thesis using aborted ok by simp
next
  case False
  let ?wa = "if map_of (ps_artifacts s) (mf_artifactSetHash m) = None
             then write_artifact (mf_artifactSetHash m) art else returnS ()"
  obtain r1 s1 where 1: "?wa s = (r1, s1)" by fastforce
  note a = write_artifact_cases [OF 1 ok named]
  have rest: "bindS ?wa (\<lambda>_. bindS (write_manifest m)
       (\<lambda>_. if activate then write_active m else returnS ())) s = (r, s')"
    using rec False unfolding record_publication_def by simp
  show thesis
  proof (cases r1)
    case (Inl e)
    with rest 1 have "r = Inl e" "s' = s1" by (auto simp: bindS_def)
    with a show thesis by (intro aborted [of e]) simp_all
  next
    case (Inr u)
    with rest 1 have rest2: "bindS (write_manifest m)
       (\<lambda>_. if activate then write_active m else returnS ()) s1 = (r, s')"
      by (auto simp: bindS_def)
    obtain r2 s2 where 2: "write_manifest m s1 = (r2, s2)" by fastforce
    from 2 show thesis
      unfolding write_manifest_def
    proof (cases rule: atomic_write_cases)
      case (failed e fs)
      with rest2 2 have "r = Inl e" "s' = s2" by (auto simp: bindS_def)
      with failed 2 a show thesis
        by (intro aborted [of e]) (simp_all add: store_grows_def)
    next
      case (written fs)
      have s2: "store_ok s2 \<and> store_grows s s2 \<and> ps_active s2 = ps_active s
          \<and> map_of (ps_manifests s2) = (map_of (ps_manifests s))(mf_publicationId m \<mapsto> m)"
        using put_manifest_ok [of "s1\<lparr>ps_faults := fs\<rparr>" m] a written False Inr
        by (auto simp: store_contains_def dict_simps intro: store_grows_trans)
      from written 2 rest2 have rest3:
        "(if activate then write_active m else returnS ()) s2 = (r, s')"
        by (auto simp: bindS_def)
      show thesis
      proof (cases activate)
        case False
        with rest3 have "r = Inr ()" "s' = s2" by (auto simp: returnS_def)
        with s2 False all show thesis by simp
      next
        case True
        with rest3 have "write_active m s2 = (r, s')" by simp
        then show thesis
          unfolding write_active_def
        proof (cases rule: atomic_write_cases)
          case (failed e fs)
          with s2 True manifest_only show thesis by simp
        next
          case (written fs)
          have "store_ok s'"
            using written put_active_ok [of "s2\<lparr>ps_faults := fs\<rparr>" m] s2 status [OF True] by simp
          with written s2 True show thesis by (intro all) simp_all
        qed
      qed
    qed
  qed
qed

section \<open>The publication state machine\<close>

definition verified :: "manifest \<Rightarrow> bool" where
  "verified m = (case mf_verification m of None \<Rightarrow> False | Some v \<Rightarrow> list_all (is_true v) required_checks)"

text \<open>All required checks are true, and it is the plane's verification of this revision that said so.\<close>

definition verified_by :: "('w, 's) publisher \<Rightarrow> json \<Rightarrow> string \<Rightarrow> manifest \<Rightarrow> bool" where
  "verified_by pb art rv m \<longleftrightarrow> verified m \<and> mf_controlPlaneRevision m = Some rv
     \<and> (\<exists>v p p'. mf_verification m = Some v \<and> pl_verify (pb_plane pb) rv art p = (Inr v, p'))"

lemma on_plane_frame:
  "on_plane m w = (r, w') \<Longrightarrow> pw_store w' = pw_store w \<and> pw_sink w' = pw_sink w"
  by (auto simp: on_plane_def split: prod.splits)

text \<open>A call of the plane whose exceptions are turned into a default value.\<close>

lemma try_plane:
  obtains x w' where "tryS (on_plane m) (\<lambda>_. returnS d) w = (Inr x, w')"
    "pw_store w' = pw_store w" "pw_sink w' = pw_sink w"
proof -
  obtain r v where m: "on_plane m w = (r, v)" by fastforce
  with on_plane_frame [OF m] show thesis
    by (cases r) (auto simp: tryS_def returnS_def intro: that)
qed

text \<open>
  How a run continues from the store and sink that \<open>publish\<close> found: it raised before touching
  them, it gives up with a failed manifest, or it concludes with a verified and activated one.
\<close>

definition gives_up ::
  "('w, 's) publisher \<Rightarrow> manifest \<Rightarrow> json \<Rightarrow> ('w, 's) pub_world
     \<Rightarrow> manifest res \<times> ('w, 's) pub_world \<Rightarrow> bool" where
  "gives_up pb m art w out \<longleftrightarrow> (\<exists>m1 code impact sev w1. give_up pb m1 art code impact sev w1 = out
     \<and> pw_store w1 = pw_store w \<and> pw_sink w1 = pw_sink w \<and> mf_status m1 \<in> {FAILED, ROLLED_BACK}
     \<and> mf_publicationId m1 = mf_publicationId m \<and> mf_artifactSetHash m1 = mf_artifactSetHash m
     \<and> severity_of sev \<noteq> None \<and> impact \<noteq> [])"

definition concludes ::
  "('w, 's) publisher \<Rightarrow> manifest \<Rightarrow> json \<Rightarrow> ('w, 's) pub_world
     \<Rightarrow> manifest res \<times> ('w, 's) pub_world \<Rightarrow> bool" where
  "concludes pb m art w out \<longleftrightarrow> (\<exists>m1 rv p w1. conclude pb m1 art w1 = out
     \<and> pw_store w1 = pw_store w \<and> pw_sink w1 = pw_sink w \<and> mf_status m1 = ACTIVE
     \<and> mf_publicationId m1 = mf_publicationId m \<and> mf_artifactSetHash m1 = mf_artifactSetHash m
     \<and> verified_by pb art rv m1
     \<and> pl_activate (pb_plane pb) rv p = (Inr (), pw_plane w1))"

definition untouched ::
  "('w, 's) pub_world \<Rightarrow> manifest res \<times> ('w, 's) pub_world \<Rightarrow> bool" where
  "untouched w out \<longleftrightarrow> \<not> is_ok (fst out) \<and> pw_store (snd out) = pw_store w \<and> pw_sink (snd out) = pw_sink w"

definition continues ::
  "('w, 's) publisher \<Rightarrow> manifest \<Rightarrow> json \<Rightarrow> ('w, 's) pub_world
     \<Rightarrow> manifest res \<times> ('w, 's) pub_world \<Rightarrow> bool" where
  "continues pb m art w out \<longleftrightarrow> untouched w out \<or> gives_up pb m art w out \<or> concludes pb m art w out"

lemma continues_frame:
  assumes "continues pb m art w out" and "pw_store w = pw_store v" and "pw_sink w = pw_sink v"
    and "mf_publicationId m = mf_publicationId n" and "mf_artifactSetHash m = mf_artifactSetHash n"
  shows "continues pb n art v out"
  using assms unfolding continues_def untouched_def gives_up_def concludes_def by auto

lemma give_up_continues:
  assumes "pw_store w1 = pw_store w" and "pw_sink w1 = pw_sink w"
    and "mf_status m1 \<in> {FAILED, ROLLED_BACK}" and "severity_of sev \<noteq> None" and "impact \<noteq> []"
    and "mf_publicationId m1 = mf_publicationId m" and "mf_artifactSetHash m1 = mf_artifactSetHash m"
  shows "continues pb m art w (give_up pb m1 art code impact sev w1)"
  unfolding continues_def gives_up_def using assms by blast

lemma rollback_continues:
  assumes "pw_store w1 = pw_store w" and "pw_sink w1 = pw_sink w" and "mf_status m1 = ROLLED_BACK"
    and "severity_of sev \<noteq> None" and "impact \<noteq> []"
    and "mf_publicationId m1 = mf_publicationId m" and "mf_artifactSetHash m1 = mf_artifactSetHash m"
  shows "continues pb m art w (bindS (on_plane (pl_rollback (pb_plane pb) rv))
           (\<lambda>_. give_up pb m1 art code impact sev) w1)"
proof -
  obtain r w2 where 2: "on_plane (pl_rollback (pb_plane pb) rv) w1 = (r, w2)" by fastforce
  note fr = on_plane_frame [OF 2]
  show ?thesis
  proof (cases r)
    case (Inl e)
    with 2 fr assms(1,2) show ?thesis by (simp add: bindS_def continues_def untouched_def)
  next
    case (Inr u)
    with 2 fr assms show ?thesis by (simp add: bindS_def) (rule give_up_continues, auto)
  qed
qed

lemma publish_activation_continues:
  assumes "mf_verification m = Some v" and "list_all (is_true v) required_checks"
    and "mf_controlPlaneRevision m = Some rv" and "pl_verify (pb_plane pb) rv art p = (Inr v, p')"
  shows "continues pb m art w (publish_activation pb m art rv v w)"
proof -
  obtain r w1 where 1: "on_plane (pl_activate (pb_plane pb) rv) w = (r, w1)" by fastforce
  note fr = on_plane_frame [OF 1]
  show ?thesis
  proof (cases r)
    case (Inl e)
    with 1 have "publish_activation pb m art rv v w = bindS (on_plane (pl_rollback (pb_plane pb) rv)) (\<lambda>_.
       give_up pb (m\<lparr>mf_status := ROLLED_BACK,
           mf_verification := Some (dict_set ''activation'' False v)\<rparr>) art
         ''PUBLICATION_ACTIVATION_FAILED''
         ''Gateway configuration activation failed and the previous active configuration was preserved.''
         ''ERROR'') w1"
      by (simp add: publish_activation_def bindS_def tryS_def returnS_def)
    with fr show ?thesis by (simp only:) (rule rollback_continues, auto)
  next
    case (Inr u)
    let ?m = "m\<lparr>mf_status := ACTIVE, mf_activatedAt := Some (iso_z (pb_clock pb 1))\<rparr>"
    from 1 Inr have run: "publish_activation pb m art rv v w = conclude pb ?m art w1"
      by (simp add: publish_activation_def bindS_def tryS_def returnS_def)
    from 1 Inr have act: "pl_activate (pb_plane pb) rv (pw_plane w) = (Inr (), pw_plane w1)"
      by (auto simp: on_plane_def split: prod.splits)
    have "verified_by pb art rv ?m" using assms by (auto simp: verified_by_def verified_def)
    with run act fr have "concludes pb m art w (publish_activation pb m art rv v w)"
      unfolding concludes_def by (intro exI [of _ ?m] exI [of _ rv] exI [of _ "pw_plane w"] exI [of _ w1]) simp
    then show ?thesis by (simp add: continues_def)
  qed
qed

lemma publish_verification_continues:
  assumes "mf_controlPlaneRevision m = Some rv"
  shows "continues pb m art w (publish_verification pb m art rv w)"
proof -
  let ?verify = "tryS (on_plane (pl_verify (pb_plane pb) rv art)) (\<lambda>_. returnS [(''verification'', False)])"
  obtain v w1 where 1: "?verify w = (Inr v, w1)" and fr: "pw_store w1 = pw_store w" "pw_sink w1 = pw_sink w"
    by (rule try_plane)
  show ?thesis
  proof (cases "list_all (is_true v) required_checks")
    case False
    with 1 have "publish_verification pb m art rv w = bindS (on_plane (pl_rollback (pb_plane pb) rv)) (\<lambda>_.
       give_up pb (m\<lparr>mf_verification := Some v, mf_status := ROLLED_BACK\<rparr>) art
         ''PUBLICATION_VERIFICATION_FAILED''
         ''Gateway configuration verification failed and the staged revision was rolled back.''
         ''ERROR'') w1"
      by (simp add: publish_verification_def bindS_def Let_def)
    with fr show ?thesis by (simp only:) (rule rollback_continues, auto)
  next
    case True
    let ?m = "m\<lparr>mf_verification := Some v, mf_status := VERIFIED\<rparr>"
    from 1 True have "publish_verification pb m art rv w = publish_activation pb ?m art rv v w1"
      by (simp add: publish_verification_def bindS_def Let_def)
    moreover from 1 True obtain p p' where ver: "pl_verify (pb_plane pb) rv art p = (Inr v, p')"
      by (auto simp: tryS_def returnS_def on_plane_def required_checks_def is_true_def
          split: sum.splits prod.splits)
    have "continues pb ?m art w1 (publish_activation pb ?m art rv v w1)"
      by (rule publish_activation_continues [OF _ _ _ ver]) (use True assms in simp_all)
    ultimately show ?thesis using fr continues_frame [of pb ?m art w1 _ w m] by simp
  qed
qed

lemma publish_compiled_continues: "continues pb m art w (publish_compiled pb m art w)"
proof -
  let ?health = "tryS (on_plane (pl_healthy (pb_plane pb))) (\<lambda>_. returnS False)"
  obtain ok w1 where 1: "?health w = (Inr ok, w1)" and fr1: "pw_store w1 = pw_store w" "pw_sink w1 = pw_sink w"
    by (rule try_plane)
  obtain r w2 where 2: "on_plane (pl_stage (pb_plane pb) art) w1 = (r, w2)" by fastforce
  note fr2 = on_plane_frame [OF 2]
  consider "\<not> ok" | e where "ok" "r = Inl e" | rv where "ok" "r = Inr rv" by (cases r) auto
  then show ?thesis
  proof cases
    case 1
    with \<open>?health w = (Inr ok, w1)\<close> have "publish_compiled pb m art w = give_up pb
        (m\<lparr>mf_status := FAILED, mf_verification := Some [(''health'', False)]\<rparr>) art
         ''CONTROL_PLANE_UNHEALTHY''
         ''Gateway configuration publication is blocked because the control plane is unavailable.''
         ''CRITICAL'' w1"
      by (simp add: publish_compiled_def bindS_def)
    with fr1 show ?thesis by (simp only:) (rule give_up_continues, auto)
  next
    case (2 e)
    with 1 \<open>on_plane (pl_stage (pb_plane pb) art) w1 = (r, w2)\<close>
    have "publish_compiled pb m art w = give_up pb
        (m\<lparr>mf_status := FAILED, mf_verification := Some [(''stage'', False)]\<rparr>) art
           ''PUBLICATION_STAGE_FAILED''
           ''Gateway configuration staging failed; no new configuration was activated.'' ''ERROR'' w2"
      by (simp add: publish_compiled_def bindS_def tryS_def returnS_def)
    with fr1 fr2 show ?thesis by (simp only:) (rule give_up_continues, auto)
  next
    case (3 rv)
    let ?m = "m\<lparr>mf_status := APPLYING, mf_controlPlaneRevision := Some rv\<rparr>"
    from 3 1 2 have "publish_compiled pb m art w = publish_verification pb ?m art rv w2"
      by (simp add: publish_compiled_def bindS_def tryS_def returnS_def)
    moreover have "continues pb ?m art w2 (publish_verification pb ?m art rv w2)"
      by (rule publish_verification_continues) simp
    ultimately show ?thesis using fr1 fr2 continues_frame [of pb ?m art w2 _ w m] by simp
  qed
qed

lemma publish_cases:
  assumes "publish pb loaded hashes env src pid w = out"
  obtains (early) "untouched w out"
  | (run) m docs a where "\<not> store_contains pid (pw_store w)" "loaded = Inr docs"
      "governance (pb_repository pb) (pb_gate pb) loaded env = Inr ()"
      "compile_config (pb_sha pb) docs = Inr a" "mf_publicationId m = pid"
      "mf_artifactSetHash m = art_sha256 a" "continues pb m (artifact_json a) w out"
proof -
  let ?pre = "pre_manifest pb env src pid (ps_active (pw_store w))"
  let ?v = "validate_manifest (pb_datetime pb)"
  consider "\<not> safe_id pid \<or> store_contains pid (pw_store w) \<or> \<not> is_ok (?v ?pre)
      \<or> \<not> is_ok (compile_governed pb loaded env)"
    | a where "safe_id pid" "\<not> store_contains pid (pw_store w)" "?v ?pre = Inr ()"
        "compile_governed pb loaded env = Inr a"
    by (auto simp: is_ok_iff)
  then show thesis
  proof cases
    case 1
    then have "untouched w out"
      using assms [symmetric]
      by (cases "?v ?pre"; cases "compile_governed pb loaded env")
        (auto simp: publish_def untouched_def Let_def bindS_def liftS_def raiseS_def)
    then show thesis by (rule early)
  next
    case (2 a)
    let ?m = "?pre\<lparr>mf_artifactSetHash := art_sha256 a, mf_inputHashes := hashes\<rparr>"
    from 2(4) obtain docs where docs: "loaded = Inr docs" "compile_config (pb_sha pb) docs = Inr a"
      "governance (pb_repository pb) (pb_gate pb) loaded env = Inr ()"
      by (auto simp: compile_governed_def result_simps)
    have run_eq: "out = bindS (liftS (?v ?m)) (\<lambda>_. publish_compiled pb ?m (artifact_json a)) w"
      using assms [symmetric] 2 by (simp add: publish_def Let_def bindS_def liftS_def)
    show thesis
    proof (cases "?v ?m")
      case (Inl e)
      with run_eq have "untouched w out" by (simp add: untouched_def bindS_def liftS_def)
      then show thesis by (rule early)
    next
      case (Inr u)
      with run_eq have "out = publish_compiled pb ?m (artifact_json a) w"
        by (simp add: bindS_def liftS_def)
      with 2(2) docs publish_compiled_continues [of pb ?m] show thesis
        by (intro run [where m = ?m and docs = docs and a = a]) (simp_all add: pre_manifest_def)
    qed
  qed
qed

lemma artifact_json_named: "jlookup (artifact_json a) ''configurationSha256'' = Some (JStr (art_sha256 a))"
  by (simp add: artifact_json_def output_json_def)

lemma record_manifest_frame:
  assumes "record_manifest pb m art activate w = (r, w')"
  shows "pw_sink w' = pw_sink w"
    and "(\<exists>e. r = Inl e \<and> w' = w) \<or> record_publication m art activate (pw_store w) = (r, pw_store w')"
  using assms
  by (cases "validate_manifest (pb_datetime pb) m";
      auto simp: record_manifest_def bindS_def liftS_def on_store_def split: prod.splits)+

text \<open>What a run does to the store, whichever way it ends.\<close>

definition store_effect :: "string \<Rightarrow> pub_store \<Rightarrow> pub_store \<Rightarrow> manifest res \<Rightarrow> bool" where
  "store_effect pid s s' r \<longleftrightarrow> store_ok s' \<and> store_grows s s'
     \<and> (\<forall>k. k \<noteq> pid \<longrightarrow> map_of (ps_manifests s') k = map_of (ps_manifests s) k)
     \<and> (\<forall>m. r = Inr m \<longrightarrow> map_of (ps_manifests s') pid = Some m)"

lemma record_manifest_effect:
  assumes "record_manifest pb m art activate w = (r, w')" and "store_ok (pw_store w)"
    and "jlookup art ''configurationSha256'' = Some (JStr (mf_artifactSetHash m))"
    and "activate \<Longrightarrow> mf_status m = ACTIVE"
  shows "store_effect (mf_publicationId m) (pw_store w) (pw_store w') (bindE r (\<lambda>_. Inr m))
    \<and> (if r = Inr () \<and> activate then ps_active (pw_store w') = Some m
       else ps_active (pw_store w') = ps_active (pw_store w))"
proof -
  consider e where "r = Inl e" "w' = w"
    | "record_publication m art activate (pw_store w) = (r, pw_store w')"
    using record_manifest_frame(2) [OF assms(1)] by blast
  then show ?thesis
  proof cases
    case (1 e)
    with assms(2) show ?thesis by (simp add: store_effect_def)
  next
    case 2
    from 2 assms(2-4) show ?thesis
      by (cases rule: record_publication_cases) (auto simp: store_effect_def)
  qed
qed

lemma give_up_effect:
  assumes "give_up pb m art code impact sev w = (r, w')" and "store_ok (pw_store w)"
    and "jlookup art ''configurationSha256'' = Some (JStr (mf_artifactSetHash m))"
  shows "store_effect (mf_publicationId m) (pw_store w) (pw_store w') r
    \<and> ps_active (pw_store w') = ps_active (pw_store w) \<and> (\<forall>x. r = Inr x \<longrightarrow> x = m)"
proof -
  obtain r1 w1 where 1: "record_manifest pb m art False w = (r1, w1)" by fastforce
  note eff = record_manifest_effect [OF 1 assms(2,3)]
  have "pw_store w' = pw_store w1 \<and> (r = Inr m \<or> (\<exists>e. r = Inl e))"
    using assms(1) 1
    by (auto simp: give_up_def bindS_def raise_incident_def on_sink_def returnS_def
        split: sum.splits prod.splits option.splits)
  moreover have "r = Inr m \<Longrightarrow> r1 = Inr ()"
    using assms(1) 1 by (cases r1) (auto simp: give_up_def bindS_def)
  ultimately show ?thesis using eff by (cases r1) (auto simp: store_effect_def)
qed

lemma conclude_effect:
  assumes "conclude pb m art w = (r, w')" and "store_ok (pw_store w)" and "mf_status m = ACTIVE"
    and "jlookup art ''configurationSha256'' = Some (JStr (mf_artifactSetHash m))"
  shows "store_effect (mf_publicationId m) (pw_store w) (pw_store w') r
    \<and> ps_active (pw_store w') \<in> {ps_active (pw_store w), Some m}
    \<and> (\<forall>x. r = Inr x \<longrightarrow> x = m \<and> ps_active (pw_store w') = Some m)"
proof -
  obtain r1 w1 where 1: "record_manifest pb m art True w = (r1, w1)" by fastforce
  note eff = record_manifest_effect [OF 1 assms(2,4)]
  have same: "pw_store w' = pw_store w1 \<and> (r = Inr m \<or> (\<exists>e. r = Inl e)) \<and> (is_ok r \<longrightarrow> r1 = Inr ())"
    using assms(1) 1
    by (auto simp: conclude_def bindS_def on_sink_def returnS_def
        split: sum.splits prod.splits option.splits)
  then show ?thesis using eff assms(3) by (cases r1) (auto simp: store_effect_def split: if_splits)
qed

lemma publish_effect:
  assumes run: "publish pb loaded hashes env src pid w = (r, w')" and ok: "store_ok (pw_store w)"
  shows "store_effect pid (pw_store w) (pw_store w') r
    \<and> (ps_active (pw_store w') = ps_active (pw_store w)
       \<or> (\<exists>m a rv p p'. ps_active (pw_store w') = Some m \<and> mf_publicationId m = pid
            \<and> mf_artifactSetHash m = art_sha256 a \<and> verified_by pb (artifact_json a) rv m
            \<and> pl_activate (pb_plane pb) rv p = (Inr (), p')))
    \<and> (\<forall>m. r = Inr m \<longrightarrow> mf_publicationId m = pid
         \<and> (if mf_status m = ACTIVE then ps_active (pw_store w') = Some m
              \<and> (\<exists>art rv. verified_by pb art rv m)
            else mf_status m \<in> {FAILED, ROLLED_BACK}
              \<and> ps_active (pw_store w') = ps_active (pw_store w)))"
  using run
proof (cases rule: publish_cases)
  case early
  with ok show ?thesis by (auto simp: untouched_def store_effect_def)
next
  case (run m docs a)
  note named = artifact_json_named [of a]
  from run(7) consider "untouched w (r, w')" | "gives_up pb m (artifact_json a) w (r, w')"
    | "concludes pb m (artifact_json a) w (r, w')" by (auto simp: continues_def)
  then show ?thesis
  proof cases
    case 1
    with ok show ?thesis by (auto simp: untouched_def store_effect_def)
  next
    case 2
    then obtain m1 code impact sev w1 where
      g: "give_up pb m1 (artifact_json a) code impact sev w1 = (r, w')" and
      m1: "pw_store w1 = pw_store w" "mf_status m1 \<in> {FAILED, ROLLED_BACK}"
        "mf_publicationId m1 = pid" "mf_artifactSetHash m1 = art_sha256 a"
      using run(5,6) unfolding gives_up_def by metis
    have nm: "jlookup (artifact_json a) ''configurationSha256'' = Some (JStr (mf_artifactSetHash m1))"
      and ok1: "store_ok (pw_store w1)" using named ok m1(1,4) by simp_all
    have e: "store_effect pid (pw_store w) (pw_store w') r"
      "ps_active (pw_store w') = ps_active (pw_store w)" "\<forall>x. r = Inr x \<longrightarrow> x = m1"
      using give_up_effect [OF g ok1 nm] unfolding m1(1,3) by blast+
    have "mf_status m1 \<noteq> ACTIVE" using m1(2) by auto
    then have "\<forall>m. r = Inr m \<longrightarrow> mf_publicationId m = pid
         \<and> (if mf_status m = ACTIVE then ps_active (pw_store w') = Some m
              \<and> (\<exists>art rv. verified_by pb art rv m)
            else mf_status m \<in> {FAILED, ROLLED_BACK}
              \<and> ps_active (pw_store w') = ps_active (pw_store w))"
      using e(2,3) m1(2,3) by metis
    with e(1,2) show ?thesis by blast
  next
    case 3
    then obtain m1 rv p w1 where
      c: "conclude pb m1 (artifact_json a) w1 = (r, w')" and
      m1: "pw_store w1 = pw_store w" "mf_status m1 = ACTIVE" "verified_by pb (artifact_json a) rv m1"
        "mf_publicationId m1 = pid" "mf_artifactSetHash m1 = art_sha256 a" "pl_activate (pb_plane pb) rv p = (Inr (), pw_plane w1)"
      using run(5,6) unfolding concludes_def by metis
    have nm: "jlookup (artifact_json a) ''configurationSha256'' = Some (JStr (mf_artifactSetHash m1))"
      and ok1: "store_ok (pw_store w1)" using named ok m1(1,5) by simp_all
    have e: "store_effect pid (pw_store w) (pw_store w') r"
      "ps_active (pw_store w') \<in> {ps_active (pw_store w), Some m1}"
      "\<forall>x. r = Inr x \<longrightarrow> x = m1 \<and> ps_active (pw_store w') = Some m1"
      using conclude_effect [OF c ok1 m1(2) nm] unfolding m1(1,4) by blast+
    have "ps_active (pw_store w') = ps_active (pw_store w) \<or> (\<exists>m a rv p p'.
        ps_active (pw_store w') = Some m \<and> mf_publicationId m = pid
        \<and> mf_artifactSetHash m = art_sha256 a \<and> verified_by pb (artifact_json a) rv m
        \<and> pl_activate (pb_plane pb) rv p = (Inr (), p'))"
      using e(2) m1(3-6) by blast
    moreover have "\<forall>m. r = Inr m \<longrightarrow> mf_publicationId m = pid
         \<and> (if mf_status m = ACTIVE then ps_active (pw_store w') = Some m
              \<and> (\<exists>art rv. verified_by pb art rv m)
            else mf_status m \<in> {FAILED, ROLLED_BACK}
              \<and> ps_active (pw_store w') = ps_active (pw_store w))"
      using e(3) m1(2-4) by metis
    ultimately show ?thesis using e(1) by blast
  qed
qed

end
