(* ===== verification/Publication_Safety.thy ===== *)
theory Publication_Safety
  imports Publication
begin

text \<open>
  The properties of \<open>tools/publication.py\<close>: what a publication may do to the recorded history,
  to the active manifest, to the control plane and to the incident store, on every outcome; the
  publisher over the two control-plane adapters; and the outcomes that escape the recording.
\<close>

section \<open>A control plane in memory\<close>

text \<open>An admin port over a table of revisions, used to evaluate the publisher.\<close>

record mem_world =
  mw_revs :: "(string, json) dict"
  mw_active :: json
  mw_checks :: checks

definition mem_admin :: "mem_world admin_port" where
  "mem_admin = \<lparr>ap_health = returnS True,
     ap_put = (\<lambda>rv art w. (Inr (), w\<lparr>mw_revs := dict_set rv art (mw_revs w)\<rparr>)),
     ap_read = (\<lambda>rv w. (case map_of (mw_revs w) rv of
        None \<Rightarrow> Inl (APISIXAdminError ''missing'') | Some art \<Rightarrow> Inr art, w)),
     ap_probe = (\<lambda>rv w. (Inr (mw_checks w), w)),
     ap_activate = (\<lambda>rv w. (Inr (), w\<lparr>mw_active := JStr rv\<rparr>)),
     ap_active = (\<lambda>w. (Inr (mw_active w), w)),
     ap_delete = (\<lambda>rv w. (Inr (), w\<lparr>mw_revs := filter (\<lambda>x. fst x \<noteq> rv) (mw_revs w)\<rparr>))\<rparr>"

definition sample_hash :: string where
  "sample_hash = replicate 64 CHR ''a''"

definition sample_repository :: repository where
  "sample_repository = \<lparr>rp_catalog = JObj [], rp_compat =
     JObj [(''policy'', JObj [(''rejectUnknownGeneration'', JBool True)])],
     rp_overlay = (\<lambda>_. Some (JObj []))\<rparr>"

definition sample_publisher :: "(mem_world, sink_state) publisher" where
  "sample_publisher = \<lparr>pb_plane = apisix_plane (\<lambda>_. sample_hash) mem_admin, pb_clock = (\<lambda>n. n),
     pb_gate = None, pb_open = Some (store_open (\<lambda>n. (''u'', n))),
     pb_resolve = store_resolve (\<lambda>n. (''u'', n)), pb_repository = sample_repository,
     pb_sha = (\<lambda>_. sample_hash), pb_datetime = (\<lambda>_. True)\<rparr>"

definition sample_world :: "checks \<Rightarrow> (mem_world, sink_state) pub_world" where
  "sample_world cs = \<lparr>pw_plane = \<lparr>mw_revs = [], mw_active = JNull, mw_checks = cs\<rparr>,
     pw_store = \<lparr>ps_manifests = [], ps_artifacts = [], ps_active = None, ps_faults = []\<rparr>,
     pw_sink = \<lparr>sink_calls = 0, sink_db = empty_incident_db\<rparr>\<rparr>"

definition all_checks :: checks where
  "all_checks = map (\<lambda>k. (k, True)) required_checks"

definition sample_artifact :: artifact where
  "sample_artifact = (let rs = [route_of (sample_route ''r'' ''1'' ''/one'') sample_cap sample_src,
       route_of (sample_route ''r'' ''2'' ''/two'') sample_cap sample_src]
     in \<lparr>art_routes = rs, art_sha256 = sample_hash\<rparr>)"

lemma hex64_sample: "hex64 sample_hash" "hex64 (replicate 64 CHR ''0'')"
  by (simp_all add: hex64_def sample_hash_def list_all_iff)

lemma sample_governed: "compile_governed sample_publisher (Inr sample_docs) ''dev'' = Inr sample_artifact"
proof -
  have "mapE (govern_route None (index_all sample_docs)) sample_docs = Inr [(), (), (), ()]"
    by (simp add: govern_route_def index_all_def sample_docs_def sample_cap_def sample_src_def
        sample_route_def validate_route_activation_def truthy_def service_of_endpoint_def starts_with_def)
  then have "governance sample_repository None (Inr sample_docs) ''dev'' = Inr ()"
    by (simp add: governance_def sample_repository_def)
  then show ?thesis
    by (simp add: compile_governed_def sample_publisher_def sample_docs_compile sample_artifact_def Let_def)
qed

definition sample_manifest :: manifest where
  "sample_manifest = (pre_manifest sample_publisher ''dev'' ''git'' ''p1'' None)
     \<lparr>mf_artifactSetHash := sample_hash, mf_inputHashes := []\<rparr>"

lemma sample_publish_compiled:
  "publish sample_publisher (Inr sample_docs) [] ''dev'' ''git'' ''p1'' (sample_world cs)
     = publish_compiled sample_publisher sample_manifest (artifact_json sample_artifact) (sample_world cs)"
proof -
  have id: "safe_id ''p1''" "safe_environment ''dev''"
    by (simp_all add: safe_id_def safe_environment_def is_alnum_def is_alpha_def is_digit_def less_eq_char_def)
  then have valid: "validate_manifest (pb_datetime sample_publisher)
        (pre_manifest sample_publisher ''dev'' ''git'' ''p1'' None) = Inr ()"
      "validate_manifest (pb_datetime sample_publisher) sample_manifest = Inr ()"
    using hex64_sample
    by (simp_all add: validate_manifest_def valid_manifest_def dollar_def pre_manifest_def
        sample_manifest_def sample_publisher_def)
  have art: "art_sha256 sample_artifact = sample_hash" by (simp add: sample_artifact_def Let_def)
  show ?thesis
    using id valid
    by (simp add: publish_def sample_governed sample_world_def store_contains_def Let_def bindS_def
        liftS_def art sample_manifest_def [symmetric])
qed

lemmas plane_eval = apisix_plane_def cp_healthy_def cp_stage_def cp_verify_def cp_activate_def
  cp_rollback_def mem_admin_def io_defs on_plane_def Let_def

definition sample_revision :: string where
  "sample_revision = ''sha256:'' @ sample_hash"

text \<open>The calls of the plane in one run over the sample world.\<close>

lemma sample_plane_calls:
  "pl_healthy (pb_plane sample_publisher) p = (Inr True, p)"
  "pl_stage (pb_plane sample_publisher) art p
     = (Inr sample_revision, p\<lparr>mw_revs := dict_set sample_revision art (mw_revs p)\<rparr>)"
  "pl_activate (pb_plane sample_publisher) rv p = (Inr (), p\<lparr>mw_active := JStr rv\<rparr>)"
  by (simp_all add: sample_publisher_def plane_eval dict_simps revision_for_def sample_revision_def)

lemma sample_verify:
  assumes "map_of (mw_revs p) sample_revision = Some art"
  shows "pl_verify (pb_plane sample_publisher) sample_revision art p = (Inr
     [(''health'', is_true (mw_checks p) ''health''), (''routeBinding'', is_true (mw_checks p) ''routeBinding''),
      (''authorizationNegativePath'', is_true (mw_checks p) ''authorizationNegativePath''),
      (''upstreamReachability'', is_true (mw_checks p) ''upstreamReachability''),
      (''convergence'', is_true (mw_checks p) ''convergence''), (''artifactIntegrity'', True)], p)"
  using assms
  by (simp add: sample_publisher_def plane_eval revision_for_def sample_revision_def)

lemma sample_rollback:
  "mw_active p \<noteq> JStr rv \<Longrightarrow> pl_rollback (pb_plane sample_publisher) rv p
     = (Inr (), p\<lparr>mw_revs := filter (\<lambda>x. fst x \<noteq> rv) (mw_revs p)\<rparr>)"
  by (simp add: sample_publisher_def plane_eval)

lemma sample_valid: "safe_id (mf_publicationId m) \<Longrightarrow> mf_environment m = ''dev'' \<Longrightarrow>
    mf_sourceRevisionRef m = ''git'' \<Longrightarrow> mf_artifactSetHash m = sample_hash \<Longrightarrow> mf_inputHashes m = [] \<Longrightarrow>
    validate_manifest (pb_datetime sample_publisher) m = Inr ()"
  using hex64_sample
  by (simp add: validate_manifest_def valid_manifest_def dollar_def sample_publisher_def
      safe_environment_def is_digit_def less_eq_char_def split: option.splits)

lemma safe_p1: "safe_id ''p1''"
  by (simp add: safe_id_def is_alnum_def is_alpha_def is_digit_def less_eq_char_def)

text \<open>A run with all checks true activates; a run with none rolls back and opens the incident.\<close>

lemma sample_sink:
  "pb_open sample_publisher = Some (store_open (\<lambda>n. (''u'', n)))"
  "pb_resolve sample_publisher = store_resolve (\<lambda>n. (''u'', n))"
  by (simp_all add: sample_publisher_def)

lemma sample_open:
  "impact \<noteq> [] \<Longrightarrow> \<exists>s. store_open (\<lambda>n. (''u'', n)) (blocked_args ''p1'' code impact ''ERROR'')
      \<lparr>sink_calls = 0, sink_db = empty_incident_db\<rparr> = Inr s"
  by (simp add: store_open_def open_incident_def blocked_args_def publication_key_def
      empty_incident_db_def transaction_def update_where_def Let_def)

lemmas publish_eval = publish_compiled_def publish_verification_def publish_activation_def
  conclude_def give_up_def raise_incident_def record_manifest_def sample_plane_calls sample_verify
  sample_rollback dict_simps sample_valid safe_p1 sample_manifest_def pre_manifest_def
  sample_world_def required_checks_def is_true_def io_defs on_plane_def on_store_def Let_def
  record_publication_def write_artifact_def write_manifest_def write_active_def
  atomic_write_def store_contains_def on_sink_def sample_sink

lemma sample_active:
  "\<exists>m w'. publish sample_publisher (Inr sample_docs) [] ''dev'' ''git'' ''p1'' (sample_world all_checks)
     = (Inr m, w') \<and> mf_status m = ACTIVE"
  unfolding sample_publish_compiled
  by (simp add: publish_eval all_checks_def store_resolve_def)

lemma sample_rolled_back:
  "\<exists>m w'. publish sample_publisher (Inr sample_docs) [] ''dev'' ''git'' ''p1'' (sample_world [])
     = (Inr m, w') \<and> mf_status m = ROLLED_BACK"
proof -
  obtain s where "store_open (\<lambda>n. (''u'', n)) (blocked_args ''p1'' ''PUBLICATION_VERIFICATION_FAILED''
      ''Gateway configuration verification failed and the staged revision was rolled back.'' ''ERROR'')
      \<lparr>sink_calls = 0, sink_db = empty_incident_db\<rparr> = Inr s"
    using sample_open by blast
  then show ?thesis
    unfolding sample_publish_compiled by (simp add: publish_eval)
qed

lemma sample_store_ok: "store_ok (pw_store (sample_world cs))"
  by (simp add: store_ok_def sample_world_def)

section \<open>History and the active manifest\<close>

text \<open>
  C2. Whatever happens during a publication, down to a write that fails half way, the store
  stays consistent and its history immutable: every manifest and artifact recorded before is
  still there unchanged, no manifest but the one of this publication id is new, the active
  manifest is a recorded one with status \<open>ACTIVE\<close>, and a publication that returns a manifest
  has recorded it.
\<close>

theorem publish_preserves_history:
  assumes "publish pb loaded hashes env src pid w = (r, w')" and "store_ok (pw_store w)"
  shows "store_ok (pw_store w') \<and> store_grows (pw_store w) (pw_store w')
    \<and> (\<forall>k. k \<noteq> pid \<longrightarrow> map_of (ps_manifests (pw_store w')) k = map_of (ps_manifests (pw_store w)) k)
    \<and> (\<forall>m. r = Inr m \<longrightarrow> map_of (ps_manifests (pw_store w')) pid = Some m)"
  using publish_effect [OF assms] by (simp add: store_effect_def)

theorem publish_preserves_history_witness:
  "\<exists>m w'. publish sample_publisher (Inr sample_docs) [] ''dev'' ''git'' ''p1'' (sample_world all_checks)
     = (Inr m, w') \<and> store_ok (pw_store w') \<and> map_of (ps_manifests (pw_store w')) ''p1'' = Some m"
proof -
  obtain m w' where run: "publish sample_publisher (Inr sample_docs) [] ''dev'' ''git'' ''p1''
      (sample_world all_checks) = (Inr m, w')"
    using sample_active by blast
  from publish_preserves_history [OF run sample_store_ok] run show ?thesis by blast
qed

text \<open>
  C1. The active manifest changes only to a verified one: after a publication with any outcome it
  is the one from before, the last known good, or the manifest of this publication: then the
  control plane's verification of its revision reported every required check true, and the
  control plane's activation of that revision returned normally.
\<close>

theorem active_manifest_last_known_good:
  assumes "publish pb loaded hashes env src pid w = (r, w')" and "store_ok (pw_store w)"
    and "ps_active (pw_store w') \<noteq> ps_active (pw_store w)"
  shows "\<exists>m a v rv p p' q q'. ps_active (pw_store w') = Some m \<and> mf_publicationId m = pid
    \<and> mf_artifactSetHash m = art_sha256 a \<and> mf_controlPlaneRevision m = Some rv
    \<and> mf_verification m = Some v \<and> (\<forall>k \<in> set required_checks. map_of v k = Some True)
    \<and> pl_verify (pb_plane pb) rv (artifact_json a) p = (Inr v, p')
    \<and> pl_activate (pb_plane pb) rv q = (Inr (), q')"
proof -
  from publish_effect [OF assms(1,2)] assms(3) obtain m a rv q q' where
    m: "ps_active (pw_store w') = Some m" "mf_publicationId m = pid" "mf_artifactSetHash m = art_sha256 a"
    "pl_activate (pb_plane pb) rv q = (Inr (), q')" and vb: "verified_by pb (artifact_json a) rv m"
    by blast
  from vb obtain v p p' where v: "mf_controlPlaneRevision m = Some rv" "mf_verification m = Some v"
    "pl_verify (pb_plane pb) rv (artifact_json a) p = (Inr v, p')" and "verified m"
    by (auto simp: verified_by_def)
  then have "\<forall>k \<in> set required_checks. map_of v k = Some True"
    by (simp add: verified_def is_true_def list_all_iff)
  with m v show ?thesis by blast
qed

lemma sample_active_changes:
  assumes "publish sample_publisher (Inr sample_docs) [] ''dev'' ''git'' ''p1'' (sample_world all_checks)
     = (Inr m, w')" and "mf_status m = ACTIVE"
  shows "ps_active (pw_store w') \<noteq> ps_active (pw_store (sample_world all_checks))"
proof -
  have "ps_active (pw_store w') = Some m" using publish_effect [OF assms(1) sample_store_ok] assms(2) by simp
  then show ?thesis by (simp add: sample_world_def)
qed

theorem active_manifest_last_known_good_witness:
  "\<exists>m w' v. publish sample_publisher (Inr sample_docs) [] ''dev'' ''git'' ''p1'' (sample_world all_checks)
     = (Inr m, w') \<and> map_of v ''upstreamReachability'' = Some True"
proof -
  obtain m w' where run: "publish sample_publisher (Inr sample_docs) [] ''dev'' ''git'' ''p1''
      (sample_world all_checks) = (Inr m, w')" and act: "mf_status m = ACTIVE"
    using sample_active by blast
  have "''upstreamReachability'' \<in> set required_checks" by (simp add: required_checks_def)
  with active_manifest_last_known_good [OF run sample_store_ok sample_active_changes [OF run act]] run
  show ?thesis by blast
qed

text \<open>
  C6. The returned status says what became of the pointer: a returned manifest has status
  \<open>ACTIVE\<close>, and then it is the active one and verified, or it has status \<open>FAILED\<close> or
  \<open>ROLLED_BACK\<close>, and then the active manifest is unchanged.
\<close>

theorem publish_status_truthful:
  assumes "publish pb loaded hashes env src pid w = (Inr m, w')" and "store_ok (pw_store w)"
  shows "mf_publicationId m = pid \<and> mf_status m \<in> {ACTIVE, FAILED, ROLLED_BACK}
    \<and> (if mf_status m = ACTIVE then ps_active (pw_store w') = Some m \<and> verified m
       else ps_active (pw_store w') = ps_active (pw_store w))"
  using publish_effect [OF assms] by (auto simp: verified_by_def split: if_splits)

theorem publish_status_truthful_witness:
  "\<exists>m w'. publish sample_publisher (Inr sample_docs) [] ''dev'' ''git'' ''p1'' (sample_world [])
     = (Inr m, w') \<and> mf_status m = ROLLED_BACK \<and> ps_active (pw_store w') = None"
proof -
  obtain m w' where run: "publish sample_publisher (Inr sample_docs) [] ''dev'' ''git'' ''p1''
      (sample_world []) = (Inr m, w')" and st: "mf_status m = ROLLED_BACK"
    using sample_rolled_back by blast
  from publish_status_truthful [OF run sample_store_ok] run st show ?thesis
    by (simp add: sample_world_def)
qed

section \<open>Incidents\<close>

context incident_sink begin

lemma give_up_sink:
  assumes "give_up pb m art code impact sev w = (r, w')" and "pb_open pb = Some opn"
    and "sink_inv (pw_sink w)"
  shows "sink_inv (pw_sink w') \<and> (\<forall>k. k \<noteq> publication_key \<longrightarrow> held k (pw_sink w') = held k (pw_sink w))
    \<and> (is_ok r \<longrightarrow> blocked publication_key (pw_sink w')) \<and> (\<not> is_ok r \<longrightarrow> pw_sink w' = pw_sink w)"
proof -
  let ?a = "blocked_args (mf_publicationId m) code impact sev"
  obtain r1 w1 where 1: "record_manifest pb m art False w = (r1, w1)" by fastforce
  note fr = record_manifest_frame(1) [OF 1]
  have key: "oa_dedup_key ?a = publication_key" by (simp add: blocked_args_def)
  from assms(1,2) 1 fr consider e where "r = Inl e" "pw_sink w' = pw_sink w"
    | "r = Inr m" "opn ?a (pw_sink w) = Inr (pw_sink w')"
    by (auto simp: give_up_def raise_incident_def bindS_def returnS_def on_sink_def
        split: sum.splits prod.splits)
  then show ?thesis
  proof cases
    case 1
    with assms(3) show ?thesis by simp
  next
    case 2
    note op = assms(3) 2(2)
    show ?thesis
      using 2(1) open_inv [OF op] open_blocks [OF op] open_frame [OF op] unfolding key by simp
  qed
qed

lemma conclude_sink:
  assumes "conclude pb m art w = (r, w')" and "pb_open pb = Some opn" and "pb_resolve pb = rsv"
    and "sink_inv (pw_sink w)"
  shows "sink_inv (pw_sink w') \<and> (\<forall>k. k \<noteq> publication_key \<longrightarrow> held k (pw_sink w') = held k (pw_sink w))
    \<and> (is_ok r \<longrightarrow> \<not> blocked publication_key (pw_sink w')) \<and> (\<not> is_ok r \<longrightarrow> pw_sink w' = pw_sink w)"
proof -
  obtain r1 w1 where 1: "record_manifest pb m art True w = (r1, w1)" by fastforce
  note fr = record_manifest_frame(1) [OF 1]
  from assms(1-3) 1 fr consider e where "r = Inl e" "pw_sink w' = pw_sink w"
    | msg where "r = Inr m" "rsv publication_key msg (pw_sink w) = Inr (pw_sink w')"
    by (auto simp: conclude_def bindS_def returnS_def on_sink_def split: sum.splits prod.splits)
  then show ?thesis
  proof cases
    case 1
    with assms(4) show ?thesis by simp
  next
    case 2
    note op = assms(4) 2(2)
    show ?thesis
      using 2(1) resolve_inv [OF op] resolve_clears [OF op] resolve_frame [OF op] by simp
  qed
qed

lemma publish_sink:
  assumes run: "publish pb loaded hashes env src pid w = (r, w')" and sink: "pb_open pb = Some opn"
    "pb_resolve pb = rsv" and inv: "sink_inv (pw_sink w)" and ok: "store_ok (pw_store w)"
  shows "sink_inv (pw_sink w') \<and> (\<forall>k. k \<noteq> publication_key \<longrightarrow> held k (pw_sink w') = held k (pw_sink w))
    \<and> (case r of Inl e \<Rightarrow> pw_sink w' = pw_sink w
       | Inr m \<Rightarrow> blocked publication_key (pw_sink w') \<longleftrightarrow> mf_status m \<noteq> ACTIVE)"
  using run
proof (cases rule: publish_cases)
  case early
  with inv show ?thesis by (cases r) (auto simp: untouched_def)
next
  case (run m docs a)
  from run(7) consider "untouched w (r, w')" | "gives_up pb m (artifact_json a) w (r, w')"
    | "concludes pb m (artifact_json a) w (r, w')" by (auto simp: continues_def)
  then show ?thesis
  proof cases
    case 1
    with inv show ?thesis by (cases r) (auto simp: untouched_def)
  next
    case 2
    then obtain m1 code impact sev w1 where
      g: "give_up pb m1 (artifact_json a) code impact sev w1 = (r, w')" and
      m1: "pw_sink w1 = pw_sink w" "mf_status m1 \<in> {FAILED, ROLLED_BACK}"
      unfolding gives_up_def by metis
    have "r = Inr m1 \<or> \<not> is_ok r"
      using g by (auto simp: give_up_def bindS_def returnS_def split: sum.splits prod.splits)
    with give_up_sink [OF g sink(1)] m1 inv show ?thesis by (cases r) auto
  next
    case 3
    then obtain m1 rv p w1 where
      c: "conclude pb m1 (artifact_json a) w1 = (r, w')" and
      m1: "pw_sink w1 = pw_sink w" "mf_status m1 = ACTIVE"
      unfolding concludes_def by metis
    have "r = Inr m1 \<or> \<not> is_ok r"
      using c by (auto simp: conclude_def bindS_def returnS_def split: sum.splits prod.splits)
    with conclude_sink [OF c sink] m1 inv show ?thesis by (cases r) auto
  qed
qed

end

text \<open>
  C4. With the incident store as the sink, the incident of the publication key is unresolved after
  a publication that returned anything but \<open>ACTIVE\<close> and resolved after one that returned \<open>ACTIVE\<close>;
  a publication that raises leaves the incident store as it was, and no publication changes anything
  that the store holds of another key, neither its row nor its history.
\<close>

theorem publication_incident_tracks_outcome:
  assumes "publish pb loaded hashes env src pid w = (r, w')" and "store_ok (pw_store w)"
    and "pb_open pb = Some (store_open tape)" and "pb_resolve pb = store_resolve tape"
    and "wf_incident_db (sink_db (pw_sink w))"
  shows "wf_incident_db (sink_db (pw_sink w'))
    \<and> (\<forall>k. k \<noteq> publication_key \<longrightarrow>
         filter (\<lambda>r. dedup_key r = k) (incidents (sink_db (pw_sink w')))
           = filter (\<lambda>r. dedup_key r = k) (incidents (sink_db (pw_sink w)))
         \<and> filter (\<lambda>t. dedup_key (tr_body t) = k) (transitions (sink_db (pw_sink w')))
           = filter (\<lambda>t. dedup_key (tr_body t) = k) (transitions (sink_db (pw_sink w))))
    \<and> (case r of Inl e \<Rightarrow> pw_sink w' = pw_sink w
       | Inr m \<Rightarrow> store_blocked publication_key (pw_sink w') \<longleftrightarrow> mf_status m \<noteq> ACTIVE)"
  using store_sink.publish_sink [OF assms(1,3,4,5,2)] by (simp add: store_held_def)

theorem publication_incident_tracks_outcome_witness:
  "\<exists>m w'. publish sample_publisher (Inr sample_docs) [] ''dev'' ''git'' ''p1'' (sample_world [])
     = (Inr m, w') \<and> store_blocked publication_key (pw_sink w')"
proof -
  obtain m w' where run: "publish sample_publisher (Inr sample_docs) [] ''dev'' ''git'' ''p1''
      (sample_world []) = (Inr m, w')" and st: "mf_status m = ROLLED_BACK"
    using sample_rolled_back by blast
  have "wf_incident_db (sink_db (pw_sink (sample_world [])))"
    by (simp add: sample_world_def empty_incident_db_def wf_incident_db_def history_current_def)
  from publication_incident_tracks_outcome [OF run sample_store_ok sample_sink this] run st
  show ?thesis by simp
qed

section \<open>Publishing without a complete verification\<close>

lemma keeps_on_plane: "keeps f m \<Longrightarrow> keeps (\<lambda>w. f (pw_plane w)) (on_plane m)"
  by (rule keepsI) (auto simp: on_plane_def split: prod.splits dest: keepsD)

lemma keeps_on_store: "keeps (\<lambda>w. f (pw_plane w)) (on_store m)"
  by (rule keepsI) (auto simp: on_store_def split: prod.splits)

lemma keeps_on_sink: "keeps (\<lambda>w. f (pw_plane w)) (on_sink g)"
  by (rule keepsI) (auto simp: on_sink_def split: sum.splits)

lemma keeps_give_up: "keeps (\<lambda>w. f (pw_plane w)) (give_up pb m art code impact sev)"
  by (simp add: give_up_def record_manifest_def raise_incident_def keeps_intros keeps_on_store
      keeps_on_sink)

text \<open>
  A plane whose verification never reports all required checks: the publisher never calls
  \<open>activate\<close>, so the frame laws of the plane carry over to the whole publication.
\<close>

context plane_laws begin

lemma publish_never_activates:
  assumes pl: "pb_plane pb = pl"
    and incomplete: "\<And>rv art v cs v'. pl_verify pl rv art v = (Inr cs, v') \<Longrightarrow>
        \<not> list_all (is_true cs) required_checks"
  shows "keeps (\<lambda>w. writes (pw_plane w)) (publish pb loaded hashes env src pid)"
proof -
  have calls: "keeps writes (pl_healthy pl)" "keeps writes (pl_stage pl art)"
    "keeps writes (pl_verify pl rv art)" "keeps writes (pl_rollback pl rv)" for art rv
    by (auto intro!: keepsI dest: healthy_frame stage_frame verify_frame rollback_frame)
  note frames = calls [THEN keeps_on_plane]
  have verify: "keeps (\<lambda>w. writes (pw_plane w)) (publish_verification pb m art rv)" for m art rv
    unfolding publish_verification_def pl
  proof (rule keeps_bindS_reached)
    show "keeps (\<lambda>w. writes (pw_plane w))
        (tryS (on_plane (pl_verify pl rv art)) (\<lambda>_. returnS [(''verification'', False)]))"
      by (intro keeps_intros frames)
  next
    fix w v w'
    assume "tryS (on_plane (pl_verify pl rv art)) (\<lambda>_. returnS [(''verification'', False)]) w = (Inr v, w')"
    then have "v = [(''verification'', False)] \<or> (\<exists>u u'. pl_verify pl rv art u = (Inr v, u'))"
      by (auto simp: tryS_def returnS_def on_plane_def split: sum.splits prod.splits)
    then have "\<not> list_all (is_true v) required_checks"
      using incomplete by (auto simp: required_checks_def is_true_def)
    then show "keeps (\<lambda>w. writes (pw_plane w))
        (let m' = m\<lparr>mf_verification := Some v\<rparr> in
         if \<not> list_all (is_true v) required_checks
         then bindS (on_plane (pl_rollback pl rv)) (\<lambda>_. give_up pb (m'\<lparr>mf_status := ROLLED_BACK\<rparr>)
           art ''PUBLICATION_VERIFICATION_FAILED''
           ''Gateway configuration verification failed and the staged revision was rolled back.'' ''ERROR'')
         else publish_activation pb (m'\<lparr>mf_status := VERIFIED\<rparr>) art rv v)"
      by (simp add: Let_def) (rule keeps_bindS, rule frames, rule keeps_give_up)
  qed
  have "keeps (\<lambda>w. writes (pw_plane w)) (publish_compiled pb m art)" for m art
    unfolding publish_compiled_def pl by (intro keeps_intros frames keeps_give_up verify)
  then show ?thesis
    unfolding keeps_def publish_def
    by (auto simp: Let_def bindS_def liftS_def raiseS_def split: sum.splits)
qed

end

lemma http_incomplete:
  "pl_verify (apisix_plane sha (http_admin h)) rv art v = (Inr cs, v') \<Longrightarrow>
     \<not> list_all (is_true cs) required_checks"
  by (drule http_verify_false) (simp add: required_checks_def)

text \<open>
  C38. Over the Admin API adapter, whose verification leaves two required checks to the
  environment, no publication ever activates: for every answer of the server the active pointer
  is never written, and a returned manifest is \<open>FAILED\<close> or \<open>ROLLED_BACK\<close>.
\<close>

theorem http_publication_never_activates:
  assumes "pb_plane pb = apisix_plane sha (http_admin h)"
    and "publish pb loaded hashes env src pid w = (r, w')" and "store_ok (pw_store w)"
  shows "http_writes h (pw_plane w') = http_writes h (pw_plane w)
    \<and> (case r of Inl e \<Rightarrow> True | Inr m \<Rightarrow> mf_status m \<in> {FAILED, ROLLED_BACK})"
proof
  have "keeps (\<lambda>w. http_writes h (pw_plane w)) (publish pb loaded hashes env src pid)"
    by (rule http.publish_never_activates [OF assms(1)]) (rule http_incomplete)
  from keepsD [OF this assms(2)] show frame: "http_writes h (pw_plane w') = http_writes h (pw_plane w)" .
  show "case r of Inl e \<Rightarrow> True | Inr m \<Rightarrow> mf_status m \<in> {FAILED, ROLLED_BACK}"
  proof (cases r)
    case (Inr m)
    have "\<not> verified_by pb art rv m" for art rv
      unfolding verified_by_def verified_def assms(1)
      by (auto split: option.splits dest: http_incomplete)
    with publish_effect [OF assms(2,3)] Inr show ?thesis by (auto split: if_splits)
  qed simp
qed

definition http_publisher :: "unit admin_http \<Rightarrow> (unit http_world, sink_state) publisher" where
  "http_publisher h = \<lparr>pb_plane = apisix_plane (\<lambda>_. sample_hash) (http_admin h), pb_clock = (\<lambda>n. n),
     pb_gate = None, pb_open = Some (store_open (\<lambda>n. (''u'', n))),
     pb_resolve = store_resolve (\<lambda>n. (''u'', n)), pb_repository = sample_repository,
     pb_sha = (\<lambda>_. sample_hash), pb_datetime = (\<lambda>_. True)\<rparr>"

theorem http_publication_never_activates_witness:
  "\<exists>r w'. publish (http_publisher (echo_http Unreachable JNull)) (Inr sample_docs) [] ''dev'' ''git'' ''p1''
      \<lparr>pw_plane = empty_world, pw_store = pw_store (sample_world []), pw_sink = pw_sink (sample_world [])\<rparr>
      = (r, w') \<and> http_writes (echo_http Unreachable JNull) (pw_plane w') = []"
proof -
  let ?h = "echo_http Unreachable JNull"
  let ?w = "\<lparr>pw_plane = empty_world, pw_store = pw_store (sample_world []), pw_sink = pw_sink (sample_world [])\<rparr>"
  obtain r w' where run: "publish (http_publisher ?h) (Inr sample_docs) [] ''dev'' ''git'' ''p1'' ?w = (r, w')"
    by fastforce
  have pl: "pb_plane (http_publisher ?h) = apisix_plane (\<lambda>_. sample_hash) (http_admin ?h)"
    by (simp add: http_publisher_def)
  have ok: "store_ok (pw_store ?w)" using sample_store_ok by simp
  have "http_writes ?h (pw_plane ?w) = []" by (simp add: http_writes_def empty_world_def)
  with http_publication_never_activates [OF pl run ok] run show ?thesis by auto
qed

section \<open>Failures that leave no record\<close>

text \<open>
  A refused rollback hides the failure: when the content-addressed revision of the artifact is
  already the active one and its verification is not complete, the adapter's rollback refuses to
  delete it, its exception escapes the publisher, and the failed publication leaves neither a
  manifest nor an incident.
\<close>

theorem republish_active_leaves_no_record:
  assumes "pb_plane pb = apisix_plane sha adm" and "ap_health adm p0 = (Inr True, p1)"
    and "cp_stage sha adm art p1 = (Inr rv, p2)" and "cp_verify sha adm rv art p2 = (Inr v, p3)"
    and "\<not> list_all (is_true v) required_checks" and "ap_active adm p3 = (Inr (JStr rv), p4)"
    and "pw_plane w = p0"
  shows "publish_compiled pb m art w
    = (Inl (RuntimeError ''refusing to delete active APISIX revision''), w\<lparr>pw_plane := p4\<rparr>)"
proof -
  have "pl_healthy (pb_plane pb) p0 = (Inr True, p1)" "pl_stage (pb_plane pb) art p1 = (Inr rv, p2)"
    "pl_verify (pb_plane pb) rv art p2 = (Inr v, p3)"
    "pl_rollback (pb_plane pb) rv p3
       = (Inl (RuntimeError ''refusing to delete active APISIX revision''), p4)"
    using assms(1-4,6)
    by (simp_all add: apisix_plane_def cp_healthy_def cp_rollback_def tryS_def bindS_def raiseS_def)
  with assms(5,7) show ?thesis
    by (simp add: publish_compiled_def publish_verification_def bindS_def tryS_def returnS_def
        on_plane_def Let_def)
qed

theorem republish_active_leaves_no_record_witness:
  "\<exists>e w'. publish_compiled sample_publisher sample_manifest (JInt 7)
      ((sample_world [])\<lparr>pw_plane := \<lparr>mw_revs = [], mw_active = JStr sample_revision, mw_checks = []\<rparr>\<rparr>)
      = (Inl e, w') \<and> pw_store w' = pw_store (sample_world []) \<and> pw_sink w' = pw_sink (sample_world [])"
proof -
  let ?p0 = "\<lparr>mw_revs = [], mw_active = JStr sample_revision, mw_checks = []\<rparr>"
  let ?p1 = "\<lparr>mw_revs = [(sample_revision, JInt 7)], mw_active = JStr sample_revision, mw_checks = []\<rparr>"
  let ?w = "(sample_world [])\<lparr>pw_plane := ?p0\<rparr>"
  have pl: "pb_plane sample_publisher = apisix_plane (\<lambda>_. sample_hash) mem_admin"
    by (simp add: sample_publisher_def)
  have h: "ap_health mem_admin ?p0 = (Inr True, ?p0)" by (simp add: mem_admin_def returnS_def)
  have st: "cp_stage (\<lambda>_. sample_hash) mem_admin (JInt 7) ?p0 = (Inr sample_revision, ?p1)"
    by (simp add: plane_eval dict_simps revision_for_def sample_revision_def)
  obtain v where ve: "cp_verify (\<lambda>_. sample_hash) mem_admin sample_revision (JInt 7) ?p1 = (Inr v, ?p1)"
      "\<not> list_all (is_true v) required_checks"
    by (simp add: plane_eval revision_for_def sample_revision_def is_true_def required_checks_def)
  have ac: "ap_active mem_admin ?p1 = (Inr (JStr sample_revision), ?p1)" by (simp add: mem_admin_def)
  have pw: "pw_plane ?w = ?p0" by simp
  from republish_active_leaves_no_record [OF pl h st ve ac pw, of sample_manifest] show ?thesis by simp
qed

text \<open>
  The last write can be lost: when the disk fails on the pointer file, the manifest with status
  \<open>ACTIVE\<close> is already recorded and immutable while the active manifest is still the old one, and
  no retry with the same publication id can repair it, since the store refuses the id.
\<close>

theorem lost_pointer_write_is_permanent:
  assumes "ps_faults s = [False, False, True]" and "\<not> store_contains (mf_publicationId m) s"
    and "map_of (ps_artifacts s) (mf_artifactSetHash m) = None"
  shows "\<exists>e s'. record_publication m art True s = (Inl e, s')
    \<and> map_of (ps_manifests s') (mf_publicationId m) = Some m \<and> ps_active s' = ps_active s
    \<and> (\<forall>m' art' act. mf_publicationId m' = mf_publicationId m \<longrightarrow>
         record_publication m' art' act s'
           = (Inl (PublicationError ''publication manifest is immutable''), s'))"
  using assms
  by (simp add: record_publication_def write_artifact_def write_manifest_def write_active_def
      atomic_write_def bindS_def store_contains_def dict_simps)

theorem lost_pointer_write_is_permanent_witness:
  "\<exists>e s'. record_publication sample_manifest JNull True
      \<lparr>ps_manifests = [], ps_artifacts = [], ps_active = None, ps_faults = [False, False, True]\<rparr> = (Inl e, s')
    \<and> ps_active s' = None"
proof -
  let ?s = "\<lparr>ps_manifests = [], ps_artifacts = [], ps_active = None, ps_faults = [False, False, True]\<rparr>"
  have "ps_faults ?s = [False, False, True]" "\<not> store_contains (mf_publicationId sample_manifest) ?s"
    "map_of (ps_artifacts ?s) (mf_artifactSetHash sample_manifest) = None"
    by (simp_all add: store_contains_def)
  from lost_pointer_write_is_permanent [OF this, of JNull] show ?thesis by auto
qed

section \<open>Governance\<close>











end
