(* ===== verification/Etcd.thy ===== *)
theory Etcd
  imports Incidents "HOL-Library.Multiset"
begin

text \<open>
  The etcd safety gate, \<open>tools/etcd_resilience.py\<close>: publication is blocked without quorum, on slow
  storage and under back pressure, with an incident that is cleared by the next allowed
  publication; a restore is accepted only when it is exactly the desired state.
\<close>

record etcd_health =
  eh_quorum :: bool
  eh_storage_slow :: bool
  eh_pending_proposals :: int
  eh_leader_changes :: int

record desired_state =
  ds_revision :: string
  ds_routes :: "string list"
  ds_upstreams :: "string list"

record restored_state =
  rs_active_revision :: "string option"
  rs_routes :: "string list"
  rs_upstreams :: "string list"

record 's resilience_gate =
  rg_allowed :: "string list"
  rg_max_pending :: int
  rg_open :: "(open_args \<Rightarrow> 's \<Rightarrow> 's res) option"
  rg_resolve :: "string \<Rightarrow> string \<Rightarrow> 's \<Rightarrow> 's res"

definition gate_init :: "'s resilience_gate \<Rightarrow> 's resilience_gate res" where
  "gate_init g =
     (if rg_allowed g = [] then Inl (ValueError ''allowed_upstreams must be non-empty'')
      else if rg_max_pending g < 1 then Inl (ValueError ''max_pending_proposals must be positive'')
      else Inr g)"

definition etcd_key :: string where
  "etcd_key = ''gateway:etcd:publication-blocked''"

definition publication_allowed :: "'s resilience_gate \<Rightarrow> etcd_health \<Rightarrow> bool" where
  "publication_allowed g h \<longleftrightarrow>
     eh_quorum h \<and> \<not> eh_storage_slow h \<and> eh_pending_proposals h \<le> rg_max_pending g"

definition etcd_args :: "string \<Rightarrow> string \<Rightarrow> string \<Rightarrow> open_args" where
  "etcd_args code sev impact =
     \<lparr>oa_dedup_key = etcd_key, oa_event_type = ''GATEWAY_ETCD_DEGRADED'', oa_severity = sev,
      oa_error_code = Some code, oa_impact_summary = impact, oa_correlation_id = None,
      oa_endpoint_ref = Some ''gateway://control-plane/etcd'', oa_action_required = True,
      oa_visibility_class = ''RESTRICTED_OPERATIONAL''\<rparr>"

text \<open>\<open>_incident\<close>, then \<open>raise EtcdSafetyError(code)\<close>; an exception of the sink comes first.\<close>

definition block_publication ::
  "'s resilience_gate \<Rightarrow> string \<Rightarrow> string \<Rightarrow> string \<Rightarrow> ('s, unit) io" where
  "block_publication g code sev impact = (\<lambda>s.
     case rg_open g of
       None \<Rightarrow> (Inl (EtcdSafetyError code), s)
     | Some opn \<Rightarrow> (case opn (etcd_args code sev impact) s of
           Inl e \<Rightarrow> (Inl e, s) | Inr s' \<Rightarrow> (Inl (EtcdSafetyError code), s')))"

definition require_publication_allowed :: "'s resilience_gate \<Rightarrow> etcd_health \<Rightarrow> ('s, unit) io" where
  "require_publication_allowed g h =
     (if \<not> eh_quorum h then
        block_publication g ''ETCD_QUORUM_UNAVAILABLE'' ''CRITICAL''
          ''Gateway publication is blocked because the etcd quorum is unavailable.''
      else if eh_storage_slow h then
        block_publication g ''ETCD_STORAGE_SLOW'' ''ERROR''
          ''Gateway publication is blocked because etcd storage latency is degraded.''
      else if eh_pending_proposals h > rg_max_pending g then
        block_publication g ''ETCD_BACKPRESSURE_REQUIRED'' ''WARNING''
          ''Gateway publication is throttled because etcd pending proposals exceed the governed threshold.''
      else (case rg_open g of
          None \<Rightarrow> returnS ()
        | Some _ \<Rightarrow> (\<lambda>s. case rg_resolve g etcd_key
            ''Gateway etcd publication safety recovered; quorum, storage and proposal backlog are within governed limits.'' s of
              Inl e \<Rightarrow> (Inl e, s) | Inr s' \<Rightarrow> (Inr (), s'))))"

definition verify_restore ::
  "'s resilience_gate \<Rightarrow> desired_state \<Rightarrow> restored_state \<Rightarrow> unit res" where
  "verify_restore g d r =
     (if rs_active_revision r \<noteq> Some (ds_revision d)
      then Inl (EtcdSafetyError ''RESTORE_REVISION_MISMATCH'')
      else if sort (rs_routes r) \<noteq> sort (ds_routes d)
      then Inl (EtcdSafetyError ''RESTORE_PARTIAL_OR_EXTRA_ROUTES'')
      else if sort (rs_upstreams r) \<noteq> sort (ds_upstreams d)
      then Inl (EtcdSafetyError ''RESTORE_PARTIAL_OR_EXTRA_UPSTREAMS'')
      else if list_ex (\<lambda>u. u \<notin> set (rg_allowed g)) (rs_upstreams r)
      then Inl (EtcdSafetyError ''RESTORE_UNALLOWLISTED_UPSTREAM'')
      else if list_ex (\<lambda>x. CHR ''*'' \<in> set x) (rs_routes r)
      then Inl (EtcdSafetyError ''RESTORE_WILDCARD_ROUTE'')
      else if list_ex (\<lambda>x. CHR ''*'' \<in> set x) (rs_upstreams r)
      then Inl (EtcdSafetyError ''RESTORE_WILDCARD_UPSTREAM'')
      else Inr ())"

section \<open>Blocking\<close>

context incident_sink begin

lemma block_publication_sink:
  assumes "block_publication g code sev impact s = (r, s')" and "rg_open g = Some opn" and "sink_inv s"
  shows "sink_inv s' \<and> (\<forall>k. k \<noteq> etcd_key \<longrightarrow> held k s' = held k s)
    \<and> ((r = Inl (EtcdSafetyError code) \<and> blocked etcd_key s') \<or> (\<exists>e. r = Inl e \<and> s' = s))"
proof (cases "opn (etcd_args code sev impact) s")
  case (Inl e)
  with assms(1,2) have "r = Inl e" "s' = s" by (auto simp: block_publication_def)
  with assms(3) show ?thesis by blast
next
  case (Inr t)
  with assms(1,2) have "r = Inl (EtcdSafetyError code)" "s' = t" by (auto simp: block_publication_def)
  with open_inv [OF assms(3) Inr] open_blocks [OF assms(3) Inr] open_frame [OF assms(3) Inr]
  show ?thesis by (simp add: etcd_args_def)
qed

lemma require_allowed_sink:
  assumes "require_publication_allowed g h s = (r, s')" and "rg_open g = Some opn"
    and "rg_resolve g = rsv" and "sink_inv s"
  shows "sink_inv s' \<and> (\<forall>k. k \<noteq> etcd_key \<longrightarrow> held k s' = held k s)
    \<and> (case r of
         Inr u \<Rightarrow> publication_allowed g h \<and> \<not> blocked etcd_key s'
       | Inl e \<Rightarrow> s' = s \<or> (\<not> publication_allowed g h \<and> blocked etcd_key s'))"
proof (cases "publication_allowed g h")
  case False
  then obtain code sev impact where "block_publication g code sev impact s = (r, s')"
    using assms(1)
    by (auto simp: require_publication_allowed_def publication_allowed_def split: if_splits)
  from block_publication_sink [OF this assms(2,4)] False show ?thesis by auto
next
  case True
  then obtain msg where run: "(case rsv etcd_key msg s of
      Inl e \<Rightarrow> (Inl e, s) | Inr s' \<Rightarrow> (Inr (), s')) = (r, s')"
    using assms(1-3) by (auto simp: require_publication_allowed_def publication_allowed_def)
  show ?thesis
  proof (cases "rsv etcd_key msg s")
    case (Inl e)
    with run assms(4) show ?thesis by auto
  next
    case (Inr t)
    with run have "r = Inr ()" "s' = t" by auto
    with resolve_inv [OF assms(4) Inr] resolve_clears [OF assms(4) Inr] resolve_frame [OF assms(4) Inr] True
    show ?thesis by simp
  qed
qed

end

text \<open>
  The gate fails closed and its incident tells the truth: it returns normally exactly when
  quorum, storage and backlog allow the publication, and then the etcd incident is resolved; when
  it refuses, the incident is open, or the incident store itself refused the write; no other
  incident changes.
\<close>

theorem etcd_gate_fails_closed:
  assumes "require_publication_allowed g h s = (r, s')" and "rg_open g = Some (store_open tape)"
    and "rg_resolve g = store_resolve tape" and "wf_incident_db (sink_db s)"
  shows "(is_ok r \<longleftrightarrow> publication_allowed g h) \<and> wf_incident_db (sink_db s')
    \<and> (case r of Inr u \<Rightarrow> \<not> store_blocked etcd_key s'
       | Inl e \<Rightarrow> s' = s \<or> store_blocked etcd_key s')
    \<and> (\<forall>k. k \<noteq> etcd_key \<longrightarrow> store_held k s' = store_held k s)"
proof -
  note sink = store_sink.require_allowed_sink [OF assms]
  have "is_ok r" if "publication_allowed g h"
    using assms(1-3) that
    by (auto simp: require_publication_allowed_def publication_allowed_def store_resolve_def)
  then have "is_ok r \<longleftrightarrow> publication_allowed g h" using sink by (cases r) auto
  then show ?thesis using sink by (cases r) auto
qed

definition sample_gate :: "sink_state resilience_gate" where
  "sample_gate = \<lparr>rg_allowed = [''up''], rg_max_pending = 64,
     rg_open = Some (store_open (\<lambda>n. (''u'', n))), rg_resolve = store_resolve (\<lambda>n. (''u'', n))\<rparr>"

theorem etcd_gate_fails_closed_witness:
  "\<exists>r s'. require_publication_allowed sample_gate
      \<lparr>eh_quorum = False, eh_storage_slow = False, eh_pending_proposals = 0, eh_leader_changes = 0\<rparr>
      \<lparr>sink_calls = 0, sink_db = empty_incident_db\<rparr> = (r, s') \<and> \<not> is_ok r \<and> wf_incident_db (sink_db s')"
proof -
  let ?h = "\<lparr>eh_quorum = False, eh_storage_slow = False, eh_pending_proposals = 0, eh_leader_changes = 0\<rparr>"
  let ?s = "\<lparr>sink_calls = 0, sink_db = empty_incident_db\<rparr>"
  obtain r s' where run: "require_publication_allowed sample_gate ?h ?s = (r, s')" by fastforce
  have "rg_open sample_gate = Some (store_open (\<lambda>n. (''u'', n)))"
    "rg_resolve sample_gate = store_resolve (\<lambda>n. (''u'', n))" "wf_incident_db (sink_db ?s)"
    by (simp_all add: sample_gate_def empty_incident_db_def wf_incident_db_def history_current_def)
  from etcd_gate_fails_closed [OF run this] run show ?thesis by (simp add: publication_allowed_def)
qed

section \<open>Restores\<close>

lemma sort_eq_iff_mset: "sort xs = sort ys \<longleftrightarrow> mset xs = mset (ys :: string list)"
  by (metis mset_sort properties_for_sort sorted_sort)

text \<open>
  C40. A restore is accepted exactly when it is the desired state: the active revision is the
  desired one, routes and upstreams are the desired ones up to order, with their multiplicities,
  every upstream is on the allow list, and no wildcard is among them.
\<close>

theorem restore_accepts_exactly_desired:
  "is_ok (verify_restore g d r) \<longleftrightarrow>
     rs_active_revision r = Some (ds_revision d)
     \<and> mset (rs_routes r) = mset (ds_routes d) \<and> mset (rs_upstreams r) = mset (ds_upstreams d)
     \<and> set (ds_upstreams d) \<subseteq> set (rg_allowed g)
     \<and> CHR ''*'' \<notin> (\<Union>x \<in> set (ds_routes d) \<union> set (ds_upstreams d). set x)"
proof -
  have "is_ok (verify_restore g d r) \<longleftrightarrow>
     rs_active_revision r = Some (ds_revision d)
     \<and> mset (rs_routes r) = mset (ds_routes d) \<and> mset (rs_upstreams r) = mset (ds_upstreams d)
     \<and> set (rs_upstreams r) \<subseteq> set (rg_allowed g)
     \<and> CHR ''*'' \<notin> (\<Union>x \<in> set (rs_routes r) \<union> set (rs_upstreams r). set x)"
    unfolding verify_restore_def result_simps is_ok.simps sort_eq_iff_mset list_ex_iff by auto
  then show ?thesis using mset_eq_setD by metis
qed

end
