(* ===== verification/Pressure.thy ===== *)
theory Pressure
  imports Py_Time
begin

text \<open>
  The persistent pressure controller, \<open>tools/operational_pressure.py\<close>: one row per governed scope
  with its mode, its business slots and the times since which the pressure has been high or low.
  Times are POSIX timestamps as exact rationals; the fingerprint of an observation, a hash of its
  JSON text, is a parameter.
\<close>

datatype pressure_mode = NORMAL | CAUTIOUS | PAUSED | PROBE | RECOVERING

text \<open>
  \<open>po_observed_at\<close> is \<open>None\<close> for a value that is not an aware datetime, \<open>po_capacity_fraction\<close> for
  one that is not a finite number.
\<close>

record pressure_observation =
  po_observed_at :: "nat option"
  po_window_seconds :: int
  po_attempts :: int
  po_failures :: int
  po_dependency_unavailable_seconds :: int
  po_capacity_fraction :: "rat option"
  po_oldest_backlog_seconds :: int

record pressure_scope =
  sc_ref :: string
  sc_profile :: string
  sc_version :: int
  sc_mode :: pressure_mode
  sc_slots :: nat
  sc_last_observed :: "rat option"
  sc_last_digest :: "string option"
  sc_high_since :: "rat option"
  sc_low_since :: "rat option"
  sc_stage_since :: "rat option"

type_synonym pressure_db = "pressure_scope list"

definition pressure_profile :: string where
  "pressure_profile = ''ouf.operational-pressure.reference.v1''"

definition find_scope :: "string \<Rightarrow> pressure_db \<Rightarrow> pressure_scope option" where
  "find_scope r db = find (\<lambda>s. sc_ref s = r) db"

section \<open>Registration\<close>

definition new_scope :: "string \<Rightarrow> pressure_scope" where
  "new_scope r = \<lparr>sc_ref = r, sc_profile = pressure_profile, sc_version = 0, sc_mode = NORMAL,
     sc_slots = 8, sc_last_observed = None, sc_last_digest = None, sc_high_since = None,
     sc_low_since = None, sc_stage_since = None\<rparr>"

definition register_scope :: "string \<Rightarrow> pressure_db \<Rightarrow> unit res \<times> pressure_db" where
  "register_scope r db =
     (if \<not> (1 \<le> length r \<and> length r \<le> 200) \<or> \<not> contains r ''://''
      then (Inl (ValueError ''PRESSURE_SCOPE_INVALID''), db)
      else transaction (\<lambda>db.
        case find_scope r db of
          Some s \<Rightarrow> if sc_profile s \<noteq> pressure_profile
                    then Inl (PressureConflict ''PRESSURE_PROFILE_CHANGED'') else Inr ((), db)
        | None \<Rightarrow> if length db \<ge> 1024 then Inl (PressureConflict ''PRESSURE_SCOPE_CAPACITY'')
                  else Inr ((), db @ [new_scope r])) db)"

section \<open>Observations\<close>

definition validate_observation :: "pressure_observation \<Rightarrow> rat \<Rightarrow> rat res" where
  "validate_observation ob now =
     (case po_observed_at ob of
        None \<Rightarrow> Inl (ValueError ''PRESSURE_OBSERVATION_INVALID'')
      | Some t \<Rightarrow>
        if \<not> (-5 \<le> now - timestamp t \<and> now - timestamp t \<le> 30) \<or> po_window_seconds ob \<noteq> 300
        then Inl (ValueError ''PRESSURE_OBSERVATION_STALE_OR_WINDOW_INVALID'')
        else if list_ex (\<lambda>v. v < 0 \<or> v > 1000000000)
             [po_window_seconds ob, po_attempts ob, po_failures ob,
              po_dependency_unavailable_seconds ob, po_oldest_backlog_seconds ob]
        then Inl (ValueError ''PRESSURE_OBSERVATION_INVALID'')
        else (case po_capacity_fraction ob of
            None \<Rightarrow> Inl (ValueError ''PRESSURE_OBSERVATION_INVALID'')
          | Some c \<Rightarrow>
              if po_failures ob > po_attempts ob \<or> \<not> (0 \<le> c \<and> c \<le> 1)
              then Inl (ValueError ''PRESSURE_OBSERVATION_INVALID'')
              else Inr (timestamp t)))"

definition failure_rate :: "pressure_observation \<Rightarrow> rat" where
  "failure_rate ob = (if po_attempts ob = 0 then 0 else of_int (po_failures ob) / of_int (po_attempts ob))"

definition capacity :: "pressure_observation \<Rightarrow> rat" where
  "capacity ob = (case po_capacity_fraction ob of None \<Rightarrow> 0 | Some c \<Rightarrow> c)"

definition is_hard :: "pressure_observation \<Rightarrow> bool" where
  "is_hard ob \<longleftrightarrow> capacity ob \<ge> 9/10 \<or> po_dependency_unavailable_seconds ob \<ge> 300
     \<or> (po_oldest_backlog_seconds ob \<ge> 900 \<and> capacity ob \<ge> 7/10)"

definition is_high :: "pressure_observation \<Rightarrow> bool" where
  "is_high ob \<longleftrightarrow> is_hard ob \<or> (po_attempts ob \<ge> 20 \<and> failure_rate ob \<ge> 1/2)"

definition is_low :: "pressure_observation \<Rightarrow> bool" where
  "is_low ob \<longleftrightarrow> capacity ob \<le> 7/10 \<and> po_oldest_backlog_seconds ob < 300
     \<and> po_dependency_unavailable_seconds ob = 0 \<and> failure_rate ob \<le> 1/10"

definition is_gap :: "pressure_scope \<Rightarrow> rat \<Rightarrow> bool" where
  "is_gap s observed = (case sc_last_observed s of None \<Rightarrow> True | Some t \<Rightarrow> observed - t > 30)"

text \<open>\<open>None if not holds else (observed if gap or since is None else since)\<close>\<close>

definition since_when :: "bool \<Rightarrow> bool \<Rightarrow> rat option \<Rightarrow> rat \<Rightarrow> rat option" where
  "since_when holds gap since observed =
     (if \<not> holds then None
      else if gap then Some observed
      else (case since of None \<Rightarrow> Some observed | Some t \<Rightarrow> Some t))"

text \<open>\<open>observed-since >= bound\<close>; subtracting \<open>None\<close> is a \<open>TypeError\<close>.\<close>

definition elapsed :: "rat option \<Rightarrow> rat \<Rightarrow> rat \<Rightarrow> bool res" where
  "elapsed since observed bound =
     (case since of None \<Rightarrow> Inl (TypeError ''unsupported operand'')
      | Some t \<Rightarrow> Inr (observed - t \<ge> bound))"

type_synonym stage = "pressure_mode \<times> nat \<times> rat option"

definition clean_attempts :: "pressure_observation \<Rightarrow> bool" where
  "clean_attempts ob \<longleftrightarrow> po_attempts ob > 0 \<and> po_failures ob = 0"

text \<open>The decision tree of \<open>observe\<close> below high pressure: one branch per mode.\<close>

definition calm_stage :: "pressure_scope \<Rightarrow> pressure_observation \<Rightarrow> rat \<Rightarrow> stage res" where
  "calm_stage s ob observed =
     (let gap = is_gap s observed;
          low_since = since_when (is_low ob) gap (sc_low_since s) observed;
          stay = (sc_mode s, sc_slots s, sc_stage_since s)
      in case sc_mode s of
             PAUSED \<Rightarrow>
               if \<not> is_low ob then Inr stay
               else bindE (elapsed low_since observed 120) (\<lambda>long.
                 Inr (if long then (PROBE, 1, Some observed) else stay))
           | PROBE \<Rightarrow>
               if \<not> is_low ob then Inr (PAUSED, 0, None)
               else if gap then Inr stay
               else bindE (elapsed (sc_stage_since s) observed 30) (\<lambda>long.
                 Inr (if long \<and> clean_attempts ob then (RECOVERING, 2, Some observed) else stay))
           | RECOVERING \<Rightarrow>
               if \<not> is_low ob then Inr (CAUTIOUS, 2, None)
               else if gap then Inr (RECOVERING, sc_slots s, Some observed)
               else bindE (elapsed (sc_stage_since s) observed 30) (\<lambda>long.
                 Inr (if long \<and> clean_attempts ob
                      then let slots = min 8 (sc_slots s * 2)
                           in (if slots = 8 then NORMAL else RECOVERING, slots, Some observed)
                      else stay))
           | CAUTIOUS \<Rightarrow>
               if \<not> is_low ob then Inr stay
               else bindE (elapsed low_since observed 120) (\<lambda>long.
                 Inr (if long then (RECOVERING, 2, Some observed) else stay))
           | NORMAL \<Rightarrow> Inr stay)"

text \<open>The whole decision tree: the next mode, slots and stage time.\<close>

definition next_stage :: "pressure_scope \<Rightarrow> pressure_observation \<Rightarrow> rat \<Rightarrow> stage res" where
  "next_stage s ob observed =
     (let high_since = since_when (is_high ob) (is_gap s observed) (sc_high_since s) observed
      in if is_hard ob \<or> (is_high ob \<and> (case high_since of None \<Rightarrow> False | Some t \<Rightarrow> observed - t \<ge> 90))
         then Inr (PAUSED, 0, None)
         else if is_high ob then
           Inr (if sc_mode s \<notin> {PAUSED, PROBE} then (CAUTIOUS, 2, None)
                else (sc_mode s, sc_slots s, sc_stage_since s))
         else calm_stage s ob observed)"

definition updated_scope ::
  "pressure_scope \<Rightarrow> pressure_observation \<Rightarrow> rat \<Rightarrow> string \<Rightarrow> stage \<Rightarrow> pressure_scope" where
  "updated_scope s ob observed fp st =
     s\<lparr>sc_version := sc_version s + 1, sc_mode := fst st, sc_slots := fst (snd st),
       sc_last_observed := Some observed, sc_last_digest := Some fp,
       sc_high_since := since_when (is_high ob) (is_gap s observed) (sc_high_since s) observed,
       sc_low_since := since_when (is_low ob) (is_gap s observed) (sc_low_since s) observed,
       sc_stage_since := snd (snd st)\<rparr>"

section \<open>Decisions\<close>

record pressure_decision =
  pd_version :: int
  pd_mode :: "pressure_mode option"
  pd_businessSlots :: nat
  pd_reservedControlSlots :: nat
  pd_evidenceFresh :: bool
  pd_executionAuthorized :: bool
  pd_retryBudgetRenewed :: bool

text \<open>The mode \<open>'UNKNOWN'\<close> is \<open>None\<close>.\<close>

definition is_fresh :: "pressure_scope \<Rightarrow> rat \<Rightarrow> bool" where
  "is_fresh s now \<longleftrightarrow> sc_profile s = pressure_profile
     \<and> (case sc_last_observed s of None \<Rightarrow> False | Some t \<Rightarrow> -5 \<le> now - t \<and> now - t \<le> 30)"

definition decision :: "string \<Rightarrow> rat \<Rightarrow> pressure_db \<Rightarrow> pressure_decision res" where
  "decision r now db =
     (case find_scope r db of
        None \<Rightarrow> Inl (PressureConflict ''PRESSURE_SCOPE_UNREGISTERED'')
      | Some s \<Rightarrow> Inr \<lparr>pd_version = sc_version s,
          pd_mode = (if is_fresh s now then Some (sc_mode s) else None),
          pd_businessSlots = (if is_fresh s now then sc_slots s else 0),
          pd_reservedControlSlots = 2, pd_evidenceFresh = is_fresh s now,
          pd_executionAuthorized = False, pd_retryBudgetRenewed = False\<rparr>)"

text \<open>The transaction of \<open>observe\<close>, from \<open>begin immediate\<close> to \<open>commit\<close>.\<close>

definition observe_body ::
  "(pressure_observation \<Rightarrow> string) \<Rightarrow> string \<Rightarrow> pressure_observation \<Rightarrow> int \<Rightarrow> rat \<Rightarrow> pressure_db
     \<Rightarrow> (unit \<times> pressure_db) res" where
  "observe_body fp r ob expected observed db =
     (case find_scope r db of
        None \<Rightarrow> Inl (PressureConflict ''PRESSURE_SCOPE_UNREGISTERED'')
      | Some s \<Rightarrow>
        if sc_profile s \<noteq> pressure_profile then Inl (PressureConflict ''PRESSURE_PROFILE_CHANGED'')
        else if sc_last_observed s = Some observed \<and> sc_last_digest s = Some (fp ob) then Inr ((), db)
        else if sc_version s \<noteq> expected
             \<or> (case sc_last_observed s of None \<Rightarrow> False | Some t \<Rightarrow> observed \<le> t)
        then Inl (PressureConflict ''PRESSURE_OBSERVATION_CONFLICT'')
        else bindE (next_stage s ob observed) (\<lambda>st.
          Inr ((), map (\<lambda>q. if sc_ref q = r \<and> sc_version q = expected
                            then updated_scope q ob observed (fp ob) st else q) db)))"

definition observe ::
  "(pressure_observation \<Rightarrow> string) \<Rightarrow> string \<Rightarrow> pressure_observation \<Rightarrow> int \<Rightarrow> nat \<Rightarrow> nat
     \<Rightarrow> pressure_db \<Rightarrow> pressure_decision res \<times> pressure_db" where
  "observe fp r ob expected now later db =
     (if expected < 0 then (Inl (PressureConflict ''PRESSURE_VERSION_INVALID''), db)
      else case validate_observation ob (timestamp now) of
        Inl e \<Rightarrow> (Inl e, db)
      | Inr observed \<Rightarrow>
          (case transaction (observe_body fp r ob expected observed) db of
             (Inl e, db') \<Rightarrow> (Inl e, db')
           | (Inr u, db') \<Rightarrow> (decision r (timestamp later) db', db')))"

section \<open>Invariant\<close>

text \<open>The slots belong to the mode, and a staged mode knows since when.\<close>

fun mode_slots :: "pressure_mode \<Rightarrow> nat set" where
  "mode_slots NORMAL = {8}"
| "mode_slots CAUTIOUS = {2}"
| "mode_slots PAUSED = {0}"
| "mode_slots PROBE = {1}"
| "mode_slots RECOVERING = {2, 4}"

definition wf_scope :: "pressure_scope \<Rightarrow> bool" where
  "wf_scope s \<longleftrightarrow> sc_slots s \<in> mode_slots (sc_mode s) \<and> 0 \<le> sc_version s
     \<and> (sc_mode s \<in> {PROBE, RECOVERING} \<longrightarrow> sc_stage_since s \<noteq> None)"

definition wf_pressure_db :: "pressure_db \<Rightarrow> bool" where
  "wf_pressure_db db \<longleftrightarrow> distinct (map sc_ref db) \<and> length db \<le> 1024 \<and> (\<forall>s \<in> set db. wf_scope s)"

lemma find_scope_Some: "find_scope r db = Some s \<Longrightarrow> s \<in> set db \<and> sc_ref s = r"
  by (auto simp: find_scope_def find_Some_iff)

lemma find_scope_None: "find_scope r db = None \<longleftrightarrow> r \<notin> sc_ref ` set db"
  by (auto simp: find_scope_def find_None_iff)

lemma find_scope_unique:
  "distinct (map sc_ref db) \<Longrightarrow> s \<in> set db \<Longrightarrow> sc_ref s = r \<Longrightarrow> find_scope r db = Some s"
proof (induction db)
  case Nil
  then show ?case by simp
next
  case (Cons q db)
  show ?case
  proof (cases "sc_ref q = r")
    case True
    with Cons.prems have "s = q" by auto
    with True show ?thesis by (simp add: find_scope_def)
  next
    case False
    with Cons show ?thesis by (auto simp: find_scope_def)
  qed
qed

text \<open>The decision tree never fails on a well-formed scope and keeps mode and slots together.\<close>

lemma since_when_Some: "holds \<Longrightarrow> \<exists>t. since_when holds gap since observed = Some t"
  by (auto simp: since_when_def split: option.splits)

definition long_high :: "pressure_scope \<Rightarrow> pressure_observation \<Rightarrow> rat \<Rightarrow> bool" where
  "long_high s ob observed \<longleftrightarrow> is_hard ob \<or> (is_high ob
     \<and> (case since_when (is_high ob) (is_gap s observed) (sc_high_since s) observed of
          None \<Rightarrow> False | Some t \<Rightarrow> observed - t \<ge> 90))"

lemma next_stage_long_high: "long_high s ob observed \<Longrightarrow> next_stage s ob observed = Inr (PAUSED, 0, None)"
  unfolding next_stage_def long_high_def Let_def by (rule if_P)

lemma next_stage_high:
  "\<not> long_high s ob observed \<Longrightarrow> is_high ob \<Longrightarrow> next_stage s ob observed
     = Inr (if sc_mode s \<notin> {PAUSED, PROBE} then (CAUTIOUS, 2, None)
            else (sc_mode s, sc_slots s, sc_stage_since s))"
  unfolding next_stage_def long_high_def Let_def by (simp only: if_False if_True)

lemma next_stage_calm:
  "\<not> is_high ob \<Longrightarrow> next_stage s ob observed = calm_stage s ob observed"
proof -
  assume calm: "\<not> is_high ob"
  then have "\<not> is_hard ob" by (simp add: is_high_def)
  with calm show ?thesis unfolding next_stage_def Let_def by (simp only: if_False simp_thms)
qed

lemma since_when_low:
  "is_low ob \<Longrightarrow> \<exists>t. since_when (is_low ob) gap since observed = Some t"
  by (auto simp: since_when_def split: option.splits)

lemma calm_stage_total:
  assumes "wf_scope s"
  shows "\<exists>m k t. calm_stage s ob observed = Inr (m, k, t) \<and> k \<in> mode_slots m
      \<and> (m \<in> {PROBE, RECOVERING} \<longrightarrow> t \<noteq> None)"
proof -
  have slots: "sc_slots s \<in> mode_slots (sc_mode s)"
    and stage: "sc_mode s \<in> {PROBE, RECOVERING} \<Longrightarrow> sc_stage_since s \<noteq> None"
    using assms by (auto simp: wf_scope_def)
  show ?thesis
  proof (cases "sc_mode s")
    case PAUSED
    with slots since_when_low [of ob "is_gap s observed" "sc_low_since s" observed] show ?thesis
      by (cases "is_low ob") (auto simp: calm_stage_def elapsed_def Let_def)
  next
    case CAUTIOUS
    with slots since_when_low [of ob "is_gap s observed" "sc_low_since s" observed] show ?thesis
      by (cases "is_low ob") (auto simp: calm_stage_def elapsed_def Let_def)
  next
    case PROBE
    with slots stage show ?thesis by (auto simp: calm_stage_def elapsed_def Let_def)
  next
    case RECOVERING
    with slots stage show ?thesis by (auto simp: calm_stage_def elapsed_def Let_def)
  next
    case NORMAL
    with slots show ?thesis by (simp add: calm_stage_def)
  qed
qed

lemma next_stage_total:
  assumes "wf_scope s"
  obtains m k t where "next_stage s ob observed = Inr (m, k, t)"
    "k \<in> mode_slots m" "m \<in> {PROBE, RECOVERING} \<Longrightarrow> t \<noteq> None"
proof -
  have "\<exists>m k t. next_stage s ob observed = Inr (m, k, t) \<and> k \<in> mode_slots m
      \<and> (m \<in> {PROBE, RECOVERING} \<longrightarrow> t \<noteq> None)"
  proof (cases "is_high ob")
    case False
    with calm_stage_total [OF assms] show ?thesis by (simp add: next_stage_calm)
  next
    case True
    show ?thesis
    proof (cases "long_high s ob observed")
      case True
      then show ?thesis by (simp add: next_stage_long_high)
    next
      case False
      with \<open>is_high ob\<close> assms show ?thesis by (auto simp: next_stage_high wf_scope_def)
    qed
  qed
  then show thesis using that by blast
qed

section \<open>What one observation does\<close>

lemma observe_body_Inr:
  assumes "observe_body fp r ob expected observed db = Inr ((), db')" and "db' \<noteq> db"
  shows "\<exists>s st. find_scope r db = Some s \<and> sc_version s = expected \<and> next_stage s ob observed = Inr st
    \<and> (\<forall>t. sc_last_observed s = Some t \<longrightarrow> t < observed)
    \<and> db' = map (\<lambda>q. if sc_ref q = r \<and> sc_version q = expected
                     then updated_scope q ob observed (fp ob) st else q) db"
proof (cases "find_scope r db")
  case None
  with assms(1) show ?thesis by (simp add: observe_body_def)
next
  case (Some s)
  show ?thesis
  proof (cases "next_stage s ob observed")
    case (Inl e)
    with Some assms show ?thesis by (auto simp: observe_body_def split: if_splits)
  next
    case (Inr st)
    with Some assms have "sc_version s = expected \<and> (\<forall>t. sc_last_observed s = Some t \<longrightarrow> t < observed)
      \<and> db' = map (\<lambda>q. if sc_ref q = r \<and> sc_version q = expected
                     then updated_scope q ob observed (fp ob) st else q) db"
      by (auto simp: observe_body_def split: if_splits option.splits)
    with Some Inr show ?thesis by blast
  qed
qed

text \<open>Either nothing changes, or exactly the row of the scope makes one step.\<close>

lemma observe_cases:
  assumes "observe fp r ob expected now later db = (out, db')" and "wf_pressure_db db"
  obtains (same) "db' = db"
  | (step) s st observed where "validate_observation ob (timestamp now) = Inr observed"
      "find_scope r db = Some s" "sc_version s = expected" "next_stage s ob observed = Inr st"
      "\<And>t. sc_last_observed s = Some t \<Longrightarrow> t < observed"
      "db' = map (\<lambda>q. if sc_ref q = r then updated_scope s ob observed (fp ob) st else q) db"
proof (cases "validate_observation ob (timestamp now)")
  case (Inl e)
  with assms(1) same show thesis by (auto simp: observe_def split: if_splits)
next
  case (Inr observed)
  show thesis
  proof (cases "observe_body fp r ob expected observed db")
    case Inl
    with Inr assms(1) same show thesis by (auto simp: observe_def transaction_def split: if_splits)
  next
    case body: (Inr x)
    show thesis
    proof (cases "db' = db")
      case True
      then show thesis by (rule same)
    next
      case False
      have db': "x = ((), db')"
        using Inr body assms(1) False
        by (auto simp: observe_def transaction_def split: if_splits prod.splits)
      with body False obtain s st where s: "find_scope r db = Some s" and v: "sc_version s = expected"
        and n: "next_stage s ob observed = Inr st"
        and later: "\<forall>t. sc_last_observed s = Some t \<longrightarrow> t < observed"
        and map: "db' = map (\<lambda>q. if sc_ref q = r \<and> sc_version q = expected
                            then updated_scope q ob observed (fp ob) st else q) db"
        using observe_body_Inr by blast
      have "q = s" if "q \<in> set db" "sc_ref q = r" for q
        using find_scope_unique [of db q r] that s assms(2) by (simp add: wf_pressure_db_def)
      then have "db' = map (\<lambda>q. if sc_ref q = r then updated_scope s ob observed (fp ob) st else q) db"
        unfolding map using v by (intro map_cong) auto
      with Inr s v n later show thesis by (intro step) auto
    qed
  qed
qed

lemma updated_scope_wf:
  assumes "wf_scope s" and "next_stage s ob observed = Inr st"
  shows "wf_scope (updated_scope s ob observed fp st)"
proof -
  obtain m k t where "next_stage s ob observed = Inr (m, k, t)" "k \<in> mode_slots m"
    "m \<in> {PROBE, RECOVERING} \<Longrightarrow> t \<noteq> None"
    using next_stage_total [OF assms(1)] by blast
  with assms show ?thesis by (auto simp: wf_scope_def updated_scope_def)
qed

lemma map_scope_ref:
  "sc_ref s' = r \<Longrightarrow> map sc_ref (map (\<lambda>q. if sc_ref q = r then s' else q) db) = map sc_ref db"
  by simp

lemma find_map_scope:
  "sc_ref s' = r \<Longrightarrow> find_scope k (map (\<lambda>q. if sc_ref q = r then s' else q) db)
     = (if k = r \<and> find_scope k db \<noteq> None then Some s' else find_scope k db)"
  by (induction db) (auto simp: find_scope_def)

lemma register_scope_wf:
  assumes "wf_pressure_db db"
  shows "wf_pressure_db (snd (register_scope r db))"
proof -
  have "wf_scope (new_scope r)" by (simp add: wf_scope_def new_scope_def)
  with assms show ?thesis
    by (auto simp: register_scope_def transaction_def wf_pressure_db_def find_scope_None
        split: option.splits sum.splits)
      (simp_all add: new_scope_def)
qed

lemma observe_wf:
  assumes "wf_pressure_db db"
  shows "wf_pressure_db (snd (observe fp r ob expected now later db))"
proof -
  obtain out db' where run: "observe fp r ob expected now later db = (out, db')" by fastforce
  from run assms have "wf_pressure_db db'"
  proof (cases rule: observe_cases)
    case same
    with assms show ?thesis by simp
  next
    case (step s st observed)
    have "s \<in> set db" "sc_ref s = r" using find_scope_Some [OF step(2)] by auto
    then have "wf_scope s" using assms by (auto simp: wf_pressure_db_def)
    with step(4) have "wf_scope (updated_scope s ob observed (fp ob) st)" by (rule updated_scope_wf [rotated])
    moreover have ref: "sc_ref (updated_scope s ob observed (fp ob) st) = r"
      using \<open>sc_ref s = r\<close> by (simp add: updated_scope_def)
    moreover from ref have "map sc_ref db' = map sc_ref db"
      unfolding step(6) by (rule map_scope_ref)
    moreover from calculation have "length db' = length db" using map_eq_imp_length_eq by blast
    moreover have "\<forall>x \<in> set db'. wf_scope x"
      using assms calculation(1) by (auto simp: step(6) wf_pressure_db_def)
    ultimately show ?thesis using assms by (simp add: wf_pressure_db_def)
  qed
  with run show ?thesis by simp
qed

lemma observe_no_type_error:
  assumes "wf_pressure_db db"
  shows "fst (observe fp r ob expected now later db) \<noteq> Inl (TypeError msg)"
proof -
  have body: "observe_body fp r ob expected t0 db \<noteq> Inl (TypeError msg)" for t0
  proof (cases "find_scope r db")
    case (Some s)
    with assms have "wf_scope s" by (auto simp: wf_pressure_db_def dest: find_scope_Some)
    then obtain st where "next_stage s ob t0 = Inr st" using next_stage_total by blast
    with Some show ?thesis by (simp add: observe_body_def)
  qed (simp add: observe_body_def)
  have "validate_observation ob (timestamp now) \<noteq> Inl (TypeError msg)"
    by (simp add: validate_observation_def split: option.splits)
  with body show ?thesis
    by (auto simp: observe_def transaction_def decision_def split: sum.splits prod.splits option.splits)
qed

text \<open>
  Registering scopes and recording observations keep the table well formed: one row per
  scope, at most 1024 rows, slots that belong to the mode, and a stage time in the staged modes;
  for that reason no observation fails on a missing stage time.
\<close>

theorem pressure_ops_preserve_wf:
  assumes "wf_pressure_db db"
  shows "wf_pressure_db (snd (register_scope r db))
    \<and> wf_pressure_db (snd (observe fp r ob expected now later db))
    \<and> fst (observe fp r ob expected now later db) \<noteq> Inl (TypeError msg)"
  using register_scope_wf observe_wf observe_no_type_error assms by blast

definition sample_observation :: pressure_observation where
  "sample_observation = \<lparr>po_observed_at = Some 1000000, po_window_seconds = 300, po_attempts = 10,
     po_failures = 0, po_dependency_unavailable_seconds = 0, po_capacity_fraction = Some 1,
     po_oldest_backlog_seconds = 0\<rparr>"

lemma sample_scope_wf: "wf_pressure_db [new_scope ''svc://a'']"
  by (simp add: wf_pressure_db_def wf_scope_def new_scope_def)

theorem pressure_ops_preserve_wf_witness:
  "wf_pressure_db (snd (register_scope ''svc://b'' [new_scope ''svc://a'']))"
  using pressure_ops_preserve_wf [OF sample_scope_wf] by blast

section \<open>Slots follow pressure\<close>

lemma calm_stage_growth:
  assumes "wf_scope s" and "calm_stage s ob observed = Inr (m, k, t)"
  shows "k \<le> max 1 (2 * sc_slots s) \<and> (sc_slots s < k \<longrightarrow> is_low ob)"
proof -
  have slots: "sc_slots s \<in> mode_slots (sc_mode s)" using assms(1) by (simp add: wf_scope_def)
  show ?thesis
    using assms(2) slots
    by (cases "sc_mode s") (auto simp: calm_stage_def result_simps Let_def split: if_splits)
qed

lemma next_stage_growth:
  assumes "wf_scope s" and "next_stage s ob observed = Inr (m, k, t)"
  shows "k \<le> max 1 (2 * sc_slots s) \<and> (sc_slots s < k \<longrightarrow> is_low ob \<and> \<not> is_high ob)
    \<and> (is_hard ob \<longrightarrow> k = 0)"
proof (cases "is_high ob")
  case False
  then have "\<not> is_hard ob" by (simp add: is_high_def)
  with False calm_stage_growth [OF assms(1)] assms(2) show ?thesis by (simp add: next_stage_calm)
next
  case True
  show ?thesis
  proof (cases "long_high s ob observed")
    case True
    with assms(2) show ?thesis by (simp add: next_stage_long_high)
  next
    case False
    then have "\<not> is_hard ob" by (simp add: long_high_def)
    moreover have "sc_mode s \<notin> {PAUSED, PROBE} \<Longrightarrow> 2 \<le> sc_slots s"
      using assms(1) by (cases "sc_mode s") (auto simp: wf_scope_def)
    ultimately show ?thesis
      using assms(2) next_stage_high [OF False True] by (auto split: if_splits)
  qed
qed

text \<open>
  C31. Capacity is given back in steps and taken away at once: one observation at most doubles the
  business slots of a scope, or opens the first one, and only when the pressure is low; a hard
  signal that is recorded leaves the scope without slots.
\<close>

theorem slots_grow_stepwise:
  assumes "wf_pressure_db db" and "observe fp r ob expected now later db = (out, db')"
    and "find_scope r db = Some s" and "find_scope r db' = Some s'" and "s' \<noteq> s"
  shows "sc_slots s' \<le> max 1 (2 * sc_slots s) \<and> (sc_slots s < sc_slots s' \<longrightarrow> is_low ob \<and> \<not> is_high ob)
    \<and> (is_hard ob \<longrightarrow> sc_slots s' = 0 \<and> sc_mode s' = PAUSED)"
  using assms(2,1)
proof (cases rule: observe_cases)
  case same
  with assms(3-5) show ?thesis by simp
next
  case (step q st observed)
  then have q: "q = s" "sc_ref s = r" using assms(3) find_scope_Some by force+
  note step = step [unfolded q(1)]
  have ref: "sc_ref (updated_scope s ob observed (fp ob) st) = r"
    using q(2) by (simp add: updated_scope_def)
  have "find_scope r db' = Some (updated_scope s ob observed (fp ob) st)"
    unfolding step(6) find_map_scope [OF ref] using assms(3) by simp
  with assms(4) have s': "s' = updated_scope s ob observed (fp ob) st" by simp
  have wf: "wf_scope s" using assms(1,3) find_scope_Some by (auto simp: wf_pressure_db_def)
  obtain m k t where st: "st = (m, k, t)" by (cases st)
  with step(4) q have n: "next_stage s ob observed = Inr (m, k, t)" by simp
  have "is_hard ob \<Longrightarrow> m = PAUSED"
    using n next_stage_long_high [of s ob observed] by (simp add: long_high_def)
  with next_stage_growth [OF wf n] show ?thesis by (simp add: s' st updated_scope_def)
qed

lemma sample_observe:
  "\<exists>out s'. observe (\<lambda>_. ''f'') ''svc://a'' sample_observation 0 1000000 1000000 [new_scope ''svc://a'']
     = (out, [s']) \<and> s' \<noteq> new_scope ''svc://a'' \<and> sc_ref s' = ''svc://a''"
  by (simp add: observe_def validate_observation_def sample_observation_def transaction_def
      observe_body_def find_scope_def new_scope_def next_stage_def is_hard_def is_high_def
      capacity_def updated_scope_def Let_def split: sum.splits)

theorem slots_grow_stepwise_witness:
  "\<exists>out s'. observe (\<lambda>_. ''f'') ''svc://a'' sample_observation 0 1000000 1000000 [new_scope ''svc://a'']
     = (out, [s']) \<and> sc_slots s' = 0"
proof -
  obtain out s' where run: "observe (\<lambda>_. ''f'') ''svc://a'' sample_observation 0 1000000 1000000
      [new_scope ''svc://a''] = (out, [s'])" and new: "s' \<noteq> new_scope ''svc://a''" "sc_ref s' = ''svc://a''"
    using sample_observe by blast
  have "find_scope ''svc://a'' [new_scope ''svc://a''] = Some (new_scope ''svc://a'')"
    "find_scope ''svc://a'' [s'] = Some s'" using new by (simp_all add: find_scope_def new_scope_def)
  moreover have "is_hard sample_observation" by (simp add: is_hard_def sample_observation_def capacity_def)
  ultimately show ?thesis
    using slots_grow_stepwise [OF sample_scope_wf run _ _ new(1)] run by blast
qed

section \<open>Versions and replays\<close>

text \<open>
  Observations are recorded in order and once: an observation changes at most the row of its
  scope; when it does, the caller had the current version, the version is one higher, and the
  observed time has advanced; and recording the same observation again changes nothing.
\<close>

theorem observe_in_order_once:
  assumes "wf_pressure_db db" and "observe fp r ob expected now later db = (out, db')"
  shows "(\<forall>k. k \<noteq> r \<longrightarrow> find_scope k db' = find_scope k db)
    \<and> (db' \<noteq> db \<longrightarrow> (\<exists>s s' t'. find_scope r db = Some s \<and> find_scope r db' = Some s'
         \<and> sc_version s = expected \<and> sc_version s' = expected + 1 \<and> sc_last_observed s' = Some t'
         \<and> (\<forall>t. sc_last_observed s = Some t \<longrightarrow> t < t')
         \<and> (\<forall>e later'. snd (observe fp r ob e now later' db') = db')))"
  using assms(2,1)
proof (cases rule: observe_cases)
  case same
  then show ?thesis by simp
next
  case (step s st observed)
  have ref: "sc_ref s = r" and mem: "s \<in> set db" using find_scope_Some [OF step(2)] by auto
  let ?s' = "updated_scope s ob observed (fp ob) st"
  have find': "find_scope k db' = (if k = r then Some ?s' else find_scope k db)" for k
    using step(2,6) find_map_scope [of ?s' r k db] ref by (auto simp: updated_scope_def)
  have replay: "snd (observe fp r ob e now later' db') = db'" for e later'
  proof -
    have "sc_profile ?s' \<noteq> pressure_profile \<or> observe_body fp r ob e observed db' = Inr ((), db')"
      using find' [of r] by (auto simp: observe_body_def updated_scope_def)
    then show ?thesis
      using step(1) find' [of r]
      by (auto simp: observe_def transaction_def observe_body_def split: sum.splits prod.splits)
  qed
  have "sc_version ?s' = expected + 1" "sc_last_observed ?s' = Some observed"
    using step(3) by (simp_all add: updated_scope_def)
  with find' step(2,3,5) replay show ?thesis by auto
qed

theorem observe_in_order_once_witness:
  "\<exists>out db'. observe (\<lambda>_. ''f'') ''svc://a'' sample_observation 0 1000000 1000000 [new_scope ''svc://a'']
     = (out, db') \<and> find_scope ''svc://b'' db' = None"
proof -
  obtain out db' where run: "observe (\<lambda>_. ''f'') ''svc://a'' sample_observation 0 1000000 1000000
      [new_scope ''svc://a''] = (out, db')" by fastforce
  have "find_scope ''svc://b'' [new_scope ''svc://a''] = None" by (simp add: find_scope_def new_scope_def)
  with observe_in_order_once [OF sample_scope_wf run] run show ?thesis by auto
qed

text \<open>
  Decisions fail closed: without a fresh observation of the current profile the mode is unknown
  and there are no business slots; a decision never grants execution or a new retry budget, and it
  never offers more than the eight slots of a normal scope.
\<close>

theorem decision_fails_closed:
  assumes "wf_pressure_db db" and "decision r now db = Inr d"
  shows "\<not> pd_executionAuthorized d \<and> \<not> pd_retryBudgetRenewed d \<and> pd_businessSlots d \<le> 8
    \<and> (0 < pd_businessSlots d \<longrightarrow> pd_evidenceFresh d \<and> pd_mode d \<notin> {None, Some PAUSED})"
proof -
  from assms(2) obtain s where s: "find_scope r db = Some s"
    by (auto simp: decision_def split: option.splits)
  with assms(1) have "sc_slots s \<in> mode_slots (sc_mode s)"
    by (auto simp: wf_pressure_db_def wf_scope_def dest: find_scope_Some)
  with assms(2) s show ?thesis
    by (cases "sc_mode s") (auto simp: decision_def split: if_splits)
qed

theorem decision_fails_closed_witness:
  "\<exists>d. decision ''svc://a'' 0 [new_scope ''svc://a''] = Inr d \<and> pd_businessSlots d \<le> 8"
proof -
  obtain d where d: "decision ''svc://a'' 0 [new_scope ''svc://a''] = Inr d"
    by (simp add: decision_def find_scope_def new_scope_def)
  with decision_fails_closed [OF sample_scope_wf d] show ?thesis by blast
qed

end
