(* ===== verification/Cursor.thy ===== *)
theory Cursor
  imports Incidents Json
begin

text \<open>
  The owner cursor, \<open>tools/operational_cursor.py\<close>: a capture stores a bounded snapshot of the
  incident history under a session, and pages read it through one-position cursors. The tables
  extend the incident store's database; \<open>bookmark_scope\<close> and \<open>bookmark_page\<close>, which
  \<open>operational_bookmarks.py\<close> declares, are here because deleting a session deletes their rows.
  The digest (a hash of canonical JSON), \<open>uuid.UUID\<close>, the byte length of a rendered page and the
  fresh tokens and clock readings are parameters.
\<close>

section \<open>Tables\<close>

record cursor_session =
  se_id :: string
  se_principal :: string
  se_tenant :: string
  se_fingerprint :: string
  se_policy_ref :: string
  se_page_limit :: int
  se_created_at :: string
  se_expires_at :: string
  se_history_gap :: bool
  se_watermark :: nat
  se_item_count :: nat

record page_item =
  pi_session :: string
  pi_position :: nat
  pi_body :: incident

record page_cursor =
  pc_token :: string
  pc_session :: string
  pc_position :: nat

record bookmark_scope =
  bs_session :: string
  bs_state :: "string option"
  bs_parent :: "string option"
  bs_frame_digest :: string
  bs_parent_watermark :: "nat option"

record bookmark_page =
  bp_session :: string
  bp_position :: nat
  bp_digest :: string
  bp_complete :: bool

record cursor_db = incident_db +
  cu_sessions :: "cursor_session list"
  cu_items :: "page_item list"
  cu_cursors :: "page_cursor list"
  cu_scopes :: "bookmark_scope list"
  cu_pages :: "bookmark_page list"

section \<open>Identities and digests\<close>

text \<open>The verified identity: principal, tenant and the other claims.\<close>

record identity =
  id_principal :: string
  id_tenant :: string
  id_claims :: "(string \<times> json) list"

definition identity_json :: "identity \<Rightarrow> json" where
  "identity_json i =
     JObj ((''principal'', JStr (id_principal i)) # (''tenant'', JStr (id_tenant i)) # id_claims i)"

fun lifecycle_name :: "lifecycle \<Rightarrow> string" where
  "lifecycle_name OPEN = ''OPEN''"
| "lifecycle_name RECOVERING = ''RECOVERING''"
| "lifecycle_name RESOLVED = ''RESOLVED''"

fun severity_name :: "severity_level \<Rightarrow> string" where
  "severity_name INFO = ''INFO''"
| "severity_name WARNING = ''WARNING''"
| "severity_name ERROR = ''ERROR''"
| "severity_name CRITICAL = ''CRITICAL''"

text \<open>The fixed projection of a row that the history trigger writes.\<close>

definition incident_json :: "incident \<Rightarrow> json" where
  "incident_json r = JObj [(''incident_id'', JStr (incident_id r)), (''dedup_key'', JStr (dedup_key r)),
     (''module'', JStr (module r)), (''event_type'', JStr (event_type r)),
     (''lifecycle_state'', JStr (lifecycle_name (lifecycle_state r))),
     (''severity'', JStr (severity_name (severity r))),
     (''first_seen_at'', JStr (first_seen_at r)), (''last_seen_at'', JStr (last_seen_at r)),
     (''resolved_at'', jopt JStr (resolved_at r)), (''correlation_id'', jopt JStr (correlation_id r)),
     (''endpoint_ref'', jopt JStr (endpoint_ref r)), (''error_code'', jopt JStr (error_code r)),
     (''impact_summary'', JStr (impact_summary r)), (''action_required'', JBool (action_required r)),
     (''occurrence_count'', jnat (occurrence_count r)), (''visibility_class'', JStr (visibility_class r))]"

section \<open>Capture\<close>

record cursor_query =
  cq_limit :: int
  cq_state :: "string option"
  cq_since :: "string option"

text \<open>\<open>query.get(k)\<close> as a condition: absent and empty both mean no condition.\<close>

definition given :: "string option \<Rightarrow> bool" where
  "given v = (case v of None \<Rightarrow> False | Some s \<Rightarrow> s \<noteq> [])"

text \<open>The session that expires first among the expired ones.\<close>

definition first_expired :: "string \<Rightarrow> cursor_session list \<Rightarrow> string option" where
  "first_expired now ss =
     (case sort_by (key_le se_expires_at) (filter (\<lambda>s. se_expires_at s \<le> now) ss) of
        [] \<Rightarrow> None | s # _ \<Rightarrow> Some (se_id s))"

text \<open>\<open>delete from gateway_incident_session\<close> with its cascades.\<close>

definition delete_session :: "string \<Rightarrow> 'z cursor_db_scheme \<Rightarrow> 'z cursor_db_scheme" where
  "delete_session sid db = db\<lparr>
     cu_sessions := filter (\<lambda>s. se_id s \<noteq> sid) (cu_sessions db),
     cu_items := filter (\<lambda>i. pi_session i \<noteq> sid) (cu_items db),
     cu_cursors := filter (\<lambda>c. pc_session c \<noteq> sid) (cu_cursors db),
     cu_scopes := filter (\<lambda>b. bs_session b \<noteq> sid) (cu_scopes db),
     cu_pages := filter (\<lambda>p. bp_session p \<noteq> sid) (cu_pages db)\<rparr>"

definition drop_expired :: "string \<Rightarrow> 'z cursor_db_scheme \<Rightarrow> 'z cursor_db_scheme" where
  "drop_expired now db =
     (case first_expired now (cu_sessions db) of None \<Rightarrow> db | Some sid \<Rightarrow> delete_session sid db)"

definition tenant_sessions :: "string \<Rightarrow> cursor_session list \<Rightarrow> cursor_session list" where
  "tenant_sessions t ss = filter (\<lambda>s. se_tenant s = t) ss"

definition principal_sessions :: "string \<Rightarrow> string \<Rightarrow> cursor_session list \<Rightarrow> cursor_session list" where
  "principal_sessions t p ss = filter (\<lambda>s. se_tenant s = t \<and> se_principal s = p) ss"

definition item_total :: "cursor_session list \<Rightarrow> nat" where
  "item_total ss = sum_list (map se_item_count ss)"

definition session_capacity :: "identity \<Rightarrow> cursor_session list \<Rightarrow> bool" where
  "session_capacity i ss \<longleftrightarrow> length ss < 4096 \<and> length (tenant_sessions (id_tenant i) ss) < 128
     \<and> length (principal_sessions (id_tenant i) (id_principal i) ss) < 16"

definition available_items :: "int \<Rightarrow> identity \<Rightarrow> cursor_session list \<Rightarrow> int" where
  "available_items limit i ss =
     min (min 20000 (limit * 200))
       (min (200000 - int (item_total ss)) (64000 - int (item_total (tenant_sessions (id_tenant i) ss))))"

text \<open>The latest transition of every incident, by its highest revision.\<close>

definition is_latest :: "transition list \<Rightarrow> transition \<Rightarrow> bool" where
  "is_latest ts t = list_all (\<lambda>u. tr_incident u = tr_incident t \<longrightarrow> tr_revision u \<le> tr_revision t) ts"

definition capture_selects :: "cursor_query \<Rightarrow> nat option \<Rightarrow> transition \<Rightarrow> bool" where
  "capture_selects q lo t \<longleftrightarrow>
     (given (cq_state q) \<longrightarrow> lifecycle_of (the (cq_state q)) = Some (lifecycle_state (tr_body t)))
     \<and> (given (cq_since q) \<longrightarrow> the (cq_since q) \<le> last_seen_at (tr_body t))
     \<and> (case lo of None \<Rightarrow> True | Some l \<Rightarrow> l < tr_revision t)"

definition captured_rows :: "cursor_query \<Rightarrow> nat option \<Rightarrow> transition list \<Rightarrow> incident list" where
  "captured_rows q lo ts =
     map tr_body (sort_by (\<lambda>t u. priority_le (tr_body t) (tr_body u))
       (filter (\<lambda>t. is_latest ts t \<and> capture_selects q lo t) ts))"

definition capture_body ::
  "(json \<Rightarrow> string) \<Rightarrow> string \<Rightarrow> string \<Rightarrow> nat \<Rightarrow> nat \<Rightarrow> cursor_query \<Rightarrow> identity \<Rightarrow> string
     \<Rightarrow> nat option \<Rightarrow> 'z cursor_db_scheme \<Rightarrow> (string \<times> 'z cursor_db_scheme) res" where
  "capture_body dg sid token now later q i policy lo db0 =
     (let db = drop_expired (iso_z now) db0;
          available = available_items (cq_limit q) i (cu_sessions db);
          watermark = last_revision (transitions db)
      in if \<not> session_capacity i (cu_sessions db)
         then Inl (CursorRejected 503 ''OPERATIONAL_SESSION_CAPACITY'')
         else if available < 0 then Inl (CursorRejected 503 ''OPERATIONAL_ITEM_CAPACITY'')
         else (case history_baseline db of
             None \<Rightarrow> Inl (TypeError ''not subscriptable'')
           | Some baseline \<Rightarrow>
               if (case lo of None \<Rightarrow> False | Some l \<Rightarrow> watermark < l)
               then Inl (CursorRejected 409 ''BOOKMARK_PUBLICATION_CONFLICT'')
               else let rows = take (nat (available + 1)) (captured_rows q lo (transitions db)) in
                 if available < int (length rows)
                 then Inl (CursorRejected 503 ''OPERATIONAL_ITEM_CAPACITY'')
                 else if sid \<in> se_id ` set (cu_sessions db) \<or> \<not> (1 \<le> cq_limit q \<and> cq_limit q \<le> 100)
                      \<or> token \<in> pc_token ` set (cu_cursors db)
                 then Inl (IntegrityError ''gateway_incident_session'')
                 else Inr (token, db\<lparr>
                   cu_sessions := cu_sessions db @ [\<lparr>se_id = sid, se_principal = id_principal i,
                     se_tenant = id_tenant i, se_fingerprint = dg (identity_json i),
                     se_policy_ref = policy, se_page_limit = cq_limit q, se_created_at = iso_z now,
                     se_expires_at = iso_z (later + minutes 30),
                     se_history_gap = (given (cq_since q) \<and> the (cq_since q) < baseline),
                     se_watermark = watermark, se_item_count = length rows\<rparr>],
                   cu_items := cu_items db @ map (\<lambda>(k, r). \<lparr>pi_session = sid, pi_position = k,
                     pi_body = r\<rparr>) (enumerate 0 rows),
                   cu_cursors := cu_cursors db @ [\<lparr>pc_token = token, pc_session = sid, pc_position = 0\<rparr>]\<rparr>)))"

definition capture ::
  "(json \<Rightarrow> string) \<Rightarrow> string \<Rightarrow> string \<Rightarrow> nat \<Rightarrow> nat \<Rightarrow> cursor_query \<Rightarrow> identity \<Rightarrow> string
     \<Rightarrow> nat option \<Rightarrow> 'z cursor_db_scheme \<Rightarrow> string res \<times> 'z cursor_db_scheme" where
  "capture dg sid token now later q i policy lo =
     transaction (capture_body dg sid token now later q i policy lo)"

section \<open>Pages\<close>

record page_result =
  pr_items :: "incident list"
  pr_partial :: bool
  pr_truncated :: bool
  pr_cursor :: string
  pr_snapshotRef :: string
  pr_snapshotAt :: string
  pr_expiresAt :: string
  pr_itemsDigest :: string
  pr_historyGap :: bool
  pr_redacted :: bool
  pr_nextCursor :: "string option"

definition find_frame :: "string \<Rightarrow> 'z cursor_db_scheme \<Rightarrow> (cursor_session \<times> nat) option" where
  "find_frame token db =
     (case find (\<lambda>c. pc_token c = token) (cu_cursors db) of
        None \<Rightarrow> None
      | Some c \<Rightarrow> (case find (\<lambda>s. se_id s = pc_session c) (cu_sessions db) of
            None \<Rightarrow> None | Some s \<Rightarrow> Some (s, pc_position c)))"

definition check_frame ::
  "(json \<Rightarrow> string) \<Rightarrow> string \<Rightarrow> identity \<Rightarrow> string \<Rightarrow> nat \<Rightarrow> 'z cursor_db_scheme
     \<Rightarrow> (cursor_session \<times> nat) res" where
  "check_frame dg token i policy now db =
     (case find_frame token db of
        None \<Rightarrow> Inl (CursorRejected 404 ''CURSOR_NOT_FOUND'')
      | Some (s, pos) \<Rightarrow>
          if se_principal s \<noteq> id_principal i \<or> se_tenant s \<noteq> id_tenant i
             \<or> se_fingerprint s \<noteq> dg (identity_json i)
          then Inl (CursorRejected 404 ''CURSOR_NOT_FOUND'')
          else if se_policy_ref s \<noteq> policy then Inl (CursorRejected 409 ''CURSOR_POLICY_CHANGED'')
          else if se_expires_at s \<le> iso_z now then Inl (CursorRejected 410 ''CURSOR_EXPIRED'')
          else Inr (s, pos))"

definition page_rows :: "cursor_session \<Rightarrow> nat \<Rightarrow> 'z cursor_db_scheme \<Rightarrow> incident list" where
  "page_rows s pos db = map pi_body (take (nat (se_page_limit s)) (sort_by (key_le pi_position)
     (filter (\<lambda>i. pi_session i = se_id s \<and> pos \<le> pi_position i) (cu_items db))))"

text \<open>\<open>insert ... on conflict(session_id,position) do nothing\<close>, then the token of that position.\<close>

definition next_cursor ::
  "string \<Rightarrow> string \<Rightarrow> nat \<Rightarrow> 'z cursor_db_scheme \<Rightarrow> string res \<times> 'z cursor_db_scheme" where
  "next_cursor fresh sid pos db =
     (case find (\<lambda>c. pc_session c = sid \<and> pc_position c = pos) (cu_cursors db) of
        Some c \<Rightarrow> (Inr (pc_token c), db)
      | None \<Rightarrow>
          if fresh \<in> pc_token ` set (cu_cursors db) then (Inl (IntegrityError ''token''), db)
          else (Inr fresh, db\<lparr>cu_cursors := cu_cursors db
                 @ [\<lparr>pc_token = fresh, pc_session = sid, pc_position = pos\<rparr>]\<rparr>))"

definition page ::
  "(json \<Rightarrow> string) \<Rightarrow> (page_result \<Rightarrow> nat) \<Rightarrow> string \<Rightarrow> string \<Rightarrow> identity \<Rightarrow> string
     \<Rightarrow> (incident \<Rightarrow> bool res) \<Rightarrow> nat \<Rightarrow> ('z cursor_db_scheme, page_result) io" where
  "page dg bytes fresh token i policy authorize now = (\<lambda>db.
     case check_frame dg token i policy now db of
       Inl e \<Rightarrow> (Inl e, db)
     | Inr (s, pos) \<Rightarrow>
         let items = page_rows s pos db; next_pos = pos + length items in
         (case filterE authorize items of
            Inl e \<Rightarrow> (Inl e, db)
          | Inr visible \<Rightarrow>
              let redacted = (length visible \<noteq> length items);
                  truncated = (next_pos < se_item_count s);
                  result = \<lparr>pr_items = visible, pr_partial = (redacted \<or> se_history_gap s),
                    pr_truncated = truncated, pr_cursor = token, pr_snapshotRef = se_id s,
                    pr_snapshotAt = se_created_at s, pr_expiresAt = se_expires_at s,
                    pr_itemsDigest = dg (JList (map incident_json visible)),
                    pr_historyGap = se_history_gap s, pr_redacted = redacted, pr_nextCursor = None\<rparr>
              in (if truncated then
                    (case next_cursor fresh (se_id s) next_pos db of
                       (Inl e, db') \<Rightarrow> (Inl e, db')
                     | (Inr t, db') \<Rightarrow>
                         let result' = result\<lparr>pr_nextCursor := Some t\<rparr> in
                         (if bytes result' > 524288
                          then Inl (CursorRejected 503 ''OPERATIONAL_RESPONSE_CAPACITY'')
                          else Inr result', db'))
                  else (if bytes result > 524288
                        then Inl (CursorRejected 503 ''OPERATIONAL_RESPONSE_CAPACITY'')
                        else Inr result, db))))"

text \<open>
  \<open>OwnerIncidentCursor.page(query, ...)\<close>: a query with a cursor may hold nothing else and must be
  a UUID, whose canonical form is the token; any other query captures first. \<open>ids\<close> are the
  \<open>uuid4\<close> values in the order of the calls, \<open>clk\<close> the clock readings.
\<close>

definition cursor_page ::
  "(json \<Rightarrow> string) \<Rightarrow> (string \<Rightarrow> string option) \<Rightarrow> (page_result \<Rightarrow> nat) \<Rightarrow> (nat \<Rightarrow> string) \<Rightarrow> (nat \<Rightarrow> nat)
     \<Rightarrow> string option \<Rightarrow> bool \<Rightarrow> cursor_query \<Rightarrow> identity \<Rightarrow> string \<Rightarrow> (incident \<Rightarrow> bool res)
     \<Rightarrow> ('z cursor_db_scheme, page_result) io" where
  "cursor_page dg uuid bytes ids clk cursor only_cursor q i policy authorize =
     (case cursor of
        Some c \<Rightarrow>
          if \<not> only_cursor then raiseS (CursorRejected 400 ''CURSOR_FILTER_CHANGE'')
          else (case uuid c of
              None \<Rightarrow> raiseS (CursorRejected 400 ''CURSOR_INVALID'')
            | Some token \<Rightarrow> page dg bytes (ids 0) token i policy authorize (clk 0))
      | None \<Rightarrow>
          bindS (capture dg (ids 0) (ids 1) (clk 0) (clk 1) q i policy None)
            (\<lambda>token. page dg bytes (ids 2) token i policy authorize (clk 2)))"

section \<open>Well-formed cursor tables\<close>

definition session_items :: "string \<Rightarrow> 'z cursor_db_scheme \<Rightarrow> page_item list" where
  "session_items sid db = filter (\<lambda>i. pi_session i = sid) (cu_items db)"

definition snapshot :: "string \<Rightarrow> 'z cursor_db_scheme \<Rightarrow> incident list" where
  "snapshot sid db = map pi_body (session_items sid db)"

text \<open>Keys and references: what the primary keys, unique and foreign key constraints say.\<close>

definition cursor_keys :: "'z cursor_db_scheme \<Rightarrow> bool" where
  "cursor_keys db \<longleftrightarrow>
     distinct (map se_id (cu_sessions db)) \<and> distinct (map pc_token (cu_cursors db))
     \<and> distinct (map (\<lambda>c. (pc_session c, pc_position c)) (cu_cursors db))
     \<and> (\<forall>c \<in> set (cu_cursors db). \<exists>s \<in> set (cu_sessions db).
          se_id s = pc_session c \<and> pc_position c \<le> se_item_count s)
     \<and> (\<forall>i \<in> set (cu_items db). pi_session i \<in> se_id ` set (cu_sessions db))"

text \<open>Every session holds its items at the positions from 0 on, and its page limit is positive.\<close>

definition sessions_filled :: "'z cursor_db_scheme \<Rightarrow> bool" where
  "sessions_filled db \<longleftrightarrow> (\<forall>s \<in> set (cu_sessions db).
     1 \<le> se_page_limit s \<and> se_page_limit s \<le> 100 \<and> se_item_count s \<le> 20000
     \<and> map pi_position (session_items (se_id s) db) = [0..<se_item_count s])"

text \<open>The capacity of the reference profile.\<close>

definition within_capacity :: "cursor_session list \<Rightarrow> bool" where
  "within_capacity ss \<longleftrightarrow> length ss \<le> 4096 \<and> item_total ss \<le> 200000
     \<and> (\<forall>t. length (tenant_sessions t ss) \<le> 128 \<and> item_total (tenant_sessions t ss) \<le> 64000
          \<and> (\<forall>p. length (principal_sessions t p ss) \<le> 16))"

definition wf_cursor_db :: "'z cursor_db_scheme \<Rightarrow> bool" where
  "wf_cursor_db db \<longleftrightarrow> cursor_keys db \<and> sessions_filled db \<and> within_capacity (cu_sessions db)"

lemma item_total_filter: "item_total (filter P ss) \<le> item_total ss"
  by (induction ss) (auto simp: item_total_def)

lemma within_capacity_filter: "within_capacity ss \<Longrightarrow> within_capacity (filter P ss)"
proof -
  assume cap: "within_capacity ss"
  have swap: "tenant_sessions t (filter P ss) = filter P (tenant_sessions t ss)"
    "principal_sessions t p (filter P ss) = filter P (principal_sessions t p ss)" for t p
    by (simp_all add: tenant_sessions_def principal_sessions_def conj_commute)
  show ?thesis
    using cap item_total_filter [of P] length_filter_le [of P] unfolding within_capacity_def swap
    by (meson le_trans)
qed

lemma delete_session_items:
  "session_items k (delete_session sid db) = (if k = sid then [] else session_items k db)"
  by (auto simp: session_items_def delete_session_def filter_empty_conv intro!: filter_cong)

lemma distinct_map_filter_keep: "distinct (map f xs) \<Longrightarrow> distinct (map f (filter P xs))"
  by (induction xs) auto

lemma delete_session_wf:
  assumes "wf_cursor_db db"
  shows "wf_cursor_db (delete_session sid db)"
proof -
  let ?db = "delete_session sid db"
  have keys: "distinct (map se_id (cu_sessions db))" "distinct (map pc_token (cu_cursors db))"
    "distinct (map (\<lambda>c. (pc_session c, pc_position c)) (cu_cursors db))"
    and cursors: "\<And>c. c \<in> set (cu_cursors db) \<Longrightarrow> \<exists>s \<in> set (cu_sessions db).
        se_id s = pc_session c \<and> pc_position c \<le> se_item_count s"
    and items: "\<And>i. i \<in> set (cu_items db) \<Longrightarrow> \<exists>s \<in> set (cu_sessions db). pi_session i = se_id s"
    using assms by (auto simp: wf_cursor_db_def cursor_keys_def)
  have mem: "s \<in> set (cu_sessions ?db) \<longleftrightarrow> s \<in> set (cu_sessions db) \<and> se_id s \<noteq> sid"
    "c \<in> set (cu_cursors ?db) \<longleftrightarrow> c \<in> set (cu_cursors db) \<and> pc_session c \<noteq> sid"
    "i \<in> set (cu_items ?db) \<longleftrightarrow> i \<in> set (cu_items db) \<and> pi_session i \<noteq> sid" for s c i
    by (auto simp: delete_session_def)
  have "\<exists>s \<in> set (cu_sessions ?db). se_id s = pc_session c \<and> pc_position c \<le> se_item_count s"
    if "c \<in> set (cu_cursors ?db)" for c
    using that cursors [of c] by (simp only: mem bex_simps) (auto simp: mem)
  moreover have "pi_session i \<in> se_id ` set (cu_sessions ?db)" if "i \<in> set (cu_items ?db)" for i
    using that items [of i] by (auto simp: mem)
  ultimately have "cursor_keys ?db"
    using keys unfolding cursor_keys_def by (simp add: delete_session_def distinct_map_filter_keep)
  moreover have "sessions_filled (delete_session sid db)"
    using assms by (auto simp: wf_cursor_db_def sessions_filled_def delete_session_items)
      (auto simp: delete_session_def)
  ultimately show ?thesis
    using assms within_capacity_filter by (simp add: wf_cursor_db_def delete_session_def)
qed

lemma drop_expired_wf: "wf_cursor_db db \<Longrightarrow> wf_cursor_db (drop_expired now db)"
  by (simp add: drop_expired_def delete_session_wf split: option.splits)

lemma drop_expired_incidents [simp]:
  "transitions (drop_expired now db) = transitions db" "incidents (drop_expired now db) = incidents db"
  "history_baseline (drop_expired now db) = history_baseline db"
  by (simp_all add: drop_expired_def delete_session_def split: option.splits)

section \<open>What a capture stores\<close>

definition item_rows :: "string \<Rightarrow> incident list \<Rightarrow> page_item list" where
  "item_rows sid rows = map (\<lambda>(k, r). \<lparr>pi_session = sid, pi_position = k, pi_body = r\<rparr>) (enumerate 0 rows)"

lemma item_rows_simps:
  "map pi_position (item_rows sid rows) = [0..<length rows]"
  "map pi_body (item_rows sid rows) = rows"
  "i \<in> set (item_rows sid rows) \<Longrightarrow> pi_session i = sid"
  by (auto simp: item_rows_def comp_def case_prod_beta enumerate_eq_zip
      simp flip: map_map [of fst] map_map [of snd] intro: nth_equalityI)

text \<open>A capture either changes nothing or adds one session with the complete selection.\<close>

lemma capture_cases:
  assumes "capture dg sid token now later q i policy lo db = (r, db')"
  obtains (failed) e where "r = Inl e" "db' = db"
  | (captured) db1 rows s where "r = Inr token" "db1 = drop_expired (iso_z now) db"
      "rows = captured_rows q lo (transitions db)" "session_capacity i (cu_sessions db1)"
      "int (length rows) \<le> available_items (cq_limit q) i (cu_sessions db1)"
      "sid \<notin> se_id ` set (cu_sessions db1)" "token \<notin> pc_token ` set (cu_cursors db1)"
      "1 \<le> cq_limit q" "cq_limit q \<le> 100" "se_id s = sid" "se_principal s = id_principal i"
      "se_tenant s = id_tenant i" "se_fingerprint s = dg (identity_json i)" "se_policy_ref s = policy"
      "se_page_limit s = cq_limit q" "se_item_count s = length rows"
      "se_expires_at s = iso_z (later + minutes 30)" "se_watermark s = last_revision (transitions db)"
      "case lo of None \<Rightarrow> True | Some l \<Rightarrow> l \<le> last_revision (transitions db)"
      "db' = db1\<lparr>cu_sessions := cu_sessions db1 @ [s], cu_items := cu_items db1 @ item_rows sid rows,
         cu_cursors := cu_cursors db1 @ [\<lparr>pc_token = token, pc_session = sid, pc_position = 0\<rparr>]\<rparr>"
proof (cases "capture_body dg sid token now later q i policy lo db")
  case (Inl e)
  with assms have "r = Inl e" "db' = db" by (auto simp: capture_def transaction_def)
  then show thesis by (rule failed)
next
  case (Inr x)
  let ?db1 = "drop_expired (iso_z now) db"
  let ?a = "available_items (cq_limit q) i (cu_sessions ?db1)"
  let ?rows = "take (nat (?a + 1)) (captured_rows q lo (transitions db))"
  from Inr assms have r: "x = (token, db')" "r = Inr token"
    by (auto simp: capture_def transaction_def capture_body_def Let_def
        split: if_splits option.splits prod.splits)
  with Inr obtain baseline where ok: "session_capacity i (cu_sessions ?db1)" "0 \<le> ?a"
    "int (length ?rows) \<le> ?a" "sid \<notin> se_id ` set (cu_sessions ?db1)" "1 \<le> cq_limit q" "cq_limit q \<le> 100"
    "token \<notin> pc_token ` set (cu_cursors ?db1)"
    "case lo of None \<Rightarrow> True | Some l \<Rightarrow> l \<le> last_revision (transitions db)"
    "db' = ?db1\<lparr>cu_sessions := cu_sessions ?db1 @ [\<lparr>se_id = sid, se_principal = id_principal i,
                     se_tenant = id_tenant i, se_fingerprint = dg (identity_json i),
                     se_policy_ref = policy, se_page_limit = cq_limit q, se_created_at = iso_z now,
                     se_expires_at = iso_z (later + minutes 30),
                     se_history_gap = (given (cq_since q) \<and> the (cq_since q) < baseline),
                     se_watermark = last_revision (transitions db), se_item_count = length ?rows\<rparr>],
        cu_items := cu_items ?db1 @ item_rows sid ?rows,
        cu_cursors := cu_cursors ?db1 @ [\<lparr>pc_token = token, pc_session = sid, pc_position = 0\<rparr>]\<rparr>"
    by (cases "history_baseline db"; cases lo)
      (auto simp: capture_body_def Let_def item_rows_def split: if_splits)
  have "?rows = captured_rows q lo (transitions db)" using ok(2,3) by (simp add: min_def split: if_splits)
  with ok r(2) show thesis
    by (intro captured [where rows = "captured_rows q lo (transitions db)"]) simp_all
qed

lemma tenant_sessions_append:
  "tenant_sessions t (xs @ ys) = tenant_sessions t xs @ tenant_sessions t ys"
  "principal_sessions t p (xs @ ys) = principal_sessions t p xs @ principal_sessions t p ys"
  by (simp_all add: tenant_sessions_def principal_sessions_def)

lemma item_total_append: "item_total (xs @ ys) = item_total xs + item_total ys"
  by (simp add: item_total_def)

lemma capture_capacity:
  assumes "within_capacity ss" and "session_capacity i ss"
    and "int (se_item_count s) \<le> available_items limit i ss"
    and "se_tenant s = id_tenant i" and "se_principal s = id_principal i"
  shows "within_capacity (ss @ [s])"
proof -
  have av: "item_total ss + se_item_count s \<le> 200000"
    "item_total (tenant_sessions (id_tenant i) ss) + se_item_count s \<le> 64000"
    using assms(3) by (simp_all add: available_items_def)
  have one: "tenant_sessions t [s] = (if t = id_tenant i then [s] else [])"
    "principal_sessions t p [s] = (if t = id_tenant i \<and> p = id_principal i then [s] else [])" for t p
    using assms(4,5) by (auto simp: tenant_sessions_def principal_sessions_def)
  show ?thesis
    using assms(1,2) av unfolding within_capacity_def session_capacity_def
    by (auto simp: tenant_sessions_append item_total_append one item_total_def)
qed

lemma session_items_append:
  assumes "cu_items db' = cu_items db @ item_rows sid rows"
  shows "session_items k db' = session_items k db @ (if k = sid then item_rows sid rows else [])"
proof -
  have "filter (\<lambda>i. pi_session i = k) (item_rows sid rows) = (if k = sid then item_rows sid rows else [])"
    using item_rows_simps(3) by (auto simp: filter_empty_conv intro!: filter_True)
  with assms show ?thesis by (simp add: session_items_def)
qed

lemma fresh_session_no_items:
  "cursor_keys db \<Longrightarrow> sid \<notin> se_id ` set (cu_sessions db) \<Longrightarrow> session_items sid db = []"
  by (auto simp: cursor_keys_def session_items_def filter_empty_conv)

lemma capture_wf:
  assumes "wf_cursor_db db" and run: "capture dg sid token now later q i policy lo db = (r, db')"
  shows "wf_cursor_db db'"
  using run
proof (cases rule: capture_cases)
  case (failed e)
  with assms(1) show ?thesis by simp
next
  case (captured db1 rows s)
  have wf1: "cursor_keys db1" "sessions_filled db1" "within_capacity (cu_sessions db1)"
    using drop_expired_wf [OF assms(1)] captured(2) by (simp_all add: wf_cursor_db_def)
  have items: "session_items k db' = session_items k db1 @ (if k = sid then item_rows sid rows else [])" for k
    by (rule session_items_append) (simp add: captured(20))
  note none = fresh_session_no_items [OF wf1(1) captured(6)]
  have count: "se_item_count s \<le> 20000" using captured(5,16) by (simp add: available_items_def)
  have "cursor_keys db'"
  proof -
    have old: "pc_session c \<noteq> sid" if "c \<in> set (cu_cursors db1)" for c
      using wf1(1) captured(6) that by (force simp: cursor_keys_def)
    show ?thesis
      using wf1(1) captured(6,7,10) unfolding cursor_keys_def captured(20)
      by (auto simp: item_rows_simps(3) dest: old)
  qed
  moreover have "sessions_filled db'"
    unfolding sessions_filled_def
  proof
    fix x assume "x \<in> set (cu_sessions db')"
    then consider "x \<in> set (cu_sessions db1)" | "x = s" using captured(20) by auto
    then show "1 \<le> se_page_limit x \<and> se_page_limit x \<le> 100 \<and> se_item_count x \<le> 20000
        \<and> map pi_position (session_items (se_id x) db') = [0..<se_item_count x]"
    proof cases
      case 1
      then have "se_id x \<noteq> sid" using captured(6) by force
      with 1 wf1(2) show ?thesis by (simp add: sessions_filled_def items)
    next
      case 2
      with captured(8,9,10,15,16) count none show ?thesis by (simp add: items item_rows_simps)
    qed
  qed
  moreover have "within_capacity (cu_sessions db')"
    using capture_capacity [OF wf1(3) captured(4), of s "cq_limit q"] captured(5,11,12,16,20) by simp
  ultimately show ?thesis by (simp add: wf_cursor_db_def)
qed

section \<open>What a page reads\<close>

lemma sort_by_sorted_id:
  "sorted_wrt le xs \<Longrightarrow> sort_by le xs = xs"
proof (induction xs)
  case Nil
  then show ?case by simp
next
  case (Cons x xs)
  then show ?case by (cases xs) simp_all
qed

lemma filter_upt_positions:
  "map f xs = [0..<n] \<Longrightarrow> filter (\<lambda>x. k \<le> f x) xs = drop k xs"
proof (induction xs arbitrary: n rule: rev_induct)
  case Nil
  then show ?case by simp
next
  case (snoc x xs)
  then have n: "n = Suc (length xs)" by (metis length_append_singleton length_map length_upt diff_zero)
  with snoc.prems have "map f xs = [0..<length xs]" "f x = length xs" by simp_all
  with snoc.IH show ?case by auto
qed

lemma page_rows_snapshot:
  assumes "sessions_filled db" and "s \<in> set (cu_sessions db)"
  shows "page_rows s pos db = take (nat (se_page_limit s)) (drop pos (snapshot (se_id s) db))"
proof -
  let ?xs = "session_items (se_id s) db"
  have pos: "map pi_position ?xs = [0..<se_item_count s]" using assms by (simp add: sessions_filled_def)
  have "filter (\<lambda>i. pi_session i = se_id s \<and> pos \<le> pi_position i) (cu_items db)
      = filter (\<lambda>i. pos \<le> pi_position i) ?xs"
    by (simp add: session_items_def conj_commute)
  also have "\<dots> = drop pos ?xs" by (rule filter_upt_positions [OF pos])
  finally have f: "filter (\<lambda>i. pi_session i = se_id s \<and> pos \<le> pi_position i) (cu_items db) = drop pos ?xs" .
  have "sorted (map pi_position (drop pos ?xs))" unfolding drop_map [symmetric] pos by simp
  then have "sorted_wrt (key_le pi_position) (drop pos ?xs)"
    by (simp add: sorted_map key_le_def [abs_def])
  then show ?thesis
    unfolding page_rows_def f by (simp add: sort_by_sorted_id snapshot_def take_map drop_map)
qed

lemma snapshot_length:
  "sessions_filled db \<Longrightarrow> s \<in> set (cu_sessions db) \<Longrightarrow> length (snapshot (se_id s) db) = se_item_count s"
  by (metis sessions_filled_def snapshot_def length_map length_upt diff_zero)

lemma find_frame_Some:
  assumes "find_frame token db = Some (s, pos)" and "cursor_keys db"
  shows "s \<in> set (cu_sessions db) \<and> pos \<le> se_item_count s"
proof -
  from assms(1) obtain c where f: "find (\<lambda>c. pc_token c = token) (cu_cursors db) = Some c"
    "find (\<lambda>s. se_id s = pc_session c) (cu_sessions db) = Some s" and pos: "pc_position c = pos"
    by (auto simp: find_frame_def split: option.splits)
  with find_some_mem have c: "c \<in> set (cu_cursors db)" "pc_position c = pos"
    "s \<in> set (cu_sessions db)" "se_id s = pc_session c" by (auto dest: find_some_mem)
  from c assms(2) obtain s' where s': "s' \<in> set (cu_sessions db)" "se_id s' = se_id s"
    "pos \<le> se_item_count s'" by (auto simp: cursor_keys_def)
  have "inj_on se_id (set (cu_sessions db))"
    using assms(2) by (simp add: cursor_keys_def distinct_map)
  then have "s' = s" by (rule inj_onD) (use c s' in simp_all)
  with s' c show ?thesis by simp
qed

section \<open>What a capture selects\<close>

text \<open>In a history with growing revisions the latest transition is the last one in the list.\<close>

lemma is_latest_iff:
  assumes "sorted_wrt (<) (map tr_revision ts)"
  shows "t \<in> set ts \<and> is_latest ts t \<longleftrightarrow> find (\<lambda>u. tr_incident u = tr_incident t) (rev ts) = Some t"
  using assms
proof (induction ts rule: rev_induct)
  case Nil
  then show ?case by simp
next
  case (snoc u ts)
  then have IH: "t \<in> set ts \<and> is_latest ts t
      \<longleftrightarrow> find (\<lambda>u. tr_incident u = tr_incident t) (rev ts) = Some t"
    and less: "\<And>v. v \<in> set ts \<Longrightarrow> tr_revision v < tr_revision u"
    by (auto simp: sorted_wrt_append)
  show ?case
  proof (cases "tr_incident u = tr_incident t")
    case True
    then show ?thesis using less by (force simp: is_latest_def list_all_iff less_imp_le)
  next
    case False
    then show ?thesis using IH by (auto simp: is_latest_def list_all_iff)
  qed
qed

definition query_selects :: "cursor_query \<Rightarrow> incident \<Rightarrow> bool" where
  "query_selects q r \<longleftrightarrow>
     (given (cq_state q) \<longrightarrow> lifecycle_of (the (cq_state q)) = Some (lifecycle_state r))
     \<and> (given (cq_since q) \<longrightarrow> the (cq_since q) \<le> last_seen_at r)"

lemma capture_selects_None: "capture_selects q None t = query_selects q (tr_body t)"
  by (simp add: capture_selects_def query_selects_def)

lemma latest_Some_iff:
  assumes "history_current rows ts"
  shows "latest ts (incident_id r) = Some r \<longleftrightarrow> (\<exists>t \<in> set ts. is_latest ts t \<and> tr_body t = r)"
proof -
  have s: "sorted_wrt (<) (map tr_revision ts)"
    and body: "\<And>t. t \<in> set ts \<Longrightarrow> tr_incident t = incident_id (tr_body t)"
    using assms by (auto simp: history_current_def)
  show ?thesis
  proof
    assume "latest ts (incident_id r) = Some r"
    then obtain t where t: "find (\<lambda>u. tr_incident u = incident_id r) (rev ts) = Some t" "tr_body t = r"
      by (auto simp: latest_def)
    from find_some_mem [OF t(1)] have "tr_incident t = incident_id r" by simp
    with t is_latest_iff [OF s, of t] show "\<exists>t \<in> set ts. is_latest ts t \<and> tr_body t = r" by auto
  next
    assume "\<exists>t \<in> set ts. is_latest ts t \<and> tr_body t = r"
    then obtain t where "t \<in> set ts" "is_latest ts t" "tr_body t = r" by blast
    with is_latest_iff [OF s, of t] body [of t] show "latest ts (incident_id r) = Some r"
      by (simp add: latest_def)
  qed
qed

lemma captured_rows_set:
  assumes "history_current rows ts"
  shows "set (captured_rows q None ts) = {r. latest ts (incident_id r) = Some r \<and> query_selects q r}"
  unfolding latest_Some_iff [OF assms]
  by (auto simp: captured_rows_def capture_selects_None)

lemma body_priority: "total_preorder (\<lambda>t u. priority_le (tr_body t) (tr_body u))"
  using priority.total_preorder_axioms by (auto simp: total_preorder_def)

lemma captured_rows_sorted: "sorted_wrt priority_le (captured_rows q lo ts)"
  using total_preorder.sort_by_sorted [OF body_priority]
  by (simp add: captured_rows_def sorted_wrt_map)

lemma captured_rows_distinct:
  assumes "history_current rows ts"
  shows "distinct (map incident_id (captured_rows q lo ts))"
proof -
  let ?xs = "filter (\<lambda>t. is_latest ts t \<and> capture_selects q lo t) ts"
  have h: "sorted_wrt (<) (map tr_revision ts)"
    "\<And>t. t \<in> set ts \<Longrightarrow> tr_incident t = incident_id (tr_body t)"
    using assms by (auto simp: history_current_def)
  have "distinct ts" using h(1) by (auto simp: strict_sorted_iff distinct_map)
  moreover have "inj_on (\<lambda>t. incident_id (tr_body t)) (set ?xs)"
  proof (rule inj_onI)
    fix t u
    assume "t \<in> set ?xs" "u \<in> set ?xs" and eq: "incident_id (tr_body t) = incident_id (tr_body u)"
    then have m: "t \<in> set ts" "u \<in> set ts" "is_latest ts t" "is_latest ts u" by auto
    with h(2) eq have i: "tr_incident t = tr_incident u" by simp
    show "t = u" using m i is_latest_iff [OF h(1), of t] is_latest_iff [OF h(1), of u] by simp
  qed
  ultimately show ?thesis
    by (simp add: captured_rows_def comp_def distinct_map)
qed

section \<open>Reading pages\<close>

lemma check_frame_Inr:
  assumes "check_frame dg token i policy now db = Inr (s, pos)"
  shows "find_frame token db = Some (s, pos)" and "se_principal s = id_principal i"
    and "se_tenant s = id_tenant i" and "se_fingerprint s = dg (identity_json i)"
    and "se_policy_ref s = policy" and "iso_z now < se_expires_at s"
  using assms by (auto simp: check_frame_def not_le split: option.splits if_splits)

text \<open>A page leaves the tables as they are or adds the cursor of the next position.\<close>

lemma next_cursor_cases:
  assumes "next_cursor fresh sid pos db = (r, db')"
  obtains (held) c where "c \<in> set (cu_cursors db)" "pc_session c = sid" "pc_position c = pos"
      "r = Inr (pc_token c)" "db' = db"
  | (clash) e where "fresh \<in> pc_token ` set (cu_cursors db)" "r = Inl e" "db' = db"
  | (added) "fresh \<notin> pc_token ` set (cu_cursors db)" "r = Inr fresh"
      "\<forall>c \<in> set (cu_cursors db). \<not> (pc_session c = sid \<and> pc_position c = pos)"
      "db' = db\<lparr>cu_cursors := cu_cursors db @ [\<lparr>pc_token = fresh, pc_session = sid, pc_position = pos\<rparr>]\<rparr>"
proof (cases "find (\<lambda>c. pc_session c = sid \<and> pc_position c = pos) (cu_cursors db)")
  case None
  note free = None [unfolded find_none_iff]
  show thesis
  proof (cases "fresh \<in> pc_token ` set (cu_cursors db)")
    case True
    with assms None show ?thesis by (intro clash) (auto simp: next_cursor_def)
  next
    case False
    with assms None free show ?thesis by (intro added) (auto simp: next_cursor_def)
  qed
next
  case (Some c)
  then show thesis
    using assms find_some_mem [OF Some] by (intro held [of c]) (auto simp: next_cursor_def)
qed

lemma next_cursor_wf:
  assumes "wf_cursor_db db" and "next_cursor fresh (se_id s) pos db = (r, db')"
    and "s \<in> set (cu_sessions db)" and "pos \<le> se_item_count s"
  shows "wf_cursor_db db'"
  using assms(2)
proof (cases rule: next_cursor_cases)
  case added
  have same: "session_items k db' = session_items k db" for k by (simp add: added(4) session_items_def)
  have "cursor_keys db'"
    using assms(1,3,4) added(1,3) unfolding wf_cursor_db_def cursor_keys_def added(4) by auto
  moreover have "sessions_filled db'"
    using assms(1) by (simp add: wf_cursor_db_def sessions_filled_def same) (simp add: added(4))
  ultimately show ?thesis using assms(1) by (simp add: wf_cursor_db_def added(4))
qed (use assms(1) in auto)

definition same_sessions :: "'z cursor_db_scheme \<Rightarrow> 'y cursor_db_scheme \<Rightarrow> bool" where
  "same_sessions db db' \<longleftrightarrow> cu_sessions db = cu_sessions db' \<and> cu_items db = cu_items db'"

lemma next_cursor_same: "next_cursor fresh sid pos db = (r, db') \<Longrightarrow> same_sessions db db'"
  by (erule next_cursor_cases) (auto simp: same_sessions_def)

lemma page_cases:
  assumes "page dg bytes fresh token i policy authorize now db = (r, db')"
  obtains (unchanged) e where "r = Inl e" "db' = db"
  | (read) s pos visible where "check_frame dg token i policy now db = Inr (s, pos)"
      "filterE authorize (page_rows s pos db) = Inr visible"
      "pos + length (page_rows s pos db) < se_item_count s \<longrightarrow>
         (\<exists>t. next_cursor fresh (se_id s) (pos + length (page_rows s pos db)) db = (t, db'))"
      "se_item_count s \<le> pos + length (page_rows s pos db) \<longrightarrow> db' = db"
      "\<And>res. r = Inr res \<Longrightarrow> pr_items res = visible \<and> pr_snapshotRef res = se_id s
         \<and> pr_truncated res = (pos + length (page_rows s pos db) < se_item_count s)
         \<and> pr_redacted res = (length visible \<noteq> length (page_rows s pos db))
         \<and> pr_partial res = (pr_redacted res \<or> se_history_gap s)
         \<and> (case pr_nextCursor res of None \<Rightarrow> \<not> pr_truncated res
             | Some t \<Rightarrow> pr_truncated res
                 \<and> next_cursor fresh (se_id s) (pos + length (page_rows s pos db)) db = (Inr t, db'))"
proof (cases "check_frame dg token i policy now db")
  case (Inl e)
  with assms show thesis by (intro unchanged [of e]) (auto simp: page_def)
next
  case (Inr x)
  then obtain s pos where f: "check_frame dg token i policy now db = Inr (s, pos)" by (cases x) auto
  show thesis
  proof (cases "filterE authorize (page_rows s pos db)")
    case (Inl e)
    with f assms show thesis by (intro unchanged [of e]) (auto simp: page_def Let_def)
  next
    case (Inr visible)
    show thesis
      by (rule read [OF f Inr]) (insert assms, auto simp: page_def f Inr Let_def
          split: if_splits prod.splits sum.splits)
  qed
qed

lemma page_bound:
  assumes "wf_cursor_db db" and "check_frame dg token i policy now db = Inr (s, pos)"
  shows "s \<in> set (cu_sessions db)" and "pos \<le> se_item_count s"
    and "page_rows s pos db = take (nat (se_page_limit s)) (drop pos (snapshot (se_id s) db))"
    and "length (snapshot (se_id s) db) = se_item_count s" and "0 < nat (se_page_limit s)"
    and "pos + length (page_rows s pos db) \<le> se_item_count s"
proof -
  have w: "cursor_keys db" "sessions_filled db" using assms(1) by (simp_all add: wf_cursor_db_def)
  show m: "s \<in> set (cu_sessions db)" and p: "pos \<le> se_item_count s"
    using find_frame_Some [OF check_frame_Inr(1) [OF assms(2)] w(1)] by simp_all
  show rows: "page_rows s pos db = take (nat (se_page_limit s)) (drop pos (snapshot (se_id s) db))"
    by (rule page_rows_snapshot [OF w(2) m])
  show len: "length (snapshot (se_id s) db) = se_item_count s" by (rule snapshot_length [OF w(2) m])
  show "0 < nat (se_page_limit s)" using w(2) m by (auto simp: sessions_filled_def)
  show "pos + length (page_rows s pos db) \<le> se_item_count s" using p by (simp add: rows len)
qed

lemma page_wf:
  assumes "wf_cursor_db db" and run: "page dg bytes fresh token i policy authorize now db = (r, db')"
  shows "wf_cursor_db db'"
  using run
proof (cases rule: page_cases)
  case (unchanged e)
  with assms(1) show ?thesis by simp
next
  case (read s pos visible)
  note b = page_bound [OF assms(1) read(1)]
  show ?thesis
  proof (cases "pos + length (page_rows s pos db) < se_item_count s")
    case True
    with read(3) next_cursor_wf [OF assms(1) _ b(1) b(6)] show ?thesis by blast
  next
    case False
    with read(4) assms(1) show ?thesis by simp
  qed
qed

end
