(* ===== verification/Bookmarks.thy ===== *)
theory Bookmarks
  imports Cursor
begin

text \<open>
  Publication bookmarks, \<open>tools/operational_bookmarks.py\<close>: a reader who has seen every page of a
  snapshot without redaction is issued a bookmark for the snapshot's watermark, and resuming from
  it captures what changed since. \<open>filters\<close> is the only optional filter, the state. The digest,
  \<open>uuid.UUID\<close>, the rendered byte lengths, the owner's authorization callbacks, the fresh tokens and
  the clock readings are parameters.
\<close>

section \<open>Tables\<close>

record bookmark =
  bk_token :: string
  bk_session :: string
  bk_principal :: string
  bk_tenant :: string
  bk_identity :: string
  bk_policy :: string
  bk_state :: "string option"
  bk_watermark :: nat
  bk_parent :: "string option"
  bk_created_at :: string
  bk_expires_at :: string

record bookmark_db = cursor_db +
  bookmarks :: "bookmark list"
  history_floor :: nat

section \<open>Identity, digests and the query\<close>

definition session_json :: "cursor_session \<Rightarrow> json" where
  "session_json s = JObj [(''session_id'', JStr (se_id s)), (''principal'', JStr (se_principal s)),
     (''tenant'', JStr (se_tenant s)), (''fingerprint'', JStr (se_fingerprint s)),
     (''policy_ref'', JStr (se_policy_ref s)), (''page_limit'', JInt (se_page_limit s)),
     (''created_at'', JStr (se_created_at s)), (''expires_at'', JStr (se_expires_at s)),
     (''history_gap'', JInt (if se_history_gap s then 1 else 0)), (''watermark'', jnat (se_watermark s)),
     (''item_count'', jnat (se_item_count s))]"

definition frame_digest :: "(json \<Rightarrow> string) \<Rightarrow> cursor_session \<Rightarrow> string" where
  "frame_digest dg s = dg (session_json s)"

definition claim :: "identity \<Rightarrow> string \<Rightarrow> json" where
  "claim i k = (case map_of (id_claims i) k of None \<Rightarrow> JNull | Some v \<Rightarrow> v)"

definition bm_identity :: "(json \<Rightarrow> string) \<Rightarrow> identity \<Rightarrow> string" where
  "bm_identity dg i = dg (JObj [(''principal'', JStr (id_principal i)), (''tenant'', JStr (id_tenant i)),
     (''actor'', claim i ''actor''), (''servicePrincipal'', claim i ''servicePrincipal''),
     (''issuer'', claim i ''issuer''), (''audience'', claim i ''audience'')])"

definition bm_authorize ::
  "(identity \<Rightarrow> string \<Rightarrow> bool res) option \<Rightarrow> identity \<Rightarrow> string \<Rightarrow> unit res" where
  "bm_authorize collection i policy =
     (if \<not> (1 \<le> length (id_principal i) \<and> length (id_principal i) \<le> 200)
         \<or> \<not> (1 \<le> length (id_tenant i) \<and> length (id_tenant i) \<le> 200)
         \<or> claim i ''actor'' \<notin> {JStr ''HUMAN'', JStr ''SERVICE'', JStr ''AI_AGENT''}
         \<or> \<not> (1 \<le> length policy \<and> length policy \<le> 1024)
      then Inl (CursorRejected 403 ''BOOKMARK_IDENTITY_UNPROVEN'')
      else (case collection of
          None \<Rightarrow> Inl (CursorRejected 503 ''BOOKMARK_OWNER_AUTHORIZATION_UNAVAILABLE'')
        | Some f \<Rightarrow> bindE (f i policy)
            (\<lambda>ok. require ok (CursorRejected 403 ''BOOKMARK_OWNER_AUTHORIZATION_DENIED''))))"

text \<open>\<open>_query\<close>: the filters are the query without its limit; a bool is not an int here.\<close>

definition query_limit :: "(string, json) dict \<Rightarrow> json" where
  "query_limit q = (case map_of q ''limit'' of None \<Rightarrow> JInt 50 | Some v \<Rightarrow> v)"

definition bm_query :: "(string, json) dict \<Rightarrow> (int \<times> string option) res" where
  "bm_query q =
     (if \<not> set (dict_keys q) \<subseteq> {''state'', ''limit''} then Inl (CursorRejected 400 ''BOOKMARK_QUERY_INVALID'')
      else (case query_limit q of
          JInt n \<Rightarrow>
            if \<not> (1 \<le> n \<and> n \<le> 100) then Inl (CursorRejected 400 ''BOOKMARK_QUERY_INVALID'')
            else (case map_of q ''state'' of
                None \<Rightarrow> Inr (n, None)
              | Some (JStr s) \<Rightarrow>
                  if s \<in> {''OPEN'', ''RECOVERING'', ''RESOLVED''} then Inr (n, Some s)
                  else Inl (CursorRejected 400 ''BOOKMARK_QUERY_INVALID'')
              | _ \<Rightarrow> Inl (CursorRejected 400 ''BOOKMARK_QUERY_INVALID''))
        | _ \<Rightarrow> Inl (CursorRejected 400 ''BOOKMARK_QUERY_INVALID'')))"

section \<open>Scopes and pages\<close>

definition bm_scope ::
  "(json \<Rightarrow> string) \<Rightarrow> string \<Rightarrow> string option \<Rightarrow> string option \<Rightarrow> nat option
     \<Rightarrow> ('z bookmark_db_scheme, unit) io" where
  "bm_scope dg token state parent parent_watermark = (\<lambda>db.
     case find_frame token db of
       None \<Rightarrow> (Inl (TypeError ''not subscriptable''), db)
     | Some (s, _) \<Rightarrow>
         if se_id s \<in> bs_session ` set (cu_scopes db)
         then (Inl (IntegrityError ''gateway_bookmark_scope''), db)
         else (Inr (), db\<lparr>cu_scopes := cu_scopes db @ [\<lparr>bs_session = se_id s, bs_state = state,
           bs_parent = parent, bs_frame_digest = frame_digest dg s,
           bs_parent_watermark = parent_watermark\<rparr>]\<rparr>))"

text \<open>A page's frame with its scope: the join of cursor, session and scope.\<close>

definition find_scoped ::
  "string \<Rightarrow> 'z bookmark_db_scheme \<Rightarrow> (cursor_session \<times> nat \<times> bookmark_scope) option" where
  "find_scoped token db =
     (case find_frame token db of
        None \<Rightarrow> None
      | Some (s, pos) \<Rightarrow> (case find (\<lambda>b. bs_session b = se_id s) (cu_scopes db) of
            None \<Rightarrow> None | Some b \<Rightarrow> Some (s, pos, b)))"

text \<open>\<open>insert ... on conflict(session_id,position) do update\<close>\<close>

definition same_page :: "bookmark_page \<Rightarrow> bookmark_page \<Rightarrow> bool" where
  "same_page p q \<longleftrightarrow> bp_session p = bp_session q \<and> bp_position p = bp_position q"

definition put_page :: "bookmark_page \<Rightarrow> bookmark_page list \<Rightarrow> bookmark_page list" where
  "put_page p ps =
     (if list_ex (same_page p) ps then map (\<lambda>q. if same_page p q then p else q) ps else ps @ [p])"

definition pages_complete :: "string \<Rightarrow> bookmark_page list \<Rightarrow> nat" where
  "pages_complete sid ps = length (filter (\<lambda>p. bp_session p = sid \<and> bp_complete p) ps)"

text \<open>\<open>max(1, math.ceil(item_count / page_limit))\<close>\<close>

definition pages_expected :: "cursor_session \<Rightarrow> nat" where
  "pages_expected s =
     max 1 ((se_item_count s + nat (se_page_limit s) - 1) div nat (se_page_limit s))"

section \<open>Issuing\<close>

definition equivalent_bookmark ::
  "(json \<Rightarrow> string) \<Rightarrow> identity \<Rightarrow> string \<Rightarrow> cursor_session \<Rightarrow> bookmark_scope \<Rightarrow> string \<Rightarrow> bookmark \<Rightarrow> bool" where
  "equivalent_bookmark dg i policy s b now k \<longleftrightarrow>
     bk_principal k = id_principal i \<and> bk_tenant k = id_tenant i \<and> bk_identity k = bm_identity dg i
     \<and> bk_policy k = policy \<and> bk_state k = bs_state b \<and> bk_watermark k = se_watermark s
     \<and> now < bk_expires_at k
     \<and> (bs_parent b = None \<and> bk_parent k = None \<or> bs_parent b = Some (bk_token k))"

definition first_equivalent ::
  "(json \<Rightarrow> string) \<Rightarrow> identity \<Rightarrow> string \<Rightarrow> cursor_session \<Rightarrow> bookmark_scope \<Rightarrow> string
     \<Rightarrow> bookmark list \<Rightarrow> bookmark option" where
  "first_equivalent dg i policy s b now ks =
     (case sort_by (lex_le (key_le bk_created_at) (key_le bk_token))
        (filter (equivalent_bookmark dg i policy s b now) ks) of [] \<Rightarrow> None | k # _ \<Rightarrow> Some k)"

text \<open>One expired bookmark is deleted, unless the retention trigger still finds it live.\<close>

definition drop_bookmark :: "string \<Rightarrow> string \<Rightarrow> bookmark list \<Rightarrow> bookmark list res" where
  "drop_bookmark now later ks =
     (case sort_by (key_le bk_expires_at) (filter (\<lambda>k. bk_expires_at k \<le> now) ks) of
        [] \<Rightarrow> Inr ks
      | k # _ \<Rightarrow>
          if later < bk_expires_at k then Inl (IntegrityError ''LIVE_PUBLICATION_BOOKMARK'')
          else Inr (filter (\<lambda>q. bk_token q \<noteq> bk_token k) ks))"

definition bookmark_capacity :: "identity \<Rightarrow> bookmark list \<Rightarrow> bool" where
  "bookmark_capacity i ks \<longleftrightarrow> length ks < 32768
     \<and> length (filter (\<lambda>k. bk_tenant k = id_tenant i) ks) < 4096
     \<and> length (filter (\<lambda>k. bk_tenant k = id_tenant i \<and> bk_principal k = id_principal i) ks) < 512"

definition bm_issue_body ::
  "(json \<Rightarrow> string) \<Rightarrow> string \<Rightarrow> nat \<Rightarrow> nat \<Rightarrow> nat \<Rightarrow> cursor_session \<Rightarrow> bookmark_scope \<Rightarrow> identity \<Rightarrow> string
     \<Rightarrow> 'z bookmark_db_scheme \<Rightarrow> (string \<times> 'z bookmark_db_scheme) res" where
  "bm_issue_body dg token now expiry trigger s b i policy db =
     (case find (\<lambda>x. se_id x = se_id s) (cu_sessions db) of
        None \<Rightarrow> Inl (CursorRejected 409 ''BOOKMARK_CAPTURE_CHANGED'')
      | Some current \<Rightarrow>
          if frame_digest dg current \<noteq> bs_frame_digest b
          then Inl (CursorRejected 409 ''BOOKMARK_CAPTURE_CHANGED'')
          else if pages_complete (se_id s) (cu_pages db) \<noteq> pages_expected s
          then Inl (CursorRejected 409 ''BOOKMARK_COVERAGE_INCOMPLETE'')
          else if se_expires_at s \<le> iso_z now
          then Inl (CursorRejected 410 ''BOOKMARK_SNAPSHOT_EXPIRED'')
          else (case find (\<lambda>k. bk_session k = se_id s) (bookmarks db) of
              Some k \<Rightarrow> Inr (bk_token k, db)
            | None \<Rightarrow> (case first_equivalent dg i policy s b (iso_z now) (bookmarks db) of
                Some k \<Rightarrow> Inr (bk_token k, db)
              | None \<Rightarrow>
                  bindE (drop_bookmark (iso_z now) (iso_z trigger) (bookmarks db)) (\<lambda>ks.
                  if \<not> bookmark_capacity i ks
                  then Inl (CursorRejected 503 ''BOOKMARK_CAPACITY_UNAVAILABLE'')
                  else if token \<in> bk_token ` set ks
                  then Inl (IntegrityError ''gateway_publication_bookmark'')
                  else Inr (token, db\<lparr>bookmarks := ks @ [\<lparr>bk_token = token, bk_session = se_id s,
                    bk_principal = id_principal i, bk_tenant = id_tenant i,
                    bk_identity = bm_identity dg i, bk_policy = policy, bk_state = bs_state b,
                    bk_watermark = se_watermark s, bk_parent = bs_parent b,
                    bk_created_at = iso_z now, bk_expires_at = iso_z (expiry + days 90)\<rparr>]\<rparr>)))))"

definition bm_issue ::
  "(json \<Rightarrow> string) \<Rightarrow> string \<Rightarrow> nat \<Rightarrow> nat \<Rightarrow> nat \<Rightarrow> cursor_session \<Rightarrow> bookmark_scope \<Rightarrow> identity \<Rightarrow> string
     \<Rightarrow> ('z bookmark_db_scheme, string) io" where
  "bm_issue dg token now expiry trigger s b i policy =
     transaction (bm_issue_body dg token now expiry trigger s b i policy)"

section \<open>Reading a page\<close>

text \<open>\<open>publicationBookmark\<close>, \<open>parentBookmark\<close> and \<open>noPublicationProgress\<close> come together.\<close>

record bookmark_result =
  br_page :: page_result
  br_issued :: "(string \<times> string option \<times> bool) option"

definition row_visible :: "(incident \<Rightarrow> json res) \<Rightarrow> incident \<Rightarrow> bool res" where
  "row_visible authorize r = bindE (authorize r)
     (\<lambda>d. case d of JBool b \<Rightarrow> Inr b
        | _ \<Rightarrow> Inl (CursorRejected 503 ''BOOKMARK_ROW_AUTHORIZATION_UNPROVEN''))"

text \<open>
  The environment of a request: the owner's authorization, the digest, the UUID parser, the two
  rendered byte lengths, the fresh tokens and the clock readings in the order of the calls.
\<close>

record bookmark_env =
  be_collection :: "(identity \<Rightarrow> string \<Rightarrow> bool res) option"
  be_row :: "(incident \<Rightarrow> json res) option"
  be_digest :: "json \<Rightarrow> string"
  be_uuid :: "string \<Rightarrow> string option"
  be_page_bytes :: "page_result \<Rightarrow> nat"
  be_bytes :: "bookmark_result \<Rightarrow> nat"
  be_ids :: "nat \<Rightarrow> string"
  be_clock :: "nat \<Rightarrow> nat"

definition later_env :: "nat \<Rightarrow> nat \<Rightarrow> bookmark_env \<Rightarrow> bookmark_env" where
  "later_env m n e = e\<lparr>be_ids := (\<lambda>k. be_ids e (m + k)), be_clock := (\<lambda>k. be_clock e (n + k))\<rparr>"

definition record_page :: "cursor_session \<Rightarrow> nat \<Rightarrow> page_result \<Rightarrow> ('z bookmark_db_scheme, unit) io" where
  "record_page s pos res = (\<lambda>db. (Inr (), db\<lparr>cu_pages := put_page \<lparr>bp_session = se_id s,
     bp_position = pos, bp_digest = pr_itemsDigest res, bp_complete = (\<not> pr_partial res)\<rparr> (cu_pages db)\<rparr>))"

definition bm_page ::
  "bookmark_env \<Rightarrow> string \<Rightarrow> identity \<Rightarrow> string \<Rightarrow> ('z bookmark_db_scheme, bookmark_result) io" where
  "bm_page e token i policy =
     bindS (liftS (bm_authorize (be_collection e) i policy)) (\<lambda>_.
     case be_row e of
       None \<Rightarrow> raiseS (CursorRejected 503 ''BOOKMARK_ROW_AUTHORIZATION_UNAVAILABLE'')
     | Some authorize \<Rightarrow>
         bindS (cursor_page (be_digest e) (be_uuid e) (be_page_bytes e) (be_ids e) (be_clock e)
             (Some token) True \<lparr>cq_limit = 50, cq_state = None, cq_since = None\<rparr> i policy
             (row_visible authorize)) (\<lambda>res.
         (\<lambda>db. case find_scoped token db of
            None \<Rightarrow> (Inl (CursorRejected 404 ''BOOKMARK_SCOPE_NOT_FOUND''), db)
          | Some (s, pos, b) \<Rightarrow>
              if bs_frame_digest b \<noteq> frame_digest (be_digest e) s
              then (Inl (CursorRejected 409 ''BOOKMARK_CAPTURE_CHANGED''), db)
              else bindS (record_page s pos res) (\<lambda>_ db'.
                bindS
                  (if \<not> pr_truncated res \<and> \<not> pr_partial res
                      \<and> pages_complete (se_id s) (cu_pages db') = pages_expected s
                   then bindS (bm_issue (be_digest e) (be_ids e 1) (be_clock e 1) (be_clock e 2)
                       (be_clock e 3) s b i policy)
                     (\<lambda>t. returnS (Some (t, bs_parent b, bs_parent_watermark b = Some (se_watermark s))))
                   else returnS None) (\<lambda>issued.
                let out = \<lparr>br_page = res, br_issued = issued\<rparr> in
                if 524288 < be_bytes e out
                then raiseS (CursorRejected 503 ''OPERATIONAL_RESPONSE_CAPACITY'')
                else returnS out) db') db)))"

section \<open>Starting and resuming\<close>

definition bm_start ::
  "bookmark_env \<Rightarrow> (string, json) dict \<Rightarrow> identity \<Rightarrow> string \<Rightarrow> ('z bookmark_db_scheme, bookmark_result) io" where
  "bm_start e q i policy =
     bindS (liftS (bm_authorize (be_collection e) i policy)) (\<lambda>_.
     bindS (liftS (bm_query q)) (\<lambda>(n, state).
     bindS (capture (be_digest e) (be_ids e 0) (be_ids e 1) (be_clock e 0) (be_clock e 1)
         \<lparr>cq_limit = n, cq_state = state, cq_since = None\<rparr> i policy None) (\<lambda>token.
     bindS (bm_scope (be_digest e) token state None None) (\<lambda>_.
     bm_page (later_env 2 2 e) token i policy))))"

definition nil_uuid :: string where
  "nil_uuid = ''00000000-0000-0000-0000-000000000000''"

definition bm_resume ::
  "bookmark_env \<Rightarrow> string \<Rightarrow> json \<Rightarrow> identity \<Rightarrow> string \<Rightarrow> ('z bookmark_db_scheme, bookmark_result) io" where
  "bm_resume e bm limit i policy =
     bindS (liftS (bm_authorize (be_collection e) i policy)) (\<lambda>_.
     bindS (liftS (bm_query [(''limit'', limit)])) (\<lambda>(n, _).
     if be_uuid e bm \<noteq> Some bm \<or> bm = nil_uuid then raiseS (CursorRejected 400 ''BOOKMARK_INVALID'')
     else (\<lambda>db. case find (\<lambda>k. bk_token k = bm) (bookmarks db) of
         None \<Rightarrow> (Inl (CursorRejected 404 ''BOOKMARK_NOT_FOUND''), db)
       | Some k \<Rightarrow>
           if bk_identity k \<noteq> bm_identity (be_digest e) i
           then (Inl (CursorRejected 404 ''BOOKMARK_NOT_FOUND''), db)
           else if bk_policy k \<noteq> policy then (Inl (CursorRejected 409 ''BOOKMARK_POLICY_CHANGED''), db)
           else if bk_expires_at k \<le> iso_z (be_clock e 0) \<or> bk_watermark k < history_floor db
           then (Inl (CursorRejected 410 ''BOOKMARK_HISTORY_GAP''), db)
           else bindS (capture (be_digest e) (be_ids e 0) (be_ids e 1) (be_clock e 1) (be_clock e 2)
                 \<lparr>cq_limit = n, cq_state = bk_state k, cq_since = None\<rparr> i policy
                 (Some (bk_watermark k))) (\<lambda>token.
               bindS (bm_scope (be_digest e) token (bk_state k) (Some bm) (Some (bk_watermark k))) (\<lambda>_.
               bm_page (later_env 2 3 e) token i policy)) db)))"

end
