(* ===== verification/Cursor_Safety.thy ===== *)
theory Cursor_Safety
  imports Cursor
begin

text \<open>
  What the owner cursor guarantees: the tables stay well-formed and within their capacities, a
  capture stores the complete selection in priority order, a page shows only authorized items of
  a live session of its own identity, and following the cursors reads the whole snapshot.
\<close>

section \<open>Frames\<close>

lemma find_unique: "distinct (map f xs) \<Longrightarrow> x \<in> set xs \<Longrightarrow> find (\<lambda>y. f y = f x) xs = Some x"
  by (induction xs) auto

lemma find_frame_cursor:
  assumes "cursor_keys db" and "c \<in> set (cu_cursors db)" and "s \<in> set (cu_sessions db)"
    and "se_id s = pc_session c"
  shows "find_frame (pc_token c) db = Some (s, pc_position c)"
proof -
  have "find (\<lambda>x. pc_token x = pc_token c) (cu_cursors db) = Some c"
    using assms by (intro find_unique) (simp_all add: cursor_keys_def)
  moreover have "find (\<lambda>x. se_id x = se_id s) (cu_sessions db) = Some s"
    using assms by (intro find_unique) (simp_all add: cursor_keys_def)
  ultimately show ?thesis using assms(4) by (simp add: find_frame_def)
qed

text \<open>A cursor that \<open>next_cursor\<close> returns leads to the same session at the next position.\<close>

lemma next_cursor_frame:
  assumes "wf_cursor_db db" and "next_cursor fresh (se_id s) pos db = (Inr t, db')"
    and "s \<in> set (cu_sessions db)" and "pos \<le> se_item_count s"
  shows "find_frame t db' = Some (s, pos)"
proof -
  have k: "cursor_keys db'" using next_cursor_wf [OF assms(1,2,3,4)] by (simp add: wf_cursor_db_def)
  have "\<exists>c \<in> set (cu_cursors db'). pc_token c = t \<and> pc_position c = pos \<and> pc_session c = se_id s"
    using assms(2) by (cases rule: next_cursor_cases) auto
  then obtain c where "c \<in> set (cu_cursors db')" "pc_token c = t" "pc_position c = pos"
    "pc_session c = se_id s" by blast
  moreover have "s \<in> set (cu_sessions db')"
    using next_cursor_same [OF assms(2)] assms(3) by (simp add: same_sessions_def)
  ultimately show ?thesis using find_frame_cursor [OF k] by fastforce
qed

lemma next_cursor_tokens:
  assumes "next_cursor fresh sid pos db = (r, db')"
  shows "pc_token ` set (cu_cursors db') \<subseteq> insert fresh (pc_token ` set (cu_cursors db))"
  using assms by (cases rule: next_cursor_cases) auto

lemma check_frame_intro:
  assumes "find_frame t db' = Some (s, pos')" and "check_frame dg token i policy now db = Inr (s, pos)"
    and "iso_z later < se_expires_at s"
  shows "check_frame dg t i policy later db' = Inr (s, pos')"
  using assms(1,3) check_frame_Inr [OF assms(2)] by (simp add: check_frame_def not_le)

lemma same_snapshot: "same_sessions db db' \<Longrightarrow> snapshot k db' = snapshot k db"
  by (simp add: same_sessions_def snapshot_def session_items_def)

lemma filterE_total: "(\<And>x. authorize x = Inr (a x)) \<Longrightarrow> filterE authorize xs = Inr (filter a xs)"
  by (induction xs) auto

section \<open>Reading to the end\<close>

text \<open>
  The owner's reader: pages from a cursor until there is no next one. The fuel bounds the
  number of pages; \<open>ids\<close> and \<open>clk\<close> give the fresh token and the clock of each page.
\<close>

fun read_pages ::
  "(json \<Rightarrow> string) \<Rightarrow> (page_result \<Rightarrow> nat) \<Rightarrow> (nat \<Rightarrow> string) \<Rightarrow> (nat \<Rightarrow> nat) \<Rightarrow> identity \<Rightarrow> string
     \<Rightarrow> (incident \<Rightarrow> bool res) \<Rightarrow> nat \<Rightarrow> string \<Rightarrow> ('z cursor_db_scheme, incident list) io" where
  "read_pages dg bytes ids clk i policy authorize 0 token = raiseS (RuntimeError ''fuel'')"
| "read_pages dg bytes ids clk i policy authorize (Suc n) token =
     bindS (page dg bytes (ids n) token i policy authorize (clk n))
       (\<lambda>res. case pr_nextCursor res of
           None \<Rightarrow> returnS (pr_items res)
         | Some t \<Rightarrow> bindS (read_pages dg bytes ids clk i policy authorize n t)
             (\<lambda>rest. returnS (pr_items res @ rest)))"

lemma page_total:
  assumes "wf_cursor_db db" and frame: "check_frame dg token i policy now db = Inr (s, pos)"
    and auth: "\<And>x. authorize x = Inr (a x)"
    and fresh: "fresh \<notin> pc_token ` set (cu_cursors db)"
  shows "\<exists>res db'. page dg bytes fresh token i policy authorize now db
       = (if bytes res \<le> 524288 then Inr res else Inl (CursorRejected 503 ''OPERATIONAL_RESPONSE_CAPACITY''), db')
     \<and> pr_items res = filter a (page_rows s pos db) \<and> pr_snapshotRef res = se_id s
     \<and> (case pr_nextCursor res of
          None \<Rightarrow> se_item_count s \<le> pos + length (page_rows s pos db) \<and> db' = db
        | Some t \<Rightarrow> pos + length (page_rows s pos db) < se_item_count s
            \<and> next_cursor fresh (se_id s) (pos + length (page_rows s pos db)) db = (Inr t, db'))"
proof -
  let ?n = "pos + length (page_rows s pos db)"
  obtain t db' where n: "next_cursor fresh (se_id s) ?n db = (Inr t, db')"
    using fresh by (cases "next_cursor fresh (se_id s) ?n db")
      (auto simp: next_cursor_def split: option.splits if_splits)
  define visible where "visible = filter a (page_rows s pos db)"
  define res where "res next = \<lparr>pr_items = visible,
      pr_partial = (length visible \<noteq> length (page_rows s pos db) \<or> se_history_gap s),
      pr_truncated = (?n < se_item_count s), pr_cursor = token, pr_snapshotRef = se_id s,
      pr_snapshotAt = se_created_at s, pr_expiresAt = se_expires_at s,
      pr_itemsDigest = dg (JList (map incident_json visible)), pr_historyGap = se_history_gap s,
      pr_redacted = (length visible \<noteq> length (page_rows s pos db)), pr_nextCursor = next\<rparr>" for "next"
  note page = page_def frame filterE_total [OF auth] visible_def [symmetric] res_def n not_le
  show ?thesis
  proof (cases "?n < se_item_count s")
    case True
    then show ?thesis by (intro exI [of _ "res (Some t)"] exI [of _ db']) (simp add: page Let_def)
  next
    case False
    then show ?thesis by (intro exI [of _ "res None"] exI [of _ db]) (simp add: page Let_def)
  qed
qed

text \<open>
  The outcome of a reading: the authorized items from the position on, or the refusal of a page that is
  too large, and then there is such a page.
\<close>

definition read_outcome ::
  "(page_result \<Rightarrow> nat) \<Rightarrow> (incident \<Rightarrow> bool) \<Rightarrow> cursor_session \<Rightarrow> nat \<Rightarrow> incident list
     \<Rightarrow> incident list res \<Rightarrow> bool" where
  "read_outcome bytes a s pos snap r \<longleftrightarrow> r = Inr (filter a (drop pos snap))
     \<or> r = Inl (CursorRejected 503 ''OPERATIONAL_RESPONSE_CAPACITY'')
       \<and> (\<exists>k x. pos \<le> k \<and> 524288 < bytes x \<and> pr_snapshotRef x = se_id s
            \<and> pr_items x = filter a (take (nat (se_page_limit s)) (drop k snap)))"

lemma read_outcome_step:
  assumes "read_outcome bytes a s (pos + d) snap r" and "drop pos snap = rows @ drop (pos + d) snap"
  shows "read_outcome bytes a s pos snap (map_sum id (\<lambda>rest. filter a rows @ rest) r)"
  using assms(1) [unfolded read_outcome_def]
proof (elim disjE conjE exE)
  assume "r = Inr (filter a (drop (pos + d) snap))"
  then show ?thesis by (simp add: assms(2) read_outcome_def)
next
  fix k x
  assume "r = Inl (CursorRejected 503 ''OPERATIONAL_RESPONSE_CAPACITY'')" "pos + d \<le> k" "524288 < bytes x" "pr_snapshotRef x = se_id s"
    "pr_items x = filter a (take (nat (se_page_limit s)) (drop k snap))"
  then show ?thesis unfolding read_outcome_def
    by (intro disjI2 conjI exI [of _ k] exI [of _ x]) simp_all
qed

lemma read_pages_covers:
  assumes "wf_cursor_db db" and "check_frame dg token i policy now db = Inr (s, pos)"
    and auth: "\<And>x. authorize x = Inr (a x)"
    and live: "\<And>k. iso_z (clk k) < se_expires_at s"
    and "inj_on ids {..<n}" and "\<forall>k<n. ids k \<notin> pc_token ` set (cu_cursors db)"
    and "se_item_count s - pos < n"
  shows "\<exists>r db'. read_pages dg bytes ids clk i policy authorize n token db = (r, db') \<and> wf_cursor_db db'
     \<and> read_outcome bytes a s pos (snapshot (se_id s) db) r"
  using assms(1,2,5-7)
proof (induction n arbitrary: db token pos now)
  case 0
  then show ?case by simp
next
  case (Suc n)
  let ?rows = "page_rows s pos db" and ?snap = "snapshot (se_id s) db"
  have frame: "check_frame dg token i policy (clk n) db = Inr (s, pos)"
    by (rule check_frame_intro [OF check_frame_Inr(1) [OF Suc.prems(2)] Suc.prems(2) live])
  note b = page_bound [OF Suc.prems(1) frame]
  from page_total [where bytes = bytes and authorize = authorize and fresh = "ids n",
      OF Suc.prems(1) frame auth] Suc.prems(4)
  obtain res db1 where p: "page dg bytes (ids n) token i policy authorize (clk n) db
      = (if bytes res \<le> 524288 then Inr res else Inl (CursorRejected 503 ''OPERATIONAL_RESPONSE_CAPACITY''), db1)"
    "pr_items res = filter a ?rows" "pr_snapshotRef res = se_id s"
    and nxt: "case pr_nextCursor res of
          None \<Rightarrow> se_item_count s \<le> pos + length ?rows \<and> db1 = db
        | Some t \<Rightarrow> pos + length ?rows < se_item_count s
            \<and> next_cursor (ids n) (se_id s) (pos + length ?rows) db = (Inr t, db1)"
    by auto
  have wf1: "wf_cursor_db db1"
  proof (cases "pr_nextCursor res")
    case (Some t)
    with nxt have "next_cursor (ids n) (se_id s) (pos + length ?rows) db = (Inr t, db1)" by simp
    then show ?thesis by (rule next_cursor_wf [OF Suc.prems(1) _ b(1,6)])
  qed (use nxt Suc.prems(1) in simp)
  consider (big) "\<not> bytes res \<le> 524288" | (last) "bytes res \<le> 524288" "pr_nextCursor res = None"
    | (more) t where "bytes res \<le> 524288" "pr_nextCursor res = Some t" by fastforce
  then show ?case
  proof cases
    case big
    have "read_outcome bytes a s pos ?snap (Inl (CursorRejected 503 ''OPERATIONAL_RESPONSE_CAPACITY''))"
      unfolding read_outcome_def using big p(2,3) b(3)
      by (intro disjI2 conjI refl exI [of _ pos] exI [of _ res]) simp_all
    then show ?thesis using big p(1) wf1 by (simp add: io_defs)
  next
    case last
    then have "?rows = drop pos ?snap" using nxt b(3,4) by (auto simp: min_def split: if_splits)
    then show ?thesis using last p wf1 by (simp add: io_defs read_outcome_def)
  next
    case (more t)
    with nxt have less: "pos + length ?rows < se_item_count s"
      and step: "next_cursor (ids n) (se_id s) (pos + length ?rows) db = (Inr t, db1)" by simp_all
    have full: "length ?rows = nat (se_page_limit s)" using less b(3,4) by simp
    have snap: "drop pos ?snap = ?rows @ drop (pos + length ?rows) ?snap"
      using b(3) full by (metis append_take_drop_id drop_drop add.commute)
    have frame1: "check_frame dg t i policy (clk n) db1 = Inr (s, pos + length ?rows)"
      by (rule check_frame_intro [OF next_cursor_frame [OF Suc.prems(1) step b(1,6)] frame live])
    have "\<forall>k<n. ids k \<notin> pc_token ` set (cu_cursors db1)"
    proof (intro allI impI)
      fix k assume "k < n"
      then have "ids k \<noteq> ids n" "ids k \<notin> pc_token ` set (cu_cursors db)"
        using Suc.prems(3,4) by (auto simp: inj_on_def)
      with next_cursor_tokens [OF step] show "ids k \<notin> pc_token ` set (cu_cursors db1)" by blast
    qed
    moreover have "inj_on ids {..<n}" using Suc.prems(3) by (auto simp: inj_on_def)
    moreover have "se_item_count s - (pos + length ?rows) < n"
      using Suc.prems(5) full b(5) less by simp
    ultimately obtain r db' where rest: "read_pages dg bytes ids clk i policy authorize n t db1 = (r, db')"
      "wf_cursor_db db'" "read_outcome bytes a s (pos + length ?rows) (snapshot (se_id s) db1) r"
      using Suc.IH [OF wf1 frame1] by blast
    have "read_outcome bytes a s pos ?snap (map_sum id (\<lambda>rest. filter a ?rows @ rest) r)"
      by (rule read_outcome_step [OF rest(3) [unfolded same_snapshot [OF next_cursor_same [OF step]]] snap])
    then show ?thesis using more p rest(1,2) by (cases r) (simp_all add: io_defs)
  qed
qed

section \<open>The guarantees\<close>

text \<open>
  Capturing a snapshot and reading a page, with a cursor or without, keep the tables
  well-formed: unique keys, every cursor and item belongs to a session, every session holds its
  items at the positions from 0 on, and the capacities hold (4096 sessions, 128 of a tenant, 16 of
  a principal; 200000 items, 64000 of a tenant, 20000 of a session).
\<close>

theorem cursor_ops_preserve_wf:
  assumes "wf_cursor_db db"
  shows "wf_cursor_db (snd (capture dg sid token now later q i policy lo db))
     \<and> wf_cursor_db (snd (page dg bytes fresh token i policy authorize now db))
     \<and> wf_cursor_db (snd (cursor_page dg uuid bytes ids clk cursor only q i policy authorize db))"
proof -
  have c: "wf_cursor_db (snd (capture dg sid token now later q i policy lo db))"
    for sid token now later lo
    using capture_wf [OF assms] by (metis prod.collapse)
  have p: "wf_cursor_db (snd (page dg bytes fresh token i policy authorize now d))"
    if "wf_cursor_db d" for d fresh token now
    using page_wf [OF that] by (metis prod.collapse)
  have "wf_cursor_db (snd (cursor_page dg uuid bytes ids clk cursor only q i policy authorize db))"
    using assms c [of "ids 0" "ids 1" "clk 0" "clk 1" None] p
    by (auto simp: cursor_page_def io_defs split: option.splits prod.splits sum.splits)
  with c p [OF assms] show ?thesis by blast
qed

definition empty_cursor_db :: cursor_db where
  "empty_cursor_db = \<lparr>incidents = [], transitions = [], history_baseline = Some [], cu_sessions = [],
     cu_items = [], cu_cursors = [], cu_scopes = [], cu_pages = []\<rparr>"

lemma empty_cursor_db_wf: "wf_cursor_db empty_cursor_db"
  by (simp add: wf_cursor_db_def cursor_keys_def sessions_filled_def within_capacity_def
      empty_cursor_db_def item_total_def tenant_sessions_def principal_sessions_def)

theorem cursor_ops_preserve_wf_witness:
  "wf_cursor_db (snd (capture (\<lambda>_. ''d'') ''s'' ''t'' 0 0 \<lparr>cq_limit = 5, cq_state = None, cq_since = None\<rparr>
      \<lparr>id_principal = ''p'', id_tenant = ''n'', id_claims = []\<rparr> ''v1'' None empty_cursor_db))"
  using cursor_ops_preserve_wf [OF empty_cursor_db_wf] by blast

text \<open>
  A capture that returns stores, under the new session, the current row of every incident
  that the query selects: each incident once, in priority order, and nothing else; the incident
  history itself is untouched.
\<close>

theorem capture_stores_selection:
  assumes "wf_cursor_db db" and "wf_incident_db db"
    and run: "capture dg sid token now later q i policy None db = (Inr t, db')"
  shows "set (snapshot sid db') = {r. latest (transitions db) (incident_id r) = Some r \<and> query_selects q r}
     \<and> (\<forall>r \<in> set (incidents db). query_selects q r \<longrightarrow> r \<in> set (snapshot sid db'))
     \<and> sorted_wrt priority_le (snapshot sid db') \<and> distinct (map incident_id (snapshot sid db'))
     \<and> incidents db' = incidents db \<and> transitions db' = transitions db"
  using run
proof (cases rule: capture_cases)
  case (failed e)
  then show ?thesis by simp
next
  case (captured db1 rows s)
  have h: "history_current (incidents db) (transitions db)"
    using assms(2) by (simp add: wf_incident_db_def)
  have "cursor_keys db1"
    using drop_expired_wf [OF assms(1)] captured(2) by (simp add: wf_cursor_db_def)
  then have "session_items sid db' = item_rows sid rows"
    using session_items_append [of db' db1 sid rows sid] fresh_session_no_items captured(6,20) by simp
  then have snap: "snapshot sid db' = captured_rows q None (transitions db)"
    by (simp add: snapshot_def item_rows_simps captured(3))
  moreover have "latest (transitions db) (incident_id r) = Some r" if "r \<in> set (incidents db)" for r
    using h that by (simp add: history_current_def)
  moreover have "incidents db' = incidents db \<and> transitions db' = transitions db"
    by (simp add: captured(20,2))
  ultimately show ?thesis
    by (simp add: captured_rows_set [OF h] captured_rows_sorted captured_rows_distinct [OF h])
qed

definition sample_identity :: identity where
  "sample_identity = \<lparr>id_principal = ''p'', id_tenant = ''n'', id_claims = []\<rparr>"

definition sample_query :: cursor_query where
  "sample_query = \<lparr>cq_limit = 5, cq_state = None, cq_since = None\<rparr>"

definition sample_row :: incident where
  "sample_row = new_incident sample_args ERROR ''u1'' (iso_z 0)"

definition sample_store :: cursor_db where
  "sample_store = empty_cursor_db\<lparr>incidents := [sample_row],
     transitions := [\<lparr>tr_revision = 1, tr_incident = ''u1'', tr_body = sample_row\<rparr>]\<rparr>"

lemma sample_store_wf: "wf_cursor_db sample_store" "wf_incident_db sample_store"
proof -
  have "incident_id sample_row = ''u1''" by (simp add: sample_row_def new_incident_def)
  then show "wf_incident_db sample_store"
    using new_incident_wf
    by (simp add: sample_store_def wf_incident_db_def history_current_def latest_def sample_row_def
        empty_cursor_db_def)
  show "wf_cursor_db sample_store"
    using empty_cursor_db_wf
    by (simp add: sample_store_def wf_cursor_db_def cursor_keys_def sessions_filled_def
        session_items_def)
qed

definition sample_captured :: "string res \<times> cursor_db" where
  "sample_captured = capture (\<lambda>_. ''d'') ''s'' ''t'' 0 0 sample_query sample_identity ''v1'' None sample_store"

lemma sample_captured_ok: "fst sample_captured = Inr ''t''"
  by (simp add: sample_captured_def capture_def transaction_def capture_body_def sample_query_def
      sample_identity_def sample_store_def empty_cursor_db_def Let_def drop_expired_def
      first_expired_def available_items_def session_capacity_def tenant_sessions_def
      principal_sessions_def item_total_def captured_rows_def is_latest_def capture_selects_def
      given_def last_revision_def)

lemma sample_run:
  "capture (\<lambda>_. ''d'') ''s'' ''t'' 0 0 sample_query sample_identity ''v1'' None sample_store
     = (Inr ''t'', snd sample_captured)"
  using sample_captured_ok by (metis prod.collapse sample_captured_def)

lemma sample_captured_wf: "wf_cursor_db (snd sample_captured)"
  by (rule capture_wf [OF sample_store_wf(1) sample_run])

lemma sample_frame:
  "\<exists>s. check_frame (\<lambda>_. ''d'') ''t'' sample_identity ''v1'' 0 (snd sample_captured) = Inr (s, 0)
     \<and> se_item_count s = 1 \<and> pc_token ` set (cu_cursors (snd sample_captured)) = {''t''}
     \<and> se_expires_at s = iso_z (0 + minutes 30) \<and> se_id s = ''s''"
  using sample_run
proof (cases rule: capture_cases)
  case (failed e)
  then show ?thesis by simp
next
  case (captured db1 rows s)
  have "iso_z 0 < iso_z (0 + minutes 30)"
    by (simp add: iso_z_def iso_date_def iso_seconds_def ord2ymd_def Let_def days_before_month_def
        days_in_month_def digit_def minutes_def less_char_def)
  moreover have db1: "cu_sessions db1 = [] \<and> cu_cursors db1 = []"
    by (simp add: captured(2) sample_store_def empty_cursor_db_def drop_expired_def first_expired_def)
  moreover have "length rows = 1"
    by (simp add: captured(3) sample_store_def sample_query_def captured_rows_def is_latest_def
        capture_selects_def given_def)
  moreover have "find_frame ''t'' (snd sample_captured) = Some (s, 0)"
    using find_frame_cursor [of "snd sample_captured" "\<lparr>pc_token = ''t'', pc_session = ''s'', pc_position = 0\<rparr>" s]
      sample_captured_wf captured(10,20) by (simp add: wf_cursor_db_def)
  ultimately show ?thesis
    using captured(10-17,20) by (simp add: check_frame_def not_le)
qed

theorem capture_stores_selection_witness:
  "\<exists>r. r \<in> set (incidents sample_store) \<and> r \<in> set (snapshot ''s'' (snd sample_captured))"
proof -
  have "sample_row \<in> set (incidents sample_store)" "query_selects sample_query sample_row"
    by (simp_all add: sample_store_def query_selects_def sample_query_def given_def)
  then show ?thesis using capture_stores_selection [OF sample_store_wf sample_run] by blast
qed

text \<open>
  C22. A page that returns belongs to a session of the caller's principal, tenant, identity digest
  and policy that has not expired; it shows exactly the items of that session's stored snapshot,
  from the cursor's position on, that the policy authorizes now; and reading changes no session
  and no stored item.
\<close>

theorem page_shows_only_authorized:
  assumes "wf_cursor_db db"
    and run: "page dg bytes fresh token i policy authorize now db = (Inr res, db')"
  shows "(\<exists>s pos. s \<in> set (cu_sessions db) \<and> find_frame token db = Some (s, pos)
       \<and> se_id s = pr_snapshotRef res \<and> se_principal s = id_principal i \<and> se_tenant s = id_tenant i
       \<and> se_fingerprint s = dg (identity_json i) \<and> se_policy_ref s = policy
       \<and> iso_z now < se_expires_at s
       \<and> pr_items res = filter (\<lambda>r. authorize r = Inr True)
            (take (nat (se_page_limit s)) (drop pos (snapshot (se_id s) db))))
     \<and> length (pr_items res) \<le> 100 \<and> same_sessions db db'"
  using run
proof (cases rule: page_cases)
  case (unchanged e)
  then show ?thesis by simp
next
  case (read s pos visible)
  note b = page_bound [OF assms(1) read(1)] and f = check_frame_Inr [OF read(1)]
  have vis: "visible = filter (\<lambda>r. authorize r = Inr True) (page_rows s pos db)"
    using filterE_Inr [OF read(2)] by blast
  have limit: "nat (se_page_limit s) \<le> 100"
    using assms(1) b(1) by (auto simp: wf_cursor_db_def sessions_filled_def)
  have "length (filter (\<lambda>r. authorize r = Inr True) (page_rows s pos db)) \<le> nat (se_page_limit s)"
    unfolding b(3) by (rule order_trans [OF length_filter_le]) simp
  then have len: "length (pr_items res) \<le> 100" using read(5) [of res] limit vis by simp
  have "same_sessions db db'"
  proof (cases "pos + length (page_rows s pos db) < se_item_count s")
    case True
    with read(3) next_cursor_same show ?thesis by blast
  next
    case False
    with read(4) show ?thesis by (simp add: same_sessions_def)
  qed
  with len f b(1) read(5) [of res] vis b(3) show ?thesis by auto
qed

theorem page_shows_only_authorized_witness:
  "\<exists>res db'. page (\<lambda>_. ''d'') (\<lambda>_. 0) ''f'' ''t'' sample_identity ''v1'' (\<lambda>r. Inr (severity r = ERROR)) 0
       (snd sample_captured) = (Inr res, db') \<and> same_sessions (snd sample_captured) db'"
proof -
  obtain s where s: "check_frame (\<lambda>_. ''d'') ''t'' sample_identity ''v1'' 0 (snd sample_captured) = Inr (s, 0)"
    "pc_token ` set (cu_cursors (snd sample_captured)) = {''t''}"
    using sample_frame by blast
  have "\<exists>res db'. page (\<lambda>_. ''d'') (\<lambda>_. 0) ''f'' ''t'' sample_identity ''v1''
      (\<lambda>r. Inr (severity r = ERROR)) 0 (snd sample_captured) = (Inr res, db')"
    using page_total [OF sample_captured_wf s(1), of "\<lambda>r. Inr (severity r = ERROR)"
        "\<lambda>r. severity r = ERROR" "''f''" "\<lambda>_. 0"] s(2) by auto
  then show ?thesis using page_shows_only_authorized [OF sample_captured_wf] by blast
qed

text \<open>
  C9. Reading to the end terminates and is complete: with more fuel than remaining items, fresh
  tokens, a live session and a policy that answers, following the next cursors returns exactly
  the authorized items of the stored snapshot, in its order, without loss or repetition. The only
  other outcome is the refusal of the response capacity, and then one of the pages, the authorized
  items at some position, is larger than 512 KiB when it is rendered.
\<close>

theorem read_pages_complete:
  assumes "wf_cursor_db db" and "check_frame dg token i policy now db = Inr (s, pos)"
    and "\<And>x. authorize x = Inr (a x)" and "\<And>k. iso_z (clk k) < se_expires_at s"
    and "inj_on ids {..<n}" and "\<forall>k<n. ids k \<notin> pc_token ` set (cu_cursors db)"
    and "se_item_count s - pos < n"
  shows "\<exists>r db'. read_pages dg bytes ids clk i policy authorize n token db = (r, db') \<and> wf_cursor_db db'
     \<and> (r = Inr (filter a (drop pos (snapshot (se_id s) db)))
       \<or> r = Inl (CursorRejected 503 ''OPERATIONAL_RESPONSE_CAPACITY'')
         \<and> (\<exists>k x. pos \<le> k \<and> 524288 < bytes x \<and> pr_snapshotRef x = se_id s
              \<and> pr_items x = filter a (take (nat (se_page_limit s)) (drop k (snapshot (se_id s) db)))))"
  using read_pages_covers [OF assms] unfolding read_outcome_def .

theorem read_pages_complete_witness:
  "\<exists>db'. read_pages (\<lambda>_. ''d'') (\<lambda>_. 0) (\<lambda>k. replicate k CHR ''x'') (\<lambda>_. 0) sample_identity ''v1''
     (\<lambda>r. Inr True) 2 ''t'' (snd sample_captured) = (Inr (snapshot ''s'' (snd sample_captured)), db')"
proof -
  obtain s where s: "check_frame (\<lambda>_. ''d'') ''t'' sample_identity ''v1'' 0 (snd sample_captured) = Inr (s, 0)"
    "se_item_count s = 1" "pc_token ` set (cu_cursors (snd sample_captured)) = {''t''}" "se_id s = ''s''"
    using sample_frame by blast
  have live: "iso_z 0 < se_expires_at s" using check_frame_Inr(6) [OF s(1)] .
  have inj: "inj_on (\<lambda>k. replicate k CHR ''x'') {..<2}" by (rule inj_onI) simp
  have fresh: "\<forall>k<2. replicate k CHR ''x'' \<notin> pc_token ` set (cu_cursors (snd sample_captured))"
    unfolding s(3) by (auto simp: less_2_cases_iff)
  show ?thesis
    using read_pages_complete [OF sample_captured_wf s(1), of "\<lambda>r. Inr True" "\<lambda>r. True" "\<lambda>_. 0"
        "\<lambda>k. replicate k CHR ''x''" 2 "\<lambda>_. 0"] live inj fresh s(2,4) by auto
qed

end
