(* ===== verification/Bookmark_Safety.thy ===== *)
theory Bookmark_Safety
  imports Bookmarks Cursor_Safety
begin

text \<open>
  What bookmarks promise: the tables stay well-formed and bounded, a bookmark is issued only when
  the reader has been shown every item of the snapshot, and a resumed snapshot holds exactly
  what changed after the bookmark's watermark.
\<close>

section \<open>Well-formed bookmark tables\<close>

text \<open>The positions at which a page of the session starts.\<close>

definition page_start :: "cursor_session \<Rightarrow> nat \<Rightarrow> bool" where
  "page_start s p \<longleftrightarrow> p mod nat (se_page_limit s) = 0 \<and> (p < se_item_count s \<or> p = 0)"

definition pages_aligned :: "'z cursor_db_scheme \<Rightarrow> bool" where
  "pages_aligned db \<longleftrightarrow>
     (\<forall>c \<in> set (cu_cursors db). \<forall>s \<in> set (cu_sessions db).
        se_id s = pc_session c \<longrightarrow> page_start s (pc_position c))
     \<and> (\<forall>p \<in> set (cu_pages db). \<exists>s \<in> set (cu_sessions db).
          se_id s = bp_session p \<and> page_start s (bp_position p))
     \<and> distinct (map (\<lambda>p. (bp_session p, bp_position p)) (cu_pages db))"

definition bookmarks_bounded :: "bookmark list \<Rightarrow> bool" where
  "bookmarks_bounded ks \<longleftrightarrow> distinct (map bk_token ks) \<and> length ks \<le> 32768
     \<and> (\<forall>t. length (filter (\<lambda>k. bk_tenant k = t) ks) \<le> 4096
          \<and> (\<forall>p. length (filter (\<lambda>k. bk_tenant k = t \<and> bk_principal k = p) ks) \<le> 512))"

definition wf_bookmark_db :: "'z bookmark_db_scheme \<Rightarrow> bool" where
  "wf_bookmark_db db \<longleftrightarrow> wf_cursor_db db \<and> pages_aligned db \<and> bookmarks_bounded (bookmarks db)"

section \<open>Sessions and cursors\<close>

lemma delete_session_aligned: "pages_aligned db \<Longrightarrow> pages_aligned (delete_session sid db)"
  by (fastforce simp: pages_aligned_def delete_session_def distinct_map_filter_keep)

lemma drop_expired_aligned: "pages_aligned db \<Longrightarrow> pages_aligned (drop_expired now db)"
  by (simp add: drop_expired_def delete_session_aligned split: option.splits)

lemma drop_expired_bookmarks [simp]:
  "bookmarks (drop_expired now db) = bookmarks db" "history_floor (drop_expired now db) = history_floor db"
  by (simp_all add: drop_expired_def delete_session_def split: option.splits)

lemma capture_aligned:
  assumes "wf_cursor_db db" and "pages_aligned db"
    and run: "capture dg sid token now later q i policy lo db = (r, db')"
  shows "pages_aligned db'"
  using run
proof (cases rule: capture_cases)
  case (failed e)
  with assms(2) show ?thesis by simp
next
  case (captured db1 rows s)
  have a: "pages_aligned db1" using drop_expired_aligned [OF assms(2)] captured(2) by simp
  have old: "pc_session c \<noteq> sid" if "c \<in> set (cu_cursors db1)" for c
    using drop_expired_wf [OF assms(1)] captured(2,6) that
    by (force simp: wf_cursor_db_def cursor_keys_def)
  have new: "page_start x 0" for x by (simp add: page_start_def)
  show ?thesis
    using a captured(6,10) unfolding pages_aligned_def captured(20)
    by (auto simp: new dest: old)
qed

lemma capture_bookmarks:
  "capture dg sid token now later q i policy lo db = (r, db') \<Longrightarrow>
     bookmarks db' = bookmarks db \<and> history_floor db' = history_floor db"
  by (erule capture_cases) auto

lemma next_cursor_fields:
  assumes "next_cursor fresh sid pos db = (r, db')"
  shows "cu_pages db' = cu_pages db" and "cu_scopes db' = cu_scopes db"
    and "bookmarks db' = bookmarks db" and "history_floor db' = history_floor db"
  using assms by (cases rule: next_cursor_cases; simp)+

lemma next_cursor_aligned:
  assumes "wf_cursor_db db" and "pages_aligned db" and "s \<in> set (cu_sessions db)"
    and "page_start s pos" and run: "next_cursor fresh (se_id s) pos db = (r, db')"
  shows "pages_aligned db'"
  using run
proof (cases rule: next_cursor_cases)
  case added
  have "inj_on se_id (set (cu_sessions db))"
    using assms(1) by (simp add: wf_cursor_db_def cursor_keys_def distinct_map)
  then have "page_start x pos" if "x \<in> set (cu_sessions db)" "se_id x = se_id s" for x
    using assms(3,4) that by (auto dest: inj_onD)
  then show ?thesis using assms(2) unfolding pages_aligned_def added(4) by auto
qed (use assms(2) in auto)

lemma page_frame_start:
  assumes "pages_aligned db" and "find_frame token db = Some (s, pos)"
  shows "page_start s pos"
proof -
  from assms(2) obtain c where "find (\<lambda>c. pc_token c = token) (cu_cursors db) = Some c"
    "find (\<lambda>s. se_id s = pc_session c) (cu_sessions db) = Some s" "pos = pc_position c"
    by (auto simp: find_frame_def split: option.splits)
  moreover from this have "c \<in> set (cu_cursors db)" "s \<in> set (cu_sessions db)" "se_id s = pc_session c"
    by (auto dest: find_some_mem)
  ultimately show ?thesis using assms(1) unfolding pages_aligned_def by blast
qed

text \<open>A full page that is not the last one ends where the next one starts.\<close>

lemma page_start_step:
  assumes "page_start s pos" and "pos + nat (se_page_limit s) < se_item_count s"
  shows "page_start s (pos + nat (se_page_limit s))"
  using assms by (simp add: page_start_def)

lemma page_keeps:
  assumes "wf_cursor_db db" and "pages_aligned db"
    and run: "page dg bytes fresh token i policy authorize now db = (r, db')"
  shows "pages_aligned db' \<and> cu_pages db' = cu_pages db \<and> cu_scopes db' = cu_scopes db
     \<and> bookmarks db' = bookmarks db \<and> history_floor db' = history_floor db \<and> same_sessions db db'"
  using run
proof (cases rule: page_cases)
  case (unchanged e)
  with assms(2) show ?thesis by (simp add: same_sessions_def)
next
  case (read s pos visible)
  note b = page_bound [OF assms(1) read(1)]
  let ?n = "pos + length (page_rows s pos db)"
  show ?thesis
  proof (cases "?n < se_item_count s")
    case True
    with read(3) obtain t where t: "next_cursor fresh (se_id s) ?n db = (t, db')" by blast
    have "length (page_rows s pos db) = nat (se_page_limit s)" using True b(3,4) by simp
    then have "page_start s ?n"
      using page_start_step [OF page_frame_start [OF assms(2) check_frame_Inr(1) [OF read(1)]]] True
      by simp
    from next_cursor_aligned [OF assms(1,2) b(1) this t] next_cursor_fields [OF t]
      next_cursor_same [OF t]
    show ?thesis by simp
  next
    case False
    with read(4) assms(2) show ?thesis by (simp add: same_sessions_def)
  qed
qed

section \<open>Recording a page\<close>

lemma same_page_sym: "same_page p q = same_page q p"
  by (auto simp: same_page_def)

lemma put_page_set:
  "set (put_page p ps) = insert p {q \<in> set ps. \<not> same_page p q}"
  by (auto simp: put_page_def list_ex_iff same_page_def)

lemma put_page_keys:
  "map (\<lambda>p. (bp_session p, bp_position p)) (put_page p ps) =
     (if list_ex (same_page p) ps then map (\<lambda>p. (bp_session p, bp_position p)) ps
      else map (\<lambda>p. (bp_session p, bp_position p)) ps @ [(bp_session p, bp_position p)])"
  by (auto simp: put_page_def same_page_def comp_def)

lemma record_page_aligned:
  assumes "pages_aligned db" and "s \<in> set (cu_sessions db)" and "page_start s pos"
    and "bp_session p = se_id s" and "bp_position p = pos"
  shows "pages_aligned (db\<lparr>cu_pages := put_page p (cu_pages db)\<rparr>)"
proof -
  have "distinct (map (\<lambda>p. (bp_session p, bp_position p)) (put_page p (cu_pages db)))"
    using assms(1) unfolding put_page_keys pages_aligned_def
    by (auto simp: list_ex_iff same_page_def)
  then show ?thesis
    using assms unfolding pages_aligned_def by (auto simp: put_page_set)
qed

lemma cu_pages_wf: "wf_cursor_db (db\<lparr>cu_pages := ps\<rparr>) = wf_cursor_db db"
  by (simp add: wf_cursor_db_def cursor_keys_def sessions_filled_def session_items_def)

lemma cu_scopes_wf:
  "wf_cursor_db (db\<lparr>cu_scopes := ps\<rparr>) = wf_cursor_db db"
  "pages_aligned (db\<lparr>cu_scopes := ps\<rparr>) = pages_aligned db"
  by (simp_all add: wf_cursor_db_def cursor_keys_def sessions_filled_def session_items_def pages_aligned_def)

section \<open>Issuing\<close>

lemma drop_bookmark_cases:
  assumes "drop_bookmark now later ks = Inr ks'"
  obtains (kept) "ks' = ks" | (dropped) k where "k \<in> set ks" "bk_expires_at k \<le> now"
    "ks' = filter (\<lambda>q. bk_token q \<noteq> bk_token k) ks"
proof (cases "sort_by (key_le bk_expires_at) (filter (\<lambda>k. bk_expires_at k \<le> now) ks)")
  case Nil
  with assms kept show thesis by (simp add: drop_bookmark_def)
next
  case (Cons k qs)
  then have "k \<in> set ks" "bk_expires_at k \<le> now" by (auto dest: sort_by_head)
  with Cons assms dropped show thesis by (auto simp: drop_bookmark_def split: if_splits)
qed

lemma length_filter_filter: "length (filter Q (filter P xs)) \<le> length (filter Q xs)"
  by (induction xs) auto

lemma bookmarks_bounded_filter: "bookmarks_bounded ks \<Longrightarrow> bookmarks_bounded (filter P ks)"
proof -
  assume b: "bookmarks_bounded ks"
  have "length (filter P ks) \<le> 32768"
    by (rule order_trans [OF length_filter_le]) (use b in \<open>simp add: bookmarks_bounded_def\<close>)
  moreover have "distinct (map bk_token (filter P ks))"
    using b by (simp add: bookmarks_bounded_def distinct_map_filter_keep)
  moreover have "length (filter Q (filter P ks)) \<le> n" if "length (filter Q ks) \<le> n" for Q n
    using length_filter_filter that by (rule order_trans)
  ultimately show ?thesis using b unfolding bookmarks_bounded_def by blast
qed

lemma bookmarks_bounded_append:
  assumes "bookmarks_bounded ks" and "bookmark_capacity i ks" and "bk_token k \<notin> bk_token ` set ks"
    and "bk_tenant k = id_tenant i" and "bk_principal k = id_principal i"
  shows "bookmarks_bounded (ks @ [k])"
  using assms unfolding bookmarks_bounded_def bookmark_capacity_def by auto

text \<open>
  An issue that returns a token found full coverage, and its token names a bookmark that an
  earlier issue stored or the new one, which holds the snapshot's watermark. Bookmarks that have
  not expired stay.
\<close>

lemma bm_issue_cases:
  assumes "bm_issue dg token now expiry trigger s b i policy db = (r, db')"
  obtains (failed) e where "r = Inl e" "db' = db"
  | (found) k where "k \<in> set (bookmarks db)" "r = Inr (bk_token k)" "db' = db"
      "pages_complete (se_id s) (cu_pages db) = pages_expected s"
  | (issued) ks k where "r = Inr token" "drop_bookmark (iso_z now) (iso_z trigger) (bookmarks db) = Inr ks"
      "bookmark_capacity i ks" "token \<notin> bk_token ` set ks" "bk_token k = token"
      "bk_session k = se_id s" "bk_tenant k = id_tenant i" "bk_principal k = id_principal i"
      "bk_watermark k = se_watermark s" "bk_state k = bs_state b"
      "pages_complete (se_id s) (cu_pages db) = pages_expected s"
      "db' = db\<lparr>bookmarks := ks @ [k]\<rparr>"
proof (cases "bm_issue_body dg token now expiry trigger s b i policy db")
  case (Inl e)
  with assms failed show thesis by (auto simp: bm_issue_def transaction_def)
next
  case (Inr x)
  then obtain t d where x: "x = (t, d)" "r = Inr t" "db' = d"
    using assms by (cases x) (auto simp: bm_issue_def transaction_def)
  note body = Inr [unfolded x(1) bm_issue_body_def]
  then have complete: "pages_complete (se_id s) (cu_pages db) = pages_expected s"
    by (auto split: option.splits if_splits)
  show thesis
  proof (cases "find (\<lambda>k. bk_session k = se_id s) (bookmarks db)")
    case (Some k)
    with body x(2,3) find_some_mem [OF Some] complete show ?thesis
      by (intro found [of k]) (auto split: option.splits if_splits)
  next
    case None
    note new = None
    show ?thesis
    proof (cases "first_equivalent dg i policy s b (iso_z now) (bookmarks db)")
      case (Some k)
      then have "k \<in> set (bookmarks db)"
        by (auto simp: first_equivalent_def split: list.splits dest: sort_by_head)
      with body x(2,3) new Some complete show ?thesis
        by (intro found [of k]) (auto split: option.splits if_splits)
    next
      case None
      with body new obtain ks where
        "drop_bookmark (iso_z now) (iso_z trigger) (bookmarks db) = Inr ks" "bookmark_capacity i ks"
        "token \<notin> bk_token ` set ks" "t = token"
        "d = db\<lparr>bookmarks := ks @ [\<lparr>bk_token = token, bk_session = se_id s,
                    bk_principal = id_principal i, bk_tenant = id_tenant i,
                    bk_identity = bm_identity dg i, bk_policy = policy, bk_state = bs_state b,
                    bk_watermark = se_watermark s, bk_parent = bs_parent b,
                    bk_created_at = iso_z now, bk_expires_at = iso_z (expiry + days 90)\<rparr>]\<rparr>"
        by (auto simp: result_simps split: option.splits if_splits)
      with x complete show ?thesis by (intro issued) simp_all
    qed
  qed
qed

lemma bm_issue_bounded:
  assumes "bookmarks_bounded (bookmarks db)"
    and "bm_issue dg token now expiry trigger s b i policy db = (r, db')"
  shows "bookmarks_bounded (bookmarks db')"
  using assms(2)
proof (cases rule: bm_issue_cases)
  case (issued ks k)
  have "bookmarks_bounded ks"
    using issued(2) assms(1) bookmarks_bounded_filter by (cases rule: drop_bookmark_cases) auto
  with issued show ?thesis using bookmarks_bounded_append by simp
qed (use assms(1) in auto)

lemma bm_issue_cursor_fields:
  assumes "bm_issue dg token now expiry trigger s b i policy db = (r, db')"
  shows "cu_sessions db' = cu_sessions db" and "cu_items db' = cu_items db"
    and "cu_cursors db' = cu_cursors db" and "cu_pages db' = cu_pages db" and "cu_scopes db' = cu_scopes db"
  using assms by (cases rule: bm_issue_cases; simp)+

lemma bm_issue_wf:
  assumes "wf_bookmark_db db" and "bm_issue dg token now expiry trigger s b i policy db = (r, db')"
  shows "wf_bookmark_db db'"
  using assms(1) bm_issue_cursor_fields [OF assms(2)] bm_issue_bounded [OF _ assms(2)]
  by (simp add: wf_bookmark_db_def wf_cursor_db_def cursor_keys_def sessions_filled_def
      session_items_def pages_aligned_def)

section \<open>Pages with bookmarks\<close>

text \<open>
  A page request stops before anything is recorded, or records the page it read; only a complete
  last page with full coverage goes on to the issue.
\<close>

lemma bm_page_cases:
  assumes "bm_page e token i policy db = (r, db')"
  obtains (refused) x where "r = Inl x" "db' = db"
  | (unrecorded) x res db1 where "r = Inl x" "db' = db1"
      "cursor_page (be_digest e) (be_uuid e) (be_page_bytes e) (be_ids e) (be_clock e) (Some token) True
         \<lparr>cq_limit = 50, cq_state = None, cq_since = None\<rparr> i policy (row_visible (the (be_row e))) db
       = (res, db1)"
  | (recorded) res db1 s pos b db2 issued where
      "cursor_page (be_digest e) (be_uuid e) (be_page_bytes e) (be_ids e) (be_clock e) (Some token) True
         \<lparr>cq_limit = 50, cq_state = None, cq_since = None\<rparr> i policy (row_visible (the (be_row e))) db
       = (Inr res, db1)"
      "find_scoped token db1 = Some (s, pos, b)" "bs_frame_digest b = frame_digest (be_digest e) s"
      "db2 = db1\<lparr>cu_pages := put_page \<lparr>bp_session = se_id s, bp_position = pos,
         bp_digest = pr_itemsDigest res, bp_complete = (\<not> pr_partial res)\<rparr> (cu_pages db1)\<rparr>"
      "(db' = db2 \<and> issued = None) \<or>
       (\<not> pr_truncated res \<and> \<not> pr_partial res
        \<and> pages_complete (se_id s) (cu_pages db2) = pages_expected s
        \<and> (\<exists>ir. bm_issue (be_digest e) (be_ids e 1) (be_clock e 1) (be_clock e 2) (be_clock e 3)
              s b i policy db2 = (ir, db')
            \<and> issued = (case ir of Inl _ \<Rightarrow> None
                | Inr t \<Rightarrow> Some (t, bs_parent b, bs_parent_watermark b = Some (se_watermark s)))))"
      "r = Inr \<lparr>br_page = res, br_issued = issued\<rparr> \<or> (\<exists>x. r = Inl x)"
      "pr_truncated res \<Longrightarrow> r = Inr \<lparr>br_page = res, br_issued = issued\<rparr>
         \<or> r = Inl (CursorRejected 503 ''OPERATIONAL_RESPONSE_CAPACITY'')"
proof -
  consider (early) x where "r = Inl x" "db' = db"
    | (on) authorize where "be_row e = Some authorize" "bm_authorize (be_collection e) i policy = Inr ()"
    using assms by (cases "bm_authorize (be_collection e) i policy"; cases "be_row e")
      (auto simp: bm_page_def io_defs)
  then show thesis
  proof cases
    case early
    then show thesis by (rule refused)
  next
    case on
    obtain res db1 where page: "cursor_page (be_digest e) (be_uuid e) (be_page_bytes e) (be_ids e)
        (be_clock e) (Some token) True \<lparr>cq_limit = 50, cq_state = None, cq_since = None\<rparr> i policy
        (row_visible authorize) db = (res, db1)"
      by (cases "cursor_page (be_digest e) (be_uuid e) (be_page_bytes e) (be_ids e)
        (be_clock e) (Some token) True \<lparr>cq_limit = 50, cq_state = None, cq_since = None\<rparr> i policy
        (row_visible authorize) db")
    note run = assms [unfolded bm_page_def bindS_def liftS_def on option.case prod.case sum.case page]
    show thesis
    proof (cases res)
      case (Inl x)
      with run page on show thesis by (intro unrecorded) auto
    next
      case (Inr res')
      show thesis
      proof (cases "find_scoped token db1")
        case None
        with Inr run page on show thesis by (intro unrecorded) auto
      next
        case (Some f)
        obtain s pos b where f: "f = (s, pos, b)" by (cases f) auto
        show thesis
        proof (cases "bs_frame_digest b = frame_digest (be_digest e) s")
          case False
          with Some f Inr run page on show thesis by (intro unrecorded) auto
        next
          case True
          let ?db2 = "db1\<lparr>cu_pages := put_page \<lparr>bp_session = se_id s, bp_position = pos,
             bp_digest = pr_itemsDigest res', bp_complete = (\<not> pr_partial res')\<rparr> (cu_pages db1)\<rparr>"
          let ?c = "\<not> pr_truncated res' \<and> \<not> pr_partial res'
            \<and> pages_complete (se_id s) (cu_pages ?db2) = pages_expected s"
          obtain ir db3 where issue: "bm_issue (be_digest e) (be_ids e 1) (be_clock e 1) (be_clock e 2)
              (be_clock e 3) s b i policy ?db2 = (ir, db3)"
            by (cases "bm_issue (be_digest e) (be_ids e 1) (be_clock e 1) (be_clock e 2)
              (be_clock e 3) s b i policy ?db2")
          note run' = run [unfolded Inr Some f prod.case sum.case option.case record_page_def]
          have page': "cursor_page (be_digest e) (be_uuid e) (be_page_bytes e) (be_ids e)
              (be_clock e) (Some token) True \<lparr>cq_limit = 50, cq_state = None, cq_since = None\<rparr> i policy
              (row_visible (the (be_row e))) db = (Inr res', db1)" using page Inr on by simp
          show thesis
          proof (cases ?c)
            case False
            with run' True have "db' = ?db2 \<and> (r = Inr \<lparr>br_page = res', br_issued = None\<rparr>
                \<or> r = Inl (CursorRejected 503 ''OPERATIONAL_RESPONSE_CAPACITY''))"
              by (auto simp: io_defs Let_def split: if_splits)
            then show thesis
              by (intro recorded [OF page' Some [unfolded f] True refl, of None]) auto
          next
            case c: True
            show thesis
            proof (cases ir)
              case (Inl x)
              with run' True c issue have "db' = db3 \<and> r = Inl x"
                by (auto simp: io_defs Let_def split: if_splits)
              then show thesis using c issue Inl
                by (intro recorded [OF page' Some [unfolded f] True refl, of None]) auto
            next
              case (Inr t)
              with run' True c issue have "db' = db3 \<and> (r = Inr \<lparr>br_page = res', br_issued =
                  Some (t, bs_parent b, bs_parent_watermark b = Some (se_watermark s))\<rparr> \<or> (\<exists>x. r = Inl x))"
                by (auto simp: io_defs Let_def split: if_splits)
              then show thesis using c issue Inr
                by (intro recorded [OF page' Some [unfolded f] True refl,
                    of "Some (t, bs_parent b, bs_parent_watermark b = Some (se_watermark s))"]) auto
            qed
          qed
        qed
      qed
    qed
  qed
qed

section \<open>Every operation keeps the tables well-formed\<close>

lemma cursor_page_given:
  "cursor_page dg uuid bytes ids clk (Some token) True q i policy authorize db = (r, db') \<Longrightarrow>
     (\<exists>e. r = Inl e \<and> db' = db)
     \<or> (\<exists>t. uuid token = Some t \<and> page dg bytes (ids 0) t i policy authorize (clk 0) db = (r, db'))"
  by (auto simp: cursor_page_def io_defs split: option.splits)

lemma cursor_page_given_keeps:
  assumes "wf_bookmark_db db"
    and "cursor_page dg uuid bytes ids clk (Some token) True q i policy authorize db = (r, db')"
  shows "wf_bookmark_db db' \<and> cu_pages db' = cu_pages db \<and> bookmarks db' = bookmarks db
     \<and> same_sessions db db'"
  using cursor_page_given [OF assms(2)]
proof (elim disjE exE conjE)
  fix t assume run: "page dg bytes (ids 0) t i policy authorize (clk 0) db = (r, db')"
  have wf: "wf_cursor_db db" "pages_aligned db" using assms(1) by (simp_all add: wf_bookmark_db_def)
  from page_keeps [OF wf run] page_wf [OF wf(1) run] assms(1) show ?thesis
    by (simp add: wf_bookmark_db_def)
qed (use assms(1) in \<open>simp_all add: same_sessions_def\<close>)

lemma find_scoped_frame: "find_scoped token db = Some (s, pos, b) \<Longrightarrow> find_frame token db = Some (s, pos)"
  by (auto simp: find_scoped_def split: option.splits)

lemma record_page_wf:
  assumes "wf_bookmark_db db" and "find_frame token db = Some (s, pos)"
    and "bp_session p = se_id s" and "bp_position p = pos"
  shows "wf_bookmark_db (db\<lparr>cu_pages := put_page p (cu_pages db)\<rparr>)"
proof -
  have "s \<in> set (cu_sessions db)"
    using find_frame_Some [OF assms(2)] assms(1) by (simp add: wf_bookmark_db_def wf_cursor_db_def)
  moreover have "page_start s pos"
    using page_frame_start [OF _ assms(2)] assms(1) by (simp add: wf_bookmark_db_def)
  ultimately show ?thesis
    using assms record_page_aligned [of db s pos p] by (simp add: wf_bookmark_db_def cu_pages_wf)
qed

lemma bm_page_wf: "preserves wf_bookmark_db (bm_page e token i policy)"
proof (rule preservesI)
  fix db r db'
  assume wf: "wf_bookmark_db db" and run: "bm_page e token i policy db = (r, db')"
  from run show "wf_bookmark_db db'"
  proof (cases rule: bm_page_cases)
    case (refused x)
    with wf show ?thesis by simp
  next
    case (unrecorded x res db1)
    with cursor_page_given_keeps [OF wf unrecorded(3)] show ?thesis by simp
  next
    case (recorded res db1 s pos b db2 issued)
    have wf1: "wf_bookmark_db db1" using cursor_page_given_keeps [OF wf recorded(1)] by simp
    have wf2: "wf_bookmark_db db2"
      unfolding recorded(4)
      by (rule record_page_wf [OF wf1 find_scoped_frame [OF recorded(2)]]) simp_all
    with recorded(5) bm_issue_wf [OF wf2] show ?thesis by blast
  qed
qed

lemma capture_preserves: "preserves wf_bookmark_db (capture dg sid token now later q i policy lo)"
  by (rule preservesI)
    (metis wf_bookmark_db_def capture_wf capture_aligned capture_bookmarks)

lemma bm_scope_preserves: "preserves wf_bookmark_db (bm_scope dg token state parent w)"
  by (rule preservesI)
    (auto simp: bm_scope_def wf_bookmark_db_def cu_scopes_wf split: option.splits if_splits)

lemma bm_start_preserves: "preserves wf_bookmark_db (bm_start e q i policy)"
  unfolding bm_start_def
  by (intro preserves_intros capture_preserves bm_scope_preserves bm_page_wf)

lemma preserves_state:
  "(\<And>w. I w \<Longrightarrow> preserves I (f w)) \<Longrightarrow> preserves I (\<lambda>w. f w w)"
  by (simp add: preserves_def)

lemma bm_resume_preserves: "preserves wf_bookmark_db (bm_resume e bm limit i policy)"
proof -
  have pure: "preserves wf_bookmark_db (\<lambda>db. (Inl x, db))" for x :: py_exn
    by (simp add: preserves_def)
  show ?thesis
    unfolding bm_resume_def
    by (intro preserves_intros capture_preserves bm_scope_preserves bm_page_wf)
      (rule preservesI, auto split: option.splits if_splits elim!: preservesD [rotated 1]
        intro!: preserves_intros capture_preserves bm_scope_preserves bm_page_wf)
qed

section \<open>What a resumed snapshot holds\<close>

lemma capture_snapshot:
  assumes "wf_cursor_db db" and "capture dg sid token now later q i policy lo db = (Inr t, db')"
  shows "t = token \<and> snapshot sid db' = captured_rows q lo (transitions db)
     \<and> (\<exists>s. find_frame token db' = Some (s, 0) \<and> se_id s = sid \<and> s \<in> set (cu_sessions db')
          \<and> se_watermark s = last_revision (transitions db))"
  using assms(2)
proof (cases rule: capture_cases)
  case (failed e)
  then show ?thesis by simp
next
  case (captured db1 rows s)
  have k1: "cursor_keys db1"
    using drop_expired_wf [OF assms(1)] captured(2) by (simp add: wf_cursor_db_def)
  have k: "cursor_keys db'" using capture_wf [OF assms] by (simp add: wf_cursor_db_def)
  have "session_items sid db' = item_rows sid rows"
    using session_items_append [of db' db1 sid rows sid] fresh_session_no_items [OF k1] captured(6,20)
    by simp
  then have "snapshot sid db' = rows" by (simp add: snapshot_def item_rows_simps)
  moreover have "find_frame token db' = Some (s, 0)"
    using find_frame_cursor [OF k, of "\<lparr>pc_token = token, pc_session = sid, pc_position = 0\<rparr>" s]
      captured(10,20) by simp
  ultimately show ?thesis using captured(1,3,10,18,20) by simp
qed

lemma captured_since:
  assumes "history_current rows ts"
  shows "set (captured_rows q (Some w) ts) =
     {r. latest ts (incident_id r) = Some r \<and> query_selects q r
       \<and> (\<exists>t \<in> set ts. tr_incident t = incident_id r \<and> w < tr_revision t)}"
    (is "?L = ?R")
proof (rule set_eqI, rule iffI)
  have body: "\<And>t. t \<in> set ts \<Longrightarrow> tr_incident t = incident_id (tr_body t)"
    using assms by (simp add: history_current_def)
  fix r
  {
    assume "r \<in> ?L"
    then obtain t where t: "t \<in> set ts" "is_latest ts t" "r = tr_body t" "query_selects q r" "w < tr_revision t"
      by (auto simp: captured_rows_def capture_selects_def query_selects_def)
    with body [OF t(1)] latest_Some_iff [OF assms, of r] show "r \<in> ?R" by auto
  next
    assume r: "r \<in> ?R"
    then obtain t where t: "t \<in> set ts" "is_latest ts t" "tr_body t = r"
      using latest_Some_iff [OF assms, of r] by blast
    from r obtain u where u: "u \<in> set ts" "tr_incident u = incident_id r" "w < tr_revision u" by blast
    then have "tr_revision u \<le> tr_revision t"
      using t body [OF t(1)] by (simp add: is_latest_def list_all_iff)
    with t u(3) r show "r \<in> ?L"
      by (force simp: captured_rows_def capture_selects_def query_selects_def)
  }
qed

lemma bm_page_snapshot:
  assumes "wf_bookmark_db db" and "find_frame token db = Some (s, pos)" and "be_uuid e token = Some token"
    and "bm_page e token i policy db = (Inr out, db')"
  shows "pr_snapshotRef (br_page out) = se_id s \<and> same_sessions db db'"
  using assms(4)
proof (cases rule: bm_page_cases)
  case (recorded res db1 s' pos' b db2 issued)
  from cursor_page_given [OF recorded(1)] assms(3)
  have run: "page (be_digest e) (be_page_bytes e) (be_ids e 0) token i policy
      (row_visible (the (be_row e))) (be_clock e 0) db = (Inr res, db1)" by simp
  have "pr_snapshotRef res = se_id s"
    using run
  proof (cases rule: page_cases)
    case (read s2 pos2 visible)
    with check_frame_Inr(1) [OF read(1)] assms(2) read(5) [of res] show ?thesis by simp
  qed simp
  moreover have "same_sessions db db1" using cursor_page_given_keeps [OF assms(1) recorded(1)] by simp
  then have s2: "same_sessions db db2" by (simp add: recorded(4) same_sessions_def)
  have "same_sessions db db'"
    using recorded(5)
  proof (elim disjE conjE exE)
    fix ir assume "bm_issue (be_digest e) (be_ids e 1) (be_clock e 1) (be_clock e 2) (be_clock e 3)
        s' b i policy db2 = (ir, db')"
    from bm_issue_cursor_fields [OF this] s2 show ?thesis by (simp add: same_sessions_def)
  qed (use s2 in simp)
  ultimately show ?thesis using recorded(6) by auto
qed simp_all

lemma bm_scope_frame:
  assumes "bm_scope dg token state parent w db = (Inr u, db')"
  shows "same_sessions db db' \<and> find_frame tk db' = find_frame tk db"
  using assms by (auto simp: bm_scope_def same_sessions_def find_frame_def split: option.splits if_splits)

lemma resume_snapshot:
  assumes wf: "wf_bookmark_db db" and ids: "be_uuid e (be_ids e 1) = Some (be_ids e 1)"
    and run: "bm_resume e bm limit i policy db = (Inr out, db')"
  shows "\<exists>k n. k \<in> set (bookmarks db) \<and> bk_token k = bm \<and> bk_identity k = bm_identity (be_digest e) i
     \<and> bk_policy k = policy \<and> history_floor db \<le> bk_watermark k
     \<and> snapshot (pr_snapshotRef (br_page out)) db'
       = captured_rows \<lparr>cq_limit = n, cq_state = bk_state k, cq_since = None\<rparr> (Some (bk_watermark k))
           (transitions db)"
proof -
  from run obtain n st k where k: "bm_query [(''limit'', limit)] = Inr (n, st)"
    "find (\<lambda>k. bk_token k = bm) (bookmarks db) = Some k" "bk_identity k = bm_identity (be_digest e) i"
    "bk_policy k = policy" "history_floor db \<le> bk_watermark k"
    and rest: "bindS (capture (be_digest e) (be_ids e 0) (be_ids e 1) (be_clock e 1) (be_clock e 2)
                 \<lparr>cq_limit = n, cq_state = bk_state k, cq_since = None\<rparr> i policy
                 (Some (bk_watermark k))) (\<lambda>token.
               bindS (bm_scope (be_digest e) token (bk_state k) (Some bm) (Some (bk_watermark k))) (\<lambda>_.
               bm_page (later_env 2 3 e) token i policy)) db = (Inr out, db')"
    unfolding bm_resume_def
    by (auto simp: bindS_Inr liftS_def raiseS_def split: prod.splits option.splits if_splits)
  from rest obtain t d1 d2 where cap: "capture (be_digest e) (be_ids e 0) (be_ids e 1) (be_clock e 1)
        (be_clock e 2) \<lparr>cq_limit = n, cq_state = bk_state k, cq_since = None\<rparr> i policy
        (Some (bk_watermark k)) db = (Inr t, d1)"
    and scope: "bm_scope (be_digest e) t (bk_state k) (Some bm) (Some (bk_watermark k)) d1 = (Inr (), d2)"
    and pg: "bm_page (later_env 2 3 e) t i policy d2 = (Inr out, db')"
    by (auto simp: bindS_Inr)
  have "wf_cursor_db db" using wf by (simp add: wf_bookmark_db_def)
  from capture_snapshot [OF this cap] obtain s where s: "t = be_ids e 1"
    "snapshot (be_ids e 0) d1 = captured_rows \<lparr>cq_limit = n, cq_state = bk_state k, cq_since = None\<rparr>
       (Some (bk_watermark k)) (transitions db)"
    "find_frame (be_ids e 1) d1 = Some (s, 0)" "se_id s = be_ids e 0" by blast
  have wf2: "wf_bookmark_db d2"
    using wf preservesD [OF capture_preserves cap] preservesD [OF bm_scope_preserves scope] by blast
  have "be_uuid (later_env 2 3 e) t = Some t" using ids s(1) by (simp add: later_env_def)
  from bm_page_snapshot [OF wf2 _ this pg] s bm_scope_frame [OF scope, of t]
  have "pr_snapshotRef (br_page out) = be_ids e 0" "same_sessions d2 db'" by auto
  then have "snapshot (pr_snapshotRef (br_page out)) db' = snapshot (be_ids e 0) d1"
    using bm_scope_frame [OF scope] same_snapshot by metis
  with k s find_some_mem [OF k(2)] show ?thesis by auto
qed

section \<open>Coverage\<close>

lemma less_ceil_div:
  fixes c l m :: nat
  assumes "0 < l"
  shows "m < (c + l - 1) div l \<longleftrightarrow> m * l < c"
proof -
  have "m < (c + l - 1) div l \<longleftrightarrow> Suc m * l \<le> c + l - 1"
    using less_eq_div_iff_mult_less_eq [OF assms, of "Suc m" "c + l - 1"] by (simp add: Suc_le_eq)
  also have "\<dots> \<longleftrightarrow> m * l < c" using assms by auto
  finally show ?thesis .
qed

lemma page_start_iff:
  assumes "0 < nat (se_page_limit s)"
  shows "page_start s k \<longleftrightarrow> (\<exists>m < pages_expected s. k = m * nat (se_page_limit s))"
proof -
  let ?l = "nat (se_page_limit s)"
  have "m < pages_expected s \<longleftrightarrow> m * ?l < se_item_count s \<or> m = 0" for m
    using less_ceil_div [OF assms, of m "se_item_count s"] by (auto simp: pages_expected_def less_max_iff_disj)
  moreover have "page_start s k \<longleftrightarrow> (\<exists>m. k = m * ?l \<and> (m * ?l < se_item_count s \<or> m = 0))"
  proof
    assume p: "page_start s k"
    then have "k = k div ?l * ?l" by (auto simp: page_start_def)
    with p show "\<exists>m. k = m * ?l \<and> (m * ?l < se_item_count s \<or> m = 0)"
      unfolding page_start_def by (metis div_0)
  qed (auto simp: page_start_def)
  ultimately show ?thesis by blast
qed

text \<open>As many complete pages as expected are all the pages there can be.\<close>

lemma full_coverage:
  assumes "pages_aligned db" and "cursor_keys db" and s: "s \<in> set (cu_sessions db)"
    and limit: "0 < nat (se_page_limit s)"
    and complete: "pages_complete (se_id s) (cu_pages db) = pages_expected s" and "page_start s k"
  shows "\<exists>p \<in> set (cu_pages db). bp_session p = se_id s \<and> bp_complete p \<and> bp_position p = k"
proof -
  let ?ps = "filter (\<lambda>p. bp_session p = se_id s \<and> bp_complete p) (cu_pages db)"
  let ?starts = "(\<lambda>m. m * nat (se_page_limit s)) ` {..<pages_expected s}"
  have inj: "inj_on se_id (set (cu_sessions db))"
    using assms(2) by (simp add: cursor_keys_def distinct_map)
  have "bp_position p \<in> ?starts" if p: "p \<in> set ?ps" for p
  proof -
    from p have m: "p \<in> set (cu_pages db)" "bp_session p = se_id s" by auto
    with assms(1) obtain x where "x \<in> set (cu_sessions db)" "se_id x = se_id s" "page_start x (bp_position p)"
      unfolding pages_aligned_def by metis
    with inj_onD [OF inj, of x s] s have "page_start s (bp_position p)" by simp
    then show ?thesis using page_start_iff [OF limit] by auto
  qed
  then have sub: "bp_position ` set ?ps \<subseteq> ?starts" by blast
  have d: "distinct (map (\<lambda>p. (bp_session p, bp_position p)) ?ps)"
    using assms(1) by (simp add: pages_aligned_def distinct_map_filter_keep)
  have "inj_on bp_position (set ?ps)"
  proof (rule inj_onI)
    fix p q assume "p \<in> set ?ps" "q \<in> set ?ps" "bp_position p = bp_position q"
    moreover have "inj_on (\<lambda>p. (bp_session p, bp_position p)) (set ?ps)" using d by (simp add: distinct_map)
    ultimately show "p = q" by (elim inj_onD) auto
  qed
  moreover have "distinct ?ps" using d by (simp add: distinct_map)
  ultimately have "card (bp_position ` set ?ps) = pages_expected s"
    using complete distinct_card [of ?ps] by (simp add: card_image pages_complete_def)
  moreover have "card ?starts = pages_expected s"
    using limit by (subst card_image) (auto simp: inj_on_def)
  ultimately have "bp_position ` set ?ps = ?starts" using sub by (intro card_subset_eq) auto
  moreover have "k \<in> ?starts" using assms(6) page_start_iff [OF limit] by auto
  ultimately have "k \<in> bp_position ` set ?ps" by simp
  then show ?thesis by auto
qed

section \<open>A run of page requests\<close>

type_synonym page_request = "bookmark_env \<times> string \<times> identity \<times> string"

fun bm_read ::
  "page_request list \<Rightarrow> 'z bookmark_db_scheme \<Rightarrow> bookmark_result res list \<times> 'z bookmark_db_scheme" where
  "bm_read [] db = ([], db)"
| "bm_read ((e, token, i, policy) # reqs) db =
     (case bm_page e token i policy db of
        (r, db1) \<Rightarrow> (case bm_read reqs db1 of (rs, db') \<Rightarrow> (r # rs, db')))"

text \<open>The answers of a run: the results that are pages.\<close>

fun answers :: "bookmark_result res list \<Rightarrow> bookmark_result list" where
  "answers [] = []"
| "answers (Inl _ # rs) = answers rs"
| "answers (Inr out # rs) = out # answers rs"

lemma set_answers: "out \<in> set (answers rs) \<longleftrightarrow> Inr out \<in> set rs"
  by (induction rs rule: answers.induct) auto

definition shown :: "string \<Rightarrow> bookmark_result list \<Rightarrow> incident \<Rightarrow> bool" where
  "shown sid outs r \<longleftrightarrow> (\<exists>out \<in> set outs. pr_snapshotRef (br_page out) = sid \<and> r \<in> set (pr_items (br_page out)))"

text \<open>Every complete page before the last one was returned to the reader.\<close>

definition pages_shown :: "cursor_session \<Rightarrow> bookmark_result list \<Rightarrow> 'z bookmark_db_scheme \<Rightarrow> bool" where
  "pages_shown s outs db \<longleftrightarrow> (\<forall>p \<in> set (cu_pages db).
     bp_session p = se_id s \<and> bp_complete p
       \<and> bp_position p + nat (se_page_limit s) < se_item_count s \<longrightarrow>
     (\<forall>r \<in> set (take (nat (se_page_limit s)) (drop (bp_position p) (snapshot (se_id s) db))).
        shown (se_id s) outs r))"

definition canonical_tokens :: "(string \<Rightarrow> string option) \<Rightarrow> 'z cursor_db_scheme \<Rightarrow> bool" where
  "canonical_tokens u db \<longleftrightarrow> (\<forall>c \<in> set (cu_cursors db). u (pc_token c) = Some (pc_token c))"

text \<open>\<open>uuid.UUID\<close> accepts the text of a fresh \<open>uuid4()\<close> as it is.\<close>

definition sound_env :: "(string \<Rightarrow> string option) \<Rightarrow> bookmark_env \<Rightarrow> bool" where
  "sound_env u e \<longleftrightarrow> be_uuid e = u \<and> (\<forall>k. u (be_ids e k) = Some (be_ids e k))"

lemma next_cursor_canonical:
  "next_cursor fresh sid pos db = (r, db') \<Longrightarrow> canonical_tokens u db \<Longrightarrow> u fresh = Some fresh
     \<Longrightarrow> canonical_tokens u db'"
  by (erule next_cursor_cases) (auto simp: canonical_tokens_def)

lemma page_canonical:
  assumes "page dg bytes fresh token i policy authorize now db = (r, db')"
    and "canonical_tokens u db" and "u fresh = Some fresh"
  shows "canonical_tokens u db'"
  using assms(1)
proof (cases rule: page_cases)
  case (unchanged e)
  with assms(2) show ?thesis by simp
next
  case (read s pos visible)
  then show ?thesis
    using next_cursor_canonical [OF _ assms(2,3)] assms(2) by (metis not_le_imp_less)
qed

lemma find_frame_token: "find_frame token db = Some (s, pos) \<Longrightarrow> token \<in> pc_token ` set (cu_cursors db)"
  by (auto simp: find_frame_def split: option.splits dest: find_some_mem)

lemma page_find_frame:
  assumes "page dg bytes fresh token i policy authorize now db = (r, db')"
    and "find_frame token db = Some f"
  shows "find_frame token db' = Some f"
proof -
  have grow: "find P (xs @ ys) = Some x" if "find P xs = Some x" for P and xs ys :: "page_cursor list" and x
    using that by (induction xs) auto
  have "find_frame token d = Some f" if "next_cursor fresh sid pos db = (q, d)" for sid pos q d
    using that assms(2)
    by (cases rule: next_cursor_cases) (auto simp: find_frame_def grow split: option.splits)
  with assms show ?thesis
    by (cases rule: page_cases) (simp, metis not_le_imp_less)
qed

text \<open>One request keeps the bookkeeping, and an issued bookmark closes it.\<close>

definition read_inv ::
  "(string \<Rightarrow> string option) \<Rightarrow> cursor_session \<Rightarrow> incident list \<Rightarrow> bookmark_result list
     \<Rightarrow> 'z bookmark_db_scheme \<Rightarrow> bool" where
  "read_inv u s snap outs db \<longleftrightarrow> wf_bookmark_db db \<and> s \<in> set (cu_sessions db)
     \<and> snapshot (se_id s) db = snap \<and> canonical_tokens u db \<and> pages_shown s outs db"

lemma pages_shown_mono:
  "pages_shown s outs db \<Longrightarrow> set outs \<subseteq> set outs' \<Longrightarrow> cu_pages db' = cu_pages db \<Longrightarrow> same_sessions db db'
     \<Longrightarrow> pages_shown s outs' db'"
  unfolding pages_shown_def shown_def by (simp add: same_snapshot) blast

text \<open>What the inner page of a recorded request read.\<close>

lemma recorded_page:
  assumes inv: "wf_bookmark_db db" "canonical_tokens u db" and env: "sound_env u e"
    and run: "cursor_page (be_digest e) (be_uuid e) (be_page_bytes e) (be_ids e) (be_clock e) (Some token)
        True q i policy auth db = (Inr res, db1)"
    and scoped: "find_scoped token db1 = Some (s, pos, b)"
  shows "canonical_tokens u db1" and "pr_snapshotRef res = se_id s" and "find_frame token db = Some (s, pos)"
    and "pr_truncated res = (pos + nat (se_page_limit s) < se_item_count s)"
    and "\<not> pr_partial res \<Longrightarrow>
      pr_items res = take (nat (se_page_limit s)) (drop pos (snapshot (se_id s) db))"
proof -
  have u: "be_uuid e = u" "u (be_ids e k) = Some (be_ids e k)" for k using env by (simp_all add: sound_env_def)
  from cursor_page_given [OF run] obtain t where t: "u token = Some t" and
    pg: "page (be_digest e) (be_page_bytes e) (be_ids e 0) t i policy auth (be_clock e 0) db = (Inr res, db1)"
    using u by auto
  show c1: "canonical_tokens u db1" by (rule page_canonical [OF pg inv(2) u(2)])
  have "token \<in> pc_token ` set (cu_cursors db1)" by (rule find_frame_token [OF find_scoped_frame [OF scoped]])
  with c1 t have tt: "t = token" by (auto simp: canonical_tokens_def)
  have wfc: "wf_cursor_db db" using inv(1) by (simp add: wf_bookmark_db_def)
  from pg obtain s2 pos2 visible where rd: "check_frame (be_digest e) t i policy (be_clock e 0) db = Inr (s2, pos2)"
    "filterE auth (page_rows s2 pos2 db) = Inr visible"
    and res: "pr_items res = visible" "pr_snapshotRef res = se_id s2"
      "pr_truncated res = (pos2 + length (page_rows s2 pos2 db) < se_item_count s2)"
      "pr_redacted res = (length visible \<noteq> length (page_rows s2 pos2 db))"
      "pr_partial res = (pr_redacted res \<or> se_history_gap s2)"
    by (cases rule: page_cases) auto
  have "find_frame token db1 = Some (s2, pos2)"
    using page_find_frame [OF pg] check_frame_Inr(1) [OF rd(1)] tt by simp
  with find_scoped_frame [OF scoped] have eq: "s2 = s" "pos2 = pos" by simp_all
  then show "pr_snapshotRef res = se_id s" "find_frame token db = Some (s, pos)"
    using res check_frame_Inr(1) [OF rd(1)] tt by simp_all
  note b = page_bound [OF wfc rd(1), unfolded eq]
  show "pr_truncated res = (pos + nat (se_page_limit s) < se_item_count s)"
    using res(3) b(2,5) unfolding eq b(3) by (auto simp: b(4) min_def)
  show "pr_items res = take (nat (se_page_limit s)) (drop pos (snapshot (se_id s) db))" if "\<not> pr_partial res"
  proof -
    have v: "visible = filter (\<lambda>r. auth r = Inr True) (page_rows s pos db)"
      using filterE_Inr [OF rd(2)] eq by simp
    moreover have "length visible = length (page_rows s pos db)" using that res(4,5) eq by simp
    ultimately have "visible = page_rows s pos db"
      by (metis filter_id_conv length_filter_less less_irrefl)
    then show ?thesis using res(1) b(3) by simp
  qed
qed

lemma nth_in_page:
  assumes "j < length xs" and "k \<le> j" and "j < k + l"
  shows "xs ! j \<in> set (take l (drop k xs))"
proof -
  obtain d where d: "j = k + d" using assms(2) le_Suc_ex by blast
  with assms have "take l (drop k xs) ! d = xs ! j" "d < length (take l (drop k xs))" by auto
  then show ?thesis using nth_mem by metis
qed

lemma read_step:
  assumes inv: "read_inv u s snap outs db" and env: "sound_env u e"
    and run: "bm_page e token i policy db = (r, db')"
    and fits: "r \<noteq> Inl (CursorRejected 503 ''OPERATIONAL_RESPONSE_CAPACITY'')"
  shows "read_inv u s snap (case r of Inl _ \<Rightarrow> outs | Inr out \<Rightarrow> outs @ [out]) db'
     \<and> (\<forall>out. r = Inr out \<and> br_issued out \<noteq> None \<and> pr_snapshotRef (br_page out) = se_id s \<longrightarrow>
          (\<forall>x \<in> set snap. shown (se_id s) (outs @ [out]) x))"
    (is "read_inv u s snap ?outs db' \<and> ?closed")
  using run
proof (cases rule: bm_page_cases)
  case (refused x)
  with inv show ?thesis by simp
next
  case (unrecorded x res db1)
  have wf: "wf_bookmark_db db" using inv by (simp add: read_inv_def)
  note k = cursor_page_given_keeps [OF wf unrecorded(3)]
  have "canonical_tokens u db1"
    using cursor_page_given [OF unrecorded(3)]
  proof (elim disjE exE conjE)
    fix t assume "page (be_digest e) (be_page_bytes e) (be_ids e 0) t i policy
        (row_visible (the (be_row e))) (be_clock e 0) db = (res, db1)"
    from page_canonical [OF this] inv env show ?thesis by (simp add: read_inv_def sound_env_def)
  qed (use inv in \<open>simp add: read_inv_def\<close>)
  with inv k pages_shown_mono [of s outs db outs db1] unrecorded(1,2) show ?thesis
    by (simp add: read_inv_def same_sessions_def snapshot_def session_items_def)
next
  case (recorded res db1 s' pos b db2 issued)
  let ?l = "nat (se_page_limit s)"
  have wf: "wf_bookmark_db db" "canonical_tokens u db" using inv by (simp_all add: read_inv_def)
  note k = cursor_page_given_keeps [OF wf(1) recorded(1)]
  note rp = recorded_page [OF wf env recorded(1,2)]
  have after: "cu_sessions db' = cu_sessions db2" "cu_items db' = cu_items db2" "cu_cursors db' = cu_cursors db2"
    "cu_pages db' = cu_pages db2"
    using recorded(5) bm_issue_cursor_fields by (metis (no_types, lifting))+
  have same2: "same_sessions db db2" using k by (simp add: recorded(4) same_sessions_def)
  have sess: "s \<in> set (cu_sessions db2)" and snap: "snapshot (se_id s) db2 = snap"
    using inv same2 same_snapshot [OF same2] by (simp_all add: read_inv_def same_sessions_def)
  have s': "s' \<in> set (cu_sessions db)"
    using find_frame_Some [OF rp(3)] wf(1) by (simp add: wf_bookmark_db_def wf_cursor_db_def)
  have keys: "cursor_keys db" "sessions_filled db"
    using wf(1) by (simp_all add: wf_bookmark_db_def wf_cursor_db_def)
  then have "inj_on se_id (set (cu_sessions db))" by (simp add: cursor_keys_def distinct_map)
  then have uniq: "s' = s" if "se_id s' = se_id s"
    using that s' inv by (auto simp: read_inv_def dest: inj_onD)
  have shown2: "pages_shown s ?outs db2"
    unfolding pages_shown_def snap
  proof (intro ballI impI, elim conjE)
    fix p x
    assume p: "p \<in> set (cu_pages db2)" "bp_session p = se_id s" "bp_complete p"
      "bp_position p + ?l < se_item_count s" and x: "x \<in> set (take ?l (drop (bp_position p) snap))"
    from p(1) consider "p \<in> set (cu_pages db)"
      | "bp_session p = se_id s'" "bp_position p = pos" "\<not> pr_partial res"
      using k p(3) by (auto simp: recorded(4) put_page_set)
    then show "shown (se_id s) ?outs x"
    proof cases
      case 1
      with inv p x have "shown (se_id s) outs x" by (auto simp: read_inv_def pages_shown_def)
      then show ?thesis by (auto simp: shown_def split: sum.splits)
    next
      case 2
      with p(2) uniq have e: "s' = s" by simp
      with p(4) 2 rp(4) have tr: "pr_truncated res" by simp
      with recorded(5) have "issued = None" by auto
      with recorded(7) tr fits have "r = Inr \<lparr>br_page = res, br_issued = None\<rparr>" by blast
      moreover have "x \<in> set (pr_items res)"
        using rp(5) 2 e x snap same_snapshot [OF same2] by simp
      ultimately show ?thesis using rp(2) e by (auto simp: shown_def)
    qed
  qed
  have "wf_bookmark_db db'" using preservesD [OF bm_page_wf run wf(1)] .
  then have inv': "read_inv u s snap ?outs db'"
    using shown2 sess snap rp(1) after
    by (auto simp: read_inv_def pages_shown_def snapshot_def session_items_def canonical_tokens_def recorded(4))
  have ?closed
  proof (intro allI impI ballI, elim conjE)
    fix out x
    assume out: "r = Inr out" "br_issued out \<noteq> None" "pr_snapshotRef (br_page out) = se_id s" and x: "x \<in> set snap"
    from out recorded(6) have o: "out = \<lparr>br_page = res, br_issued = issued\<rparr>" "issued \<noteq> None" by auto
    with out(3) rp(2) uniq have e: "s' = s" by simp
    from o(2) recorded(5) have c: "\<not> pr_truncated res" "\<not> pr_partial res"
      "pages_complete (se_id s) (cu_pages db2) = pages_expected s" using e by auto
    have len: "length snap = se_item_count s"
      using snapshot_length [OF keys(2) s'] e inv by (simp add: read_inv_def)
    have lim: "0 < ?l" using keys(2) s' e by (auto simp: sessions_filled_def)
    have start: "page_start s pos"
      using page_frame_start [OF _ rp(3)] wf(1) e by (simp add: wf_bookmark_db_def)
    from x obtain j where j: "j < length snap" "x = snap ! j" by (auto simp: in_set_conv_nth)
    show "shown (se_id s) (outs @ [out]) x"
    proof (cases "pos \<le> j")
      case True
      have "take ?l (drop pos snap) = drop pos snap" using c(1) rp(4) e len by simp
      then have "pr_items res = drop pos snap"
        using rp(5) [OF c(2)] e snap same_snapshot [OF same2] by simp
      then have "x \<in> set (pr_items res)"
        using True j by (auto simp: in_set_conv_nth intro!: exI [of _ "j - pos"])
      then show ?thesis using o rp(2) e by (auto simp: shown_def)
    next
      case False
      let ?k = "j div ?l * ?l"
      have kj: "?k \<le> j" "j < ?k + ?l"
        using dividend_less_div_times [OF lim, of j] by (simp_all add: add.commute)
      have "pos = pos div ?l * ?l" using start by (auto simp: page_start_def)
      moreover have "j div ?l < pos div ?l"
        using False start lim by (metis page_start_def div_less_iff_less_mult mod_eq_0_iff_dvd
            dvd_div_mult_self not_le)
      ultimately have kp: "?k + ?l \<le> pos"
        by (metis Suc_leI add.commute mult_Suc mult_le_mono1)
      have "pos < se_item_count s" using start False by (auto simp: page_start_def)
      with kp have kc: "?k + ?l < se_item_count s" by simp
      then have "page_start s ?k" by (simp add: page_start_def)
      have wf2: "pages_aligned db2" "cursor_keys db2"
        using \<open>wf_bookmark_db db'\<close> after
        by (simp_all add: wf_bookmark_db_def wf_cursor_db_def cursor_keys_def pages_aligned_def)
      from full_coverage [OF wf2 sess lim c(3) \<open>page_start s ?k\<close>]
      obtain p where p: "p \<in> set (cu_pages db2)" "bp_session p = se_id s" "bp_complete p" "bp_position p = ?k"
        by blast
      have "x \<in> set (take ?l (drop ?k snap))"
        unfolding j(2) by (rule nth_in_page [OF j(1) kj])
      then have "shown (se_id s) ?outs x"
        using bspec [OF shown2 [unfolded pages_shown_def snap] p(1)] p(2-4) kc by simp
      then show ?thesis using out(1) by simp
    qed
  qed
  with inv' show ?thesis by blast
qed

lemma read_run:
  assumes "read_inv u s snap outs db" and "\<forall>(e, token, i, policy) \<in> set reqs. sound_env u e"
    and "bm_read reqs db = (rs, db')" and "Inl (CursorRejected 503 ''OPERATIONAL_RESPONSE_CAPACITY'') \<notin> set rs"
    and "Inr out \<in> set rs" and "br_issued out \<noteq> None" and "pr_snapshotRef (br_page out) = se_id s"
  shows "\<forall>x \<in> set snap. shown (se_id s) (outs @ answers rs) x"
  using assms(1-5)
proof (induction reqs arbitrary: outs db rs)
  case Nil
  then show ?case by simp
next
  case (Cons q reqs)
  obtain e token i policy where q: "q = (e, token, i, policy)" by (cases q) auto
  obtain r db1 where step: "bm_page e token i policy db = (r, db1)" by (cases "bm_page e token i policy db")
  obtain tail where rest: "bm_read reqs db1 = (tail, db')" and rs: "rs = r # tail"
    using Cons.prems(3) q step by (cases "bm_read reqs db1") auto
  have env: "sound_env u e" "\<forall>(e, token, i, policy) \<in> set reqs. sound_env u e"
    using Cons.prems(2) q by auto
  have fits: "r \<noteq> Inl (CursorRejected 503 ''OPERATIONAL_RESPONSE_CAPACITY'')" "Inl (CursorRejected 503 ''OPERATIONAL_RESPONSE_CAPACITY'') \<notin> set tail" using Cons.prems(4) rs by auto
  note st = read_step [OF Cons.prems(1) env(1) step fits(1)]
  show ?case
  proof (cases r)
    case (Inl x)
    with Cons.IH [OF _ env(2) rest fits(2)] st Cons.prems(5) rs show ?thesis by simp
  next
    case (Inr new)
    show ?thesis
    proof (cases "out = new")
      case True
      with st Inr assms(6,7) have "\<forall>x \<in> set snap. shown (se_id s) (outs @ [new]) x" by blast
      with rs Inr show ?thesis by (auto simp: shown_def)
    next
      case False
      with Cons.prems(5) rs Inr have "Inr out \<in> set tail" by simp
      from Cons.IH [OF _ env(2) rest fits(2) this, of "outs @ [new]"] st Inr
      have "\<forall>x \<in> set snap. shown (se_id s) ((outs @ [new]) @ answers tail) x" by simp
      with rs Inr show ?thesis by simp
    qed
  qed
qed

section \<open>The guarantees\<close>

text \<open>
  C7. Whoever holds a bookmark has read everything before it: in any run of page requests on a
  session of which no page was read before, in which no request was refused because its answer was
  too large, when one of the answers carries an issued bookmark, every item of the session's
  snapshot was in one of the returned pages. Other refusals in between do no harm.
\<close>

theorem bookmark_means_seen:
  assumes "wf_bookmark_db db" and "s \<in> set (cu_sessions db)"
    and "\<forall>p \<in> set (cu_pages db). bp_session p \<noteq> se_id s" and "canonical_tokens u db"
    and "\<forall>(e, token, i, policy) \<in> set reqs. sound_env u e" and "bm_read reqs db = (rs, db')"
    and "Inl (CursorRejected 503 ''OPERATIONAL_RESPONSE_CAPACITY'') \<notin> set rs"
    and "Inr out \<in> set rs" and "br_issued out \<noteq> None" and "pr_snapshotRef (br_page out) = se_id s"
  shows "\<forall>x \<in> set (snapshot (se_id s) db). \<exists>page. Inr page \<in> set rs
     \<and> pr_snapshotRef (br_page page) = se_id s \<and> x \<in> set (pr_items (br_page page))"
proof -
  have "read_inv u s (snapshot (se_id s) db) [] db"
    using assms(1-4) by (simp add: read_inv_def pages_shown_def)
  from read_run [OF this assms(5-10)] show ?thesis by (simp add: shown_def set_answers [symmetric] bex_simps) blast
qed

text \<open>
  C10. A resume that answers reads a bookmark of the same identity and policy that is above the
  history floor, and its new snapshot holds exactly the current rows, in the bookmark's state
  filter, of the incidents with a transition after the bookmark's watermark: nothing published
  since is missed and nothing older is repeated.
\<close>

theorem resume_reads_what_changed:
  assumes "wf_bookmark_db db" and "wf_incident_db db" and "be_uuid e (be_ids e 1) = Some (be_ids e 1)"
    and "bm_resume e bm limit i policy db = (Inr out, db')"
  shows "\<exists>k \<in> set (bookmarks db). bk_token k = bm \<and> bk_identity k = bm_identity (be_digest e) i
     \<and> bk_policy k = policy \<and> history_floor db \<le> bk_watermark k
     \<and> set (snapshot (pr_snapshotRef (br_page out)) db') =
         {r. latest (transitions db) (incident_id r) = Some r
           \<and> (given (bk_state k) \<longrightarrow> lifecycle_of (the (bk_state k)) = Some (lifecycle_state r))
           \<and> (\<exists>t \<in> set (transitions db). tr_incident t = incident_id r \<and> bk_watermark k < tr_revision t)}"
proof -
  have h: "history_current (incidents db) (transitions db)" using assms(2) by (simp add: wf_incident_db_def)
  from resume_snapshot [OF assms(1,3,4)] obtain k n where k: "k \<in> set (bookmarks db)" "bk_token k = bm"
    "bk_identity k = bm_identity (be_digest e) i" "bk_policy k = policy" "history_floor db \<le> bk_watermark k"
    and snap: "snapshot (pr_snapshotRef (br_page out)) db'
       = captured_rows \<lparr>cq_limit = n, cq_state = bk_state k, cq_since = None\<rparr> (Some (bk_watermark k))
           (transitions db)" by blast
  show ?thesis
    by (rule bexI [OF _ k(1)], intro conjI k(2-5))
      (simp add: snap captured_since [OF h] query_selects_def given_def [of None])
qed

text \<open>
  Starting, resuming and reading pages keep the cursor tables well-formed, every recorded page
  at the start of a page of an existing session, bookmark tokens unique and the bookmarks within
  their capacities (32768, 4096 of a tenant, 512 of a principal).
\<close>

theorem bookmark_ops_preserve_wf:
  assumes "wf_bookmark_db db"
  shows "wf_bookmark_db (snd (bm_start e q i policy db)) \<and> wf_bookmark_db (snd (bm_page e token i policy db))
     \<and> wf_bookmark_db (snd (bm_resume e bm limit i policy db))"
  by (intro conjI preserves_snd [where I = wf_bookmark_db] assms bm_start_preserves bm_page_wf
      bm_resume_preserves)

definition sample_reader :: identity where
  "sample_reader = \<lparr>id_principal = ''p'', id_tenant = ''n'', id_claims = [(''actor'', JStr ''HUMAN'')]\<rparr>"

definition sample_env :: bookmark_env where
  "sample_env = \<lparr>be_collection = Some (\<lambda>_ _. Inr True), be_row = Some (\<lambda>_. Inr (JBool True)),
     be_digest = (\<lambda>_. ''d''), be_uuid = Some, be_page_bytes = (\<lambda>_. 0), be_bytes = (\<lambda>_. 0),
     be_ids = (\<lambda>k. replicate k CHR ''x''), be_clock = (\<lambda>_. 0)\<rparr>"

definition sample_session :: cursor_session where
  "sample_session = \<lparr>se_id = ''s'', se_principal = ''p'', se_tenant = ''n'', se_fingerprint = ''d'',
     se_policy_ref = ''v1'', se_page_limit = 5, se_created_at = iso_z 0, se_expires_at = ''z'',
     se_history_gap = False, se_watermark = 1, se_item_count = 1\<rparr>"

definition sample_bookmark_db :: bookmark_db where
  "sample_bookmark_db = \<lparr>incidents = [sample_row],
     transitions = [\<lparr>tr_revision = 1, tr_incident = ''u1'', tr_body = sample_row\<rparr>],
     history_baseline = Some [], cu_sessions = [sample_session],
     cu_items = [\<lparr>pi_session = ''s'', pi_position = 0, pi_body = sample_row\<rparr>],
     cu_cursors = [\<lparr>pc_token = ''t'', pc_session = ''s'', pc_position = 0\<rparr>],
     cu_scopes = [\<lparr>bs_session = ''s'', bs_state = None, bs_parent = None, bs_frame_digest = ''d'',
       bs_parent_watermark = None\<rparr>],
     cu_pages = [], bookmarks = [\<lparr>bk_token = ''b'', bk_session = ''s0'', bk_principal = ''p'',
       bk_tenant = ''n'', bk_identity = ''d'', bk_policy = ''v1'', bk_state = None, bk_watermark = 0,
       bk_parent = None, bk_created_at = [], bk_expires_at = ''z''\<rparr>], history_floor = 0\<rparr>"

lemma sample_now: "iso_z 0 < ''z''"
  by (simp add: iso_z_def iso_date_def iso_seconds_def ord2ymd_def Let_def days_before_month_def
        days_in_month_def digit_def less_char_def)

lemma sample_now': "\<not> ''z'' \<le> iso_z 0"
  using sample_now by (simp add: not_le)

lemma sample_bookmark_db_wf: "wf_bookmark_db sample_bookmark_db" "wf_incident_db sample_bookmark_db"
proof -
  show "wf_bookmark_db sample_bookmark_db"
    by (simp add: wf_bookmark_db_def wf_cursor_db_def cursor_keys_def sessions_filled_def
        within_capacity_def pages_aligned_def bookmarks_bounded_def sample_bookmark_db_def
        sample_session_def session_items_def item_total_def tenant_sessions_def
        principal_sessions_def page_start_def)
  show "wf_incident_db sample_bookmark_db"
    using new_incident_wf
    by (simp add: wf_incident_db_def history_current_def latest_def sample_bookmark_db_def
        sample_row_def new_incident_def)
qed

lemmas page_eval = bm_page_def bm_authorize_def cursor_page_def page_def check_frame_def find_frame_def
  page_rows_def row_visible_def find_scoped_def record_page_def put_page_def pages_complete_def
  pages_expected_def frame_digest_def bm_issue_def bm_issue_body_def transaction_def
  first_equivalent_def equivalent_bookmark_def drop_bookmark_def bookmark_capacity_def
  io_defs claim_def bm_identity_def Let_def

lemma sample_page:
  "\<exists>out db'. bm_page sample_env ''t'' sample_reader ''v1'' sample_bookmark_db = (Inr out, db')
     \<and> br_issued out \<noteq> None \<and> pr_snapshotRef (br_page out) = ''s''"
  by (simp add: page_eval sample_env_def sample_reader_def sample_bookmark_db_def sample_session_def
      sample_now sample_now' ex_bool_eq)

theorem bookmark_means_seen_witness:
  "\<exists>out db'. bm_read [(sample_env, ''t'', sample_reader, ''v1'')] sample_bookmark_db = ([Inr out], db')
     \<and> sample_row \<in> set (pr_items (br_page out))"
proof -
  obtain out db' where page: "bm_page sample_env ''t'' sample_reader ''v1'' sample_bookmark_db = (Inr out, db')"
    "br_issued out \<noteq> None" "pr_snapshotRef (br_page out) = ''s''" using sample_page by blast
  then have run: "bm_read [(sample_env, ''t'', sample_reader, ''v1'')] sample_bookmark_db = ([Inr out], db')"
    by simp
  have env: "\<forall>(e, token, i, policy) \<in> set [(sample_env, ''t'', sample_reader, ''v1'')]. sound_env Some e"
    by (simp add: sound_env_def sample_env_def)
  have "sample_session \<in> set (cu_sessions sample_bookmark_db)"
    "\<forall>p \<in> set (cu_pages sample_bookmark_db). bp_session p \<noteq> se_id sample_session"
    "canonical_tokens Some sample_bookmark_db" "se_id sample_session = ''s''"
    "sample_row \<in> set (snapshot ''s'' sample_bookmark_db)"
    by (simp_all add: sample_bookmark_db_def canonical_tokens_def snapshot_def session_items_def
        sample_session_def)
  with bookmark_means_seen [OF sample_bookmark_db_wf(1) this(1-3) env run _ _ page(2)] page(3) run
  show ?thesis by auto
qed

lemma sample_resume:
  "\<exists>out db'. bm_resume sample_env ''b'' (JInt 5) sample_reader ''v1'' sample_bookmark_db = (Inr out, db')"
proof -
  have later: "iso_z 0 < iso_z (minutes 30)"
    by (simp add: iso_z_def iso_date_def iso_seconds_def ord2ymd_def Let_def days_before_month_def
        days_in_month_def digit_def minutes_def less_char_def)
  show ?thesis
    by (simp add: bm_resume_def bm_query_def query_limit_def dict_keys_def nil_uuid_def capture_def
        capture_body_def drop_expired_def first_expired_def available_items_def session_capacity_def
        tenant_sessions_def principal_sessions_def item_total_def captured_rows_def is_latest_def
        capture_selects_def given_def last_revision_def bm_scope_def later_env_def Let_def
        page_eval sample_env_def sample_reader_def sample_bookmark_db_def sample_session_def
        sample_now sample_now' later not_le [THEN iffD2, OF later] numeral_2_eq_2 numeral_3_eq_3)
qed

theorem resume_reads_what_changed_witness:
  "\<exists>out db'. bm_resume sample_env ''b'' (JInt 5) sample_reader ''v1'' sample_bookmark_db = (Inr out, db')
     \<and> sample_row \<in> set (snapshot (pr_snapshotRef (br_page out)) db')"
proof -
  obtain out db' where run:
    "bm_resume sample_env ''b'' (JInt 5) sample_reader ''v1'' sample_bookmark_db = (Inr out, db')"
    using sample_resume by blast
  have "be_uuid sample_env (be_ids sample_env 1) = Some (be_ids sample_env 1)" by (simp add: sample_env_def)
  from resume_reads_what_changed [OF sample_bookmark_db_wf this run]
  show ?thesis using run
    by (auto simp: sample_bookmark_db_def latest_def given_def sample_row_def new_incident_def)
qed

theorem bookmark_ops_preserve_wf_witness:
  "wf_bookmark_db (snd (bm_resume sample_env ''b'' (JInt 5) sample_reader ''v1'' sample_bookmark_db))"
  using bookmark_ops_preserve_wf [OF sample_bookmark_db_wf(1)] by blast

section \<open>A refused page counts as read\<close>









end
