(* ===== verification/Owner_Api.thy ===== *)
theory Owner_Api
  imports Bookmark_Safety
begin

text \<open>
  The operational owner API, \<open>tools/gateway_operational_api.py\<close>, on top of the incident store, its
  cursors and bookmarks. The owner's local authorization is a parameter that may answer differently
  at the stages of one request: the first collection decision, the decisions on rows and the repeated
  collection decisions. Parsing the body, \<open>uuid.UUID\<close>, digests, rendered lengths, fresh tokens and the
  clock are parameters.
\<close>

section \<open>Requests and answers\<close>

datatype ask_stage = First | Row | Again

type_synonym owner_authorize = "ask_stage \<Rightarrow> (string, string) dict \<Rightarrow> string \<Rightarrow> json \<Rightarrow> json res"

record api_env =
  ae_owner :: "owner_authorize option"
  ae_loads :: "string \<Rightarrow> json res"
  ae_fromiso :: "string \<Rightarrow> iso_parse"
  ae_digest :: "json \<Rightarrow> string"
  ae_uuid :: "string \<Rightarrow> string option"
  ae_page_bytes :: "page_result \<Rightarrow> nat"
  ae_bookmark_bytes :: "bookmark_result \<Rightarrow> nat"
  ae_ids :: "nat \<Rightarrow> string"
  ae_clock :: "nat \<Rightarrow> nat"

text \<open>\<open>status\<close> is only in a summary, \<open>unavailable\<close> only when rows are redacted.\<close>

record listing =
  ls_items :: "incident list"
  ls_partial :: bool
  ls_truncated :: bool
  ls_status :: "string option"
  ls_unavailable :: bool

datatype api_result =
    Listing listing
  | Page page_result
  | Bookmarked bookmark_result

datatype api_body =
    Code string
  | Retry string bool
  | Result api_result

type_synonym api_response = "nat \<times> api_body"

definition incidents_path :: string where
  "incidents_path = ''/api/internal/v1/gateway/operations/incidents''"

definition summary_path :: string where
  "summary_path = ''/api/internal/v1/gateway/operations/summary''"

text \<open>\<open>headers.get(k)\<close> as a value: absent is empty here, as both fail the same test.\<close>

definition header_value :: "(string, string) dict \<Rightarrow> string \<Rightarrow> string" where
  "header_value hs k = (case map_of hs k of None \<Rightarrow> [] | Some v \<Rightarrow> v)"

section \<open>The owner's decision\<close>

definition resource_json :: "string \<Rightarrow> (string \<times> string option) option \<Rightarrow> json" where
  "resource_json tenant row = JObj [(''type'', JStr ''operational''), (''id'', jopt (\<lambda>r. JStr (fst r)) row),
     (''tenant'', JStr tenant), (''attributes'', JObj ([(''module'', JStr ''GATEWAY''),
       (''incidentScope'', JStr ''PLATFORM''), (''detailLevel'', JStr ''RESTRICTED_OPERATIONAL'')] @
       (case row of Some (_, Some endpoint) \<Rightarrow> if endpoint = [] then [] else [(''endpointRef'', JStr endpoint)]
        | _ \<Rightarrow> [])))]"

definition owner_decision ::
  "owner_authorize option \<Rightarrow> ask_stage \<Rightarrow> (string, string) dict \<Rightarrow> string \<Rightarrow> (string \<times> string option) option
     \<Rightarrow> (json \<times> string) res" where
  "owner_decision owner st hs capability row =
     (case owner of
        None \<Rightarrow> Inl (CursorRejected 503 ''OWNER_LOCAL_AUTHORIZATION_UNAVAILABLE'')
      | Some f \<Rightarrow>
          let tenant = header_value hs ''X-OUF-Tenant-ID''; resource = resource_json tenant row in
          if tenant = [] then Inl (CursorRejected 403 ''TENANT_CONTEXT_REQUIRED'')
          else bindE (f st hs capability resource) (\<lambda>d.
            if jlookup d ''allowed'' \<noteq> Some (JBool True)
            then Inl (CursorRejected 403 ''OWNER_CAPABILITY_DENIED'')
            else (case jlookup d ''identity'' of
                Some (JObj claims) \<Rightarrow>
                  let claimed = (\<lambda>k. case map_of claims k of None \<Rightarrow> JNull | Some v \<Rightarrow> v) in
                  if claimed ''principal'' \<noteq> JStr (header_value hs ''X-OUF-Principal-ID'') \<or> claimed ''tenant'' \<noteq> JStr tenant
                  then Inl (CursorRejected 403 ''OWNER_IDENTITY_UNPROVEN'')
                  else if \<not> hashable (claimed ''actor'') then Inl (TypeError ''unhashable type'')
                  else if claimed ''actor'' \<notin> JStr ` {''HUMAN'', ''SERVICE'', ''AI_AGENT''}
                  then Inl (CursorRejected 403 ''OWNER_IDENTITY_UNPROVEN'')
                  else if (case jlookup d ''resource'' of None \<Rightarrow> True | Some r \<Rightarrow> \<not> json_eq r resource)
                     \<or> jlookup d ''permittedDetailLevel'' \<noteq> Some (JStr ''RESTRICTED_OPERATIONAL'')
                  then Inl (CursorRejected 403 ''OWNER_RESOURCE_GRANT_UNPROVEN'')
                  else (case jlookup d ''policyRef'' of
                      Some (JStr p) \<Rightarrow>
                        if p = [] then Inl (CursorRejected 403 ''OWNER_RESOURCE_GRANT_UNPROVEN'')
                        else Inr (JObj claims, p)
                    | _ \<Rightarrow> Inl (CursorRejected 403 ''OWNER_RESOURCE_GRANT_UNPROVEN''))
              | _ \<Rightarrow> Inl (CursorRejected 403 ''OWNER_IDENTITY_UNPROVEN''))))"

text \<open>The identity of the decision, as the store takes it.\<close>

fun identity_of :: "json \<Rightarrow> identity" where
  "identity_of (JObj claims) =
     \<lparr>id_principal = (case map_of claims ''principal'' of Some (JStr s) \<Rightarrow> s | _ \<Rightarrow> []),
      id_tenant = (case map_of claims ''tenant'' of Some (JStr s) \<Rightarrow> s | _ \<Rightarrow> []),
      id_claims = filter (\<lambda>(k, _). k \<notin> {''principal'', ''tenant''}) claims\<rparr>"
| "identity_of _ = \<lparr>id_principal = [], id_tenant = [], id_claims = []\<rparr>"

definition same_decision :: "json \<times> string \<Rightarrow> json \<times> string \<Rightarrow> bool res" where
  "same_decision d d' =
     (if \<not> json_eq (fst d) (fst d') \<or> snd d \<noteq> snd d' then Inl (CursorRejected 409 ''OPERATIONAL_POLICY_CHANGED'')
      else Inr True)"

definition visible ::
  "owner_authorize option \<Rightarrow> (string, string) dict \<Rightarrow> string \<Rightarrow> json \<times> string \<Rightarrow> incident \<Rightarrow> bool res" where
  "visible owner hs capability d r =
     (case owner_decision owner Row hs capability (Some (incident_id r, endpoint_ref r)) of
        Inl (CursorRejected status code) \<Rightarrow> if status = 403 then Inr False else Inl (CursorRejected status code)
      | Inl e \<Rightarrow> Inl e
      | Inr d' \<Rightarrow> same_decision d' d)"

definition collection ::
  "owner_authorize option \<Rightarrow> (string, string) dict \<Rightarrow> string \<Rightarrow> json \<times> string \<Rightarrow> identity \<Rightarrow> string \<Rightarrow> bool res" where
  "collection owner hs capability d i policy = bindE (owner_decision owner Again hs capability None) (\<lambda>d'. same_decision d' d)"

section \<open>The query\<close>

definition canonical_uuid :: "(string \<Rightarrow> string option) \<Rightarrow> json \<Rightarrow> bool" where
  "canonical_uuid uuid v = (case v of JStr s \<Rightarrow> uuid s = Some s \<and> s \<noteq> nil_uuid | _ \<Rightarrow> False)"

fun is_text :: "json \<Rightarrow> bool" where
  "is_text (JStr _) = True"
| "is_text _ = False"

definition query_shape :: "(string \<Rightarrow> string option) \<Rightarrow> bool \<Rightarrow> (string, json) dict \<Rightarrow> bool" where
  "query_shape uuid wide q \<longleftrightarrow>
     (let keys = set (dict_keys q); get = map_of q in
      keys \<subseteq> (if wide then {''limit'', ''since'', ''state'', ''snapshot'', ''cursor'', ''coverage'', ''resumeFrom''}
              else {''limit'', ''since''})
      \<and> list_all (\<lambda>(_, v). v \<noteq> JNull) q
      \<and> get ''coverage'' \<in> {None, Some (JBool True)}
      \<and> (case get ''resumeFrom'' of
           Some v \<Rightarrow> keys \<subseteq> {''resumeFrom'', ''limit''} \<and> canonical_uuid uuid v
         | None \<Rightarrow> (case get ''cursor'' of
             Some v \<Rightarrow> keys = (if get ''coverage'' \<noteq> None then {''cursor'', ''coverage''} else {''cursor''})
               \<and> is_text v \<and> (get ''coverage'' \<noteq> None \<longrightarrow> canonical_uuid uuid v)
           | None \<Rightarrow> get ''coverage'' = None
               \<or> get ''snapshot'' = Some (JBool True) \<and> keys \<subseteq> {''snapshot'', ''coverage'', ''state'', ''limit''}))
      \<and> get ''snapshot'' \<in> {None, Some (JBool True), Some (JBool False)})"

definition valid_limit :: "(string, json) dict \<Rightarrow> bool" where
  "valid_limit q = (case query_limit q of JInt n \<Rightarrow> 1 \<le> n \<and> n \<le> 100 | _ \<Rightarrow> False)"

definition query_body :: "api_env \<Rightarrow> string \<Rightarrow> json res" where
  "query_body e body =
     (if body = [] then Inr (JObj [])
      else if 65536 < length body then Inl (ValueError ''size'')
      else ae_loads e body)"

definition normalized_since :: "api_env \<Rightarrow> (string, json) dict \<Rightarrow> (string, json) dict res" where
  "normalized_since e q =
     (case map_of q ''since'' of
        None \<Rightarrow> Inr q
      | Some (JStr s) \<Rightarrow> (case normalize_since (ae_fromiso e) s of
            Inl _ \<Rightarrow> Inl (CursorRejected 400 ''OPERATIONAL_SINCE_INVALID'')
          | Inr t \<Rightarrow> Inr (dict_set ''since'' (JStr t) q))
      | Some _ \<Rightarrow> Inl (CursorRejected 400 ''OPERATIONAL_SINCE_INVALID''))"

definition api_query :: "api_env \<Rightarrow> string \<Rightarrow> bool \<Rightarrow> (string, json) dict res" where
  "api_query e body wide =
     (case query_body e body of
        Inl (ValueError _) \<Rightarrow> Inl (CursorRejected 400 ''OPERATIONAL_QUERY_INVALID'')
      | Inl (TypeError _) \<Rightarrow> Inl (CursorRejected 400 ''OPERATIONAL_QUERY_INVALID'')
      | Inl x \<Rightarrow> Inl x
      | Inr (JObj q) \<Rightarrow>
          if \<not> query_shape (ae_uuid e) wide q then Inl (CursorRejected 400 ''OPERATIONAL_QUERY_INVALID'')
          else if \<not> valid_limit q then Inl (CursorRejected 400 ''OPERATIONAL_LIMIT_INVALID'')
          else if map_of q ''state'' \<notin> {None} \<union> (Some ` JStr ` {''OPEN'', ''RECOVERING'', ''RESOLVED''})
          then Inl (CursorRejected 400 ''OPERATIONAL_STATE_INVALID'')
          else normalized_since e q
      | Inr _ \<Rightarrow> Inl (CursorRejected 400 ''OPERATIONAL_QUERY_INVALID''))"

section \<open>Handling a request\<close>

definition int_of :: "json \<Rightarrow> int" where
  "int_of v = (case v of JInt n \<Rightarrow> n | _ \<Rightarrow> 0)"

definition text_of :: "json option \<Rightarrow> string option" where
  "text_of v = (case v of Some (JStr s) \<Rightarrow> Some s | _ \<Rightarrow> None)"

definition listing_of :: "bool \<Rightarrow> int \<Rightarrow> incident list \<Rightarrow> incident list \<Rightarrow> listing" where
  "listing_of brief limit items seen =
     (let truncated = (limit < int (length items));
          redacted = (length seen \<noteq> length (take (nat limit) items));
          states = lifecycle_state ` set seen;
          status = (if truncated \<or> redacted then ''UNKNOWN'' else if OPEN \<in> states then ''DEGRADED''
            else if RECOVERING \<in> states then ''RECOVERING'' else ''HEALTHY'')
      in \<lparr>ls_items = seen, ls_partial = (redacted \<or> brief \<and> truncated), ls_truncated = truncated,
          ls_status = (if brief then Some status else None), ls_unavailable = redacted\<rparr>)"

definition bookmark_env_of ::
  "api_env \<Rightarrow> (string, string) dict \<Rightarrow> string \<Rightarrow> json \<times> string \<Rightarrow> bookmark_env" where
  "bookmark_env_of e hs capability d =
     \<lparr>be_collection = Some (collection (ae_owner e) hs capability d),
      be_row = Some (\<lambda>r. bindE (visible (ae_owner e) hs capability d r) (\<lambda>b. Inr (JBool b))),
      be_digest = ae_digest e, be_uuid = ae_uuid e, be_page_bytes = ae_page_bytes e,
      be_bytes = ae_bookmark_bytes e, be_ids = ae_ids e, be_clock = ae_clock e\<rparr>"

definition bookmark_answer ::
  "api_env \<Rightarrow> (string, string) dict \<Rightarrow> string \<Rightarrow> json \<times> string \<Rightarrow> (string, json) dict
     \<Rightarrow> ('z bookmark_db_scheme, bookmark_result) io" where
  "bookmark_answer e hs capability d q =
     (let env = bookmark_env_of e hs capability d; i = identity_of (fst d) in
      case text_of (map_of q ''resumeFrom'') of
        Some bm \<Rightarrow> bm_resume env bm (query_limit q) i (snd d)
      | None \<Rightarrow> (case text_of (map_of q ''cursor'') of
          Some token \<Rightarrow> bm_page env token i (snd d)
        | None \<Rightarrow> bm_start env (filter (\<lambda>(k, _). k \<notin> {''snapshot'', ''coverage''}) q) i (snd d)))"

definition cursor_answer ::
  "api_env \<Rightarrow> (string, string) dict \<Rightarrow> string \<Rightarrow> json \<times> string \<Rightarrow> (string, json) dict
     \<Rightarrow> ('z bookmark_db_scheme, page_result) io" where
  "cursor_answer e hs capability d q =
     cursor_page (ae_digest e) (ae_uuid e) (ae_page_bytes e) (ae_ids e) (ae_clock e)
       (text_of (map_of q ''cursor'')) (set (dict_keys q) = {''cursor''})
       \<lparr>cq_limit = int_of (query_limit q), cq_state = text_of (map_of q ''state''), cq_since = text_of (map_of q ''since'')\<rparr>
       (identity_of (fst d)) (snd d) (visible (ae_owner e) hs capability d)"

definition listing_answer ::
  "api_env \<Rightarrow> (string, string) dict \<Rightarrow> string \<Rightarrow> bool \<Rightarrow> json \<times> string \<Rightarrow> (string, json) dict
     \<Rightarrow> ('z bookmark_db_scheme, listing) io" where
  "listing_answer e hs capability brief d q = (\<lambda>db.
     (let limit = int_of (query_limit q);
          state = (if brief then None else text_of (map_of q ''state''))
      in bindE (list_incidents (ae_fromiso e) state (limit + 1) (text_of (map_of q ''since'')) db) (\<lambda>items.
         bindE (filterE (visible (ae_owner e) hs capability d) (take (nat limit) items)) (\<lambda>seen.
         Inr (listing_of brief limit items seen))), db))"

definition answer ::
  "api_env \<Rightarrow> (string, string) dict \<Rightarrow> bool \<Rightarrow> string \<Rightarrow> ('z bookmark_db_scheme, api_result) io" where
  "answer e hs wide body =
     bindS (liftS (api_query e body wide)) (\<lambda>q.
     let capability = (if wide then ''ouf.gateway.operations.incidents'' else ''ouf.gateway.operations.summary'') in
     bindS (liftS (owner_decision (ae_owner e) First hs capability None)) (\<lambda>d.
       if map_of q ''coverage'' \<noteq> None \<or> map_of q ''resumeFrom'' \<noteq> None
       then bindS (bookmark_answer e hs capability d q) (\<lambda>r. returnS (Bookmarked r))
       else if map_of q ''snapshot'' = Some (JBool True) \<or> map_of q ''cursor'' \<noteq> None
       then bindS (cursor_answer e hs capability d q) (\<lambda>r. returnS (Page r))
       else bindS (listing_answer e hs capability (\<not> wide) d q) (\<lambda>r. returnS (Listing r))))"

text \<open>\<open>len(json.dumps(result))\<close> of the answer is the parameter \<open>bytes\<close>.\<close>

definition bounded_answer ::
  "api_env \<Rightarrow> (api_result \<Rightarrow> nat) \<Rightarrow> (string, string) dict \<Rightarrow> bool \<Rightarrow> string
     \<Rightarrow> ('z bookmark_db_scheme, api_result) io" where
  "bounded_answer e bytes hs wide body =
     bindS (answer e hs wide body) (\<lambda>r.
       if 524288 < bytes r then raiseS (CursorRejected 503 ''OPERATIONAL_RESPONSE_CAPACITY'') else returnS r)"

fun response_of :: "api_result res \<Rightarrow> api_response" where
  "response_of (Inr r) = (200, Result r)"
| "response_of (Inl (CursorRejected status code)) = (status, Code code)"
| "response_of (Inl (OperationalError _)) = (503, Retry ''OPERATIONAL_STORE_UNAVAILABLE'' True)"
| "response_of (Inl _) = (503, Retry ''OPERATIONAL_OWNER_UNAVAILABLE'' False)"

definition handle ::
  "api_env \<Rightarrow> (api_result \<Rightarrow> nat) \<Rightarrow> string \<Rightarrow> (string, string) dict \<Rightarrow> string
     \<Rightarrow> 'z bookmark_db_scheme \<Rightarrow> api_response \<times> 'z bookmark_db_scheme" where
  "handle e bytes path hs body db =
     (if map_of hs ''X-OUF-Gateway-Verified'' \<noteq> Some ''true''
      then ((401, Code ''TRUSTED_GATEWAY_CONTEXT_REQUIRED''), db)
      else if header_value hs ''X-OUF-Principal-ID'' = [] \<or> header_value hs ''X-OUF-Authorization-Decision-Ref'' = []
      then ((403, Code ''VERIFIED_AUTHORIZATION_CONTEXT_REQUIRED''), db)
      else if path \<notin> {incidents_path, summary_path} then ((404, Code ''OWNER_OPERATION_NOT_FOUND''), db)
      else (case bounded_answer e bytes hs (path = incidents_path) body db of (r, db') \<Rightarrow> (response_of r, db')))"

end
