(* ===== verification/Owner_Api_Safety.thy ===== *)
theory Owner_Api_Safety
  imports Owner_Api
begin

text \<open>
  What the owner API promises: an answer shows only incidents that the owner's policy granted, row by
  row, to the identity of the gateway headers (\<open>answer_shows_only_granted\<close>); a healthy summary is
  complete (\<open>healthy_summary_is_complete\<close>); and no request touches the incidents or breaks the tables
  (\<open>handle_preserves_store\<close>).
\<close>

section \<open>Rows that a page shows\<close>

lemma filterE_granted: "filterE p xs = Inr ys \<Longrightarrow> x \<in> set ys \<Longrightarrow> p x = Inr True \<and> x \<in> set xs"
  by (auto dest: filterE_Inr)

lemma page_granted:
  assumes "page dg bytes fresh token i policy authorize now db = (Inr res, db')" and "r \<in> set (pr_items res)"
  shows "authorize r = Inr True"
  using assms(1)
proof (cases rule: page_cases)
  case (read s pos vis)
  with assms(2) filterE_granted [OF read(2)] show ?thesis by simp
qed simp

lemma cursor_page_granted:
  assumes "cursor_page dg uuid bytes ids clk cursor only q i policy authorize db = (Inr res, db')"
    and "r \<in> set (pr_items res)"
  shows "authorize r = Inr True"
  using assms(1) page_granted [OF _ assms(2)]
  by (auto simp: cursor_page_def raiseS_def bindS_Inr split: option.splits if_splits)

lemma row_visible_True: "row_visible f r = Inr True \<longleftrightarrow> f r = Inr (JBool True)"
proof (cases "f r")
  case (Inr d)
  then show ?thesis by (cases d) (simp_all add: row_visible_def)
qed (simp add: row_visible_def)

lemma bm_page_granted:
  assumes "bm_page e token i policy db = (Inr res, db')" and "r \<in> set (pr_items (br_page res))"
  shows "the (be_row e) r = Inr (JBool True)"
  using assms(1)
proof (cases rule: bm_page_cases)
  case (recorded pres db1 s pos b db2 issued)
  then have "r \<in> set (pr_items pres)" using assms(2) by auto
  from cursor_page_granted [OF recorded(1) this] show ?thesis by (simp add: row_visible_True)
qed simp_all

lemma later_env_row [simp]: "be_row (later_env m n e) = be_row e"
  by (simp add: later_env_def)

lemma bm_start_granted:
  assumes "bm_start e q i policy db = (Inr res, db')" and "r \<in> set (pr_items (br_page res))"
  shows "the (be_row e) r = Inr (JBool True)"
proof -
  obtain token v where "bm_page (later_env 2 2 e) token i policy v = (Inr res, db')"
    using assms(1) by (auto simp: bm_start_def bindS_Inr split: prod.splits)
  from bm_page_granted [OF this assms(2)] show ?thesis by simp
qed

lemma bm_resume_granted:
  assumes "bm_resume e bm limit i policy db = (Inr res, db')" and "r \<in> set (pr_items (br_page res))"
  shows "the (be_row e) r = Inr (JBool True)"
proof -
  obtain token v where "bm_page (later_env 2 3 e) token i policy v = (Inr res, db')"
    using assms(1)
    by (auto simp: bm_resume_def bindS_Inr raiseS_def split: prod.splits if_splits option.splits)
  from bm_page_granted [OF this assms(2)] show ?thesis by simp
qed

section \<open>The owner's decisions\<close>

text \<open>The owner answered this ask_stage and resource with an explicit grant to the header's principal.\<close>

definition granted ::
  "owner_authorize \<Rightarrow> ask_stage \<Rightarrow> (string, string) dict \<Rightarrow> string \<Rightarrow> (string \<times> string option) option \<Rightarrow> json \<times> string \<Rightarrow> bool" where
  "granted f st hs capability row d \<longleftrightarrow>
     (let tenant = header_value hs ''X-OUF-Tenant-ID''; resource = resource_json tenant row in
      tenant \<noteq> [] \<and> snd d \<noteq> [] \<and> identity_of (fst d) =
        \<lparr>id_principal = header_value hs ''X-OUF-Principal-ID'', id_tenant = tenant, id_claims = id_claims (identity_of (fst d))\<rparr>
      \<and> (\<exists>a r. f st hs capability resource = Inr a \<and> jlookup a ''allowed'' = Some (JBool True)
           \<and> jlookup a ''resource'' = Some r \<and> json_eq r resource
           \<and> jlookup a ''permittedDetailLevel'' = Some (JStr ''RESTRICTED_OPERATIONAL'')
           \<and> jlookup a ''identity'' = Some (fst d) \<and> jlookup a ''policyRef'' = Some (JStr (snd d))))"

lemma owner_decision_granted:
  assumes "owner_decision owner st hs capability row = Inr d"
  obtains f where "owner = Some f" "granted f st hs capability row d"
proof -
  from assms obtain f a where f: "owner = Some f"
    "f st hs capability (resource_json (header_value hs ''X-OUF-Tenant-ID'') row) = Inr a"
    by (auto simp: owner_decision_def Let_def result_simps split: option.splits if_splits)
  from assms f obtain claims where c: "jlookup a ''identity'' = Some (JObj claims)"
    by (auto simp: owner_decision_def Let_def split: if_splits option.splits json.splits)
  show thesis
  proof (rule that [OF f(1)])
    show "granted f st hs capability row d"
      using assms f c
      by (auto simp: owner_decision_def granted_def Let_def split: if_splits option.splits json.splits)
  qed
qed

lemma visible_granted:
  assumes "visible (Some f) hs capability d r = Inr True"
  shows "\<exists>d'. granted f Row hs capability (Some (incident_id r, endpoint_ref r)) d'
     \<and> json_eq (fst d') (fst d) \<and> snd d' = snd d"
proof -
  from assms obtain d' where d': "owner_decision (Some f) Row hs capability (Some (incident_id r, endpoint_ref r)) = Inr d'"
    and "same_decision d' d = Inr True"
    by (auto simp: visible_def split: sum.splits py_exn.splits if_splits)
  moreover from this have "json_eq (fst d') (fst d) \<and> snd d' = snd d"
    by (auto simp: same_decision_def split: if_splits)
  moreover have "granted f Row hs capability (Some (incident_id r, endpoint_ref r)) d'"
    using d' by (rule owner_decision_granted) simp
  ultimately show ?thesis by blast
qed

fun result_items :: "api_result \<Rightarrow> incident list" where
  "result_items (Listing l) = ls_items l"
| "result_items (Page p) = pr_items p"
| "result_items (Bookmarked b) = pr_items (br_page b)"

lemma bookmark_answer_granted:
  assumes "bookmark_answer e hs capability d q db = (Inr res, db')" and "r \<in> set (pr_items (br_page res))"
  shows "visible (ae_owner e) hs capability d r = Inr True"
proof -
  have "the (be_row (bookmark_env_of e hs capability d)) r = Inr (JBool True)"
    using assms(1) bm_start_granted [OF _ assms(2)] bm_page_granted [OF _ assms(2)] bm_resume_granted [OF _ assms(2)]
    by (auto simp: bookmark_answer_def Let_def split: option.splits)
  then show ?thesis by (auto simp: bookmark_env_of_def result_simps)
qed

lemma listing_answer_Inr:
  "listing_answer e hs capability brief d q db = (Inr l, db') \<longleftrightarrow> db' = db \<and>
     (\<exists>items vis. list_incidents (ae_fromiso e) (if brief then None else text_of (map_of q ''state''))
          (int_of (query_limit q) + 1) (text_of (map_of q ''since'')) db = Inr items
        \<and> filterE (visible (ae_owner e) hs capability d) (take (nat (int_of (query_limit q))) items) = Inr vis
        \<and> l = listing_of brief (int_of (query_limit q)) items vis)"
  unfolding listing_answer_def Let_def prod.inject bindE_Inr_iff sum.inject by blast

lemma listing_answer_granted:
  assumes "listing_answer e hs capability brief d q db = (Inr res, db')" and "r \<in> set (ls_items res)"
  shows "visible (ae_owner e) hs capability d r = Inr True"
  using assms by (auto simp: listing_answer_def listing_of_def Let_def result_simps dest!: filterE_granted)

text \<open>A successful answer: the query was valid, the collection decided, and the rows decided.\<close>

lemma answer_cases:
  assumes "bounded_answer e bytes hs wide body db = (Inr res, db')"
  obtains q d where "api_query e body wide = Inr q"
    "owner_decision (ae_owner e) First hs (if wide then ''ouf.gateway.operations.incidents'' else ''ouf.gateway.operations.summary'') None = Inr d"
    "bytes res \<le> 524288"
    "\<forall>r \<in> set (result_items res). visible (ae_owner e) hs
       (if wide then ''ouf.gateway.operations.incidents'' else ''ouf.gateway.operations.summary'') d r = Inr True"
proof -
  let ?cap = "if wide then ''ouf.gateway.operations.incidents'' else ''ouf.gateway.operations.summary''"
  from assms have a: "answer e hs wide body db = (Inr res, db')" "bytes res \<le> 524288"
    by (auto simp: bounded_answer_def bindS_Inr raiseS_def returnS_def split: if_splits)
  then obtain q d where q: "api_query e body wide = Inr q" and d: "owner_decision (ae_owner e) First hs ?cap None = Inr d"
    by (auto simp: answer_def bindS_Inr liftS_def Let_def)
  have "visible (ae_owner e) hs ?cap d r = Inr True" if r: "r \<in> set (result_items res)" for r
  proof -
    consider b where "res = Bookmarked b" "bookmark_answer e hs ?cap d q db = (Inr b, db')"
      | p where "res = Page p" "cursor_answer e hs ?cap d q db = (Inr p, db')"
      | l where "res = Listing l" "listing_answer e hs ?cap (\<not> wide) d q db = (Inr l, db')"
      using a(1) q d by (auto simp: answer_def bindS_Inr liftS_def returnS_def Let_def split: if_splits)
    then show ?thesis
    proof cases
      case 1
      with r bookmark_answer_granted [OF 1(2)] show ?thesis by simp
    next
      case 2
      with r cursor_page_granted [OF 2(2) [unfolded cursor_answer_def]] show ?thesis by simp
    next
      case 3
      with r listing_answer_granted [OF 3(2)] show ?thesis by simp
    qed
  qed
  then show thesis by (intro that [OF q d a(2)]) simp
qed

text \<open>
  C20. A successful answer is bounded and belongs to a request that the gateway verified, to one of the two
  known paths; the owner granted the capability to the principal and tenant of the headers; and every
  incident in it, in a listing, a page of a snapshot or a bookmarked page alike, was itself granted
  to that principal for exactly that incident, by the same identity and policy as the collection.
\<close>

theorem answer_shows_only_granted:
  assumes "handle e bytes path hs body db = ((200, Result res), db')"
  shows "map_of hs ''X-OUF-Gateway-Verified'' = Some ''true'' \<and> header_value hs ''X-OUF-Principal-ID'' \<noteq> []
     \<and> bytes res \<le> 524288
     \<and> (\<exists>f d capability. ae_owner e = Some f
          \<and> (path, capability) \<in> {(incidents_path, ''ouf.gateway.operations.incidents''),
               (summary_path, ''ouf.gateway.operations.summary'')}
          \<and> granted f First hs capability None d
          \<and> (\<forall>r \<in> set (result_items res).
               \<exists>d'. granted f Row hs capability (Some (incident_id r, endpoint_ref r)) d'
                 \<and> json_eq (fst d') (fst d) \<and> snd d' = snd d))"
proof -
  let ?wide = "path = incidents_path"
  let ?cap = "if ?wide then ''ouf.gateway.operations.incidents'' else ''ouf.gateway.operations.summary''"
  have head: "map_of hs ''X-OUF-Gateway-Verified'' = Some ''true''" "header_value hs ''X-OUF-Principal-ID'' \<noteq> []"
    "path \<in> {incidents_path, summary_path}"
    using assms by (auto simp: handle_def split: if_splits)
  have "response_of r \<noteq> (200, Result res)" if "r \<noteq> Inr res" for r
    using that by (cases "(r)" rule: response_of.cases) auto
  then have "bounded_answer e bytes hs ?wide body db = (Inr res, db')"
    using assms head by (auto simp: handle_def split: if_splits prod.splits)
  then obtain q d where d: "owner_decision (ae_owner e) First hs ?cap None = Inr d" "bytes res \<le> 524288"
    "\<forall>r \<in> set (result_items res). visible (ae_owner e) hs ?cap d r = Inr True"
    by (rule answer_cases)
  from d(1) obtain f where f: "ae_owner e = Some f" "granted f First hs ?cap None d" by (rule owner_decision_granted)
  have "(path, ?cap) \<in> {(incidents_path, ''ouf.gateway.operations.incidents''),
      (summary_path, ''ouf.gateway.operations.summary'')}"
    using head(3) by auto
  with head f d(2,3) visible_granted show ?thesis by metis
qed

section \<open>Healthy summaries\<close>

text \<open>
  A summary says HEALTHY only when it is complete and unredacted: every stored incident that was seen
  since the requested time is resolved, and all of them are in the answer.
\<close>

theorem healthy_summary_is_complete:
  assumes "listing_answer e hs capability True d q db = (Inr l, db')" and "ls_status l = Some ''HEALTHY''"
  shows "\<not> ls_partial l \<and> \<not> ls_truncated l \<and> \<not> ls_unavailable l \<and> db' = db
     \<and> (\<exists>p. since_clause (ae_fromiso e) (text_of (map_of q ''since'')) = Inr p
          \<and> set (ls_items l) = {r \<in> set (incidents db). p r}
          \<and> (\<forall>r \<in> set (incidents db). p r \<longrightarrow> lifecycle_state r = RESOLVED))"
proof -
  let ?n = "int_of (query_limit q)"
  obtain items vis where
    items: "list_incidents (ae_fromiso e) None (?n + 1) (text_of (map_of q ''since'')) db = Inr items"
    and vis: "filterE (visible (ae_owner e) hs capability d) (take (nat ?n) items) = Inr vis"
    and l: "l = listing_of True ?n items vis" and db: "db' = db"
    using assms(1) unfolding listing_answer_Inr by auto
  obtain p where p: "since_clause (ae_fromiso e) (text_of (map_of q ''since'')) = Inr p" and n: "1 \<le> ?n + 1"
    and it: "items = take (nat (?n + 1)) (sort_by priority_le (filter p (incidents db)))"
    using items by (elim list_incidents_Inr) (auto simp: state_clause.simps)
  from assms(2) l have ok: "\<not> ?n < int (length items)" "length vis = length (take (nat ?n) items)"
    "OPEN \<notin> lifecycle_state ` set vis" "RECOVERING \<notin> lifecycle_state ` set vis"
    by (auto simp: listing_of_def Let_def split: if_splits)
  have whole: "items = sort_by priority_le (filter p (incidents db))" "take (nat ?n) items = items"
    using ok(1) it n by (auto simp: min_def split: if_splits)
  have "vis = filter (\<lambda>r. visible (ae_owner e) hs capability d r = Inr True) items"
    using filterE_Inr [OF vis] whole(2) by simp
  then have all: "vis = items" using ok(2) whole(2) by (metis filter_id_conv length_filter_less less_irrefl)
  have set: "set vis = {r \<in> set (incidents db). p r}" unfolding all whole(1) by auto
  have "lifecycle_state r = RESOLVED" if "r \<in> set vis" for r
    using ok(3,4) that by (cases "lifecycle_state r") force+
  with set ok whole(2) l db p show ?thesis
    by (intro conjI exI [of _ p]) (auto simp: listing_of_def Let_def)
qed

section \<open>The store under requests\<close>

text \<open>The tables of the incident store itself.\<close>

definition incident_tables :: "'z incident_db_scheme \<Rightarrow> incident list \<times> transition list \<times> string option" where
  "incident_tables db = (incidents db, transitions db, history_baseline db)"

lemma capture_tables [keeps_intros]: "keeps incident_tables (capture dg sid token now later q i policy lo)"
  by (rule keepsI, erule capture_cases)
    (simp_all add: incident_tables_def drop_expired_def delete_session_def split: option.splits)

lemma next_cursor_tables: "next_cursor fresh sid pos db = (r, db') \<Longrightarrow> incident_tables db' = incident_tables db"
  by (erule next_cursor_cases) (simp_all add: incident_tables_def)

lemma page_tables [keeps_intros]: "keeps incident_tables (page dg bytes fresh token i policy authorize now)"
proof (rule keepsI)
  fix db r db'
  assume "page dg bytes fresh token i policy authorize now db = (r, db')"
  then show "incident_tables db' = incident_tables db"
  proof (cases rule: page_cases)
    case (read s pos vis)
    then show ?thesis by (metis next_cursor_tables not_le)
  qed simp
qed

lemma cursor_page_tables [keeps_intros]:
  "keeps incident_tables (cursor_page dg uuid bytes ids clk cursor only q i policy authorize)"
  unfolding cursor_page_def by (intro keeps_intros)

lemma bm_page_tables [keeps_intros]: "keeps incident_tables (bm_page e token i policy)"
proof (rule keepsI)
  fix db r db'
  assume "bm_page e token i policy db = (r, db')"
  then show "incident_tables db' = incident_tables db"
  proof (cases rule: bm_page_cases)
    case (unrecorded x res db1)
    with keepsD [OF cursor_page_tables unrecorded(3)] show ?thesis by simp
  next
    case (recorded res db1 s pos b db2 issued)
    have "incident_tables db2 = incident_tables db"
      using keepsD [OF cursor_page_tables recorded(1)] recorded(4) by (simp add: incident_tables_def)
    moreover have "incident_tables db' = incident_tables db2"
      using recorded(5) by (auto elim!: bm_issue_cases simp: incident_tables_def)
    ultimately show ?thesis by simp
  qed simp
qed

lemma bm_scope_tables [keeps_intros]: "keeps incident_tables (bm_scope dg token state parent w)"
  by (rule keepsI) (auto simp: bm_scope_def incident_tables_def split: option.splits if_splits)

lemma bm_start_tables [keeps_intros]: "keeps incident_tables (bm_start e q i policy)"
  unfolding bm_start_def by (intro keeps_intros; simp split: prod.split; intro allI impI keeps_intros)

lemma keeps_prod [keeps_intros]:
  "(\<And>x y. p = (x, y) \<Longrightarrow> keeps f (g x y)) \<Longrightarrow> keeps f (case p of (x, y) \<Rightarrow> g x y)"
  by (cases p) auto

lemma keeps_preserves: "keeps f m \<longleftrightarrow> (\<forall>c. preserves (\<lambda>w. f w = c) m)"
  unfolding keeps_def preserves_def by blast

lemma bm_resume_tables [keeps_intros]: "keeps incident_tables (bm_resume e bm limit i policy)"
  unfolding keeps_preserves
proof
  fix c
  let ?I = "\<lambda>db :: 'z bookmark_db_scheme. incident_tables db = c"
  have body: "preserves ?I (bindS (capture dg sid tok now later cq i policy lo)
      (\<lambda>token. bindS (bm_scope dg token st par wm) (\<lambda>_. bm_page e' token i policy)))"
    for dg sid tok now later cq lo st par wm e' i policy
    by (rule preserves_bindS [OF capture_tables [unfolded keeps_preserves, rule_format]
        preserves_bindS [OF bm_scope_tables [unfolded keeps_preserves, rule_format]
          bm_page_tables [unfolded keeps_preserves, rule_format]]])
  show "preserves ?I (bm_resume e bm limit i policy)"
    unfolding bm_resume_def
    by (intro preserves_intros) (rule preservesI, auto split: option.splits if_splits dest: preservesD [OF body])
qed

lemma answer_tables: "keeps incident_tables (bounded_answer e bytes hs wide body)"
proof -
  have "keeps incident_tables (listing_answer e hs capability brief d q)" for capability brief d q
    by (simp add: keeps_def listing_answer_def)
  then show ?thesis
    unfolding bounded_answer_def answer_def bookmark_answer_def cursor_answer_def Let_def
    by (intro keeps_intros)
qed

lemma page_preserves [preserves_intros]:
  "preserves wf_bookmark_db (page dg bytes fresh token i policy authorize now)"
  by (rule preservesI) (metis page_keeps page_wf wf_bookmark_db_def)

lemma answer_preserves: "preserves wf_bookmark_db (bounded_answer e bytes hs wide body)"
proof -
  have "preserves wf_bookmark_db (listing_answer e hs capability brief d q)" for capability brief d q
    by (simp add: preserves_def listing_answer_def)
  moreover have "preserves wf_bookmark_db (cursor_page dg uuid bytes' ids clk cursor only cq i policy authorize)"
    for dg uuid bytes' ids clk cursor only cq i policy authorize
    unfolding cursor_page_def by (intro preserves_intros capture_preserves)
  ultimately show ?thesis
    unfolding bounded_answer_def answer_def bookmark_answer_def cursor_answer_def Let_def
    by (intro preserves_intros bm_start_preserves bm_page_wf bm_resume_preserves)
qed

text \<open>
  C36. No request, whatever its answer, changes the incidents, their history or its baseline, and every
  request keeps the cursor and bookmark tables well-formed and bounded.
\<close>

theorem handle_preserves_store:
  assumes "wf_bookmark_db db"
  shows "wf_bookmark_db (snd (handle e bytes path hs body db))
     \<and> incident_tables (snd (handle e bytes path hs body db)) = incident_tables db"
proof -
  obtain r db' where run: "bounded_answer e bytes hs (path = incidents_path) body db = (r, db')"
    by (cases "bounded_answer e bytes hs (path = incidents_path) body db")
  have "wf_bookmark_db db'" "incident_tables db' = incident_tables db"
    using preservesD [OF answer_preserves run assms] keepsD [OF answer_tables run] .
  with assms show ?thesis unfolding handle_def run prod.case by simp
qed

section \<open>A request of the sample reader\<close>

definition sample_owner :: owner_authorize where
  "sample_owner = (\<lambda>_ _ _ resource. Inr (JObj [(''allowed'', JBool True),
     (''identity'', JObj [(''principal'', JStr ''p''), (''tenant'', JStr ''n''), (''actor'', JStr ''HUMAN'')]),
     (''resource'', resource), (''permittedDetailLevel'', JStr ''RESTRICTED_OPERATIONAL''), (''policyRef'', JStr ''v1'')]))"

definition sample_api :: api_env where
  "sample_api = \<lparr>ae_owner = Some sample_owner, ae_loads = (\<lambda>_. Inr (JObj [])), ae_fromiso = (\<lambda>_. NotIso),
     ae_digest = (\<lambda>_. ''d''), ae_uuid = Some, ae_page_bytes = (\<lambda>_. 0), ae_bookmark_bytes = (\<lambda>_. 0),
     ae_ids = (\<lambda>k. replicate k CHR ''x''), ae_clock = (\<lambda>_. 0)\<rparr>"

definition sample_request :: "(string, string) dict" where
  "sample_request = [(''X-OUF-Gateway-Verified'', ''true''), (''X-OUF-Principal-ID'', ''p''),
     (''X-OUF-Authorization-Decision-Ref'', ''r''), (''X-OUF-Tenant-ID'', ''n'')]"

definition resolved_db :: bookmark_db where
  "resolved_db = sample_bookmark_db\<lparr>incidents := [sample_row\<lparr>lifecycle_state := RESOLVED\<rparr>]\<rparr>"

lemma sample_owner_decision: "owner_decision (Some sample_owner) st sample_request capability row =
    Inr (JObj [(''principal'', JStr ''p''), (''tenant'', JStr ''n''), (''actor'', JStr ''HUMAN'')], ''v1'')"
  by (simp add: owner_decision_def sample_owner_def sample_request_def header_value_def)

lemma sample_visible: "visible (Some sample_owner) sample_request capability
    (JObj [(''principal'', JStr ''p''), (''tenant'', JStr ''n''), (''actor'', JStr ''HUMAN'')], ''v1'') r = Inr True"
  by (simp add: visible_def sample_owner_decision same_decision_def)

lemma sample_listing:
  "listing_answer sample_api sample_request capability brief
     (JObj [(''principal'', JStr ''p''), (''tenant'', JStr ''n''), (''actor'', JStr ''HUMAN'')], ''v1'') []
     (db\<lparr>incidents := [r]\<rparr>) = (Inr (listing_of brief 50 [r] [r]), db\<lparr>incidents := [r]\<rparr>)"
  by (simp add: listing_answer_def sample_visible sample_api_def query_limit_def int_of_def text_of_def
      list_incidents_def Let_def)

theorem healthy_summary_is_complete_witness:
  "\<exists>l. listing_answer sample_api sample_request ''c'' True
      (JObj [(''principal'', JStr ''p''), (''tenant'', JStr ''n''), (''actor'', JStr ''HUMAN'')], ''v1'') [] resolved_db
      = (Inr l, resolved_db) \<and> ls_status l = Some ''HEALTHY'' \<and> length (ls_items l) = 1 \<and> \<not> ls_unavailable l"
proof -
  let ?r = "sample_row\<lparr>lifecycle_state := RESOLVED\<rparr>"
  let ?l = "listing_of True 50 [?r] [?r]"
  have run: "listing_answer sample_api sample_request ''c'' True
      (JObj [(''principal'', JStr ''p''), (''tenant'', JStr ''n''), (''actor'', JStr ''HUMAN'')], ''v1'') [] resolved_db
      = (Inr ?l, resolved_db)"
    unfolding resolved_db_def by (rule sample_listing)
  have l: "ls_status ?l = Some ''HEALTHY''" "length (ls_items ?l) = 1"
    by (simp_all add: listing_of_def)
  from healthy_summary_is_complete [OF run l(1)] run l show ?thesis by blast
qed

lemma sample_handle:
  "handle sample_api (\<lambda>_. 0) incidents_path sample_request [] (sample_bookmark_db\<lparr>incidents := [r]\<rparr>) =
     ((200, Result (Listing (listing_of False 50 [r] [r]))), sample_bookmark_db\<lparr>incidents := [r]\<rparr>)"
proof -
  have q: "api_query sample_api [] True = Inr []"
    by (simp add: api_query_def query_body_def query_shape_def dict_keys_def valid_limit_def query_limit_def
        normalized_since_def Let_def)
  have h: "map_of sample_request ''X-OUF-Gateway-Verified'' = Some ''true''"
    "header_value sample_request ''X-OUF-Principal-ID'' = ''p''"
    "header_value sample_request ''X-OUF-Authorization-Decision-Ref'' = ''r''"
    by (simp_all add: sample_request_def header_value_def)
  have o: "ae_owner sample_api = Some sample_owner" by (simp add: sample_api_def)
  show ?thesis
    unfolding handle_def bounded_answer_def answer_def bindS_def liftS_def returnS_def Let_def
    by (simp only: h o q sample_owner_decision sample_listing refl simp_thms if_True if_False option.simps list.simps char.inject
        insert_iff map_of.simps sum.case prod.case response_of.simps) simp
qed

theorem answer_shows_only_granted_witness:
  "\<exists>res db'. handle sample_api (\<lambda>_. 0) incidents_path sample_request [] (sample_bookmark_db\<lparr>incidents := [sample_row]\<rparr>)
       = ((200, Result res), db') \<and> result_items res = [sample_row]
     \<and> (\<exists>f capability d. ae_owner sample_api = Some f
          \<and> granted f Row sample_request capability (Some (incident_id sample_row, endpoint_ref sample_row)) d)"
proof -
  have "result_items (Listing (listing_of False 50 [sample_row] [sample_row])) = [sample_row]"
    by (simp add: listing_of_def)
  with answer_shows_only_granted [OF sample_handle, of sample_row] sample_handle [of sample_row]
  show ?thesis by (metis list.set_intros(1))
qed

theorem handle_preserves_store_witness:
  "wf_bookmark_db (snd (handle sample_api (\<lambda>_. 0) incidents_path sample_request [] sample_bookmark_db))
     \<and> incidents (snd (handle sample_api (\<lambda>_. 0) incidents_path sample_request [] sample_bookmark_db)) = [sample_row]"
  using handle_preserves_store [OF sample_bookmark_db_wf(1), of sample_api "\<lambda>_. 0" incidents_path sample_request "[]"]
  by (simp add: incident_tables_def sample_bookmark_db_def)

end
