(* ===== verification/Alert_Outbox.thy ===== *)
theory Alert_Outbox
  imports Incidents Json
begin

text \<open>
  The alert outbox, \<open>tools/operational_alert_outbox.py\<close>: alert destinations, deliveries derived from
  the incident history, and the dispatch of one delivery at a time under a lease, an attempt budget
  and a deadline. Times are \<open>timestamp\<close> readings (rationals). The owner's authorization, the hash of
  a configuration, the byte length of a payload, the jitter and the transport are parameters; a
  transport answer that is not an \<open>AlertOutcome\<close> and an exception are both \<open>Inl\<close>.
\<close>

section \<open>Data\<close>

datatype alert_state =
  PENDING | IN_FLIGHT | UNKNOWN | EXHAUSTED | PAUSED | ACCEPTED | CANCELLED | ACTIVE

datatype alert_phase = CRITICAL_PHASE | PROBLEM | RECOVERY

record destination =
  destination_ref :: string
  recipient_ref :: string
  transport_ref :: string
  transport_secret_ref :: string
  policy_ref :: string
  minimum_severity :: string

record alert_outcome =
  ao_kind :: string
  ao_receipt :: string
  ao_retry_after :: int

record stored_destination =
  sd_config :: destination
  sd_hash :: string
  sd_tenant :: string

record delivery =
  dl_id :: string
  dl_incident :: string
  dl_destination :: string
  dl_episode :: nat
  dl_phase :: alert_phase
  dl_payload :: json
  dl_hash :: string
  dl_state :: alert_state
  dl_version :: nat
  dl_total_attempts :: nat
  dl_next_due :: rat
  dl_lease :: "rat option"
  dl_claim :: "string option"
  dl_receipt :: "string option"
  dl_session :: string
  dl_reconciliations :: nat

record budget =
  bu_id :: string
  bu_delivery :: string
  bu_actor :: string
  bu_actor_type :: string
  bu_tenant :: string
  bu_reason :: string
  bu_decision :: string
  bu_started :: rat
  bu_deadline :: rat
  bu_max :: nat
  bu_attempts :: nat
  bu_state :: alert_state

record config_audit =
  ca_event :: string
  ca_destination :: string
  ca_principal :: string
  ca_decision :: string
  ca_policy :: string
  ca_tenant :: string
  ca_at :: rat

record outbox_db = incident_db +
  ob_destinations :: "stored_destination list"
  ob_receipts :: "(string \<times> nat) list"
  ob_deliveries :: "delivery list"
  ob_budgets :: "budget list"
  ob_audit :: "config_audit list"

definition find_destination :: "string \<Rightarrow> 'z outbox_db_scheme \<Rightarrow> stored_destination option" where
  "find_destination d db = find (\<lambda>x. destination_ref (sd_config x) = d) (ob_destinations db)"

definition find_delivery :: "string \<Rightarrow> 'z outbox_db_scheme \<Rightarrow> delivery option" where
  "find_delivery i db = find (\<lambda>x. dl_id x = i) (ob_deliveries db)"

definition find_budget :: "string \<Rightarrow> 'z outbox_db_scheme \<Rightarrow> budget option" where
  "find_budget i db = find (\<lambda>x. bu_id x = i) (ob_budgets db)"

text \<open>\<open>update ... where\<close> on the two tables.\<close>

definition set_deliveries ::
  "(delivery \<Rightarrow> bool) \<Rightarrow> (delivery \<Rightarrow> delivery) \<Rightarrow> 'z outbox_db_scheme \<Rightarrow> 'z outbox_db_scheme" where
  "set_deliveries p f db = db\<lparr>ob_deliveries := map (\<lambda>d. if p d then f d else d) (ob_deliveries db)\<rparr>"

definition set_budgets ::
  "(budget \<Rightarrow> bool) \<Rightarrow> (budget \<Rightarrow> budget) \<Rightarrow> 'z outbox_db_scheme \<Rightarrow> 'z outbox_db_scheme" where
  "set_budgets p f db = db\<lparr>ob_budgets := map (\<lambda>b. if p b then f b else b) (ob_budgets db)\<rparr>"

section \<open>Authorization\<close>

record grant =
  gr_principal :: string
  gr_actor :: string
  gr_tenant :: string
  gr_decision :: string
  gr_policy :: string

definition field :: "json \<Rightarrow> string \<Rightarrow> json" where
  "field g k = (case jlookup g k of None \<Rightarrow> JNull | Some v \<Rightarrow> v)"

fun short_text :: "json \<Rightarrow> bool" where
  "short_text (JStr s) = (1 \<le> length s \<and> length s \<le> 200)"
| "short_text _ = False"

fun jtext :: "json \<Rightarrow> string" where
  "jtext (JStr s) = s"
| "jtext _ = []"

definition resource :: "string \<Rightarrow> string option \<Rightarrow> json" where
  "resource destination delivery = JObj [(''module'', JStr ''GATEWAY''), (''scope'', JStr ''PLATFORM''),
     (''destinationRef'', JStr destination), (''deliveryRef'', jopt JStr delivery),
     (''detailLevel'', JStr ''RESTRICTED_OPERATIONAL'')]"

type_synonym authorizer = "(string \<Rightarrow> json \<Rightarrow> json res) option"

definition check_grant :: "json \<Rightarrow> json \<Rightarrow> grant res" where
  "check_grant res g =
     (if \<not> is_obj g \<or> field g ''allowed'' \<noteq> JBool True \<or> \<not> json_eq (field g ''resource'') res
         \<or> \<not> json_truthy (field g ''decisionRef'') \<or> \<not> json_truthy (field g ''principal'')
         \<or> \<not> json_truthy (field g ''policyRef'')
      then Inl (AlertBlocked ''ALERT_OWNER_AUTHORIZATION_DENIED'')
      else if \<not> hashable (field g ''actor'') then Inl (TypeError ''unhashable type'')
      else if field g ''actor'' \<notin> {JStr ''HUMAN'', JStr ''SERVICE''}
      then Inl (AlertBlocked ''ALERT_OWNER_AUTHORIZATION_DENIED'')
      else if \<not> short_text (field g ''tenant'') \<or> \<not> short_text (field g ''principal'')
         \<or> \<not> short_text (field g ''decisionRef'') \<or> \<not> short_text (field g ''policyRef'')
      then Inl (AlertBlocked ''ALERT_VERIFIED_IDENTITY_UNPROVEN'')
      else Inr \<lparr>gr_principal = jtext (field g ''principal''), gr_actor = jtext (field g ''actor''),
        gr_tenant = jtext (field g ''tenant''), gr_decision = jtext (field g ''decisionRef''),
        gr_policy = jtext (field g ''policyRef'')\<rparr>)"

definition ob_authorize ::
  "authorizer \<Rightarrow> string \<Rightarrow> string \<Rightarrow> string option \<Rightarrow> bool \<Rightarrow> 'z outbox_db_scheme \<Rightarrow> grant res" where
  "ob_authorize authorize action destination delivery human db =
     (case authorize of
        None \<Rightarrow> Inl (AlertBlocked ''ALERT_OWNER_AUTHORIZATION_UNAVAILABLE'')
      | Some f \<Rightarrow>
          bindE (f action (resource destination delivery)) (\<lambda>g.
          bindE (check_grant (resource destination delivery) g) (\<lambda>grant.
          if (case find_destination destination db of
                None \<Rightarrow> False | Some d \<Rightarrow> sd_tenant d \<noteq> gr_tenant grant)
          then Inl (AlertBlocked ''ALERT_TENANT_CONTEXT_MISMATCH'')
          else if human \<and> gr_actor grant \<noteq> ''HUMAN'' then Inl (AlertBlocked ''ALERT_HUMAN_REQUIRED'')
          else Inr grant)))"

section \<open>Configuration\<close>

definition destination_json :: "destination \<Rightarrow> json" where
  "destination_json d = JObj [(''destination_ref'', JStr (destination_ref d)),
     (''recipient_ref'', JStr (recipient_ref d)), (''transport_ref'', JStr (transport_ref d)),
     (''transport_secret_ref'', JStr (transport_secret_ref d)), (''policy_ref'', JStr (policy_ref d)),
     (''minimum_severity'', JStr (minimum_severity d))]"

definition destination_values :: "destination \<Rightarrow> string list" where
  "destination_values d = [destination_ref d, recipient_ref d, transport_ref d, transport_secret_ref d,
     policy_ref d, minimum_severity d]"

text \<open>\<open>[a-z][a-z0-9+.-]*://[A-Za-z0-9/_:.~-]+\<close>: the scheme ends at the first colon.\<close>

definition is_lower :: "char \<Rightarrow> bool" where
  "is_lower c \<longleftrightarrow> CHR ''a'' \<le> c \<and> c \<le> CHR ''z''"

definition reference_ok :: "string \<Rightarrow> bool" where
  "reference_ok s =
     (let scheme = takeWhile (\<lambda>c. c \<noteq> CHR '':'') s; rest = dropWhile (\<lambda>c. c \<noteq> CHR '':'') s
      in (case scheme of [] \<Rightarrow> False | c # cs \<Rightarrow> is_lower c
            \<and> list_all (\<lambda>c. is_lower c \<or> is_digit c \<or> c \<in> set ''+.-'') cs)
         \<and> starts_with rest ''://'' \<and> drop 3 rest \<noteq> []
         \<and> list_all (\<lambda>c. is_alpha c \<or> is_digit c \<or> c \<in> set ''/_:.~-'') (drop 3 rest))"

definition configure_body ::
  "(json \<Rightarrow> string) \<Rightarrow> string \<Rightarrow> nat \<Rightarrow> destination \<Rightarrow> grant \<Rightarrow> 'z outbox_db_scheme
     \<Rightarrow> (unit \<times> 'z outbox_db_scheme) res" where
  "configure_body sha event now d g db =
     (let fingerprint = sha (destination_json d) in
      case find_destination (destination_ref d) db of
        Some old \<Rightarrow>
          if sd_hash old \<noteq> fingerprint then Inl (AlertBlocked ''ALERT_DESTINATION_INTENT_CONFLICT'')
          else Inr ((), db)
      | None \<Rightarrow>
          if 32 \<le> length (ob_destinations db) then Inl (AlertBlocked ''ALERT_DESTINATION_CAPACITY'')
          else if event \<in> ca_event ` set (ob_audit db) then Inl (IntegrityError ''gateway_alert_config_audit'')
          else Inr ((), db\<lparr>
            ob_destinations := ob_destinations db @ [\<lparr>sd_config = d, sd_hash = fingerprint, sd_tenant = gr_tenant g\<rparr>],
            ob_audit := ob_audit db @ [\<lparr>ca_event = event, ca_destination = destination_ref d,
              ca_principal = gr_principal g, ca_decision = gr_decision g, ca_policy = gr_policy g,
              ca_tenant = gr_tenant g, ca_at = timestamp now\<rparr>]\<rparr>))"

definition configure ::
  "authorizer \<Rightarrow> (json \<Rightarrow> string) \<Rightarrow> string \<Rightarrow> nat \<Rightarrow> destination \<Rightarrow> ('z outbox_db_scheme, unit) io" where
  "configure authorize sha event now d = (\<lambda>db.
     if \<not> list_all (\<lambda>v. 1 \<le> length v \<and> length v \<le> 200) (destination_values d)
        \<or> minimum_severity d \<notin> {''WARNING'', ''ERROR'', ''CRITICAL''}
     then (Inl (AlertBlocked ''ALERT_DESTINATION_INVALID''), db)
     else if \<not> list_all reference_ok
        [destination_ref d, recipient_ref d, transport_ref d, transport_secret_ref d]
     then (Inl (AlertBlocked ''ALERT_REFERENCE_REQUIRED''), db)
     else (case ob_authorize authorize ''CONFIGURE'' (destination_ref d) None True db of
         Inl e \<Rightarrow> (Inl e, db)
       | Inr g \<Rightarrow>
           if gr_policy g \<noteq> policy_ref d then (Inl (AlertBlocked ''ALERT_DESTINATION_POLICY_UNPROVEN''), db)
           else transaction (configure_body sha event now d g) db))"

section \<open>Deliveries from the incident history\<close>

text \<open>Lifecycle crossings into RESOLVED: a resolved state whose predecessor is another one.\<close>

fun count_closures :: "lifecycle option \<Rightarrow> lifecycle list \<Rightarrow> nat" where
  "count_closures prev [] = 0"
| "count_closures prev (s # ss) =
     (if s = RESOLVED \<and> prev \<noteq> Some RESOLVED then 1 else 0) + count_closures (Some s) ss"

definition closures :: "string \<Rightarrow> transition list \<Rightarrow> nat" where
  "closures i ts = count_closures None (map (\<lambda>t. lifecycle_state (tr_body t))
     (sort_by (key_le tr_revision) (filter (\<lambda>t. tr_incident t = i) ts)))"

definition alert_episode :: "incident \<Rightarrow> transition list \<Rightarrow> nat" where
  "alert_episode r ts = closures (incident_id r) ts + (if lifecycle_state r = RESOLVED then 0 else 1)"

definition alert_phase_of :: "incident \<Rightarrow> alert_phase" where
  "alert_phase_of r =
     (if lifecycle_state r = RESOLVED then RECOVERY
      else if severity r = CRITICAL then CRITICAL_PHASE else PROBLEM)"

fun phase_name :: "alert_phase \<Rightarrow> string" where
  "phase_name CRITICAL_PHASE = ''CRITICAL''"
| "phase_name PROBLEM = ''PROBLEM''"
| "phase_name RECOVERY = ''RECOVERY''"

fun severity_text :: "severity_level \<Rightarrow> string" where
  "severity_text INFO = ''INFO''"
| "severity_text WARNING = ''WARNING''"
| "severity_text ERROR = ''ERROR''"
| "severity_text CRITICAL = ''CRITICAL''"

definition alert_payload :: "incident \<Rightarrow> nat \<Rightarrow> alert_phase \<Rightarrow> json" where
  "alert_payload r episode phase = JObj [(''module'', JStr ''GATEWAY''), (''incidentRef'', JStr (incident_id r)),
     (''episode'', jnat episode), (''phase'', JStr (phase_name phase)),
     (''severity'', JStr (severity_text (severity r))), (''errorCode'', jopt JStr (error_code r)),
     (''impactSummary'', JStr (impact_summary r)), (''requiresCurrentAuthorization'', JBool True)]"

definition is_active :: "delivery \<Rightarrow> bool" where
  "is_active d \<longleftrightarrow> dl_state d \<notin> {ACCEPTED, CANCELLED}"

definition outbox_full :: "string \<Rightarrow> delivery list \<Rightarrow> bool" where
  "outbox_full dest ds \<longleftrightarrow> 4096 \<le> length ds \<or> 1024 \<le> length (filter is_active ds)
     \<or> 128 \<le> length (filter (\<lambda>d. dl_destination d = dest \<and> is_active d) ds)"

definition has_delivery :: "string \<Rightarrow> string \<Rightarrow> nat \<Rightarrow> (alert_phase \<Rightarrow> bool) \<Rightarrow> delivery list \<Rightarrow> bool" where
  "has_delivery i dest episode p ds = list_ex (\<lambda>d. dl_incident d = i \<and> dl_destination d = dest
     \<and> dl_episode d = episode \<and> p (dl_phase d)) ds"

definition severity_number :: "string \<Rightarrow> nat" where
  "severity_number s =
     (if s = ''CRITICAL'' then 4 else if s = ''ERROR'' then 3 else if s = ''WARNING'' then 2 else 1)"

text \<open>The alert that the current row asks for: none below the threshold or twice in an episode.\<close>

definition alert_wanted :: "stored_destination \<Rightarrow> incident \<Rightarrow> nat \<Rightarrow> alert_phase \<Rightarrow> delivery list \<Rightarrow> bool" where
  "alert_wanted config r episode phase ds \<longleftrightarrow>
     (if phase = RECOVERY
      then has_delivery (incident_id r) (destination_ref (sd_config config)) episode (\<lambda>p. p \<noteq> RECOVERY) ds
      else severity_number (minimum_severity (sd_config config)) \<le> severity_rank (severity r))
     \<and> \<not> has_delivery (incident_id r) (destination_ref (sd_config config)) episode (\<lambda>p. p = phase) ds"

definition new_delivery ::
  "string \<Rightarrow> string \<Rightarrow> rat \<Rightarrow> stored_destination \<Rightarrow> incident \<Rightarrow> nat \<Rightarrow> alert_phase \<Rightarrow> delivery" where
  "new_delivery delivery sid now config r episode phase =
     \<lparr>dl_id = delivery, dl_incident = incident_id r, dl_destination = destination_ref (sd_config config),
      dl_episode = episode, dl_phase = phase, dl_payload = alert_payload r episode phase,
      dl_hash = sd_hash config, dl_state = PENDING, dl_version = 0, dl_total_attempts = 0,
      dl_next_due = now, dl_lease = None, dl_claim = None, dl_receipt = None, dl_session = sid,
      dl_reconciliations = 0\<rparr>"

definition new_budget :: "string \<Rightarrow> string \<Rightarrow> grant \<Rightarrow> string \<Rightarrow> rat \<Rightarrow> budget" where
  "new_budget sid delivery g reason now =
     \<lparr>bu_id = sid, bu_delivery = delivery, bu_actor = gr_principal g, bu_actor_type = gr_actor g,
      bu_tenant = gr_tenant g, bu_reason = reason, bu_decision = gr_decision g, bu_started = now,
      bu_deadline = now + 86400, bu_max = 128, bu_attempts = 0, bu_state = ACTIVE\<rparr>"

definition enqueue_current ::
  "(json \<Rightarrow> nat) \<Rightarrow> string \<Rightarrow> string \<Rightarrow> nat \<Rightarrow> stored_destination \<Rightarrow> grant \<Rightarrow> string
     \<Rightarrow> 'z outbox_db_scheme \<Rightarrow> 'z outbox_db_scheme res" where
  "enqueue_current bytes delivery sid now config g i db =
     (case find (\<lambda>r. incident_id r = i) (incidents db) of
        None \<Rightarrow> Inl (TypeError ''not subscriptable'')
      | Some r \<Rightarrow>
          let episode = alert_episode r (transitions db); phase = alert_phase_of r;
              dest = destination_ref (sd_config config)
          in if \<not> alert_wanted config r episode phase (ob_deliveries db) then Inr db
             else if outbox_full dest (ob_deliveries db) then Inl (AlertBlocked ''ALERT_OUTBOX_CAPACITY'')
             else if 4096 < bytes (alert_payload r episode phase)
             then Inl (AlertBlocked ''ALERT_PAYLOAD_CAPACITY'')
             else if delivery \<in> dl_id ` set (ob_deliveries db) \<or> sid \<in> bu_id ` set (ob_budgets db)
             then Inl (IntegrityError ''gateway_alert_delivery'')
             else Inr (db\<lparr>
               ob_deliveries := ob_deliveries db
                 @ [new_delivery delivery sid (timestamp now) config r episode phase],
               ob_budgets := ob_budgets db
                 @ [new_budget sid delivery g ''OWNER_INCIDENT_TRANSITION'' (timestamp now)]\<rparr>))"

text \<open>
  The unprocessed revisions of a destination: the lowest of every incident, by the incident's
  current urgency and then by revision.
\<close>

definition unprocessed :: "string \<Rightarrow> 'z outbox_db_scheme \<Rightarrow> transition list" where
  "unprocessed dest db = filter (\<lambda>t. (dest, tr_revision t) \<notin> set (ob_receipts db)) (transitions db)"

definition first_unprocessed :: "string \<Rightarrow> 'z outbox_db_scheme \<Rightarrow> (transition \<times> incident) list" where
  "first_unprocessed dest db =
     concat (map (\<lambda>t. map (Pair t) (filter (\<lambda>r. incident_id r = tr_incident t) (incidents db)))
       (filter (\<lambda>t. list_all (\<lambda>u. tr_incident u = tr_incident t \<longrightarrow> tr_revision t \<le> tr_revision u)
          (unprocessed dest db)) (unprocessed dest db)))"

definition urgency_le :: "transition \<times> incident \<Rightarrow> transition \<times> incident \<Rightarrow> bool" where
  "urgency_le = lex_le (key_le (\<lambda>(t, r). if lifecycle_state r = RESOLVED then 1 else (0::nat)))
     (lex_le (key_ge (\<lambda>(t, r). severity_rank (severity r))) (key_le (\<lambda>(t, r). tr_revision t)))"

record reconcile_result =
  rr_processed :: nat
  rr_pending :: bool

definition reconcile_step ::
  "(json \<Rightarrow> nat) \<Rightarrow> (nat \<Rightarrow> string) \<Rightarrow> (nat \<Rightarrow> nat) \<Rightarrow> stored_destination \<Rightarrow> grant
     \<Rightarrow> nat \<times> transition \<times> incident \<Rightarrow> 'z outbox_db_scheme \<Rightarrow> 'z outbox_db_scheme res" where
  "reconcile_step bytes ids clk config g row db =
     (case row of (k, t, _) \<Rightarrow>
        bindE (enqueue_current bytes (ids (2 * k)) (ids (2 * k + 1)) (clk k) config g (tr_incident t) db)
          (\<lambda>db'. if (destination_ref (sd_config config), tr_revision t) \<in> set (ob_receipts db')
             then Inl (IntegrityError ''gateway_alert_transition_receipt'')
             else Inr (db'\<lparr>ob_receipts := ob_receipts db'
               @ [(destination_ref (sd_config config), tr_revision t)]\<rparr>)))"

definition reconcile_body ::
  "(json \<Rightarrow> nat) \<Rightarrow> (nat \<Rightarrow> string) \<Rightarrow> (nat \<Rightarrow> nat) \<Rightarrow> string \<Rightarrow> int \<Rightarrow> grant \<Rightarrow> 'z outbox_db_scheme
     \<Rightarrow> (reconcile_result \<times> 'z outbox_db_scheme) res" where
  "reconcile_body bytes ids clk dest limit g db =
     (case find_destination dest db of
        None \<Rightarrow> Inl (AlertBlocked ''ALERT_DESTINATION_UNCONFIGURED'')
      | Some config \<Rightarrow>
          if 200000 < int (length (ob_receipts db)) + limit then Inl (AlertBlocked ''ALERT_RECEIPT_CAPACITY'')
          else let rows = take (nat limit) (sort_by urgency_le (first_unprocessed dest db)) in
            bindE (foldE (reconcile_step bytes ids clk config g) (enumerate 0 rows) db)
              (\<lambda>db'. Inr (\<lparr>rr_processed = length rows, rr_pending = (unprocessed dest db' \<noteq> [])\<rparr>, db')))"

definition reconcile_owner_transitions ::
  "authorizer \<Rightarrow> (json \<Rightarrow> nat) \<Rightarrow> (nat \<Rightarrow> string) \<Rightarrow> (nat \<Rightarrow> nat) \<Rightarrow> string \<Rightarrow> int
     \<Rightarrow> ('z outbox_db_scheme, reconcile_result) io" where
  "reconcile_owner_transitions authorize bytes ids clk dest limit = (\<lambda>db.
     if \<not> (1 \<le> limit \<and> limit \<le> 64) then (Inl (AlertBlocked ''ALERT_RECONCILE_LIMIT''), db)
     else (case ob_authorize authorize ''ENQUEUE'' dest None False db of
         Inl e \<Rightarrow> (Inl e, db)
       | Inr g \<Rightarrow> transaction (reconcile_body bytes ids clk dest limit g) db))"

section \<open>Dispatch\<close>

fun phase_rank :: "alert_phase \<Rightarrow> nat" where
  "phase_rank CRITICAL_PHASE = 0"
| "phase_rank PROBLEM = 1"
| "phase_rank RECOVERY = 2"

definition eligible :: "string \<Rightarrow> rat \<Rightarrow> delivery \<Rightarrow> bool" where
  "eligible dest now d \<longleftrightarrow> dl_destination d = dest \<and> dl_state d = PENDING \<and> dl_next_due d \<le> now"

definition preview :: "string \<Rightarrow> rat \<Rightarrow> 'z outbox_db_scheme \<Rightarrow> delivery option" where
  "preview dest now db =
     (case sort_by (lex_le (key_le (\<lambda>d. phase_rank (dl_phase d))) (key_le dl_next_due))
        (filter (eligible dest now) (ob_deliveries db)) of [] \<Rightarrow> None | d # _ \<Rightarrow> Some d)"

definition bump :: "alert_state \<Rightarrow> delivery \<Rightarrow> delivery" where
  "bump s d = d\<lparr>dl_state := s, dl_version := Suc (dl_version d)\<rparr>"

text \<open>A lost worker's outcome is ambiguous: an expired lease leaves the delivery UNKNOWN.\<close>

definition expire_leases :: "rat \<Rightarrow> 'z outbox_db_scheme \<Rightarrow> 'z outbox_db_scheme" where
  "expire_leases now = set_deliveries
     (\<lambda>d. dl_state d = IN_FLIGHT \<and> (case dl_lease d of None \<Rightarrow> False | Some l \<Rightarrow> l \<le> now))
     (\<lambda>d. (bump UNKNOWN d)\<lparr>dl_claim := None\<rparr>)"

definition spent :: "rat \<Rightarrow> budget \<Rightarrow> bool" where
  "spent now b \<longleftrightarrow> bu_deadline b \<le> now \<or> bu_max b \<le> bu_attempts b"

definition exhaust_spent :: "rat \<Rightarrow> 'z outbox_db_scheme \<Rightarrow> 'z outbox_db_scheme" where
  "exhaust_spent now db = set_deliveries
     (\<lambda>d. dl_state d = PENDING \<and> list_ex (\<lambda>b. bu_id b = dl_session d \<and> spent now b) (ob_budgets db))
     (bump EXHAUSTED) db"

definition mark_budgets :: "alert_state \<Rightarrow> 'z outbox_db_scheme \<Rightarrow> 'z outbox_db_scheme" where
  "mark_budgets s db = set_budgets
     (\<lambda>b. list_ex (\<lambda>d. dl_state d = s \<and> dl_session d = bu_id b) (ob_deliveries db))
     (\<lambda>b. b\<lparr>bu_state := s\<rparr>) db"

definition settle :: "rat \<Rightarrow> 'z outbox_db_scheme \<Rightarrow> 'z outbox_db_scheme" where
  "settle now db = mark_budgets UNKNOWN (mark_budgets EXHAUSTED (exhaust_spent now (expire_leases now db)))"

definition in_flight :: "delivery list \<Rightarrow> nat" where
  "in_flight ds = length (filter (\<lambda>d. dl_state d = IN_FLIGHT) ds)"

definition in_flight_to :: "string \<Rightarrow> delivery list \<Rightarrow> nat" where
  "in_flight_to dest ds = length (filter (\<lambda>d. dl_state d = IN_FLIGHT \<and> dl_destination d = dest) ds)"

datatype claim_result = Claim_Status string | Claimed delivery destination

definition claim_body ::
  "string \<Rightarrow> string \<Rightarrow> rat \<Rightarrow> string \<Rightarrow> string option \<Rightarrow> 'z outbox_db_scheme
     \<Rightarrow> (claim_result \<times> 'z outbox_db_scheme) res" where
  "claim_body dest transport now claim chosen db0 =
     (case find_destination dest db0 of
        None \<Rightarrow> Inl (AlertBlocked ''ALERT_DESTINATION_UNCONFIGURED'')
      | Some config \<Rightarrow>
          if transport \<noteq> transport_ref (sd_config config) then Inl (AlertBlocked ''ALERT_TRANSPORT_UNPROVEN'')
          else let db = settle now db0 in
            if 16 \<le> in_flight (ob_deliveries db) \<or> 2 \<le> in_flight_to dest (ob_deliveries db)
            then Inr (Claim_Status ''CAPACITY_PAUSED'', db)
            else (case Option.bind chosen (\<lambda>i. find_delivery i db) of
                None \<Rightarrow> Inr (Claim_Status ''NO_ELIGIBLE_DELIVERY'', db)
              | Some d \<Rightarrow>
                  if \<not> eligible dest now d then Inr (Claim_Status ''NO_ELIGIBLE_DELIVERY'', db)
                  else (case find_budget (dl_session d) db of
                      None \<Rightarrow> Inr (Claim_Status ''NO_ELIGIBLE_DELIVERY'', db)
                    | Some b \<Rightarrow>
                        if dl_hash d \<noteq> sd_hash config \<or> bu_deadline b - now < 5
                        then Inr (Claim_Status ''EXHAUSTED'', set_deliveries (\<lambda>x. dl_id x = dl_id d) (bump EXHAUSTED) db)
                        else Inr (Claimed d (sd_config config),
                          set_budgets (\<lambda>x. bu_id x = dl_session d) (\<lambda>x. x\<lparr>bu_attempts := Suc (bu_attempts x)\<rparr>)
                            (set_deliveries (\<lambda>x. dl_id x = dl_id d \<and> dl_version x = dl_version d)
                              (\<lambda>x. (bump IN_FLIGHT x)\<lparr>dl_total_attempts := Suc (dl_total_attempts x),
                                 dl_claim := Some claim, dl_lease := Some (min (now + 10) (bu_deadline b))\<rparr>) db)))))"

text \<open>The first half of \<open>send_once\<close>: authorize, choose and claim one delivery.\<close>

definition claim_once ::
  "authorizer \<Rightarrow> string \<Rightarrow> string \<Rightarrow> nat \<Rightarrow> string \<Rightarrow> ('z outbox_db_scheme, claim_result) io" where
  "claim_once authorize dest transport now claim = (\<lambda>db.
     case ob_authorize authorize ''DISPATCH'' dest None False db of
       Inl e \<Rightarrow> (Inl e, db)
     | Inr _ \<Rightarrow>
         let chosen = map_option dl_id (preview dest (timestamp now) db) in
         (case (case chosen of None \<Rightarrow> Inr ()
                | Some i \<Rightarrow> bindE (ob_authorize authorize ''DISPATCH'' dest (Some i) False db) (\<lambda>_. Inr ())) of
            Inl e \<Rightarrow> (Inl e, db)
          | Inr _ \<Rightarrow> transaction (claim_body dest transport (timestamp now) claim chosen) db))"

definition unknown_outcome :: alert_outcome where
  "unknown_outcome = \<lparr>ao_kind = ''UNKNOWN'', ao_receipt = [], ao_retry_after = 0\<rparr>"

text \<open>What the outbox believes of a transport's answer.\<close>

definition sanitize :: "alert_outcome res \<Rightarrow> alert_outcome" where
  "sanitize r =
     (case r of
        Inl _ \<Rightarrow> unknown_outcome
      | Inr a \<Rightarrow>
          if ao_kind a \<notin> {''ACCEPTED'', ''TRANSIENT_NOT_ACCEPTED'', ''PERMANENT'', ''UNKNOWN''}
             \<or> \<not> (0 \<le> ao_retry_after a \<and> ao_retry_after a \<le> 86400) \<or> 200 < length (ao_receipt a)
             \<or> (ao_kind a = ''ACCEPTED'' \<and> ao_receipt a = [])
          then unknown_outcome else a)"

definition outcome_state :: "string \<Rightarrow> alert_state" where
  "outcome_state k =
     (if k = ''ACCEPTED'' then ACCEPTED else if k = ''PERMANENT'' then PAUSED
      else if k = ''UNKNOWN'' then UNKNOWN else PENDING)"

text \<open>\<open>BACKOFF[min(attempts - 1, 4)]\<close>; the index -1 of no attempts is Python's last entry.\<close>

definition backoff :: "nat \<Rightarrow> rat" where
  "backoff attempts = (if attempts = 0 then 900 else [5, 15, 60, 300, 900] ! min (attempts - 1) 4)"

definition finish_body ::
  "rat \<Rightarrow> rat \<Rightarrow> string \<Rightarrow> string \<Rightarrow> nat \<Rightarrow> alert_outcome \<Rightarrow> 'z outbox_db_scheme
     \<Rightarrow> (alert_state \<times> 'z outbox_db_scheme) res" where
  "finish_body now jitter i claim version outcome db =
     (case find_delivery i db of
        None \<Rightarrow> Inl (AlertBlocked ''ALERT_STALE_DISPATCH_RESULT'')
      | Some d \<Rightarrow> (case find_budget (dl_session d) db of
          None \<Rightarrow> Inl (AlertBlocked ''ALERT_STALE_DISPATCH_RESULT'')
        | Some b \<Rightarrow>
            if dl_state d \<noteq> IN_FLIGHT \<or> dl_claim d \<noteq> Some claim \<or> dl_version d \<noteq> version
               \<or> (case dl_lease d of None \<Rightarrow> True | Some l \<Rightarrow> l \<le> now)
            then Inl (AlertBlocked ''ALERT_STALE_DISPATCH_RESULT'')
            else bindE
              (if outcome_state (ao_kind outcome) \<noteq> PENDING then Inr (outcome_state (ao_kind outcome), now)
               else if \<not> (4 / 5 \<le> jitter \<and> jitter \<le> 6 / 5) then Inl (AlertBlocked ''ALERT_JITTER_INVALID'')
               else let due = now + max (backoff (bu_attempts b) * jitter) (of_int (ao_retry_after outcome))
                 in Inr (if bu_max b \<le> bu_attempts b \<or> bu_deadline b \<le> due + 5 then EXHAUSTED else PENDING, due))
              (\<lambda>(state, due).
                let db1 = set_deliveries (\<lambda>x. dl_id x = i) (\<lambda>x. (bump state x)\<lparr>dl_next_due := due,
                      dl_claim := None, dl_lease := None, dl_receipt := Some (ao_receipt outcome)\<rparr>) db
                in Inr (state, if state = PENDING then db1
                     else set_budgets (\<lambda>x. bu_id x = dl_session d) (\<lambda>x. x\<lparr>bu_state := state\<rparr>) db1))))"

definition finish ::
  "nat \<Rightarrow> rat \<Rightarrow> string \<Rightarrow> string \<Rightarrow> nat \<Rightarrow> alert_outcome \<Rightarrow> ('z outbox_db_scheme, alert_state) io" where
  "finish now jitter i claim version outcome =
     transaction (finish_body (timestamp now) jitter i claim version outcome)"

text \<open>A transport: its name, \<open>send(payload, recipient, secret, delivery)\<close> and \<open>query(delivery)\<close>.\<close>

record transport =
  tp_ref :: string
  tp_send :: "json \<Rightarrow> string \<Rightarrow> string \<Rightarrow> string \<Rightarrow> alert_outcome res"
  tp_query :: "string \<Rightarrow> alert_outcome res"

datatype send_result = Not_Sent string | Sent alert_state

definition send_once ::
  "authorizer \<Rightarrow> transport \<Rightarrow> (nat \<Rightarrow> nat) \<Rightarrow> rat \<Rightarrow> string \<Rightarrow> string \<Rightarrow> ('z outbox_db_scheme, send_result) io" where
  "send_once authorize t clk jitter claim dest =
     bindS (claim_once authorize dest (tp_ref t) (clk 0) claim) (\<lambda>c.
     case c of
       Claim_Status s \<Rightarrow> returnS (Not_Sent s)
     | Claimed d config \<Rightarrow>
         bindS (finish (clk 1) jitter (dl_id d) claim (Suc (dl_version d))
             (sanitize (tp_send t (dl_payload d) (recipient_ref config) (transport_secret_ref config) (dl_id d))))
           (\<lambda>s. returnS (Sent s)))"

section \<open>Recovery\<close>

definition renew_body ::
  "string \<Rightarrow> nat \<Rightarrow> string \<Rightarrow> int \<Rightarrow> string \<Rightarrow> grant \<Rightarrow> 'z outbox_db_scheme \<Rightarrow> (string \<times> 'z outbox_db_scheme) res" where
  "renew_body sid now i version reason g db =
     (case find_delivery i db of
        None \<Rightarrow> Inl (TypeError ''not subscriptable'')
      | Some d \<Rightarrow>
          if dl_state d \<noteq> EXHAUSTED \<or> int (dl_version d) \<noteq> version
          then Inl (AlertBlocked ''ALERT_RECOVERY_CONFLICT'')
          else if sid \<in> bu_id ` set (ob_budgets db) then Inl (IntegrityError ''gateway_alert_budget_session'')
          else let db1 = set_budgets (\<lambda>b. bu_id b = dl_session d) (\<lambda>b. b\<lparr>bu_state := EXHAUSTED\<rparr>) db;
                   db2 = db1\<lparr>ob_budgets := ob_budgets db1 @ [new_budget sid i g reason (timestamp now)]\<rparr>
               in Inr (sid, set_deliveries (\<lambda>x. dl_id x = i) (\<lambda>x. (bump PENDING x)\<lparr>dl_session := sid,
                    dl_next_due := timestamp now\<rparr>) db2))"

definition renew_exhausted_budget ::
  "authorizer \<Rightarrow> string \<Rightarrow> nat \<Rightarrow> string \<Rightarrow> int \<Rightarrow> string \<Rightarrow> ('z outbox_db_scheme, string) io" where
  "renew_exhausted_budget authorize sid now i version reason = (\<lambda>db.
     case find_delivery i db of
       None \<Rightarrow> (Inl (AlertBlocked ''ALERT_DELIVERY_NOT_FOUND''), db)
     | Some d \<Rightarrow> (case ob_authorize authorize ''RENEW_EXHAUSTED_BUDGET'' (dl_destination d) (Some i) True db of
           Inl e \<Rightarrow> (Inl e, db)
         | Inr g \<Rightarrow>
             if \<not> (1 \<le> length reason \<and> length reason \<le> 1000)
             then (Inl (AlertBlocked ''ALERT_RECOVERY_INTENT_INVALID''), db)
             else transaction (renew_body sid now i version reason g) db))"

text \<open>The read-control allowance is counted before the authoritative query.\<close>

definition count_query :: "string \<Rightarrow> int \<Rightarrow> ('z outbox_db_scheme, unit) io" where
  "count_query i version = (\<lambda>db.
     let p = (\<lambda>d. dl_id d = i \<and> int (dl_version d) = version \<and> dl_state d = UNKNOWN \<and> dl_reconciliations d < 8);
         db' = set_deliveries p (\<lambda>d. d\<lparr>dl_reconciliations := Suc (dl_reconciliations d)\<rparr>) db
     in if length (filter p (ob_deliveries db)) \<noteq> 1
        then (Inl (AlertBlocked ''ALERT_RECONCILIATION_CONTROL_EXHAUSTED''), db')
        else (Inr (), db'))"

definition answered_body ::
  "rat \<Rightarrow> rat \<Rightarrow> string \<Rightarrow> int \<Rightarrow> alert_outcome \<Rightarrow> 'z outbox_db_scheme
     \<Rightarrow> (alert_state \<times> 'z outbox_db_scheme) res" where
  "answered_body now due i version outcome db =
     (case find_delivery i db of
        None \<Rightarrow> Inl (TypeError ''not subscriptable'')
      | Some d \<Rightarrow> (case find_budget (dl_session d) db of
          None \<Rightarrow> Inl (TypeError ''not subscriptable'')
        | Some b \<Rightarrow>
            if dl_state d \<noteq> UNKNOWN \<or> int (dl_version d) \<noteq> version
            then Inl (AlertBlocked ''ALERT_RECONCILIATION_CONFLICT'')
            else let state = (if ao_kind outcome = ''ACCEPTED'' then ACCEPTED
                       else if bu_attempts b < bu_max b \<and> now + 5 < bu_deadline b then PENDING else EXHAUSTED)
              in Inr (state,
                set_budgets (\<lambda>x. bu_id x = dl_session d)
                    (\<lambda>x. x\<lparr>bu_state := (if state = PENDING then ACTIVE else state)\<rparr>)
                  (set_deliveries (\<lambda>x. dl_id x = i) (\<lambda>x. (bump state x)\<lparr>dl_next_due := due,
                     dl_receipt := Some (ao_receipt outcome)\<rparr>) db))))"

text \<open>Only an accepted or proven not-accepted answer of the authoritative query counts.\<close>

definition proven :: "alert_outcome res \<Rightarrow> alert_outcome option" where
  "proven r =
     (case r of
        Inl _ \<Rightarrow> None
      | Inr a \<Rightarrow>
          if ao_kind a \<notin> {''ACCEPTED'', ''TRANSIENT_NOT_ACCEPTED''}
             \<or> (ao_kind a = ''ACCEPTED'' \<and> (ao_receipt a = [] \<or> 200 < length (ao_receipt a)))
          then None else Some a)"

definition reconcile_ambiguous_delivery ::
  "authorizer \<Rightarrow> transport \<Rightarrow> (nat \<Rightarrow> nat) \<Rightarrow> string \<Rightarrow> int \<Rightarrow> ('z outbox_db_scheme, alert_state) io" where
  "reconcile_ambiguous_delivery authorize t clk i version = (\<lambda>db.
     case find_delivery i db of
       None \<Rightarrow> (Inl (AlertBlocked ''ALERT_DELIVERY_NOT_FOUND''), db)
     | Some d \<Rightarrow> (case ob_authorize authorize ''RECONCILE'' (dl_destination d) (Some i) False db of
           Inl e \<Rightarrow> (Inl e, db)
         | Inr _ \<Rightarrow>
             if (case find_destination (dl_destination d) db of
                   None \<Rightarrow> True | Some c \<Rightarrow> tp_ref t \<noteq> transport_ref (sd_config c))
             then (Inl (AlertBlocked ''ALERT_TRANSPORT_UNPROVEN''), db)
             else if dl_state d \<noteq> UNKNOWN \<or> int (dl_version d) \<noteq> version
             then (Inl (AlertBlocked ''ALERT_RECONCILIATION_CONFLICT''), db)
             else bindS (count_query i version) (\<lambda>_.
               case proven (tp_query t i) of
                 None \<Rightarrow> returnS UNKNOWN
               | Some a \<Rightarrow> transaction (answered_body (timestamp (clk 0)) (timestamp (clk 1)) i version a)) db))"

end
