(* ===== verification/Alert_Safety.thy ===== *)
theory Alert_Safety
  imports Alert_Outbox
begin

text \<open>
  What the alert outbox promises: unique deliveries, bounded queues, leases and attempts; settled
  deliveries never change and an ambiguous one is never sent again without proof; and the
  reconciliation of owner history makes progress without losing a transition.
\<close>

section \<open>Well-formed outboxes\<close>

definition delivery_key :: "delivery \<Rightarrow> string \<times> string \<times> nat \<times> alert_phase" where
  "delivery_key d = (dl_incident d, dl_destination d, dl_episode d, dl_phase d)"

definition attempts_of :: "string \<Rightarrow> budget list \<Rightarrow> nat" where
  "attempts_of i bs = sum_list (map bu_attempts (filter (\<lambda>b. bu_delivery b = i) bs))"

text \<open>Queue and lease capacities.\<close>

definition queues_bounded :: "delivery list \<Rightarrow> bool" where
  "queues_bounded ds \<longleftrightarrow> length ds \<le> 4096 \<and> length (filter is_active ds) \<le> 1024 \<and> in_flight ds \<le> 16
     \<and> (\<forall>dest. length (filter (\<lambda>d. dl_destination d = dest \<and> is_active d) ds) \<le> 128
          \<and> in_flight_to dest ds \<le> 2)"

text \<open>Every delivery has its active budget, and its attempts are those its budgets count.\<close>

definition budgets_account :: "delivery list \<Rightarrow> budget list \<Rightarrow> bool" where
  "budgets_account ds bs \<longleftrightarrow>
     (\<forall>b \<in> set bs. bu_attempts b \<le> bu_max b \<and> bu_max b = 128 \<and> bu_delivery b \<in> dl_id ` set ds)
     \<and> (\<forall>d \<in> set ds. (\<exists>b \<in> set bs. bu_id b = dl_session d \<and> bu_delivery b = dl_id d)
          \<and> dl_total_attempts d = attempts_of (dl_id d) bs)"

definition wf_outbox :: "'z outbox_db_scheme \<Rightarrow> bool" where
  "wf_outbox db \<longleftrightarrow>
     distinct (map dl_id (ob_deliveries db)) \<and> distinct (map delivery_key (ob_deliveries db))
     \<and> distinct (map bu_id (ob_budgets db))
     \<and> queues_bounded (ob_deliveries db) \<and> budgets_account (ob_deliveries db) (ob_budgets db)
     \<and> length (ob_destinations db) \<le> 32
     \<and> distinct (map (\<lambda>x. destination_ref (sd_config x)) (ob_destinations db))
     \<and> distinct (ob_receipts db) \<and> length (ob_receipts db) \<le> 200000"

section \<open>Updates\<close>

lemma filter_map_le:
  "(\<And>x. x \<in> set xs \<Longrightarrow> P (g x) \<Longrightarrow> P x) \<Longrightarrow> length (filter P (map g xs)) \<le> length (filter P xs)"
  by (induction xs) auto

lemma filter_map_one:
  "distinct (map k xs) \<Longrightarrow> length (filter P (map (\<lambda>x. if k x = i then f x else x) xs))
     \<le> Suc (length (filter P xs))"
proof (induction xs)
  case Nil
  then show ?case by simp
next
  case (Cons x xs)
  show ?case
  proof (cases "k x = i")
    case True
    with Cons.prems have "i \<notin> k ` set xs" by auto
    then have "map (\<lambda>x. if k x = i then f x else x) xs = xs" by (intro map_idI) auto
    then show ?thesis using True by simp
  next
    case False
    then show ?thesis using Cons by simp
  qed
qed

text \<open>An update that keeps the identity of a delivery and activates nothing.\<close>

definition calm :: "(delivery \<Rightarrow> delivery) \<Rightarrow> bool" where
  "calm g \<longleftrightarrow> (\<forall>d. dl_id (g d) = dl_id d \<and> delivery_key (g d) = delivery_key d
     \<and> dl_session (g d) = dl_session d \<and> dl_total_attempts (g d) = dl_total_attempts d
     \<and> (is_active (g d) \<longrightarrow> is_active d) \<and> (dl_state (g d) = IN_FLIGHT \<longrightarrow> dl_state d = IN_FLIGHT))"

lemma delivery_key_destination: "delivery_key d = delivery_key d' \<Longrightarrow> dl_destination d = dl_destination d'"
  by (simp add: delivery_key_def)

lemma calm_queues:
  assumes "calm g" and "queues_bounded ds"
  shows "queues_bounded (map g ds)"
proof -
  have g: "dl_destination (g d) = dl_destination d" "is_active (g d) \<Longrightarrow> is_active d"
    "dl_state (g d) = IN_FLIGHT \<Longrightarrow> dl_state d = IN_FLIGHT" for d
    using assms(1) delivery_key_destination unfolding calm_def by blast+
  have le: "length (filter P (map g ds)) \<le> n"
    if "\<And>d. P (g d) \<Longrightarrow> P d" "length (filter P ds) \<le> n" for P n
    using filter_map_le [of ds P g] that by (meson order_trans)
  show ?thesis
    using assms(2) unfolding queues_bounded_def in_flight_def in_flight_to_def
    by (intro conjI allI le) (auto simp: g(1) dest: g(2,3))
qed

lemma calm_accounts: "calm g \<Longrightarrow> budgets_account (map g ds) bs = budgets_account ds bs"
  unfolding budgets_account_def calm_def by (simp add: image_image)

lemma calm_map_wf:
  assumes "calm g" and "wf_outbox db"
  shows "wf_outbox (db\<lparr>ob_deliveries := map g (ob_deliveries db)\<rparr>)"
proof -
  have "map dl_id (map g ds) = map dl_id ds" "map delivery_key (map g ds) = map delivery_key ds" for ds
    using assms(1) by (simp_all add: calm_def)
  then show ?thesis
    using assms(2) calm_queues [OF assms(1)] calm_accounts [OF assms(1)]
    unfolding wf_outbox_def by (simp del: map_map)
qed

lemma calm_wf: "calm (\<lambda>d. if p d then f d else d) \<Longrightarrow> wf_outbox db \<Longrightarrow> wf_outbox (set_deliveries p f db)"
  unfolding set_deliveries_def by (rule calm_map_wf)

lemma attempts_of_map:
  "(\<And>b. bu_delivery (g b) = bu_delivery b \<and> bu_attempts (g b) = bu_attempts b) \<Longrightarrow>
     attempts_of i (map g bs) = attempts_of i bs"
  by (induction bs) (simp_all add: attempts_of_def)

lemma budgets_map_wf:
  assumes "\<And>b. bu_id (g b) = bu_id b \<and> bu_delivery (g b) = bu_delivery b
      \<and> bu_attempts (g b) = bu_attempts b \<and> bu_max (g b) = bu_max b"
    and "wf_outbox db"
  shows "wf_outbox (db\<lparr>ob_budgets := map g (ob_budgets db)\<rparr>)"
proof -
  have "map bu_id (map g bs) = map bu_id bs" for bs using assms(1) by simp
  moreover have "budgets_account ds (map g bs) = budgets_account ds bs" for ds bs
    using assms(1) attempts_of_map [of g] unfolding budgets_account_def by simp
  ultimately show ?thesis using assms(2) unfolding wf_outbox_def by (simp del: map_map)
qed

lemma budgets_calm_wf:
  "(\<And>b. bu_id (f b) = bu_id b \<and> bu_delivery (f b) = bu_delivery b \<and> bu_attempts (f b) = bu_attempts b
     \<and> bu_max (f b) = bu_max b) \<Longrightarrow> wf_outbox db \<Longrightarrow> wf_outbox (set_budgets p f db)"
  unfolding set_budgets_def by (rule budgets_map_wf) auto

lemma bump_fields [simp]:
  "dl_id (bump s d) = dl_id d" "delivery_key (bump s d) = delivery_key d" "dl_session (bump s d) = dl_session d"
  "dl_total_attempts (bump s d) = dl_total_attempts d" "dl_state (bump s d) = s"
  "dl_version (bump s d) = Suc (dl_version d)" "dl_destination (bump s d) = dl_destination d"
  by (simp_all add: bump_def delivery_key_def)

lemma settle_wf: "wf_outbox db \<Longrightarrow> wf_outbox (settle now db)"
  unfolding settle_def mark_budgets_def exhaust_spent_def expire_leases_def
  by (intro budgets_calm_wf calm_wf) (auto simp: calm_def is_active_def delivery_key_def bump_def)

section \<open>Claim and finish\<close>

lemma find_by_key:
  "distinct (map k xs) \<Longrightarrow> x \<in> set xs \<Longrightarrow> y \<in> set xs \<Longrightarrow> k x = k y \<Longrightarrow> x = y"
  by (simp add: distinct_map inj_on_def)

lemma find_delivery_mem: "find_delivery i db = Some d \<Longrightarrow> d \<in> set (ob_deliveries db) \<and> dl_id d = i"
  by (auto simp: find_delivery_def dest: find_some_mem)

lemma find_budget_mem: "find_budget i db = Some b \<Longrightarrow> b \<in> set (ob_budgets db) \<and> bu_id b = i"
  by (auto simp: find_budget_def dest: find_some_mem)

lemma attempts_of_bump:
  assumes "distinct (map bu_id bs)" and "b \<in> set bs"
  shows "attempts_of i (map (\<lambda>x. if bu_id x = bu_id b then x\<lparr>bu_attempts := Suc (bu_attempts x)\<rparr> else x) bs)
    = attempts_of i bs + (if bu_delivery b = i then 1 else 0)"
  using assms
proof (induction bs)
  case Nil
  then show ?case by simp
next
  case (Cons x bs)
  show ?case
  proof (cases "bu_id x = bu_id b")
    case True
    with Cons.prems have "x = b" by (auto intro: find_by_key)
    moreover from Cons.prems True have "bu_id b \<notin> bu_id ` set bs" by auto
    then have "map (\<lambda>x. if bu_id x = bu_id b then x\<lparr>bu_attempts := Suc (bu_attempts x)\<rparr> else x) bs = bs"
      by (intro map_idI) (metis image_eqI)
    ultimately show ?thesis by (simp add: attempts_of_def)
  next
    case False
    with Cons show ?thesis by (auto simp: attempts_of_def)
  qed
qed

text \<open>An update of one delivery may assume what holds of that delivery.\<close>

lemma set_delivery_where:
  assumes "distinct (map dl_id (ob_deliveries db))" and "d \<in> set (ob_deliveries db)" and "Q d"
  shows "set_deliveries (\<lambda>x. dl_id x = dl_id d) f db = set_deliveries (\<lambda>x. dl_id x = dl_id d \<and> Q x) f db"
proof -
  have "(if dl_id x = dl_id d then f x else x) = (if dl_id x = dl_id d \<and> Q x then f x else x)"
    if "x \<in> set (ob_deliveries db)" for x
    using find_by_key [OF assms(1) that assms(2)] assms(3) by auto
  then show ?thesis by (simp add: set_deliveries_def cong: map_cong)
qed

lemma calm_delivery_wf:
  assumes "wf_outbox db" and "d \<in> set (ob_deliveries db)" and "Q d"
    and "calm (\<lambda>x. if dl_id x = dl_id d \<and> Q x then f x else x)"
  shows "wf_outbox (set_deliveries (\<lambda>x. dl_id x = dl_id d) f db)"
proof -
  have "distinct (map dl_id (ob_deliveries db))" using assms(1) by (simp add: wf_outbox_def)
  from set_delivery_where [where Q = Q, OF this assms(2,3)] calm_wf [OF assms(4,1)] show ?thesis by simp
qed

text \<open>What a claim does to the delivery it claims.\<close>

definition claim_update :: "string \<Rightarrow> rat \<Rightarrow> delivery \<Rightarrow> delivery" where
  "claim_update claim lease d = (bump IN_FLIGHT d)\<lparr>dl_total_attempts := Suc (dl_total_attempts d),
     dl_claim := Some claim, dl_lease := Some lease\<rparr>"

lemma claim_body_cases:
  assumes "claim_body dest transport now claim chosen db = Inr (c, db')"
  obtains (status) s where "c = Claim_Status s" "db' = settle now db"
  | (spent) d where "c = Claim_Status ''EXHAUSTED''"
      "db' = set_deliveries (\<lambda>x. dl_id x = dl_id d) (bump EXHAUSTED) (settle now db)"
      "d \<in> set (ob_deliveries (settle now db))" "dl_state d = PENDING"
  | (claimed) d b config where "c = Claimed d (sd_config config)" "find_destination dest db = Some config"
      "in_flight (ob_deliveries (settle now db)) < 16" "in_flight_to dest (ob_deliveries (settle now db)) < 2"
      "chosen = Some (dl_id d)" "d \<in> set (ob_deliveries (settle now db))" "eligible dest now d"
      "b \<in> set (ob_budgets (settle now db))" "bu_id b = dl_session d" "dl_hash d = sd_hash config"
      "5 \<le> bu_deadline b - now"
      "db' = set_budgets (\<lambda>x. bu_id x = bu_id b) (\<lambda>x. x\<lparr>bu_attempts := Suc (bu_attempts x)\<rparr>)
         (set_deliveries (\<lambda>x. dl_id x = dl_id d \<and> dl_version x = dl_version d)
            (claim_update claim (min (now + 10) (bu_deadline b))) (settle now db))"
proof -
  from assms obtain config where config: "find_destination dest db = Some config"
    by (auto simp: claim_body_def split: option.splits)
  note run = assms [unfolded claim_body_def config option.case Let_def]
  consider "c = Claim_Status ''CAPACITY_PAUSED'' \<or> c = Claim_Status ''NO_ELIGIBLE_DELIVERY''" "db' = settle now db"
    | d i b where "chosen = Some i" "find_delivery i (settle now db) = Some d" "eligible dest now d"
      "in_flight (ob_deliveries (settle now db)) < 16" "in_flight_to dest (ob_deliveries (settle now db)) < 2"
      "find_budget (dl_session d) (settle now db) = Some b"
    using run by (fastforce simp: not_le bind_eq_Some_conv split: if_splits option.splits)
  then show thesis
  proof cases
    case 1
    with status show thesis by blast
  next
    case 2
    note d = find_delivery_mem [OF 2(2)] and b = find_budget_mem [OF 2(6)]
    have run': "(if dl_hash d \<noteq> sd_hash config \<or> bu_deadline b - now < 5
       then Inr (Claim_Status ''EXHAUSTED'',
         set_deliveries (\<lambda>x. dl_id x = dl_id d) (bump EXHAUSTED) (settle now db))
       else Inr (Claimed d (sd_config config),
         set_budgets (\<lambda>x. bu_id x = dl_session d) (\<lambda>x. x\<lparr>bu_attempts := Suc (bu_attempts x)\<rparr>)
           (set_deliveries (\<lambda>x. dl_id x = dl_id d \<and> dl_version x = dl_version d)
              (claim_update claim (min (now + 10) (bu_deadline b))) (settle now db))))
      = (Inr (c, db') :: (claim_result \<times> 'a outbox_db_scheme) res)"
      using run 2 by (auto simp: claim_update_def [abs_def] split: if_splits)
    show thesis
    proof (cases "dl_hash d \<noteq> sd_hash config \<or> bu_deadline b - now < 5")
      case True
      with run' d 2 show thesis by (intro spent [of d]) (auto simp: eligible_def)
    next
      case False
      with run' d b 2 config show thesis by (intro claimed [of d config b]) auto
    qed
  qed
qed

lemma set_deliveries_other [simp]:
  "ob_budgets (set_deliveries p f db) = ob_budgets db"
  "ob_destinations (set_deliveries p f db) = ob_destinations db"
  "ob_receipts (set_deliveries p f db) = ob_receipts db"
  "incidents (set_deliveries p f db) = incidents db" "transitions (set_deliveries p f db) = transitions db"
  by (simp_all add: set_deliveries_def)

lemma set_budgets_other [simp]:
  "ob_deliveries (set_budgets p f db) = ob_deliveries db"
  "ob_destinations (set_budgets p f db) = ob_destinations db"
  "ob_receipts (set_budgets p f db) = ob_receipts db"
  "incidents (set_budgets p f db) = incidents db" "transitions (set_budgets p f db) = transitions db"
  by (simp_all add: set_budgets_def)

text \<open>After the settlement no pending delivery has a spent budget.\<close>

lemma settled_budget:
  assumes "d \<in> set (ob_deliveries (settle now db))" and "dl_state d = PENDING"
    and "b \<in> set (ob_budgets (settle now db))" and "bu_id b = dl_session d"
  shows "\<not> spent now b"
proof -
  have d: "d \<in> set (ob_deliveries (exhaust_spent now (expire_leases now db)))"
    using assms(1) by (simp add: settle_def mark_budgets_def)
  obtain b0 where b0: "b0 \<in> set (ob_budgets (expire_leases now db))" "bu_id b0 = bu_id b"
    "bu_deadline b0 = bu_deadline b" "bu_max b0 = bu_max b" "bu_attempts b0 = bu_attempts b"
    using assms(3) by (auto simp: settle_def mark_budgets_def exhaust_spent_def set_budgets_def)
  have "\<not> spent now b0"
    using d assms(2,4) b0 by (auto simp: exhaust_spent_def set_deliveries_def bump_def list_ex_iff)
  then show ?thesis using b0 by (simp add: spent_def)
qed

lemma claim_queues:
  assumes "queues_bounded ds" and "distinct (map dl_id ds)" and "d \<in> set ds" and "dl_state d = PENDING"
    and "in_flight ds < 16" and "in_flight_to (dl_destination d) ds < 2"
  shows "queues_bounded (map (\<lambda>x. if dl_id x = dl_id d \<and> dl_version x = dl_version d
    then claim_update claim lease x else x) ds)"
proof -
  have eq: "(if dl_id x = dl_id d \<and> dl_version x = dl_version d then claim_update claim lease x else x)
      = (if dl_id x = dl_id d then claim_update claim lease d else x)" if "x \<in> set ds" for x
    using find_by_key [OF assms(2) that assms(3)] by auto
  let ?g = "\<lambda>x. if dl_id x = dl_id d then claim_update claim lease d else x"
  have g: "is_active (?g x) = is_active x" "dl_destination (?g x) = dl_destination x" if "x \<in> set ds" for x
    using find_by_key [OF assms(2) that assms(3)] assms(4)
    by (auto simp: claim_update_def is_active_def bump_def)
  have one: "in_flight (map ?g ds) \<le> Suc (in_flight ds)"
    "in_flight_to dest (map ?g ds) \<le> Suc (in_flight_to dest ds)" for dest
    unfolding in_flight_def in_flight_to_def by (rule filter_map_one [OF assms(2)])+
  have other: "in_flight_to dest (map ?g ds) \<le> in_flight_to dest ds" if "dest \<noteq> dl_destination d" for dest
    unfolding in_flight_to_def using that find_by_key [OF assms(2) _ assms(3)]
    by (intro filter_map_le) (auto simp: claim_update_def bump_def split: if_splits)
  have "in_flight_to dest (map ?g ds) \<le> 2" for dest
    using assms(1,6) one(2) [of dest] other [of dest]
    by (cases "dest = dl_destination d") (auto simp: queues_bounded_def intro: order_trans)
  moreover have "length (filter is_active (map ?g ds)) \<le> length (filter is_active ds)"
    "length (filter (\<lambda>x. dl_destination x = dest \<and> is_active x) (map ?g ds))
      \<le> length (filter (\<lambda>x. dl_destination x = dest \<and> is_active x) ds)" for dest
    by (intro filter_map_le; simp add: g)+
  ultimately have "queues_bounded (map ?g ds)"
    using assms(1,5) one(1) unfolding queues_bounded_def by (auto intro: order_trans)
  then show ?thesis using eq by (simp cong: map_cong)
qed

lemma claim_accounts:
  assumes acc: "budgets_account ds bs" and ids: "distinct (map dl_id ds)" "distinct (map bu_id bs)"
    and d: "d \<in> set ds" and b: "b \<in> set bs" "bu_id b = dl_session d" "bu_attempts b < bu_max b"
  shows "budgets_account (map (\<lambda>x. if dl_id x = dl_id d \<and> dl_version x = dl_version d
      then claim_update claim lease x else x) ds)
    (map (\<lambda>x. if bu_id x = bu_id b then x\<lparr>bu_attempts := Suc (bu_attempts x)\<rparr> else x) bs)"
proof -
  let ?g = "\<lambda>x. if dl_id x = dl_id d \<and> dl_version x = dl_version d then claim_update claim lease x else x"
  let ?h = "\<lambda>x. if bu_id x = bu_id b then x\<lparr>bu_attempts := Suc (bu_attempts x)\<rparr> else x"
  have g: "dl_id (?g x) = dl_id x" "dl_session (?g x) = dl_session x" for x by (simp_all add: claim_update_def)
  have h: "bu_id (?h x) = bu_id x" "bu_delivery (?h x) = bu_delivery x" "bu_max (?h x) = bu_max x" for x by simp_all
  obtain b' where b': "b' \<in> set bs" "bu_id b' = dl_session d" "bu_delivery b' = dl_id d"
    using acc d by (auto simp: budgets_account_def)
  with b have bd: "bu_delivery b = dl_id d" using find_by_key [OF ids(2), of b b'] by simp
  have total: "dl_total_attempts (?g x) = dl_total_attempts x + (if dl_id x = dl_id d then 1 else 0)"
    if "x \<in> set ds" for x
    using find_by_key [OF ids(1) that d] by (auto simp: claim_update_def)
  have max: "bu_attempts (?h x) \<le> bu_max (?h x)" if "x \<in> set bs" for x
    using acc that b(3) find_by_key [OF ids(2) that b(1)] by (auto simp: budgets_account_def)
  show ?thesis
    unfolding budgets_account_def
  proof (intro conjI ballI)
    fix x assume "x \<in> set (map ?h bs)"
    then obtain y where y: "y \<in> set bs" "x = ?h y" by auto
    show "bu_attempts x \<le> bu_max x" using max y by simp
    show "bu_max x = 128" using acc y by (simp add: budgets_account_def)
    show "bu_delivery x \<in> dl_id ` set (map ?g ds)"
      using acc y by (simp only: set_map image_image g h) (simp add: budgets_account_def)
  next
    fix x assume "x \<in> set (map ?g ds)"
    then obtain y where y: "y \<in> set ds" "x = ?g y" by auto
    from acc y(1) obtain c where "c \<in> set bs" "bu_id c = dl_session y" "bu_delivery c = dl_id y"
      by (auto simp: budgets_account_def)
    then have "?h c \<in> set (map ?h bs)" "bu_id (?h c) = dl_session x" "bu_delivery (?h c) = dl_id x"
      unfolding y(2) g h by simp_all
    then show "\<exists>c \<in> set (map ?h bs). bu_id c = dl_session x \<and> bu_delivery c = dl_id x" by blast
    show "dl_total_attempts x = attempts_of (dl_id x) (map ?h bs)"
      unfolding y(2) total [OF y(1)] g attempts_of_bump [OF ids(2) b(1)] bd
      using acc y(1) by (auto simp: budgets_account_def)
  qed
qed

lemma claim_body_wf:
  assumes "wf_outbox db" and "claim_body dest transport now claim chosen db = Inr (c, db')"
  shows "wf_outbox db'"
  using assms(2)
proof (cases rule: claim_body_cases)
  case (status s)
  with settle_wf [OF assms(1)] show ?thesis by simp
next
  case (spent d)
  show ?thesis
    unfolding spent(2)
    by (rule calm_delivery_wf [where Q = "\<lambda>x. dl_state x = PENDING", OF settle_wf [OF assms(1)] spent(3,4)])
      (auto simp: calm_def is_active_def delivery_key_def bump_def)
next
  case (claimed d b config)
  let ?db = "settle now db"
  have wf: "wf_outbox ?db" by (rule settle_wf [OF assms(1)])
  have ids: "distinct (map dl_id (ob_deliveries ?db))" "distinct (map bu_id (ob_budgets ?db))"
    using wf by (simp_all add: wf_outbox_def)
  have d: "dl_state d = PENDING" "dl_destination d = dest" using claimed(7) by (simp_all add: eligible_def)
  have "bu_attempts b < bu_max b"
    using settled_budget [OF claimed(6) d(1) claimed(8,9)] by (simp add: spent_def)
  note acc = claim_accounts [OF _ ids claimed(6,8,9) this]
  note queues = claim_queues [OF _ ids(1) claimed(6) d(1) claimed(3)]
  let ?g = "\<lambda>x. if dl_id x = dl_id d \<and> dl_version x = dl_version d
      then claim_update claim (min (now + 10) (bu_deadline b)) x else x"
  have "map dl_id (map ?g ds) = map dl_id ds" "map delivery_key (map ?g ds) = map delivery_key ds" for ds
    by (simp_all add: claim_update_def delivery_key_def bump_def)
  moreover have "map bu_id (map (\<lambda>x. if bu_id x = bu_id b then x\<lparr>bu_attempts := Suc (bu_attempts x)\<rparr> else x) bs)
      = map bu_id bs" for bs :: "budget list" by simp
  ultimately show ?thesis
    using wf acc queues claimed(4) d(2)
    unfolding claimed(12) wf_outbox_def set_deliveries_def set_budgets_def by (simp del: map_map)
qed

lemma finish_body_cases:
  assumes "finish_body now jitter i claim version outcome db = Inr (state, db')"
  obtains d due where "find_delivery i db = Some d" "dl_state d = IN_FLIGHT" "dl_claim d = Some claim"
    "dl_version d = version" "state \<in> {ACCEPTED, PAUSED, UNKNOWN, PENDING, EXHAUSTED}"
    "state = outcome_state (ao_kind outcome) \<or> outcome_state (ao_kind outcome) = PENDING \<and> state = EXHAUSTED"
    "db' = (let db1 = set_deliveries (\<lambda>x. dl_id x = i) (\<lambda>x. (bump state x)\<lparr>dl_next_due := due,
         dl_claim := None, dl_lease := None, dl_receipt := Some (ao_receipt outcome)\<rparr>) db
       in if state = PENDING then db1
          else set_budgets (\<lambda>x. bu_id x = dl_session d) (\<lambda>x. x\<lparr>bu_state := state\<rparr>) db1)"
proof -
  from assms obtain d b where d: "find_delivery i db = Some d" "find_budget (dl_session d) db = Some b"
    by (auto simp: finish_body_def split: option.splits)
  note run = assms [unfolded finish_body_def d option.case]
  then obtain due where r: "dl_state d = IN_FLIGHT" "dl_claim d = Some claim" "dl_version d = version"
    "(state = outcome_state (ao_kind outcome) \<and> state \<noteq> PENDING)
     \<or> (outcome_state (ao_kind outcome) = PENDING \<and> state \<in> {PENDING, EXHAUSTED})"
    "db' = (let db1 = set_deliveries (\<lambda>x. dl_id x = i) (\<lambda>x. (bump state x)\<lparr>dl_next_due := due,
         dl_claim := None, dl_lease := None, dl_receipt := Some (ao_receipt outcome)\<rparr>) db
       in if state = PENDING then db1
          else set_budgets (\<lambda>x. bu_id x = dl_session d) (\<lambda>x. x\<lparr>bu_state := state\<rparr>) db1)"
    by (auto simp: result_simps Let_def split: if_splits)
  show thesis
    by (rule that [OF d(1) r(1-3) _ _ r(5)]) (use r(4) in \<open>auto simp: outcome_state_def split: if_splits\<close>)
qed

lemma finish_body_wf:
  assumes "wf_outbox db" and "finish_body now jitter i claim version outcome db = Inr (state, db')"
  shows "wf_outbox db'"
  using assms(2)
proof (cases rule: finish_body_cases)
  case (1 d due)
  note d = find_delivery_mem [OF 1(1)]
  have "wf_outbox (set_deliveries (\<lambda>x. dl_id x = dl_id d) (\<lambda>x. (bump state x)\<lparr>dl_next_due := due,
      dl_claim := None, dl_lease := None, dl_receipt := Some (ao_receipt outcome)\<rparr>) db)"
    by (rule calm_delivery_wf [where Q = "\<lambda>x. dl_state x = IN_FLIGHT", OF assms(1) conjunct1 [OF d] 1(2)])
      (use 1(5) in \<open>auto simp: calm_def is_active_def delivery_key_def bump_def\<close>)
  then show ?thesis
    unfolding 1(7) Let_def using d by (auto intro!: budgets_calm_wf)
qed

section \<open>Recovery\<close>

lemma count_query_wf: "preserves wf_outbox (count_query i version)"
proof (rule preservesI)
  fix db r db'
  assume wf: "wf_outbox db" and "count_query i version db = (r, db')"
  then have "db' = set_deliveries (\<lambda>d. dl_id d = i \<and> int (dl_version d) = version \<and> dl_state d = UNKNOWN
      \<and> dl_reconciliations d < 8) (\<lambda>d. d\<lparr>dl_reconciliations := Suc (dl_reconciliations d)\<rparr>) db"
    by (auto simp: count_query_def Let_def split: if_splits)
  with calm_wf [OF _ wf] show "wf_outbox db'"
    by (simp add: calm_def is_active_def delivery_key_def)
qed

lemma answered_body_cases:
  assumes "answered_body now due i version outcome db = Inr (state, db')"
  obtains d where "find_delivery i db = Some d" "dl_state d = UNKNOWN" "int (dl_version d) = version"
    "state \<in> {ACCEPTED, PENDING, EXHAUSTED}"
    "state = ACCEPTED \<longleftrightarrow> ao_kind outcome = ''ACCEPTED''"
    "db' = set_budgets (\<lambda>x. bu_id x = dl_session d)
        (\<lambda>x. x\<lparr>bu_state := (if state = PENDING then ACTIVE else state)\<rparr>)
      (set_deliveries (\<lambda>x. dl_id x = i) (\<lambda>x. (bump state x)\<lparr>dl_next_due := due,
         dl_receipt := Some (ao_receipt outcome)\<rparr>) db)"
proof -
  from assms obtain d b where d: "find_delivery i db = Some d" "find_budget (dl_session d) db = Some b"
    by (auto simp: answered_body_def split: option.splits)
  with assms show thesis by (intro that [of d]) (auto simp: answered_body_def Let_def split: if_splits)
qed

lemma answered_body_wf:
  assumes "wf_outbox db" and "answered_body now due i version outcome db = Inr (state, db')"
  shows "wf_outbox db'"
  using assms(2)
proof (cases rule: answered_body_cases)
  case (1 d)
  note d = find_delivery_mem [OF 1(1)]
  have "wf_outbox (set_deliveries (\<lambda>x. dl_id x = dl_id d) (\<lambda>x. (bump state x)\<lparr>dl_next_due := due,
      dl_receipt := Some (ao_receipt outcome)\<rparr>) db)"
    by (rule calm_delivery_wf [where Q = "\<lambda>x. dl_state x = UNKNOWN", OF assms(1) conjunct1 [OF d] 1(2)])
      (use 1(4) in \<open>auto simp: calm_def is_active_def delivery_key_def bump_def\<close>)
  then show ?thesis unfolding 1(6) using d by (auto intro!: budgets_calm_wf)
qed

lemma attempts_of_append: "attempts_of i (bs @ cs) = attempts_of i bs + attempts_of i cs"
  by (simp add: attempts_of_def)

text \<open>Renewing replaces the budget session and keeps the old one as history.\<close>

lemma renew_body_cases:
  assumes "renew_body sid now i version reason g db = Inr (s, db')"
  obtains d where "find_delivery i db = Some d" "dl_state d = EXHAUSTED" "sid \<notin> bu_id ` set (ob_budgets db)"
    "db' = set_deliveries (\<lambda>x. dl_id x = i) (\<lambda>x. (bump PENDING x)\<lparr>dl_session := sid,
         dl_next_due := timestamp now\<rparr>)
       (db\<lparr>ob_budgets := map (\<lambda>b. if bu_id b = dl_session d then b\<lparr>bu_state := EXHAUSTED\<rparr> else b) (ob_budgets db)
         @ [new_budget sid i g reason (timestamp now)]\<rparr>)"
proof -
  from assms obtain d where d: "find_delivery i db = Some d" by (auto simp: renew_body_def split: option.splits)
  with assms show thesis
    by (intro that [of d]) (auto simp: renew_body_def Let_def set_budgets_def split: if_splits)
qed

lemma renew_body_wf:
  assumes "wf_outbox db" and "renew_body sid now i version reason g db = Inr (s, db')"
  shows "wf_outbox db'"
  using assms(2)
proof (cases rule: renew_body_cases)
  case (1 d)
  note d = find_delivery_mem [OF 1(1)]
  let ?g = "\<lambda>x. if dl_id x = i then (bump PENDING x)\<lparr>dl_session := sid, dl_next_due := timestamp now\<rparr> else x"
  let ?h = "\<lambda>b. if bu_id b = dl_session d then b\<lparr>bu_state := EXHAUSTED\<rparr> else b"
  let ?new = "new_budget sid i g reason (timestamp now)"
  let ?ds = "ob_deliveries db" and ?bs = "ob_budgets db"
  have ids: "distinct (map dl_id ?ds)" and acc: "budgets_account ?ds ?bs" and q: "queues_bounded ?ds"
    using assms(1) by (simp_all add: wf_outbox_def)
  have keys: "map dl_id (map ?g ds) = map dl_id ds" "map delivery_key (map ?g ds) = map delivery_key ds" for ds
    by (simp_all add: delivery_key_def bump_def)
  have h: "bu_id (?h b) = bu_id b" "bu_delivery (?h b) = bu_delivery b" "bu_attempts (?h b) = bu_attempts b"
    "bu_max (?h b) = bu_max b" for b by simp_all
  have att: "attempts_of k (map ?h bs @ [?new]) = attempts_of k bs" for k bs
    unfolding attempts_of_append using attempts_of_map [of ?h k bs]
    by (simp add: attempts_of_def new_budget_def)
  have le: "length (filter P (map ?g ?ds)) \<le> n" if "\<And>x. x \<in> set ?ds \<Longrightarrow> P (?g x) \<Longrightarrow> P x" "length (filter P ?ds) \<le> n"
    for P n using filter_map_le [of ?ds P ?g] that by (meson order_trans)
  have g: "is_active (?g x) \<Longrightarrow> is_active x" "dl_destination (?g x) = dl_destination x"
    "dl_state (?g x) = IN_FLIGHT \<Longrightarrow> dl_state x = IN_FLIGHT" if "x \<in> set ?ds" for x
    using find_by_key [OF ids that conjunct1 [OF d]] d 1(2)
    by (auto simp: is_active_def bump_def split: if_splits)
  have "queues_bounded (map ?g ?ds)"
    using q unfolding queues_bounded_def in_flight_def in_flight_to_def
    by (intro conjI allI le) (auto simp: g(2) dest: g(1,3))
  moreover have "budgets_account (map ?g ?ds) (map ?h ?bs @ [?new])"
    unfolding budgets_account_def
  proof (intro conjI ballI)
    fix b assume "b \<in> set (map ?h ?bs @ [?new])"
    then consider c where "c \<in> set ?bs" "b = ?h c" | "b = ?new" by auto
    then have "bu_attempts b \<le> bu_max b \<and> bu_max b = 128 \<and> bu_delivery b \<in> dl_id ` set ?ds"
    proof cases
      case (1 c)
      with acc have "bu_attempts c \<le> bu_max c \<and> bu_max c = 128 \<and> bu_delivery c \<in> dl_id ` set ?ds"
        unfolding budgets_account_def by blast
      then show ?thesis unfolding 1(2) h .
    next
      case 2
      with d show ?thesis by (auto simp: new_budget_def)
    qed
    moreover have "dl_id ` set (map ?g ?ds) = dl_id ` set ?ds" by (metis keys(1) list.set_map)
    ultimately show "bu_attempts b \<le> bu_max b" "bu_max b = 128" "bu_delivery b \<in> dl_id ` set (map ?g ?ds)" by simp_all
  next
    fix x assume "x \<in> set (map ?g ?ds)"
    then obtain y where y: "y \<in> set ?ds" "x = ?g y" by auto
    from acc y(1) obtain c where c: "c \<in> set ?bs" "bu_id c = dl_session y" "bu_delivery c = dl_id y"
      by (auto simp: budgets_account_def)
    show "\<exists>b \<in> set (map ?h ?bs @ [?new]). bu_id b = dl_session x \<and> bu_delivery b = dl_id x"
    proof (cases "dl_id y = i")
      case True
      then show ?thesis using y(2) by (simp add: new_budget_def bump_def)
    next
      case False
      then have "?h c \<in> set (map ?h ?bs @ [?new])" "bu_id (?h c) = dl_session x" "bu_delivery (?h c) = dl_id x"
        using c y(2) by simp_all
      then show ?thesis by blast
    qed
    show "dl_total_attempts x = attempts_of (dl_id x) (map ?h ?bs @ [?new])"
      unfolding att using acc y by (auto simp: budgets_account_def bump_def)
  qed
  moreover have "map bu_id (map ?h bs) = map bu_id bs" for bs :: "budget list" by simp
  then have "distinct (map bu_id (map ?h ?bs @ [?new]))"
    using assms(1) 1(3) by (simp add: wf_outbox_def new_budget_def del: map_map)
  ultimately show ?thesis
    using assms(1) keys unfolding 1(4) wf_outbox_def set_deliveries_def by (simp del: map_map map_append)
qed

section \<open>Owner history\<close>

lemma queues_append:
  assumes "queues_bounded ds" and "\<not> outbox_full (dl_destination d) ds" and "dl_state d = PENDING"
  shows "queues_bounded (ds @ [d])"
  using assms unfolding queues_bounded_def outbox_full_def in_flight_def in_flight_to_def
  by (auto simp: is_active_def)

lemma enqueue_cases:
  assumes "enqueue_current bytes delivery sid now config g i db = Inr db'"
  obtains (kept) "db' = db"
  | (added) r where "\<not> outbox_full (destination_ref (sd_config config)) (ob_deliveries db)"
      "alert_wanted config r (alert_episode r (transitions db)) (alert_phase_of r) (ob_deliveries db)"
      "r \<in> set (incidents db)" "delivery \<notin> dl_id ` set (ob_deliveries db)" "sid \<notin> bu_id ` set (ob_budgets db)"
      "db' = db\<lparr>ob_deliveries := ob_deliveries db
           @ [new_delivery delivery sid (timestamp now) config r (alert_episode r (transitions db)) (alert_phase_of r)],
         ob_budgets := ob_budgets db
           @ [new_budget sid delivery g ''OWNER_INCIDENT_TRANSITION'' (timestamp now)]\<rparr>"
proof (cases "find (\<lambda>r. incident_id r = i) (incidents db)")
  case None
  with assms show thesis by (simp add: enqueue_current_def)
next
  case (Some r)
  then have "r \<in> set (incidents db)" using find_some_mem by fastforce
  with Some assms kept added [of r] show thesis
    by (auto simp: enqueue_current_def Let_def split: if_splits)
qed

lemma enqueue_wf:
  assumes "wf_outbox db" and "enqueue_current bytes delivery sid now config g i db = Inr db'"
  shows "wf_outbox db'"
  using assms(2)
proof (cases rule: enqueue_cases)
  case kept
  with assms(1) show ?thesis by simp
next
  case (added r)
  let ?d = "new_delivery delivery sid (timestamp now) config r (alert_episode r (transitions db)) (alert_phase_of r)"
  let ?b = "new_budget sid delivery g ''OWNER_INCIDENT_TRANSITION'' (timestamp now)"
  let ?ds = "ob_deliveries db" and ?bs = "ob_budgets db"
  have d: "dl_id ?d = delivery" "dl_session ?d = sid" "dl_total_attempts ?d = 0" "dl_state ?d = PENDING"
    "dl_destination ?d = destination_ref (sd_config config)" by (simp_all add: new_delivery_def)
  have b: "bu_id ?b = sid" "bu_delivery ?b = delivery" "bu_attempts ?b = 0" "bu_max ?b = 128"
    by (simp_all add: new_budget_def)
  have acc: "budgets_account ?ds ?bs" using assms(1) by (simp add: wf_outbox_def)
  have "delivery_key ?d \<notin> delivery_key ` set ?ds"
    using added(2) by (auto simp: alert_wanted_def has_delivery_def list_ex_iff delivery_key_def new_delivery_def)
  moreover have "attempts_of delivery ?bs = 0"
    using acc added(4) by (auto simp: budgets_account_def attempts_of_def filter_empty_conv)
  then have "budgets_account (?ds @ [?d]) (?bs @ [?b])"
    using acc d b unfolding budgets_account_def attempts_of_append
    by (auto simp: attempts_of_def [of _ "[?b]"] added(4))
  moreover have "queues_bounded (?ds @ [?d])"
    using queues_append [of ?ds ?d] assms(1) added(1) d by (simp add: wf_outbox_def)
  ultimately show ?thesis
    using assms(1) added(4,5) d b unfolding added(6) wf_outbox_def by simp
qed

lemma enqueue_keeps:
  assumes "enqueue_current bytes delivery sid now config g i db = Inr db'"
  shows "ob_receipts db' = ob_receipts db \<and> transitions db' = transitions db \<and> incidents db' = incidents db
     \<and> ob_destinations db' = ob_destinations db"
  using assms by (cases rule: enqueue_cases) simp_all

lemma reconcile_step_cases:
  assumes "reconcile_step bytes ids clk config g row db = Inr db'"
  obtains k t r db1 where "row = (k, t, r)"
    "enqueue_current bytes (ids (2 * k)) (ids (2 * k + 1)) (clk k) config g (tr_incident t) db = Inr db1"
    "(destination_ref (sd_config config), tr_revision t) \<notin> set (ob_receipts db1)"
    "db' = db1\<lparr>ob_receipts := ob_receipts db1 @ [(destination_ref (sd_config config), tr_revision t)]\<rparr>"
  using assms that by (cases row) (auto simp: reconcile_step_def result_simps split: if_splits)

lemma receipts_wf:
  "wf_outbox db \<Longrightarrow> distinct rs \<Longrightarrow> length rs \<le> 200000 \<Longrightarrow> wf_outbox (db\<lparr>ob_receipts := rs\<rparr>)"
  by (simp add: wf_outbox_def)

lemma reconcile_rows:
  assumes "foldE (reconcile_step bytes ids clk config g) rows db = Inr db'" and "wf_outbox db"
    and "length (ob_receipts db) + length rows \<le> 200000"
  shows "wf_outbox db' \<and> transitions db' = transitions db \<and> incidents db' = incidents db
    \<and> ob_receipts db' = ob_receipts db
        @ map (\<lambda>(k, t, r). (destination_ref (sd_config config), tr_revision t)) rows"
  using assms
proof (induction rows arbitrary: db)
  case Nil
  then show ?case by simp
next
  case (Cons row rows)
  then obtain db2 where step: "reconcile_step bytes ids clk config g row db = Inr db2"
    and rest: "foldE (reconcile_step bytes ids clk config g) rows db2 = Inr db'"
    by (auto simp: result_simps)
  from step show ?case
  proof (cases rule: reconcile_step_cases)
    case (1 k t r db1)
    note e = enqueue_keeps [OF 1(2)]
    have "wf_outbox db2"
      unfolding 1(4) using enqueue_wf [OF Cons.prems(2) 1(2)] 1(3) Cons.prems(3) e
      by (intro receipts_wf) (auto simp: wf_outbox_def)
    from Cons.IH [OF rest this] Cons.prems(3) e 1(1,4) show ?thesis by auto
  qed
qed

lemma reconcile_body_cases:
  assumes "reconcile_body bytes ids clk dest limit g db = Inr (res, db')"
  obtains config rows where "find_destination dest db = Some config"
    "rows = take (nat limit) (sort_by urgency_le (first_unprocessed dest db))"
    "int (length (ob_receipts db)) + limit \<le> 200000"
    "foldE (reconcile_step bytes ids clk config g) (enumerate 0 rows) db = Inr db'"
    "rr_processed res = length rows" "rr_pending res = (unprocessed dest db' \<noteq> [])"
  using assms by (auto simp: reconcile_body_def Let_def result_simps split: option.splits if_splits)

lemma reconcile_body_effect:
  assumes "wf_outbox db" and "0 \<le> limit" and "reconcile_body bytes ids clk dest limit g db = Inr (res, db')"
  shows "wf_outbox db' \<and> transitions db' = transitions db \<and> incidents db' = incidents db
    \<and> ob_receipts db' = ob_receipts db @ map (\<lambda>(t, r). (dest, tr_revision t))
        (take (nat limit) (sort_by urgency_le (first_unprocessed dest db)))"
  using assms(3)
proof (cases rule: reconcile_body_cases)
  case (1 config rows)
  have "destination_ref (sd_config config) = dest"
    using 1(1) by (auto simp: find_destination_def dest: find_some_mem)
  moreover have "length (ob_receipts db) + length (enumerate 0 rows) \<le> 200000"
    using 1(2,3) assms(2) by simp
  moreover have "map (\<lambda>(k, t, r). (dest, tr_revision t)) (enumerate 0 rows) = map (\<lambda>(t, r). (dest, tr_revision t)) rows"
    by (rule nth_equalityI) (simp_all add: case_prod_beta nth_enumerate_eq)
  ultimately show ?thesis using reconcile_rows [OF 1(4) assms(1)] 1(2) by simp
qed

lemma configure_body_wf:
  assumes "wf_outbox db" and "configure_body sha event now d g db = Inr (u, db')"
  shows "wf_outbox db'"
proof -
  have "destination_ref d \<notin> (\<lambda>x. destination_ref (sd_config x)) ` set (ob_destinations db)"
    if "find_destination (destination_ref d) db = None"
    using that by (auto simp: find_destination_def find_none_iff)
  with assms show ?thesis
    by (auto simp: configure_body_def Let_def wf_outbox_def split: option.splits if_splits)
qed

section \<open>Steps of the outbox\<close>

text \<open>
  Who moves: ordinary work (configuration, reconciliation, claims, the incident store), the result
  of the claim of a worker with the answer of its transport, a human renewal under an authorizer, an
  answer of the authoritative query of a transport, and the whole recovery call around such a query.
  The last two are both steps, because other workers may move between the count, the query and the
  transaction that writes the answer.
\<close>

datatype outbox_label = Work | Result string "alert_outcome res" | Renewal authorizer | Answer transport
  | Recovery authorizer transport

inductive outbox_step :: "outbox_label \<Rightarrow> 'z outbox_db_scheme \<Rightarrow> 'z outbox_db_scheme \<Rightarrow> bool" where
  configuring: "configure a sha event now d db = (r, db') \<Longrightarrow> outbox_step Work db db'"
| reconciling: "reconcile_owner_transitions a bytes ids clk dest limit db = (rr, db') \<Longrightarrow> outbox_step Work db db'"
| claiming: "claim_once a dest tp now claim db = (c, db') \<Longrightarrow> outbox_step Work db db'"
| finishing: "finish now jitter i claim version (sanitize ans) db = (st, db') \<Longrightarrow> outbox_step (Result claim ans) db db'"
| observing: "outbox_step Work db (db\<lparr>incidents := rows, transitions := ts\<rparr>)"
| counting: "count_query i version db = (r, db') \<Longrightarrow> outbox_step Work db db'"
| renewing: "renew_exhausted_budget a sid now i version reason db = (s, db') \<Longrightarrow> outbox_step (Renewal a) db db'"
| answering: "proven (tp_query t i) = Some out \<Longrightarrow> transaction (answered_body now due i version out) db = (st, db')
    \<Longrightarrow> outbox_step (Answer t) db db'"
| recovering: "reconcile_ambiguous_delivery a t clk i version db = (st, db') \<Longrightarrow> outbox_step (Recovery a t) db db'"

lemma configure_preserves: "preserves wf_outbox (configure a sha event now d)"
  by (rule preservesI) (auto simp: configure_def transaction_def intro: configure_body_wf
      split: if_splits sum.splits prod.splits)

lemma reconcile_preserves: "preserves wf_outbox (reconcile_owner_transitions a bytes ids clk dest limit)"
  by (rule preservesI) (auto simp: reconcile_owner_transitions_def transaction_def
      dest: reconcile_body_effect [THEN conjunct1, rotated 2] split: if_splits sum.splits prod.splits)

lemma claim_preserves: "preserves wf_outbox (claim_once a dest tp now claim)"
  by (rule preservesI) (auto simp: claim_once_def transaction_def Let_def intro: claim_body_wf
      split: if_splits sum.splits prod.splits)

lemma finish_preserves: "preserves wf_outbox (finish now jitter i claim version out)"
  unfolding finish_def by (intro preserves_intros) (rule finish_body_wf)

lemma renew_preserves: "preserves wf_outbox (renew_exhausted_budget a sid now i version reason)"
  by (rule preservesI) (auto simp: renew_exhausted_budget_def transaction_def intro: renew_body_wf
      split: if_splits sum.splits prod.splits option.splits)

lemma answered_preserves: "preserves wf_outbox (transaction (answered_body now due i version out))"
  by (intro preserves_intros) (rule answered_body_wf)

lemma observing_wf: "wf_outbox db \<Longrightarrow> wf_outbox (db\<lparr>incidents := rows, transitions := ts\<rparr>)"
  by (simp add: wf_outbox_def)

lemma recover_preserves: "preserves wf_outbox (reconcile_ambiguous_delivery a t clk i version)"
proof (rule preservesI)
  fix db r db'
  assume wf: "wf_outbox db" and run: "reconcile_ambiguous_delivery a t clk i version db = (r, db')"
  have "preserves wf_outbox (bindS (count_query i version) (\<lambda>_. case proven (tp_query t i) of
      None \<Rightarrow> returnS UNKNOWN
    | Some out \<Rightarrow> transaction (answered_body (timestamp (clk 0)) (timestamp (clk 1)) i version out)))"
    by (intro preserves_intros count_query_wf answered_preserves)
  from preservesD [OF this] wf run show "wf_outbox db'"
    by (auto simp: reconcile_ambiguous_delivery_def split: option.splits sum.splits if_splits)
qed

lemma outbox_step_wf: "outbox_step l db db' \<Longrightarrow> wf_outbox db \<Longrightarrow> wf_outbox db'"
  by (induction rule: outbox_step.induct)
    (blast intro: preservesD [OF configure_preserves] preservesD [OF reconcile_preserves]
      preservesD [OF claim_preserves] preservesD [OF finish_preserves] preservesD [OF renew_preserves]
      preservesD [OF count_query_wf] preservesD [OF answered_preserves] preservesD [OF recover_preserves]
      observing_wf)+

section \<open>The states of a delivery\<close>

text \<open>What the owner granted: an answer that allows the action on this very delivery to such an actor.\<close>

definition owner_granted :: "authorizer \<Rightarrow> string \<Rightarrow> delivery \<Rightarrow> string set \<Rightarrow> bool" where
  "owner_granted a action d actors \<longleftrightarrow> (\<exists>f g. a = Some f
     \<and> f action (resource (dl_destination d) (Some (dl_id d))) = Inr g \<and> field g ''allowed'' = JBool True
     \<and> json_eq (field g ''resource'') (resource (dl_destination d) (Some (dl_id d)))
     \<and> field g ''actor'' \<in> JStr ` actors)"

text \<open>Ordinary work starts an attempt, finds a budget spent, or finds a lease that has run out.\<close>

definition work_moves :: "delivery \<Rightarrow> delivery \<Rightarrow> bool" where
  "work_moves d d' \<longleftrightarrow> dl_session d' = dl_session d
     \<and> (dl_state d = PENDING \<and> dl_state d' \<in> {IN_FLIGHT, EXHAUSTED}
        \<or> dl_state d = IN_FLIGHT \<and> dl_state d' = UNKNOWN \<and> dl_lease d \<noteq> None)"

text \<open>The transport's answer to an attempt: what it must say for each state of the delivery.\<close>

definition result_moves :: "string \<Rightarrow> alert_outcome res \<Rightarrow> delivery \<Rightarrow> delivery \<Rightarrow> bool" where
  "result_moves claim ans d d' \<longleftrightarrow> dl_session d' = dl_session d \<and> dl_state d = IN_FLIGHT \<and> dl_claim d = Some claim
     \<and> (dl_state d' = UNKNOWN
        \<or> (\<exists>out. ans = Inr out \<and> dl_receipt d' = Some (ao_receipt out)
             \<and> (ao_kind out = ''ACCEPTED'' \<and> ao_receipt out \<noteq> [] \<and> dl_state d' = ACCEPTED
                \<or> ao_kind out = ''PERMANENT'' \<and> dl_state d' = PAUSED
                \<or> ao_kind out = ''TRANSIENT_NOT_ACCEPTED'' \<and> dl_state d' \<in> {PENDING, EXHAUSTED})))"

text \<open>A renewal gives the delivery a new budget, in the name of the human who was granted it.\<close>

definition renewal_moves :: "authorizer \<Rightarrow> budget list \<Rightarrow> delivery \<Rightarrow> delivery \<Rightarrow> bool" where
  "renewal_moves a bs d d' \<longleftrightarrow> dl_state d = EXHAUSTED \<and> dl_state d' = PENDING
     \<and> owner_granted a ''RENEW_EXHAUSTED_BUDGET'' d {''HUMAN''}
     \<and> (\<exists>b \<in> set bs. bu_id b = dl_session d' \<and> bu_delivery b = dl_id d \<and> bu_actor_type b = ''HUMAN''
          \<and> bu_attempts b = 0 \<and> bu_reason b \<noteq> [])"

text \<open>The answer of the authoritative query about this delivery.\<close>

definition query_moves :: "transport \<Rightarrow> delivery \<Rightarrow> delivery \<Rightarrow> bool" where
  "query_moves t d d' \<longleftrightarrow> dl_session d' = dl_session d \<and> dl_state d = UNKNOWN
     \<and> (\<exists>out. tp_query t (dl_id d) = Inr out \<and> dl_receipt d' = Some (ao_receipt out)
          \<and> (ao_kind out = ''ACCEPTED'' \<and> ao_receipt out \<noteq> [] \<and> length (ao_receipt out) \<le> 200
               \<and> dl_state d' = ACCEPTED
             \<or> ao_kind out = ''TRANSIENT_NOT_ACCEPTED'' \<and> dl_state d' \<in> {PENDING, EXHAUSTED}))"

text \<open>The recovery call asks, with the owner's grant, the transport of the delivery's destination.\<close>

definition recovery_moves :: "authorizer \<Rightarrow> transport \<Rightarrow> stored_destination list \<Rightarrow> delivery \<Rightarrow> delivery \<Rightarrow> bool" where
  "recovery_moves a t cs d d' \<longleftrightarrow> query_moves t d d' \<and> owner_granted a ''RECONCILE'' d {''HUMAN'', ''SERVICE''}
     \<and> (\<exists>c \<in> set cs. destination_ref (sd_config c) = dl_destination d \<and> transport_ref (sd_config c) = tp_ref t)"

fun moves :: "outbox_label \<Rightarrow> 'z outbox_db_scheme \<Rightarrow> 'z outbox_db_scheme \<Rightarrow> delivery \<Rightarrow> delivery \<Rightarrow> bool" where
  "moves Work db db' = work_moves"
| "moves (Result claim ans) db db' = result_moves claim ans"
| "moves (Renewal a) db db' = renewal_moves a (ob_budgets db')"
| "moves (Answer t) db db' = query_moves t"
| "moves (Recovery a t) db db' = recovery_moves a t (ob_destinations db)"

text \<open>
  A delivery stays as it is, but for its count of queries, or makes one of the given moves: then its
  version grows by one, and its attempts too when it goes in flight. Its identity, payload and
  configuration hash stay in any case.
\<close>

definition follows :: "(delivery \<Rightarrow> delivery \<Rightarrow> bool) \<Rightarrow> delivery \<Rightarrow> delivery \<Rightarrow> bool" where
  "follows mv d d' \<longleftrightarrow> dl_id d' = dl_id d \<and> delivery_key d' = delivery_key d
     \<and> dl_payload d' = dl_payload d \<and> dl_hash d' = dl_hash d
     \<and> (d' = d\<lparr>dl_reconciliations := dl_reconciliations d'\<rparr>
        \<or> mv d d' \<and> dl_state d' \<noteq> dl_state d \<and> dl_version d' = Suc (dl_version d)
          \<and> dl_total_attempts d' = dl_total_attempts d + (if dl_state d' = IN_FLIGHT then 1 else 0))"

definition all_follow :: "(delivery \<Rightarrow> delivery \<Rightarrow> bool) \<Rightarrow> 'z outbox_db_scheme \<Rightarrow> 'z outbox_db_scheme \<Rightarrow> bool" where
  "all_follow mv db db' \<longleftrightarrow> (\<forall>d \<in> set (ob_deliveries db). \<exists>d' \<in> set (ob_deliveries db'). follows mv d d')"

lemma follows_refl: "follows mv d d"
  by (simp add: follows_def)

lemma follows_moveI:
  "dl_id d' = dl_id d \<Longrightarrow> delivery_key d' = delivery_key d \<Longrightarrow> dl_payload d' = dl_payload d \<Longrightarrow> dl_hash d' = dl_hash d
     \<Longrightarrow> mv d d' \<Longrightarrow> dl_state d' \<noteq> dl_state d \<Longrightarrow> dl_version d' = Suc (dl_version d)
     \<Longrightarrow> dl_total_attempts d' = dl_total_attempts d + (if dl_state d' = IN_FLIGHT then 1 else 0) \<Longrightarrow> follows mv d d'"
  by (simp add: follows_def)

lemma follows_cases:
  assumes "follows mv d d'"
  obtains (same) "dl_state d' = dl_state d" "dl_total_attempts d' = dl_total_attempts d"
      "d' = d\<lparr>dl_reconciliations := dl_reconciliations d'\<rparr>"
  | (moved) "mv d d'" "dl_state d' \<noteq> dl_state d"
      "dl_total_attempts d' = dl_total_attempts d + (if dl_state d' = IN_FLIGHT then 1 else 0)"
proof (cases "d' = d\<lparr>dl_reconciliations := dl_reconciliations d'\<rparr>")
  case True
  have "dl_state d' = dl_state d" using arg_cong [OF True, of dl_state] by simp
  moreover have "dl_total_attempts d' = dl_total_attempts d"
    using arg_cong [OF True, of dl_total_attempts] by simp
  ultimately show thesis using True by (rule same)
next
  case False
  with assms moved show thesis unfolding follows_def by blast
qed

lemma all_follow_refl: "ob_deliveries db' = ob_deliveries db \<Longrightarrow> all_follow mv db db'"
  using follows_refl by (auto simp: all_follow_def)

lemma all_follow_mono: "all_follow mv db db' \<Longrightarrow> (\<And>d d'. d \<in> set (ob_deliveries db) \<Longrightarrow> mv d d' \<Longrightarrow> mv' d d')
   \<Longrightarrow> all_follow mv' db db'"
  unfolding all_follow_def follows_def by metis

lemma all_follow_map:
  "(\<And>d. d \<in> set (ob_deliveries db) \<Longrightarrow> follows mv d (g d)) \<Longrightarrow>
     ob_deliveries db' = map g (ob_deliveries db) \<Longrightarrow> all_follow mv db db'"
  by (auto simp: all_follow_def)

lemma all_follow_one:
  assumes "distinct (map dl_id (ob_deliveries db))" and "d \<in> set (ob_deliveries db)"
    and "follows mv d (f d)"
    and "ob_deliveries db' = map (\<lambda>x. if dl_id x = dl_id d then f x else x) (ob_deliveries db)"
  shows "all_follow mv db db'"
proof (rule all_follow_map [OF _ assms(4)])
  fix x assume "x \<in> set (ob_deliveries db)"
  then show "follows mv x (if dl_id x = dl_id d then f x else x)"
    using find_by_key [OF assms(1) _ assms(2)] assms(3) follows_refl by auto
qed

lemma settle_deliveries:
  "ob_deliveries (settle now db) = map (\<lambda>d.
     if dl_state d = IN_FLIGHT \<and> (case dl_lease d of None \<Rightarrow> False | Some l \<Rightarrow> l \<le> now)
     then (bump UNKNOWN d)\<lparr>dl_claim := None\<rparr>
     else if dl_state d = PENDING \<and> list_ex (\<lambda>b. bu_id b = dl_session d \<and> spent now b) (ob_budgets db)
     then bump EXHAUSTED d else d) (ob_deliveries db)"
  by (auto simp: settle_def mark_budgets_def exhaust_spent_def expire_leases_def set_deliveries_def bump_def)

lemma bump_follows:
  "dl_state d = PENDING \<Longrightarrow> follows work_moves d (bump EXHAUSTED d)"
  "dl_state d = IN_FLIGHT \<Longrightarrow> dl_lease d \<noteq> None \<Longrightarrow> follows work_moves d ((bump UNKNOWN d)\<lparr>dl_claim := None\<rparr>)"
  by (rule follows_moveI; simp add: work_moves_def delivery_key_def bump_def)+

text \<open>The settlement expires a lease, exhausts a spent delivery, or leaves the delivery alone.\<close>

definition settled :: "rat \<Rightarrow> budget list \<Rightarrow> delivery \<Rightarrow> delivery" where
  "settled now bs d =
     (if dl_state d = IN_FLIGHT \<and> (case dl_lease d of None \<Rightarrow> False | Some l \<Rightarrow> l \<le> now)
      then (bump UNKNOWN d)\<lparr>dl_claim := None\<rparr>
      else if dl_state d = PENDING \<and> list_ex (\<lambda>b. bu_id b = dl_session d \<and> spent now b) bs
      then bump EXHAUSTED d else d)"

lemma settled_follows: "follows work_moves d (settled now bs d)"
  by (cases "dl_lease d") (simp_all add: settled_def bump_follows follows_refl)

lemma settled_cases: "settled now bs d = d \<or> dl_state (settled now bs d) = UNKNOWN \<or> dl_state (settled now bs d) = EXHAUSTED"
  unfolding settled_def by (rule case_split [of "dl_state d = IN_FLIGHT"]) (simp_all add: bump_def)

lemma settled_same: "dl_state (settled now bs d) \<in> {PENDING, IN_FLIGHT} \<Longrightarrow> settled now bs d = d"
  using settled_cases [of now bs d] by auto

lemma settle_deliveries':
  "ob_deliveries (settle now db) = map (settled now (ob_budgets db)) (ob_deliveries db)"
  unfolding settle_deliveries by (simp add: settled_def)

lemma settle_follows:
  "d' \<in> set (ob_deliveries (settle now db)) \<Longrightarrow>
     \<exists>d \<in> set (ob_deliveries db). follows work_moves d d' \<and> (dl_state d' \<in> {PENDING, IN_FLIGHT} \<longrightarrow> d' = d)"
  using settled_follows settled_same unfolding settle_deliveries' by fastforce

lemma settle_all_follow: "all_follow work_moves db (settle now db)"
  by (rule all_follow_map [OF settled_follows settle_deliveries'])

text \<open>A change of one pending delivery after the settlement is a change of the original.\<close>

lemma settle_then_one:
  assumes wf: "wf_outbox db" and d: "d \<in> set (ob_deliveries (settle now db))" "dl_state d = PENDING"
    and f: "follows work_moves d (f d)"
    and db': "ob_deliveries db' = map (\<lambda>x. if dl_id x = dl_id d \<and> Q x then f x else x) (ob_deliveries (settle now db))"
  shows "all_follow work_moves db db'"
  unfolding all_follow_def
proof
  let ?g = "\<lambda>x. if dl_id x = dl_id d \<and> Q x then f x else x"
  have ids: "distinct (map dl_id (ob_deliveries (settle now db)))" "distinct (map dl_id (ob_deliveries db))"
    using settle_wf [OF wf] wf by (simp_all add: wf_outbox_def)
  fix x assume x: "x \<in> set (ob_deliveries db)"
  then obtain y where y: "y \<in> set (ob_deliveries (settle now db))" "follows work_moves x y"
    using settle_all_follow [of db now] by (auto simp: all_follow_def)
  have "follows work_moves x (?g y)"
  proof (cases "dl_id y = dl_id d")
    case True
    have e: "y = d" using find_by_key [OF ids(1) y(1) d(1) True] .
    obtain z where z: "z \<in> set (ob_deliveries db)" "follows work_moves z y" "y = z"
      using settle_follows [OF y(1)] d(2) e by auto
    have "x = z" using find_by_key [OF ids(2) x z(1)] y(2) z(3) by (simp add: follows_def)
    with z(3) e f follows_refl show ?thesis by simp
  qed (use y(2) in simp)
  moreover have "?g y \<in> set (ob_deliveries db')" using y(1) by (auto simp: db')
  ultimately show "\<exists>d' \<in> set (ob_deliveries db'). follows work_moves x d'" by blast
qed

lemma claim_all_follow:
  assumes "wf_outbox db" and "claim_body dest tp now claim chosen db = Inr (c, db')"
  shows "all_follow work_moves db db'"
  using assms(2)
proof (cases rule: claim_body_cases)
  case (status s)
  with settle_all_follow show ?thesis by simp
next
  case (spent d)
  show ?thesis
    by (rule settle_then_one [OF assms(1) spent(3,4), where f = "bump EXHAUSTED" and Q = "\<lambda>_. True"])
      (use bump_follows(1) [OF spent(4)] in \<open>simp_all add: spent(2) set_deliveries_def\<close>)
next
  case (claimed d b config)
  have s: "dl_state d = PENDING" using claimed(7) by (simp add: eligible_def)
  show ?thesis
    by (rule settle_then_one [OF assms(1) claimed(6) s, where Q = "\<lambda>x. dl_version x = dl_version d"
        and f = "claim_update claim (min (now + 10) (bu_deadline b))"])
      (rule follows_moveI, simp_all add: claimed(12) s set_deliveries_def claim_update_def work_moves_def
        delivery_key_def bump_def)
qed

lemma enqueue_all_follow:
  "enqueue_current bytes delivery sid now config g i db = Inr db' \<Longrightarrow> set (ob_deliveries db) \<subseteq> set (ob_deliveries db')"
  by (erule enqueue_cases) auto

lemma reconcile_rows_keep:
  "foldE (reconcile_step bytes ids clk config g) rows db = Inr db' \<Longrightarrow> set (ob_deliveries db) \<subseteq> set (ob_deliveries db')"
proof (induction rows arbitrary: db)
  case Nil
  then show ?case by simp
next
  case (Cons row rows)
  then obtain db2 where step: "reconcile_step bytes ids clk config g row db = Inr db2"
    and rest: "foldE (reconcile_step bytes ids clk config g) rows db2 = Inr db'"
    by (auto simp: result_simps)
  from step have "set (ob_deliveries db) \<subseteq> set (ob_deliveries db2)"
  proof (cases rule: reconcile_step_cases)
    case (1 k t r db1)
    with enqueue_all_follow [OF 1(2)] show ?thesis by simp
  qed
  with Cons.IH [OF rest] show ?case by blast
qed

lemma all_follow_subset: "set (ob_deliveries db) \<subseteq> set (ob_deliveries db') \<Longrightarrow> all_follow mv db db'"
  using follows_refl by (auto simp: all_follow_def)

lemma transaction_follows:
  assumes "transaction body db = (r, db')" and "\<And>x. body db = Inr (x, db') \<Longrightarrow> all_follow mv db db'"
  shows "all_follow mv db db'"
  using assms all_follow_refl [of db db mv]
  by (auto simp: transaction_def split: sum.splits prod.splits)

lemma sanitize_cases:
  "sanitize ans = unknown_outcome \<or> (\<exists>out. ans = Inr out \<and> sanitize ans = out
     \<and> ao_kind out \<in> {''ACCEPTED'', ''TRANSIENT_NOT_ACCEPTED'', ''PERMANENT'', ''UNKNOWN''}
     \<and> (ao_kind out = ''ACCEPTED'' \<longrightarrow> ao_receipt out \<noteq> []))"
  by (cases ans) (auto simp: sanitize_def)

lemma finish_all_follow:
  assumes "wf_outbox db" and "finish_body now jitter i claim version (sanitize ans) db = Inr (state, db')"
  shows "all_follow (result_moves claim ans) db db'"
  using assms(2)
proof (cases rule: finish_body_cases)
  case (1 d due)
  note d = find_delivery_mem [OF 1(1)]
  let ?f = "\<lambda>x. (bump state x)\<lparr>dl_next_due := due, dl_claim := None,
        dl_lease := None, dl_receipt := Some (ao_receipt (sanitize ans))\<rparr>"
  have "state = UNKNOWN \<or> (\<exists>out. ans = Inr out \<and> sanitize ans = out
      \<and> (ao_kind out = ''ACCEPTED'' \<and> ao_receipt out \<noteq> [] \<and> state = ACCEPTED
         \<or> ao_kind out = ''PERMANENT'' \<and> state = PAUSED
         \<or> ao_kind out = ''TRANSIENT_NOT_ACCEPTED'' \<and> state \<in> {PENDING, EXHAUSTED}))"
    using sanitize_cases [of ans] 1(6) by (auto simp: unknown_outcome_def outcome_state_def split: if_splits)
  then have "follows (result_moves claim ans) d (?f d)"
    using 1(2,3) by (intro follows_moveI) (auto simp: result_moves_def delivery_key_def bump_def)
  then show ?thesis
    by (rule all_follow_one [where d = d and f = ?f, rotated 2])
      (use assms(1) d 1(7) in \<open>auto simp: wf_outbox_def Let_def set_deliveries_def\<close>)
qed

lemma proven_Some:
  "proven ans = Some out \<Longrightarrow> ans = Inr out \<and> (ao_kind out = ''TRANSIENT_NOT_ACCEPTED''
     \<or> ao_kind out = ''ACCEPTED'' \<and> ao_receipt out \<noteq> [] \<and> length (ao_receipt out) \<le> 200)"
  by (auto simp: proven_def split: sum.splits if_splits)

lemma answered_all_follow:
  assumes "wf_outbox db" and "proven (tp_query t i) = Some out"
    and "answered_body now due i version out db = Inr (state, db')"
  shows "all_follow (\<lambda>d d'. dl_id d = i \<and> query_moves t d d') db db'"
  using assms(3)
proof (cases rule: answered_body_cases)
  case (1 d)
  note d = find_delivery_mem [OF 1(1)]
  let ?f = "\<lambda>x. (bump state x)\<lparr>dl_next_due := due, dl_receipt := Some (ao_receipt out)\<rparr>"
  have "follows (\<lambda>d d'. dl_id d = i \<and> query_moves t d d') d (?f d)"
    using proven_Some [OF assms(2)] d 1(2,4,5)
    by (intro follows_moveI) (auto simp: query_moves_def delivery_key_def bump_def)
  then show ?thesis
    by (rule all_follow_one [where d = d and f = ?f, rotated 2])
      (use assms(1) d 1(6) in \<open>auto simp: wf_outbox_def set_deliveries_def\<close>)
qed

lemma authorize_granted:
  assumes "ob_authorize a action (dl_destination d) (Some (dl_id d)) human db = Inr g"
  shows "owner_granted a action d (if human then {''HUMAN''} else {''HUMAN'', ''SERVICE''})"
    and "human \<Longrightarrow> gr_actor g = ''HUMAN''"
  using assms
  by (auto simp: ob_authorize_def check_grant_def owner_granted_def bindE_Inr_iff
      split: option.splits if_splits)

lemma renew_all_follow:
  assumes "wf_outbox db" and "renew_body sid now i version reason g db = Inr (s, db')"
    and "find_delivery i db = Some d0" and "reason \<noteq> []"
    and "ob_authorize a ''RENEW_EXHAUSTED_BUDGET'' (dl_destination d0) (Some i) True db = Inr g"
  shows "all_follow (renewal_moves a (ob_budgets db')) db db'"
  using assms(2)
proof (cases rule: renew_body_cases)
  case (1 d)
  note d = find_delivery_mem [OF 1(1)]
  let ?f = "\<lambda>x. (bump PENDING x)\<lparr>dl_session := sid, dl_next_due := timestamp now\<rparr>"
  have "d0 = d" using 1(1) assms(3) by simp
  with authorize_granted [of a "''RENEW_EXHAUSTED_BUDGET''" d True db g] assms(5) d
  have "owner_granted a ''RENEW_EXHAUSTED_BUDGET'' d {''HUMAN''}" "gr_actor g = ''HUMAN''" by simp_all
  then have "follows (renewal_moves a (ob_budgets db')) d (?f d)"
    using d 1(2) assms(4)
    by (intro follows_moveI) (auto simp: renewal_moves_def delivery_key_def bump_def 1(4) set_deliveries_def new_budget_def)
  then show ?thesis
    by (rule all_follow_one [where d = d and f = ?f, rotated 2])
      (use assms(1) d 1(4) in \<open>auto simp: wf_outbox_def set_deliveries_def\<close>)
qed

lemma count_query_deliveries:
  "count_query i version db = (r, db') \<Longrightarrow> ob_deliveries db' = map (\<lambda>d. if dl_id d = i \<and> int (dl_version d) = version
     \<and> dl_state d = UNKNOWN \<and> dl_reconciliations d < 8
     then d\<lparr>dl_reconciliations := Suc (dl_reconciliations d)\<rparr> else d) (ob_deliveries db)"
  by (auto simp: count_query_def Let_def set_deliveries_def split: if_splits)

lemma follows_counted:
  assumes "follows (\<lambda>d d'. dl_id d = i \<and> query_moves t d d') (d\<lparr>dl_reconciliations := n\<rparr>) d'"
  shows "follows (\<lambda>d d'. dl_id d = i \<and> query_moves t d d') d d'"
  using assms by (simp add: follows_def query_moves_def delivery_key_def)

lemma all_follow_counted:
  assumes count: "count_query i version db = (r, db1)"
    and f: "all_follow (\<lambda>d d'. dl_id d = i \<and> query_moves t d d') db1 db'"
  shows "all_follow (\<lambda>d d'. dl_id d = i \<and> query_moves t d d') db db'"
  unfolding all_follow_def
proof
  let ?mv = "\<lambda>d d'. dl_id d = i \<and> query_moves t d d'"
  fix d assume d: "d \<in> set (ob_deliveries db)"
  define x where "x = (if dl_id d = i \<and> int (dl_version d) = version \<and> dl_state d = UNKNOWN \<and> dl_reconciliations d < 8
     then d\<lparr>dl_reconciliations := Suc (dl_reconciliations d)\<rparr> else d)"
  have x: "x \<in> set (ob_deliveries db1)"
    unfolding count_query_deliveries [OF count] set_map x_def using d by (rule imageI)
  have either: "x = d \<or> (\<exists>n. x = d\<lparr>dl_reconciliations := n\<rparr>)" unfolding x_def by (simp only: split: if_split) blast
  from x
  obtain d' where d': "d' \<in> set (ob_deliveries db')" "follows ?mv x d'"
    using f unfolding all_follow_def by blast
  have "follows ?mv d d'"
    using either
  proof (elim disjE exE)
    fix n assume "x = d\<lparr>dl_reconciliations := n\<rparr>"
    with d'(2) show ?thesis by (simp only: follows_counted)
  qed (use d'(2) in \<open>simp only:\<close>)
  with d'(1) show "\<exists>d' \<in> set (ob_deliveries db'). follows ?mv d d'" ..
qed

lemma count_all_follow: "count_query i version db = (r, db') \<Longrightarrow> all_follow mv db db'"
  by (rule all_follow_map [OF _ count_query_deliveries]) (auto simp: follows_def delivery_key_def)

lemma recover_all_follow:
  assumes wf: "wf_outbox db" and run: "reconcile_ambiguous_delivery a t clk i version db = (st, db')"
  shows "all_follow (recovery_moves a t (ob_destinations db)) db db'"
proof (cases "db' = db")
  case True
  then show ?thesis by (simp add: all_follow_refl)
next
  case False
  let ?answer = "\<lambda>_. case proven (tp_query t i) of
      None \<Rightarrow> returnS UNKNOWN
    | Some out \<Rightarrow> transaction (answered_body (timestamp (clk 0)) (timestamp (clk 1)) i version out)"
  from run False obtain d0 g c where d0: "find_delivery i db = Some d0"
    and g: "ob_authorize a ''RECONCILE'' (dl_destination d0) (Some i) False db = Inr g"
    and c: "find_destination (dl_destination d0) db = Some c" "tp_ref t = transport_ref (sd_config c)"
    and body: "bindS (count_query i version) ?answer db = (st, db')"
    by (auto simp: reconcile_ambiguous_delivery_def split: option.splits sum.splits if_splits)
  obtain r db1 where count: "count_query i version db = (r, db1)" by (cases "count_query i version db")
  from body have rest: "db' = db1 \<or> (\<exists>out. proven (tp_query t i) = Some out
      \<and> transaction (answered_body (timestamp (clk 0)) (timestamp (clk 1)) i version out) db1 = (st, db'))"
    by (cases r; cases "proven (tp_query t i)") (simp_all add: bindS_def count returnS_def)
  note wf1 = preservesD [OF count_query_wf count wf]
  have ids: "distinct (map dl_id (ob_deliveries db))" using wf by (simp add: wf_outbox_def)
  note d = find_delivery_mem [OF d0]
  have "all_follow (\<lambda>d d'. dl_id d = i \<and> query_moves t d d') db1 db'"
    using rest
  proof (elim disjE exE conjE)
    fix out assume out: "proven (tp_query t i) = Some out"
      "transaction (answered_body (timestamp (clk 0)) (timestamp (clk 1)) i version out) db1 = (st, db')"
    show ?thesis by (rule transaction_follows [OF out(2)], rule answered_all_follow [OF wf1 out(1)])
  qed (simp add: all_follow_refl)
  then have "all_follow (\<lambda>d d'. dl_id d = i \<and> query_moves t d d') db db'"
    by (rule all_follow_counted [OF count])
  then show ?thesis
  proof (rule all_follow_mono)
    fix x y assume x: "x \<in> set (ob_deliveries db)" "dl_id x = i \<and> query_moves t x y"
    then have "x = d0" using find_by_key [OF ids x(1) conjunct1 [OF d]] d by simp
    with x(2) g c authorize_granted(1) [of a "''RECONCILE''" d0 False db g] d
    show "recovery_moves a t (ob_destinations db) x y"
      by (auto simp: recovery_moves_def find_destination_def dest: find_some_mem)
  qed
qed

lemma step_all_follow:
  assumes "outbox_step l db db'" and "wf_outbox db"
  shows "all_follow (moves l db db') db db'"
  using assms
proof (induction rule: outbox_step.induct)
  case (configuring a sha event now d db r db')
  then have "ob_deliveries db' = ob_deliveries db"
    by (auto simp: configure_def transaction_def configure_body_def Let_def split: if_splits sum.splits option.splits)
  then show ?case by (rule all_follow_refl)
next
  case (reconciling a bytes ids clk dest limit db rr db')
  then have "set (ob_deliveries db) \<subseteq> set (ob_deliveries db')"
    by (auto simp: reconcile_owner_transitions_def transaction_def split: if_splits sum.splits prod.splits
        elim!: reconcile_body_cases dest!: reconcile_rows_keep)
  then show ?case by (rule all_follow_subset)
next
  case (claiming a dest tp now claim db c db')
  then show ?case
    using claim_all_follow [OF claiming(2)] all_follow_refl [of db db]
    by (auto simp: claim_once_def Let_def transaction_def split: sum.splits prod.splits)
next
  case (finishing now jitter i claim version ans db st db')
  then show ?case unfolding finish_def moves.simps by (blast intro: transaction_follows finish_all_follow)
next
  case (observing db rows ts)
  show ?case by (rule all_follow_refl) simp
next
  case (counting i version db r db')
  then show ?case unfolding moves.simps by (blast intro: count_all_follow)
next
  case (renewing a sid now i version reason db s db')
  show ?case
  proof (cases "db' = db")
    case False
    with renewing(1) obtain d0 g x where "find_delivery i db = Some d0" "1 \<le> length reason"
      "ob_authorize a ''RENEW_EXHAUSTED_BUDGET'' (dl_destination d0) (Some i) True db = Inr g"
      "renew_body sid now i version reason g db = Inr (x, db')"
      by (auto simp: renew_exhausted_budget_def transaction_def split: option.splits sum.splits if_splits prod.splits)
    then show ?thesis using renew_all_follow [OF renewing(2)] by (auto simp: Suc_le_eq)
  qed (simp add: all_follow_refl)
next
  case (answering t i out now due version db st db')
  from answering(2) have "all_follow (\<lambda>d d'. dl_id d = i \<and> query_moves t d d') db db'"
    by (rule transaction_follows) (rule answered_all_follow [OF answering(3,1)])
  then show ?case unfolding moves.simps by (rule all_follow_mono) simp
next
  case (recovering a t clk i version db st db')
  then show ?case unfolding moves.simps by (blast intro: recover_all_follow)
qed

section \<open>Progress of the reconciliation\<close>

lemma filter_unique:
  "distinct (map k xs) \<Longrightarrow> x \<in> set xs \<Longrightarrow> filter (\<lambda>y. k y = k x) xs = [x]"
proof (induction xs)
  case Nil
  then show ?case by simp
next
  case (Cons y xs)
  show ?case
  proof (cases "y = x")
    case True
    with Cons.prems have "k x \<notin> k ` set xs" by simp
    then have "filter (\<lambda>y. k y = k x) xs = []" by (metis (mono_tags) filter_empty_conv image_eqI)
    with True show ?thesis by simp
  next
    case False
    with Cons.prems have "x \<in> set xs" by simp
    with Cons.prems have "k y \<noteq> k x" by (metis distinct.simps(2) image_eqI list.set_map list.simps(9))
    with Cons \<open>x \<in> set xs\<close> show ?thesis by simp
  qed
qed

lemma map_fst_pairs:
  "(\<And>t. t \<in> set ts \<Longrightarrow> \<exists>r. f t = [r]) \<Longrightarrow> map fst (concat (map (\<lambda>t. map (Pair t) (f t)) ts)) = ts"
  by (induction ts) (force simp: comp_def)+

lemma length_filter_out:
  assumes "distinct xs" and "distinct ys" and "set ys \<subseteq> set xs"
  shows "length (filter (\<lambda>x. x \<notin> set ys) xs) + length ys = length xs"
proof -
  have "set (filter (\<lambda>x. x \<in> set ys) xs) = set ys" using assms(3) by auto
  then have "length (filter (\<lambda>x. x \<in> set ys) xs) = card (set ys)"
    using assms(1) distinct_card [of "filter (\<lambda>x. x \<in> set ys) xs"] by simp
  then show ?thesis
    using sum_length_filter_compl [of "\<lambda>x. x \<in> set ys" xs] assms(2) by (simp add: distinct_card)
qed

text \<open>Every transition is about an incident of the store.\<close>

definition history_owned :: "'z outbox_db_scheme \<Rightarrow> bool" where
  "history_owned db \<longleftrightarrow> sorted_wrt (<) (map tr_revision (transitions db))
     \<and> distinct (map incident_id (incidents db))
     \<and> (\<forall>t \<in> set (transitions db). \<exists>r \<in> set (incidents db). incident_id r = tr_incident t)"

lemma first_unprocessed_fst:
  assumes "history_owned db"
  shows "map fst (first_unprocessed dest db) = filter (\<lambda>t. list_all (\<lambda>u. tr_incident u = tr_incident t \<longrightarrow>
     tr_revision t \<le> tr_revision u) (unprocessed dest db)) (unprocessed dest db)"
  unfolding first_unprocessed_def
proof (rule map_fst_pairs)
  fix t assume "t \<in> set (filter (\<lambda>t. list_all (\<lambda>u. tr_incident u = tr_incident t \<longrightarrow>
     tr_revision t \<le> tr_revision u) (unprocessed dest db)) (unprocessed dest db))"
  then have "t \<in> set (transitions db)" by (simp add: unprocessed_def)
  with assms obtain r where "r \<in> set (incidents db)" "incident_id r = tr_incident t" "distinct (map incident_id (incidents db))"
    by (auto simp: history_owned_def)
  then show "\<exists>r. filter (\<lambda>r. incident_id r = tr_incident t) (incidents db) = [r]"
    using filter_unique [of incident_id "incidents db" r] by auto
qed

lemma first_unprocessed_some:
  assumes "history_owned db" and "unprocessed dest db \<noteq> []"
  shows "first_unprocessed dest db \<noteq> []"
proof -
  let ?u = "unprocessed dest db"
  have "Min (tr_revision ` set ?u) \<in> tr_revision ` set ?u" using assms(2) by (intro Min_in) auto
  then obtain t where t: "t \<in> set ?u" "tr_revision t = Min (tr_revision ` set ?u)" by auto
  then have "list_all (\<lambda>u. tr_incident u = tr_incident t \<longrightarrow> tr_revision t \<le> tr_revision u) ?u"
    by (simp add: list_all_iff)
  with t(1) have "t \<in> set (map fst (first_unprocessed dest db))" by (simp add: first_unprocessed_fst [OF assms(1)])
  then show ?thesis by auto
qed

lemma reconcile_counts:
  assumes wf: "wf_outbox db" and owned: "history_owned db" and "1 \<le> limit"
    and run: "reconcile_body bytes ids clk dest limit g db = Inr (res, db')"
  shows "length (unprocessed dest db') + rr_processed res = length (unprocessed dest db)
    \<and> (unprocessed dest db \<noteq> [] \<longrightarrow> 0 < rr_processed res)"
proof -
  let ?rows = "take (nat limit) (sort_by urgency_le (first_unprocessed dest db))"
  let ?T = "map fst ?rows" and ?u = "unprocessed dest db"
  have eff: "transitions db' = transitions db"
    "ob_receipts db' = ob_receipts db @ map (\<lambda>(t, r). (dest, tr_revision t)) ?rows"
    using reconcile_body_effect [OF wf _ run] assms(3) by auto
  have n: "rr_processed res = length ?rows" using run by (cases rule: reconcile_body_cases) simp
  have du: "distinct ?u"
    using owned by (simp add: history_owned_def unprocessed_def strict_sorted_iff distinct_map)
  have fst: "set (map fst (first_unprocessed dest db)) \<subseteq> set ?u" "distinct (map fst (first_unprocessed dest db))"
    using du by (auto simp: first_unprocessed_fst [OF owned])
  have perm: "distinct (map fst (sort_by urgency_le (first_unprocessed dest db)))"
  proof -
    have "distinct (first_unprocessed dest db)" "inj_on fst (set (first_unprocessed dest db))"
      using fst(2) by (simp_all add: distinct_map)
    then show ?thesis by (simp add: distinct_map)
  qed
  then have "distinct ?T" by (simp add: take_map [symmetric])
  moreover have sub: "set ?T \<subseteq> set ?u"
    using fst(1) by (auto dest!: in_set_takeD) (force dest: in_set_takeD)
  moreover have "unprocessed dest db' = filter (\<lambda>t. t \<notin> set ?T) ?u"
  proof -
    have new: "(dest, tr_revision t) \<in> set (map (\<lambda>(t, r). (dest, tr_revision t)) ?rows) \<longleftrightarrow> t \<in> set ?T"
      if "t \<in> set (transitions db)" for t
    proof -
      have "inj_on tr_revision (set (transitions db))"
        using owned by (simp add: history_owned_def strict_sorted_iff distinct_map)
      moreover have "set ?T \<subseteq> set (transitions db)" using sub by (auto simp: unprocessed_def)
      ultimately have "tr_revision t \<in> tr_revision ` set ?T \<longleftrightarrow> t \<in> set ?T"
        using that by (simp add: inj_on_image_mem_iff)
      then show ?thesis by (force simp: image_iff)
    qed
    show ?thesis
      unfolding unprocessed_def eff set_append filter_filter
      by (rule filter_cong [OF refl]) (simp only: Un_iff new, blast)
  qed
  ultimately have "length (unprocessed dest db') + length ?T = length ?u"
    using length_filter_out [OF du] by metis
  moreover have "0 < length ?rows" if "?u \<noteq> []"
    using first_unprocessed_some [OF owned that] assms(3) by simp
  ultimately show ?thesis using n by simp
qed

section \<open>The guarantees\<close>

text \<open>
  C11. Every step keeps the outbox well-formed: unique deliveries per incident, destination,
  episode and phase; at most 4096 deliveries, 1024 unsettled, 128 for a destination; at most 16 in
  flight and 2 to a destination; every budget counts at most 128 attempts and the attempts of a
  delivery, hence its transport calls, are exactly those its budget sessions count.
\<close>

theorem outbox_stays_bounded:
  assumes "outbox_step l db db'" and "wf_outbox db"
  shows "wf_outbox db'"
  using outbox_step_wf assms .

text \<open>
  C5. The state machine of a delivery. No step loses one or changes its identity, payload or
  configuration hash. Accepted, paused and cancelled deliveries never change state. A pending one only
  goes in flight or is exhausted, and an attempt is counted exactly when it goes in flight. One in flight
  becomes UNKNOWN, or ends as the transport answered the worker that holds its claim: accepted with a
  receipt, paused for a permanent refusal, pending or exhausted only for a proven non-acceptance. An
  exhausted one is reopened only by a renewal that the owner granted, for this delivery, to a human, and
  runs on a fresh budget in that human's name. An ambiguous one moves only when the query of a transport
  about it proves acceptance, with a receipt, or non-acceptance; the recovery call asks the transport of
  the delivery's destination under the owner's grant.
\<close>

theorem outbox_state_machine:
  assumes "outbox_step l db db'" and "wf_outbox db" and "d \<in> set (ob_deliveries db)"
  shows "\<exists>d' \<in> set (ob_deliveries db'). dl_id d' = dl_id d \<and> delivery_key d' = delivery_key d
     \<and> dl_payload d' = dl_payload d \<and> dl_hash d' = dl_hash d
     \<and> dl_total_attempts d' = dl_total_attempts d
         + (if dl_state d \<noteq> IN_FLIGHT \<and> dl_state d' = IN_FLIGHT then 1 else 0)
     \<and> (dl_state d' = dl_state d \<longrightarrow> d' = d\<lparr>dl_reconciliations := dl_reconciliations d'\<rparr>)
     \<and> (dl_state d \<in> {ACCEPTED, PAUSED, CANCELLED, ACTIVE} \<longrightarrow> dl_state d' = dl_state d)
     \<and> (dl_state d = PENDING \<longrightarrow> dl_state d' \<in> {PENDING, IN_FLIGHT, EXHAUSTED})
     \<and> (dl_state d = IN_FLIGHT \<and> dl_state d' \<notin> {IN_FLIGHT, UNKNOWN} \<longrightarrow>
          (\<exists>claim out. l = Result claim (Inr out) \<and> dl_claim d = Some claim \<and> dl_receipt d' = Some (ao_receipt out)
             \<and> (dl_state d' = ACCEPTED \<and> ao_kind out = ''ACCEPTED'' \<and> ao_receipt out \<noteq> []
                \<or> dl_state d' = PAUSED \<and> ao_kind out = ''PERMANENT''
                \<or> dl_state d' \<in> {PENDING, EXHAUSTED} \<and> ao_kind out = ''TRANSIENT_NOT_ACCEPTED'')))
     \<and> (dl_state d = EXHAUSTED \<and> dl_state d' \<noteq> EXHAUSTED \<longrightarrow> dl_state d' = PENDING
          \<and> (\<exists>a. l = Renewal a \<and> owner_granted a ''RENEW_EXHAUSTED_BUDGET'' d {''HUMAN''})
          \<and> (\<exists>b \<in> set (ob_budgets db'). bu_id b = dl_session d' \<and> bu_delivery b = dl_id d
               \<and> bu_actor_type b = ''HUMAN'' \<and> bu_attempts b = 0 \<and> bu_reason b \<noteq> []))
     \<and> (dl_state d = UNKNOWN \<and> dl_state d' \<noteq> UNKNOWN \<longrightarrow>
          (\<exists>t out. tp_query t (dl_id d) = Inr out \<and> dl_receipt d' = Some (ao_receipt out)
             \<and> (dl_state d' = ACCEPTED \<and> ao_kind out = ''ACCEPTED'' \<and> ao_receipt out \<noteq> []
                  \<and> length (ao_receipt out) \<le> 200
                \<or> dl_state d' \<in> {PENDING, EXHAUSTED} \<and> ao_kind out = ''TRANSIENT_NOT_ACCEPTED'')
             \<and> (l = Answer t \<or> (\<exists>a. l = Recovery a t \<and> owner_granted a ''RECONCILE'' d {''HUMAN'', ''SERVICE''}
                  \<and> (\<exists>c \<in> set (ob_destinations db). destination_ref (sd_config c) = dl_destination d
                       \<and> transport_ref (sd_config c) = tp_ref t)))))"
proof -
  obtain d' where d': "d' \<in> set (ob_deliveries db')" "follows (moves l db db') d d'"
    using step_all_follow [OF assms(1,2)] assms(3) by (auto simp: all_follow_def)
  have "dl_id d' = dl_id d \<and> delivery_key d' = delivery_key d \<and> dl_payload d' = dl_payload d \<and> dl_hash d' = dl_hash d"
    using d'(2) by (simp add: follows_def)
  with d'(2) show ?thesis
  proof (cases rule: follows_cases)
    case same
    with d'(1) show ?thesis by (intro bexI [of _ d']) (auto simp: \<open>_ \<and> _\<close>)
  next
    case moved
    then show ?thesis
      using d'(1) \<open>_ \<and> _\<close>
      by (intro bexI [of _ d']; cases l)
        (force simp: work_moves_def result_moves_def renewal_moves_def query_moves_def recovery_moves_def)+
  qed
qed

text \<open>Consecutive reconciliations of a destination, which stop at the first that fails.\<close>

type_synonym reconcile_call = "authorizer \<times> (json \<Rightarrow> nat) \<times> (nat \<Rightarrow> string) \<times> (nat \<Rightarrow> nat) \<times> int"

fun reconcile_calls ::
  "string \<Rightarrow> reconcile_call list \<Rightarrow> ('z outbox_db_scheme, reconcile_result list) io" where
  "reconcile_calls dest [] = returnS []"
| "reconcile_calls dest ((a, bytes, ids, clk, limit) # calls) =
     bindS (reconcile_owner_transitions a bytes ids clk dest limit) (\<lambda>res.
     bindS (reconcile_calls dest calls) (\<lambda>rest. returnS (res # rest)))"

definition history_noted :: "string \<Rightarrow> 'z outbox_db_scheme \<Rightarrow> reconcile_result res \<Rightarrow> int \<Rightarrow> 'z outbox_db_scheme \<Rightarrow> bool" where
  "history_noted dest db r limit db' \<longleftrightarrow> (case r of
      Inl e \<Rightarrow> db' = db
    | Inr res \<Rightarrow> length (unprocessed dest db') + rr_processed res = length (unprocessed dest db)
        \<and> (unprocessed dest db \<noteq> [] \<longrightarrow> 0 < rr_processed res)
        \<and> (rr_pending res \<longleftrightarrow> unprocessed dest db' \<noteq> []) \<and> int (rr_processed res) \<le> limit
        \<and> transitions db' = transitions db \<and> incidents db' = incidents db)"

lemma reconcile_notes_history:
  assumes "wf_outbox db" and "history_owned db"
    and "reconcile_owner_transitions a bytes ids clk dest limit db = (r, db')"
  shows "history_noted dest db r limit db'"
proof (cases r)
  case (Inl e)
  with assms(3) show ?thesis
    by (auto simp: history_noted_def reconcile_owner_transitions_def transaction_def split: if_splits sum.splits)
next
  case (Inr res)
  with assms(3) obtain g where g: "1 \<le> limit" "reconcile_body bytes ids clk dest limit g db = Inr (res, db')"
    by (auto simp: reconcile_owner_transitions_def transaction_def split: if_splits sum.splits)
  from g(2) have pending: "rr_pending res \<longleftrightarrow> unprocessed dest db' \<noteq> []" "int (rr_processed res) \<le> max 0 limit"
    by (auto elim!: reconcile_body_cases)
  show ?thesis
    using Inr g(1) pending reconcile_counts [OF assms(1,2) g] reconcile_body_effect [OF assms(1) _ g(2)]
    by (simp add: history_noted_def)
qed

lemma reconcile_calls_finish:
  assumes "wf_outbox db" and "history_owned db" and "reconcile_calls dest calls db = (Inr rs, db')"
    and "length (unprocessed dest db) \<le> length calls"
  shows "unprocessed dest db' = [] \<and> sum_list (map rr_processed rs) = length (unprocessed dest db)
     \<and> transitions db' = transitions db \<and> incidents db' = incidents db"
  using assms
proof (induction calls arbitrary: db rs)
  case Nil
  then show ?case by (simp add: returnS_def)
next
  case (Cons call calls)
  obtain a bytes ids clk limit where call: "call = (a, bytes, ids, clk, limit)" by (cases call) auto
  from Cons.prems(3) obtain res rest db1 where
    step: "reconcile_owner_transitions a bytes ids clk dest limit db = (Inr res, db1)"
    and run: "reconcile_calls dest calls db1 = (Inr rest, db')" and rs: "rs = res # rest"
    by (auto simp: call bindS_Inr returnS_def)
  from reconcile_notes_history [OF Cons.prems(1,2) step]
  have n: "length (unprocessed dest db1) + rr_processed res = length (unprocessed dest db)"
    "unprocessed dest db \<noteq> [] \<longrightarrow> 0 < rr_processed res"
    "transitions db1 = transitions db" "incidents db1 = incidents db"
    by (simp_all add: history_noted_def)
  have "wf_outbox db1" by (rule preservesD [OF reconcile_preserves step Cons.prems(1)])
  moreover have "history_owned db1" using Cons.prems(2) n(3,4) by (simp add: history_owned_def)
  moreover have "length (unprocessed dest db1) \<le> length calls"
    using n(1,2) Cons.prems(4) by (cases "unprocessed dest db = []") auto
  ultimately show ?case using Cons.IH [OF _ _ run] n rs by simp
qed

text \<open>
  C24. In a store whose history is in order and only about its incidents, a reconciliation that returns
  has taken note of as many transitions as it reports, at least one when any was pending and at most the
  limit, says truly whether any is left and leaves no other trace in the history; one that fails changes
  nothing. Hence calls that return, as many as there are pending transitions, leave nothing pending and
  have reported every transition once.
\<close>

theorem reconcile_makes_progress:
  assumes "wf_outbox db" and "history_owned db"
  shows "(\<forall>r db'. reconcile_owner_transitions a bytes ids clk dest limit db = (r, db') \<longrightarrow> (case r of
      Inl e \<Rightarrow> db' = db
    | Inr res \<Rightarrow> length (unprocessed dest db') + rr_processed res = length (unprocessed dest db)
        \<and> (unprocessed dest db \<noteq> [] \<longrightarrow> 0 < rr_processed res)
        \<and> (rr_pending res \<longleftrightarrow> unprocessed dest db' \<noteq> []) \<and> int (rr_processed res) \<le> limit
        \<and> transitions db' = transitions db \<and> incidents db' = incidents db))
    \<and> (\<forall>calls rs db'. reconcile_calls dest calls db = (Inr rs, db')
          \<and> length (unprocessed dest db) \<le> length calls \<longrightarrow>
        unprocessed dest db' = [] \<and> sum_list (map rr_processed rs) = length (unprocessed dest db)
        \<and> transitions db' = transitions db \<and> incidents db' = incidents db)"
proof (intro conjI allI impI)
  fix r db' assume "reconcile_owner_transitions a bytes ids clk dest limit db = (r, db')"
  from reconcile_notes_history [OF assms this] show "case r of
      Inl e \<Rightarrow> db' = db
    | Inr res \<Rightarrow> length (unprocessed dest db') + rr_processed res = length (unprocessed dest db)
        \<and> (unprocessed dest db \<noteq> [] \<longrightarrow> 0 < rr_processed res)
        \<and> (rr_pending res \<longleftrightarrow> unprocessed dest db' \<noteq> []) \<and> int (rr_processed res) \<le> limit
        \<and> transitions db' = transitions db \<and> incidents db' = incidents db"
    unfolding history_noted_def .
qed (use reconcile_calls_finish [OF assms] in blast)+

definition sample_config :: stored_destination where
  "sample_config = \<lparr>sd_config = \<lparr>destination_ref = ''d'', recipient_ref = ''r'', transport_ref = ''t'',
     transport_secret_ref = ''s'', policy_ref = ''p'', minimum_severity = ''ERROR''\<rparr>,
     sd_hash = ''h'', sd_tenant = ''n''\<rparr>"

definition sample_grant :: authorizer where
  "sample_grant = Some (\<lambda>a r. Inr (JObj [(''allowed'', JBool True), (''resource'', r), (''decisionRef'', JStr ''x''),
     (''principal'', JStr ''u''), (''policyRef'', JStr ''p''), (''actor'', JStr ''SERVICE''), (''tenant'', JStr ''n'')]))"

definition alert_row :: incident where
  "alert_row = new_incident sample_args ERROR ''u1'' (iso_z 0)"

definition sample_outbox :: outbox_db where
  "sample_outbox = \<lparr>incidents = [alert_row],
     transitions = [\<lparr>tr_revision = 1, tr_incident = ''u1'', tr_body = alert_row\<rparr>],
     history_baseline = Some [], ob_destinations = [sample_config], ob_receipts = [], ob_deliveries = [],
     ob_budgets = [], ob_audit = []\<rparr>"

lemma alert_row_fields [simp]:
  "incident_id alert_row = ''u1''" "lifecycle_state alert_row = OPEN" "severity alert_row = ERROR"
  by (simp_all add: alert_row_def new_incident_def)

lemma sample_outbox_wf: "wf_outbox sample_outbox" "history_owned sample_outbox"
  by (simp_all add: wf_outbox_def history_owned_def sample_outbox_def queues_bounded_def in_flight_def
      in_flight_to_def budgets_account_def)

lemma sample_authorized:
  "ob_authorize sample_grant action ''d'' i False sample_outbox = Inr \<lparr>gr_principal = ''u'', gr_actor = ''SERVICE'',
     gr_tenant = ''n'', gr_decision = ''x'', gr_policy = ''p''\<rparr>"
  by (simp add: ob_authorize_def sample_grant_def check_grant_def field_def find_destination_def
      sample_outbox_def sample_config_def)

definition sample_reconciled :: "reconcile_result res \<times> outbox_db" where
  "sample_reconciled = reconcile_owner_transitions sample_grant (\<lambda>_. 0) (\<lambda>k. replicate k CHR ''x'') (\<lambda>_. 0)
     ''d'' 8 sample_outbox"

lemma sample_reconciled_ok: "is_ok (fst sample_reconciled)"
  unfolding sample_reconciled_def reconcile_owner_transitions_def sample_authorized
  by (simp add: transaction_def reconcile_body_def reconcile_step_def enqueue_current_def
      first_unprocessed_def unprocessed_def alert_wanted_def alert_phase_of_def severity_number_def
      has_delivery_def outbox_full_def find_destination_def sample_outbox_def sample_config_def Let_def
      split: sum.splits prod.splits)

theorem reconcile_makes_progress_witness:
  "\<exists>res db'. sample_reconciled = (Inr res, db') \<and> 0 < rr_processed res"
proof -
  obtain res db' where run: "sample_reconciled = (Inr res, db')"
    using sample_reconciled_ok by (metis is_ok_iff prod.collapse)
  have "unprocessed ''d'' sample_outbox \<noteq> []" by (simp add: unprocessed_def sample_outbox_def)
  with reconcile_makes_progress [OF sample_outbox_wf, THEN conjunct1, rule_format, OF run [unfolded sample_reconciled_def]]
  show ?thesis using run by auto
qed

lemma sample_step: "outbox_step Work sample_outbox (snd sample_reconciled)"
  unfolding sample_reconciled_def by (rule reconciling, rule prod.collapse [symmetric])

theorem outbox_stays_bounded_witness: "wf_outbox (snd sample_reconciled)"
  by (rule outbox_stays_bounded [OF sample_step sample_outbox_wf(1)])

definition sample_pending :: outbox_db where
  "sample_pending = sample_outbox\<lparr>
     ob_deliveries := [new_delivery ''i'' ''b'' 0 sample_config alert_row 1 PROBLEM],
     ob_budgets := [new_budget ''b'' ''i'' \<lparr>gr_principal = ''u'', gr_actor = ''SERVICE'', gr_tenant = ''n'',
       gr_decision = ''x'', gr_policy = ''p''\<rparr> ''w'' 0]\<rparr>"

theorem outbox_state_machine_witness:
  "\<exists>d'. d' \<in> set (ob_deliveries (snd (claim_once sample_grant ''d'' ''t'' 0 ''c'' sample_pending))) \<and> dl_id d' = ''i''"
proof -
  have wf: "wf_outbox sample_pending"
    by (simp add: wf_outbox_def sample_pending_def sample_outbox_def queues_bounded_def in_flight_def
        in_flight_to_def budgets_account_def new_delivery_def new_budget_def attempts_of_def)
  have step: "outbox_step Work sample_pending (snd (claim_once sample_grant ''d'' ''t'' 0 ''c'' sample_pending))"
    by (rule claiming, rule prod.collapse [symmetric])
  have "new_delivery ''i'' ''b'' 0 sample_config alert_row 1 PROBLEM \<in> set (ob_deliveries sample_pending)"
    by (simp add: sample_pending_def)
  from outbox_state_machine [OF step wf this] show ?thesis by (auto simp: new_delivery_def)
qed

end
