(* ===== verification/Boundaries.thy ===== *)
theory Boundaries
  imports Prelude
begin

text \<open>
  The trust boundaries: credentials become identities (\<open>tools/identity_boundary.py\<close>), identities
  meet coarse capability grants (\<open>tools/authorization_boundary.py\<close>), and outgoing calls meet
  registered destinations (\<open>tools/southbound_security.py\<close>). The credential verifier, \<open>urlparse\<close>,
  \<open>urljoin\<close>, the resolver and the \<open>ipaddress\<close> predicates are parameters.
\<close>

section \<open>Identity\<close>

record verified_credential =
  vc_issuer :: string
  vc_subject :: string
  vc_audience :: "string set"
  vc_scopes :: "string set"
  vc_credential_id :: string
  vc_context :: string
  vc_tenant :: string

record normalized_identity =
  ni_service :: string
  ni_principal :: string
  ni_tenant :: string
  ni_actor :: string
  ni_issuer :: string
  ni_audience :: "string set"
  ni_scopes :: "string set"
  ni_credential_id :: string
  ni_context :: string

record trust_binding =
  tb_issuer :: string
  tb_subject :: string
  tb_service :: string
  tb_actor :: string
  tb_audience :: string
  tb_tenant :: string

text \<open>\<open>{(b.issuer, b.subject): b for b in bindings}\<close>: the last binding of a key wins.\<close>

definition find_binding :: "trust_binding list \<Rightarrow> string \<Rightarrow> string \<Rightarrow> trust_binding option" where
  "find_binding bs issuer subject = find (\<lambda>b. tb_issuer b = issuer \<and> tb_subject b = subject) (rev bs)"

definition actor_types :: "string set" where
  "actor_types = {''HUMAN'', ''SERVICE'', ''AI_AGENT''}"

definition authenticate ::
  "(string \<Rightarrow> verified_credential res) \<Rightarrow> trust_binding list \<Rightarrow> string \<Rightarrow> normalized_identity res" where
  "authenticate verify bindings raw =
     (if raw = [] then Inl (IdentityRejected ''CREDENTIAL_MISSING'')
      else (case verify raw of
          Inl _ \<Rightarrow> Inl (IdentityRejected ''CREDENTIAL_INVALID'')
        | Inr v \<Rightarrow> (case find_binding bindings (vc_issuer v) (vc_subject v) of
            None \<Rightarrow> Inl (IdentityRejected ''IDENTITY_UNBOUND'')
          | Some b \<Rightarrow>
              let tenant = (if vc_tenant v = [] then tb_tenant b else vc_tenant v) in
              if tb_audience b \<notin> vc_audience v then Inl (IdentityRejected ''AUDIENCE_MISMATCH'')
              else if vc_credential_id v = [] \<or> vc_context v = []
              then Inl (IdentityRejected ''VERIFICATION_EVIDENCE_MISSING'')
              else if tenant = [] then Inl (IdentityRejected ''TENANT_CONTEXT_MISSING'')
              else if tb_actor b \<notin> actor_types then Inl (IdentityRejected ''ACTOR_TYPE_INVALID'')
              else Inr \<lparr>ni_service = tb_service b, ni_principal = vc_subject v, ni_tenant = tenant,
                ni_actor = tb_actor b, ni_issuer = vc_issuer v, ni_audience = vc_audience v,
                ni_scopes = vc_scopes v, ni_credential_id = vc_credential_id v, ni_context = vc_context v\<rparr>)))"

section \<open>Coarse authorization\<close>

record coarse_decision =
  cd_allowed :: bool
  cd_code :: string
  cd_capability :: string
  cd_scope :: string

definition authorize :: "normalized_identity \<Rightarrow> string \<Rightarrow> string \<Rightarrow> coarse_decision res" where
  "authorize i capability scope =
     (if capability = [] \<or> scope = [] then Inl (AuthorizationRejected ''CAPABILITY_CONTRACT_INVALID'')
      else if ni_tenant i = [] then Inl (AuthorizationRejected ''TENANT_CONTEXT_MISSING'')
      else if ni_actor i \<notin> actor_types then Inl (AuthorizationRejected ''ACTOR_TYPE_INVALID'')
      else if scope \<notin> ni_scopes i
      then Inr \<lparr>cd_allowed = False, cd_code = ''SCOPE_MISSING'', cd_capability = capability, cd_scope = scope\<rparr>
      else Inr \<lparr>cd_allowed = True, cd_code = ''ALLOW_COARSE'', cd_capability = capability, cd_scope = scope\<rparr>)"

section \<open>Southbound destinations\<close>

record url_parts =
  pu_scheme :: string
  pu_host :: "string option"
  pu_port :: "nat option"
  pu_username :: string
  pu_password :: string
  pu_fragment :: string

record registered_endpoint =
  re_scheme :: string
  re_host :: string
  re_port :: nat
  re_cidrs :: "string list"

text \<open>What \<open>ipaddress\<close> says of an address; a network contains an address or not.\<close>

record ip_class =
  ip_loopback :: bool
  ip_link_local :: bool
  ip_multicast :: bool
  ip_unspecified :: bool
  ip_reserved :: bool
  ip_private :: bool

definition forbidden :: "ip_class \<Rightarrow> bool" where
  "forbidden c \<longleftrightarrow> ip_loopback c \<or> ip_link_local c \<or> ip_multicast c \<or> ip_unspecified c \<or> ip_reserved c"

text \<open>The outside world of a destination check; \<open>ip_network\<close> refuses a malformed network.\<close>

record net_env =
  ne_parse :: "string \<Rightarrow> url_parts"
  ne_join :: "string \<Rightarrow> string \<Rightarrow> string"
  ne_resolve :: "string \<Rightarrow> nat \<Rightarrow> string list res"
  ne_network :: "string \<Rightarrow> unit res"
  ne_class :: "string \<Rightarrow> ip_class"
  ne_in :: "string \<Rightarrow> string \<Rightarrow> bool"

text \<open>\<open>parsed.port or (443 if https else 80)\<close>: a zero port counts as none.\<close>

definition effective_port :: "url_parts \<Rightarrow> nat" where
  "effective_port p = (case pu_port p of
       None \<Rightarrow> (if pu_scheme p = ''https'' then 443 else 80)
     | Some n \<Rightarrow> if n = 0 then (if pu_scheme p = ''https'' then 443 else 80) else n)"

text \<open>\<open>sorted({...})\<close>: distinct texts in order.\<close>

definition sorted_set :: "string list \<Rightarrow> string list" where
  "sorted_set xs = sort_by (key_le id) (remdups xs)"

definition check_address :: "net_env \<Rightarrow> registered_endpoint \<Rightarrow> string \<Rightarrow> unit \<Rightarrow> unit res" where
  "check_address e r ip u =
     (if forbidden (ne_class e ip) then Inl (SouthboundDenied ''FORBIDDEN_ADDRESS_CLASS'')
      else if ip_private (ne_class e ip) \<and> re_cidrs r = []
      then Inl (SouthboundDenied ''PRIVATE_ADDRESS_UNREGISTERED'')
      else if re_cidrs r \<noteq> [] \<and> \<not> list_ex (\<lambda>n. ne_in e ip n) (re_cidrs r)
      then Inl (SouthboundDenied ''DNS_REBINDING_OR_CIDR_MISMATCH'')
      else Inr ())"

definition validate_destination :: "net_env \<Rightarrow> string \<Rightarrow> registered_endpoint \<Rightarrow> string list res" where
  "validate_destination e url r =
     (let p = ne_parse e url in
      if pu_username p \<noteq> [] \<or> pu_password p \<noteq> [] \<or> pu_fragment p \<noteq> []
      then Inl (SouthboundDenied ''UNSAFE_URL_COMPONENT'')
      else if pu_scheme p \<noteq> re_scheme r \<or> pu_host p \<noteq> Some (re_host r) \<or> effective_port p \<noteq> re_port r
      then Inl (SouthboundDenied ''UNREGISTERED_ENDPOINT'')
      else if pu_scheme p \<noteq> ''https'' then Inl (SouthboundDenied ''TLS_REQUIRED'')
      else (case ne_resolve e (re_host r) (re_port r) of
          Inl (OSError _) \<Rightarrow> Inl (SouthboundDenied ''DNS_RESOLUTION_FAILED'')
        | Inl x \<Rightarrow> Inl x
        | Inr answers \<Rightarrow>
            let ips = sorted_set answers in
            if ips = [] then Inl (SouthboundDenied ''DNS_RESOLUTION_EMPTY'')
            else bindE (mapE (ne_network e) (re_cidrs r)) (\<lambda>_.
              bindE (foldE (check_address e r) ips ()) (\<lambda>_. Inr ips))))"

definition validate_redirect :: "net_env \<Rightarrow> string \<Rightarrow> string \<Rightarrow> registered_endpoint \<Rightarrow> string res" where
  "validate_redirect e current location r =
     (let target = ne_join e current location
      in bindE (validate_destination e target r) (\<lambda>_. Inr target))"

section \<open>What they guarantee\<close>

lemma find_binding_mem:
  "find_binding bs issuer subject = Some b \<Longrightarrow> b \<in> set bs \<and> tb_issuer b = issuer \<and> tb_subject b = subject"
  by (auto simp: find_binding_def dest: find_some_mem)

lemma check_addresses:
  "foldE (check_address e r) ips u = Inr v \<longleftrightarrow> (\<forall>ip \<in> set ips. check_address e r ip () = Inr ())"
  by (induction ips arbitrary: u) (auto simp: result_simps)

text \<open>
  An identity comes out only for a verified credential: its principal and issuer are the
  credential's, its service, actor and audience requirement come from a registered binding of that
  principal, its tenant and evidence are never empty; and the coarse gate then allows a capability
  exactly when the credential's own scopes contain the required scope.
\<close>

theorem identity_is_bound:
  assumes "authenticate verify bindings raw = Inr i"
  shows "(\<exists>v b. verify raw = Inr v \<and> b \<in> set bindings \<and> tb_issuer b = vc_issuer v
       \<and> tb_subject b = vc_subject v \<and> ni_principal i = vc_subject v \<and> ni_issuer i = vc_issuer v
       \<and> ni_service i = tb_service b \<and> ni_actor i = tb_actor b \<and> tb_audience b \<in> vc_audience v
       \<and> ni_scopes i = vc_scopes v \<and> ni_tenant i \<in> {vc_tenant v, tb_tenant b})
     \<and> ni_tenant i \<noteq> [] \<and> ni_credential_id i \<noteq> [] \<and> ni_context i \<noteq> [] \<and> ni_actor i \<in> actor_types
     \<and> (\<forall>c s. c \<noteq> [] \<and> s \<noteq> [] \<longrightarrow> (\<exists>d. authorize i c s = Inr d \<and> (cd_allowed d \<longleftrightarrow> s \<in> ni_scopes i)))"
proof -
  from assms obtain v where v: "verify raw = Inr v" by (auto simp: authenticate_def split: if_splits sum.splits)
  with assms obtain b where b: "find_binding bindings (vc_issuer v) (vc_subject v) = Some b"
    by (auto simp: authenticate_def split: if_splits option.splits)
  with assms v find_binding_mem [OF b] show ?thesis
    by (auto simp: authenticate_def Let_def authorize_def split: if_splits)
qed

definition sample_credential :: verified_credential where
  "sample_credential = \<lparr>vc_issuer = ''i'', vc_subject = ''s'', vc_audience = {''a''}, vc_scopes = {''x''},
     vc_credential_id = ''c'', vc_context = ''m'', vc_tenant = []\<rparr>"

definition sample_binding :: trust_binding where
  "sample_binding = \<lparr>tb_issuer = ''i'', tb_subject = ''s'', tb_service = ''v'', tb_actor = ''SERVICE'',
     tb_audience = ''a'', tb_tenant = ''t''\<rparr>"

theorem identity_is_bound_witness:
  "\<exists>i. authenticate (\<lambda>_. Inr sample_credential) [sample_binding] ''raw'' = Inr i \<and> ni_tenant i = ''t''"
proof -
  obtain i where i: "authenticate (\<lambda>_. Inr sample_credential) [sample_binding] ''raw'' = Inr i"
    by (simp add: authenticate_def find_binding_def sample_credential_def sample_binding_def actor_types_def)
  from identity_is_bound [OF i] show ?thesis using i by (auto simp: sample_credential_def sample_binding_def)
qed

text \<open>
  A destination is accepted only for the registered scheme, host and port over TLS, without
  credentials or a fragment in the address; at least one address was resolved, and none of them is
  loopback, link-local, multicast, unspecified or reserved, none is private without a registered
  network, and all of them lie in a registered network where one is registered. A redirect passes
  the same check on its joined target.
\<close>

theorem destination_is_registered:
  assumes "validate_redirect e current location r = Inr target"
  shows "target = ne_join e current location \<and> (\<exists>ips. validate_destination e target r = Inr ips \<and> ips \<noteq> []
     \<and> pu_scheme (ne_parse e target) = ''https'' \<and> re_scheme r = ''https''
     \<and> pu_host (ne_parse e target) = Some (re_host r) \<and> effective_port (ne_parse e target) = re_port r
     \<and> pu_username (ne_parse e target) = [] \<and> pu_password (ne_parse e target) = []
     \<and> pu_fragment (ne_parse e target) = []
     \<and> (\<exists>answers. ne_resolve e (re_host r) (re_port r) = Inr answers \<and> set ips = set answers)
     \<and> (\<forall>ip \<in> set ips. \<not> forbidden (ne_class e ip) \<and> (ip_private (ne_class e ip) \<longrightarrow> re_cidrs r \<noteq> [])
          \<and> (re_cidrs r \<noteq> [] \<longrightarrow> (\<exists>n \<in> set (re_cidrs r). ne_in e ip n))))"
proof -
  from assms obtain ips where t: "target = ne_join e current location" "validate_destination e target r = Inr ips"
    by (auto simp: validate_redirect_def Let_def result_simps)
  from t(2) obtain answers where a: "ne_resolve e (re_host r) (re_port r) = Inr answers" "ips = sorted_set answers"
    "ips \<noteq> []" "\<forall>ip \<in> set ips. check_address e r ip () = Inr ()"
    by (auto simp: validate_destination_def Let_def result_simps check_addresses split: if_splits sum.splits py_exn.splits)
  have "\<not> forbidden (ne_class e ip) \<and> (ip_private (ne_class e ip) \<longrightarrow> re_cidrs r \<noteq> [])
      \<and> (re_cidrs r \<noteq> [] \<longrightarrow> (\<exists>n \<in> set (re_cidrs r). ne_in e ip n))" if "ip \<in> set ips" for ip
    using a(4) that by (auto simp: check_address_def list_ex_iff split: if_splits)
  moreover have "set ips = set answers" using a(2) by (simp add: sorted_set_def)
  moreover have "pu_scheme (ne_parse e target) = ''https'' \<and> re_scheme r = ''https''
     \<and> pu_host (ne_parse e target) = Some (re_host r) \<and> effective_port (ne_parse e target) = re_port r
     \<and> pu_username (ne_parse e target) = [] \<and> pu_password (ne_parse e target) = []
     \<and> pu_fragment (ne_parse e target) = []"
    using t(2) by (auto simp: validate_destination_def Let_def split: if_splits)
  ultimately show ?thesis using t a(1,3) by blast
qed

definition sample_net :: net_env where
  "sample_net = \<lparr>ne_parse = (\<lambda>_. \<lparr>pu_scheme = ''https'', pu_host = Some ''h'', pu_port = None, pu_username = [],
     pu_password = [], pu_fragment = []\<rparr>), ne_join = (\<lambda>_ l. l), ne_resolve = (\<lambda>_ _. Inr [''10.0.0.1'']),
     ne_network = (\<lambda>_. Inr ()), ne_class = (\<lambda>_. \<lparr>ip_loopback = False, ip_link_local = False, ip_multicast = False,
       ip_unspecified = False, ip_reserved = False, ip_private = True\<rparr>), ne_in = (\<lambda>_ n. n = ''10.0.0.0/8'')\<rparr>"

definition sample_endpoint :: registered_endpoint where
  "sample_endpoint = \<lparr>re_scheme = ''https'', re_host = ''h'', re_port = 443, re_cidrs = [''10.0.0.0/8'']\<rparr>"

theorem destination_is_registered_witness:
  "\<exists>ips. validate_destination sample_net ''https://h/p'' sample_endpoint = Inr ips \<and> ips \<noteq> []"
proof -
  have "validate_redirect sample_net ''https://h/'' ''https://h/p'' sample_endpoint = Inr ''https://h/p''"
    by (simp add: validate_redirect_def validate_destination_def sample_net_def sample_endpoint_def Let_def
        effective_port_def sorted_set_def check_address_def forbidden_def)
  from destination_is_registered [OF this] show ?thesis by blast
qed

end
