(* ===== verification/Dispatch.thy ===== *)
theory Dispatch
  imports Compile
begin

text \<open>
  The MCP mediators: \<open>tools/mcp_dispatch.py\<close> sends an admitted request to the backend that the
  compiled configuration binds, \<open>tools/mcp_recovery.py\<close> asks an owner for the outcome of an earlier
  request, and \<open>tools/mcp_evidence_ingress.py\<close> passes owner evidence to the MCP inbox. What
  \<open>json.loads\<close> and the schema validator say of a body, \<open>json.dumps\<close> and the upstream calls are
  parameters; the compiled routes are the compiler's records.
\<close>

section \<open>Requests and identities\<close>

record trusted_identity =
  ti_service :: string
  ti_principal :: string
  ti_tenant :: string
  ti_actor :: string
  ti_context :: string
  ti_decision :: string
  ti_scopes :: "string set"

record backend_response =
  br_status :: nat
  br_body :: string
  br_headers :: "(string \<times> string) list"

record upstream_call =
  uc_service :: string
  uc_path :: string
  uc_body :: string
  uc_headers :: "(string \<times> string) list"
  uc_timeout :: nat

text \<open>A body that is not JSON, that the schema refuses with a first message, or that it admits.\<close>

datatype 'a admission = Not_Json | Refused string | Admitted 'a

record claimed_identity =
  ci_service :: string
  ci_principal :: string
  ci_tenant :: string
  ci_actor :: string
  ci_context :: string

record envelope =
  en_binding :: string
  en_capability :: string
  en_owner :: string
  en_operation :: string
  en_arguments :: json
  en_identity :: claimed_identity
  en_decision :: string
  en_correlation :: string
  en_idempotency :: string
  en_attempt :: string

text \<open>\<open>DispatchError.problem\<close>\<close>

fun problem :: "py_exn \<Rightarrow> json option" where
  "problem (DispatchError status code detail) = Some (JObj [
     (''type'', JStr (''urn:ouf:problem:'' @ lower code)), (''title'', JStr code),
     (''status'', jnat status), (''code'', JStr code), (''detail'', JStr detail)])"
| "problem _ = None"

text \<open>\<open>{name.lower(): value}\<close>: the last header of a name wins.\<close>

definition header :: "(string \<times> string) list \<Rightarrow> string \<Rightarrow> string option" where
  "header hs name = map_of (rev (map (\<lambda>(k, v). (lower k, v)) hs)) name"

text \<open>\<open>next((v for k, v in headers.items() if k.lower() == name), "")\<close>\<close>

definition first_header :: "(string \<times> string) list \<Rightarrow> string \<Rightarrow> string" where
  "first_header hs name = (case find (\<lambda>(k, v). lower k = name) hs of None \<Rightarrow> [] | Some (k, v) \<Rightarrow> v)"

section \<open>Dispatch\<close>

definition installation_mcp_ref :: string where
  "installation_mcp_ref = ''installation://iam.workloadClients.mcpServer''"

definition route_services :: "compiled_route \<Rightarrow> string list" where
  "route_services r = or_empty (pol_allowedServiceIdentities (cr_policy r))"

definition is_mcp_route :: "string \<Rightarrow> compiled_route \<Rightarrow> bool" where
  "is_mcp_route service r \<longleftrightarrow>
     (case cr_capability r of None \<Rightarrow> False | Some c \<Rightarrow> cm_toolEligible c)
     \<and> map_of (cr_labels r) ''exposure'' = Some ''internal'' \<and> pol_identity (cr_policy r) = ''M2M''
     \<and> (service \<in> set (route_services r) \<or> installation_mcp_ref \<in> set (route_services r))"

type_synonym dispatch_routes = "(string, compiled_route \<times> capability_meta) dict"

definition add_route :: "string \<Rightarrow> compiled_route \<Rightarrow> dispatch_routes \<Rightarrow> dispatch_routes res" where
  "add_route service r routes =
     (case cr_capability r of
        Some c \<Rightarrow>
          if \<not> is_mcp_route service r then Inr routes
          else if map_of routes (cm_capabilityId c) \<noteq> None
          then Inl (DispatchError 503 ''AMBIGUOUS_CAPABILITY_BINDING'' (cm_capabilityId c))
          else Inr (dict_set (cm_capabilityId c) (r, c) routes)
      | None \<Rightarrow> Inr routes)"

definition init_dispatcher :: "string \<Rightarrow> artifact \<Rightarrow> dispatch_routes res" where
  "init_dispatcher service compiled = foldE (add_route service) (art_routes compiled) []"

definition jhas :: "json \<Rightarrow> string \<Rightarrow> bool" where
  "jhas v k = (jlookup v k \<noteq> None)"

definition check_binding ::
  "string \<Rightarrow> envelope \<Rightarrow> compiled_route \<times> capability_meta \<Rightarrow> trusted_identity \<Rightarrow> unit res" where
  "check_binding service e rc i =
     (let r = fst rc; c = snd rc; p = cr_policy r;
          allowed = map (\<lambda>v. if v = installation_mcp_ref then service else v) (route_services r)
      in if en_binding e \<noteq> ''capability://'' @ cm_capabilityId c
         then Inl (DispatchError 409 ''CAPABILITY_BINDING_MISMATCH'' ''logical binding does not match capability'')
         else if en_operation e \<noteq> cm_operationType c
         then Inl (DispatchError 409 ''CAPABILITY_BINDING_MISMATCH'' ''operation class does not match published capability'')
         else if en_owner e \<noteq> cm_owner c
         then Inl (DispatchError 409 ''CAPABILITY_BINDING_MISMATCH'' ''owner does not match published capability'')
         else if ti_service i \<notin> set allowed
         then Inl (DispatchError 403 ''CAPABILITY_ACCESS_DENIED'' ''service identity is not allowed'')
         else if or_empty (pol_allowedActorTypes p) \<noteq> [] \<and> ti_actor i \<notin> set (or_empty (pol_allowedActorTypes p))
         then Inl (DispatchError 403 ''CAPABILITY_ACCESS_DENIED'' ''actor type is not allowed'')
         else if cm_humanRequired c \<and> ti_actor i \<noteq> ''HUMAN_USER''
         then Inl (DispatchError 403 ''TRUSTED_HUMAN_REQUIRED'' ''MCP identities cannot invoke this capability'')
         else if (case pol_requiredScope p of None \<Rightarrow> True | Some s \<Rightarrow> s \<notin> ti_scopes i)
         then Inl (DispatchError 403 ''CAPABILITY_ACCESS_DENIED'' ''required scope is absent'')
         else Inr ())"

definition check_identity :: "envelope \<Rightarrow> trusted_identity \<Rightarrow> unit res" where
  "check_identity e i =
     (let b = en_identity e in
      if (ci_service b, ci_principal b, ci_tenant b, ci_actor b, ci_context b)
         \<noteq> (ti_service i, ti_principal i, ti_tenant i, ti_actor i, ti_context i)
      then Inl (DispatchError 403 ''IDENTITY_CONTEXT_MISMATCH'' ''body identity differs from authenticated context'')
      else if en_decision e \<noteq> ti_decision i
      then Inl (DispatchError 403 ''AUTHORIZATION_CONTEXT_MISMATCH'' ''decision reference differs from authenticated context'')
      else Inr ())"

definition check_header :: "(string \<times> string) list \<Rightarrow> string \<Rightarrow> unit \<Rightarrow> unit res" where
  "check_header hs name u =
     (if header hs (lower name) \<in> {None, Some []} then Inl (DispatchError 400 ''MISSING_GOVERNANCE_HEADER'' name)
      else Inr ())"

definition check_headers :: "envelope \<Rightarrow> (string \<times> string) list \<Rightarrow> unit res" where
  "check_headers e hs =
     bindE (foldE (check_header hs) [''X-Correlation-ID'', ''Idempotency-Key'', ''X-Tool-Attempt-ID''] ()) (\<lambda>_.
       if header hs ''x-correlation-id'' \<noteq> Some (en_correlation e)
          \<or> header hs ''idempotency-key'' \<noteq> Some (en_idempotency e)
          \<or> header hs ''x-tool-attempt-id'' \<noteq> Some (en_attempt e)
       then Inl (DispatchError 409 ''GOVERNANCE_CONTEXT_MISMATCH'' ''headers and admitted attempt differ'')
       else Inr ())"

definition downstream_headers :: "envelope \<Rightarrow> capability_meta \<Rightarrow> trusted_identity \<Rightarrow> (string \<times> string) list" where
  "downstream_headers e c i = [(''Content-Type'', ''application/json''), (''X-Correlation-ID'', en_correlation e),
     (''Idempotency-Key'', en_idempotency e), (''X-Tool-Attempt-ID'', en_attempt e),
     (''X-OUF-Capability-ID'', cm_capabilityId c), (''X-OUF-Actor-Type'', ti_actor i),
     (''X-OUF-Principal-ID'', ti_principal i), (''X-OUF-Tenant-ID'', ti_tenant i),
     (''X-OUF-Authorization-Decision-Ref'', en_decision e)]"

text \<open>Everything before the upstream call: the call it would make.\<close>

definition dispatch_call ::
  "(string \<Rightarrow> envelope admission) \<Rightarrow> (json \<Rightarrow> string) \<Rightarrow> string \<Rightarrow> dispatch_routes \<Rightarrow> string
     \<Rightarrow> (string \<times> string) list \<Rightarrow> trusted_identity \<Rightarrow> upstream_call res" where
  "dispatch_call admit dumps service routes raw hs i =
     (case admit raw of
        Not_Json \<Rightarrow> Inl (DispatchError 400 ''INVALID_MCP_GATEWAY_REQUEST'' ''invalid JSON'')
      | Refused msg \<Rightarrow> Inl (DispatchError 400 ''INVALID_MCP_GATEWAY_REQUEST'' msg)
      | Admitted e \<Rightarrow> (case map_of routes (en_capability e) of
          None \<Rightarrow> Inl (DispatchError 404 ''CAPABILITY_BINDING_NOT_FOUND'' (en_capability e))
        | Some (r, c) \<Rightarrow>
            if en_capability e = ''urban.object.search'' \<and> \<not> jhas (en_arguments e) ''type''
               \<or> en_capability e = ''urban.object.related_search'' \<and> \<not> jhas (en_arguments e) ''anchorObjectId''
            then Inl (DispatchError 400 ''INVALID_MCP_GATEWAY_REQUEST'' ''arguments do not match the bound capability'')
            else if pol_maxRequestBytes (cr_policy r) < length raw
            then Inl (DispatchError 413 ''REQUEST_TOO_LARGE'' ''request exceeds route limit'')
            else bindE (check_binding service e (r, c) i) (\<lambda>_. bindE (check_identity e i) (\<lambda>_.
              bindE (check_headers e hs) (\<lambda>_. (case (cr_service_id r, cr_proxy_rewrite r) of
                (Some s, Some uri) \<Rightarrow> Inr \<lparr>uc_service = s, uc_path = uri, uc_body = dumps (en_arguments e),
                  uc_headers = downstream_headers e c i, uc_timeout = pol_timeoutSeconds (cr_policy r)\<rparr>
              | _ \<Rightarrow> Inl (KeyError ''proxy-rewrite'')))))))"

definition forwarded_headers :: "string set" where
  "forwarded_headers = {''content-type'', ''retry-after'', ''x-backend-request-id''}"

definition dispatch ::
  "(string \<Rightarrow> envelope admission) \<Rightarrow> (json \<Rightarrow> string) \<Rightarrow> (upstream_call \<Rightarrow> ('w, backend_response) io)
     \<Rightarrow> string \<Rightarrow> dispatch_routes \<Rightarrow> string \<Rightarrow> (string \<times> string) list \<Rightarrow> trusted_identity
     \<Rightarrow> ('w, backend_response) io" where
  "dispatch admit dumps upstream service routes raw hs i =
     bindS (liftS (dispatch_call admit dumps service routes raw hs i)) (\<lambda>call.
     bindS (upstream call) (\<lambda>response.
     returnS (response\<lparr>br_headers := filter (\<lambda>(k, v). lower k \<in> forwarded_headers) (br_headers response)\<rparr>)))"

section \<open>Recovery\<close>

type_synonym recovery_bindings = "(string, recovery_binding \<times> route_policy) dict"

definition add_recovery :: "compiled_route \<Rightarrow> recovery_bindings \<Rightarrow> recovery_bindings res" where
  "add_recovery r bs =
     (case (cr_recovery r, cr_capability r) of
        (Some b, Some c) \<Rightarrow>
          if \<not> cm_toolEligible c then Inr bs
          else if map_of bs (cm_capabilityId c) \<notin> {None, Some (b, cr_policy r)}
          then Inl (DispatchError 503 ''AMBIGUOUS_RECOVERY_BINDING'' (cm_capabilityId c))
          else Inr (dict_set (cm_capabilityId c) (b, cr_policy r) bs)
      | _ \<Rightarrow> Inr bs)"

definition init_recovery :: "artifact \<Rightarrow> recovery_bindings res" where
  "init_recovery compiled = foldE add_recovery (art_routes compiled) []"

record recovery_request =
  rq_backend :: string
  rq_owner :: string
  rq_capability :: string
  rq_correlation :: string

text \<open>\<open>s.replace(pat, new)\<close>\<close>

function replace_all :: "string \<Rightarrow> string \<Rightarrow> string \<Rightarrow> string" where
  "replace_all pat new s =
     (case s of [] \<Rightarrow> []
      | c # cs \<Rightarrow> if pat \<noteq> [] \<and> prefix pat s then new @ replace_all pat new (drop (length pat) s)
          else c # replace_all pat new cs)"
  by pat_completeness auto
termination by (relation "measure (\<lambda>(_, _, s). length s)") auto

declare replace_all.simps [simp del]

definition recovery_path :: "string \<Rightarrow> string \<Rightarrow> string" where
  "recovery_path template backend = replace_all ''{backendRequestId}'' (quote backend) template"

definition evidence_error :: "string \<Rightarrow> py_exn" where
  "evidence_error detail = DispatchError 502 ''INVALID_OWNER_EVIDENCE'' detail"

definition evidence_fields :: "string set" where
  "evidence_fields = {''BackendRequestID'', ''Outcome'', ''OutcomeCode'', ''ResultRef'', ''ActualToolCalls'', ''ActualResultBytes''}"

text \<open>\<open>set(evidence) - allowed\<close>: keys, elements or characters; other values are not iterable.\<close>

fun foreign_fields :: "json \<Rightarrow> bool res" where
  "foreign_fields (JObj kvs) = Inr (\<not> fst ` set kvs \<subseteq> evidence_fields)"
| "foreign_fields (JList vs) =
     (if list_all hashable vs then Inr (\<not> set vs \<subseteq> JStr ` evidence_fields) else Inl (TypeError ''unhashable type''))"
| "foreign_fields (JStr s) = Inr (s \<noteq> [])"
| "foreign_fields _ = Inl (TypeError ''not iterable'')"

definition evidence_get :: "json \<Rightarrow> string \<Rightarrow> json \<Rightarrow> json" where
  "evidence_get ev k d = (case jlookup ev k of None \<Rightarrow> d | Some v \<Rightarrow> v)"

fun metadata_ok :: "json \<Rightarrow> bool" where
  "metadata_ok (JStr s) = (length s \<le> 512)"
| "metadata_ok _ = False"

fun cost_ok :: "json \<Rightarrow> bool" where
  "cost_ok (JInt n) = (0 \<le> n)"
| "cost_ok _ = False"

definition check_evidence :: "string \<Rightarrow> json \<Rightarrow> json res" where
  "check_evidence backend ev =
     bindE (foreign_fields ev) (\<lambda>foreign.
     if foreign then Inl (evidence_error ''owner evidence does not match backend request'')
     else if \<not> is_obj ev then Inl (TypeError ''object has no attribute get'')
     else let get = evidence_get ev; zero = (get ''ActualToolCalls'' (JInt 0) = JInt 0
              \<and> get ''ActualResultBytes'' (JInt 0) = JInt 0) in
       if get ''BackendRequestID'' JNull \<noteq> JStr backend
       then Inl (evidence_error ''owner evidence does not match backend request'')
       else if \<not> hashable (get ''Outcome'' JNull) then Inl (TypeError ''unhashable type'')
       else if get ''Outcome'' JNull \<notin> JStr ` {''SUCCEEDED'', ''FAILED'', ''NOT_DISPATCHED'', ''UNKNOWN''}
       then Inl (evidence_error ''owner outcome is not recognized'')
       else if \<not> metadata_ok (get ''OutcomeCode'' (JStr [])) \<or> \<not> metadata_ok (get ''ResultRef'' (JStr []))
       then Inl (evidence_error ''owner evidence metadata is invalid'')
       else if \<not> cost_ok (get ''ActualToolCalls'' (JInt 0)) \<or> \<not> cost_ok (get ''ActualResultBytes'' (JInt 0))
       then Inl (evidence_error ''owner cost is invalid'')
       else if get ''Outcome'' JNull = JStr ''NOT_DISPATCHED''
          \<and> (get ''OutcomeCode'' JNull \<noteq> JStr ''OWNER_PROVES_NO_DISPATCH'' \<or> \<not> zero)
       then Inl (evidence_error ''no-dispatch outcome lacks authoritative zero-cost proof'')
       else if get ''Outcome'' JNull = JStr ''UNKNOWN'' \<and> \<not> zero
       then Inl (evidence_error ''unknown outcome cannot assert actual cost'')
       else Inr (JObj [(''BackendRequestID'', get ''BackendRequestID'' JNull), (''Outcome'', get ''Outcome'' JNull),
         (''OutcomeCode'', get ''OutcomeCode'' (JStr [])), (''ResultRef'', get ''ResultRef'' (JStr [])),
         (''ActualToolCalls'', get ''ActualToolCalls'' (JInt 0)),
         (''ActualResultBytes'', get ''ActualResultBytes'' (JInt 0))]))"

definition recovery_call ::
  "(string \<Rightarrow> recovery_request admission) \<Rightarrow> string \<Rightarrow> recovery_bindings \<Rightarrow> string
     \<Rightarrow> (string \<times> string) list \<Rightarrow> trusted_identity \<Rightarrow> (recovery_request \<times> upstream_call) res" where
  "recovery_call admit service bindings raw hs i =
     (if ti_service i \<noteq> service \<or> ''mcp.attempt.recover'' \<notin> ti_scopes i
      then Inl (DispatchError 403 ''RECOVERY_ACCESS_DENIED'' ''MCP recovery workload identity is not authorized'')
      else (case admit raw of
          Not_Json \<Rightarrow> Inl (DispatchError 400 ''INVALID_RECOVERY_REQUEST'' ''invalid JSON'')
        | Refused msg \<Rightarrow> Inl (DispatchError 400 ''INVALID_RECOVERY_REQUEST'' msg)
        | Admitted q \<Rightarrow> (case map_of bindings (rq_capability q) of
            None \<Rightarrow> Inl (DispatchError 404 ''RECOVERY_BINDING_NOT_FOUND'' (rq_capability q))
          | Some (b, p) \<Rightarrow>
              let correlation = first_header hs ''x-correlation-id'' in
              if rq_owner q \<noteq> rb_owner b
              then Inl (DispatchError 409 ''RECOVERY_BINDING_MISMATCH'' ''owner does not match the capability registry'')
              else if correlation = [] \<or> correlation \<noteq> rq_correlation q
              then Inl (DispatchError 409 ''GOVERNANCE_CONTEXT_MISMATCH'' ''correlation header and recovery request differ'')
              else Inr (q, \<lparr>uc_service = rb_service b, uc_path = recovery_path (rb_pathTemplate b) (rq_backend q),
                uc_body = [], uc_headers = [(''Accept'', ''application/json''), (''X-Correlation-ID'', correlation),
                  (''X-OUF-Capability-ID'', rq_capability q), (''X-OUF-Recovery-For'', rq_backend q)],
                uc_timeout = pol_timeoutSeconds p\<rparr>))))"

definition recovered ::
  "(string \<Rightarrow> json option) \<Rightarrow> (json \<Rightarrow> string) \<Rightarrow> recovery_request \<Rightarrow> backend_response \<Rightarrow> backend_response res" where
  "recovered loads dumps q response =
     (if br_status response \<noteq> 200
      then Inl (DispatchError 503 ''OWNER_RECOVERY_UNAVAILABLE'' ''owner outcome is not authoritatively available'')
      else if 65536 < length (br_body response)
      then Inl (evidence_error ''owner evidence exceeds the bounded response size'')
      else (case loads (br_body response) of
          None \<Rightarrow> Inl (evidence_error ''owner returned invalid JSON'')
        | Some ev \<Rightarrow> bindE (check_evidence (rq_backend q) ev) (\<lambda>out.
            Inr \<lparr>br_status = 200, br_body = dumps out, br_headers = [(''Content-Type'', ''application/json'')]\<rparr>)))"

definition recover ::
  "(string \<Rightarrow> recovery_request admission) \<Rightarrow> (string \<Rightarrow> json option) \<Rightarrow> (json \<Rightarrow> string)
     \<Rightarrow> (upstream_call \<Rightarrow> ('w, backend_response) io) \<Rightarrow> string \<Rightarrow> recovery_bindings \<Rightarrow> string
     \<Rightarrow> (string \<times> string) list \<Rightarrow> trusted_identity \<Rightarrow> ('w, backend_response) io" where
  "recover admit loads dumps upstream service bindings raw hs i =
     bindS (liftS (recovery_call admit service bindings raw hs i)) (\<lambda>(q, call).
     bindS (upstream call) (\<lambda>response. liftS (recovered loads dumps q response)))"

section \<open>Evidence ingress\<close>

definition owner_by_service :: "(string, string) dict" where
  "owner_by_service = [(''ouf-udp-object-resolution'', ''udp-object-resolution'')]"

record owner_evidence =
  ev_owner :: "string option"
  ev_backend :: string
  ev_kind :: string
  ev_state :: string
  ev_code :: string
  ev_ref :: "string option"
  ev_objects :: int
  ev_hashes :: "string list"

text \<open>\<open>value.get("ResultRef")\<close> as a condition, and with a default.\<close>

definition ref_text :: "owner_evidence \<Rightarrow> string" where
  "ref_text v = (case ev_ref v of None \<Rightarrow> [] | Some s \<Rightarrow> s)"

definition hash_version :: "string \<Rightarrow> string" where
  "hash_version s = takeWhile (\<lambda>c. c \<noteq> CHR '':'') s"

definition canonical_evidence :: "string \<Rightarrow> owner_evidence \<Rightarrow> json" where
  "canonical_evidence owner v = JObj [(''ClaimedOwner'', JStr owner), (''BackendRequestID'', JStr (ev_backend v)),
     (''Kind'', JStr (ev_kind v)), (''TerminalState'', JStr (ev_state v)), (''OutcomeCode'', JStr (ev_code v)),
     (''ResultRef'', JStr (ref_text v)), (''ActualDistinctObjects'', JInt (ev_objects v)),
     (''ObjectHashes'', jstrs (sort_by (key_le id) (ev_hashes v)))]"

definition ingest_call ::
  "(string \<Rightarrow> owner_evidence admission) \<Rightarrow> (json \<Rightarrow> string) \<Rightarrow> string \<Rightarrow> (string \<times> string) list
     \<Rightarrow> trusted_identity \<Rightarrow> upstream_call res" where
  "ingest_call admit dumps raw hs i =
     (case map_of owner_by_service (ti_service i) of
        None \<Rightarrow> Inl (DispatchError 403 ''EVIDENCE_ACCESS_DENIED'' ''owner workload is not authorized for evidence ingress'')
      | Some owner \<Rightarrow>
          if ''mcp.evidence.submit'' \<notin> ti_scopes i
          then Inl (DispatchError 403 ''EVIDENCE_ACCESS_DENIED'' ''owner workload is not authorized for evidence ingress'')
          else if 1048576 < length raw
          then Inl (DispatchError 413 ''EVIDENCE_TOO_LARGE'' ''evidence payload exceeds ingress bound'')
          else (case admit raw of
              Not_Json \<Rightarrow> Inl (DispatchError 400 ''INVALID_EVIDENCE'' ''invalid JSON'')
            | Refused msg \<Rightarrow> Inl (DispatchError 400 ''INVALID_EVIDENCE'' msg)
            | Admitted v \<Rightarrow>
                if ev_owner v \<notin> {None, Some owner}
                then Inl (DispatchError 409 ''EVIDENCE_OWNER_MISMATCH'' ''payload owner differs from trusted workload identity'')
                else if ev_kind v = ''OWNER_PROVES_NO_DISPATCH'' \<and> (ev_state v \<noteq> ''FAILED''
                   \<or> ev_code v \<noteq> ''DISPATCH_NOT_STARTED'' \<or> ev_objects v \<noteq> 0 \<or> ev_hashes v \<noteq> [] \<or> ref_text v \<noteq> [])
                then Inl (DispatchError 400 ''INVALID_EVIDENCE'' ''no-dispatch evidence must be canonical zero-cost proof'')
                else if ev_kind v \<noteq> ''OWNER_PROVES_NO_DISPATCH'' \<and> ref_text v = []
                then Inl (DispatchError 400 ''INVALID_EVIDENCE'' ''owner result requires ResultRef'')
                else if \<not> list_all (\<lambda>h. hash_version h = ''v1'') (ev_hashes v)
                then Inl (DispatchError 400 ''UNSUPPORTED_OBJECT_HASH_VERSION'' ''object hash version is not admitted'')
                else if first_header hs ''x-correlation-id'' = []
                then Inl (DispatchError 400 ''MISSING_CORRELATION_ID'' ''correlation id is required'')
                else Inr \<lparr>uc_service = ''ouf-mcp-server'', uc_path = ''/internal/evidence/v1/owner-results'',
                  uc_body = dumps (canonical_evidence owner v), uc_headers = [
                    (''Content-Type'', ''application/json''), (''Accept'', ''application/json''),
                    (''X-Correlation-ID'', first_header hs ''x-correlation-id''),
                    (''X-OUF-Trusted-Backend-Owner'', owner), (''X-OUF-Source-Service'', ti_service i)],
                  uc_timeout = 3\<rparr>))"

definition ingest ::
  "(string \<Rightarrow> owner_evidence admission) \<Rightarrow> (json \<Rightarrow> string) \<Rightarrow> (upstream_call \<Rightarrow> ('w, backend_response) io)
     \<Rightarrow> string \<Rightarrow> (string \<times> string) list \<Rightarrow> trusted_identity \<Rightarrow> ('w, backend_response) io" where
  "ingest admit dumps inbox raw hs i =
     bindS (liftS (ingest_call admit dumps raw hs i)) (\<lambda>call.
     bindS (inbox call) (\<lambda>response.
       if br_status response \<in> {200, 201, 409} then returnS response
       else raiseS (DispatchError 503 ''EVIDENCE_INBOX_UNAVAILABLE'' ''MCP Evidence Inbox unavailable'')))"

end
