(* ===== verification/Dispatch_Safety.thy ===== *)
theory Dispatch_Safety
  imports Dispatch
begin

text \<open>
  What the MCP mediators guarantee: \<open>dispatch_guarded\<close> for the dispatcher,
  \<open>recovery_is_authoritative\<close> for the recovery mediator and \<open>evidence_owner_from_workload\<close> for the
  evidence ingress.
\<close>

section \<open>What dispatch guarantees\<close>

definition mcp_entries :: "string \<Rightarrow> compiled_route set \<Rightarrow> dispatch_routes \<Rightarrow> bool" where
  "mcp_entries service rs routes \<longleftrightarrow> (\<forall>k r c. map_of routes k = Some (r, c) \<longrightarrow>
     r \<in> rs \<and> is_mcp_route service r \<and> cr_capability r = Some c \<and> cm_capabilityId c = k)"

lemma add_route_entries:
  assumes "add_route service r routes = Inr routes'" and "mcp_entries service rs routes" and "r \<in> rs"
  shows "mcp_entries service rs routes'"
  using assms by (auto simp: add_route_def mcp_entries_def dict_simps split: option.splits if_splits)

lemma init_dispatcher_entries:
  assumes "init_dispatcher service compiled = Inr routes"
  shows "mcp_entries service (set (art_routes compiled)) routes"
proof -
  have "mcp_entries service (set (art_routes compiled)) ([] :: dispatch_routes)" by (simp add: mcp_entries_def)
  then show ?thesis
    by (rule foldE_invariant [OF assms [unfolded init_dispatcher_def]]) (rule add_route_entries)
qed

text \<open>A capability without an entry has had no route so far; each route that counts makes an entry.\<close>

lemma add_routes_single:
  assumes "foldE (add_route service) rs routes = Inr routes'"
  shows "length (filter (\<lambda>r. is_mcp_route service r \<and> (\<exists>c. cr_capability r = Some c \<and> cm_capabilityId c = k)) rs)
      + (if map_of routes k = None then 0 else 1) = (if map_of routes' k = None then 0 else 1)"
  using assms
proof (induction rs arbitrary: routes)
  case Nil
  then show ?case by simp
next
  case (Cons r rs)
  then obtain m where m: "add_route service r routes = Inr m" "foldE (add_route service) rs m = Inr routes'"
    by (auto simp: result_simps)
  from m(1) show ?case
    using Cons.IH [OF m(2)]
    by (cases "cr_capability r")
      (auto simp: add_route_def is_mcp_route_def dict_simps split: if_splits)
qed

text \<open>What the checks establish of a request, and what the owner is told of it.\<close>

definition governed :: "envelope \<Rightarrow> compiled_route \<Rightarrow> capability_meta \<Rightarrow> trusted_identity \<Rightarrow> bool" where
  "governed e r c i \<longleftrightarrow> en_operation e = cm_operationType c \<and> en_owner e = cm_owner c
     \<and> (or_empty (pol_allowedActorTypes (cr_policy r)) \<noteq> [] \<longrightarrow> ti_actor i \<in> set (or_empty (pol_allowedActorTypes (cr_policy r))))
     \<and> (cm_humanRequired c \<longrightarrow> ti_actor i = ''HUMAN_USER'')
     \<and> (\<exists>s. pol_requiredScope (cr_policy r) = Some s \<and> s \<in> ti_scopes i)"

lemma check_binding_governed:
  assumes "check_binding service e (r, c) i = Inr ()"
  shows "governed e r c i"
  using assms by (auto simp: check_binding_def governed_def Let_def split: if_splits option.splits)

lemma check_binding_service:
  assumes "check_binding service e (r, c) i = Inr ()"
  shows "ti_service i = service \<or> ti_service i \<in> set (route_services r)"
  using assms by (auto simp: check_binding_def Let_def split: if_splits)

lemma check_identity_equal:
  "check_identity e i = Inr () \<Longrightarrow> en_identity e = \<lparr>ci_service = ti_service i, ci_principal = ti_principal i,
     ci_tenant = ti_tenant i, ci_actor = ti_actor i, ci_context = ti_context i\<rparr> \<and> en_decision e = ti_decision i"
  by (cases "en_identity e") (auto simp: check_identity_def Let_def split: if_splits)

lemma lower_header_names:
  "lower ''x-correlation-id'' = ''x-correlation-id''" "lower ''idempotency-key'' = ''idempotency-key''"
  "lower ''x-tool-attempt-id'' = ''x-tool-attempt-id''" "lower ''X-Correlation-ID'' = ''x-correlation-id''"
  "lower ''Idempotency-Key'' = ''idempotency-key''" "lower ''X-Tool-Attempt-ID'' = ''x-tool-attempt-id''"
  by (simp_all add: lower_def to_lower_def less_eq_char_def char_of_def bit_simps)

lemma check_binding_facts:
  assumes "check_binding service e (r, c) i = Inr ()"
  shows "en_binding e = ''capability://'' @ cm_capabilityId c"
    and "ti_service i \<in> (\<lambda>v. if v = installation_mcp_ref then service else v) ` set (route_services r)"
  using assms by (auto simp: check_binding_def Let_def image_iff split: if_splits)

lemma check_headers_facts:
  assumes "check_headers e hs = Inr ()"
  shows "header hs ''x-correlation-id'' = Some (en_correlation e) \<and> en_correlation e \<noteq> []"
    and "header hs ''idempotency-key'' = Some (en_idempotency e) \<and> en_idempotency e \<noteq> []"
    and "header hs ''x-tool-attempt-id'' = Some (en_attempt e) \<and> en_attempt e \<noteq> []"
  using assms
  by (auto simp: check_headers_def check_header_def lower_header_names bindE_Inr_iff split: if_splits)

text \<open>The two capabilities whose arguments the dispatcher looks into.\<close>

definition arguments_fit :: "envelope \<Rightarrow> bool" where
  "arguments_fit e \<longleftrightarrow> (en_capability e = ''urban.object.search'' \<longrightarrow> jhas (en_arguments e) ''type'')
     \<and> (en_capability e = ''urban.object.related_search'' \<longrightarrow> jhas (en_arguments e) ''anchorObjectId'')"

lemma dispatch_call_cases:
  assumes "dispatch_call admit dumps service routes raw hs i = Inr call"
  obtains e r c s uri where "admit raw = Admitted e" "map_of routes (en_capability e) = Some (r, c)"
    "length raw \<le> pol_maxRequestBytes (cr_policy r)" "check_binding service e (r, c) i = Inr ()"
    "check_identity e i = Inr ()" "check_headers e hs = Inr ()" "arguments_fit e"
    "cr_service_id r = Some s" "cr_proxy_rewrite r = Some uri"
    "call = \<lparr>uc_service = s, uc_path = uri, uc_body = dumps (en_arguments e),
       uc_headers = downstream_headers e c i, uc_timeout = pol_timeoutSeconds (cr_policy r)\<rparr>"
  using assms that
  by (auto simp: dispatch_call_def arguments_fit_def result_simps split: admission.splits option.splits if_splits)

lemma dispatch_cases:
  assumes "dispatch admit dumps upstream service routes raw hs i w = (res, w')"
  obtains (refused) x where "res = Inl x" "w' = w" "dispatch_call admit dumps service routes raw hs i = Inl x"
  | (called) call out where "dispatch_call admit dumps service routes raw hs i = Inr call" "upstream call w = (out, w')"
      "res = bindE out (\<lambda>b. Inr (b\<lparr>br_headers := filter (\<lambda>(k, v). lower k \<in> forwarded_headers) (br_headers b)\<rparr>))"
  using assms by (auto simp: dispatch_def io_defs split: sum.splits prod.splits)

text \<open>
  C32. A dispatched request either changes nothing and reports the error of the check it failed, or makes
  exactly one upstream call: to the service and path of the only MCP route of the capability, for an
  admitted envelope within the size limit that names the capability's logical binding, owner and operation
  class, a tool-eligible capability on an internal M2M route, and has the arguments it needs. Its service, principal, tenant, actor, authentication
  context and decision are those of the authenticated identity; its correlation, idempotency and attempt ids
  are those of the headers, none of them empty. The service is one the route allows, with the required actor
  type and scope (a human, where one is required). The call carries the authenticated principal, tenant,
  actor and decision and the admitted ids. An upstream error is passed on, and of a response only the
  headers content-type, retry-after and x-backend-request-id come back, with its status and body.
\<close>

theorem dispatch_guarded:
  assumes "init_dispatcher service compiled = Inr routes"
    and "dispatch admit dumps upstream service routes raw hs i w = (res, w')"
  shows "(\<exists>x. dispatch_call admit dumps service routes raw hs i = Inl x \<and> res = Inl x) \<and> w' = w
    \<or> (\<exists>e r c s uri out. admit raw = Admitted e \<and> r \<in> set (art_routes compiled) \<and> is_mcp_route service r
         \<and> cr_capability r = Some c \<and> cm_capabilityId c = en_capability e \<and> cm_toolEligible c
         \<and> map_of (cr_labels r) ''exposure'' = Some ''internal'' \<and> pol_identity (cr_policy r) = ''M2M''
         \<and> length (filter (\<lambda>r. is_mcp_route service r \<and> (\<exists>c. cr_capability r = Some c \<and> cm_capabilityId c = en_capability e))
             (art_routes compiled)) = 1
         \<and> en_binding e = ''capability://'' @ en_capability e \<and> governed e r c i \<and> arguments_fit e
         \<and> ti_service i \<in> (\<lambda>v. if v = installation_mcp_ref then service else v) ` set (route_services r)
         \<and> en_identity e = \<lparr>ci_service = ti_service i, ci_principal = ti_principal i, ci_tenant = ti_tenant i,
              ci_actor = ti_actor i, ci_context = ti_context i\<rparr> \<and> en_decision e = ti_decision i
         \<and> header hs ''x-correlation-id'' = Some (en_correlation e) \<and> en_correlation e \<noteq> []
         \<and> header hs ''idempotency-key'' = Some (en_idempotency e) \<and> en_idempotency e \<noteq> []
         \<and> header hs ''x-tool-attempt-id'' = Some (en_attempt e) \<and> en_attempt e \<noteq> []
         \<and> length raw \<le> pol_maxRequestBytes (cr_policy r)
         \<and> cr_service_id r = Some s \<and> cr_proxy_rewrite r = Some uri
         \<and> upstream \<lparr>uc_service = s, uc_path = uri, uc_body = dumps (en_arguments e),
             uc_headers = [(''Content-Type'', ''application/json''), (''X-Correlation-ID'', en_correlation e),
               (''Idempotency-Key'', en_idempotency e), (''X-Tool-Attempt-ID'', en_attempt e),
               (''X-OUF-Capability-ID'', en_capability e), (''X-OUF-Actor-Type'', ti_actor i),
               (''X-OUF-Principal-ID'', ti_principal i), (''X-OUF-Tenant-ID'', ti_tenant i),
               (''X-OUF-Authorization-Decision-Ref'', ti_decision i)],
             uc_timeout = pol_timeoutSeconds (cr_policy r)\<rparr> w = (out, w')
         \<and> res = bindE out (\<lambda>b. Inr (b\<lparr>br_headers := filter
              (\<lambda>(k, v). lower k \<in> {''content-type'', ''retry-after'', ''x-backend-request-id''}) (br_headers b)\<rparr>)))"
  using assms(2)
proof (cases rule: dispatch_cases)
  case refused
  then show ?thesis by simp
next
  case (called call out)
  from called(1) obtain e r c s uri where d: "admit raw = Admitted e" "map_of routes (en_capability e) = Some (r, c)"
    "length raw \<le> pol_maxRequestBytes (cr_policy r)" "check_binding service e (r, c) i = Inr ()"
    "check_identity e i = Inr ()" "check_headers e hs = Inr ()" "arguments_fit e"
    "cr_service_id r = Some s" "cr_proxy_rewrite r = Some uri"
    "call = \<lparr>uc_service = s, uc_path = uri, uc_body = dumps (en_arguments e),
       uc_headers = downstream_headers e c i, uc_timeout = pol_timeoutSeconds (cr_policy r)\<rparr>"
    by (rule dispatch_call_cases)
  have r: "r \<in> set (art_routes compiled)" "is_mcp_route service r" "cr_capability r = Some c"
      "cm_capabilityId c = en_capability e"
    using init_dispatcher_entries [OF assms(1)] d(2) by (simp_all add: mcp_entries_def)
  moreover have "length (filter (\<lambda>r. is_mcp_route service r \<and> (\<exists>c. cr_capability r = Some c \<and> cm_capabilityId c = en_capability e))
      (art_routes compiled)) = 1"
    using add_routes_single [OF assms(1) [unfolded init_dispatcher_def], of "en_capability e"] d(2) by simp
  moreover have "cm_toolEligible c" "map_of (cr_labels r) ''exposure'' = Some ''internal''" "pol_identity (cr_policy r) = ''M2M''"
    using r(2,3) by (simp_all add: is_mcp_route_def)
  moreover note check_binding_facts [OF d(4)] check_binding_governed [OF d(4)] check_identity_equal [OF d(5)]
    check_headers_facts [OF d(6)]
  ultimately show ?thesis
    using d(1,3,7-10) called(2,3)
    by (intro disjI2 exI [of _ e] exI [of _ r] exI [of _ c] exI [of _ s] exI [of _ uri] exI [of _ out])
      (simp add: downstream_headers_def forwarded_headers_def)
qed

definition sample_cap_meta :: capability_meta where
  "sample_cap_meta = \<lparr>cm_capabilityId = ''cap'', cm_version = ''1'', cm_owner = ''udp'', cm_operationType = ''READ'',
     cm_toolEligible = True, cm_humanRequired = False\<rparr>"

definition sample_mcp_route :: compiled_route where
  "sample_mcp_route = \<lparr>cr_id = ''r'', cr_uri = ''/r'', cr_methods = [''POST''], cr_vars = None, cr_upstream_id = None,
     cr_service_id = Some ''b'', cr_labels = [(''exposure'', ''internal'')], cr_backend = None,
     cr_proxy_rewrite = Some ''/x'', cr_limit_count = 1,
     cr_policy = \<lparr>pol_identity = ''M2M'', pol_allowedServiceIdentities = Some [''mcp''], pol_allowedActorTypes = Some [],
       pol_requiredAudience = None, pol_requiredScope = Some ''s'', pol_maxRequestBytes = 9, pol_timeoutSeconds = 3\<rparr>,
     cr_capability = Some sample_cap_meta, cr_query_contract = None,
     cr_recovery = Some \<lparr>rb_owner = ''udp'', rb_service = ''b'', rb_pathTemplate = ''/o/{backendRequestId}''\<rparr>,
     cr_trusted_identity = None, cr_mediation = None\<rparr>"

definition sample_mcp_artifact :: artifact where
  "sample_mcp_artifact = \<lparr>art_routes = [sample_mcp_route], art_sha256 = ''h''\<rparr>"

definition sample_workload :: trusted_identity where
  "sample_workload = \<lparr>ti_service = ''mcp'', ti_principal = ''p'', ti_tenant = ''t'', ti_actor = ''AI_AGENT'',
     ti_context = ''x'', ti_decision = ''d'', ti_scopes = {''s'', ''mcp.attempt.recover''}\<rparr>"

definition sample_envelope :: envelope where
  "sample_envelope = \<lparr>en_binding = ''capability://cap'', en_capability = ''cap'', en_owner = ''udp'', en_operation = ''READ'',
     en_arguments = JObj [], en_identity = \<lparr>ci_service = ''mcp'', ci_principal = ''p'', ci_tenant = ''t'',
       ci_actor = ''AI_AGENT'', ci_context = ''x''\<rparr>, en_decision = ''d'', en_correlation = ''k'',
     en_idempotency = ''l'', en_attempt = ''m''\<rparr>"

definition sample_headers :: "(string \<times> string) list" where
  "sample_headers = [(''x-correlation-id'', ''k''), (''idempotency-key'', ''l''), (''x-tool-attempt-id'', ''m'')]"

lemmas sample_dispatch_defs = sample_mcp_artifact_def sample_mcp_route_def sample_cap_meta_def sample_workload_def
  sample_envelope_def sample_headers_def

text \<open>Each capability has one dispatch entry, so the sample's only route is it.\<close>

lemma sample_init: "init_dispatcher ''mcp'' sample_mcp_artifact = Inr [(''cap'', (sample_mcp_route, sample_cap_meta))]"
  by (simp add: init_dispatcher_def sample_dispatch_defs add_route_def is_mcp_route_def route_services_def or_empty_def)

lemma sample_call:
  "\<exists>c. dispatch_call (\<lambda>_. Admitted sample_envelope) (\<lambda>_. ''{}'') ''mcp'' [(''cap'', (sample_mcp_route, sample_cap_meta))]
     ''{}'' sample_headers sample_workload = Inr c"
  by (simp add: dispatch_call_def check_binding_def check_identity_def check_headers_def check_header_def header_def
      lower_header_names sample_dispatch_defs route_services_def or_empty_def installation_mcp_ref_def)

theorem dispatch_guarded_witness:
  "\<exists>b. fst (dispatch (\<lambda>_. Admitted sample_envelope) (\<lambda>_. ''{}'')
       (\<lambda>c w. (Inr \<lparr>br_status = 200, br_body = [], br_headers = []\<rparr>, w + (1::nat))) ''mcp''
       [(''cap'', (sample_mcp_route, sample_cap_meta))] ''{}'' sample_headers sample_workload 0) = Inr b
     \<and> ti_scopes sample_workload \<noteq> {}"
proof -
  let ?d = "dispatch (\<lambda>_. Admitted sample_envelope) (\<lambda>_. ''{}'')
       (\<lambda>c w. (Inr \<lparr>br_status = 200, br_body = [], br_headers = []\<rparr>, w + (1::nat))) ''mcp''
       [(''cap'', (sample_mcp_route, sample_cap_meta))] ''{}'' sample_headers sample_workload 0"
  have d: "\<exists>b. ?d = (Inr b, 1)" using sample_call by (auto simp: dispatch_def io_defs)
  then obtain b where b: "?d = (Inr b, 1)" ..
  from dispatch_guarded [OF sample_init b] show ?thesis using b by (auto simp: governed_def)
qed

section \<open>What recovery guarantees\<close>

lemma count_list_drop_prefix:
  assumes "prefix p s"
  shows "count_list s x = count_list p x + count_list (drop (length p) s) x"
  using assms by (auto simp: prefix_def)

lemma replace_all_count:
  assumes "x \<notin> set pat" and "x \<notin> set new"
  shows "count_list (replace_all pat new s) x = count_list s x"
  using assms
proof (induction pat new s rule: replace_all.induct)
  case (1 pat new s)
  have z: "count_list pat x = 0" "count_list new x = 0" using "1.prems" by (simp_all add: count_list_0_iff)
  show ?case
  proof (cases s)
    case Nil
    then show ?thesis by (simp add: replace_all.simps)
  next
    case (Cons c cs)
    show ?thesis
    proof (cases "pat \<noteq> [] \<and> prefix pat s")
      case True
      then have "count_list (replace_all pat new (drop (length pat) s)) x = count_list (drop (length pat) s) x"
        using "1.IH"(1) Cons "1.prems" by simp
      moreover have "count_list s x = count_list (drop (length pat) s) x"
        using count_list_drop_prefix [of pat s x] True z by simp
      moreover have "replace_all pat new s = new @ replace_all pat new (drop (length pat) s)"
        using True Cons by (subst replace_all.simps) simp
      ultimately show ?thesis using z by simp
    next
      case False
      then have "count_list (replace_all pat new cs) x = count_list cs x"
        using "1.IH"(2) Cons "1.prems" by simp
      then show ?thesis using False Cons by (subst replace_all.simps) auto
    qed
  qed
qed

lemma replace_all_hit:
  "pat \<noteq> [] \<Longrightarrow> replace_all pat new (pat @ s) = new @ replace_all pat new s"
  by (cases pat) (simp_all add: replace_all.simps [of _ _ "_ # _"])

lemma replace_all_skip:
  "c \<notin> set s \<Longrightarrow> replace_all (c # cs) new (s @ t) = s @ replace_all (c # cs) new t"
  by (induction s) (auto simp: replace_all.simps [of _ _ "_ # _"])

lemma replace_all_none: "c \<notin> set s \<Longrightarrow> replace_all (c # cs) new s = s"
  using replace_all_skip [of c s cs new "[]"] by (simp add: replace_all.simps)

text \<open>The placeholder, where it stands, becomes the quoted id, and the rest of the path stays.\<close>

lemma recovery_path_substitutes:
  assumes "CHR ''{'' \<notin> set pre" and "CHR ''{'' \<notin> set post"
  shows "recovery_path (pre @ ''{backendRequestId}'' @ post) backend = pre @ quote backend @ post"
  using replace_all_skip [OF assms(1)] replace_all_hit [of "''{backendRequestId}''" "quote backend" post]
    replace_all_none [OF assms(2)]
  by (simp add: recovery_path_def)

text \<open>The owner evidence that recovery hands on.\<close>

definition owner_outcome_ok :: "string \<Rightarrow> json \<Rightarrow> bool" where
  "owner_outcome_ok backend out \<longleftrightarrow> (\<exists>outcome code ref calls bytes.
     out = JObj [(''BackendRequestID'', JStr backend), (''Outcome'', JStr outcome), (''OutcomeCode'', JStr code),
       (''ResultRef'', JStr ref), (''ActualToolCalls'', JInt calls), (''ActualResultBytes'', JInt bytes)]
     \<and> outcome \<in> {''SUCCEEDED'', ''FAILED'', ''NOT_DISPATCHED'', ''UNKNOWN''} \<and> length code \<le> 512 \<and> length ref \<le> 512
     \<and> 0 \<le> calls \<and> 0 \<le> bytes
     \<and> (outcome = ''NOT_DISPATCHED'' \<longrightarrow> code = ''OWNER_PROVES_NO_DISPATCH'' \<and> calls = 0 \<and> bytes = 0)
     \<and> (outcome = ''UNKNOWN'' \<longrightarrow> calls = 0 \<and> bytes = 0))"

lemma metadata_okD: "metadata_ok v \<Longrightarrow> \<exists>s. v = JStr s \<and> length s \<le> 512"
  by (cases v) auto

lemma cost_okD: "cost_ok v \<Longrightarrow> \<exists>n. v = JInt n \<and> 0 \<le> n"
  by (cases v) auto

lemma evidence_get_default: "evidence_get ev k JNull = v \<Longrightarrow> v \<noteq> JNull \<Longrightarrow> evidence_get ev k d = v"
  by (auto simp: evidence_get_def split: option.splits)

definition handed_on :: "json \<Rightarrow> json" where
  "handed_on ev = JObj [(''BackendRequestID'', evidence_get ev ''BackendRequestID'' JNull),
     (''Outcome'', evidence_get ev ''Outcome'' JNull), (''OutcomeCode'', evidence_get ev ''OutcomeCode'' (JStr [])),
     (''ResultRef'', evidence_get ev ''ResultRef'' (JStr [])),
     (''ActualToolCalls'', evidence_get ev ''ActualToolCalls'' (JInt 0)),
     (''ActualResultBytes'', evidence_get ev ''ActualResultBytes'' (JInt 0))]"

lemma check_evidence_ok:
  assumes "check_evidence backend ev = Inr out"
  shows "owner_outcome_ok backend out \<and> out = handed_on ev \<and> (\<exists>kvs. ev = JObj kvs \<and> fst ` set kvs \<subseteq> evidence_fields)"
proof -
  let ?get = "evidence_get ev"
  obtain kvs where kvs: "ev = JObj kvs" "fst ` set kvs \<subseteq> evidence_fields"
    using assms by (cases ev) (auto simp: check_evidence_def result_simps split: if_splits)
  have out: "out = JObj [(''BackendRequestID'', ?get ''BackendRequestID'' JNull), (''Outcome'', ?get ''Outcome'' JNull),
      (''OutcomeCode'', ?get ''OutcomeCode'' (JStr [])), (''ResultRef'', ?get ''ResultRef'' (JStr [])),
      (''ActualToolCalls'', ?get ''ActualToolCalls'' (JInt 0)), (''ActualResultBytes'', ?get ''ActualResultBytes'' (JInt 0))]"
    and bk: "?get ''BackendRequestID'' JNull = JStr backend"
    and oc: "?get ''Outcome'' JNull \<in> JStr ` {''SUCCEEDED'', ''FAILED'', ''NOT_DISPATCHED'', ''UNKNOWN''}"
    and meta: "metadata_ok (?get ''OutcomeCode'' (JStr []))" "metadata_ok (?get ''ResultRef'' (JStr []))"
    and cost: "cost_ok (?get ''ActualToolCalls'' (JInt 0))" "cost_ok (?get ''ActualResultBytes'' (JInt 0))"
    and nd: "?get ''Outcome'' JNull = JStr ''NOT_DISPATCHED'' \<Longrightarrow> ?get ''OutcomeCode'' JNull = JStr ''OWNER_PROVES_NO_DISPATCH''
        \<and> ?get ''ActualToolCalls'' (JInt 0) = JInt 0 \<and> ?get ''ActualResultBytes'' (JInt 0) = JInt 0"
    and un: "?get ''Outcome'' JNull = JStr ''UNKNOWN'' \<Longrightarrow>
        ?get ''ActualToolCalls'' (JInt 0) = JInt 0 \<and> ?get ''ActualResultBytes'' (JInt 0) = JInt 0"
    using assms by (auto simp: check_evidence_def Let_def result_simps split: if_splits)
  obtain oc' where oc': "?get ''Outcome'' JNull = JStr oc'" "oc' \<in> {''SUCCEEDED'', ''FAILED'', ''NOT_DISPATCHED'', ''UNKNOWN''}"
    using oc by blast
  obtain c where c: "?get ''OutcomeCode'' (JStr []) = JStr c" "length c \<le> 512" using metadata_okD [OF meta(1)] by blast
  obtain r where r: "?get ''ResultRef'' (JStr []) = JStr r" "length r \<le> 512" using metadata_okD [OF meta(2)] by blast
  obtain n where n: "?get ''ActualToolCalls'' (JInt 0) = JInt n" "0 \<le> n" using cost_okD [OF cost(1)] by blast
  obtain m where m: "?get ''ActualResultBytes'' (JInt 0) = JInt m" "0 \<le> m" using cost_okD [OF cost(2)] by blast
  have "c = ''OWNER_PROVES_NO_DISPATCH'' \<and> n = 0 \<and> m = 0" if "oc' = ''NOT_DISPATCHED''"
    using nd oc'(1) that c n m evidence_get_default [of ev "''OutcomeCode''" _ "JStr []"] by fastforce
  moreover have "n = 0 \<and> m = 0" if "oc' = ''UNKNOWN''" using un oc'(1) that n m by simp
  ultimately have "owner_outcome_ok backend out"
    unfolding owner_outcome_ok_def using out bk oc' c r n m
    by (intro exI [of _ oc'] exI [of _ c] exI [of _ r] exI [of _ n] exI [of _ m]) simp
  with out kvs show ?thesis by (simp add: handed_on_def)
qed

lemma recovery_call_cases:
  assumes "recovery_call admit service bindings raw hs i = Inr (q, call)"
  obtains b p where "ti_service i = service" "''mcp.attempt.recover'' \<in> ti_scopes i" "admit raw = Admitted q"
    "map_of bindings (rq_capability q) = Some (b, p)" "rq_owner q = rb_owner b" "rq_correlation q \<noteq> []"
    "rq_correlation q = first_header hs ''x-correlation-id''"
    "call = \<lparr>uc_service = rb_service b, uc_path = recovery_path (rb_pathTemplate b) (rq_backend q), uc_body = [],
       uc_headers = [(''Accept'', ''application/json''), (''X-Correlation-ID'', rq_correlation q),
         (''X-OUF-Capability-ID'', rq_capability q), (''X-OUF-Recovery-For'', rq_backend q)],
       uc_timeout = pol_timeoutSeconds p\<rparr>"
proof -
  have id: "ti_service i = service" "''mcp.attempt.recover'' \<in> ti_scopes i"
    using assms by (simp_all add: recovery_call_def split: if_splits)
  with assms obtain q' where q': "admit raw = Admitted q'"
    by (auto simp: recovery_call_def split: admission.splits)
  with assms id obtain b p where b: "map_of bindings (rq_capability q') = Some (b, p)"
    by (auto simp: recovery_call_def split: option.splits)
  show thesis
    by (rule that [of b p]; insert assms id q' b; simp add: recovery_call_def Let_def split: if_splits; force)
qed

lemma recovery_path_slashes: "count_list (recovery_path t backend) CHR ''/'' = count_list t CHR ''/''"
  by (simp add: recovery_path_def replace_all_count quote_no_slash)

definition recovery_entries :: "compiled_route set \<Rightarrow> recovery_bindings \<Rightarrow> bool" where
  "recovery_entries rs bs \<longleftrightarrow> (\<forall>k b p. map_of bs k = Some (b, p) \<longrightarrow>
     (\<exists>r c. r \<in> rs \<and> cr_recovery r = Some b \<and> cr_policy r = p \<and> cr_capability r = Some c
        \<and> cm_toolEligible c \<and> cm_capabilityId c = k))"

lemma init_recovery_entries:
  assumes "init_recovery compiled = Inr bs"
  shows "recovery_entries (set (art_routes compiled)) bs"
proof -
  have "recovery_entries (set (art_routes compiled)) ([] :: recovery_bindings)" by (simp add: recovery_entries_def)
  then show ?thesis
  proof (rule foldE_invariant [OF assms [unfolded init_recovery_def]])
    fix r s s'
    assume r: "r \<in> set (art_routes compiled)" and s: "recovery_entries (set (art_routes compiled)) s"
      and step: "add_recovery r s = Inr s'"
    show "recovery_entries (set (art_routes compiled)) s'"
      using step s r
      by (auto simp: add_recovery_def recovery_entries_def dict_simps split: option.splits if_splits; blast?)
  qed
qed

text \<open>
  C34. A recovery either changes nothing and reports the error of the check it failed, or makes one bodiless
  call, for the MCP workload with the recovery scope and a matching correlation header, to the recovery
  binding that a tool-eligible route of the capability compiled, whose owner is the requested one. The
  call names the backend request in its header, and its path is the template with the quoted id, which
  reads back as the id and adds no segment, in place of the placeholder. An upstream error is passed on.
  An answer comes back only from a 200 of at most 65536 bytes that is a JSON object of evidence fields, and
  it hands on what the owner says in each of them, the defaults of the optional ones filled in: this
  backend request, a recognised outcome, bounded metadata, costs that are not negative, and zero costs with
  the owner's proof for NOT_DISPATCHED and zero costs for UNKNOWN.
\<close>

theorem recovery_is_authoritative:
  assumes "init_recovery compiled = Inr bindings"
    and "recover admit loads dumps upstream service bindings raw hs i w = (res, w')"
  shows "(\<exists>x. recovery_call admit service bindings raw hs i = Inl x \<and> res = Inl x) \<and> w' = w
    \<or> (\<exists>q path out r c b. admit raw = Admitted q \<and> ti_service i = service \<and> ''mcp.attempt.recover'' \<in> ti_scopes i
         \<and> r \<in> set (art_routes compiled) \<and> cr_recovery r = Some b \<and> cr_capability r = Some c \<and> cm_toolEligible c
         \<and> cm_capabilityId c = rq_capability q \<and> rq_owner q = rb_owner b
         \<and> rq_correlation q = first_header hs ''x-correlation-id'' \<and> rq_correlation q \<noteq> []
         \<and> upstream \<lparr>uc_service = rb_service b, uc_path = path, uc_body = [],
             uc_headers = [(''Accept'', ''application/json''), (''X-Correlation-ID'', rq_correlation q),
               (''X-OUF-Capability-ID'', rq_capability q), (''X-OUF-Recovery-For'', rq_backend q)],
             uc_timeout = pol_timeoutSeconds (cr_policy r)\<rparr> w = (out, w')
         \<and> count_list path CHR ''/'' = count_list (rb_pathTemplate b) CHR ''/''
         \<and> (\<forall>pre post. rb_pathTemplate b = pre @ ''{backendRequestId}'' @ post \<and> CHR ''{'' \<notin> set pre \<and> CHR ''{'' \<notin> set post
              \<longrightarrow> path = pre @ quote (rq_backend q) @ post \<and> unquote (quote (rq_backend q)) = rq_backend q)
         \<and> (\<forall>x. out = Inl x \<longrightarrow> res = Inl x)
         \<and> (\<forall>a. res = Inr a \<longrightarrow> (\<exists>b0 kvs. out = Inr b0 \<and> br_status b0 = 200 \<and> length (br_body b0) \<le> 65536
              \<and> loads (br_body b0) = Some (JObj kvs) \<and> fst ` set kvs \<subseteq> {''BackendRequestID'', ''Outcome'', ''OutcomeCode'',
                  ''ResultRef'', ''ActualToolCalls'', ''ActualResultBytes''}
              \<and> owner_outcome_ok (rq_backend q) (handed_on (JObj kvs))
              \<and> a = \<lparr>br_status = 200, br_body = dumps (handed_on (JObj kvs)),
                  br_headers = [(''Content-Type'', ''application/json'')]\<rparr>)))"
proof (cases "recovery_call admit service bindings raw hs i")
  case (Inl x)
  with assms(2) show ?thesis by (auto simp: recover_def io_defs)
next
  case (Inr qc)
  obtain q call where qc: "qc = (q, call)" by (cases qc)
  obtain out w1 where up: "upstream call w = (out, w1)" by (cases "upstream call w")
  have res: "w' = w1" "res = bindE out (\<lambda>b. recovered loads dumps q b)"
    using assms(2) Inr qc up by (auto simp: recover_def io_defs split: sum.splits)
  from Inr qc have "recovery_call admit service bindings raw hs i = Inr (q, call)" by simp
  then obtain b p where d: "ti_service i = service" "''mcp.attempt.recover'' \<in> ti_scopes i" "admit raw = Admitted q"
    "map_of bindings (rq_capability q) = Some (b, p)" "rq_owner q = rb_owner b" "rq_correlation q \<noteq> []"
    "rq_correlation q = first_header hs ''x-correlation-id''"
    and call: "call = \<lparr>uc_service = rb_service b, uc_path = recovery_path (rb_pathTemplate b) (rq_backend q), uc_body = [],
       uc_headers = [(''Accept'', ''application/json''), (''X-Correlation-ID'', rq_correlation q),
         (''X-OUF-Capability-ID'', rq_capability q), (''X-OUF-Recovery-For'', rq_backend q)],
       uc_timeout = pol_timeoutSeconds p\<rparr>"
    by (rule recovery_call_cases)
  obtain r c where rc: "r \<in> set (art_routes compiled)" "cr_recovery r = Some b" "cr_capability r = Some c"
    "cm_toolEligible c" "cm_capabilityId c = rq_capability q" "cr_policy r = p"
    using init_recovery_entries [OF assms(1)] d(4) unfolding recovery_entries_def by metis
  have "\<exists>b0 kvs. out = Inr b0 \<and> br_status b0 = 200 \<and> length (br_body b0) \<le> 65536
      \<and> loads (br_body b0) = Some (JObj kvs) \<and> fst ` set kvs \<subseteq> {''BackendRequestID'', ''Outcome'', ''OutcomeCode'',
          ''ResultRef'', ''ActualToolCalls'', ''ActualResultBytes''}
      \<and> owner_outcome_ok (rq_backend q) (handed_on (JObj kvs))
      \<and> a = \<lparr>br_status = 200, br_body = dumps (handed_on (JObj kvs)),
          br_headers = [(''Content-Type'', ''application/json'')]\<rparr>" if "res = Inr a" for a
  proof -
    from that res(2) obtain b0 ev o' where b0: "out = Inr b0" "br_status b0 = 200" "length (br_body b0) \<le> 65536"
      "loads (br_body b0) = Some ev" "check_evidence (rq_backend q) ev = Inr o'"
      "a = \<lparr>br_status = 200, br_body = dumps o', br_headers = [(''Content-Type'', ''application/json'')]\<rparr>"
      by (auto simp: result_simps recovered_def split: if_splits option.splits)
    with check_evidence_ok [OF b0(5), unfolded evidence_fields_def] show ?thesis by blast
  qed
  moreover have "res = Inl x" if "out = Inl x" for x using res(2) that by simp
  moreover have "\<forall>pre post. rb_pathTemplate b = pre @ ''{backendRequestId}'' @ post \<and> CHR ''{'' \<notin> set pre \<and> CHR ''{'' \<notin> set post
      \<longrightarrow> recovery_path (rb_pathTemplate b) (rq_backend q) = pre @ quote (rq_backend q) @ post
        \<and> unquote (quote (rq_backend q)) = rq_backend q"
  proof (intro allI impI, elim conjE)
    fix pre post
    assume t: "rb_pathTemplate b = pre @ ''{backendRequestId}'' @ post" "CHR ''{'' \<notin> set pre" "CHR ''{'' \<notin> set post"
    show "recovery_path (rb_pathTemplate b) (rq_backend q) = pre @ quote (rq_backend q) @ post
        \<and> unquote (quote (rq_backend q)) = rq_backend q"
      unfolding t(1) using recovery_path_substitutes [OF t(2,3)] unquote_quote_id by blast
  qed
  ultimately show ?thesis
    using d(1-3,5-7) rc up res(1) call
    by (intro disjI2 exI [of _ q] exI [of _ "recovery_path (rb_pathTemplate b) (rq_backend q)"] exI [of _ out]
        exI [of _ r] exI [of _ c] exI [of _ b])
      (simp add: recovery_path_slashes unquote_quote_id)
qed

definition sample_evidence :: json where
  "sample_evidence = JObj [(''BackendRequestID'', JStr ''a/b''), (''Outcome'', JStr ''SUCCEEDED'')]"

definition sample_recovery_request :: recovery_request where
  "sample_recovery_request = \<lparr>rq_backend = ''a/b'', rq_owner = ''udp'', rq_capability = ''cap'', rq_correlation = ''k''\<rparr>"

definition sample_recover :: "(nat, backend_response) io" where
  "sample_recover = recover (\<lambda>_. Admitted sample_recovery_request) (\<lambda>_. Some sample_evidence) (\<lambda>_. ''e'')
     (\<lambda>c w. (Inr \<lparr>br_status = 200, br_body = [], br_headers = []\<rparr>, w + 1)) ''mcp''
     [(''cap'', (\<lparr>rb_owner = ''udp'', rb_service = ''b'', rb_pathTemplate = ''/o/{backendRequestId}''\<rparr>,
        cr_policy sample_mcp_route))] ''{}'' sample_headers sample_workload"

lemma sample_recovery_init: "init_recovery sample_mcp_artifact =
    Inr [(''cap'', (\<lparr>rb_owner = ''udp'', rb_service = ''b'', rb_pathTemplate = ''/o/{backendRequestId}''\<rparr>,
        cr_policy sample_mcp_route))]"
  by (simp add: init_recovery_def sample_dispatch_defs add_recovery_def)

lemma sample_evidence_ok: "is_ok (check_evidence ''a/b'' sample_evidence)"
  by (simp add: check_evidence_def sample_evidence_def evidence_fields_def evidence_get_def Let_def)

lemma sample_recover_run: "\<exists>b. sample_recover 0 = (Inr b, 1)"
proof -
  obtain out where "check_evidence ''a/b'' sample_evidence = Inr out"
    using sample_evidence_ok by (auto simp: is_ok_iff)
  then show ?thesis
    by (simp add: sample_recover_def recover_def recovery_call_def recovered_def io_defs sample_recovery_request_def
        first_header_def sample_headers_def lower_header_names sample_workload_def Let_def)
qed

theorem recovery_is_authoritative_witness:
  "\<exists>a ev. fst (sample_recover 0) = Inr a \<and> br_body a = ''e'' \<and> owner_outcome_ok ''a/b'' ev"
proof -
  obtain a where a: "sample_recover 0 = (Inr a, 1)" using sample_recover_run by blast
  from recovery_is_authoritative [OF sample_recovery_init a [unfolded sample_recover_def]] a
  show ?thesis by (auto simp: sample_recovery_request_def)
qed

section \<open>What the evidence ingress guarantees\<close>

text \<open>The canonical form of no-dispatch evidence and of an owner result.\<close>

definition canonical_kind :: "owner_evidence \<Rightarrow> bool" where
  "canonical_kind v \<longleftrightarrow>
     (if ev_kind v = ''OWNER_PROVES_NO_DISPATCH''
      then ev_state v = ''FAILED'' \<and> ev_code v = ''DISPATCH_NOT_STARTED'' \<and> ev_objects v = 0 \<and> ev_hashes v = []
        \<and> ref_text v = []
      else ref_text v \<noteq> [])"

lemma ingest_call_guards:
  assumes "ingest_call admit dumps raw hs i = Inr call"
  shows "ti_service i = ''ouf-udp-object-resolution'' \<and> ''mcp.evidence.submit'' \<in> ti_scopes i \<and> length raw \<le> 1048576"
  using assms by (auto simp: ingest_call_def owner_by_service_def split: if_splits)

lemma ingest_call_admitted:
  assumes "ingest_call admit dumps raw hs i = Inr call"
  obtains v where "admit raw = Admitted v" "ev_owner v \<in> {None, Some ''udp-object-resolution''}" "canonical_kind v"
    "\<forall>h \<in> set (ev_hashes v). hash_version h = ''v1''" "first_header hs ''x-correlation-id'' \<noteq> []"
    "uc_body call = dumps (canonical_evidence ''udp-object-resolution'' v)"
    "uc_service call = ''ouf-mcp-server''"
    "map_of (uc_headers call) ''X-OUF-Trusted-Backend-Owner'' = Some ''udp-object-resolution''"
proof -
  note g = ingest_call_guards [OF assms]
  with assms obtain v where v: "admit raw = Admitted v"
    by (auto simp: ingest_call_def owner_by_service_def split: admission.splits)
  show thesis
    by (rule that [OF v]; insert assms g v;
        simp add: ingest_call_def owner_by_service_def canonical_kind_def list_all_iff split: if_splits; force)
qed

text \<open>
  Evidence reaches the MCP inbox only from the one registered owner workload with the submit scope:
  the claimed owner in the body and in the trusted header is the one registered for the workload,
  whatever the payload says (a payload naming another owner is refused), no-dispatch evidence is the
  canonical zero-cost proof and every other result names its reference, all object hashes are of version
  v1, and they are sent sorted. Any other submission changes nothing; the caller sees only a 200, 201 or
  409 of the inbox.
\<close>

theorem evidence_owner_from_workload:
  "(\<exists>x. ingest admit dumps inbox raw hs i w = (Inl x, w))
   \<or> (\<exists>v call. admit raw = Admitted v \<and> ti_service i = ''ouf-udp-object-resolution''
        \<and> ''mcp.evidence.submit'' \<in> ti_scopes i \<and> length raw \<le> 1048576 \<and> canonical_kind v
        \<and> ev_owner v \<in> {None, Some ''udp-object-resolution''}
        \<and> list_all (\<lambda>h. hash_version h = ''v1'') (ev_hashes v)
        \<and> uc_body call = dumps (canonical_evidence ''udp-object-resolution'' v)
        \<and> jlookup (canonical_evidence ''udp-object-resolution'' v) ''ClaimedOwner'' = Some (JStr ''udp-object-resolution'')
        \<and> map_of (uc_headers call) ''X-OUF-Trusted-Backend-Owner'' = Some ''udp-object-resolution''
        \<and> ingest admit dumps inbox raw hs i w =
            (bindE (fst (inbox call w)) (\<lambda>a. if br_status a \<in> {200, 201, 409} then Inr a
               else Inl (DispatchError 503 ''EVIDENCE_INBOX_UNAVAILABLE'' ''MCP Evidence Inbox unavailable'')),
             snd (inbox call w)))"
proof (cases "ingest_call admit dumps raw hs i")
  case (Inl x)
  then show ?thesis by (auto simp: ingest_def io_defs)
next
  case (Inr call)
  have run: "ingest admit dumps inbox raw hs i w =
      (bindE (fst (inbox call w)) (\<lambda>a. if br_status a \<in> {200, 201, 409} then Inr a
         else Inl (DispatchError 503 ''EVIDENCE_INBOX_UNAVAILABLE'' ''MCP Evidence Inbox unavailable'')),
       snd (inbox call w))"
    using Inr by (cases "inbox call w") (auto simp: ingest_def io_defs split: sum.splits)
  obtain v where v: "admit raw = Admitted v" "ev_owner v \<in> {None, Some ''udp-object-resolution''}" "canonical_kind v"
    "\<forall>h \<in> set (ev_hashes v). hash_version h = ''v1''"
    "uc_body call = dumps (canonical_evidence ''udp-object-resolution'' v)"
    "map_of (uc_headers call) ''X-OUF-Trusted-Backend-Owner'' = Some ''udp-object-resolution''"
    using Inr by (rule ingest_call_admitted)
  show ?thesis
    using v ingest_call_guards [OF Inr] run
    by (intro disjI2 exI [of _ v] exI [of _ call]) (simp add: canonical_evidence_def list_all_iff)
qed

end
