(* ===== verification/Projection.thy ===== *)
theory Projection
  imports Compile
begin

text \<open>
  The installation projection, \<open>tools/apply_installation_projection.py\<close>: the symbolic installation
  references of a compiled artifact become the workload clients, audience and services of one
  installation. The hash of the canonical JSON text is a parameter.
\<close>

section \<open>Reading the projection\<close>

fun walk :: "json \<Rightarrow> string list \<Rightarrow> json option" where
  "walk v [] = Some v"
| "walk v (p # ps) = (case jlookup v p of None \<Rightarrow> None | Some w \<Rightarrow> walk w ps)"

definition projection_field :: "json \<Rightarrow> string \<Rightarrow> string res" where
  "projection_field v path =
     (case walk v (split_on CHR ''.'' path) of
        None \<Rightarrow> Inl (ProjectionError (''missing projection field '' @ path))
      | Some (JStr s) \<Rightarrow> if strip s = [] then Inl (ProjectionError (''invalid projection field '' @ path)) else Inr s
      | Some _ \<Rightarrow> Inl (ProjectionError (''invalid projection field '' @ path)))"

definition service_bindings_of :: "json \<Rightarrow> (string \<times> json) list res" where
  "service_bindings_of projection =
     bindE (jget projection ''services'' JNull) (\<lambda>services.
     bindE (jget (or_object services) ''bindings'' JNull) (\<lambda>v.
       case or_object v of JObj kvs \<Rightarrow> Inr kvs
       | _ \<Rightarrow> Inl (ProjectionError ''invalid projection field services.bindings'')))"

record projected_clients =
  pc_mcp :: string
  pc_ingestion :: string
  pc_udp :: string
  pc_semantic :: string

record installation =
  in_installationId :: string
  in_revision :: json
  in_checksum :: string
  in_issuerUrl :: string
  in_gatewayAudience :: string
  in_publicApiBaseUrl :: string
  in_clients :: projected_clients
  in_serviceBindings :: "(string \<times> json) list"

record projected_artifact =
  pa_routes :: "compiled_route list"
  pa_installation :: installation
  pa_sha256 :: string

section \<open>Resolving a route\<close>

definition resolve_identity :: "projected_clients \<Rightarrow> string \<Rightarrow> string" where
  "resolve_identity c v =
     (if v = ''installation://iam.workloadClients.mcpServer'' then pc_mcp c
      else if v = ''installation://iam.workloadClients.ingestion'' then pc_ingestion c
      else if v = ''installation://iam.workloadClients.udp'' then pc_udp c
      else if v = ''installation://iam.workloadClients.semantic'' then pc_semantic c
      else v)"

definition unresolved :: "string \<Rightarrow> bool" where
  "unresolved v = starts_with v ''installation://''"

definition resolve_policy :: "projected_clients \<Rightarrow> string \<Rightarrow> route_policy \<Rightarrow> route_policy res" where
  "resolve_policy c audience p =
     (let allowed = map_option (map (resolve_identity c)) (pol_allowedServiceIdentities p) in
      if list_ex unresolved (or_empty allowed) then Inl (ProjectionError ''unresolved installation service identity'')
      else Inr (p\<lparr>pol_allowedServiceIdentities := allowed, pol_requiredAudience :=
        (if pol_requiredAudience p = Some ''installation://iam.gatewayAudience'' then Some audience
         else pol_requiredAudience p)\<rparr>))"

definition resolve_backend :: "(string \<times> json) list \<Rightarrow> backend_binding option \<Rightarrow> backend_binding option res" where
  "resolve_backend bindings backend =
     (case backend of
        None \<Rightarrow> Inr None
      | Some b \<Rightarrow> (case map_of bindings (bb_service b) of
          None \<Rightarrow> Inr (Some b)
        | Some (JStr s) \<Rightarrow>
            if strip s = [] then Inl (ProjectionError (''invalid service binding for '' @ bb_service b))
            else Inr (Some (b\<lparr>bb_service := strip s\<rparr>))
        | Some _ \<Rightarrow> Inl (ProjectionError (''invalid service binding for '' @ bb_service b))))"

definition resolve_mediation :: "projected_clients \<Rightarrow> mediation_meta \<Rightarrow> mediation_meta" where
  "resolve_mediation c m =
     (if md_serviceIdentityRef m = ''installation://iam.workloadClients.mcpServer''
      then m\<lparr>md_serviceIdentity := Some (pc_mcp c)\<rparr> else m)"

definition project_route ::
  "projected_clients \<Rightarrow> string \<Rightarrow> (string \<times> json) list \<Rightarrow> compiled_route \<Rightarrow> compiled_route res" where
  "project_route c audience bindings r =
     bindE (resolve_policy c audience (cr_policy r)) (\<lambda>p.
     bindE (resolve_backend bindings (cr_backend r)) (\<lambda>b.
     Inr (r\<lparr>cr_policy := p, cr_backend := b, cr_mediation := map_option (resolve_mediation c) (cr_mediation r)\<rparr>)))"

section \<open>The projection\<close>

definition projected_clients_of :: "json \<Rightarrow> projected_clients res" where
  "projected_clients_of projection =
     bindE (projection_field projection ''iam.workloadClients.mcpServer'') (\<lambda>mcp.
     bindE (projection_field projection ''iam.workloadClients.ingestion'') (\<lambda>ingestion.
     bindE (projection_field projection ''iam.workloadClients.udp'') (\<lambda>udp.
     bindE (projection_field projection ''iam.workloadClients.semantic'') (\<lambda>semantic.
     bindE (projection_field projection ''mcp.environment.MCP_OIDC_CLIENT_ID'') (\<lambda>projected.
       if projected \<noteq> mcp
       then Inl (ProjectionError ''mcp workload identity disagrees with iam.workloadClients.mcpServer'')
       else Inr \<lparr>pc_mcp = mcp, pc_ingestion = ingestion, pc_udp = udp, pc_semantic = semantic\<rparr>)))))"

definition apply_projection ::
  "(compiled_route list \<Rightarrow> installation \<Rightarrow> string) \<Rightarrow> artifact \<Rightarrow> json \<Rightarrow> projected_artifact res" where
  "apply_projection sha compiled projection =
     bindE (projected_clients_of projection) (\<lambda>c.
     bindE (projection_field projection ''gateway.requiredAudience'') (\<lambda>audience.
     bindE (projection_field projection ''gateway.issuerUrl'') (\<lambda>issuer.
     bindE (projection_field projection ''gateway.publicApiBaseUrl'') (\<lambda>api_base.
     bindE (service_bindings_of projection) (\<lambda>bindings.
     bindE (mapE (project_route c audience bindings) (art_routes compiled)) (\<lambda>routes.
     bindE (projection_field projection ''installationId'') (\<lambda>installation_id.
     bindE (jget projection ''revision'' JNull) (\<lambda>revision.
     bindE (projection_field projection ''checksum'') (\<lambda>checksum.
       let i = \<lparr>in_installationId = installation_id, in_revision = revision, in_checksum = checksum,
             in_issuerUrl = issuer, in_gatewayAudience = audience, in_publicApiBaseUrl = api_base,
             in_clients = c, in_serviceBindings = sort_by (key_le fst) bindings\<rparr>
       in Inr \<lparr>pa_routes = routes, pa_installation = i, pa_sha256 = sha routes i\<rparr>)))))))))"

section \<open>The edge environment and single fields\<close>

definition caddy_fields :: "(string, string) dict" where
  "caddy_fields = [(''OUF_BACKEND_NETWORK'', ''backendNetwork''), (''OUF_EDGE_NETWORK'', ''edgeNetwork''),
     (''OUF_INTERNAL_ISSUER_HOST'', ''internalIssuerHost''), (''OUF_INTERNAL_API_HOST'', ''internalApiHost''),
     (''OUF_OIDC_DISCOVERY_URL'', ''oidcDiscoveryUrl'')]"

definition caddy_entry :: "json \<Rightarrow> string \<times> string \<Rightarrow> (string \<times> string) res" where
  "caddy_entry caddy ef =
     (case jlookup caddy (snd ef) of
        Some (JStr s) \<Rightarrow>
          if strip s = [] then Inl (ProjectionError (''missing projection field caddy.'' @ snd ef)) else Inr (fst ef, s)
      | _ \<Rightarrow> Inl (ProjectionError (''missing projection field caddy.'' @ snd ef)))"

definition caddy_environment :: "json \<Rightarrow> (string, string) dict res" where
  "caddy_environment projection =
     bindE (jget projection ''caddy'' JNull) (\<lambda>caddy.
       if \<not> is_obj caddy then Inl (ProjectionError ''missing projection field caddy'')
       else mapE (caddy_entry caddy) caddy_fields)"

fun is_scalar :: "json \<Rightarrow> bool" where
  "is_scalar (JStr _) = True"
| "is_scalar (JInt _) = True"
| "is_scalar (JBool _) = True"
| "is_scalar _ = False"

definition projection_scalar :: "json \<Rightarrow> string \<Rightarrow> json res" where
  "projection_scalar projection path =
     (case walk projection (split_on CHR ''.'' path) of
        None \<Rightarrow> Inl (ProjectionError (''missing projection field '' @ path))
      | Some v \<Rightarrow> if is_scalar v then Inr v
          else Inl (ProjectionError (''projection field '' @ path @ '' is not scalar'')))"

section \<open>What a projection guarantees\<close>

text \<open>
  What an installation reference names: the four workload clients, read at the path that the reference
  spells out. Any other identity names itself.
\<close>

definition client_references :: "string list" where
  "client_references = [''iam.workloadClients.mcpServer'', ''iam.workloadClients.ingestion'',
     ''iam.workloadClients.udp'', ''iam.workloadClients.semantic'']"

definition names_identity :: "json \<Rightarrow> string \<Rightarrow> string \<Rightarrow> bool" where
  "names_identity projection v v' \<longleftrightarrow> \<not> starts_with v' ''installation://''
     \<and> (\<forall>path \<in> set client_references. v = ''installation://'' @ path \<longrightarrow>
          walk projection (split_on CHR ''.'' path) = Some (JStr v'))
     \<and> (v \<notin> (@) ''installation://'' ` set client_references \<longrightarrow> v' = v)"

text \<open>A bound service is replaced by the text it is bound to; port and path stay.\<close>

definition bound_backend :: "(string \<times> json) list \<Rightarrow> backend_binding option \<Rightarrow> backend_binding option \<Rightarrow> bool" where
  "bound_backend bindings b b' \<longleftrightarrow>
     (case b of None \<Rightarrow> b' = None
      | Some x \<Rightarrow> (case map_of bindings (bb_service x) of
            None \<Rightarrow> b' = b
          | Some v \<Rightarrow> (\<exists>s. v = JStr s \<and> strip s \<noteq> []
              \<and> b' = Some \<lparr>bb_service = strip s, bb_port = bb_port x, bb_path = bb_path x\<rparr>)))"

text \<open>A mediation that refers to the MCP server gets its projected client; nothing else of it changes.\<close>

definition bound_mediation :: "json \<Rightarrow> mediation_meta option \<Rightarrow> mediation_meta option \<Rightarrow> bool" where
  "bound_mediation projection m m' \<longleftrightarrow>
     (case m of None \<Rightarrow> m' = None
      | Some x \<Rightarrow>
          if md_serviceIdentityRef x = ''installation://iam.workloadClients.mcpServer''
          then (\<exists>s. walk projection [''iam'', ''workloadClients'', ''mcpServer''] = Some (JStr s)
              \<and> m' = Some (x\<lparr>md_serviceIdentity := Some s\<rparr>))
          else m' = m)"

text \<open>A resolved route differs from its source only where the installation speaks.\<close>

definition resolved_route :: "json \<Rightarrow> (string \<times> json) list \<Rightarrow> compiled_route \<Rightarrow> compiled_route \<Rightarrow> bool" where
  "resolved_route projection bindings r r' \<longleftrightarrow>
     (\<exists>allowed audience. r' = r\<lparr>cr_policy := (cr_policy r)\<lparr>pol_allowedServiceIdentities := allowed,
            pol_requiredAudience := audience\<rparr>, cr_backend := cr_backend r', cr_mediation := cr_mediation r'\<rparr>
        \<and> rel_option (list_all2 (names_identity projection)) (pol_allowedServiceIdentities (cr_policy r)) allowed
        \<and> (if pol_requiredAudience (cr_policy r) = Some ''installation://iam.gatewayAudience''
           then \<exists>a. walk projection [''gateway'', ''requiredAudience''] = Some (JStr a) \<and> audience = Some a
           else audience = pol_requiredAudience (cr_policy r)))
     \<and> bound_backend bindings (cr_backend r) (cr_backend r')
     \<and> bound_mediation projection (cr_mediation r) (cr_mediation r')"

definition clients_read :: "json \<Rightarrow> projected_clients \<Rightarrow> bool" where
  "clients_read projection c \<longleftrightarrow>
     walk projection [''iam'', ''workloadClients'', ''mcpServer''] = Some (JStr (pc_mcp c))
     \<and> walk projection [''iam'', ''workloadClients'', ''ingestion''] = Some (JStr (pc_ingestion c))
     \<and> walk projection [''iam'', ''workloadClients'', ''udp''] = Some (JStr (pc_udp c))
     \<and> walk projection [''iam'', ''workloadClients'', ''semantic''] = Some (JStr (pc_semantic c))
     \<and> walk projection [''mcp'', ''environment'', ''MCP_OIDC_CLIENT_ID''] = Some (JStr (pc_mcp c))"

lemma client_paths:
  "split_on CHR ''.'' ''iam.workloadClients.mcpServer'' = [''iam'', ''workloadClients'', ''mcpServer'']"
  "split_on CHR ''.'' ''iam.workloadClients.ingestion'' = [''iam'', ''workloadClients'', ''ingestion'']"
  "split_on CHR ''.'' ''iam.workloadClients.udp'' = [''iam'', ''workloadClients'', ''udp'']"
  "split_on CHR ''.'' ''iam.workloadClients.semantic'' = [''iam'', ''workloadClients'', ''semantic'']"
  "split_on CHR ''.'' ''mcp.environment.MCP_OIDC_CLIENT_ID'' = [''mcp'', ''environment'', ''MCP_OIDC_CLIENT_ID'']"
  "split_on CHR ''.'' ''gateway.requiredAudience'' = [''gateway'', ''requiredAudience'']"
  "split_on CHR ''.'' ''gateway.issuerUrl'' = [''gateway'', ''issuerUrl'']"
  "split_on CHR ''.'' ''gateway.publicApiBaseUrl'' = [''gateway'', ''publicApiBaseUrl'']"
  "split_on CHR ''.'' ''installationId'' = [''installationId'']" "split_on CHR ''.'' ''checksum'' = [''checksum'']"
  by simp_all

lemma projection_field_text:
  "projection_field v path = Inr s \<Longrightarrow> walk v (split_on CHR ''.'' path) = Some (JStr s) \<and> strip s \<noteq> []"
  by (auto simp: projection_field_def split: option.splits json.splits if_splits)

lemma service_bindings_read:
  assumes "service_bindings_of v = Inr bindings"
  shows "\<forall>kvs. walk v [''services'', ''bindings''] = Some (JObj kvs) \<longrightarrow> bindings = kvs"
proof (intro allI impI)
  fix kvs assume w: "walk v [''services'', ''bindings''] = Some (JObj kvs)"
  then obtain services where s: "jlookup v ''services'' = Some services" "jlookup services ''bindings'' = Some (JObj kvs)"
    by (auto split: option.splits)
  then obtain o1 o2 where o: "v = JObj o1" "map_of o1 ''services'' = Some services" "services = JObj o2"
    "map_of o2 ''bindings'' = Some (JObj kvs)" by (cases v; cases services) auto
  then have "or_object services = services" by (cases o2) (auto simp: or_object_def)
  with assms o show "bindings = kvs"
    by (cases kvs) (auto simp: service_bindings_of_def bindE_Inr_iff or_object_def)
qed

lemma projected_clients_read: "projected_clients_of projection = Inr c \<Longrightarrow> clients_read projection c"
  by (auto simp: projected_clients_of_def clients_read_def bindE_Inr_iff client_paths
      dest!: projection_field_text split: if_splits)

lemma resolve_identity_names:
  assumes "clients_read projection c" and "\<not> unresolved (resolve_identity c v)"
  shows "names_identity projection v (resolve_identity c v)"
  using assms
  by (simp add: names_identity_def client_references_def client_paths clients_read_def unresolved_def)
    (auto simp: resolve_identity_def)

lemma resolve_policy_names:
  assumes "clients_read projection c" and "resolve_policy c audience p = Inr p'"
  shows "rel_option (list_all2 (names_identity projection)) (pol_allowedServiceIdentities p) (pol_allowedServiceIdentities p')
    \<and> p' = p\<lparr>pol_allowedServiceIdentities := pol_allowedServiceIdentities p',
        pol_requiredAudience := (if pol_requiredAudience p = Some ''installation://iam.gatewayAudience'' then Some audience
          else pol_requiredAudience p)\<rparr>"
proof -
  let ?allowed = "map_option (map (resolve_identity c)) (pol_allowedServiceIdentities p)"
  from assms(2) have p': "p' = p\<lparr>pol_allowedServiceIdentities := ?allowed,
        pol_requiredAudience := (if pol_requiredAudience p = Some ''installation://iam.gatewayAudience'' then Some audience
          else pol_requiredAudience p)\<rparr>" and clean: "\<not> list_ex unresolved (or_empty ?allowed)"
    by (simp_all add: resolve_policy_def Let_def split: if_splits)
  have "rel_option (list_all2 (names_identity projection)) (pol_allowedServiceIdentities p) ?allowed"
  proof (cases "pol_allowedServiceIdentities p")
    case (Some vs)
    with clean have "\<not> unresolved (resolve_identity c v)" if "v \<in> set vs" for v
      using that by (auto simp: or_empty_def list_ex_iff)
    with Some show ?thesis
      using resolve_identity_names [OF assms(1)] by (auto simp: list.rel_map intro!: list.rel_refl_strong)
  qed simp
  then show ?thesis by (simp add: p')
qed

lemma resolve_backend_bound: "resolve_backend bindings b = Inr b' \<Longrightarrow> bound_backend bindings b b'"
  by (auto simp: resolve_backend_def bound_backend_def split: option.splits json.splits if_splits)

lemma resolve_mediation_bound:
  "clients_read projection c \<Longrightarrow> bound_mediation projection m (map_option (resolve_mediation c) m)"
  by (cases m) (auto simp: bound_mediation_def resolve_mediation_def clients_read_def)

lemma project_route_resolved:
  assumes "project_route c audience bindings r = Inr r'" and clients: "clients_read projection c"
    and "walk projection [''gateway'', ''requiredAudience''] = Some (JStr audience)"
  shows "resolved_route projection bindings r r'"
proof -
  from assms(1) obtain p b where p: "resolve_policy c audience (cr_policy r) = Inr p"
    and b: "resolve_backend bindings (cr_backend r) = Inr b"
    and r': "r' = r\<lparr>cr_policy := p, cr_backend := b, cr_mediation := map_option (resolve_mediation c) (cr_mediation r)\<rparr>"
    by (auto simp: project_route_def result_simps)
  note names = resolve_policy_names [OF clients p]
  have "r' = r\<lparr>cr_policy := (cr_policy r)\<lparr>pol_allowedServiceIdentities := pol_allowedServiceIdentities p,
        pol_requiredAudience := (if pol_requiredAudience (cr_policy r) = Some ''installation://iam.gatewayAudience''
          then Some audience else pol_requiredAudience (cr_policy r))\<rparr>,
      cr_backend := cr_backend r', cr_mediation := cr_mediation r'\<rparr>"
    using names unfolding r' by simp
  moreover have "bound_backend bindings (cr_backend r) (cr_backend r')"
    "bound_mediation projection (cr_mediation r) (cr_mediation r')"
    using resolve_backend_bound [OF b] resolve_mediation_bound [OF clients] by (simp_all add: r')
  ultimately show ?thesis
    unfolding resolved_route_def using names assms(3)
    by (intro conjI exI [of _ "pol_allowedServiceIdentities p"] exI [of _ "if pol_requiredAudience (cr_policy r)
        = Some ''installation://iam.gatewayAudience'' then Some audience else pol_requiredAudience (cr_policy r)"])
      simp_all
qed

text \<open>
  C33. A projection that succeeds resolves every route of the artifact, in order, and changes nothing of it
  but its service identities, audience, backend service and mediating identity: every installation reference
  to a workload client becomes the text that the projection holds at the path the reference spells, and no
  identity is left symbolic; the audience reference becomes the gateway audience; a backend whose service is
  bound is served, at the same port and path, by the stripped text of its binding; a mediation that refers
  to the MCP server gets its projected client. The clients, the audience and the identification of the
  installation are those of the projection, and the MCP client is also the one the MCP server is
  configured with.
\<close>

theorem projection_resolves_every_route:
  assumes "apply_projection sha compiled projection = Inr out"
  shows "\<exists>bindings. service_bindings_of projection = Inr bindings
     \<and> (\<forall>kvs. walk projection [''services'', ''bindings''] = Some (JObj kvs) \<longrightarrow> bindings = kvs)
     \<and> list_all2 (resolved_route projection bindings) (art_routes compiled) (pa_routes out)
     \<and> in_serviceBindings (pa_installation out) = sort_by (key_le fst) bindings
     \<and> clients_read projection (in_clients (pa_installation out))
     \<and> walk projection [''gateway'', ''requiredAudience''] = Some (JStr (in_gatewayAudience (pa_installation out)))
     \<and> walk projection [''gateway'', ''issuerUrl''] = Some (JStr (in_issuerUrl (pa_installation out)))
     \<and> walk projection [''gateway'', ''publicApiBaseUrl''] = Some (JStr (in_publicApiBaseUrl (pa_installation out)))
     \<and> walk projection [''installationId''] = Some (JStr (in_installationId (pa_installation out)))
     \<and> walk projection [''checksum''] = Some (JStr (in_checksum (pa_installation out)))
     \<and> jget projection ''revision'' JNull = Inr (in_revision (pa_installation out))
     \<and> pa_sha256 out = sha (pa_routes out) (pa_installation out)"
proof -
  from assms obtain c audience issuer api bindings iid revision checksum where
    c: "projected_clients_of projection = Inr c" and
    a: "projection_field projection ''gateway.requiredAudience'' = Inr audience"
      "projection_field projection ''gateway.issuerUrl'' = Inr issuer"
      "projection_field projection ''gateway.publicApiBaseUrl'' = Inr api"
      "projection_field projection ''installationId'' = Inr iid" "projection_field projection ''checksum'' = Inr checksum"
    and b: "service_bindings_of projection = Inr bindings" and rev: "jget projection ''revision'' JNull = Inr revision"
    and routes: "mapE (project_route c audience bindings) (art_routes compiled) = Inr (pa_routes out)"
    and i: "pa_installation out = \<lparr>in_installationId = iid, in_revision = revision, in_checksum = checksum,
        in_issuerUrl = issuer, in_gatewayAudience = audience, in_publicApiBaseUrl = api,
        in_clients = c, in_serviceBindings = sort_by (key_le fst) bindings\<rparr>"
    and sha: "pa_sha256 out = sha (pa_routes out) (pa_installation out)"
    by (auto simp: apply_projection_def Let_def bindE_Inr_iff)
  note read = a [THEN projection_field_text, unfolded client_paths]
  have "list_all2 (resolved_route projection bindings) (art_routes compiled) (pa_routes out)"
    using routes unfolding mapE_Inr_iff
    by (rule list_all2_mono) (rule project_route_resolved [OF _ projected_clients_read [OF c] conjunct1 [OF read(1)]])
  then show ?thesis
    using b service_bindings_read [OF b] rev sha read projected_clients_read [OF c] by (intro exI [of _ bindings]) (simp add: i)
qed

definition sample_projection :: json where
  "sample_projection = JObj [
     (''iam'', JObj [(''workloadClients'', JObj [(''mcpServer'', JStr ''m''), (''ingestion'', JStr ''g''),
        (''udp'', JStr ''u''), (''semantic'', JStr ''s'')])]),
     (''mcp'', JObj [(''environment'', JObj [(''MCP_OIDC_CLIENT_ID'', JStr ''m'')])]),
     (''gateway'', JObj [(''requiredAudience'', JStr ''a''), (''issuerUrl'', JStr ''i''), (''publicApiBaseUrl'', JStr ''b'')]),
     (''installationId'', JStr ''n''), (''checksum'', JStr ''c'')]"

definition symbolic_artifact :: artifact where
  "symbolic_artifact = \<lparr>art_routes = [route_of (sample_route ''r'' ''1'' ''/one'') sample_cap sample_src
     \<lparr>cr_policy := \<lparr>pol_identity = ''M2M'', pol_allowedServiceIdentities = Some [''installation://iam.workloadClients.mcpServer''],
        pol_allowedActorTypes = None, pol_requiredAudience = Some ''installation://iam.gatewayAudience'',
        pol_requiredScope = None, pol_maxRequestBytes = 1, pol_timeoutSeconds = 1\<rparr>, cr_backend := None\<rparr>],
     art_sha256 = ''h''\<rparr>"

theorem projection_resolves_every_route_witness:
  "\<exists>out. apply_projection (\<lambda>_ _. ''h'') symbolic_artifact sample_projection = Inr out
     \<and> length (pa_routes out) = 1 \<and> pc_mcp (in_clients (pa_installation out)) = ''m''"
proof -
  obtain out where out: "apply_projection (\<lambda>_ _. ''h'') symbolic_artifact sample_projection = Inr out"
    by (simp add: apply_projection_def projected_clients_of_def projection_field_def sample_projection_def
        symbolic_artifact_def service_bindings_of_def project_route_def resolve_policy_def resolve_backend_def
        resolve_identity_def unresolved_def starts_with_def or_empty_def or_object_def strip_def is_space_def Let_def)
  from projection_resolves_every_route [OF out] obtain bindings where
    "list_all2 (resolved_route sample_projection bindings) (art_routes symbolic_artifact) (pa_routes out)"
    and "clients_read sample_projection (in_clients (pa_installation out))" by blast
  then show ?thesis using out
    by (auto dest: list_all2_lengthD simp: symbolic_artifact_def sample_projection_def clients_read_def)
qed

end
