(* ===== verification/Route_Deploy.thy ===== *)
theory Route_Deploy
  imports Json
begin

text \<open>
  The APISIX route deployers under \<open>ops/apisix\<close>: the shared steps of \<open>deploy_internal_m2m_routes.py\<close>
  (snapshot, restore, write with readback) and of \<open>deploy_status_execute.py\<close>. \<open>Admin.curl\<close>, which runs
  the HTTP request in the container's network, and the snapshot file are parameters that act on an
  outside world; a route is the dictionary of the materialisation.
\<close>

section \<open>The Admin API\<close>

type_synonym route = "(string \<times> json) list"
type_synonym previous_routes = "(string, json) dict"

text \<open>\<open>curl(path, method, data, admin)\<close>: the port, the path, the method and the body, \<open>None\<close> as \<open>null\<close>.\<close>

record 'w admin =
  ad_curl :: "bool \<Rightarrow> string \<Rightarrow> string \<Rightarrow> json \<Rightarrow> ('w, nat \<times> json) io"
  ad_save :: "json \<Rightarrow> ('w, unit) io"

definition admin_path :: "string \<Rightarrow> string" where
  "admin_path i = ''/apisix/admin/routes/'' @ i"

definition admin_route :: "'w admin \<Rightarrow> string \<Rightarrow> string \<Rightarrow> json \<Rightarrow> ('w, nat \<times> json) io" where
  "admin_route ad verb i data = ad_curl ad True (admin_path i) verb data"

text \<open>The stored route of an Admin API answer, without its time stamps.\<close>

fun without_times :: "json \<Rightarrow> json res" where
  "without_times (JObj kvs) = Inr (JObj (filter (\<lambda>(k, _). k \<notin> {''create_time'', ''update_time''}) kvs))"
| "without_times _ = Inl (TypeError ''object has no attribute items'')"

definition route_value :: "json \<Rightarrow> json res" where
  "route_value doc = bindE (jget doc ''value'' doc) (\<lambda>v.
     without_times (case jlookup v ''value'' of Some (JObj kvs) \<Rightarrow> JObj kvs | _ \<Rightarrow> v))"

text \<open>\<open>any(actual.get(k) != v for k, v in route.items())\<close>\<close>

definition differs :: "json \<Rightarrow> route \<Rightarrow> bool" where
  "differs actual r =
     list_ex (\<lambda>(k, v). \<not> json_eq (case jlookup actual k of None \<Rightarrow> JNull | Some a \<Rightarrow> a) v) r"

definition route_id :: "route \<Rightarrow> string res" where
  "route_id r = (case map_of r ''id'' of
     Some (JStr s) \<Rightarrow> Inr s | Some _ \<Rightarrow> Inl (TypeError ''can only concatenate str'') | None \<Rightarrow> Inl (KeyError ''id''))"

section \<open>Snapshot and restore\<close>

text \<open>\<open>tag\<close> is what a script adds to its messages.\<close>

definition read_route :: "'w admin \<Rightarrow> (string \<Rightarrow> string) \<Rightarrow> string \<Rightarrow> ('w, json) io" where
  "read_route ad tag i = bindS (admin_route ad ''GET'' i JNull) (\<lambda>(code, body).
     if code \<notin> {200, 404} then raiseS (RuntimeError (''snapshot HTTP '' @ nat_text code @ tag i))
     else liftS (if code = 200 then route_value body else Inr JNull))"

definition for_id :: "string \<Rightarrow> string" where
  "for_id i = '' for '' @ i"

definition no_tag :: "string \<Rightarrow> string" where
  "no_tag i = []"

fun snapshot_loop :: "'w admin \<Rightarrow> (string \<Rightarrow> string) \<Rightarrow> string list \<Rightarrow> previous_routes \<Rightarrow> ('w, previous_routes) io" where
  "snapshot_loop ad tag [] prev = returnS prev"
| "snapshot_loop ad tag (i # ids) prev =
     bindS (read_route ad tag i) (\<lambda>v. snapshot_loop ad tag ids (dict_set i v prev))"

definition sorted_ids :: "string list \<Rightarrow> string list" where
  "sorted_ids ids = sort_by (key_le id) ids"

definition snapshot_routes :: "'w admin \<Rightarrow> string list \<Rightarrow> ('w, previous_routes) io" where
  "snapshot_routes ad ids = bindS (snapshot_loop ad for_id (sorted_ids ids) []) (\<lambda>prev.
     bindS (ad_save ad (JObj prev)) (\<lambda>_. returnS prev))"

definition previous_route :: "previous_routes \<Rightarrow> string \<Rightarrow> json" where
  "previous_route prev i = (case map_of prev i of None \<Rightarrow> JNull | Some v \<Rightarrow> v)"

definition put_back :: "'w admin \<Rightarrow> string \<Rightarrow> json \<Rightarrow> ('w, nat \<times> json) io" where
  "put_back ad i v = admin_route ad (if json_truthy v then ''PUT'' else ''DELETE'') i v"

text \<open>One route of a restoration: an exception and any other code count as a failure.\<close>

definition restore_one :: "'w admin \<Rightarrow> string \<Rightarrow> json \<Rightarrow> ('w, bool) io" where
  "restore_one ad i v = tryS (bindS (put_back ad i v) (\<lambda>(code, _). returnS (code \<in> {200, 201, 204, 404})))
     (\<lambda>_. returnS False)"

fun restore_loop :: "'w admin \<Rightarrow> previous_routes \<Rightarrow> string list \<Rightarrow> string list \<Rightarrow> ('w, string list) io" where
  "restore_loop ad prev [] failures = returnS failures"
| "restore_loop ad prev (i # ids) failures = bindS (restore_one ad i (previous_route prev i))
     (\<lambda>ok. restore_loop ad prev ids (if ok then failures else failures @ [i]))"

definition comma_join :: "string list \<Rightarrow> string" where
  "comma_join xs = (case xs of [] \<Rightarrow> [] | x # ys \<Rightarrow> x @ concat (map (\<lambda>y. '','' @ y) ys))"

definition restore_ids :: "'w admin \<Rightarrow> string list \<Rightarrow> previous_routes \<Rightarrow> ('w, unit) io" where
  "restore_ids ad ids prev = bindS (restore_loop ad prev (sorted_ids ids) []) (\<lambda>failures.
     if failures \<noteq> [] then raiseS (RuntimeError (''rollback incomplete: '' @ comma_join failures)) else returnS ())"

definition restore_routes :: "'w admin \<Rightarrow> previous_routes \<Rightarrow> ('w, unit) io" where
  "restore_routes ad prev = restore_ids ad (dict_keys prev) prev"

text \<open>\<open>try: body except BaseException: undo; raise\<close>\<close>

definition rolling_back :: "('w, 'a) io \<Rightarrow> ('w, unit) io \<Rightarrow> ('w, 'a) io" where
  "rolling_back body undo = tryS body (\<lambda>e. bindS undo (\<lambda>_. raiseS e))"

section \<open>Writing with readback\<close>

definition put_route :: "'w admin \<Rightarrow> (string \<Rightarrow> string) \<Rightarrow> route \<Rightarrow> ('w, unit) io" where
  "put_route ad tag r = bindS (liftS (route_id r)) (\<lambda>i.
     bindS (admin_route ad ''PUT'' i (JObj r)) (\<lambda>(code, _).
     if code \<notin> {200, 201} then raiseS (RuntimeError (''write HTTP '' @ nat_text code @ tag i))
     else bindS (admin_route ad ''GET'' i JNull) (\<lambda>(code', body).
       bindS (liftS (if code' = 200 then route_value body else Inr (JObj []))) (\<lambda>actual.
       if differs actual r then raiseS (RuntimeError (''route readback differs'' @ tag i)) else returnS ()))))"

section \<open>Internal machine-to-machine routes\<close>

definition required_plugins :: "string list" where
  "required_plugins = [''openid-connect'', ''serverless-pre-function'', ''serverless-post-function'', ''request-id'', ''limit-count'']"

definition check_plugin :: "json \<Rightarrow> string \<Rightarrow> unit \<Rightarrow> unit res" where
  "check_plugin plugins name u = bindE (jin name plugins) (\<lambda>ok. require ok (ValueError (''missing required plugin: '' @ name)))"

definition or_get :: "json \<Rightarrow> string \<Rightarrow> string \<Rightarrow> json res" where
  "or_get r k k' = bindE (jget r k JNull) (\<lambda>v. jget (or_object v) k' JNull)"

text \<open>One route of \<open>validate_routes\<close>, with the ids before it.\<close>

definition validate_route :: "json \<Rightarrow> string list \<Rightarrow> string list res" where
  "validate_route v ids =
     (case v of
        JObj r \<Rightarrow> (case map_of r ''id'' of
            Some (JStr i) \<Rightarrow>
              if \<not> word_of ''._-'' i then Inl (ValueError ''invalid route id'')
              else if i \<in> set ids then Inl (ValueError ''duplicate route id'')
              else bindE (or_get v ''labels'' ''ouf-managed'') (\<lambda>managed.
                bindE (if managed \<noteq> JStr ''true'' then Inr JNull else or_get v ''labels'' ''ouf-exposure'') (\<lambda>exposure.
                if managed \<noteq> JStr ''true'' \<or> exposure \<noteq> JStr ''internal''
                then Inl (ValueError ''route is not a governed internal materialization'')
                else if (case map_of r ''uri'' of Some (JStr u) \<Rightarrow> \<not> starts_with u ''/'' | _ \<Rightarrow> True)
                then Inl (ValueError ''invalid route uri'')
                else if (case map_of r ''methods'' of Some (JList ms) \<Rightarrow> length ms \<noteq> 1 | _ \<Rightarrow> True)
                then Inl (ValueError ''route must contain exactly one method'')
                else bindE (jget v ''plugins'' JNull) (\<lambda>plugins.
                  bindE (foldE (check_plugin (or_object plugins)) required_plugins ()) (\<lambda>_. Inr (ids @ [i])))))
          | _ \<Rightarrow> Inl (ValueError ''invalid route id''))
      | _ \<Rightarrow> Inl (ValueError ''route must be an object''))"

definition validate_routes :: "json \<Rightarrow> string list res" where
  "validate_routes routes =
     (case routes of
        JList vs \<Rightarrow> if vs = [] then Inl (ValueError ''materialization must contain routes'')
          else foldE validate_route vs []
      | _ \<Rightarrow> Inl (ValueError ''materialization must contain routes''))"

definition probe_path :: "string \<Rightarrow> string" where
  "probe_path uri = (if ends_with uri ''/*'' then butlast uri @ ''probe'' else uri)"

fun the_fields :: "json \<Rightarrow> route" where
  "the_fields (JObj r) = r"
| "the_fields _ = []"

definition route_uri :: "route \<Rightarrow> string" where
  "route_uri r = (case map_of r ''uri'' of Some (JStr u) \<Rightarrow> u | _ \<Rightarrow> [])"

definition first_method :: "route \<Rightarrow> string res" where
  "first_method r = (case map_of r ''methods'' of
     Some (JList (JStr m # _)) \<Rightarrow> Inr m | _ \<Rightarrow> Inl (TypeError ''expected str''))"

definition anonymous_denied :: "'w admin \<Rightarrow> (route \<Rightarrow> json res) option \<Rightarrow> route \<Rightarrow> ('w, unit) io" where
  "anonymous_denied ad probe r =
     bindS (liftS (case probe of None \<Rightarrow> Inr JNull | Some f \<Rightarrow> f r)) (\<lambda>data.
     bindS (liftS (first_method r)) (\<lambda>verb.
     bindS (ad_curl ad False (probe_path (route_uri r)) verb data) (\<lambda>(code, _).
     if code \<in> {401, 403} then returnS ()
     else bindS (liftS (route_id r)) (\<lambda>i.
       raiseS (RuntimeError (''anonymous protected route HTTP '' @ nat_text code @ for_id i))))))"

definition apply_internal :: "'w admin \<Rightarrow> (route \<Rightarrow> json res) option \<Rightarrow> json \<Rightarrow> ('w, unit) io" where
  "apply_internal ad probe doc =
     bindS (liftS (validate_routes doc)) (\<lambda>ids.
     bindS (snapshot_routes ad ids) (\<lambda>prev.
     let routes = (case doc of JList vs \<Rightarrow> map the_fields vs | _ \<Rightarrow> []) in
     rolling_back
       (bindS (forS (put_route ad for_id) routes) (\<lambda>_. forS (anonymous_denied ad probe) routes))
       (restore_routes ad prev)))"

text \<open>What the command line asks for: a parsed materialisation, or a parsed snapshot.\<close>

datatype deploy_mode = Materialize json | Restore json

definition snapshot_named :: "(string list \<Rightarrow> bool) \<Rightarrow> json \<Rightarrow> string \<Rightarrow> previous_routes res" where
  "snapshot_named ok doc msg =
     (case doc of JObj prev \<Rightarrow> if ok (dict_keys prev) then Inr prev else Inl (ValueError msg)
      | _ \<Rightarrow> Inl (ValueError msg))"

definition snapshot_exactly :: "string list \<Rightarrow> json \<Rightarrow> string \<Rightarrow> previous_routes res" where
  "snapshot_exactly ids doc msg =
     bindE (jelements doc) (\<lambda>vs. bindE (jset vs) (\<lambda>s.
       if s \<noteq> JStr ` set ids then Inl (ValueError msg)
       else (case doc of JObj prev \<Rightarrow> Inr prev | _ \<Rightarrow> Inl (TypeError ''object has no attribute get''))))"

definition internal_main :: "'w admin \<Rightarrow> deploy_mode \<Rightarrow> ('w, unit) io" where
  "internal_main ad mode =
     (case mode of
        Restore doc \<Rightarrow>
          bindS (liftS (snapshot_named (\<lambda>ids. ids \<noteq> []) doc ''invalid route snapshot'')) (\<lambda>prev.
          if \<not> list_all (word_of ''._-'') (dict_keys prev) then raiseS (ValueError ''invalid route id in snapshot'')
          else restore_routes ad prev)
      | Materialize doc \<Rightarrow>
          bindS (liftS (jget doc ''routes'' JNull)) (\<lambda>routes.
          bindS (liftS (validate_routes routes)) (\<lambda>_. apply_internal ad None routes)))"

end
