(* ===== verification/Route_Deploy_Safety.thy ===== *)
theory Route_Deploy_Safety
  imports Route_Deploy
begin

text \<open>
  What a deployment guarantees against an Admin API that keeps its documented contract
  (\<open>faithful_admin\<close>): the routes it names end up as written and read back, or as they were before, or
  the report names the routes that could not be restored; no other route is touched.
\<close>

section \<open>The contract of the Admin API\<close>

text \<open>
  \<open>view w i\<close> is the route stored under \<open>i\<close> in the world \<open>w\<close>, and \<open>fill\<close> adds the server's defaults. A
  GET changes nothing and tells the stored route; a write touches only its own id, and either stores
  or does not when its answer is an error or is lost; requests on the public port and the snapshot
  file do not touch the routes. A PUT is not answered with 204 or 404.
\<close>

type_synonym 'w route_view = "'w \<Rightarrow> string \<Rightarrow> route option"

definition reads_route :: "'w admin \<Rightarrow> 'w route_view \<Rightarrow> bool" where
  "reads_route ad view \<longleftrightarrow> (\<forall>i d w r w'. ad_curl ad True (admin_path i) ''GET'' d w = (r, w') \<longrightarrow>
     view w' = view w \<and> (\<forall>code body. r = Inr (code, body) \<longrightarrow>
       (code = 200 \<longrightarrow> (\<exists>kvs. view w i = Some kvs \<and> route_value body = Inr (JObj kvs)))
       \<and> (code = 404 \<longrightarrow> view w i = None)))"

definition puts_route :: "'w admin \<Rightarrow> 'w route_view \<Rightarrow> (route \<Rightarrow> route) \<Rightarrow> bool" where
  "puts_route ad view fill \<longleftrightarrow> (\<forall>i kvs w r w'. ad_curl ad True (admin_path i) ''PUT'' (JObj kvs) w = (r, w') \<longrightarrow>
     (view w' = view w \<or> view w' = (view w)(i \<mapsto> fill kvs))
     \<and> (\<forall>code body. r = Inr (code, body) \<longrightarrow> code \<notin> {204, 404} \<and> (code \<in> {200, 201} \<longrightarrow> view w' i = Some (fill kvs))))"

definition deletes_route :: "'w admin \<Rightarrow> 'w route_view \<Rightarrow> bool" where
  "deletes_route ad view \<longleftrightarrow> (\<forall>i d w r w'. ad_curl ad True (admin_path i) ''DELETE'' d w = (r, w') \<longrightarrow>
     (view w' = view w \<or> view w' = (view w)(i := None))
     \<and> (\<forall>code body. r = Inr (code, body) \<longrightarrow> code \<in> {200, 201, 204, 404} \<longrightarrow> view w' i = None))"

definition faithful_admin :: "'w admin \<Rightarrow> 'w route_view \<Rightarrow> (route \<Rightarrow> route) \<Rightarrow> bool" where
  "faithful_admin ad view fill \<longleftrightarrow> reads_route ad view \<and> puts_route ad view fill \<and> deletes_route ad view
     \<and> (\<forall>p m d. keeps view (ad_curl ad False p m d)) \<and> (\<forall>p d. keeps view (ad_curl ad True p ''GET'' d))
     \<and> (\<forall>d. keeps view (ad_save ad d))
     \<and> (\<forall>r. fill (fill r) = fill r \<and> fill r \<noteq> [])"

text \<open>Every stored route is one the server has filled.\<close>

definition filled :: "'w route_view \<Rightarrow> (route \<Rightarrow> route) \<Rightarrow> 'w \<Rightarrow> bool" where
  "filled view fill w \<longleftrightarrow> (\<forall>i r. view w i = Some r \<longrightarrow> fill r = r \<and> r \<noteq> [])"

text \<open>The routes outside a set of ids.\<close>

definition outside :: "'w route_view \<Rightarrow> string set \<Rightarrow> 'w \<Rightarrow> string \<Rightarrow> route option" where
  "outside view ids w = (\<lambda>i. if i \<in> ids then None else view w i)"

lemma keeps_view_outside: "keeps view m \<Longrightarrow> keeps (outside view ids) m"
  by (auto simp: keeps_def outside_def)

lemma outsideD: "outside view ids w' = outside view ids w \<Longrightarrow> i \<notin> ids \<Longrightarrow> view w' i = view w i"
  by (metis outside_def)

lemma keeps_outside_mono: "keeps (outside view ids) m \<Longrightarrow> ids \<subseteq> ids' \<Longrightarrow> keeps (outside view ids') m"
  unfolding keeps_def outside_def fun_eq_iff by (metis subsetD)

lemma keeps_preserves_filled: "keeps view m \<Longrightarrow> preserves (filled view fill) m"
  by (simp add: keeps_def preserves_def filled_def)

lemma bindS_lift:
  "bindS (liftS (Inr x)) f = f x" "bindS (liftS (Inl e)) f = raiseS e" "bindS (returnS x) f = f x"
  by (rule ext, simp add: io_defs)+

lemma preserves_forS [preserves_intros]:
  "(\<And>x. x \<in> set xs \<Longrightarrow> preserves I (g x)) \<Longrightarrow> preserves I (forS g xs)"
  by (induction xs) (simp_all add: preserves_intros)

lemma jlist_case_Inr:
  "(case v of JList xs \<Rightarrow> f xs | _ \<Rightarrow> Inl e) = Inr y \<longleftrightarrow> (\<exists>xs. v = JList xs \<and> f xs = Inr y)"
  by (cases v) auto

section \<open>One request\<close>

lemma admin_get:
  assumes "faithful_admin ad view fill"
  shows "keeps view (admin_route ad ''GET'' i d)"
  using assms unfolding faithful_admin_def reads_route_def admin_route_def by (intro keepsI) blast

lemma admin_write_outside:
  assumes "faithful_admin ad view fill" and "i \<in> ids"
  shows "keeps (outside view ids) (admin_route ad ''PUT'' i (JObj r))"
    and "keeps (outside view ids) (admin_route ad ''DELETE'' i d)"
  using assms unfolding faithful_admin_def puts_route_def deletes_route_def admin_route_def
  by (intro keepsI; fastforce simp: outside_def)+

lemma admin_write_filled:
  assumes "faithful_admin ad view fill"
  shows "preserves (filled view fill) (admin_route ad ''PUT'' i (JObj r))"
    and "preserves (filled view fill) (admin_route ad ''DELETE'' i d)"
  using assms unfolding faithful_admin_def puts_route_def deletes_route_def admin_route_def
  by (intro preservesI; fastforce simp: filled_def split: if_splits)+

section \<open>Snapshot\<close>

text \<open>The snapshot tells every route of the ids that were read.\<close>

definition tells :: "(string \<Rightarrow> route option) \<Rightarrow> previous_routes \<Rightarrow> string set \<Rightarrow> bool" where
  "tells stored prev ids \<longleftrightarrow> (\<forall>i \<in> ids. map_of prev i = Some (case stored i of None \<Rightarrow> JNull | Some r \<Rightarrow> JObj r))"

lemma read_route_view: "faithful_admin ad view fill \<Longrightarrow> keeps view (read_route ad tag i)"
  unfolding read_route_def
  by (rule keeps_bindS [OF admin_get]) (auto split: prod.splits intro!: keeps_intros)

lemma read_route_value:
  assumes "faithful_admin ad view fill" and "read_route ad tag i w = (Inr v, w')"
  shows "v = (case view w i of None \<Rightarrow> JNull | Some r \<Rightarrow> JObj r)"
proof -
  obtain code body w1 where g: "admin_route ad ''GET'' i JNull w = (Inr (code, body), w1)" "code \<in> {200, 404}"
    "(if code = 200 then route_value body else Inr JNull) = Inr v"
    using assms(2) by (auto simp: read_route_def bindS_Inr raiseS_def liftS_def split: if_splits)
  then show ?thesis
    using assms(1) unfolding faithful_admin_def reads_route_def admin_route_def by fastforce
qed

lemma snapshot_loop_view: "faithful_admin ad view fill \<Longrightarrow> keeps view (snapshot_loop ad tag ids prev)"
  by (induction ids arbitrary: prev) (auto intro!: keeps_intros read_route_view)

lemma snapshot_loop_tells:
  assumes "faithful_admin ad view fill" and "snapshot_loop ad tag ids prev w = (Inr prev', w')" and "tells (view w) prev done'"
  shows "tells (view w) prev' (done' \<union> set ids) \<and> set (dict_keys prev') = set (dict_keys prev) \<union> set ids"
  using assms(2,3)
proof (induction ids arbitrary: prev w done')
  case Nil
  then show ?case by (simp add: returnS_def)
next
  case (Cons i ids)
  then obtain v w1 where v: "read_route ad tag i w = (Inr v, w1)"
    and rest: "snapshot_loop ad tag ids (dict_set i v prev) w1 = (Inr prev', w')"
    by (auto simp: bindS_Inr)
  have same: "view w1 = view w" using keepsD [OF read_route_view [OF assms(1)] v] .
  have "tells (view w1) (dict_set i v prev) (insert i done')"
    using Cons.prems(2) read_route_value [OF assms(1) v] unfolding same by (auto simp: tells_def dict_simps)
  from Cons.IH [OF rest this] show ?case unfolding same by (auto simp: dict_set_keys)
qed

lemma snapshot_routes_view: "faithful_admin ad view fill \<Longrightarrow> keeps view (snapshot_routes ad ids)"
  unfolding snapshot_routes_def
  by (rule keeps_bindS [OF snapshot_loop_view]) (assumption, intro keeps_intros, simp add: faithful_admin_def)

lemma snapshot_routes_tells:
  assumes "faithful_admin ad view fill" and "snapshot_routes ad ids w = (Inr prev, w')"
  shows "tells (view w) prev (set ids) \<and> set (dict_keys prev) = set ids"
proof -
  from assms(2) obtain w1 where "snapshot_loop ad for_id (sorted_ids ids) [] w = (Inr prev, w1)"
    by (auto simp: snapshot_routes_def bindS_Inr returnS_def)
  from snapshot_loop_tells [OF assms(1) this, of "{}"] show ?thesis
    by (simp add: tells_def sorted_ids_def dict_keys_def)
qed

section \<open>Restore\<close>

lemma restore_one_outside:
  assumes "faithful_admin ad view fill" and "i \<in> ids" and "v = JNull \<or> (\<exists>r. v = JObj r)"
  shows "keeps (outside view ids) (restore_one ad i v)"
proof -
  have "keeps (outside view ids) (put_back ad i v)"
    using assms(3) admin_write_outside [OF assms(1,2)] by (auto simp: put_back_def)
  then show ?thesis
    unfolding restore_one_def by (intro keeps_intros) (auto split: prod.splits intro: keeps_intros)
qed

lemma restore_one_restores:
  assumes "faithful_admin ad view fill" and "restore_one ad i v w = (Inr True, w')"
    and "v = (case old of None \<Rightarrow> JNull | Some r \<Rightarrow> JObj r)" and "\<And>r. old = Some r \<Longrightarrow> fill r = r \<and> r \<noteq> []"
  shows "view w' i = old"
proof -
  obtain code body where run: "put_back ad i v w = (Inr (code, body), w')" "code \<in> {200, 201, 204, 404}"
    using assms(2) by (auto simp: restore_one_def tryS_Inr bindS_Inr returnS_def)
  show ?thesis
  proof (cases old)
    case None
    with run assms(1,3) show ?thesis
      unfolding faithful_admin_def deletes_route_def put_back_def admin_route_def by fastforce
  next
    case (Some r)
    with assms(4) run assms(3) have "ad_curl ad True (admin_path i) ''PUT'' (JObj r) w = (Inr (code, body), w')"
      by (simp add: put_back_def admin_route_def)
    moreover have "puts_route ad view fill" using assms(1) by (simp add: faithful_admin_def)
    ultimately have "code \<notin> {204, 404}" "code \<in> {200, 201} \<Longrightarrow> view w' i = Some (fill r)"
      unfolding puts_route_def by blast+
    with run(2) Some assms(4) show ?thesis by auto
  qed
qed

lemma restore_one_total: "\<exists>b w'. restore_one ad i v w = (Inr b, w')"
  by (auto simp: restore_one_def tryS_def returnS_def bindS_def split: prod.splits sum.splits)

text \<open>A restoration of told routes: what it does not report as a failure is as it was.\<close>

lemma restore_loop_restores:
  assumes admin: "faithful_admin ad view fill" and told: "tells old prev (set ids)"
    and ok: "\<forall>i r. old i = Some r \<longrightarrow> fill r = r \<and> r \<noteq> []"
    and run: "restore_loop ad prev ids failures w = (r, w')"
  shows "\<exists>failures'. r = Inr failures' \<and> set failures \<subseteq> set failures' \<and> (\<forall>i. i \<notin> set ids \<longrightarrow> view w' i = view w i)
     \<and> (\<forall>i \<in> set ids. i \<in> set failures' \<or> view w' i = old i)"
  using told run
proof (induction ids arbitrary: failures w)
  case Nil
  then show ?case by (auto simp: returnS_def)
next
  case (Cons i ids)
  let ?v = "previous_route prev i"
  have v: "?v = (case old i of None \<Rightarrow> JNull | Some r \<Rightarrow> JObj r)"
    using Cons.prems(1) by (simp add: tells_def previous_route_def)
  obtain b w1 where one: "restore_one ad i ?v w = (Inr b, w1)"
    using restore_one_total [of ad i ?v w] by metis
  with Cons.prems(2) have rest: "restore_loop ad prev ids (if b then failures else failures @ [i]) w1 = (r, w')"
    by (simp add: bindS_def)
  have "?v = JNull \<or> (\<exists>r. ?v = JObj r)" using v by (cases "old i") simp_all
  then have "keeps (outside view {i}) (restore_one ad i ?v)"
    by (intro restore_one_outside [OF admin]) simp_all
  from keepsD [OF this one] have others: "view w1 j = view w j" if "j \<noteq> i" for j
    using outsideD that by (metis singletonD)
  have here: "view w1 i = old i" if "b"
    using restore_one_restores [OF admin _ v ok [rule_format]] one that by simp
  from Cons.IH [OF _ rest] Cons.prems(1) obtain failures' where
    f: "r = Inr failures'" "set (if b then failures else failures @ [i]) \<subseteq> set failures'"
    "\<forall>j. j \<notin> set ids \<longrightarrow> view w' j = view w1 j" "\<forall>j \<in> set ids. j \<in> set failures' \<or> view w' j = old j"
    by (auto simp: tells_def)
  have "i \<in> set failures' \<or> view w' i = old i"
    using f(2,3,4) here by (cases "i \<in> set ids"; cases b) auto
  moreover have "set failures \<subseteq> set failures'" using f(2) by (auto split: if_splits)
  ultimately show ?case using f others by auto
qed

definition rollback_reported :: "string list \<Rightarrow> py_exn \<Rightarrow> bool" where
  "rollback_reported failures e \<longleftrightarrow> failures \<noteq> []
     \<and> e \<in> {RuntimeError (''rollback incomplete: '' @ comma_join failures),
            RuntimeError (''rollback incomplete; use saved snapshot for: '' @ comma_join failures)}"

lemma restore_ids_restores:
  assumes "faithful_admin ad view fill" and "tells old prev (set ids)"
    and "\<forall>i r. old i = Some r \<longrightarrow> fill r = r \<and> r \<noteq> []" and "restore_ids ad ids prev w = (r, w')"
  shows "\<exists>failures. (r = Inr () \<and> failures = [] \<or> (\<exists>e. r = Inl e \<and> rollback_reported failures e))
     \<and> (\<forall>i. i \<notin> set ids \<longrightarrow> view w' i = view w i) \<and> (\<forall>i \<in> set ids. i \<in> set failures \<or> view w' i = old i)"
proof -
  have set: "set (sorted_ids ids) = set ids" by (simp add: sorted_ids_def)
  obtain r1 w1 where loop: "restore_loop ad prev (sorted_ids ids) [] w = (r1, w1)"
    by (cases "restore_loop ad prev (sorted_ids ids) [] w")
  have told: "tells old prev (set (sorted_ids ids))" using assms(2) by (simp add: set)
  from restore_loop_restores [OF assms(1) told assms(3) loop] obtain failures where
    f: "r1 = Inr failures" "\<forall>i. i \<notin> set ids \<longrightarrow> view w1 i = view w i"
      "\<forall>i \<in> set ids. i \<in> set failures \<or> view w1 i = old i"
    unfolding set by blast
  with assms(4) loop have "(r, w') = (if failures \<noteq> []
      then (Inl (RuntimeError (''rollback incomplete: '' @ comma_join failures)), w1) else (Inr (), w1))"
    by (simp add: restore_ids_def bindS_def returnS_def raiseS_def split: if_splits)
  with f show ?thesis
    by (intro exI [of _ failures]) (auto simp: rollback_reported_def split: if_splits)
qed

section \<open>A deployment that rolls back\<close>

text \<open>
  The outcome of a deployment on a set of ids: when it fails, every route is as it was, or it is one of
  the routes that the failed rollback reports; no route outside the ids changes either way.
\<close>

definition deployed :: "'w route_view \<Rightarrow> string set \<Rightarrow> 'w \<Rightarrow> 'a res \<Rightarrow> 'w \<Rightarrow> bool" where
  "deployed view ids w r w' \<longleftrightarrow> (\<forall>i. i \<notin> ids \<longrightarrow> view w' i = view w i)
     \<and> (\<forall>e. r = Inl e \<longrightarrow> (\<exists>failures. (failures = [] \<or> rollback_reported failures e)
          \<and> (\<forall>i. i \<notin> set failures \<longrightarrow> view w' i = view w i)))"

lemma deployed_unchanged: "view w' = view w \<Longrightarrow> deployed view ids w r w'"
  by (auto simp: deployed_def)

lemma rolling_back_deployed:
  assumes admin: "faithful_admin ad view fill" and "filled view fill w" and "tells (view w) prev (set ids)"
    and body: "keeps (outside view (set ids)) body"
    and run: "rolling_back body (restore_ids ad ids prev) w = (r, w')"
  shows "deployed view (set ids) w r w' \<and> (\<forall>x. r = Inr x \<longrightarrow> body w = (Inr x, w'))"
proof -
  obtain rb w1 where b: "body w = (rb, w1)" by (cases "body w")
  have out: "i \<notin> set ids \<Longrightarrow> view w1 i = view w i" for i using outsideD [OF keepsD [OF body b]] .
  show ?thesis
  proof (cases rb)
    case (Inr x)
    with run b out show ?thesis by (auto simp: rolling_back_def tryS_def deployed_def)
  next
    case (Inl e)
    obtain r2 w2 where u: "restore_ids ad ids prev w1 = (r2, w2)" by (cases "restore_ids ad ids prev w1")
    have old: "\<forall>i x. view w i = Some x \<longrightarrow> fill x = x \<and> x \<noteq> []" using assms(2) by (simp add: filled_def)
    from restore_ids_restores [OF admin assms(3) old u] obtain failures where
      f: "r2 = Inr () \<and> failures = [] \<or> (\<exists>e. r2 = Inl e \<and> rollback_reported failures e)"
      "\<forall>i. i \<notin> set ids \<longrightarrow> view w2 i = view w1 i" "\<forall>i \<in> set ids. i \<in> set failures \<or> view w2 i = view w i"
      by blast
    have res: "w' = w2 \<and> (r = Inl e \<and> r2 = Inr () \<or> (\<exists>e'. r = Inl e' \<and> r2 = Inl e'))"
      using run b Inl u by (auto simp: rolling_back_def tryS_def bindS_def raiseS_def split: sum.splits)
    have "\<forall>i. i \<notin> set failures \<longrightarrow> view w' i = view w i" using f(2,3) out res by metis
    then show ?thesis
      using f(1,2) out res unfolding deployed_def
      by (intro conjI allI impI; (rule exI [of _ failures])?) auto
  qed
qed

text \<open>Snapshot first, then a body that touches only the ids, restored from the snapshot when it fails.\<close>

lemma guarded_deployed:
  assumes admin: "faithful_admin ad view fill" and w: "filled view fill w"
    and body: "\<And>prev. keeps (outside view (set ids)) (body prev)"
    and undo: "\<And>prev. set (dict_keys prev) = set ids \<Longrightarrow> \<exists>is. undo prev = restore_ids ad is prev \<and> set is = set ids"
    and run: "bindS (snapshot_routes ad ids) (\<lambda>prev. rolling_back (body prev) (undo prev)) w = (r, w')"
  shows "deployed view (set ids) w r w' \<and> (\<forall>x. r = Inr x \<longrightarrow>
     (\<exists>prev w1. view w1 = view w \<and> tells (view w) prev (set ids) \<and> body prev w1 = (Inr x, w')))"
proof -
  obtain s w1 where snap: "snapshot_routes ad ids w = (s, w1)" by (cases "snapshot_routes ad ids w")
  have same: "view w1 = view w" using keepsD [OF snapshot_routes_view [OF admin] snap] .
  show ?thesis
  proof (cases s)
    case (Inl e)
    with run snap same show ?thesis by (auto simp: bindS_def intro: deployed_unchanged)
  next
    case (Inr prev)
    have told: "tells (view w) prev (set ids)" "set (dict_keys prev) = set ids"
      using snapshot_routes_tells [OF admin] snap Inr by blast+
    obtain "is" where u: "undo prev = restore_ids ad is prev" "set is = set ids" using undo [OF told(2)] by blast
    have rest: "rolling_back (body prev) (restore_ids ad is prev) w1 = (r, w')"
      using run snap Inr u(1) by (simp add: bindS_def)
    have "filled view fill w1" using w same by (simp add: filled_def)
    moreover have "tells (view w1) prev (set is)" using told(1) same u(2) by simp
    moreover have "keeps (outside view (set is)) (body prev)" using body u(2) by simp
    ultimately have dep: "deployed view (set is) w1 r w'" and ok: "\<forall>x. r = Inr x \<longrightarrow> body prev w1 = (Inr x, w')"
      using rolling_back_deployed [OF admin _ _ _ rest] by blast+
    have "deployed view (set ids) w r w'" using dep same u(2) by (simp add: deployed_def)
    then show ?thesis using ok same told(1) by blast
  qed
qed

lemma restore_routes_undo:
  "set (dict_keys prev) = set ids \<Longrightarrow> \<exists>is. restore_routes ad prev = restore_ids ad is prev \<and> set is = set ids"
  unfolding restore_routes_def by blast

section \<open>Writing routes\<close>

text \<open>The route is stored, and every field it asks for is there.\<close>

definition holds :: "'w route_view \<Rightarrow> 'w \<Rightarrow> route \<Rightarrow> bool" where
  "holds view w r \<longleftrightarrow> (\<exists>i kvs. route_id r = Inr i \<and> view w i = Some kvs \<and> \<not> differs (JObj kvs) r)"

lemma holds_view: "view w' = view w \<Longrightarrow> holds view w' r = holds view w r"
  by (simp add: holds_def)

lemma put_route_outside:
  assumes "faithful_admin ad view fill" and "\<And>i. route_id r = Inr i \<Longrightarrow> i \<in> ids"
  shows "keeps (outside view ids) (put_route ad tag r)"
proof (cases "route_id r")
  case (Inl e)
  then show ?thesis by (simp add: put_route_def keeps_def io_defs)
next
  case (Inr i)
  then have "keeps (outside view ids) (admin_route ad ''PUT'' i (JObj r))"
    using admin_write_outside(1) [OF assms(1)] assms(2) by blast
  moreover have "keeps (outside view ids) (admin_route ad ''GET'' i JNull)"
    using admin_get [OF assms(1)] by (rule keeps_view_outside)
  ultimately have "keeps (outside view ids) (bindS (admin_route ad ''PUT'' i (JObj r)) (\<lambda>(code, _).
      if code \<notin> {200, 201} then raiseS (RuntimeError (''write HTTP '' @ nat_text code @ tag i))
      else bindS (admin_route ad ''GET'' i JNull) (\<lambda>(code', body).
        bindS (liftS (if code' = 200 then route_value body else Inr (JObj []))) (\<lambda>actual.
        if differs actual r then raiseS (RuntimeError (''route readback differs'' @ tag i)) else returnS ()))))"
    by (auto split: prod.splits intro!: keeps_intros)
  then show ?thesis by (simp add: put_route_def Inr liftS_def bindS_def)
qed

lemma empty_differs: "route_id r = Inr i \<Longrightarrow> differs (JObj []) r"
  unfolding route_id_def differs_def list_ex_iff
  by (auto split: option.splits json.splits dest!: map_of_SomeD simp: json_eq_def intro!: bexI)

lemma put_route_holds:
  assumes "faithful_admin ad view fill" and "put_route ad tag r w = (Inr (), w')"
  shows "holds view w' r"
proof -
  obtain i code body w1 where i: "route_id r = Inr i" and g: "admin_route ad ''GET'' i JNull w1 = (Inr (code, body), w')"
    and ok: "\<exists>actual. (if code = 200 then route_value body else Inr (JObj [])) = Inr actual \<and> \<not> differs actual r"
    using assms(2) by (auto simp: put_route_def bindS_Inr liftS_def raiseS_def returnS_def split: if_splits prod.splits)
  from i have "code = 200" using ok empty_differs by (auto split: if_splits)
  moreover from this g assms(1) obtain kvs where "view w1 i = Some kvs" "route_value body = Inr (JObj kvs)" "view w' = view w1"
    unfolding faithful_admin_def reads_route_def admin_route_def by blast
  ultimately show ?thesis using i ok by (auto simp: holds_def)
qed

text \<open>Steps that each make their route hold and touch only its id: at the end every id holds a route of the list.\<close>

lemma forS_hold:
  assumes hold: "\<And>x w w'. x \<in> set rs \<Longrightarrow> f x w = (Inr (), w') \<Longrightarrow> holds view w' x"
    and frame: "\<And>x ids. x \<in> set rs \<Longrightarrow> (\<And>i. route_id x = Inr i \<Longrightarrow> i \<in> ids) \<Longrightarrow> keeps (outside view ids) (f x)"
    and run: "forS f rs w = (Inr (), w')" and r: "r \<in> set rs"
  shows "\<exists>r' \<in> set rs. route_id r' = route_id r \<and> holds view w' r'"
  using assms
proof (induction rs arbitrary: w r)
  case Nil
  then show ?case by simp
next
  case (Cons x rs)
  from Cons.prems(3) obtain w1 where one: "f x w = (Inr (), w1)"
    and rest: "forS f rs w1 = (Inr (), w')" by (auto simp: bindS_Inr)
  show ?case
  proof (cases "\<exists>y \<in> set rs. route_id y = route_id r")
    case True
    then obtain y where y: "y \<in> set rs" "route_id y = route_id r" by blast
    have "\<exists>r' \<in> set rs. route_id r' = route_id y \<and> holds view w' r'"
      using Cons.prems(1,2) by (intro Cons.IH [OF _ _ rest y(1)]) (auto intro: list.set_intros)
    with y show ?thesis by auto
  next
    case False
    with Cons.prems(4) have "r = x" by auto
    have x: "holds view w1 x" using Cons.prems(1) [OF _ one] by simp
    then obtain i where i: "route_id x = Inr i" by (auto simp: holds_def)
    have "keeps (outside view {j. j \<noteq> i}) (forS f rs)"
      using False \<open>r = x\<close> i by (intro keeps_forS Cons.prems(2)) auto
    from keepsD [OF this rest] have "view w' i = view w1 i" using outsideD by fastforce
    with x i \<open>r = x\<close> show ?thesis by (auto simp: holds_def)
  qed
qed

lemma put_routes_hold:
  assumes "faithful_admin ad view fill" and "forS (put_route ad tag) rs w = (Inr (), w')" and "r \<in> set rs"
  shows "\<exists>r' \<in> set rs. route_id r' = route_id r \<and> holds view w' r'"
  using put_route_holds [OF assms(1)] put_route_outside [OF assms(1)] by (rule forS_hold [OF _ _ assms(2,3)])

lemma denied_view: "faithful_admin ad view fill \<Longrightarrow> keeps view (anonymous_denied ad probe r)"
  unfolding anonymous_denied_def
  by (intro keeps_intros) (auto simp: faithful_admin_def split: prod.splits intro!: keeps_intros)

section \<open>Validation\<close>

lemma foldE_ids:
  assumes "foldE validate_route vs ids = Inr ids'" and "distinct ids"
  shows "distinct ids' \<and> (\<exists>new. ids' = ids @ new \<and> map (\<lambda>v. route_id (the_fields v)) vs = map Inr new)"
  using assms
proof (induction vs arbitrary: ids)
  case Nil
  then show ?case by simp
next
  case (Cons v vs)
  then obtain m where m: "validate_route v ids = Inr m" "foldE validate_route vs m = Inr ids'"
    by (auto simp: result_simps)
  obtain i where i: "m = ids @ [i]" "i \<notin> set ids" "route_id (the_fields v) = Inr i"
    using m(1) by (auto simp: validate_route_def bindE_Inr_iff route_id_def split: json.splits option.splits if_splits)
  have "distinct m" using i Cons.prems(2) by simp
  from Cons.IH [OF m(2) this] i show ?case by auto
qed

lemma validated_ids:
  assumes "validate_routes doc = Inr ids"
  obtains vs where "doc = JList vs" "distinct ids" "map (\<lambda>v. route_id (the_fields v)) vs = map Inr ids" "ids \<noteq> []"
proof -
  from assms obtain vs where vs: "doc = JList vs" "vs \<noteq> []" "foldE validate_route vs [] = Inr ids"
    by (auto simp: validate_routes_def split: json.splits if_splits)
  from foldE_ids [OF vs(3)] have "distinct ids" "map (\<lambda>v. route_id (the_fields v)) vs = map Inr ids" by auto
  with vs show thesis by (intro that) auto
qed

lemma validated_words:
  assumes "validate_routes doc = Inr ids"
  shows "list_all (word_of ''._-'') ids"
proof -
  have step: "list_all (word_of ''._-'') m" if "validate_route v ids = Inr m" "list_all (word_of ''._-'') ids" for v ids m
    using that by (auto simp: validate_route_def bindE_Inr_iff split: json.splits option.splits if_splits)
  have "list_all (word_of ''._-'') ids'" if "foldE validate_route vs ids = Inr ids'" "list_all (word_of ''._-'') ids" for vs ids ids'
    using that by (induction vs arbitrary: ids) (auto simp: result_simps intro: step)
  then show ?thesis using assms by (auto simp: validate_routes_def split: json.splits if_splits)
qed

text \<open>
  C12. Deploying internal routes against a faithful Admin API is atomic: success means that every route
  of the materialisation is stored with all its fields; a failure leaves every route as it was, except
  the ones that the failed rollback names; and in both cases no other route is touched.
\<close>

theorem internal_deploy_is_atomic:
  assumes "faithful_admin ad view fill" and "filled view fill w" and "apply_internal ad probe doc w = (r, w')"
  shows "(\<exists>ids. (validate_routes doc = Inr ids \<or> ids = []) \<and> deployed view (set ids) w r w')
     \<and> (r = Inr () \<longrightarrow> (\<exists>vs. doc = JList vs \<and> vs \<noteq> [] \<and> (\<forall>v \<in> set vs. holds view w' (the_fields v))))"
proof (cases "validate_routes doc")
  case (Inl e)
  with assms(3) have "r = Inl e" "w' = w" by (simp_all add: apply_internal_def io_defs)
  then show ?thesis by (intro conjI exI [of _ "[]"]) (auto intro: deployed_unchanged)
next
  case (Inr ids)
  then obtain vs where vs: "doc = JList vs" "distinct ids" "map (\<lambda>v. route_id (the_fields v)) vs = map Inr ids" "ids \<noteq> []"
    by (rule validated_ids)
  let ?rs = "map the_fields vs"
  let ?body = "bindS (forS (put_route ad for_id) ?rs) (\<lambda>_. forS (anonymous_denied ad probe) ?rs)"
  have ids: "i \<in> set ids" if "x \<in> set ?rs" "route_id x = Inr i" for x i
    using that vs(3) by (metis (no_types, lifting) Inr_inject image_iff list.map_comp list.set_map o_apply)
  have body: "keeps (outside view (set ids)) ?body"
    using ids denied_view [OF assms(1)]
    by (intro keeps_bindS keeps_forS put_route_outside [OF assms(1)] keeps_view_outside)
  have run: "bindS (snapshot_routes ad ids) (\<lambda>prev. rolling_back ?body (restore_routes ad prev)) w = (r, w')"
    using assms(3) Inr vs(1) by (simp add: apply_internal_def bindS_def liftS_def Let_def)
  from guarded_deployed [OF assms(1,2) body restore_routes_undo run] have
    dep: "deployed view (set ids) w r w'" and ok: "\<And>x. r = Inr x \<Longrightarrow> \<exists>w1. ?body w1 = (Inr x, w')" by blast+
  have "holds view w' x" if fin: "r = Inr ()" and x: "x \<in> set ?rs" for x
  proof -
    obtain w1 w2 where p: "forS (put_route ad for_id) ?rs w1 = (Inr (), w2)"
      "forS (anonymous_denied ad probe) ?rs w2 = (Inr (), w')"
      using ok [OF fin] by (auto simp: bindS_Inr)
    obtain r' where r': "r' \<in> set ?rs" "route_id r' = route_id x" "holds view w2 r'"
      using put_routes_hold [OF assms(1) p(1) x] by blast
    have "distinct (map route_id ?rs)" using vs(2,3) by (simp add: distinct_map comp_def)
    with r'(1,2) x have "r' = x" by (metis distinct_map inj_onD)
    moreover have "view w' = view w2"
      using keepsD [OF keeps_forS p(2)] denied_view [OF assms(1)] by blast
    ultimately show ?thesis using r'(3) holds_view by metis
  qed
  moreover have "vs \<noteq> []" using vs(3,4) by auto
  ultimately show ?thesis using dep Inr vs(1) by (intro conjI exI [of _ ids]) auto
qed


section \<open>An Admin API in memory\<close>

text \<open>The contract can be kept: a table of routes whose server adds a status and strips its own fields.\<close>

definition stored_fill :: "route \<Rightarrow> route" where
  "stored_fill r = (''status'', JInt 1) # filter (\<lambda>(k, _). k \<notin> {''create_time'', ''update_time'', ''value'', ''status''}) r"

type_synonym table = "string \<Rightarrow> route option"

definition memory_view :: "table \<Rightarrow> string \<Rightarrow> route option" where
  "memory_view w i = map_option stored_fill (w i)"

fun memory_curl :: "bool \<Rightarrow> string \<Rightarrow> string \<Rightarrow> json \<Rightarrow> (table, nat \<times> json) io" where
  "memory_curl False path verb d w = (Inr (401, JObj []), w)"
| "memory_curl True path verb d w =
     (let i = drop (length (admin_path [])) path in
      if verb = ''GET'' then (case w i of None \<Rightarrow> (Inr (404, JObj []), w)
        | Some r \<Rightarrow> (Inr (200, jobj1 ''value'' (JObj (stored_fill r))), w))
      else if verb = ''PUT'' then (case d of JObj r \<Rightarrow> (Inr (201, JObj []), w(i \<mapsto> r)) | _ \<Rightarrow> (Inr (400, JObj []), w))
      else (Inr (200, JObj []), w(i := None)))"

definition memory_admin :: "table admin" where
  "memory_admin = \<lparr>ad_curl = memory_curl, ad_save = (\<lambda>d. returnS ())\<rparr>"

lemma stored_fill_clean:
  "map_of (stored_fill r) ''value'' = None" "filter (\<lambda>(k, _). k \<noteq> ''create_time'' \<and> k \<noteq> ''update_time'') (stored_fill r) = stored_fill r"
  "stored_fill (stored_fill r) = stored_fill r"
  by (auto simp: stored_fill_def map_of_eq_None_iff intro!: filter_cong)

lemma memory_view_update: "memory_view (w(i := x)) = (memory_view w)(i := map_option stored_fill x)"
  by (rule ext) (simp add: memory_view_def)

lemma stored_route_value: "route_value (jobj1 ''value'' (JObj (stored_fill r))) = Inr (JObj (stored_fill r))"
  by (simp add: route_value_def jobj1_def stored_fill_clean)

lemma memory_admin_faithful: "faithful_admin memory_admin memory_view stored_fill"
proof -
  have path: "drop (length (admin_path [])) (admin_path i) = i" for i
    by (simp add: admin_path_def)
  have "reads_route memory_admin memory_view"
    by (auto simp: reads_route_def memory_admin_def memory_view_def path Let_def stored_route_value split: option.splits)
  moreover have "puts_route memory_admin memory_view stored_fill"
    by (auto simp: puts_route_def memory_admin_def memory_view_update path Let_def)
  moreover have "deletes_route memory_admin memory_view"
    by (auto simp: deletes_route_def memory_admin_def memory_view_update path Let_def)
  moreover have "keeps memory_view (memory_curl False p m d)" "keeps memory_view (memory_curl True p ''GET'' d)" for p m d
    by (auto simp: keeps_def Let_def split: option.splits)
  ultimately show ?thesis
    by (auto simp: faithful_admin_def stored_fill_clean stored_fill_def [of _] memory_admin_def intro: keeps_intros)
qed

lemma memory_filled: "filled memory_view stored_fill w"
  by (auto simp: filled_def memory_view_def stored_fill_clean) (simp add: stored_fill_def)

text \<open>The steps of a deployment on it.\<close>

lemma memory_route:
  "admin_route memory_admin ''GET'' i d w = (case w i of None \<Rightarrow> (Inr (404, JObj []), w)
     | Some r \<Rightarrow> (Inr (200, jobj1 ''value'' (JObj (stored_fill r))), w))"
  "admin_route memory_admin ''PUT'' i (JObj r) w = (Inr (201, JObj []), w(i \<mapsto> r))"
  "admin_route memory_admin ''DELETE'' i d w = (Inr (200, JObj []), w(i := None))"
  by (simp_all add: admin_route_def memory_admin_def admin_path_def Let_def)

lemma memory_read:
  "read_route memory_admin tag i w = (Inr (case w i of None \<Rightarrow> JNull | Some r \<Rightarrow> JObj (stored_fill r)), w)"
  by (simp add: read_route_def memory_route io_defs stored_route_value split: option.splits)

lemma memory_snapshot_loop:
  "snapshot_loop memory_admin tag ids prev w
     = (Inr (foldl (\<lambda>p i. dict_set i (case w i of None \<Rightarrow> JNull | Some r \<Rightarrow> JObj (stored_fill r)) p) prev ids), w)"
  by (induction ids arbitrary: prev) (simp_all add: memory_read io_defs)

lemma memory_put:
  assumes "route_id r = Inr i" and "\<not> differs (JObj (stored_fill r)) r"
  shows "put_route memory_admin tag r w = (Inr (), w(i \<mapsto> r))"
  using assms by (simp add: put_route_def memory_route io_defs stored_route_value)

lemma memory_curl_anonymous: "ad_curl memory_admin False p m d w = (Inr (401, JObj []), w)"
  by (simp add: memory_admin_def)

lemma memory_save: "ad_save memory_admin d w = (Inr (), w)"
  by (simp add: memory_admin_def returnS_def)

lemmas memory_steps = memory_route memory_read memory_snapshot_loop memory_curl_anonymous memory_save io_defs

definition sample_internal_route :: json where
  "sample_internal_route = JObj [(''id'', JStr ''r''), (''uri'', JStr ''/u''), (''methods'', JList [JStr ''GET'']),
     (''labels'', JObj [(''ouf-managed'', JStr ''true''), (''ouf-exposure'', JStr ''internal'')]),
     (''plugins'', JObj (map (\<lambda>p. (p, JObj [])) required_plugins))]"

lemma sample_internal_ids: "validate_routes (JList [sample_internal_route]) = Inr [''r'']"
  by (simp add: validate_routes_def validate_route_def sample_internal_route_def word_of_def is_alpha_def is_digit_def
      or_get_def or_object_def starts_with_def check_plugin_def required_plugins_def)

theorem internal_deploy_is_atomic_witness:
  "\<exists>w'. apply_internal memory_admin None (JList [sample_internal_route]) (\<lambda>_. None) = (Inr (), w')
     \<and> holds memory_view w' (the_fields sample_internal_route)"
proof -
  let ?r = "the_fields sample_internal_route"
  have "route_id ?r = Inr ''r''" "\<not> differs (JObj (stored_fill ?r)) ?r" "first_method ?r = Inr ''GET''"
    by (simp_all add: sample_internal_route_def route_id_def differs_def stored_fill_def first_method_def)
  then have run: "apply_internal memory_admin None (JList [sample_internal_route]) (\<lambda>_. None) = (Inr (), [''r'' \<mapsto> ?r])"
    by (simp add: apply_internal_def sample_internal_ids snapshot_routes_def rolling_back_def memory_put anonymous_denied_def memory_steps)
  from internal_deploy_is_atomic [OF memory_admin_faithful memory_filled run] run show ?thesis by auto
qed

end
