(* ===== verification/Route_Scripts.thy ===== *)
theory Route_Scripts
  imports Route_Deploy
begin

text \<open>
  The deployers of the trusted-human and authorization namespaces, \<open>deploy_trusted_human_authorization.py\<close>,
  \<open>deploy_trusted_human_onboarding.py\<close>, \<open>deploy_trusted_human_installation.py\<close>,
  \<open>deploy_authorization_bundle_route.py\<close> and \<open>deploy_semantic_human.py\<close>, over the shared steps.
\<close>

text \<open>\<open>{r.get("id") for r in routes}\<close> and \<open>{tuple(r.get("methods", [])) for r in routes}\<close>\<close>

definition id_set :: "json list \<Rightarrow> json set res" where
  "id_set rs = bindE (mapE (\<lambda>r. jget r ''id'' JNull) rs) jset"

definition method_sets :: "json list \<Rightarrow> json list set res" where
  "method_sets rs = bindE (mapE (\<lambda>r. bindE (jget r ''methods'' (JList [])) jelements) rs)
     (\<lambda>ms. bindE (jset (concat ms)) (\<lambda>_. Inr (set ms)))"

definition any_uri_differs :: "string \<Rightarrow> json list \<Rightarrow> bool res" where
  "any_uri_differs uri rs = or_chain (map (\<lambda>r. jneq (jget r ''uri'' JNull) (JStr uri)) rs)"

text \<open>One anonymous request that must be denied with one of the codes.\<close>

definition denied :: "'w admin \<Rightarrow> nat set \<Rightarrow> (nat \<Rightarrow> string) \<Rightarrow> string \<times> string \<Rightarrow> ('w, unit) io" where
  "denied ad codes msg mp = bindS (ad_curl ad False (snd mp) (fst mp) JNull) (\<lambda>(code, _).
     if code \<in> codes then returnS () else raiseS (RuntimeError (msg code)))"

section \<open>Trusted-human authorization\<close>

definition auth_methods :: "string list" where
  "auth_methods = [''GET'', ''POST'', ''PUT'', ''DELETE'']"

definition auth_current_ids :: "string list" where
  "auth_current_ids = map (\<lambda>m. ''trusted-human-authorization-'' @ lower m) auth_methods"

definition auth_legacy_ids :: "string list" where
  "auth_legacy_ids = [''trusted-human-authorization-capabilities-read'',
     ''trusted-human-authorization-capabilities-register'']"

definition auth_managed_ids :: "string list" where
  "auth_managed_ids = auth_current_ids @ auth_legacy_ids"

definition auth_namespace :: string where
  "auth_namespace = ''/api/trusted-human/v1/authorization/*''"

definition auth_snapshot :: "'w admin \<Rightarrow> ('w, previous_routes) io" where
  "auth_snapshot ad = snapshot_routes ad auth_managed_ids"

definition auth_restore :: "'w admin \<Rightarrow> previous_routes \<Rightarrow> ('w, unit) io" where
  "auth_restore ad prev = restore_ids ad auth_managed_ids prev"

definition delete_legacy :: "'w admin \<Rightarrow> string \<Rightarrow> ('w, unit) io" where
  "delete_legacy ad i = bindS (admin_route ad ''DELETE'' i JNull) (\<lambda>(code, _).
     if code \<in> {200, 204, 404} then returnS ()
     else raiseS (RuntimeError (''legacy delete HTTP '' @ nat_text code)))"

definition auth_probes :: "(string \<times> string) list" where
  "auth_probes = [(''GET'', ''/api/trusted-human/v1/authorization/capabilities?limit=1&offset=0''),
     (''GET'', ''/api/trusted-human/v1/authorization/access?subjectId=probe''),
     (''GET'', ''/api/trusted-human/v1/authorization/policies'')]"

definition apply_authorization :: "'w admin \<Rightarrow> json list \<Rightarrow> ('w, unit) io" where
  "apply_authorization ad routes =
     bindS (auth_snapshot ad) (\<lambda>prev.
     rolling_back
       (bindS (forS (put_route ad no_tag) (map the_fields routes)) (\<lambda>_.
        bindS (forS (delete_legacy ad) auth_legacy_ids) (\<lambda>_.
        forS (\<lambda>mp. denied ad {401} (\<lambda>code. ''unauthenticated protected namespace HTTP '' @ nat_text code
          @ '' for '' @ snd mp) mp) auth_probes)))
       (auth_restore ad prev))"

text \<open>The checks of a namespace materialisation, in the order of the code, with the messages \<open>says\<close>.\<close>

definition namespace_routes ::
  "string list \<Rightarrow> nat \<Rightarrow> string list \<Rightarrow> string list \<Rightarrow> string \<Rightarrow> json \<Rightarrow> json list res" where
  "namespace_routes says n ids methods uri doc =
     bindE (jget doc ''routes'' JNull) (\<lambda>v. case v of
        JList rs \<Rightarrow>
          if length rs \<noteq> n then Inl (ValueError (says ! 0))
          else bindE (id_set rs) (\<lambda>s.
            if s \<noteq> JStr ` set ids then Inl (ValueError (says ! 1))
            else bindE (method_sets rs) (\<lambda>ms.
              if ms \<noteq> (\<lambda>m. [JStr m]) ` set methods then Inl (ValueError (says ! 2))
              else bindE (any_uri_differs uri rs) (\<lambda>b.
                if b then Inl (ValueError (says ! 3)) else Inr rs)))
      | _ \<Rightarrow> Inl (ValueError (says ! 0)))"

definition authorization_says :: "string list" where
  "authorization_says = [''expected four trusted HUMAN namespace routes'', ''unexpected trusted HUMAN route IDs'',
     ''trusted HUMAN routes must cover GET/POST/PUT/DELETE'', ''unexpected trusted HUMAN namespace'']"

definition authorization_main :: "'w admin \<Rightarrow> deploy_mode \<Rightarrow> ('w, unit) io" where
  "authorization_main ad mode =
     (case mode of
        Restore doc \<Rightarrow>
          bindS (liftS (snapshot_exactly auth_managed_ids doc ''snapshot does not contain the full managed route set''))
            (auth_restore ad)
      | Materialize doc \<Rightarrow>
          bindS (liftS (namespace_routes authorization_says 4 auth_current_ids auth_methods auth_namespace doc)) (apply_authorization ad))"

section \<open>Trusted-human onboarding\<close>

definition onboarding_ids :: "string list" where
  "onboarding_ids = [''trusted-human-onboarding-sources-get'', ''trusted-human-onboarding-sources-post'',
     ''trusted-human-onboarding-lifecycle-get'', ''trusted-human-onboarding-lifecycle-post'',
     ''trusted-human-onboarding-lifecycle-put'', ''trusted-human-onboarding-approvals-get'',
     ''trusted-human-onboarding-approvals-post'', ''trusted-human-managed-file-upload'',
     ''trusted-human-managed-file-actions-post'', ''trusted-human-managed-file-preview-get'']"

definition onboarding_snapshot :: "'w admin \<Rightarrow> ('w, previous_routes) io" where
  "onboarding_snapshot ad = snapshot_routes ad onboarding_ids"

definition onboarding_restore :: "'w admin \<Rightarrow> previous_routes \<Rightarrow> ('w, unit) io" where
  "onboarding_restore ad prev = restore_ids ad onboarding_ids prev"

definition streaming_path :: string where
  "streaming_path = ''/apisix/admin/plugins/proxy-control?subsystem=http''"

definition unbuffered :: json where
  "unbuffered = jobj1 ''request_buffering'' (JBool False)"

definition upload_streams :: "json list \<Rightarrow> bool res" where
  "upload_streams routes =
     (case find (\<lambda>r. jlookup r ''id'' = Some (JStr ''trusted-human-managed-file-upload'')) routes of
        None \<Rightarrow> Inr False
      | Some u \<Rightarrow> bindE (jget u ''plugins'' (JObj [])) (\<lambda>p.
          bindE (jneq (jget p ''proxy-control'' JNull) unbuffered) (\<lambda>b. Inr (\<not> b))))"

definition onboarding_probes :: "(string \<times> string) list" where
  "onboarding_probes = [(''GET'', ''/api/onboarding/v1/sources''), (''POST'', ''/api/onboarding/v1/sources''),
     (''GET'', ''/api/trusted-human/v1/approval-challenges/00000000-0000-0000-0000-000000000000''),
     (''POST'', ''/api/managed-sources/v1/files''),
     (''POST'', ''/api/onboarding/v1/managed-files/00000000-0000-0000-0000-000000000000/profile''),
     (''GET'', ''/api/onboarding/v1/managed-files/00000000-0000-0000-0000-000000000000'')]"

definition apply_onboarding :: "'w admin \<Rightarrow> json list \<Rightarrow> ('w, unit) io" where
  "apply_onboarding ad routes =
     bindS (liftS (upload_streams routes)) (\<lambda>ok.
     if \<not> ok then raiseS (ValueError ''managed-file upload requires APISIX-Runtime request streaming; verify the runtime before materializing'')
     else bindS (ad_curl ad True streaming_path ''GET'' JNull) (\<lambda>(code, _).
       if code \<noteq> 200 then raiseS (RuntimeError ''APISIX proxy-control plugin schema is unavailable; upload route not installed'')
       else bindS (onboarding_snapshot ad) (\<lambda>prev.
         rolling_back
           (bindS (forS (put_route ad no_tag) (map the_fields routes)) (\<lambda>_.
            forS (\<lambda>mp. denied ad {401, 403} (\<lambda>code. ''anonymous protected lifecycle HTTP '' @ nat_text code
                @ '' for '' @ fst mp @ '' '' @ snd mp) mp) onboarding_probes))
           (onboarding_restore ad prev))))"

definition onboarding_main :: "'w admin \<Rightarrow> deploy_mode \<Rightarrow> ('w, unit) io" where
  "onboarding_main ad mode =
     (case mode of
        Restore doc \<Rightarrow>
          bindS (liftS (snapshot_exactly onboarding_ids doc ''snapshot does not contain full onboarding lifecycle route set''))
            (onboarding_restore ad)
      | Materialize doc \<Rightarrow>
          bindS (liftS (jget doc ''routes'' JNull)) (\<lambda>v. case v of
             JList rs \<Rightarrow> bindS (liftS (id_set rs)) (\<lambda>s.
               if s \<noteq> JStr ` set onboarding_ids then raiseS (ValueError ''unexpected onboarding lifecycle route set'')
               else apply_onboarding ad rs)
           | _ \<Rightarrow> raiseS (ValueError ''unexpected onboarding lifecycle route set'')))"

section \<open>Trusted-human installation\<close>

definition installation_methods :: "string list" where
  "installation_methods = [''GET'', ''POST'']"

definition installation_ids :: "string list" where
  "installation_ids = map (\<lambda>m. ''trusted-human-installation-'' @ lower m) installation_methods"

definition installation_snapshot :: "'w admin \<Rightarrow> ('w, previous_routes) io" where
  "installation_snapshot ad = snapshot_routes ad installation_ids"

definition installation_restore :: "'w admin \<Rightarrow> previous_routes \<Rightarrow> ('w, unit) io" where
  "installation_restore ad prev = restore_ids ad installation_ids prev"

definition apply_installation :: "'w admin \<Rightarrow> json list \<Rightarrow> ('w, unit) io" where
  "apply_installation ad routes =
     bindS (installation_snapshot ad) (\<lambda>prev.
     rolling_back
       (bindS (forS (put_route ad no_tag) (map the_fields routes)) (\<lambda>_.
        forS (\<lambda>m. denied ad {401, 403} (\<lambda>code. ''anonymous protected namespace HTTP '' @ nat_text code @ '' for '' @ m)
            (m, ''/api/trusted-human/v1/installations/probe/active'')) installation_methods))
       (installation_restore ad prev))"

definition installation_says :: "string list" where
  "installation_says = [''expected two Trusted Human installation routes'', ''unexpected installation route IDs'',
     ''installation routes must cover GET/POST'', ''unexpected installation namespace'']"

definition installation_main :: "'w admin \<Rightarrow> deploy_mode \<Rightarrow> ('w, unit) io" where
  "installation_main ad mode =
     (case mode of
        Restore doc \<Rightarrow>
          bindS (liftS (snapshot_exactly installation_ids doc ''snapshot does not contain full installation route set''))
            (installation_restore ad)
      | Materialize doc \<Rightarrow>
          bindS (liftS (namespace_routes installation_says 2 installation_ids installation_methods
            ''/api/trusted-human/v1/installations/*'' doc)) (apply_installation ad))"

section \<open>The Authorization bundle route\<close>

definition bundle_id :: string where
  "bundle_id = ''mcp-authorization-policy-bundle-read''"

definition bundle_uri :: string where
  "bundle_uri = ''/internal/capabilities/v1/authorization/policy-bundle/active''"

definition bundle_snapshot :: "'w admin \<Rightarrow> ('w, json) io" where
  "bundle_snapshot ad = bindS (admin_route ad ''GET'' bundle_id JNull) (\<lambda>(code, body).
     if code \<notin> {200, 404} then raiseS (RuntimeError (''snapshot HTTP '' @ nat_text code))
     else bindS (liftS (if code = 200 then route_value body else Inr JNull)) (\<lambda>prev.
       bindS (ad_save ad (jobj1 bundle_id prev)) (\<lambda>_. returnS prev)))"

definition bundle_restore :: "'w admin \<Rightarrow> json \<Rightarrow> ('w, unit) io" where
  "bundle_restore ad prev = bindS (put_back ad bundle_id prev) (\<lambda>(code, _).
     if code \<in> {200, 201, 204, 404} then returnS () else raiseS (RuntimeError (''rollback HTTP '' @ nat_text code)))"

definition put_bundle :: "'w admin \<Rightarrow> route \<Rightarrow> ('w, unit) io" where
  "put_bundle ad r = bindS (admin_route ad ''PUT'' bundle_id (JObj r)) (\<lambda>(code, _).
     if code \<notin> {200, 201} then raiseS (RuntimeError (''write HTTP '' @ nat_text code))
     else bindS (admin_route ad ''GET'' bundle_id JNull) (\<lambda>(code', body).
       bindS (liftS (if code' = 200 then route_value body else Inr (JObj []))) (\<lambda>actual.
       if differs actual r then raiseS (RuntimeError ''route readback differs'') else returnS ())))"

definition apply_bundle :: "'w admin \<Rightarrow> route \<Rightarrow> ('w, unit) io" where
  "apply_bundle ad r = bindS (bundle_snapshot ad) (\<lambda>prev.
     rolling_back
       (bindS (put_bundle ad r) (\<lambda>_.
        denied ad {401, 403} (\<lambda>code. ''anonymous protected route HTTP '' @ nat_text code) (''GET'', bundle_uri)))
       (bundle_restore ad prev))"

definition bundle_services :: "string list" where
  "bundle_services = [''ouf-mcp-server'', ''ouf-ingestion'', ''ouf-udp'', ''ouf-semantic'']"

definition bundle_guard :: "json \<Rightarrow> string res" where
  "bundle_guard r =
     bindE (jget r ''plugins'' JNull) (\<lambda>p.
     bindE (jget (or_object p) ''serverless-post-function'' JNull) (\<lambda>f.
     bindE (jget (or_object f) ''functions'' JNull) (\<lambda>g.
     bindE (if json_truthy g then jelements g else Inr []) (join_with [CHR 0x0A]))))"

definition bundle_route :: "json \<Rightarrow> route res" where
  "bundle_route doc = bindE (jget doc ''routes'' JNull) (\<lambda>v. case v of
      JList [r] \<Rightarrow>
        bindE (or_chain [jneq (jget r ''id'' JNull) (JStr bundle_id), jneq (jget r ''uri'' JNull) (JStr bundle_uri),
            jneq (jget r ''methods'' JNull) (JList [JStr ''GET''])]) (\<lambda>bad.
        if bad then Inl (ValueError ''unexpected Authorization bundle route'')
        else bindE (bundle_guard r) (\<lambda>guard.
          case find (\<lambda>s. \<not> contains guard s) bundle_services of
            Some s \<Rightarrow> Inl (ValueError (''required service identity missing: '' @ s))
          | None \<Rightarrow> Inr (the_fields r)))
    | _ \<Rightarrow> Inl (ValueError ''expected one Authorization bundle route''))"

definition bundle_main :: "'w admin \<Rightarrow> deploy_mode \<Rightarrow> ('w, unit) io" where
  "bundle_main ad mode =
     (case mode of
        Restore doc \<Rightarrow>
          bindS (liftS (snapshot_exactly [bundle_id] doc ''snapshot does not contain Authorization bundle route''))
            (\<lambda>prev. bundle_restore ad (previous_route prev bundle_id))
      | Materialize doc \<Rightarrow> bindS (liftS (bundle_route doc)) (apply_bundle ad))"

end
