(* ===== verification/Route_Scripts_Safety.thy ===== *)
theory Route_Scripts_Safety
  imports Route_Deploy_Safety Route_Scripts
begin

text \<open>
  The namespace deployers against a faithful Admin API: a deployment is atomic, a saved snapshot
  restores what it was taken from.
\<close>

section \<open>Routes of a document\<close>

lemma list_all2_members:
  assumes "list_all2 P xs ys"
  shows "\<forall>x \<in> set xs. \<exists>y \<in> set ys. P x y" and "\<forall>y \<in> set ys. \<exists>x \<in> set xs. P x y"
  using assms by (induction rule: list_all2_induct) auto

text \<open>The id set of a document names exactly the ids of its routes.\<close>

lemma id_set_ids:
  assumes "id_set rs = Inr (JStr ` ids)"
  shows "(\<forall>v \<in> set rs. \<exists>i \<in> ids. route_id (the_fields v) = Inr i) \<and> (\<forall>i \<in> ids. \<exists>v \<in> set rs. route_id (the_fields v) = Inr i)"
proof -
  from assms obtain vs where vs: "mapE (\<lambda>r. jget r ''id'' JNull) rs = Inr vs" "set vs = JStr ` ids"
    by (auto simp: id_set_def bindE_Inr_iff jset_def split: if_splits)
  have rel: "list_all2 (\<lambda>r v. jget r ''id'' JNull = Inr v) rs vs"
    using vs(1) by (simp add: mapE_Inr_iff)
  have tell: "route_id (the_fields r) = Inr i" if g: "jget r ''id'' JNull = Inr (JStr i)" for r i
    using g by (cases r) (auto simp: route_id_def split: option.splits)
  have "\<exists>i \<in> ids. route_id (the_fields r) = Inr i" if r: "r \<in> set rs" for r
  proof -
    from list_all2_members(1) [OF rel] r obtain v where v: "v \<in> set vs" "jget r ''id'' JNull = Inr v" by blast
    from v(1) vs(2) obtain i where "i \<in> ids" "v = JStr i" by auto
    with v(2) tell show ?thesis by blast
  qed
  moreover have "\<exists>v \<in> set rs. route_id (the_fields v) = Inr i" if i: "i \<in> ids" for i
  proof -
    from i vs(2) have "JStr i \<in> set vs" by blast
    with list_all2_members(2) [OF rel] obtain r where "r \<in> set rs" "jget r ''id'' JNull = Inr (JStr i)" by blast
    with tell show ?thesis by blast
  qed
  ultimately show ?thesis by blast
qed

lemma namespace_routes_cases:
  assumes "namespace_routes says n ids methods uri doc = Inr rs"
  obtains "jget doc ''routes'' JNull = Inr (JList rs)" "length rs = n" "id_set rs = Inr (JStr ` set ids)"
    "any_uri_differs uri rs = Inr False"
proof -
  from assms have "jget doc ''routes'' JNull = Inr (JList rs) \<and> length rs = n \<and> id_set rs = Inr (JStr ` set ids)
      \<and> any_uri_differs uri rs = Inr False"
    by (auto simp: namespace_routes_def bindE_Inr_iff jlist_case_Inr split: if_splits)
  then show thesis using that by blast
qed

section \<open>A namespace\<close>

text \<open>Every id of the namespace holds one of the routes of the document.\<close>

definition namespace_held :: "'w route_view \<Rightarrow> 'w \<Rightarrow> json list \<Rightarrow> string set \<Rightarrow> bool" where
  "namespace_held view w rs ids \<longleftrightarrow>
     (\<forall>i \<in> ids. \<exists>v \<in> set rs. route_id (the_fields v) = Inr i \<and> holds view w (the_fields v))"

lemma puts_hold_namespace:
  assumes admin: "faithful_admin ad view fill" and ids: "id_set rs = Inr (JStr ` ids)"
    and run: "forS (put_route ad tag) (map the_fields rs) w = (Inr (), w')"
  shows "namespace_held view w' rs ids"
  unfolding namespace_held_def
proof
  fix i assume "i \<in> ids"
  with id_set_ids [OF ids] obtain v where v: "v \<in> set rs" "route_id (the_fields v) = Inr i" by blast
  then have "the_fields v \<in> set (map the_fields rs)" by simp
  from put_routes_hold [OF admin run this] v(2) show "\<exists>v \<in> set rs. route_id (the_fields v) = Inr i \<and> holds view w' (the_fields v)"
    by auto
qed

lemma namespace_held_elsewhere:
  assumes "namespace_held view w rs ids" and "\<forall>i \<in> ids. view w' i = view w i"
  shows "namespace_held view w' rs ids"
  using assms unfolding namespace_held_def holds_def by fastforce

text \<open>Snapshot, write with readback, further checks on the managed ids, roll back on any failure.\<close>

lemma namespace_deployed:
  assumes admin: "faithful_admin ad view fill" and w: "filled view fill w"
    and ids: "id_set rs = Inr (JStr ` ids)" and managed: "ids \<subseteq> set managed"
    and checks: "keeps (outside view (set managed)) checks"
    and run: "bindS (snapshot_routes ad managed) (\<lambda>prev. rolling_back
        (bindS (forS (put_route ad tag) (map the_fields rs)) (\<lambda>_. checks)) (restore_ids ad managed prev)) w = (r, w')"
  shows "deployed view (set managed) w r w'"
    and "r = Inr () \<Longrightarrow> \<exists>w1. namespace_held view w1 rs ids \<and> checks w1 = (Inr (), w')"
proof -
  let ?body = "bindS (forS (put_route ad tag) (map the_fields rs)) (\<lambda>_. checks)"
  have "i \<in> set managed" if "x \<in> set (map the_fields rs)" "route_id x = Inr i" for x i
    using that id_set_ids [OF ids] managed by fastforce
  then have body: "keeps (outside view (set managed)) ?body"
    by (intro keeps_bindS keeps_forS put_route_outside [OF admin] checks)
  have undo: "\<exists>is. restore_ids ad managed prev = restore_ids ad is prev \<and> set is = set managed" for prev
    by blast
  note g = guarded_deployed [where body = "\<lambda>_. ?body" and undo = "restore_ids ad managed", OF admin w body undo run]
  then show "deployed view (set managed) w r w'" by blast
  assume "r = Inr ()"
  with g obtain w0 where "?body w0 = (Inr (), w')" by blast
  then obtain w1 where "forS (put_route ad tag) (map the_fields rs) w0 = (Inr (), w1)" "checks w1 = (Inr (), w')"
    by (auto simp: bindS_Inr)
  with puts_hold_namespace [OF admin ids] show "\<exists>w1. namespace_held view w1 rs ids \<and> checks w1 = (Inr (), w')"
    by blast
qed

lemma denied_keeps_view: "faithful_admin ad view fill \<Longrightarrow> keeps view (denied ad codes msg mp)"
  unfolding denied_def
  by (rule keeps_bindS) (auto simp: faithful_admin_def split: prod.splits intro!: keeps_intros)

section \<open>Legacy routes\<close>

lemma delete_legacy_outside:
  "faithful_admin ad view fill \<Longrightarrow> i \<in> ids \<Longrightarrow> keeps (outside view ids) (delete_legacy ad i)"
  unfolding delete_legacy_def
  by (intro keeps_bindS admin_write_outside(2)) (auto split: prod.splits intro!: keeps_intros)

lemma delete_legacy_gone:
  assumes "faithful_admin ad view fill" and "delete_legacy ad i w = (Inr (), w')"
  shows "view w' i = None"
proof -
  from assms(2) obtain code body where "ad_curl ad True (admin_path i) ''DELETE'' JNull w = (Inr (code, body), w')"
    "code \<in> {200, 204, 404}"
    by (auto simp: delete_legacy_def bindS_Inr admin_route_def returnS_def raiseS_def split: if_splits)
  then show ?thesis using assms(1) unfolding faithful_admin_def deletes_route_def by blast
qed

lemma delete_all_gone:
  assumes "faithful_admin ad view fill" and "forS (delete_legacy ad) ids w = (Inr (), w')"
  shows "\<forall>i \<in> set ids. view w' i = None"
  using assms(2)
proof (induction ids arbitrary: w)
  case Nil
  then show ?case by simp
next
  case (Cons i ids)
  then obtain w1 where one: "delete_legacy ad i w = (Inr (), w1)" and rest: "forS (delete_legacy ad) ids w1 = (Inr (), w')"
    by (auto simp: bindS_Inr)
  have "keeps (outside view (set ids)) (forS (delete_legacy ad) ids)"
    by (intro keeps_forS delete_legacy_outside [OF assms(1)])
  from outsideD [OF keepsD [OF this rest]] have "view w' i = None" if "i \<notin> set ids"
    using delete_legacy_gone [OF assms(1) one] that by metis
  with Cons.IH [OF rest] show ?case by auto
qed

lemma auth_ids_apart: "set auth_current_ids \<inter> set auth_legacy_ids = {}"
  by (simp add: auth_current_ids_def auth_legacy_ids_def auth_methods_def lower_def)

text \<open>
  C26. Installing the trusted-human authorization namespace is atomic over its managed routes: success means
  that each current id holds its route of the reviewed document and that the superseded routes are gone;
  a failure leaves every route as it was, except the ones that the failed rollback names; no other
  route is touched.
\<close>

theorem authorization_deploy_is_atomic:
  assumes "faithful_admin ad view fill" and "filled view fill w"
    and "authorization_main ad (Materialize doc) w = (r, w')"
  shows "deployed view (set auth_managed_ids) w r w'
     \<and> (r = Inr () \<longrightarrow> (\<exists>rs. jget doc ''routes'' JNull = Inr (JList rs) \<and> length rs = 4
          \<and> any_uri_differs auth_namespace rs = Inr False \<and> namespace_held view w' rs (set auth_current_ids))
        \<and> (\<forall>i \<in> set auth_legacy_ids. view w' i = None))"
proof (cases "namespace_routes authorization_says 4 auth_current_ids auth_methods auth_namespace doc")
  case (Inl e)
  with assms(3) have "r = Inl e" "w' = w" by (simp_all add: authorization_main_def io_defs)
  then show ?thesis by (auto intro: deployed_unchanged)
next
  case (Inr rs)
  then obtain doc: "jget doc ''routes'' JNull = Inr (JList rs)" "length rs = 4" "id_set rs = Inr (JStr ` set auth_current_ids)"
    "any_uri_differs auth_namespace rs = Inr False" by (rule namespace_routes_cases)
  let ?probes = "forS (\<lambda>mp. denied ad {401} (\<lambda>code. ''unauthenticated protected namespace HTTP '' @ nat_text code
      @ '' for '' @ snd mp) mp) auth_probes"
  let ?checks = "bindS (forS (delete_legacy ad) auth_legacy_ids) (\<lambda>_. ?probes)"
  have run: "bindS (snapshot_routes ad auth_managed_ids) (\<lambda>prev. rolling_back
      (bindS (forS (put_route ad no_tag) (map the_fields rs)) (\<lambda>_. ?checks)) (restore_ids ad auth_managed_ids prev)) w = (r, w')"
    using assms(3) Inr
    by (simp add: authorization_main_def apply_authorization_def auth_snapshot_def auth_restore_def [abs_def] bindS_def liftS_def)
  have probes: "keeps view ?probes" by (intro keeps_forS denied_keeps_view [OF assms(1)])
  have checks: "keeps (outside view (set auth_managed_ids)) ?checks"
    by (intro keeps_bindS keeps_forS keeps_view_outside [OF denied_keeps_view] delete_legacy_outside [OF assms(1)])
      (auto simp: auth_managed_ids_def intro: assms(1))
  have sub: "set auth_current_ids \<subseteq> set auth_managed_ids" by (simp add: auth_managed_ids_def)
  note d = namespace_deployed [OF assms(1,2) doc(3) sub checks run]
  have "namespace_held view w' rs (set auth_current_ids) \<and> (\<forall>i \<in> set auth_legacy_ids. view w' i = None)" if fin: "r = Inr ()"
  proof -
    from d(2) [OF fin] obtain w1 w2 where held: "namespace_held view w1 rs (set auth_current_ids)"
      and del: "forS (delete_legacy ad) auth_legacy_ids w1 = (Inr (), w2)" and p: "?probes w2 = (Inr (), w')"
      by (auto simp: bindS_Inr)
    have same: "view w' = view w2" by (rule keepsD [OF probes p])
    have "keeps (outside view (set auth_legacy_ids)) (forS (delete_legacy ad) auth_legacy_ids)"
      by (intro keeps_forS delete_legacy_outside [OF assms(1)])
    from outsideD [OF keepsD [OF this del]] auth_ids_apart have "\<forall>i \<in> set auth_current_ids. view w2 i = view w1 i" by blast
    with held same have "namespace_held view w' rs (set auth_current_ids)"
      by (intro namespace_held_elsewhere [OF held]) simp
    with delete_all_gone [OF assms(1) del] same show ?thesis by simp
  qed
  with d(1) doc(1,2,4) show ?thesis by blast
qed

definition named_route :: "string \<Rightarrow> string \<Rightarrow> string \<Rightarrow> route" where
  "named_route i m u = [(''id'', JStr i), (''methods'', JList [JStr m]), (''uri'', JStr u)]"

lemma memory_put_named: "put_route memory_admin tag (named_route i m u) w = (Inr (), w(i \<mapsto> named_route i m u))"
  by (rule memory_put) (simp_all add: named_route_def route_id_def differs_def stored_fill_def)

definition named_routes :: "(string \<Rightarrow> string) \<Rightarrow> string \<Rightarrow> string list \<Rightarrow> json list" where
  "named_routes f u ms = map (\<lambda>m. JObj (named_route (f m) m u)) ms"

lemma named_namespace:
  "namespace_routes says (length ms) (map f ms) ms u (jobj1 ''routes'' (JList (named_routes f u ms))) = Inr (named_routes f u ms)"
proof -
  have "any_uri_differs u (named_routes f u ms) = Inr False"
    by (induction ms) (simp_all add: any_uri_differs_def jneq_def named_routes_def named_route_def)
  moreover have "mapE (\<lambda>r. jget r ''id'' JNull) (named_routes f u ms) = Inr (map (\<lambda>m. JStr (f m)) ms)"
    by (induction ms) (simp_all add: named_routes_def named_route_def)
  then have "id_set (named_routes f u ms) = Inr (JStr ` f ` set ms)"
    by (simp add: id_set_def jset_def list_all_iff image_image)
  moreover have "mapE (\<lambda>r. bindE (jget r ''methods'' (JList [])) jelements) (named_routes f u ms) = Inr (map (\<lambda>m. [JStr m]) ms)"
    by (induction ms) (simp_all add: named_routes_def named_route_def)
  then have "method_sets (named_routes f u ms) = Inr ((\<lambda>m. [JStr m]) ` set ms)"
    by (simp add: method_sets_def jset_def list_all_iff)
  ultimately show ?thesis by (simp add: namespace_routes_def jobj1_def) (simp add: named_routes_def)
qed

definition sample_namespace :: json where
  "sample_namespace = jobj1 ''routes''
     (JList (named_routes (\<lambda>m. ''trusted-human-authorization-'' @ lower m) auth_namespace auth_methods))"

theorem authorization_deploy_is_atomic_witness:
  "\<exists>w'. authorization_main memory_admin (Materialize sample_namespace)
       [''trusted-human-authorization-capabilities-read'' \<mapsto> []] = (Inr (), w')
     \<and> memory_view w' ''trusted-human-authorization-capabilities-read'' = None"
proof -
  let ?rs = "named_routes (\<lambda>m. ''trusted-human-authorization-'' @ lower m) auth_namespace auth_methods"
  have four: "length auth_methods = 4" by (simp add: auth_methods_def)
  have "namespace_routes authorization_says 4 auth_current_ids auth_methods auth_namespace sample_namespace = Inr ?rs"
    unfolding sample_namespace_def auth_current_ids_def four [symmetric] by (rule named_namespace)
  then have main: "authorization_main memory_admin (Materialize sample_namespace) w = apply_authorization memory_admin ?rs w" for w
    by (simp add: authorization_main_def io_defs)
  obtain w' where run: "apply_authorization memory_admin ?rs
      [''trusted-human-authorization-capabilities-read'' \<mapsto> []] = (Inr (), w')"
    by (simp add: apply_authorization_def auth_snapshot_def snapshot_routes_def named_routes_def comp_def
        rolling_back_def auth_methods_def auth_legacy_ids_def delete_legacy_def memory_put_named denied_def auth_probes_def
        memory_steps)
  from authorization_deploy_is_atomic [OF memory_admin_faithful memory_filled trans [OF main run]]
  have "\<forall>i \<in> set auth_legacy_ids. memory_view w' i = None" by blast
  with run main show ?thesis by (simp add: auth_legacy_ids_def)
qed

section \<open>Saved snapshots\<close>

text \<open>
  Restoring the saved snapshot of a validated route set undoes whatever happened to the routes since: when
  the restoration succeeds, every route of the set is what it was when the snapshot was taken;
  when it fails, that holds except for the routes that it names; no other route is touched.
\<close>

theorem snapshot_restore_roundtrip:
  assumes "faithful_admin ad view fill" and "filled view fill w0" and "validate_routes doc = Inr ids"
    and "snapshot_routes ad ids w0 = (Inr prev, w1)" and "internal_main ad (Restore (JObj prev)) w2 = (r, w3)"
  shows "\<exists>failures. (r = Inr () \<and> failures = [] \<or> (\<exists>e. r = Inl e \<and> rollback_reported failures e))
     \<and> (\<forall>i. i \<notin> set ids \<longrightarrow> view w3 i = view w2 i) \<and> (\<forall>i \<in> set ids. i \<in> set failures \<or> view w3 i = view w0 i)"
proof -
  from validated_ids [OF assms(3)] have "ids \<noteq> []" by blast
  have words: "list_all (word_of ''._-'') ids" using assms(3) by (rule validated_words)
  from snapshot_routes_tells [OF assms(1,4)] have told: "tells (view w0) prev (set ids)"
    and keys: "set (dict_keys prev) = set ids" by simp_all
  then have "dict_keys prev \<noteq> []" "list_all (word_of ''._-'') (dict_keys prev)"
    using \<open>ids \<noteq> []\<close> words by (auto simp: list_all_iff)
  then have run: "restore_ids ad (dict_keys prev) prev w2 = (r, w3)"
    using assms(5) by (simp add: internal_main_def snapshot_named_def restore_routes_def bindS_def liftS_def)
  have "\<forall>i x. view w0 i = Some x \<longrightarrow> fill x = x \<and> x \<noteq> []" using assms(2) by (simp add: filled_def)
  from restore_ids_restores [OF assms(1) _ this run] told keys show ?thesis by simp
qed

theorem snapshot_restore_roundtrip_witness:
  "\<exists>prev w3. snapshot_routes memory_admin [''r''] (\<lambda>_. None) = (Inr prev, \<lambda>_. None)
     \<and> internal_main memory_admin (Restore (JObj prev)) [''r'' \<mapsto> []] = (Inr (), w3) \<and> memory_view w3 ''r'' = None"
proof -
  have ids: "validate_routes (JList [sample_internal_route]) = Inr [''r'']" by (rule sample_internal_ids)
  have snap: "snapshot_routes memory_admin [''r''] (\<lambda>_. None) = (Inr [(''r'', JNull)], \<lambda>_. None)"
    by (simp add: snapshot_routes_def memory_steps sorted_ids_def)
  obtain w3 where run: "internal_main memory_admin (Restore (JObj [(''r'', JNull)])) [''r'' \<mapsto> []] = (Inr (), w3)"
    by (simp add: internal_main_def snapshot_named_def restore_routes_def restore_ids_def sorted_ids_def restore_one_def
        put_back_def previous_route_def word_of_def is_alpha_def is_digit_def dict_keys_def memory_steps)
  from snapshot_restore_roundtrip [OF memory_admin_faithful memory_filled ids snap run]
  have "memory_view w3 ''r'' = memory_view (\<lambda>_. None) ''r''" by (auto simp: rollback_reported_def)
  with snap run show ?thesis by (simp add: memory_view_def)
qed

end
