(* ===== verification/Route_Files.thy ===== *)
theory Route_Files
  imports Route_Scripts
begin

text \<open>
  The deployers of the managed-file and semantic routes: \<open>deploy_managed_file_upload.py\<close>,
  \<open>deploy_managed_file_mcp.py\<close>, \<open>deploy_managed_file_ths.py\<close> and \<open>deploy_semantic_human.py\<close>, with the
  constants they take from \<open>tools/materialize_managed_file_ths.py\<close> and
  \<open>tools/materialize_semantic_human_runtime.py\<close>.
\<close>

definition onboarding_nodes :: json where
  "onboarding_nodes = jobj1 ''ouf-onboarding:8080'' (JInt 1)"

definition size_limit :: "int \<Rightarrow> json" where
  "size_limit n = jobj1 ''max_body_size'' (JInt n)"

text \<open>\<open>r[a].get(b)\<close> and \<open>r.get(a, {}).get(b)\<close>\<close>

definition at_get :: "json \<Rightarrow> string \<Rightarrow> string \<Rightarrow> json res" where
  "at_get r a b = bindE (jindex r a) (\<lambda>v. jget v b JNull)"

definition get_get :: "json \<Rightarrow> string \<Rightarrow> string \<Rightarrow> json res" where
  "get_get r a b = bindE (jget r a (JObj [])) (\<lambda>v. jget v b JNull)"

section \<open>The streaming upload route\<close>

definition upload_id :: string where
  "upload_id = ''mcp-managed-file-upload''"

definition in_quotes :: "string \<Rightarrow> string" where
  "in_quotes s = [CHR 0x27] @ s @ [CHR 0x27]"

definition plugin_code :: "json \<Rightarrow> string \<Rightarrow> string res" where
  "plugin_code plugins name = bindE (jindex plugins name) (\<lambda>p. bindE (jindex p ''functions'') (\<lambda>f.
     bindE (jelements f) (join_with '' '')))"

definition validate_upload :: "json \<Rightarrow> unit res" where
  "validate_upload r = bindE (validate_routes (JList [r])) (\<lambda>ids.
     if set ids \<noteq> {upload_id} then Inl (ValueError ''exact delegated upload route required'')
     else bindE (jindex r ''plugins'') (\<lambda>plugins. bindE (jindex r ''upstream'') (\<lambda>upstream.
       bindE (or_chain [
         jneq (jindex r ''uri'') (JStr ''/internal/capabilities/v1/execute/managed.file/upload''),
         jneq (jindex r ''methods'') (JList [JStr ''POST'']),
         jneq (at_get r ''labels'' ''ouf-mediation'') (JStr ''managed-file-streaming-upload-v1''),
         jneq (jget plugins ''proxy-control'' JNull) unbuffered,
         jneq (jget plugins ''client-control'' JNull) (size_limit 10485760),
         jin ''request-validation'' plugins,
         jneq (get_get plugins ''proxy-rewrite'' ''uri'') (JStr ''/api/internal/v1/onboarding/managed-file-mcp/upload''),
         jneq (jget upstream ''nodes'' JNull) onboarding_nodes,
         jneq (jget upstream ''retries'' JNull) (JInt 0)]) (\<lambda>bad.
       if bad then Inl (ValueError ''streaming upload route contract mismatch'')
       else bindE (plugin_code plugins ''serverless-pre-function'') (\<lambda>before.
         bindE (plugin_code plugins ''serverless-post-function'') (\<lambda>access.
         if \<not> contains before (''n~='' @ in_quotes ''x-ouf-file-id'') \<or> \<not> contains before (''n~='' @ in_quotes ''x-ouf-delegation'')
            \<or> contains before ''ngx.req.read_body'' \<or> contains access ''ngx.req.read_body''
            \<or> \<not> contains access ''X-OUF-Managed-File-Receipt''
         then Inl (ValueError ''upload metadata or no-buffering contract mismatch'')
         else Inr ()))))))"

definition upload_main :: "'w admin \<Rightarrow> deploy_mode \<Rightarrow> ('w, unit) io" where
  "upload_main ad mode =
     (case mode of
        Restore doc \<Rightarrow>
          bindS (liftS (snapshot_named (\<lambda>ids. set ids = {upload_id}) doc ''snapshot must contain only delegated upload route''))
            (restore_routes ad)
      | Materialize doc \<Rightarrow>
          bindS (liftS (validate_upload doc)) (\<lambda>_.
          bindS (ad_curl ad True streaming_path ''GET'' JNull) (\<lambda>(code, _).
          if code \<noteq> 200 then raiseS (ValueError ''APISIX_STREAMING_PLUGIN_UNAVAILABLE'')
          else apply_internal ad None (JList [doc]))))"

section \<open>The delegated managed-file routes\<close>

definition file_ids :: "string list" where
  "file_ids = [''mcp-managed-file-profile'', ''mcp-managed-file-preview'', ''mcp-managed-file-create'',
     ''mcp-managed-file-handoff'']"

definition probe_id :: json where
  "probe_id = JStr ''00000000-0000-4000-8000-000000000001''"

definition file_mode :: "string \<Rightarrow> string" where
  "file_mode i = (if prefix ''mcp-managed-file-'' i then drop 17 i else i)"

definition file_capabilities :: "(string, string) dict" where
  "file_capabilities = [(''profile'', ''ouf.managed-source.file.profile''), (''preview'', ''ouf.managed-source.preview''),
     (''create'', ''ouf.managed-source.onboarding.create''), (''handoff'', ''ouf.managed-source.file.upload'')]"

definition probe_arguments :: "string \<Rightarrow> json" where
  "probe_arguments m =
     (if m = ''preview'' then JObj [(''assetId'', probe_id), (''profileId'', probe_id)]
      else if m = ''handoff'' then JObj [(''handoffId'', probe_id)]
      else if m = ''create'' then JObj [(''assetId'', probe_id), (''profileId'', probe_id), (''sourceId'', JStr ''probe-source''),
        (''name'', JStr ''Probe''), (''owner'', JStr ''Probe''), (''targetClassIri'', JStr ''https://example.org/Probe''),
        (''semanticRefs'', jstrs [''probe@1'']), (''sourceObjectKeyFields'', JList []),
        (''fields'', JList [JObj [(''fieldName'', JStr ''probe''), (''extractionDecision'', JStr ''INCLUDE''),
          (''dataAccessLabel'', JStr ''OPEN''), (''targetPropertyIri'', JStr ''https://example.org/probe'')]])]
      else JObj [(''assetId'', probe_id)])"

definition anonymous_probe :: "route \<Rightarrow> json res" where
  "anonymous_probe r = bindE (route_id r) (\<lambda>i. let m = file_mode i in
     (case map_of file_capabilities m of
        None \<Rightarrow> Inl (KeyError m)
      | Some cap \<Rightarrow> Inr (JObj [(''GatewayBindingRef'', JStr (''capability://'' @ cap)), (''CapabilityID'', JStr cap),
          (''Owner'', JStr ''onboarding''), (''OperationClass'', JStr (if m = ''preview'' then ''READ'' else ''COMMAND'')),
          (''Arguments'', probe_arguments m), (''Identity'', JObj [(''ServicePrincipalID'', JStr ''anonymous-probe''),
            (''PrincipalID'', JStr ''anonymous-probe''), (''TenantID'', JStr ''anonymous-probe''),
            (''ActorType'', JStr ''HUMAN''), (''AuthenticationContextRef'', JStr ''probe'')]),
          (''AuthorizationDecisionRef'', JStr ''anonymous-probe''), (''CorrelationID'', JStr ''anonymous-probe''),
          (''IdempotencyKey'', JStr ''anonymous-probe''), (''AttemptID'', probe_id),
          (''RequestHash'', JStr (replicate 64 CHR ''0'')), (''MaxResultBytes'', JInt 4096)])))"

definition file_contract :: "json \<Rightarrow> unit \<Rightarrow> unit res" where
  "file_contract r u = bindE (route_id (the_fields r)) (\<lambda>i. let m = file_mode i in
     bindE (or_chain [
       jneq (jindex r ''uri'') (JStr (''/internal/capabilities/v1/execute/managed.file/'' @ m)),
       jneq (jindex r ''methods'') (JList [JStr ''POST'']),
       jneq (bindE (jindex r ''plugins'') (\<lambda>p. get_get p ''proxy-rewrite'' ''uri''))
         (JStr (''/api/internal/v1/onboarding/managed-file-mcp/'' @ m)),
       jneq (at_get r ''upstream'' ''nodes'') onboarding_nodes,
       jneq (at_get r ''upstream'' ''retries'') (JInt 0),
       jneq (at_get r ''labels'' ''ouf-mediation'') (JStr ''managed-file-delegation-v1''),
       bindE (jindex r ''plugins'') (\<lambda>p. bindE (jin ''request-validation'' p) (\<lambda>b. Inr (\<not> b)))]) (\<lambda>bad.
     if bad then Inl (ValueError (''managed-file route contract mismatch: '' @ m)) else Inr ()))"

definition in_file_ids :: "json \<Rightarrow> bool res" where
  "in_file_ids r = (if \<not> is_obj r then Inr False
     else bindE (jget r ''id'' JNull) (\<lambda>i. bindE (jset [i]) (\<lambda>_. Inr (i \<in> JStr ` set file_ids))))"

definition select_files :: "json \<Rightarrow> json res" where
  "select_files doc = bindE (jget doc ''routes'' JNull) (\<lambda>v. case v of
      JList rs \<Rightarrow> bindE (filterE in_file_ids rs) (\<lambda>selected. bindE (validate_routes (JList selected)) (\<lambda>ids.
        if set ids \<noteq> set file_ids then Inl (ValueError ''exact managed-file route set required'')
        else bindE (foldE file_contract selected ()) (\<lambda>_. Inr (JList selected))))
    | _ \<Rightarrow> Inl (ValueError ''missing routes''))"

definition files_main :: "'w admin \<Rightarrow> deploy_mode \<Rightarrow> ('w, unit) io" where
  "files_main ad mode =
     (case mode of
        Restore doc \<Rightarrow>
          bindS (liftS (snapshot_named (\<lambda>ids. set ids \<in> {set file_ids, set file_ids - {''mcp-managed-file-handoff''}}) doc
            ''snapshot must contain the exact managed-file route set'')) (restore_routes ad)
      | Materialize doc \<Rightarrow> bindS (liftS (select_files doc)) (apply_internal ad (Some anonymous_probe)))"

section \<open>Installing beside existing routes\<close>

text \<open>
  The picker and semantic installers do not overwrite a route that exists: it must hold the wanted fields
  already. Only missing routes are written; every route is read back.
\<close>

definition drifted :: "previous_routes \<Rightarrow> route \<Rightarrow> string \<Rightarrow> bool" where
  "drifted prev r i \<longleftrightarrow> previous_route prev i \<noteq> JNull \<and> differs (previous_route prev i) r"

definition install_missing :: "'w admin \<Rightarrow> previous_routes \<Rightarrow> (string \<times> string) \<Rightarrow> route \<Rightarrow> ('w, unit) io" where
  "install_missing ad prev says r = bindS (liftS (route_id r)) (\<lambda>i.
     bindS (if previous_route prev i \<noteq> JNull then returnS ()
       else bindS (admin_route ad ''PUT'' i (JObj r)) (\<lambda>(code, _).
         if code \<notin> {200, 201} then raiseS (RuntimeError (fst says @ i)) else returnS ())) (\<lambda>_.
     bindS (admin_route ad ''GET'' i JNull) (\<lambda>(code, body).
       if code \<noteq> 200 then raiseS (RuntimeError (snd says @ i))
       else bindS (liftS (route_value body)) (\<lambda>actual.
         if differs actual r then raiseS (RuntimeError (snd says @ i)) else returnS ()))))"

section \<open>The managed-file picker\<close>

definition picker_id :: string where
  "picker_id = ''trusted-human-managed-file-picker''"

definition login_id :: string where
  "login_id = ''authorization-ths-login''"

definition login_uris :: "string list" where
  "login_uris = [''/oauth2/authorization/ouf-ths'', ''/login/oauth2/code/ouf-ths'']"

text \<open>\<open>next(r for r in routes if r["id"] == i)\<close>\<close>

fun find_route :: "string \<Rightarrow> json list \<Rightarrow> json res" where
  "find_route i [] = Inl (RuntimeError ''StopIteration'')"
| "find_route i (r # rs) = bindE (jindex r ''id'') (\<lambda>v. if v = JStr i then Inr r else find_route i rs)"

definition select_picker :: "json \<Rightarrow> json res" where
  "select_picker doc = bindE (jget doc ''routes'' JNull) (\<lambda>v. case v of
      JList rs \<Rightarrow>
        if length rs \<noteq> 2 then Inl (ValueError ''exact picker and OIDC route required'')
        else bindE (id_set (filter is_obj rs)) (\<lambda>s.
          if s \<noteq> {JStr picker_id, JStr login_id} then Inl (ValueError ''exact picker and OIDC route required'')
          else bindE (find_route picker_id rs) (\<lambda>r. bindE (or_chain [
            jneq (jget r ''id'' JNull) (JStr picker_id),
            jneq (jget r ''uri'' JNull) (JStr ''/trusted-human/managed-files/*''),
            jneq (jget r ''methods'' JNull) (jstrs [''GET'', ''POST'']),
            jneq (get_get r ''labels'' ''ouf-surface'') (JStr ''TRUSTED_HUMAN_MANAGED_FILE''),
            jneq (get_get r ''plugins'' ''proxy-control'') unbuffered,
            jneq (get_get r ''plugins'' ''client-control'') (size_limit 10485760),
            jneq (get_get r ''upstream'' ''nodes'') onboarding_nodes,
            jneq (get_get r ''upstream'' ''retries'') (JInt 0)]) (\<lambda>bad.
            if bad then Inl (ValueError ''picker route contract mismatch'') else Inr r)))
    | _ \<Rightarrow> Inl (ValueError ''exact picker and OIDC route required''))"

definition login_upstream :: json where
  "login_upstream = JObj [(''type'', JStr ''roundrobin''), (''nodes'', onboarding_nodes), (''retries'', JInt 0),
     (''timeout'', JObj [(''connect'', JInt 3), (''send'', JInt 3), (''read'', JInt 10)])]"

definition keys_differ :: "json \<Rightarrow> string set \<Rightarrow> bool res" where
  "keys_differ v ks = bindE (jelements v) (\<lambda>vs. bindE (jset vs) (\<lambda>s. Inr (s \<noteq> JStr ` ks)))"

definition select_login :: "json \<Rightarrow> json res" where
  "select_login doc = bindE (jindex doc ''routes'') (\<lambda>v. bindE (jelements v) (\<lambda>rs.
     bindE (find_route login_id rs) (\<lambda>r.
     bindE (jget r ''plugins'' (JObj [])) (\<lambda>plugins.
     bindE (jget plugins ''serverless-pre-function'' (JObj [])) (\<lambda>pre.
     bindE (jget pre ''functions'' (JList [])) (\<lambda>functions.
     bindE (or_chain [
       keys_differ r {''id'', ''uris'', ''methods'', ''plugins'', ''upstream''},
       jneq (jget r ''uris'' JNull) (jstrs login_uris), jneq (jget r ''methods'' JNull) (jstrs [''GET'']),
       keys_differ plugins {''client-control'', ''serverless-pre-function''},
       jneq (jget plugins ''client-control'' JNull) (size_limit 65536),
       jneq (jget pre ''phase'' JNull) (JStr ''rewrite''),
       bindE (jelements functions) (\<lambda>fs. Inr (length fs \<noteq> 1
         \<or> (case fs of JStr f # _ \<Rightarrow> \<not> contains f ''ngx.req.clear_header(k)'' | _ \<Rightarrow> True))),
       jneq (jget r ''upstream'' JNull) login_upstream]) (\<lambda>bad.
     if bad then Inl (ValueError ''OIDC login route contract mismatch'') else Inr r)))))))"

definition picker_drift :: "previous_routes \<Rightarrow> route \<Rightarrow> unit res" where
  "picker_drift prev r = bindE (route_id r) (\<lambda>i.
     if drifted prev r i then Inl (RuntimeError (''existing THS route drift: '' @ i)) else Inr ())"

definition install_picker :: "'w admin \<Rightarrow> route list \<Rightarrow> ('w, unit) io" where
  "install_picker ad routes =
     bindS (snapshot_routes ad [picker_id, login_id]) (\<lambda>prev.
     rolling_back
       (bindS (forS (\<lambda>r. bindS (liftS (picker_drift prev r)) (\<lambda>_.
           install_missing ad prev (''THS route write failed: '', ''THS route readback differs: '') r)) routes) (\<lambda>_.
        bindS (denied ad {302, 401, 403} (\<lambda>code. ''anonymous picker returned HTTP '' @ nat_text code)
          (''GET'', ''/trusted-human/managed-files/'')) (\<lambda>_.
        denied ad {302} (\<lambda>code. ''OIDC login returned HTTP '' @ nat_text code) (''GET'', hd login_uris))))
       (restore_routes ad prev))"

definition picker_main :: "'w admin \<Rightarrow> deploy_mode \<Rightarrow> ('w, unit) io" where
  "picker_main ad mode =
     (case mode of
        Restore doc \<Rightarrow>
          bindS (liftS (snapshot_named (\<lambda>ids. set ids \<in> {{picker_id}, {picker_id, login_id}}) doc
            ''snapshot must contain only picker/OIDC routes'')) (restore_routes ad)
      | Materialize doc \<Rightarrow>
          bindS (liftS (select_picker doc)) (\<lambda>p. bindS (liftS (select_login doc)) (\<lambda>l.
          install_picker ad [the_fields p, the_fields l])))"

section \<open>The semantic route set\<close>

definition semantic_routes :: "(string \<times> string \<times> string \<times> string) list" where
  "semantic_routes = [
     (''semantic-artifact-propose'', ''POST'', ''/api/semantic/v1/artifacts'', ''ouf.semantic.propose''),
     (''semantic-rdf-import'', ''POST'', ''/api/semantic/v1/imports'', ''ouf.semantic.propose''),
     (''semantic-revision-validate'', ''POST'', ''/api/semantic/v1/revisions/*'', ''ouf.semantic.review.prepare''),
     (''semantic-approval-request'', ''POST'', ''/api/semantic/v1/approval-challenges'', ''ouf.semantic.approval.request''),
     (''semantic-human-card'', ''GET'', ''/api/trusted-human/v1/semantic-approval-challenges/*'', ''ouf.semantic.review''),
     (''semantic-human-decision'', ''POST'', ''/api/trusted-human/v1/semantic-approval-challenges/*'', ''ouf.semantic.approve''),
     (''semantic-human-publish'', ''POST'', ''/api/trusted-human/v1/semantic-approval-challenges/*'', ''ouf.semantic.publish''),
     (''semantic-artifact-search'', ''GET'', ''/api/semantic/v1/search'', ''ouf.semantic.search'')]"

definition semantic_ids :: "string list" where
  "semantic_ids = map fst semantic_routes"

definition semantic_regex :: "(string, string) dict" where
  "semantic_regex = [
     (''semantic-revision-validate'', ''^/api/semantic/v1/revisions/[0-9a-fA-F-]{36}:validate$''),
     (''semantic-human-card'', ''^/api/trusted-human/v1/semantic-approval-challenges/[0-9a-fA-F-]{36}$''),
     (''semantic-human-decision'', ''^/api/trusted-human/v1/semantic-approval-challenges/[0-9a-fA-F-]{36}/decision$''),
     (''semantic-human-publish'', ''^/api/trusted-human/v1/semantic-approval-challenges/[0-9a-fA-F-]{36}/publish$'')]"

definition semantic_vars :: "string \<Rightarrow> json" where
  "semantic_vars i = (case map_of semantic_regex i of
     None \<Rightarrow> JNull | Some p \<Rightarrow> JList [jstrs [''uri'', ''~~'', p]])"

text \<open>\<open>{r.get("id"): r for r in routes if isinstance(r, dict)}\<close>: the last route of an id.\<close>

definition index_ids :: "json list \<Rightarrow> (json \<times> json) list res" where
  "index_ids rs = foldE (\<lambda>r d. if \<not> is_obj r then Inr d else bindE (jget r ''id'' JNull) (\<lambda>i.
     bindE (jset [i]) (\<lambda>_. Inr (dict_set i r d)))) rs []"

definition semantic_contract :: "json \<Rightarrow> string \<times> string \<times> string \<times> string \<Rightarrow> bool res" where
  "semantic_contract r c = (case c of (i, verb, uri, scope) \<Rightarrow>
     bindE (jget r ''plugins'' JNull) (\<lambda>p0. let plugins = or_object p0 in
     bindE (jget plugins ''openid-connect'' JNull) (\<lambda>o0. let oidc = or_object o0 in
     bindE (jget r ''upstream'' JNull) (\<lambda>b0. let backend = or_object b0 in
     bindE (jget backend ''nodes'' JNull) (\<lambda>n0. let nodes = or_object n0 in
     or_chain [
       jneq (jget r ''methods'' JNull) (jstrs [verb]), jneq (jget r ''uri'' JNull) (JStr uri),
       jneq (jget r ''vars'' JNull) (semantic_vars i),
       jneq (get_get r ''labels'' ''ouf-surface'') (JStr ''TRUSTED_HUMAN_SEMANTIC''),
       jneq (get_get r ''labels'' ''ouf-capability'') (JStr scope),
       jneq (jget oidc ''required_scopes'' JNull) (jstrs [scope]),
       bindE (jget oidc ''bearer_only'' JNull) (\<lambda>v. Inr (v \<noteq> JBool True)),
       bindE (jget oidc ''ssl_verify'' JNull) (\<lambda>v. Inr (v \<noteq> JBool True)),
       bindE (jget oidc ''use_jwks'' JNull) (\<lambda>v. Inr (v \<noteq> JBool True)),
       bindE (mapE (\<lambda>n. jin n plugins) [''serverless-pre-function'', ''serverless-post-function'', ''client-control''])
         (\<lambda>oks. Inr (False \<in> set oks)),
       jneq (get_get plugins ''client-control'' ''max_body_size'') (JInt (if i = ''semantic-rdf-import'' then 8388608 else 65536)),
       jneq (jget backend ''retries'' JNull) (JInt 0),
       Inr (\<not> json_eq nodes (jobj1 ''ouf-semantic:8080'' (JInt 1))
          \<and> \<not> json_eq nodes (jobj1 ''ouf-semantic-registry:8080'' (JInt 1)))])))))"

definition semantic_route :: "(json \<times> json) list \<Rightarrow> string \<times> string \<times> string \<times> string \<Rightarrow> json res" where
  "semantic_route indexed c = (case map_of indexed (JStr (fst c)) of
     None \<Rightarrow> Inl (KeyError (fst c))
   | Some r \<Rightarrow> bindE (semantic_contract r c) (\<lambda>bad.
       if bad then Inl (ValueError (''SEMANTIC_ROUTE_CONTRACT_CHANGED:'' @ fst c)) else Inr r))"

definition validate_semantic :: "json \<Rightarrow> json list res" where
  "validate_semantic doc = bindE (jget doc ''routes'' JNull) (\<lambda>v. case v of
      JList rs \<Rightarrow>
        if length rs \<noteq> length semantic_routes then Inl (ValueError ''SEMANTIC_ROUTE_SET_INVALID'')
        else bindE (index_ids rs) (\<lambda>indexed.
          if set (dict_keys indexed) \<noteq> JStr ` set semantic_ids then Inl (ValueError ''SEMANTIC_ROUTE_SET_INVALID'')
          else mapE (semantic_route indexed) semantic_routes)
    | _ \<Rightarrow> Inl (ValueError ''SEMANTIC_ROUTE_SET_INVALID''))"

definition sample_uri :: "route \<Rightarrow> string" where
  "sample_uri r =
     (let i = (case map_of r ''id'' of Some (JStr s) \<Rightarrow> s | _ \<Rightarrow> []) in
      concat (map (\<lambda>c. if c = CHR ''*'' then ''00000000-0000-0000-0000-000000000000'' else [c]) (route_uri r))
      @ (if i = ''semantic-revision-validate'' then '':validate'' else if i = ''semantic-human-decision'' then ''/decision''
         else if i = ''semantic-human-publish'' then ''/publish'' else []))"

definition semantic_drift :: "previous_routes \<Rightarrow> route \<Rightarrow> unit \<Rightarrow> unit res" where
  "semantic_drift prev r u = bindE (route_id r) (\<lambda>i.
     if drifted prev r i then Inl (RuntimeError (''EXISTING_SEMANTIC_ROUTE_DRIFT:'' @ i)) else Inr ())"

definition semantic_denied :: "'w admin \<Rightarrow> route \<Rightarrow> ('w, unit) io" where
  "semantic_denied ad r = bindS (liftS (route_id r)) (\<lambda>i. bindS (liftS (first_method r)) (\<lambda>verb.
     denied ad {401, 403} (\<lambda>code. ''SEMANTIC_ANONYMOUS_NOT_DENIED:'' @ i @ '':'' @ nat_text code) (verb, sample_uri r)))"

definition install_semantic :: "'w admin \<Rightarrow> route list \<Rightarrow> ('w, unit) io" where
  "install_semantic ad routes =
     bindS (snapshot_routes ad semantic_ids) (\<lambda>prev.
     bindS (liftS (foldE (semantic_drift prev) routes ())) (\<lambda>_.
     rolling_back
       (bindS (forS (install_missing ad prev (''SEMANTIC_ROUTE_WRITE_FAILED:'', ''SEMANTIC_ROUTE_READBACK_FAILED:'')) routes)
         (\<lambda>_. forS (semantic_denied ad) routes))
       (restore_routes ad prev)))"

definition semantic_main :: "'w admin \<Rightarrow> deploy_mode \<Rightarrow> ('w, unit) io" where
  "semantic_main ad mode =
     (case mode of
        Restore doc \<Rightarrow>
          bindS (liftS (snapshot_named (\<lambda>ids. set ids \<in> {set semantic_ids, set semantic_ids - {''semantic-rdf-import''}}) doc
            ''SEMANTIC_SNAPSHOT_INVALID'')) (restore_routes ad)
      | Materialize doc \<Rightarrow>
          bindS (liftS (validate_semantic doc)) (\<lambda>rs. install_semantic ad (map the_fields rs)))"

end
