(* ===== verification/Route_Files_Safety.thy ===== *)
theory Route_Files_Safety
  imports Route_Scripts_Safety Route_Files
begin

text \<open>
  The picker and semantic installers against a faithful Admin API: a route that exists is never
  changed, whatever the outcome, and success means that every wanted route is stored.
\<close>

section \<open>Existing routes\<close>

definition keeps_old :: "'w route_view \<Rightarrow> (string \<Rightarrow> route option) \<Rightarrow> 'w \<Rightarrow> bool" where
  "keeps_old view old w \<longleftrightarrow> (\<forall>i s. old i = Some s \<longrightarrow> view w i = Some s)"

lemma keeps_view_old: "keeps view m \<Longrightarrow> preserves (keeps_old view old) m"
  by (simp add: keeps_def preserves_def keeps_old_def)

lemma keeps_old_put:
  assumes "faithful_admin ad view fill" and "old i = None \<or> old i = Some r \<and> fill r = r"
  shows "preserves (keeps_old view old) (admin_route ad ''PUT'' i (JObj r))"
proof (rule preservesI)
  fix w res w' assume w: "keeps_old view old w" and run: "admin_route ad ''PUT'' i (JObj r) w = (res, w')"
  have "view w' = view w \<or> view w' = (view w)(i \<mapsto> fill r)"
    using assms(1) run unfolding faithful_admin_def puts_route_def admin_route_def by blast
  with w assms(2) show "keeps_old view old w'" by (auto simp: keeps_old_def)
qed

lemma keeps_old_delete:
  assumes "faithful_admin ad view fill" and "old i = None"
  shows "preserves (keeps_old view old) (admin_route ad ''DELETE'' i d)"
proof (rule preservesI)
  fix w res w' assume w: "keeps_old view old w" and run: "admin_route ad ''DELETE'' i d w = (res, w')"
  have "view w' = view w \<or> view w' = (view w)(i := None)"
    using assms(1) run unfolding faithful_admin_def deletes_route_def admin_route_def by blast
  with w assms(2) show "keeps_old view old w'" by (auto simp: keeps_old_def)
qed

lemma restore_keeps_old:
  assumes admin: "faithful_admin ad view fill" and told: "tells old prev (set ids)"
    and ok: "\<forall>i r. old i = Some r \<longrightarrow> fill r = r \<and> r \<noteq> []"
  shows "preserves (keeps_old view old) (restore_ids ad ids prev)"
proof -
  have one: "preserves (keeps_old view old) (restore_one ad i (previous_route prev i))" if "i \<in> set ids" for i
  proof -
    have "previous_route prev i = (case old i of None \<Rightarrow> JNull | Some r \<Rightarrow> JObj r)"
      using told that by (simp add: tells_def previous_route_def)
    then have "preserves (keeps_old view old) (put_back ad i (previous_route prev i))"
      using ok keeps_old_delete [OF admin] keeps_old_put [OF admin] by (cases "old i") (auto simp: put_back_def)
    then show ?thesis unfolding restore_one_def by (intro preserves_intros)
  qed
  have "preserves (keeps_old view old) (restore_loop ad prev js failures)" if "set js \<subseteq> set ids" for js failures
    using that by (induction js arbitrary: failures) (auto intro!: preserves_intros one)
  then show ?thesis unfolding restore_ids_def by (intro preserves_intros) (simp add: sorted_ids_def)
qed

section \<open>Installing one route\<close>

lemma install_missing_outside:
  assumes "faithful_admin ad view fill" and "\<And>i. route_id r = Inr i \<Longrightarrow> i \<in> ids"
  shows "keeps (outside view ids) (install_missing ad prev says r)"
  unfolding install_missing_def
proof (rule keeps_bindS_reached)
  fix w i w' assume "liftS (route_id r) w = (Inr i, w')"
  then have i: "i \<in> ids" using assms(2) by (simp add: liftS_def)
  show "keeps (outside view ids) (bindS (if previous_route prev i \<noteq> JNull then returnS ()
       else bindS (admin_route ad ''PUT'' i (JObj r)) (\<lambda>(code, _).
         if code \<notin> {200, 201} then raiseS (RuntimeError (fst says @ i)) else returnS ())) (\<lambda>_.
     bindS (admin_route ad ''GET'' i JNull) (\<lambda>(code, body).
       if code \<noteq> 200 then raiseS (RuntimeError (snd says @ i))
       else bindS (liftS (route_value body)) (\<lambda>actual.
         if differs actual r then raiseS (RuntimeError (snd says @ i)) else returnS ()))))"
    by (auto split: prod.splits intro!: keeps_intros admin_write_outside(1) [OF assms(1) i]
        keeps_view_outside [OF admin_get [OF assms(1)]])
qed (intro keeps_intros)

lemma install_missing_old:
  assumes "faithful_admin ad view fill" and "tells old prev ids" and "\<And>i. route_id r = Inr i \<Longrightarrow> i \<in> ids"
  shows "preserves (keeps_old view old) (install_missing ad prev says r)"
proof (cases "route_id r")
  case (Inl e)
  then show ?thesis by (simp add: install_missing_def preserves_def io_defs)
next
  case (Inr i)
  have "previous_route prev i = JNull \<Longrightarrow> old i = None"
    using assms(2) assms(3) [OF Inr] by (auto simp: tells_def previous_route_def split: option.splits)
  then have "preserves (keeps_old view old) (if previous_route prev i \<noteq> JNull then returnS ()
       else bindS (admin_route ad ''PUT'' i (JObj r)) (\<lambda>(code, _).
         if code \<notin> {200, 201} then raiseS (RuntimeError (fst says @ i)) else returnS ()))"
    using keeps_old_put [OF assms(1)] by (auto intro!: preserves_intros)
  moreover have "preserves (keeps_old view old) (admin_route ad ''GET'' i JNull)"
    by (intro keeps_view_old admin_get [OF assms(1)])
  ultimately show ?thesis unfolding install_missing_def Inr bindS_lift
    by (rule preserves_bindS [OF _ preserves_bindS]) (auto split: prod.splits intro!: preserves_intros)
qed

lemma install_missing_holds:
  assumes "faithful_admin ad view fill" and "install_missing ad prev says r w = (Inr (), w')"
  shows "holds view w' r"
proof -
  obtain i body actual w1 where i: "route_id r = Inr i" and g: "admin_route ad ''GET'' i JNull w1 = (Inr (200, body), w')"
    and ok: "route_value body = Inr actual" "\<not> differs actual r"
    using assms(2) by (auto simp: install_missing_def bindS_Inr liftS_def raiseS_def returnS_def split: if_splits prod.splits)
  moreover from g assms(1) obtain kvs where "view w1 i = Some kvs" "route_value body = Inr (JObj kvs)" "view w' = view w1"
    unfolding faithful_admin_def reads_route_def admin_route_def by blast
  ultimately show ?thesis by (auto simp: holds_def)
qed

section \<open>An installer\<close>

text \<open>
  The outcome of an installation of \<open>rs\<close> on \<open>ids\<close>: existing routes are what they were, routes of other ids
  are untouched, and success stores every route.
\<close>

definition installed :: "'w route_view \<Rightarrow> string set \<Rightarrow> route set \<Rightarrow> 'w \<Rightarrow> unit res \<Rightarrow> 'w \<Rightarrow> bool" where
  "installed view ids rs w r w' \<longleftrightarrow> (\<forall>i s. view w i = Some s \<longrightarrow> view w' i = Some s)
     \<and> (\<forall>i. i \<notin> ids \<longrightarrow> view w' i = view w i) \<and> (r = Inr () \<longrightarrow> (\<forall>x \<in> rs. holds view w' x))"

lemma installed_unchanged: "view w' = view w \<Longrightarrow> installed view ids rs w (Inl e) w'"
  by (simp add: installed_def)

lemma installer_outcome:
  assumes admin: "faithful_admin ad view fill" and w: "filled view fill w"
    and told: "tells (view w) prev (set ids)" "set (dict_keys prev) = set ids" and same: "view w1 = view w"
    and ids: "distinct (map route_id rs)" "\<forall>x \<in> set rs. \<exists>i \<in> set ids. route_id x = Inr i"
    and denials: "keeps view denials"
    and run: "rolling_back (bindS (forS (\<lambda>x. bindS (liftS (c x)) (\<lambda>_. install_missing ad prev says x)) rs) (\<lambda>_. denials))
        (restore_routes ad prev) w1 = (r, w')"
  shows "installed view (set ids) (set rs) w r w'"
proof -
  let ?step = "\<lambda>x. bindS (liftS (c x)) (\<lambda>_. install_missing ad prev says x)"
  let ?body = "bindS (forS ?step rs) (\<lambda>_. denials)"
  have step: "keeps (outside view js) (?step x)" if "\<And>i. route_id x = Inr i \<Longrightarrow> i \<in> js" for x js
    using that by (intro keeps_intros install_missing_outside [OF admin])
  have "keeps (outside view (set ids)) (forS ?step rs)"
    by (rule keeps_forS, rule step) (use ids(2) in force)
  then have body: "keeps (outside view (set (dict_keys prev))) ?body"
    using told(2) keeps_view_outside [OF denials] by (simp add: keeps_bindS)
  have w1: "filled view fill w1" "tells (view w1) prev (set (dict_keys prev))"
    using w told same by (simp_all add: filled_def)
  note dep = rolling_back_deployed [OF admin w1 body run [unfolded restore_routes_def]]
  have ok: "\<forall>i r. view w i = Some r \<longrightarrow> fill r = r \<and> r \<noteq> []" using w by (simp add: filled_def)
  have "preserves (keeps_old view (view w)) (forS ?step rs)"
  proof -
    have "preserves (keeps_old view (view w)) (?step x)" if "x \<in> set rs" for x
      using that ids(2) by (intro preserves_intros install_missing_old [OF admin told(1)]) force
    then show ?thesis by (rule preserves_forS)
  qed
  then have "preserves (keeps_old view (view w)) (rolling_back ?body (restore_routes ad prev))"
    using restore_keeps_old [OF admin _ ok] told unfolding rolling_back_def restore_routes_def
    by (intro preserves_tryS preserves_bindS preserves_pure keeps_view_old [OF denials]) simp_all
  from preservesD [OF this run] same have "keeps_old view (view w) w'" by (simp add: keeps_old_def)
  moreover have "view w' i = view w i" if "i \<notin> set ids" for i
    using dep that told(2) same by (simp add: deployed_def)
  moreover have "holds view w' x" if fin: "r = Inr ()" and x: "x \<in> set rs" for x
  proof -
    from dep fin have "?body w1 = (Inr (), w')" by blast
    then obtain w2 where p: "forS ?step rs w1 = (Inr (), w2)" and d: "denials w2 = (Inr (), w')"
      by (auto simp: bindS_Inr)
    have "\<exists>y \<in> set rs. route_id y = route_id x \<and> holds view w2 y"
      by (rule forS_hold [OF _ _ p x]) (auto simp: bindS_Inr intro: install_missing_holds [OF admin] step)
    then obtain y where y: "y \<in> set rs" "route_id y = route_id x" "holds view w2 y" by blast
    with ids(1) x have "y = x" by (metis distinct_map inj_onD)
    with y(3) holds_view [OF keepsD [OF denials d]] show ?thesis by metis
  qed
  ultimately show ?thesis by (simp add: installed_def keeps_old_def)
qed

section \<open>The semantic routes\<close>

lemma index_ids_keys:
  assumes "index_ids rs = Inr indexed" and "map_of indexed i = Some r"
  shows "jget r ''id'' JNull = Inr i"
proof -
  let ?f = "\<lambda>r d. if \<not> is_obj r then Inr d else bindE (jget r ''id'' JNull) (\<lambda>i. bindE (jset [i]) (\<lambda>_. Inr (dict_set i r d)))"
  let ?ok = "\<lambda>d. \<forall>i r. map_of d i = Some r \<longrightarrow> jget r ''id'' JNull = Inr i"
  have step: "?ok d'" if "?f v d = Inr d'" "?ok d" for v d d'
    using that by (auto simp: bindE_Inr_iff dict_simps split: if_splits)
  have "?ok d'" if "foldE ?f vs d = Inr d'" "?ok d" for vs d d'
    using that
  proof (induction vs arbitrary: d)
    case Nil
    then show ?case by simp
  next
    case (Cons v vs)
    from Cons.prems(1) obtain m where m: "?f v d = Inr m" "foldE ?f vs m = Inr d'"
      unfolding foldE.simps bindE_Inr_iff by blast
    from step [OF m(1) Cons.prems(2)] show ?case by (rule Cons.IH [OF m(2)])
  qed
  from this [OF assms(1) [unfolded index_ids_def]] assms(2) show ?thesis by simp
qed

lemma got_id: "jget r ''id'' JNull = Inr (JStr i) \<Longrightarrow> route_id (the_fields r) = Inr i"
  by (cases r) (auto simp: route_id_def split: option.splits)

lemma validated_semantic:
  assumes "validate_semantic doc = Inr rs"
  shows "map (\<lambda>r. route_id (the_fields r)) rs = map Inr semantic_ids"
proof -
  from assms obtain indexed where ok: "mapE (semantic_route indexed) semantic_routes = Inr rs"
    and index: "\<And>i r. map_of indexed i = Some r \<Longrightarrow> jget r ''id'' JNull = Inr i"
    by (auto simp: validate_semantic_def bindE_Inr_iff jlist_case_Inr split: if_splits dest: index_ids_keys)
  from ok have "list_all2 (\<lambda>c r. semantic_route indexed c = Inr r) semantic_routes rs" by (simp add: mapE_Inr_iff)
  then have "list_all2 (\<lambda>c r. route_id (the_fields r) = Inr (fst c)) semantic_routes rs"
    by (rule list_all2_mono) (auto simp: semantic_route_def bindE_Inr_iff split: option.splits if_splits intro!: got_id dest: index)
  then show ?thesis
    unfolding semantic_ids_def by (induction rule: list_all2_induct) simp_all
qed

lemma semantic_denied_view: "faithful_admin ad view fill \<Longrightarrow> keeps view (semantic_denied ad r)"
  unfolding semantic_denied_def by (intro keeps_intros denied_keeps_view)

lemma semantic_outcome:
  assumes admin: "faithful_admin ad view fill" and w: "filled view fill w"
    and rs: "map route_id rs = map Inr semantic_ids" and run: "install_semantic ad rs w = (r, w')"
  shows "installed view (set semantic_ids) (set rs) w r w'"
proof -
  obtain s w1 where snap: "snapshot_routes ad semantic_ids w = (s, w1)" by (cases "snapshot_routes ad semantic_ids w")
  have same: "view w1 = view w" using keepsD [OF snapshot_routes_view [OF admin] snap] .
  show ?thesis
  proof (cases s)
    case (Inl e)
    with run snap same show ?thesis by (auto simp: install_semantic_def bindS_def intro: installed_unchanged)
  next
    case s: (Inr prev)
    show ?thesis
    proof (cases "foldE (semantic_drift prev) rs ()")
      case (Inl e)
      with run snap s have "r = Inl e" "w' = w1"
        by (simp_all add: install_semantic_def bindS_def liftS_def)
      with same show ?thesis by (simp add: installed_unchanged)
    next
      case (Inr u)
      have "rolling_back (bindS (forS (\<lambda>x. bindS (liftS (Inr ())) (\<lambda>_. install_missing ad prev
          (''SEMANTIC_ROUTE_WRITE_FAILED:'', ''SEMANTIC_ROUTE_READBACK_FAILED:'') x)) rs) (\<lambda>_. forS (semantic_denied ad) rs))
          (restore_routes ad prev) w1 = (r, w')"
        using run snap s Inr by (simp add: install_semantic_def bindS_lift) (simp add: bindS_def liftS_def)
      moreover have "tells (view w) prev (set semantic_ids)" "set (dict_keys prev) = set semantic_ids"
        using snapshot_routes_tells [OF admin] snap s by blast+
      moreover have "distinct (map route_id rs)" unfolding rs
        by (simp add: semantic_ids_def semantic_routes_def)
      moreover have "\<forall>x \<in> set rs. \<exists>i \<in> set semantic_ids. route_id x = Inr i"
        using rs by (metis (no_types, lifting) image_iff list.set_map)
      moreover have "keeps view (forS (semantic_denied ad) rs)" by (intro keeps_forS semantic_denied_view [OF admin])
      ultimately show ?thesis by (intro installer_outcome [where c = "\<lambda>_. Inr ()", OF admin w _ _ same])
    qed
  qed
qed

section \<open>The picker and its login route\<close>

lemma find_route_id: "find_route i rs = Inr r \<Longrightarrow> route_id (the_fields r) = Inr i"
proof (induction rs)
  case (Cons v rs)
  then show ?case
    by (cases v) (auto simp: bindE_Inr_iff route_id_def split: option.splits if_splits)
qed simp

lemma picker_outcome:
  assumes admin: "faithful_admin ad view fill" and w: "filled view fill w"
    and rs: "map route_id rs = map Inr [picker_id, login_id]" and run: "install_picker ad rs w = (r, w')"
  shows "installed view {picker_id, login_id} (set rs) w r w'"
proof -
  let ?ids = "[picker_id, login_id]"
  obtain s w1 where snap: "snapshot_routes ad ?ids w = (s, w1)" by (cases "snapshot_routes ad ?ids w")
  have same: "view w1 = view w" using keepsD [OF snapshot_routes_view [OF admin] snap] .
  show ?thesis
  proof (cases s)
    case (Inl e)
    with run snap same show ?thesis by (auto simp: install_picker_def bindS_def intro: installed_unchanged)
  next
    case (Inr prev)
    have told: "tells (view w) prev (set ?ids)" "set (dict_keys prev) = set ?ids"
      using snapshot_routes_tells [OF admin] snap Inr by blast+
    have ids: "distinct (map route_id rs)" unfolding rs by (simp add: picker_id_def login_id_def)
    have members: "\<forall>x \<in> set rs. \<exists>i \<in> set ?ids. route_id x = Inr i"
      using rs by (metis (no_types, lifting) image_iff list.set_map)
    let ?denials = "bindS (denied ad {302, 401, 403} (\<lambda>code. ''anonymous picker returned HTTP '' @ nat_text code)
        (''GET'', ''/trusted-human/managed-files/'')) (\<lambda>_.
      denied ad {302} (\<lambda>code. ''OIDC login returned HTTP '' @ nat_text code) (''GET'', hd login_uris))"
    have "rolling_back (bindS (forS (\<lambda>x. bindS (liftS (picker_drift prev x)) (\<lambda>_. install_missing ad prev
        (''THS route write failed: '', ''THS route readback differs: '') x)) rs) (\<lambda>_. ?denials)) (restore_routes ad prev) w1 = (r, w')"
      using run snap Inr by (simp add: install_picker_def bindS_def)
    moreover have "keeps view ?denials" by (intro keeps_bindS denied_keeps_view [OF admin])
    ultimately have "installed view (set ?ids) (set rs) w r w'"
      by (intro installer_outcome [where c = "picker_drift prev", OF admin w told same ids members])
    then show ?thesis by simp
  qed
qed

theorem picker_install_is_safe:
  assumes "faithful_admin ad view fill" and "filled view fill w" and "picker_main ad (Materialize doc) w = (r, w')"
  shows "\<exists>rs. (r = Inr () \<longrightarrow> select_picker doc = Inr (rs ! 0) \<and> select_login doc = Inr (rs ! 1) \<and> length rs = 2)
     \<and> installed view {picker_id, login_id} (the_fields ` set rs) w r w'"
proof (cases "select_picker doc")
  case (Inl e)
  with assms(3) have "r = Inl e" "w' = w" by (simp_all add: picker_main_def io_defs)
  then show ?thesis by (simp add: installed_unchanged)
next
  case p: (Inr p)
  show ?thesis
  proof (cases "select_login doc")
    case (Inl e)
    with assms(3) p have "r = Inl e" "w' = w" by (simp_all add: picker_main_def io_defs)
    then show ?thesis by (simp add: installed_unchanged)
  next
    case (Inr l)
    have "find_route login_id rs = Inr l" if "jindex doc ''routes'' = Inr v" "jelements v = Inr rs" for v rs
      using Inr that by (auto simp: select_login_def bindE_Inr_iff split: if_splits)
    then have "route_id (the_fields l) = Inr login_id"
      using Inr by (auto simp: select_login_def bindE_Inr_iff intro: find_route_id)
    moreover have "route_id (the_fields p) = Inr picker_id"
      using p by (auto simp: select_picker_def bindE_Inr_iff jlist_case_Inr split: if_splits intro: find_route_id)
    ultimately have "map route_id [the_fields p, the_fields l] = map Inr [picker_id, login_id]" by simp
    moreover have "install_picker ad [the_fields p, the_fields l] w = (r, w')"
      using assms(3) p Inr by (simp add: picker_main_def bindS_lift)
    ultimately have "installed view {picker_id, login_id} (set [the_fields p, the_fields l]) w r w'"
      by (rule picker_outcome [OF assms(1,2)])
    with p Inr show ?thesis by (intro exI [of _ "[p, l]"]) simp
  qed
qed

text \<open>
  C35. Installing the semantic route set never changes a route that exists, whatever the outcome, and never
  touches a route outside the set; when it succeeds, each route of the validated document is stored
  under its id with all the fields it asks for.
\<close>

theorem semantic_install_is_safe:
  assumes "faithful_admin ad view fill" and "filled view fill w" and "semantic_main ad (Materialize doc) w = (r, w')"
  shows "(\<forall>i s. view w i = Some s \<longrightarrow> view w' i = Some s) \<and> (\<forall>i. i \<notin> set semantic_ids \<longrightarrow> view w' i = view w i)
     \<and> (r = Inr () \<longrightarrow> (\<exists>rs. validate_semantic doc = Inr rs
          \<and> map (\<lambda>v. route_id (the_fields v)) rs = map Inr semantic_ids \<and> (\<forall>v \<in> set rs. holds view w' (the_fields v))))"
proof (cases "validate_semantic doc")
  case (Inl e)
  with assms(3) have "r = Inl e" "w' = w" by (simp_all add: semantic_main_def io_defs)
  then show ?thesis by simp
next
  case (Inr rs)
  then have ids: "map (\<lambda>v. route_id (the_fields v)) rs = map Inr semantic_ids" by (rule validated_semantic)
  have "install_semantic ad (map the_fields rs) w = (r, w')"
    using assms(3) Inr by (simp add: semantic_main_def bindS_lift)
  with ids have "installed view (set semantic_ids) (set (map the_fields rs)) w r w'"
    by (intro semantic_outcome [OF assms(1,2)]) (simp_all add: comp_def)
  with Inr ids show ?thesis unfolding installed_def by simp
qed

definition sample_semantic :: "string \<times> string \<times> string \<times> string \<Rightarrow> route" where
  "sample_semantic c = (case c of (i, verb, uri, scope) \<Rightarrow>
     [(''id'', JStr i), (''methods'', jstrs [verb]), (''uri'', JStr uri), (''vars'', semantic_vars i),
      (''labels'', JObj [(''ouf-surface'', JStr ''TRUSTED_HUMAN_SEMANTIC''), (''ouf-capability'', JStr scope)]),
      (''plugins'', JObj [(''openid-connect'', JObj [(''required_scopes'', jstrs [scope]), (''bearer_only'', JBool True),
          (''ssl_verify'', JBool True), (''use_jwks'', JBool True)]),
        (''serverless-pre-function'', JObj []), (''serverless-post-function'', JObj []),
        (''client-control'', size_limit (if i = ''semantic-rdf-import'' then 8388608 else 65536))]),
      (''upstream'', JObj [(''nodes'', jobj1 ''ouf-semantic:8080'' (JInt 1)), (''retries'', JInt 0)])])"

lemma sample_semantic_contract: "semantic_contract (JObj (sample_semantic c)) c = Inr False"
  by (cases c) (simp add: semantic_contract_def sample_semantic_def or_object_def jneq_def get_get_def size_limit_def jobj1_def Let_def)

lemma sample_semantic_id: "route_id (sample_semantic c) = Inr (fst c)"
  by (cases c) (simp add: sample_semantic_def route_id_def)

lemma sample_semantic_method: "first_method (sample_semantic c) = Inr (fst (snd c))"
  by (cases c) (simp add: sample_semantic_def first_method_def jstrs_def)

lemma sample_semantic_index:
  "map_of (map (\<lambda>c. (JStr (fst c), JObj (sample_semantic c))) cs) (JStr i)
     = map_option (\<lambda>c. JObj (sample_semantic c)) (find (\<lambda>c. fst c = i) cs)"
  by (induction cs) auto

lemma dict_set_append: "k \<notin> set (dict_keys d) \<Longrightarrow> dict_set k v d = d @ [(k, v)]"
  by (induction d) (auto simp: dict_keys_def)

lemma sample_semantic_indexed:
  assumes "distinct (map fst cs)"
  shows "index_ids (map (\<lambda>c. JObj (sample_semantic c)) cs) = Inr (map (\<lambda>c. (JStr (fst c), JObj (sample_semantic c))) cs)"
proof -
  let ?f = "\<lambda>r d. if \<not> is_obj r then Inr d else bindE (jget r ''id'' JNull) (\<lambda>i. bindE (jset [i]) (\<lambda>_. Inr (dict_set i r d)))"
  let ?e = "\<lambda>c. (JStr (fst c), JObj (sample_semantic c))"
  have step: "?f (JObj (sample_semantic c)) d = Inr (dict_set (JStr (fst c)) (JObj (sample_semantic c)) d)" for c d
    by (cases c) (simp add: sample_semantic_def jset_def)
  have "foldE ?f (map (\<lambda>c. JObj (sample_semantic c)) cs) (map ?e ds) = Inr (map ?e (ds @ cs))"
    if "distinct (map fst (ds @ cs))" for ds cs
    using that
  proof (induction cs arbitrary: ds)
    case Nil
    then show ?case by simp
  next
    case (Cons c cs)
    have "dict_set (JStr (fst c)) (JObj (sample_semantic c)) (map ?e ds) = map ?e (ds @ [c])"
      using Cons.prems by (subst dict_set_append) (auto simp: dict_keys_def)
    moreover have "distinct (map fst ((ds @ [c]) @ cs))" using Cons.prems by simp
    ultimately show ?case using Cons.IH [of "ds @ [c]"] step by simp
  qed
  from this [of "[]" cs] assms show ?thesis by (simp add: index_ids_def)
qed

definition sample_semantic_doc :: json where
  "sample_semantic_doc = jobj1 ''routes'' (JList (map (\<lambda>c. JObj (sample_semantic c)) semantic_routes))"

lemma sample_semantic_valid:
  "validate_semantic sample_semantic_doc = Inr (map (\<lambda>c. JObj (sample_semantic c)) semantic_routes)"
proof -
  let ?index = "map (\<lambda>c. (JStr (fst c), JObj (sample_semantic c))) semantic_routes"
  have ids: "distinct (map fst semantic_routes)" by (simp add: semantic_routes_def)
  have keys: "set (dict_keys ?index) = JStr ` set semantic_ids"
    by (simp add: dict_keys_def semantic_ids_def image_image)
  have "map_of ?index (JStr (fst c)) = Some (JObj (sample_semantic c))" if "c \<in> set semantic_routes" for c
    using ids that by (intro map_of_is_SomeI) (auto simp: distinct_map inj_on_def)
  then have "semantic_route ?index c = Inr (JObj (sample_semantic c))" if "c \<in> set semantic_routes" for c
    using that by (simp add: semantic_route_def sample_semantic_contract)
  then have "mapE (semantic_route ?index) semantic_routes = Inr (map (\<lambda>c. JObj (sample_semantic c)) semantic_routes)"
    by (simp add: mapE_Inr_iff list.rel_map list_all2_same)
  then show ?thesis
    by (simp add: validate_semantic_def sample_semantic_doc_def jobj1_def sample_semantic_indexed [OF ids] keys)
qed

lemma memory_install:
  assumes "previous_route prev (fst c) = JNull"
  shows "install_missing memory_admin prev says (sample_semantic c) w = (Inr (), w(fst c \<mapsto> sample_semantic c))"
  using assms by (cases c) (simp add: install_missing_def sample_semantic_id memory_steps stored_route_value,
    simp add: sample_semantic_def differs_def stored_fill_def)

theorem semantic_install_is_safe_witness:
  "\<exists>w'. semantic_main memory_admin (Materialize sample_semantic_doc) [''x'' \<mapsto> []] = (Inr (), w')
     \<and> memory_view w' ''x'' = memory_view [''x'' \<mapsto> []] ''x''"
proof -
  let ?w = "[''x'' \<mapsto> []] :: table" and ?rs = "map sample_semantic semantic_routes"
  have absent: "''x'' \<notin> set semantic_ids" by (simp add: semantic_ids_def semantic_routes_def)
  define prev where "prev = foldl (\<lambda>p i. dict_set i (case ?w i of None \<Rightarrow> JNull | Some r \<Rightarrow> JObj (stored_fill r)) p) [] (sorted_ids semantic_ids)"
  have "previous_route (foldl (\<lambda>p i. dict_set i (case ?w i of None \<Rightarrow> JNull | Some r \<Rightarrow> JObj (stored_fill r)) p) d js) i = JNull"
    if "\<forall>i. previous_route d i = JNull" "set js \<subseteq> set semantic_ids" for d js i
    using that by (induction js arbitrary: d) (auto simp: absent previous_route_def dict_simps)
  from this [of "[]" "sorted_ids semantic_ids"] have none: "previous_route prev i = JNull" for i
    by (simp add: prev_def previous_route_def sorted_ids_def)
  have snap: "snapshot_routes memory_admin semantic_ids ?w = (Inr prev, ?w)"
    by (simp add: snapshot_routes_def memory_steps prev_def)
  have drift: "foldE (semantic_drift prev) (map sample_semantic cs) () = Inr ()" for cs
    by (induction cs) (simp_all add: semantic_drift_def sample_semantic_id drifted_def none)
  have install: "\<exists>w'. forS (install_missing memory_admin prev says) (map sample_semantic cs) w = (Inr (), w')" for says cs w
    by (induction cs arbitrary: w) (simp_all add: memory_install none io_defs)
  have one: "semantic_denied memory_admin (sample_semantic c) w = (Inr (), w)" for c w
    by (simp add: semantic_denied_def sample_semantic_id sample_semantic_method denied_def memory_steps)
  have deny: "forS (semantic_denied memory_admin) (map sample_semantic cs) w = (Inr (), w)" for cs w
    by (induction cs) (simp_all add: one io_defs)
  from install [where cs = semantic_routes and w = ?w] obtain w' where
    w': "forS (install_missing memory_admin prev (''SEMANTIC_ROUTE_WRITE_FAILED:'', ''SEMANTIC_ROUTE_READBACK_FAILED:'')) ?rs ?w
      = (Inr (), w')" by blast
  have run: "semantic_main memory_admin (Materialize sample_semantic_doc) ?w = (Inr (), w')"
    using snap drift [of semantic_routes] w' deny [of semantic_routes w']
    by (simp add: semantic_main_def sample_semantic_valid install_semantic_def rolling_back_def comp_def io_defs)
  from semantic_install_is_safe [OF memory_admin_faithful memory_filled run] have
    "\<And>i s. memory_view ?w i = Some s \<Longrightarrow> memory_view w' i = Some s" by blast
  with run show ?thesis by (auto simp: memory_view_def)
qed

end
