(* ===== verification/Route_Status.thy ===== *)
theory Route_Status
  imports Route_Deploy
begin

text \<open>
  The deployers of the reviewed status profile and of the UDP search route,
  \<open>deploy_status_execute.py\<close> and \<open>deploy_object_search.py\<close>: the routes are checked against the
  container's environment and nginx configuration (parameters) before the first write, and only the
  routes already attempted are rolled back, the last one first.
\<close>

section \<open>Environment of the container\<close>

text \<open>\<open>docker inspect\<close>'s \<open>Config.Env\<close> and the nginx configuration file.\<close>

record 'w host =
  ho_env :: "('w, string list) io"
  ho_nginx :: "('w, string) io"

fun line_suffixes :: "string \<Rightarrow> string list" where
  "line_suffixes [] = []"
| "line_suffixes (c # s) = (if c = CHR 0x0A then s # line_suffixes s else line_suffixes s)"

text \<open>An \<open>env\<close> directive at the beginning of a text: the name, quoted or not, and a semicolon, with spaces.\<close>

definition env_directive :: "string \<Rightarrow> string \<Rightarrow> bool" where
  "env_directive name s =
     (case after_prefix ''env'' (dropWhile is_space s) of
        None \<Rightarrow> False
      | Some t \<Rightarrow> t \<noteq> [] \<and> is_space (hd t)
          \<and> list_ex (\<lambda>n. case after_prefix n (dropWhile is_space t) of None \<Rightarrow> False
               | Some u \<Rightarrow> prefix '';'' (dropWhile is_space u)) [[CHR 0x22] @ name @ [CHR 0x22], name])"

definition inherits_env :: "string \<Rightarrow> string \<Rightarrow> bool" where
  "inherits_env nginx name = list_ex (env_directive name) (nginx # line_suffixes nginx)"

text \<open>\<open>dict(x.split("=", 1) for x in entries if "=" in x)\<close>\<close>

definition env_dict :: "string list \<Rightarrow> (string, string) dict" where
  "env_dict xs = foldl (\<lambda>d x. if CHR ''='' \<in> set x
     then dict_set (takeWhile (\<lambda>c. c \<noteq> CHR ''='') x) (tl (dropWhile (\<lambda>c. c \<noteq> CHR ''='') x)) d else d) [] xs"

definition env_get :: "(string, string) dict \<Rightarrow> string \<Rightarrow> string" where
  "env_get env k = (case map_of env k of None \<Rightarrow> [] | Some v \<Rightarrow> v)"

definition hex_key :: "string \<Rightarrow> bool" where
  "hex_key s \<longleftrightarrow> length s = 64 \<and> list_all is_hex s"

definition is_upper :: "char \<Rightarrow> bool" where
  "is_upper c \<longleftrightarrow> CHR ''A'' \<le> c \<and> c \<le> CHR ''Z''"

text \<open>\<open>re.fullmatch("[A-Z][A-Z0-9_]{0,127}", v)\<close>\<close>

definition env_name_ok :: "string \<Rightarrow> bool" where
  "env_name_ok s \<longleftrightarrow> s \<noteq> [] \<and> length s \<le> 128 \<and> is_upper (hd s)
     \<and> list_all (\<lambda>c. is_upper c \<or> is_digit c \<or> c = CHR ''_'') s"

fun text_value :: "json \<Rightarrow> string res" where
  "text_value (JStr s) = Inr s"
| "text_value _ = Inl (TypeError ''expected string'')"

text \<open>\<open>not ref.startswith("$ENV://") or not env.get(ref[7:])\<close>\<close>

definition secret_missing :: "(string, string) dict \<Rightarrow> string \<Rightarrow> bool" where
  "secret_missing env ref \<longleftrightarrow> \<not> starts_with ref ''$ENV://'' \<or> env_get env (drop 7 ref) = []"

section \<open>Applying the routes\<close>

fun status_loop :: "'w admin \<Rightarrow> route list \<Rightarrow> previous_routes \<Rightarrow> ('w, previous_routes) io" where
  "status_loop ad [] prev = returnS prev"
| "status_loop ad (r # rs) prev = bindS (liftS (route_id r)) (\<lambda>i.
     bindS (read_route ad no_tag i) (\<lambda>v. status_loop ad rs (dict_set i v prev)))"

definition status_snapshot :: "'w admin \<Rightarrow> route list \<Rightarrow> ('w, previous_routes) io" where
  "status_snapshot ad routes = bindS (status_loop ad routes []) (\<lambda>prev.
     bindS (ad_save ad (JObj prev)) (\<lambda>_. returnS prev))"

text \<open>The write loop with the ids attempted so far.\<close>

fun attempt_routes :: "'w admin \<Rightarrow> route list \<Rightarrow> string list \<Rightarrow> 'w \<Rightarrow> (unit res \<times> string list) \<times> 'w" where
  "attempt_routes ad [] attempted w = ((Inr (), attempted), w)"
| "attempt_routes ad (r # rs) attempted w =
     (case route_id r of
        Inl e \<Rightarrow> ((Inl e, attempted), w)
      | Inr i \<Rightarrow> (case put_route ad no_tag r w of
            (Inl e, w') \<Rightarrow> ((Inl e, attempted @ [i]), w')
          | (Inr _, w') \<Rightarrow> attempt_routes ad rs (attempted @ [i]) w'))"

definition status_rollback :: "'w admin \<Rightarrow> previous_routes \<Rightarrow> string list \<Rightarrow> ('w, unit) io" where
  "status_rollback ad prev attempted = bindS (restore_loop ad prev (rev attempted) []) (\<lambda>failures.
     if failures \<noteq> []
     then raiseS (RuntimeError (''rollback incomplete; use saved snapshot for: '' @ comma_join failures))
     else returnS ())"

definition apply_routes :: "'w admin \<Rightarrow> ('w, unit) io \<Rightarrow> route list \<Rightarrow> ('w, unit) io" where
  "apply_routes ad check_public routes = bindS (status_snapshot ad routes) (\<lambda>prev w.
     case attempt_routes ad routes [] w of
       ((Inl e, attempted), w') \<Rightarrow> bindS (status_rollback ad prev attempted) (\<lambda>_. raiseS e) w'
     | ((Inr _, attempted), w') \<Rightarrow> rolling_back check_public (status_rollback ad prev attempted) w')"

section \<open>Public checks\<close>

definition probe_envelope :: "string \<Rightarrow> string \<Rightarrow> string \<Rightarrow> json \<Rightarrow> json" where
  "probe_envelope capability owner op arguments = JObj [(''GatewayBindingRef'', JStr (''capability://'' @ capability)),
     (''CapabilityID'', JStr capability), (''Owner'', JStr owner), (''OperationClass'', JStr op),
     (''Arguments'', arguments), (''Identity'', JObj [(''ServicePrincipalID'', JStr ''probe''),
       (''PrincipalID'', JStr ''probe''), (''TenantID'', JStr ''probe''), (''ActorType'', JStr ''HUMAN''),
       (''AuthenticationContextRef'', JStr ''1'')]), (''AuthorizationDecisionRef'', JStr ''probe''),
     (''CorrelationID'', JStr ''probe''), (''IdempotencyKey'', JStr ''probe''),
     (''AttemptID'', JStr ''11111111-1111-4111-8111-111111111111''),
     (''RequestHash'', JStr ''44136fa355b3678a1146ad16f7e8649e94fb4fc21fe77e8310c060f61caaff8a''),
     (''MaxResultBytes'', JInt 262144)]"

definition expect_code :: "'w admin \<Rightarrow> string \<Rightarrow> string \<Rightarrow> json \<Rightarrow> nat \<Rightarrow> string \<Rightarrow> ('w, unit) io" where
  "expect_code ad path verb data want msg = bindS (ad_curl ad False path verb data) (\<lambda>(code, _).
     if code \<noteq> want then raiseS (RuntimeError (msg @ nat_text code)) else returnS ())"

definition execute_path :: string where
  "execute_path = ''/internal/capabilities/v1/execute''"

definition check_public :: "'w admin \<Rightarrow> ('w, unit) io" where
  "check_public ad =
     bindS (expect_code ad ''/mcp'' ''POST'' (JObj []) 401 ''unauthenticated MCP HTTP '') (\<lambda>_.
     bindS (expect_code ad ''/.well-known/oauth-protected-resource'' ''GET'' JNull 200 ''metadata HTTP '') (\<lambda>_.
     expect_code ad execute_path ''POST'' (probe_envelope ''ouf.system.status'' ''mcp'' ''READ'' (JObj [])) 401
       ''unauthenticated execute HTTP ''))"

section \<open>The status profile\<close>

text \<open>\<open>re.fullmatch("[A-Za-z0-9_-]+", str(v))\<close>: the text of null, a boolean or a number matches.\<close>

fun plain_id :: "json \<Rightarrow> bool" where
  "plain_id (JStr s) = word_of ''_-'' s"
| "plain_id (JList _) = False"
| "plain_id (JObj _) = False"
| "plain_id _ = True"

definition restore_checked :: "'w admin \<Rightarrow> string \<Rightarrow> json \<Rightarrow> bool \<Rightarrow> ('w, unit) io" where
  "restore_checked ad i old put =
     bindS (admin_route ad (if put then ''PUT'' else ''DELETE'') i old) (\<lambda>(code, _).
     if code \<notin> {200, 201, 204, 404} then raiseS (RuntimeError ''restore failed'')
     else bindS (admin_route ad ''GET'' i JNull) (\<lambda>(code', actual).
       if old = JNull
       then (if code' \<noteq> 404 then raiseS (RuntimeError ''restore readback differs'') else returnS ())
       else if code' \<noteq> 200 then raiseS (RuntimeError ''restore readback differs'')
       else bindS (liftS (route_value actual)) (\<lambda>v.
         if json_eq v old then returnS () else raiseS (RuntimeError ''restore readback differs''))))"

definition status_profile :: "(string \<times> json) list" where
  "status_profile = [(''/mcp'', JList [JStr ''POST'']), (''/.well-known/oauth-protected-resource'', JList [JStr ''GET'']),
     (execute_path, JList [JStr ''POST''])]"

text \<open>\<open>{r["uri"]: r["methods"] for r in routes} != expected\<close>\<close>

definition uri_methods :: "json list \<Rightarrow> (json \<times> json) list res" where
  "uri_methods rs = foldE (\<lambda>r d. bindE (jindex r ''uri'') (\<lambda>u. bindE (jset [u]) (\<lambda>_.
     bindE (jindex r ''methods'') (\<lambda>m. Inr (dict_set u m d))))) rs []"

definition profile_matches :: "(json \<times> json) list \<Rightarrow> bool" where
  "profile_matches d \<longleftrightarrow> set (dict_keys d) = (\<lambda>(u, _). JStr u) ` set status_profile
     \<and> list_all (\<lambda>(u, m). case map_of d (JStr u) of None \<Rightarrow> False | Some m' \<Rightarrow> json_eq m' m) status_profile"

definition check_secret :: "(string, string) dict \<Rightarrow> json \<Rightarrow> unit \<Rightarrow> unit res" where
  "check_secret env r u =
     bindE (jindex r ''plugins'') (\<lambda>p. bindE (jget p ''openid-connect'' JNull) (\<lambda>oidc.
     if \<not> json_truthy oidc then Inr ()
     else bindE (jget oidc ''client_secret'' (JStr [])) (\<lambda>ref. bindE (text_value ref) (\<lambda>s.
       if secret_missing env s then Inl (SystemExit ''OIDC environment secret missing'') else Inr ()))))"

definition status_routes :: "json \<Rightarrow> (json list \<times> string) res" where
  "status_routes doc = bindE (jindex doc ''routes'') (\<lambda>v. bindE (jelements v) (\<lambda>rs.
     bindE (if length rs \<noteq> 3 then Inr False else bindE (uri_methods rs) (\<lambda>d. Inr (profile_matches d))) (\<lambda>ok.
     if \<not> ok then Inl (SystemExit ''expected the three reviewed status profile routes'')
     else bindE (mapE (\<lambda>r. jindex r ''id'') rs) (\<lambda>ids.
       if \<not> list_all plain_id ids then Inl (SystemExit ''invalid route id'')
       else bindE (jget doc ''delegationKeyEnv'' (JStr [])) (\<lambda>name. bindE (text_value name) (\<lambda>env_name.
         if \<not> env_name_ok env_name then Inl (SystemExit ''invalid delegation environment name'')
         else Inr (rs, env_name)))))))"

definition status_main :: "'w admin \<Rightarrow> 'w host \<Rightarrow> deploy_mode \<Rightarrow> ('w, unit) io" where
  "status_main ad host mode =
     (case mode of
        Restore (JObj prev) \<Rightarrow>
          if length prev \<noteq> 3 \<or> \<not> list_all (word_of ''_-'') (dict_keys prev) then raiseS (SystemExit ''invalid snapshot'')
          else forS (\<lambda>(i, old). restore_checked ad i old (json_truthy old)) prev
      | Restore _ \<Rightarrow> raiseS (SystemExit ''invalid snapshot'')
      | Materialize doc \<Rightarrow>
          bindS (liftS (status_routes doc)) (\<lambda>(rs, env_name).
          bindS (ho_env host) (\<lambda>entries. let env = env_dict entries in
          if \<not> hex_key (env_get env env_name)
          then raiseS (SystemExit ''delegation key absent or invalid in APISIX container'')
          else bindS (liftS (foldE (check_secret env) rs ())) (\<lambda>_.
            bindS (ho_nginx host) (\<lambda>nginx.
            if \<not> inherits_env nginx env_name
            then raiseS (SystemExit ''delegation key not inherited by Nginx workers; configure nginx_config.envs and restart first'')
            else apply_routes ad (check_public ad) (map the_fields rs))))))"

section \<open>The UDP search route\<close>

definition search_id :: string where
  "search_id = ''execute-urban-object-search''"

definition search_uri :: string where
  "search_uri = ''/internal/capabilities/v1/execute/urban.object.search''"

definition search_check_public :: "'w admin \<Rightarrow> ('w, unit) io" where
  "search_check_public ad = bindS (check_public ad) (\<lambda>_.
     expect_code ad search_uri ''POST'' (probe_envelope ''urban.object.search'' ''udp'' ''SEARCH''
       (jobj1 ''type'' (JStr ''ouf:Asset''))) 401 ''unauthenticated UDP search HTTP '')"

definition search_route :: "json \<Rightarrow> json res" where
  "search_route doc = bindE (jindex doc ''routes'') (\<lambda>v. bindE (jelements v) (\<lambda>rs.
     bindE (filterE (\<lambda>r. bindE (jget r ''id'' JNull) (\<lambda>i. Inr (i = JStr search_id))) rs) (\<lambda>found.
     case found of
       [r] \<Rightarrow> bindE (or_chain [jneq (jget r ''uri'' JNull) (JStr search_uri),
             jneq (jget r ''methods'' JNull) (JList [JStr ''POST'']),
             jneq (bindE (jindex r ''upstream'') (\<lambda>b. jget b ''nodes'' JNull)) (jobj1 ''ouf-udp-object-resolution:8080'' (JInt 1)),
             jneq (bindE (jindex r ''upstream'') (\<lambda>b. jget b ''retries'' JNull)) (JInt 0)])
           (\<lambda>bad. if bad then Inl (SystemExit ''reviewed UDP search route missing or changed'') else Inr r)
     | _ \<Rightarrow> Inl (SystemExit ''reviewed UDP search route missing or changed''))))"

definition search_names :: "json \<Rightarrow> (string \<times> string) res" where
  "search_names doc = bindE (jget doc ''delegationKeyEnv'' (JStr [])) (\<lambda>a.
     bindE (jget doc ''udpOwnerKeyEnv'' (JStr [])) (\<lambda>b. bindE (jset [a, b]) (\<lambda>_.
     if a = b then Inl (SystemExit ''separate named keys required'')
     else bindE (text_value a) (\<lambda>m.
       if \<not> env_name_ok m then Inl (SystemExit ''separate named keys required'')
       else bindE (text_value b) (\<lambda>n.
         if \<not> env_name_ok n then Inl (SystemExit ''separate named keys required'') else Inr (m, n))))))"

definition search_secret :: "json \<Rightarrow> string res" where
  "search_secret r = bindE (jindex r ''plugins'') (\<lambda>p. bindE (jindex p ''openid-connect'') (\<lambda>oidc.
     bindE (jget oidc ''client_secret'' (JStr [])) text_value))"

definition search_main :: "'w admin \<Rightarrow> 'w host \<Rightarrow> deploy_mode \<Rightarrow> ('w, unit) io" where
  "search_main ad host mode =
     (case mode of
        Restore doc \<Rightarrow>
          bindS (liftS (bindE (jelements doc) (\<lambda>vs. bindE (jset vs) (\<lambda>s.
            if s \<noteq> {JStr search_id} then Inl (SystemExit ''invalid UDP search snapshot'')
            else jindex doc search_id)))) (\<lambda>old. restore_checked ad search_id old (old \<noteq> JNull))
      | Materialize doc \<Rightarrow>
          bindS (liftS (search_route doc)) (\<lambda>r.
          bindS (liftS (search_names doc)) (\<lambda>(m, n).
          bindS (ho_env host) (\<lambda>entries. let env = env_dict entries in
          bindS (ho_nginx host) (\<lambda>nginx.
          if list_ex (\<lambda>k. \<not> hex_key (env_get env k) \<or> \<not> inherits_env nginx k) [m, n]
          then raiseS (SystemExit ''delegation/UDP owner key missing from APISIX or Nginx inheritance'')
          else bindS (liftS (search_secret r)) (\<lambda>ref.
            if secret_missing env ref then raiseS (SystemExit ''OIDC environment secret missing'')
            else apply_routes ad (search_check_public ad) [the_fields r]))))))"

end
