(* ===== verification/Route_Status_Safety.thy ===== *)
theory Route_Status_Safety
  imports Route_Deploy_Safety Route_Status
begin

text \<open>
  The status profile deployer against a faithful Admin API: nothing is written before the container has the
  delegation key, only attempted routes are rolled back, and the outcome is atomic.
\<close>

section \<open>Snapshot and attempts\<close>

lemma status_loop_tells:
  assumes "faithful_admin ad view fill" and "status_loop ad rs prev w = (r, w')" and "tells (view w) prev old"
  shows "view w' = view w \<and> (\<forall>prev'. r = Inr prev' \<longrightarrow> tells (view w) prev' (old \<union> {i. \<exists>x \<in> set rs. route_id x = Inr i}))"
  using assms(2,3)
proof (induction rs arbitrary: prev w old)
  case Nil
  then show ?case by (auto simp: returnS_def)
next
  case (Cons x rs)
  show ?case
  proof (cases "route_id x")
    case (Inl e)
    with Cons.prems show ?thesis by (auto simp: io_defs)
  next
    case i: (Inr i)
    obtain v w1 where v: "read_route ad no_tag i w = (v, w1)" by (cases "read_route ad no_tag i w")
    have same: "view w1 = view w" using keepsD [OF read_route_view [OF assms(1)] v] .
    show ?thesis
    proof (cases v)
      case (Inl e)
      with Cons.prems(1) i v same show ?thesis by (auto simp: bindS_def liftS_def)
    next
      case (Inr y)
      have rest: "status_loop ad rs (dict_set i y prev) w1 = (r, w')"
        using Cons.prems(1) i v Inr by (simp add: bindS_def liftS_def)
      have "tells (view w1) (dict_set i y prev) (insert i old)"
        using Cons.prems(2) read_route_value [OF assms(1) v [unfolded Inr]] unfolding same by (auto simp: tells_def dict_simps)
      from Cons.IH [OF rest this] i same show ?thesis by (auto simp: tells_def)
    qed
  qed
qed

text \<open>Only attempted routes change, and they are ids of the list; a full pass holds every id.\<close>

lemma attempt_routes_changes:
  assumes "faithful_admin ad view fill" and "attempt_routes ad rs attempted w = ((r, attempted'), w')"
  shows "\<exists>new. attempted' = attempted @ new \<and> set new \<subseteq> {i. \<exists>x \<in> set rs. route_id x = Inr i}
     \<and> (\<forall>i. i \<notin> set new \<longrightarrow> view w' i = view w i)"
  using assms(2)
proof (induction rs arbitrary: attempted w)
  case Nil
  then show ?case by simp
next
  case (Cons x rs)
  show ?case
  proof (cases "route_id x")
    case (Inl e)
    with Cons.prems show ?thesis by auto
  next
    case i: (Inr i)
    obtain p w1 where p: "put_route ad no_tag x w = (p, w1)" by (cases "put_route ad no_tag x w")
    have "keeps (outside view {i}) (put_route ad no_tag x)"
      using i by (intro put_route_outside [OF assms(1)]) simp
    from outsideD [OF keepsD [OF this p]] have others: "j \<noteq> i \<Longrightarrow> view w1 j = view w j" for j by simp
    show ?thesis
    proof (cases p)
      case (Inl e)
      with Cons.prems i p have "attempted' = attempted @ [i]" "w' = w1" by simp_all
      with i others show ?thesis by auto
    next
      case (Inr u)
      with Cons.prems i p have "attempt_routes ad rs (attempted @ [i]) w1 = ((r, attempted'), w')" by simp
      from Cons.IH [OF this] obtain new where new: "attempted' = attempted @ i # new"
        "set new \<subseteq> {i. \<exists>x \<in> set rs. route_id x = Inr i}" "\<forall>j. j \<notin> set new \<longrightarrow> view w' j = view w1 j" by auto
      with i others show ?thesis by (intro exI [of _ "i # new"]) auto
    qed
  qed
qed

lemma attempt_routes_complete:
  "attempt_routes ad rs attempted w = ((Inr (), attempted'), w') \<Longrightarrow> forS (put_route ad no_tag) rs w = (Inr (), w')"
proof (induction rs arbitrary: attempted w)
  case Nil
  then show ?case by (simp add: returnS_def)
next
  case (Cons x rs)
  then obtain i w1 where "route_id x = Inr i" "put_route ad no_tag x w = (Inr (), w1)"
    "attempt_routes ad rs (attempted @ [i]) w1 = ((Inr (), attempted'), w')"
    by (auto split: sum.splits prod.splits)
  with Cons.IH show ?case by (simp add: bindS_def)
qed

section \<open>Rollback of the attempts\<close>

lemma status_rollback_restores:
  assumes admin: "faithful_admin ad view fill" and "tells old prev (set attempted)"
    and "\<forall>i r. old i = Some r \<longrightarrow> fill r = r \<and> r \<noteq> []" and run: "status_rollback ad prev attempted w = (r, w')"
  shows "\<exists>failures. (r = Inr () \<and> failures = [] \<or> (\<exists>e. r = Inl e \<and> rollback_reported failures e))
     \<and> (\<forall>i. i \<notin> set attempted \<longrightarrow> view w' i = view w i) \<and> (\<forall>i \<in> set attempted. i \<in> set failures \<or> view w' i = old i)"
proof -
  obtain r1 w1 where loop: "restore_loop ad prev (rev attempted) [] w = (r1, w1)"
    by (cases "restore_loop ad prev (rev attempted) [] w")
  have told: "tells old prev (set (rev attempted))" using assms(2) by simp
  from restore_loop_restores [OF admin told assms(3) loop] obtain failures where
    f: "r1 = Inr failures" "\<forall>i. i \<notin> set attempted \<longrightarrow> view w1 i = view w i"
      "\<forall>i \<in> set attempted. i \<in> set failures \<or> view w1 i = old i" by auto
  with run loop have "(r, w') = (if failures \<noteq> []
      then (Inl (RuntimeError (''rollback incomplete; use saved snapshot for: '' @ comma_join failures)), w1) else (Inr (), w1))"
    by (simp add: status_rollback_def bindS_def returnS_def raiseS_def split: if_splits)
  with f show ?thesis
    by (intro exI [of _ failures]) (auto simp: rollback_reported_def split: if_splits)
qed

text \<open>A failure after attempts: the rollback makes it a failure of a deployment.\<close>

lemma rolled_back:
  assumes admin: "faithful_admin ad view fill" and w: "filled view fill w" and told: "tells (view w) prev (set attempted)"
    and others: "\<forall>i. i \<notin> set attempted \<longrightarrow> view w1 i = view w i" and sub: "set attempted \<subseteq> ids"
    and run: "bindS (status_rollback ad prev attempted) (\<lambda>_. raiseS e) w1 = (r, w')"
  shows "deployed view ids w r w' \<and> r \<noteq> Inr ()"
proof -
  obtain r2 w2 where u: "status_rollback ad prev attempted w1 = (r2, w2)" by (cases "status_rollback ad prev attempted w1")
  have "\<forall>i x. view w i = Some x \<longrightarrow> fill x = x \<and> x \<noteq> []" using w by (simp add: filled_def)
  from status_rollback_restores [OF admin told this u] obtain failures where
    f: "r2 = Inr () \<and> failures = [] \<or> (\<exists>e. r2 = Inl e \<and> rollback_reported failures e)"
      "\<forall>i. i \<notin> set attempted \<longrightarrow> view w2 i = view w1 i" "\<forall>i \<in> set attempted. i \<in> set failures \<or> view w2 i = view w i"
    by blast
  have res: "w' = w2 \<and> (r = Inl e \<and> r2 = Inr () \<or> (\<exists>e'. r = Inl e' \<and> r2 = Inl e'))"
    using run u by (auto simp: bindS_def raiseS_def split: sum.splits)
  have "\<forall>i. i \<notin> set failures \<longrightarrow> view w' i = view w i" using f(2,3) others res by metis
  moreover have "\<forall>i. i \<notin> ids \<longrightarrow> view w' i = view w i" using f(2) others res sub by (metis subsetD)
  ultimately show ?thesis using f(1) res unfolding deployed_def by (metis Inl_inject sum.distinct(1))
qed

lemma apply_routes_deployed:
  assumes admin: "faithful_admin ad view fill" and w: "filled view fill w" and public: "keeps view check"
    and run: "apply_routes ad check rs w = (r, w')"
  shows "deployed view {i. \<exists>x \<in> set rs. route_id x = Inr i} w r w'
     \<and> (r = Inr () \<longrightarrow> (\<forall>x \<in> set rs. \<exists>y \<in> set rs. route_id y = route_id x \<and> holds view w' y))"
proof -
  let ?ids = "{i. \<exists>x \<in> set rs. route_id x = Inr i}"
  obtain s w1 where loop: "status_loop ad rs [] w = (s, w1)" by (cases "status_loop ad rs [] w")
  have "tells (view w) [] {}" by (simp add: tells_def)
  from status_loop_tells [OF admin loop this] have same: "view w1 = view w"
    and told: "\<And>prev. s = Inr prev \<Longrightarrow> tells (view w) prev ?ids" by auto
  show ?thesis
  proof (cases s)
    case (Inl e)
    with run loop same show ?thesis by (auto simp: apply_routes_def status_snapshot_def bindS_def intro: deployed_unchanged)
  next
    case prev: (Inr prev)
    obtain sv w2 where save: "ad_save ad (JObj prev) w1 = (sv, w2)" by (cases "ad_save ad (JObj prev) w1")
    have "keeps view (ad_save ad (JObj prev))" using admin by (simp add: faithful_admin_def)
    from keepsD [OF this save] same have same2: "view w2 = view w" by simp
    show ?thesis
    proof (cases sv)
      case (Inl e)
      with run loop prev save same2 show ?thesis
        by (auto simp: apply_routes_def status_snapshot_def bindS_def intro: deployed_unchanged)
    next
      case (Inr u)
      obtain a attempted w3 where att: "attempt_routes ad rs [] w2 = ((a, attempted), w3)"
        by (metis prod.collapse)
      from attempt_routes_changes [OF admin att] same2 have sub: "set attempted \<subseteq> ?ids"
        and others: "\<forall>i. i \<notin> set attempted \<longrightarrow> view w3 i = view w i" by auto
      have t: "tells (view w) prev (set attempted)" using told [OF prev] sub unfolding tells_def by blast
      have rest: "(case a of Inl e \<Rightarrow> bindS (status_rollback ad prev attempted) (\<lambda>_. raiseS e) w3
          | Inr _ \<Rightarrow> rolling_back check (status_rollback ad prev attempted) w3) = (r, w')"
        using run loop prev save Inr att
        by (simp add: apply_routes_def status_snapshot_def bindS_def returnS_def split: sum.splits)
      show ?thesis
      proof (cases a)
        case (Inl e)
        with rest rolled_back [OF admin w t others sub] show ?thesis by auto
      next
        case full: (Inr v)
        obtain c w4 where c: "check w3 = (c, w4)" by (cases "check w3")
        have same4: "view w4 = view w3" by (rule keepsD [OF public c])
        show ?thesis
        proof (cases c)
          case (Inl e)
          have "bindS (status_rollback ad prev attempted) (\<lambda>_. raiseS e) w4 = (r, w')"
            using rest full c Inl by (simp add: rolling_back_def tryS_def)
          moreover have "\<forall>i. i \<notin> set attempted \<longrightarrow> view w4 i = view w i" using others same4 by simp
          ultimately have "deployed view ?ids w r w' \<and> r \<noteq> Inr ()" by (intro rolled_back [OF admin w t _ sub])
          then show ?thesis by simp
        next
          case (Inr z)
          with rest full c have fin: "w' = w4" "r = Inr ()" by (simp_all add: rolling_back_def tryS_def)
          have puts: "forS (put_route ad no_tag) rs w2 = (Inr (), w3)"
            using att full by (intro attempt_routes_complete) simp
          have "\<exists>y \<in> set rs. route_id y = route_id x \<and> holds view w' y" if "x \<in> set rs" for x
            using put_routes_hold [OF admin puts that] fin same4 holds_view by metis
          moreover have "deployed view ?ids w r w'"
            using fin same4 others sub by (auto simp: deployed_def)
          ultimately show ?thesis by blast
        qed
      qed
    qed
  qed
qed

section \<open>The status profile\<close>

lemma check_public_view: "faithful_admin ad view fill \<Longrightarrow> keeps view (check_public ad)"
  unfolding check_public_def expect_code_def
  by (intro keeps_intros) (auto simp: faithful_admin_def split: prod.splits intro!: keeps_intros)

definition status_ids :: "json \<Rightarrow> string set" where
  "status_ids doc = {i. \<exists>rs name. status_routes doc = Inr (rs, name) \<and> (\<exists>v \<in> set rs. route_id (the_fields v) = Inr i)}"

text \<open>What a run that got past the checks has read.\<close>

lemma status_main_cases:
  assumes "status_main ad host (Materialize doc) w = (r, w')"
  obtains (checks) e where "r = Inl e" "w' = w \<or> w' = snd (ho_env host w) \<or> w' = snd (ho_nginx host (snd (ho_env host w)))"
  | (routes) rs name entries w1 nginx w2 where "status_routes doc = Inr (rs, name)" "ho_env host w = (Inr entries, w1)"
      "hex_key (env_get (env_dict entries) name)" "ho_nginx host w1 = (Inr nginx, w2)" "inherits_env nginx name"
      "apply_routes ad (check_public ad) (map the_fields rs) w2 = (r, w')"
proof (cases "status_routes doc")
  case (Inl e)
  with assms checks show thesis by (auto simp: status_main_def io_defs)
next
  case ok: (Inr p)
  obtain rs name where p: "p = (rs, name)" by (cases p)
  obtain env w1 where env: "ho_env host w = (env, w1)" by (cases "ho_env host w")
  obtain ng w2 where ng: "ho_nginx host w1 = (ng, w2)" by (cases "ho_nginx host w1")
  show thesis
  proof (cases env)
    case (Inl e)
    with assms ok p env checks show thesis by (auto simp: status_main_def io_defs)
  next
    case en: (Inr entries)
    show thesis
    proof (cases "hex_key (env_get (env_dict entries) name)
        \<and> foldE (check_secret (env_dict entries)) rs () = Inr () \<and> (\<exists>nginx. ng = Inr nginx \<and> inherits_env nginx name)")
      case True
      then obtain nginx where n: "ng = Inr nginx" "inherits_env nginx name" by blast
      with True assms ok p env ng en have "apply_routes ad (check_public ad) (map the_fields rs) w2 = (r, w')"
        by (simp add: status_main_def bindS_def liftS_def Let_def)
      with True n ok p env ng en routes show thesis by blast
    next
      case False
      with assms ok p env ng en have "(\<exists>e. r = Inl e) \<and> (w' = w1 \<or> w' = w2)"
        by (auto simp: status_main_def io_defs Let_def split: if_splits sum.splits; metis)
      with checks env ng show thesis by auto
    qed
  qed
qed

text \<open>
  Installing the status profile writes nothing before the container's environment holds a 256-bit
  delegation key that its nginx workers inherit; it is atomic over the ids of the reviewed routes, rolling back
  only what was attempted; and when it succeeds every id holds its route with all the fields it asks for.
\<close>

theorem status_deploy_is_guarded:
  assumes "faithful_admin ad view fill" and "filled view fill w"
    and "keeps view (ho_env host)" and "keeps view (ho_nginx host)"
    and "status_main ad host (Materialize doc) w = (r, w')"
  shows "deployed view (status_ids doc) w r w'
     \<and> (r = Inr () \<or> view w' \<noteq> view w \<longrightarrow> (\<exists>rs name entries w1 nginx w2. status_routes doc = Inr (rs, name)
          \<and> ho_env host w = (Inr entries, w1) \<and> hex_key (env_get (env_dict entries) name)
          \<and> ho_nginx host w1 = (Inr nginx, w2) \<and> inherits_env nginx name
          \<and> (r = Inr () \<longrightarrow> (\<forall>v \<in> set rs. \<exists>v' \<in> set rs. route_id (the_fields v') = route_id (the_fields v)
               \<and> holds view w' (the_fields v')))))"
  using assms(5)
proof (cases rule: status_main_cases)
  case (checks e)
  have "view (snd (ho_env host v)) = view v" "view (snd (ho_nginx host v)) = view v" for v
    using assms(3,4) by (simp_all add: keeps_def)
  with checks(2) have "view w' = view w" by metis
  with checks(1) show ?thesis by (auto intro: deployed_unchanged)
next
  case (routes rs name entries w1 nginx w2)
  have "view w1 = view w" by (rule keepsD [OF assms(3) routes(2)])
  moreover have "view w2 = view w1" by (rule keepsD [OF assms(4) routes(4)])
  ultimately have same: "view w2 = view w" by simp
  then have "filled view fill w2" using assms(2) by (simp add: filled_def)
  from apply_routes_deployed [OF assms(1) this check_public_view [OF assms(1)] routes(6)] have
    dep: "deployed view {i. \<exists>x \<in> set (map the_fields rs). route_id x = Inr i} w2 r w'"
    and ok: "r = Inr () \<longrightarrow> (\<forall>x \<in> set (map the_fields rs). \<exists>y \<in> set (map the_fields rs).
        route_id y = route_id x \<and> holds view w' y)" by blast+
  have ids: "status_ids doc = {i. \<exists>x \<in> set (map the_fields rs). route_id x = Inr i}"
    using routes(1) by (simp add: status_ids_def)
  have "deployed view (status_ids doc) w2 r w'" unfolding ids by (rule dep)
  with same have "deployed view (status_ids doc) w r w'" by (simp add: deployed_def)
  moreover have "r = Inr () \<longrightarrow> (\<forall>v \<in> set rs. \<exists>v' \<in> set rs. route_id (the_fields v') = route_id (the_fields v)
      \<and> holds view w' (the_fields v'))" using ok by simp
  ultimately show ?thesis using routes(1-5) by blast
qed

definition sample_status_routes :: "route list" where
  "sample_status_routes = map (\<lambda>(i, u, m). [(''id'', JStr i), (''uri'', JStr u), (''methods'', jstrs [m]), (''plugins'', JObj [])])
     [(''m'', ''/mcp'', ''POST''), (''p'', ''/.well-known/oauth-protected-resource'', ''GET''), (''x'', execute_path, ''POST'')]"

definition sample_status_doc :: json where
  "sample_status_doc = JObj [(''routes'', JList (map JObj sample_status_routes)), (''delegationKeyEnv'', JStr ''K'')]"

definition sample_key :: string where
  "sample_key = replicate 64 (CHR ''a'')"

definition sample_host :: "table host" where
  "sample_host = \<lparr>ho_env = returnS [''K='' @ sample_key], ho_nginx = returnS ''env K;''\<rparr>"

lemma sample_status_valid: "status_routes sample_status_doc = Inr (map JObj sample_status_routes, ''K'')"
proof -
  let ?rs = "map JObj sample_status_routes"
  have d: "uri_methods ?rs = Inr [(JStr ''/mcp'', jstrs [''POST'']),
      (JStr ''/.well-known/oauth-protected-resource'', jstrs [''GET'']), (JStr execute_path, jstrs [''POST''])]"
    by (simp add: uri_methods_def sample_status_routes_def jset_def execute_path_def)
  have "profile_matches [(JStr ''/mcp'', jstrs [''POST'']),
      (JStr ''/.well-known/oauth-protected-resource'', jstrs [''GET'']), (JStr execute_path, jstrs [''POST''])]"
    by (simp add: profile_matches_def status_profile_def dict_keys_def jstrs_def execute_path_def)
  moreover have "length ?rs = 3" "mapE (\<lambda>r. jindex r ''id'') ?rs = Inr [JStr ''m'', JStr ''p'', JStr ''x'']"
    by (simp_all add: sample_status_routes_def)
  ultimately show ?thesis
    by (simp add: status_routes_def sample_status_doc_def d env_name_ok_def is_upper_def is_digit_def is_alpha_def word_of_def)
qed

theorem status_deploy_is_guarded_witness:
  "\<exists>w'. status_main memory_admin sample_host (Materialize sample_status_doc) (\<lambda>_. None)
       = (Inl (RuntimeError (''metadata HTTP '' @ nat_text 401)), w') \<and> memory_view w' ''x'' = None"
proof -
  obtain w' where run: "status_main memory_admin sample_host (Materialize sample_status_doc) (\<lambda>_. None)
       = (Inl (RuntimeError (''metadata HTTP '' @ nat_text 401)), w')"
  proof -
    have env: "env_get (env_dict [CHR ''K'' # CHR ''='' # sample_key]) ''K'' = sample_key"
      by (simp add: env_dict_def env_get_def)
    have key: "hex_key sample_key"
      by (simp add: sample_key_def hex_key_def is_hex_def list_all_iff less_eq_char_def)
    have secrets: "foldE (check_secret env) (map JObj sample_status_routes) () = Inr ()" for env
      by (simp add: sample_status_routes_def check_secret_def)
    have inherited: "inherits_env ''env K;'' ''K''"
      by (simp add: inherits_env_def env_directive_def after_prefix_def is_space_def)
    have "\<exists>w'. apply_routes memory_admin (check_public memory_admin) sample_status_routes (\<lambda>_. None)
        = (Inl (RuntimeError (''metadata HTTP '' @ nat_text 401)), w')"
    proof -
      let ?r = "\<lambda>i u m. [(''id'', JStr i), (''uri'', JStr u), (''methods'', jstrs [m]), (''plugins'', JObj [])]"
      have put: "put_route memory_admin tag (?r i u m) w = (Inr (), w(i \<mapsto> ?r i u m))" for tag i u m w
        by (rule memory_put) (simp_all add: route_id_def differs_def stored_fill_def)
      have id: "route_id (?r i u m) = Inr i" for i u m by (simp add: route_id_def)
      have public: "check_public memory_admin w = (Inl (RuntimeError (''metadata HTTP '' @ nat_text 401)), w)" for w
        by (simp add: check_public_def expect_code_def memory_steps)
      show ?thesis
        by (simp add: apply_routes_def status_snapshot_def sample_status_routes_def put id public rolling_back_def
            status_rollback_def restore_one_def put_back_def previous_route_def memory_steps)
    qed
    moreover have "status_main memory_admin sample_host (Materialize sample_status_doc) = apply_routes memory_admin (check_public memory_admin) sample_status_routes"
      using key secrets inherited
      by (simp add: status_main_def sample_status_valid bindS_lift sample_host_def Let_def env comp_def)
    ultimately show thesis using that by auto
  qed
  have "keeps memory_view (ho_env sample_host)" "keeps memory_view (ho_nginx sample_host)"
    by (simp_all add: sample_host_def keeps_intros)
  from status_deploy_is_guarded [OF memory_admin_faithful memory_filled this run]
  have "memory_view w' ''x'' = memory_view (\<lambda>_. None) ''x''"
    by (auto simp: deployed_def rollback_reported_def)
  with run show ?thesis by (simp add: memory_view_def)
qed

end
