(* ===== verification/Rollout.thy ===== *)
theory Rollout
  imports Json
begin

text \<open>
  Replacing a container, \<open>ops/apisix/rollout_r4a_runtime.py\<close>: the checks of snapshot, candidate and launch,
  the staging of the new container beside the stopped original, and the rollback. Docker is a parameter
  that acts on an outside world; files are a map from paths to what \<open>stat\<close> and \<open>read_text\<close> tell.
\<close>

section \<open>Docker\<close>

text \<open>\<open>docker(*args)\<close>, and the first element of the parsed output of \<open>inspect\<close> and \<open>image inspect\<close>.\<close>

record 'w docker =
  dk_run :: "string list \<Rightarrow> ('w, unit) io"
  dk_inspect :: "string \<Rightarrow> ('w, json) io"
  dk_image :: "string \<Rightarrow> ('w, json) io"

fun called_process :: "py_exn \<Rightarrow> bool" where
  "called_process (CalledProcessError _) = True"
| "called_process _ = False"

fun value_error :: "py_exn \<Rightarrow> bool" where
  "value_error (ValueError _) = True"
| "value_error _ = False"

text \<open>\<open>try: inspect(name) except CalledProcessError: None\<close>\<close>

definition try_inspect :: "'w docker \<Rightarrow> string \<Rightarrow> ('w, json option) io" where
  "try_inspect dk n = tryS (bindS (dk_inspect dk n) (\<lambda>d. returnS (Some d)))
     (\<lambda>e. if called_process e then returnS None else raiseS e)"

definition running :: "json \<Rightarrow> bool res" where
  "running d = bindE (jindex d ''State'') (\<lambda>s. bindE (jindex s ''Running'') (\<lambda>v. Inr (json_truthy v)))"

text \<open>A test for truth of an entry.\<close>

definition field_set :: "json res \<Rightarrow> bool res" where
  "field_set m = bindE m (\<lambda>v. Inr (json_truthy v))"

section \<open>Environment and files\<close>

definition env_name :: "string \<Rightarrow> bool" where
  "env_name s \<longleftrightarrow> s \<noteq> [] \<and> \<not> is_digit (hd s) \<and> list_all (\<lambda>c. is_alpha c \<or> is_digit c \<or> c = CHR ''_'') s"

definition env_map :: "string list \<Rightarrow> (string, string) dict res" where
  "env_map entries = foldE (\<lambda>x out.
     let name = takeWhile (\<lambda>c. c \<noteq> CHR ''='') x; value = tl (dropWhile (\<lambda>c. c \<noteq> CHR ''='') x)
     in if CHR ''='' \<notin> set x \<or> \<not> env_name name \<or> name \<in> set (dict_keys out) \<or> CHR 0x0A \<in> set value \<or> CHR 0x0D \<in> set value
        then Inl (ValueError ''invalid environment format'') else Inr (out @ [(name, value)])) entries []"

definition env_text :: "(string \<times> string) list \<Rightarrow> string" where
  "env_text kvs = concat (map (\<lambda>(k, v). k @ ''='' @ v @ [CHR 0x0A]) kvs)"

type_synonym path = "string list"

record file_stat =
  fi_uid :: nat
  fi_gid :: nat
  fi_mode :: nat
  fi_symlink :: bool
  fi_dir :: bool
  fi_text :: string

type_synonym files = "path \<Rightarrow> file_stat option"

definition stat_of :: "files \<Rightarrow> path \<Rightarrow> file_stat res" where
  "stat_of fs p = (case fs p of None \<Rightarrow> Inl (OSError ''No such file or directory'') | Some f \<Rightarrow> Inr f)"

definition has_mode :: "file_stat \<Rightarrow> nat \<Rightarrow> nat \<Rightarrow> nat \<Rightarrow> bool" where
  "has_mode f uid gid mode \<longleftrightarrow> fi_uid f = uid \<and> fi_gid f = gid \<and> fi_mode f = mode"

text \<open>\<open>private(path, mode, uid, gid)\<close>; the modes are written in decimal.\<close>

definition private_file :: "files \<Rightarrow> path \<Rightarrow> nat \<Rightarrow> nat \<Rightarrow> nat \<Rightarrow> unit res" where
  "private_file fs p mode uid gid = bindE (stat_of fs p) (\<lambda>f.
     if \<not> has_mode f uid gid mode \<or> fi_symlink f then Inl (ValueError ''private file ownership or mode mismatch'') else Inr ())"

text \<open>\<open>s.splitlines()\<close>; \<open>read_text\<close> has already turned a carriage return into a new line.\<close>

fun text_lines :: "string \<Rightarrow> string list" where
  "text_lines [] = []"
| "text_lines (c # s) =
     (if c \<in> {CHR 0x0A, CHR 0x0B, CHR 0x0C, CHR 0x0D, CHR 0x1C, CHR 0x1D, CHR 0x1E, CHR 0x85} then [] # text_lines s
      else (case text_lines s of [] \<Rightarrow> [[c]] | l # ls \<Rightarrow> (c # l) # ls))"

text \<open>\<open>s.count(p)\<close> and \<open>s.replace(p, q, 1)\<close> for a non-empty \<open>p\<close>\<close>

function count_sub :: "string \<Rightarrow> string \<Rightarrow> nat" where
  "count_sub p s = (if s = [] \<or> p = [] then 0
     else if prefix p s then Suc (count_sub p (drop (length p) s)) else count_sub p (tl s))"
  by pat_completeness auto
termination by (relation "measure (\<lambda>(p, s). length s)") auto

declare count_sub.simps [simp del]

fun replace_first :: "string \<Rightarrow> string \<Rightarrow> string \<Rightarrow> string" where
  "replace_first p q [] = []"
| "replace_first p q (c # s) = (if prefix p (c # s) then q @ drop (length p) (c # s) else c # replace_first p q s)"

section \<open>The reviewed snapshot and candidate\<close>

definition env_additions :: "string \<Rightarrow> string set" where
  "env_additions service =
     (if service = ''udp''
      then {''OUF_UDP_SEARCH_TENANT_ID'', ''OUF_UDP_SEARCH_ISSUER'', ''OUF_UDP_SEARCH_AUDIENCE'', ''OUF_UDP_SEARCH_WORKLOAD'',
        ''OUF_UDP_SEARCH_OWNER_KEY_FILE'', ''OUF_AUTHORIZATION_REGISTRY_URL'', ''OUF_AUTHORIZATION_REGISTRY_TOKEN_FILE'',
        ''OUF_AUTHORIZATION_REFRESH_SECONDS'', ''OUF_AUTHORIZATION_MAX_STALENESS_SECONDS''}
      else {''OUF_UDP_SEARCH_OWNER_KEY''})"

text \<open>The new environment adds exactly the names, and is the old one otherwise.\<close>

definition env_extends :: "string set \<Rightarrow> (string, string) dict \<Rightarrow> (string, string) dict \<Rightarrow> bool" where
  "env_extends names old new \<longleftrightarrow> set (dict_keys new) - set (dict_keys old) = names
     \<and> map_of (filter (\<lambda>(k, _). k \<notin> names) new) = map_of old"

definition udp_env_ok :: "(string, string) dict \<Rightarrow> unit res" where
  "udp_env_ok env =
     (if map_of env ''OUF_UDP_SEARCH_OWNER_KEY_FILE'' \<noteq> Some ''/run/secrets/udp-search-owner.key''
      then Inl (ValueError ''unexpected UDP key target'')
      else if map_of env ''OUF_AUTHORIZATION_REGISTRY_TOKEN_FILE'' \<noteq> Some ''/run/ouf-udp-auth/token''
      then Inl (ValueError ''unexpected UDP policy token target'')
      else if map_of env ''OUF_AUTHORIZATION_REFRESH_SECONDS'' \<noteq> Some ''30''
        \<or> map_of env ''OUF_AUTHORIZATION_MAX_STALENESS_SECONDS'' \<noteq> Some ''300''
      then Inl (ValueError ''unexpected UDP authorization refresh bounds'') else Inr ())"

text \<open>The strings of a JSON list, as \<open>env_map\<close> takes them.\<close>

definition string_list :: "json \<Rightarrow> string list res" where
  "string_list v = bindE (jelements v) (mapE (\<lambda>x. case x of JStr s \<Rightarrow> Inr s | _ \<Rightarrow> Inl (TypeError ''not a string'')))"

definition check_env :: "files \<Rightarrow> path \<Rightarrow> string \<times> json \<Rightarrow> unit res" where
  "check_env fs candidate so = (case so of (service, original) \<Rightarrow>
     let p = candidate @ [service @ ''.env''] in
     bindE (private_file fs p 384 0 0) (\<lambda>_. bindE (stat_of fs p) (\<lambda>f.
     if \<not> ends_with (fi_text f) [CHR 0x0A] then Inl (ValueError ''incomplete env file'')
     else bindE (env_map (text_lines (fi_text f))) (\<lambda>now.
       bindE (bindE (jindex original ''Config'') (\<lambda>c. bindE (jindex c ''Env'') string_list)) (\<lambda>entries.
       bindE (env_map entries) (\<lambda>previous.
       if \<not> env_extends (env_additions service) previous now then Inl (ValueError ''existing environment changed'')
       else if service = ''udp'' then udp_env_ok now else Inr ()))))))"

definition token_dir :: path where
  "token_dir = [''run'', ''ouf-udp-auth'']"

definition check_token :: "files \<Rightarrow> unit res" where
  "check_token fs = (case fs token_dir of
       None \<Rightarrow> Inl (ValueError ''UDP policy token runtime directory missing'')
     | Some d \<Rightarrow>
         if \<not> fi_dir d \<or> fi_symlink d then Inl (ValueError ''UDP policy token runtime directory missing'')
         else bindE (stat_of fs (token_dir @ [''token''])) (\<lambda>t.
           if \<not> has_mode d 0 10004 488 then Inl (ValueError ''UDP policy token directory ownership or mode mismatch'')
           else if fi_symlink t \<or> \<not> has_mode t 0 10004 288
           then Inl (ValueError ''UDP policy token file ownership or mode mismatch'')
           else if fi_text t = [] \<or> 16384 < length (fi_text t) then Inl (ValueError ''UDP policy token file size invalid'')
           else Inr ()))"

definition low_hex :: "string \<Rightarrow> bool" where
  "low_hex s \<longleftrightarrow> length s = 64 \<and> list_all (\<lambda>c. is_digit c \<or> (CHR ''a'' \<le> c \<and> c \<le> CHR ''f'')) s"

definition check_key :: "files \<Rightarrow> path \<Rightarrow> unit res" where
  "check_key fs candidate = (let p = candidate @ [''udp-search-owner.key''] in
     bindE (private_file fs p 256 10004 10004) (\<lambda>_. bindE (stat_of fs p) (\<lambda>f.
     let secret = strip (fi_text f) in
     if \<not> low_hex secret then Inl (ValueError ''candidate keys differ'')
     else bindE (stat_of fs (candidate @ [''apisix.env''])) (\<lambda>e. bindE (env_map (text_lines (fi_text e))) (\<lambda>env.
       case map_of env ''OUF_UDP_SEARCH_OWNER_KEY'' of
         None \<Rightarrow> Inl (KeyError ''OUF_UDP_SEARCH_OWNER_KEY'')
       | Some k \<Rightarrow> if k \<noteq> secret then Inl (ValueError ''candidate keys differ'') else Inr ())))))"

definition yaml_marker :: string where
  "yaml_marker = ''  - GATEWAY_SUMMARY_RECEIPT_KEY'' @ [CHR 0x0A]"

definition yaml_extended :: "string \<Rightarrow> string \<Rightarrow> bool" where
  "yaml_extended previous new \<longleftrightarrow> count_sub yaml_marker previous = 1 \<and> \<not> contains previous ''OUF_UDP_SEARCH_OWNER_KEY''
     \<and> new = replace_first yaml_marker (yaml_marker @ ''  - OUF_UDP_SEARCH_OWNER_KEY'' @ [CHR 0x0A]) previous"

text \<open>\<open>split\<close> reads a path text.\<close>

definition check_yaml :: "files \<Rightarrow> (string \<Rightarrow> path) \<Rightarrow> path \<Rightarrow> json \<Rightarrow> unit res" where
  "check_yaml fs split candidate original = bindE (jindex original ''Mounts'') (\<lambda>v. bindE (jelements v) (\<lambda>ms.
     if length ms \<noteq> 1 then Inl (ValueError ''unexpected original APISIX bind'')
     else let m = hd ms in
       bindE (or_chain [jneq (jindex m ''Destination'') (JStr ''/usr/local/apisix/conf/config.yaml''), field_set (jindex m ''RW'')]) (\<lambda>bad.
       if bad then Inl (ValueError ''unexpected original APISIX bind'')
       else bindE (jindex m ''Source'') (\<lambda>s. case s of
           JStr text \<Rightarrow> bindE (stat_of fs (candidate @ [''apisix-config.yaml''])) (\<lambda>st. bindE (stat_of fs (split text)) (\<lambda>old_st.
             if \<not> has_mode st (fi_uid old_st) (fi_gid old_st) (fi_mode old_st) then Inl (ValueError ''YAML permissions changed'')
             else if \<not> yaml_extended (fi_text old_st) (fi_text st)
             then Inl (ValueError ''candidate YAML differs beyond one env name'') else Inr ()))
         | _ \<Rightarrow> Inl (TypeError ''expected str'')))))"

text \<open>\<open>{c["Name"][1:]: c for c in docs}\<close>\<close>

definition by_name :: "json \<Rightarrow> (string, json) dict res" where
  "by_name docs = bindE (jelements docs) (\<lambda>cs. foldE (\<lambda>c d. bindE (jindex c ''Name'') (\<lambda>n. case n of
     JStr s \<Rightarrow> Inr (dict_set (tl s) c d) | _ \<Rightarrow> Inl (TypeError ''not subscriptable''))) cs [])"

definition snapshot_and_candidate ::
  "(string \<Rightarrow> json res) \<Rightarrow> (string \<Rightarrow> path) \<Rightarrow> files \<Rightarrow> path \<Rightarrow> path \<Rightarrow> (string, json) dict res" where
  "snapshot_and_candidate loads split fs snap candidate =
     bindE (private_file fs (butlast snap) 448 0 0) (\<lambda>_.
     bindE (private_file fs snap 384 0 0) (\<lambda>_.
     bindE (private_file fs candidate 448 0 0) (\<lambda>_.
     if butlast candidate \<noteq> butlast snap \<or> candidate = [] \<or> \<not> starts_with (last candidate) ''candidate-''
     then Inl (ValueError ''candidate is not adjacent to snapshot'')
     else bindE (stat_of fs snap) (\<lambda>f. bindE (loads (fi_text f)) (\<lambda>docs. bindE (by_name docs) (\<lambda>old.
       case (map_of old ''ouf-udp'', map_of old ''ouf-apisix'') of
         (Some udp, Some apisix) \<Rightarrow>
           if set (dict_keys old) \<noteq> {''ouf-udp'', ''ouf-apisix''} then Inl (ValueError ''unexpected snapshot'')
           else bindE (mapE (check_env fs candidate) [(''udp'', udp), (''apisix'', apisix)]) (\<lambda>_.
             bindE (check_token fs) (\<lambda>_. bindE (check_key fs candidate) (\<lambda>_.
             bindE (check_yaml fs split candidate apisix) (\<lambda>_. Inr old))))
       | _ \<Rightarrow> Inl (ValueError ''unexpected snapshot'')))))))"

section \<open>The launch of the original\<close>

definition images :: "string \<Rightarrow> string \<times> string" where
  "images service =
     (if service = ''udp''
      then (''ouf-udp:r4a-3980fe2'', ''sha256:96a0327f22ab07c34eaa3255b644b55e27d955519eefb4b218d83f3143f933be'')
      else (''sha256:84e6b5e787e9f889ebff88161cb9a16599bafcffa236c6b54c7f779a0655940d'',
        ''sha256:84e6b5e787e9f889ebff88161cb9a16599bafcffa236c6b54c7f779a0655940d''))"

definition service_name :: "string \<Rightarrow> string" where
  "service_name service = ''ouf-'' @ service"

text \<open>\<open>set(v) != names\<close> of a dictionary, and \<open>v.get(k)\<close> as a test.\<close>

definition names_differ :: "json \<Rightarrow> string set \<Rightarrow> bool res" where
  "names_differ v names = bindE (jelements v) (\<lambda>vs. bindE (jset vs) (\<lambda>s. Inr (s \<noteq> JStr ` names)))"

definition config_user :: "json \<Rightarrow> json res" where
  "config_user original = bindE (jindex original ''Config'') (\<lambda>c. jindex c ''User'')"

definition mount_count :: "json \<Rightarrow> nat res" where
  "mount_count original = bindE (jindex original ''Mounts'') (\<lambda>v. bindE (jelements v) (\<lambda>ms. Inr (length ms)))"

definition baseline_differs :: "string \<Rightarrow> json \<Rightarrow> json \<Rightarrow> json \<Rightarrow> bool res" where
  "baseline_differs service original host networks =
     (if service = ''udp'' then or_chain [
        names_differ networks {''ouf-backend''}, jneq (config_user original) (JStr ''10004:10004''),
        jneq (jindex host ''Memory'') (JInt 2147483648), jneq (jindex host ''MemorySwap'') (JInt 4294967296),
        field_set (jindex original ''Mounts'')]
      else or_chain [
        names_differ networks {''ouf-backend'', ''ouf-gateway-control''},
        jneq (jindex host ''NetworkMode'') (JStr ''ouf-gateway-control''), jneq (config_user original) (JStr ''apisix''),
        jneq (jindex host ''Memory'') (JInt 0), jneq (jindex host ''MemorySwap'') (JInt 0),
        bindE (mount_count original) (\<lambda>n. Inr (n \<noteq> 1))])"

text \<open>Launch options the script cannot carry over: any of them set blocks the rollout.\<close>

definition unsupported_options :: "string list" where
  "unsupported_options = [''Privileged'', ''ReadonlyRootfs'', ''AutoRemove'', ''PortBindings'', ''PublishAllPorts'', ''Tmpfs'',
     ''CapAdd'', ''CapDrop'', ''SecurityOpt'', ''Devices'', ''DeviceRequests'', ''Dns'', ''ExtraHosts'', ''Ulimits'', ''Sysctls'',
     ''GroupAdd'', ''VolumesFrom'', ''Links'', ''PidMode'', ''UsernsMode'', ''NanoCpus'', ''CpuShares'', ''CpuQuota'', ''CpuPeriod'']"

definition log_config :: "json \<Rightarrow> string \<Rightarrow> json res" where
  "log_config host k = bindE (jget host ''LogConfig'' (JObj [])) (\<lambda>l. jget l k JNull)"

definition launch_unsupported :: "json \<Rightarrow> json \<Rightarrow> bool res" where
  "launch_unsupported host networks = or_chain (
     [bindE (jindex host ''NetworkMode'') (\<lambda>m. case m of
        JStr s \<Rightarrow> bindE (jin s networks) (\<lambda>b. Inr (\<not> b)) | _ \<Rightarrow> bindE (jset [m]) (\<lambda>_. Inr True)),
      jneq (bindE (jindex host ''RestartPolicy'') (\<lambda>p. jindex p ''Name'')) (JStr ''unless-stopped'')]
     @ map (\<lambda>k. field_set (jget host k JNull)) unsupported_options
     @ [bindE (jget host ''PidsLimit'' JNull) (\<lambda>v. Inr (\<not> json_eq v JNull \<and> \<not> json_eq v (JInt 0))),
        field_set (jget host ''OomKillDisable'' JNull), field_set (jget host ''Init'' JNull),
        jneq (log_config host ''Type'') (JStr ''json-file''), field_set (log_config host ''Config''),
        jneq (jget host ''IpcMode'' JNull) (JStr ''private'')])"

text \<open>\<open>(v or None) != (w or None)\<close>\<close>

definition default_differs :: "json \<Rightarrow> json \<Rightarrow> string \<Rightarrow> bool res" where
  "default_differs config img k = bindE (jget config k JNull) (\<lambda>v. bindE (jget img k JNull) (\<lambda>w.
     let none = (\<lambda>x. if json_truthy x then x else JNull) in Inr (\<not> json_eq (none v) (none w))))"

text \<open>\<open>str(v)\<close> of a number, as docker reports sizes.\<close>

fun number_text :: "json \<Rightarrow> string res" where
  "number_text (JInt n) = Inr (int_text n)"
| "number_text _ = Inl (TypeError ''not a number'')"

fun field_text :: "json \<Rightarrow> string res" where
  "field_text (JStr s) = Inr s"
| "field_text _ = Inl (TypeError ''expected str'')"

text \<open>\<open>join\<close> writes a path as text.\<close>

definition mount_arg :: "string \<Rightarrow> string \<Rightarrow> string list" where
  "mount_arg src dst = [''--mount'', ''type=bind,src='' @ src @ '',dst='' @ dst @ '',readonly'']"

definition aliases_of :: "json \<Rightarrow> json \<Rightarrow> string \<Rightarrow> json \<Rightarrow> string list res" where
  "aliases_of networks mode name original = bindE (field_text mode) (\<lambda>m. bindE (jindex networks m) (\<lambda>n.
     bindE (jget n ''Aliases'' JNull) (\<lambda>v. bindE (if json_truthy v then string_list v else Inr []) (\<lambda>xs.
     bindE (bindE (jindex original ''Id'') field_text) (\<lambda>i.
     Inr (sort_by (key_le id) (remdups (filter (\<lambda>x. x \<notin> {name, take 12 i}) xs))))))))"

definition create_args ::
  "(path \<Rightarrow> string) \<Rightarrow> string \<Rightarrow> path \<Rightarrow> json \<Rightarrow> json \<Rightarrow> json \<Rightarrow> string \<Rightarrow> string list res" where
  "create_args join service candidate original host networks img =
     (let name = service_name service in
      bindE (bindE (config_user original) field_text) (\<lambda>user. bindE (jindex host ''NetworkMode'') (\<lambda>mode. bindE (field_text mode) (\<lambda>net.
      bindE (bindE (jindex host ''ShmSize'') number_text) (\<lambda>shm.
      bindE (if service = ''udp'' then
          bindE (bindE (jindex host ''Memory'') number_text) (\<lambda>mem. bindE (bindE (jindex host ''MemorySwap'') number_text) (\<lambda>swap.
          Inr ([''--memory'', mem, ''--memory-swap'', swap]
            @ mount_arg (join (candidate @ [''udp-search-owner.key''])) ''/run/secrets/udp-search-owner.key''
            @ mount_arg ''/run/ouf-udp-auth'' ''/run/ouf-udp-auth'')))
        else Inr (mount_arg (join (candidate @ [''apisix-config.yaml''])) ''/usr/local/apisix/conf/config.yaml'')) (\<lambda>extra.
      bindE (aliases_of networks mode name original) (\<lambda>aliases.
      Inr ([''create'', ''--name'', name, ''--pull'', ''never'', ''--user'', user, ''--restart'', ''unless-stopped'',
          ''--network'', net, ''--shm-size'', shm, ''--log-driver'', ''json-file'',
          ''--env-file'', join (candidate @ [service @ ''.env''])]
        @ extra @ concat (map (\<lambda>a. [''--network-alias'', a]) aliases) @ [img]))))))))"

definition is_current :: "json \<Rightarrow> json \<Rightarrow> bool res" where
  "is_current current original = bindE (or_chain [
     bindE (jindex original ''Id'') (\<lambda>i. jneq (jindex current ''Id'') i), bindE (running current) (\<lambda>b. Inr (\<not> b))])
     (\<lambda>bad. Inr (\<not> bad))"

definition candidate_image :: "json \<Rightarrow> json \<Rightarrow> string \<Rightarrow> unit res" where
  "candidate_image info original digest = bindE (jneq (jindex info ''Id'') (JStr digest)) (\<lambda>changed.
     if changed then Inl (ValueError ''candidate image ID changed'')
     else bindE (jindex info ''Config'') (\<lambda>img. bindE (jindex original ''Config'') (\<lambda>config.
       bindE (or_chain (map (default_differs config img) [''Entrypoint'', ''Cmd'', ''WorkingDir'', ''User''])) (\<lambda>bad.
       if bad then Inl (ValueError ''candidate image default launch differs from original'')
       else bindE (or_chain [field_set (jget img ''Volumes'' JNull),
           bindE (jget config ''Healthcheck'' JNull) (\<lambda>h. jneq (jget img ''Healthcheck'' JNull) h)]) (\<lambda>bad.
         if bad then Inl (ValueError ''candidate image mount or healthcheck differs'') else Inr ())))))"

definition validate_launch ::
  "'w docker \<Rightarrow> (path \<Rightarrow> string) \<Rightarrow> string \<Rightarrow> (string, json) dict \<Rightarrow> path \<Rightarrow> bool \<Rightarrow> ('w, string list \<times> string) io" where
  "validate_launch dk join service old candidate apply =
     (let name = service_name service; (img, digest) = images service in
      bindS (liftS (case map_of old name of None \<Rightarrow> Inl (KeyError name) | Some o' \<Rightarrow> Inr o')) (\<lambda>original.
      bindS (dk_inspect dk name) (\<lambda>current. bindS (liftS (is_current current original)) (\<lambda>same.
      if \<not> same then raiseS (ValueError ''original service is no longer running at snapshot ID'')
      else bindS (if service = ''apisix'' \<and> apply then
             bindS (dk_inspect dk ''ouf-udp'') (\<lambda>udp. bindS (liftS (or_chain [jneq (jindex udp ''Image'') (JStr (snd (images ''udp''))),
               bindE (running udp) (\<lambda>b. Inr (\<not> b))])) (\<lambda>bad.
             if bad then raiseS (ValueError ''candidate UDP must run before APISIX'') else returnS ()))
           else returnS ()) (\<lambda>_.
      bindS (liftS (jindex original ''HostConfig'')) (\<lambda>host.
      bindS (liftS (bindE (jindex original ''NetworkSettings'') (\<lambda>n. jindex n ''Networks''))) (\<lambda>networks.
      bindS (liftS (baseline_differs service original host networks)) (\<lambda>bad.
      if bad then raiseS (ValueError (if service = ''udp'' then ''UDP launch differs from reviewed baseline''
        else ''APISIX launch differs from reviewed baseline''))
      else bindS (liftS (launch_unsupported host networks)) (\<lambda>bad.
        if bad then raiseS (ValueError ''unsupported Docker launch option; review required'')
        else bindS (dk_image dk img) (\<lambda>info. bindS (liftS (candidate_image info original digest)) (\<lambda>_.
          bindS (liftS (create_args join service candidate original host networks img)) (\<lambda>args.
          returnS (args, digest)))))))))))))"

section \<open>Staging and rollback\<close>

text \<open>What \<open>rollout-<service>.json\<close> keeps.\<close>

record rollout_state =
  rs_service :: string
  rs_old_id :: json
  rs_backup :: string

definition state_json :: "rollout_state \<Rightarrow> json" where
  "state_json st = JObj [(''service'', JStr (rs_service st)), (''old_id'', rs_old_id st), (''backup'', JStr (rs_backup st))]"

definition readiness_args :: "string \<Rightarrow> string list" where
  "readiness_args name = [''exec'', name, ''wget'', ''-q'', ''-O'', ''/dev/null'',
     ''http://127.0.0.1:8080/actuator/health/readiness'']"

text \<open>The attempts that are left; sleeping between them changes nothing.\<close>

fun wait_ready :: "'w docker \<Rightarrow> string \<Rightarrow> string \<Rightarrow> nat \<Rightarrow> ('w, unit) io" where
  "wait_ready dk name msg 0 = returnS ()"
| "wait_ready dk name msg (Suc k) = tryS (dk_run dk (readiness_args name)) (\<lambda>e.
     if \<not> called_process e then raiseS e
     else if k = 0 then raiseS (ValueError msg) else wait_ready dk name msg k)"

definition wait_udp_ready :: "'w docker \<Rightarrow> string \<Rightarrow> ('w, unit) io" where
  "wait_udp_ready dk name = wait_ready dk name ''UDP readiness did not become healthy'' 20"

definition set_restart :: "'w docker \<Rightarrow> string \<Rightarrow> string \<Rightarrow> ('w, unit) io" where
  "set_restart dk mode name = dk_run dk [''update'', ''--restart'', mode, name]"

text \<open>Stop and remove the container that took the name, unless it is the original.\<close>

definition remove_candidate :: "'w docker \<Rightarrow> string \<Rightarrow> json \<Rightarrow> json option \<Rightarrow> ('w, unit) io" where
  "remove_candidate dk name old_id current = (case current of
       None \<Rightarrow> returnS ()
     | Some d \<Rightarrow>
         if \<not> json_truthy d then returnS ()
         else bindS (liftS (jneq (jindex d ''Id'') old_id)) (\<lambda>other.
           if \<not> other then returnS ()
           else bindS (set_restart dk ''no'' name) (\<lambda>_.
             bindS (liftS (running d)) (\<lambda>run.
             bindS (if run then dk_run dk [''stop'', name] else returnS ()) (\<lambda>_.
             dk_run dk [''rm'', name])))))"

definition rename_back :: "'w docker \<Rightarrow> string \<Rightarrow> string \<Rightarrow> json \<Rightarrow> json option \<Rightarrow> ('w, unit) io" where
  "rename_back dk name backup old_id original = (case original of
       None \<Rightarrow> returnS ()
     | Some d \<Rightarrow>
         if \<not> json_truthy d then returnS ()
         else bindS (liftS (jneq (jindex d ''Id'') old_id)) (\<lambda>other.
           if other then raiseS (ValueError ''rollback container identity mismatch'')
           else dk_run dk [''rename'', backup, name]))"

definition roll_back :: "'w docker \<Rightarrow> string \<Rightarrow> json \<Rightarrow> string \<Rightarrow> ('w, unit) io" where
  "roll_back dk service old_id backup =
     (let name = service_name service in
      bindS (try_inspect dk name) (\<lambda>current.
      bindS (remove_candidate dk name old_id current) (\<lambda>_.
      bindS (try_inspect dk backup) (\<lambda>original.
      bindS (rename_back dk name backup old_id original) (\<lambda>_.
      bindS (dk_inspect dk name) (\<lambda>restored.
      bindS (liftS (jneq (jindex restored ''Id'') old_id)) (\<lambda>other.
      if other then raiseS (ValueError ''cannot restore original container'')
      else bindS (liftS (running restored)) (\<lambda>run.
        bindS (if run then returnS () else dk_run dk [''start'', name]) (\<lambda>_.
        bindS (set_restart dk ''unless-stopped'' name) (\<lambda>_.
        bindS (dk_inspect dk name) (\<lambda>now.
        bindS (liftS (running now)) (\<lambda>up.
        if \<not> up then raiseS (ValueError ''original container did not restart'')
        else if service = ''udp'' then wait_udp_ready dk name else returnS ()))))))))))))"

definition bring_up :: "'w docker \<Rightarrow> string \<Rightarrow> string \<Rightarrow> string \<Rightarrow> string list \<Rightarrow> ('w, unit) io" where
  "bring_up dk service backup digest args =
     (let name = service_name service in
      bindS (set_restart dk ''no'' name) (\<lambda>_.
      bindS (dk_run dk [''stop'', name]) (\<lambda>_.
      bindS (dk_run dk [''rename'', name, backup]) (\<lambda>_.
      bindS (dk_run dk args) (\<lambda>_.
      bindS (if service = ''apisix'' then dk_run dk [''network'', ''connect'', ''ouf-backend'', name] else returnS ()) (\<lambda>_.
      bindS (dk_run dk [''start'', name]) (\<lambda>_.
      bindS (dk_inspect dk name) (\<lambda>current.
      bindS (liftS (or_chain [jneq (jindex current ''Image'') (JStr digest), bindE (running current) (\<lambda>b. Inr (\<not> b))])) (\<lambda>bad.
      if bad then raiseS (ValueError ''candidate exited or has wrong image'')
      else if service = ''udp'' then wait_udp_ready dk name else returnS ())))))))))"

text \<open>The part of \<open>main\<close> that changes containers; \<open>save\<close> writes the state file, which must not exist.\<close>

definition stage_service ::
  "'w docker \<Rightarrow> (json \<Rightarrow> ('w, unit) io) \<Rightarrow> string \<Rightarrow> json \<Rightarrow> string list \<Rightarrow> string \<Rightarrow> ('w, unit) io" where
  "stage_service dk save service old_id args digest =
     (let name = service_name service; backup = name @ ''-r4a-original'' in
      bindS (try_inspect dk backup) (\<lambda>taken.
      if taken \<noteq> None then raiseS (ValueError ''rollback name already exists'')
      else bindS (save (state_json \<lparr>rs_service = service, rs_old_id = old_id, rs_backup = backup\<rparr>)) (\<lambda>_.
        tryS (bring_up dk service backup digest args) (\<lambda>e.
          if called_process e \<or> value_error e
          then bindS (roll_back dk service old_id backup) (\<lambda>_. raiseS (ValueError ''candidate failed; original restored''))
          else raiseS e))))"

datatype rollout_mode = Dry_Run | Apply | Rollback

definition rollback_service ::
  "'w docker \<Rightarrow> (string \<Rightarrow> json res) \<Rightarrow> files \<Rightarrow> string \<Rightarrow> path \<Rightarrow> ('w, unit) io" where
  "rollback_service dk loads fs service candidate =
     (let p = candidate @ [''rollout-'' @ service @ ''.json''] in
      bindS (liftS (private_file fs candidate 448 0 0)) (\<lambda>_.
      bindS (liftS (private_file fs p 384 0 0)) (\<lambda>_.
      bindS (liftS (bindE (stat_of fs p) (\<lambda>f. loads (fi_text f)))) (\<lambda>state.
      bindS (liftS (jneq (jindex state ''service'') (JStr service))) (\<lambda>other.
      if other then raiseS (ValueError ''rollback state differs from service'')
      else bindS (if service \<noteq> ''udp'' then returnS ()
          else (case fs (candidate @ [''rollout-apisix.json'']) of
              None \<Rightarrow> returnS ()
            | Some f \<Rightarrow> bindS (liftS (loads (fi_text f))) (\<lambda>api. bindS (dk_inspect dk ''ouf-apisix'') (\<lambda>now.
                bindS (liftS (bindE (jindex api ''old_id'') (\<lambda>i. jneq (jindex now ''Id'') i))) (\<lambda>replaced.
                if replaced then raiseS (ValueError ''rollback APISIX before UDP'') else returnS ())))))  (\<lambda>_.
        bindS (liftS (bindE (jindex state ''backup'') field_text)) (\<lambda>backup.
        bindS (liftS (jindex state ''old_id'')) (\<lambda>old_id.
        roll_back dk service old_id backup))))))))"

text \<open>\<open>p.exit(1, text)\<close> of the errors that \<open>main\<close> handles; other exceptions escape.\<close>

fun blocked :: "py_exn \<Rightarrow> py_exn" where
  "blocked (ValueError m) = SystemExit (''R4A_ROLLOUT_BLOCKED: '' @ m)"
| "blocked (OSError m) = SystemExit ''R4A_ROLLOUT_BLOCKED: OSError''"
| "blocked (KeyError m) = SystemExit ''R4A_ROLLOUT_BLOCKED: KeyError''"
| "blocked (TypeError m) = SystemExit ''R4A_ROLLOUT_BLOCKED: TypeError''"
| "blocked (CalledProcessError m) = SystemExit ''R4A_ROLLOUT_BLOCKED: CalledProcessError''"
| "blocked e = e"

definition rollout_main ::
  "'w docker \<Rightarrow> (string \<Rightarrow> json res) \<Rightarrow> (string \<Rightarrow> path) \<Rightarrow> (path \<Rightarrow> string) \<Rightarrow> (json \<Rightarrow> ('w, unit) io)
     \<Rightarrow> files \<Rightarrow> path \<Rightarrow> path \<Rightarrow> string \<Rightarrow> rollout_mode \<Rightarrow> ('w, unit) io" where
  "rollout_main dk loads split join save fs snap candidate service mode = tryS
     (if mode = Rollback then rollback_service dk loads fs service candidate
      else bindS (liftS (snapshot_and_candidate loads split fs snap candidate)) (\<lambda>old.
        bindS (validate_launch dk join service old candidate (mode = Apply)) (\<lambda>(args, digest).
        if fs (candidate @ [''rollout-'' @ service @ ''.json'']) \<noteq> None
        then raiseS (ValueError ''service already staged; inspect state or rollback'')
        else if mode = Dry_Run then returnS ()
        else bindS (liftS (case map_of old (service_name service) of
            None \<Rightarrow> Inl (KeyError (service_name service)) | Some o' \<Rightarrow> jindex o' ''Id'')) (\<lambda>old_id.
          stage_service dk save service old_id args digest))))
     (\<lambda>e. raiseS (blocked e))"

end
