(* ===== verification/Url.thy ===== *)
theory Url
  imports Prelude
begin

text \<open>
  \<open>urllib.parse.urlsplit\<close> of Python 3.13 as far as the materialisers read it: scheme, network
  location, path, query and fragment, with the user information and the host of the network location.
  Characters are code points below 256.
\<close>

record split_url =
  su_scheme :: string
  su_netloc :: string
  su_path :: string
  su_query :: string
  su_fragment :: string

text \<open>\<open>s.partition(c)\<close>, the text after the separator as an option, and \<open>s.rpartition(c)\<close>.\<close>

definition partition_at :: "char \<Rightarrow> string \<Rightarrow> string \<times> string option" where
  "partition_at c s = (takeWhile (\<lambda>x. x \<noteq> c) s,
     case dropWhile (\<lambda>x. x \<noteq> c) s of [] \<Rightarrow> None | _ # t \<Rightarrow> Some t)"

definition rpartition_at :: "char \<Rightarrow> string \<Rightarrow> string option \<times> string" where
  "rpartition_at c s = (case partition_at c (rev s) of (t, h) \<Rightarrow> (map_option rev h, rev t))"

section \<open>Addresses in brackets\<close>

definition ipv4_octet :: "string \<Rightarrow> bool" where
  "ipv4_octet s \<longleftrightarrow> s \<noteq> [] \<and> length s \<le> 3 \<and> list_all is_digit s \<and> (length s = 1 \<or> hd s \<noteq> CHR ''0'')
     \<and> foldl (\<lambda>n c. 10 * n + (of_char c - 48)) 0 s \<le> (255 :: nat)"

definition ipv4_ok :: "string \<Rightarrow> bool" where
  "ipv4_ok s = (let ps = split_on CHR ''.'' s in length ps = 4 \<and> list_all ipv4_octet ps)"

definition hextet :: "string \<Rightarrow> bool" where
  "hextet s \<longleftrightarrow> s \<noteq> [] \<and> length s \<le> 4 \<and> list_all is_hex s"

text \<open>The groups of an IPv6 address: eight, or fewer around one \<open>::\<close>.\<close>

definition empty_groups :: "string list \<Rightarrow> nat list" where
  "empty_groups ps = filter (\<lambda>i. ps ! i = []) [1..<length ps - 1]"

definition ipv6_groups :: "string list \<Rightarrow> bool" where
  "ipv6_groups ps =
     (length ps \<le> 9 \<and>
      (case empty_groups ps of
         [] \<Rightarrow> length ps = 8 \<and> list_all hextet ps
       | [i] \<Rightarrow>
           let hi = (if hd ps = [] then i - 1 else i);
               lo = (if last ps = [] then length ps - i - 2 else length ps - i - 1) in
           (hd ps = [] \<longrightarrow> hi = 0) \<and> (last ps = [] \<longrightarrow> lo = 0) \<and> hi + lo \<le> 7
           \<and> list_all hextet (take hi ps) \<and> list_all hextet (drop (length ps - lo) ps)
       | _ \<Rightarrow> False))"

definition ipv6_ok :: "string \<Rightarrow> bool" where
  "ipv6_ok s =
     (CHR ''/'' \<notin> set s \<and>
      (case partition_at CHR ''%'' s of (a, zone) \<Rightarrow>
         (case zone of None \<Rightarrow> True | Some z \<Rightarrow> z \<noteq> [] \<and> CHR ''%'' \<notin> set z) \<and>
         (let ps = split_on CHR '':'' a in
          length ps \<ge> 3 \<and>
          (if CHR ''.'' \<in> set (last ps) then ipv4_ok (last ps) \<and> ipv6_groups (butlast ps @ [''0'', ''0''])
           else ipv6_groups ps))))"

definition ip_future :: "string \<Rightarrow> bool" where
  "ip_future s = (case partition_at CHR ''.'' (tl s) of
     (digits, rest) \<Rightarrow> hd s = CHR ''v'' \<and> digits \<noteq> [] \<and> list_all is_hex digits
       \<and> (case rest of None \<Rightarrow> False | Some t \<Rightarrow> t \<noteq> [] \<and> CHR 0x0A \<notin> set t))"

definition bracketed_host :: "string \<Rightarrow> bool" where
  "bracketed_host h = (if prefix ''v'' h then ip_future h else ipv6_ok h)"

definition bracketed_netloc :: "string \<Rightarrow> bool" where
  "bracketed_netloc netloc =
     (case partition_at CHR ''['' (snd (rpartition_at CHR ''@'' netloc)) of
        (h, None) \<Rightarrow> bracketed_host (fst (partition_at CHR '':'' h))
      | (before, Some b) \<Rightarrow> before = [] \<and>
          (case partition_at CHR '']'' b of (h, port) \<Rightarrow>
             (case port of None \<Rightarrow> True | Some p \<Rightarrow> p = [] \<or> prefix '':'' p) \<and> bracketed_host h))"

definition netloc_ok :: "string \<Rightarrow> bool" where
  "netloc_ok netloc =
     (if CHR ''['' \<in> set netloc \<or> CHR '']'' \<in> set netloc
      then CHR ''['' \<in> set netloc \<and> CHR '']'' \<in> set netloc \<and> bracketed_netloc netloc else True)"

section \<open>Splitting\<close>

definition scheme_char :: "char \<Rightarrow> bool" where
  "scheme_char c \<longleftrightarrow> is_alpha c \<or> is_digit c \<or> c \<in> set ''+-.''"

definition strip_unsafe :: "string \<Rightarrow> string" where
  "strip_unsafe s = filter (\<lambda>c. c \<notin> {CHR 0x09, CHR 0x0A, CHR 0x0D}) (dropWhile (\<lambda>c. c \<le> CHR '' '') s)"

definition split_scheme :: "string \<Rightarrow> string \<times> string" where
  "split_scheme s =
     (case partition_at CHR '':'' s of
        (p, Some rest) \<Rightarrow> if p \<noteq> [] \<and> is_alpha (hd p) \<and> list_all scheme_char p then (lower p, rest) else ([], s)
      | _ \<Rightarrow> ([], s))"

definition split_netloc :: "string \<Rightarrow> string \<times> string" where
  "split_netloc s =
     (if prefix ''//'' s
      then (takeWhile (\<lambda>c. c \<notin> set ''/?#'') (drop 2 s), dropWhile (\<lambda>c. c \<notin> set ''/?#'') (drop 2 s))
      else ([], s))"

definition or_empty_text :: "string option \<Rightarrow> string" where
  "or_empty_text v = (case v of None \<Rightarrow> [] | Some s \<Rightarrow> s)"

definition urlsplit :: "string \<Rightarrow> split_url res" where
  "urlsplit url =
     (case split_scheme (strip_unsafe url) of (scheme, s) \<Rightarrow>
      case split_netloc s of (netloc, s') \<Rightarrow>
      if \<not> netloc_ok netloc then Inl (ValueError ''Invalid IPv6 URL'')
      else (case partition_at CHR ''#'' s' of (s'', fragment) \<Rightarrow>
            case partition_at CHR ''?'' s'' of (path, query) \<Rightarrow>
            Inr \<lparr>su_scheme = scheme, su_netloc = netloc, su_path = path,
              su_query = or_empty_text query, su_fragment = or_empty_text fragment\<rparr>))"

text \<open>\<open>username\<close>, \<open>password\<close> and \<open>hostname\<close>; the case of the host is left as it is.\<close>

definition url_username :: "split_url \<Rightarrow> string option" where
  "url_username u = map_option (\<lambda>i. fst (partition_at CHR '':'' i)) (fst (rpartition_at CHR ''@'' (su_netloc u)))"

definition url_password :: "split_url \<Rightarrow> string option" where
  "url_password u = Option.bind (fst (rpartition_at CHR ''@'' (su_netloc u))) (\<lambda>i. snd (partition_at CHR '':'' i))"

definition url_host :: "split_url \<Rightarrow> string" where
  "url_host u =
     (let h = snd (rpartition_at CHR ''@'' (su_netloc u)) in
      case partition_at CHR ''['' h of
        (_, Some b) \<Rightarrow> fst (partition_at CHR '']'' b)
      | _ \<Rightarrow> fst (partition_at CHR '':'' h))"

lemma partition_at_None [simp]: "c \<notin> set s \<Longrightarrow> partition_at c s = (s, None)"
  by (induction s) (auto simp: partition_at_def)

lemma partition_at_append [simp]: "c \<notin> set s \<Longrightarrow> partition_at c (s @ c # t) = (s, Some t)"
  by (induction s) (auto simp: partition_at_def)

lemma no_userinfo: "CHR ''@'' \<notin> set (su_netloc u) \<Longrightarrow> url_username u = None \<and> url_password u = None"
  by (simp add: url_username_def url_password_def rpartition_at_def)

end
