(* ===== verification/Route_Build.thy ===== *)
theory Route_Build
  imports Url Json
begin

text \<open>
  The materialisers of the APISIX ingress and internal routes: \<open>materialize_apisix_runtime.py\<close>,
  \<open>materialize_apisix_internal_m2m_routes.py\<close> and \<open>materialize_apisix_authorization_runtime.py\<close>. They turn
  the compiled runtime of an installation, a JSON document, into the routes that the deployers write.
  The Lua functions in a route are text; nothing here runs them.
\<close>

section \<open>Values as text\<close>

fun glue :: "string \<Rightarrow> string list \<Rightarrow> string" where
  "glue sep [] = []"
| "glue sep [x] = x"
| "glue sep (x # y # ys) = x @ sep @ glue sep (y # ys)"

definition hex2 :: "char \<Rightarrow> string" where
  "hex2 c = lower [hex_digit (of_char c div 16), hex_digit (of_char c mod 16)]"

text \<open>\<open>json.dumps\<close> of a string, with ASCII output.\<close>

definition json_char :: "char \<Rightarrow> string" where
  "json_char c =
     (if c = CHR 0x22 then [CHR 0x5C, CHR 0x22] else if c = CHR 0x5C then [CHR 0x5C, CHR 0x5C]
      else if c = CHR 0x0A then [CHR 0x5C, CHR ''n''] else if c = CHR 0x0D then [CHR 0x5C, CHR ''r'']
      else if c = CHR 0x09 then [CHR 0x5C, CHR ''t''] else if c = CHR 0x08 then [CHR 0x5C, CHR ''b'']
      else if c = CHR 0x0C then [CHR 0x5C, CHR ''f'']
      else if CHR '' '' \<le> c \<and> c \<le> CHR ''~'' then [c] else [CHR 0x5C] @ ''u00'' @ hex2 c)"

definition json_text :: "string \<Rightarrow> string" where
  "json_text s = [CHR 0x22] @ concat (map json_char s) @ [CHR 0x22]"

definition lua_quote :: "string \<Rightarrow> string" where
  "lua_quote s = json_text s"

text \<open>\<open>json.dumps(v, separators=(",", ":"))\<close>; with sorted keys on \<open>canon v\<close>.\<close>

fun json_compact :: "json \<Rightarrow> string" where
  "json_compact JNull = ''null''"
| "json_compact (JBool b) = (if b then ''true'' else ''false'')"
| "json_compact (JInt n) = int_text n"
| "json_compact (JStr s) = json_text s"
| "json_compact (JList vs) = ''['' @ glue '','' (map json_compact vs) @ '']''"
| "json_compact (JObj kvs) = ''{'' @ glue '','' (map (\<lambda>(k, v). json_text k @ '':'' @ json_compact v) kvs) @ ''}''"

text \<open>\<open>repr(v)\<close> and \<open>str(v)\<close>\<close>

definition repr_char :: "char \<Rightarrow> char \<Rightarrow> string" where
  "repr_char q c =
     (if c = q \<or> c = CHR 0x5C then [CHR 0x5C, c]
      else if c = CHR 0x0A then [CHR 0x5C, CHR ''n''] else if c = CHR 0x0D then [CHR 0x5C, CHR ''r'']
      else if c = CHR 0x09 then [CHR 0x5C, CHR ''t'']
      else if c < CHR '' '' \<or> (CHR 0x7F \<le> c \<and> c \<le> CHR 0xA0) \<or> c = CHR 0xAD then [CHR 0x5C] @ ''x'' @ hex2 c
      else [c])"

definition repr_text :: "string \<Rightarrow> string" where
  "repr_text s = (let q = (if CHR 0x27 \<in> set s \<and> CHR 0x22 \<notin> set s then CHR 0x22 else CHR 0x27) in
     [q] @ concat (map (repr_char q) s) @ [q])"

fun py_repr :: "json \<Rightarrow> string" where
  "py_repr JNull = ''None''"
| "py_repr (JBool b) = (if b then ''True'' else ''False'')"
| "py_repr (JInt n) = int_text n"
| "py_repr (JStr s) = repr_text s"
| "py_repr (JList vs) = ''['' @ glue '', '' (map py_repr vs) @ '']''"
| "py_repr (JObj kvs) = ''{'' @ glue '', '' (map (\<lambda>(k, v). repr_text k @ '': '' @ py_repr v) kvs) @ ''}''"

fun py_str :: "json \<Rightarrow> string" where
  "py_str (JStr s) = s"
| "py_str v = py_repr v"

text \<open>\<open>int(v)\<close>: digits with single underscores between them, a sign and spaces around.\<close>

definition digit_groups :: "string \<Rightarrow> int option" where
  "digit_groups s = (let ps = split_on CHR ''_'' s in
     if list_all (\<lambda>p. p \<noteq> [] \<and> list_all is_digit p) ps
     then Some (int (foldl (\<lambda>n c. 10 * n + (of_char c - 48)) 0 (concat ps))) else None)"

definition int_of_text :: "string \<Rightarrow> int option" where
  "int_of_text s =
     (case strip s of
        [] \<Rightarrow> None
      | c # t \<Rightarrow> if c = CHR ''-'' then map_option uminus (digit_groups t)
                 else digit_groups (if c = CHR ''+'' then t else c # t))"

fun py_int :: "json \<Rightarrow> int res" where
  "py_int (JInt n) = Inr n"
| "py_int (JBool b) = Inr (if b then 1 else 0)"
| "py_int (JStr s) = (case int_of_text s of None \<Rightarrow> Inl (ValueError ''invalid literal for int()'') | Some n \<Rightarrow> Inr n)"
| "py_int _ = Inl (TypeError ''int() argument must be a string or a real number'')"

section \<open>Reading a binding\<close>

definition require_text :: "json \<Rightarrow> string \<Rightarrow> string res" where
  "require_text obj key = bindE (jget obj key JNull) (\<lambda>v. case v of
      JStr s \<Rightarrow> if strip s = [] then Inl (MaterializationError (''missing or invalid '' @ key)) else Inr (strip s)
    | _ \<Rightarrow> Inl (MaterializationError (''missing or invalid '' @ key)))"

definition https_url :: "bool \<Rightarrow> split_url \<Rightarrow> bool" where
  "https_url origin_only u \<longleftrightarrow>
     su_scheme u = ''https'' \<and> url_host u \<noteq> [] \<and> url_username u = None \<and> url_password u = None
     \<and> su_query u = [] \<and> su_fragment u = [] \<and> (origin_only \<longrightarrow> su_path u \<in> {[], ''/''})"

definition require_https_url :: "json \<Rightarrow> string \<Rightarrow> bool \<Rightarrow> string res" where
  "require_https_url obj key origin_only = bindE (require_text obj key) (\<lambda>s. let url = rstrip_slash s in
     bindE (urlsplit url) (\<lambda>u.
       if https_url origin_only u then Inr url
       else Inl (MaterializationError (key @ '' must be a canonical HTTPS URL''))))"

text \<open>\<open>ref.startswith(("$ENV://", "$secret://"))\<close>\<close>

definition secret_ref :: "string \<Rightarrow> bool" where
  "secret_ref ref \<longleftrightarrow> starts_with ref ''$ENV://'' \<or> starts_with ref ''$secret://''"

definition secret_error :: py_exn where
  "secret_error = MaterializationError ''OIDC client secret must be an APISIX secret reference''"

definition check :: "bool \<Rightarrow> string \<Rightarrow> unit res" where
  "check ok msg = require ok (MaterializationError msg)"

text \<open>A non-empty list of non-empty strings.\<close>

fun filled_text :: "json \<Rightarrow> bool" where
  "filled_text (JStr s) = (s \<noteq> [])"
| "filled_text _ = False"

fun nonempty_list :: "json \<Rightarrow> bool" where
  "nonempty_list (JList vs) = (vs \<noteq> [])"
| "nonempty_list _ = False"

fun text_list :: "json \<Rightarrow> bool" where
  "text_list (JList vs) = (vs \<noteq> [] \<and> list_all filled_text vs)"
| "text_list _ = False"

fun texts :: "json \<Rightarrow> string list" where
  "texts (JList vs) = map py_str vs"
| "texts _ = []"

text \<open>\<open>not isinstance(port, int) or port < 1 or port > 65535\<close>; a truth value is an \<open>int\<close>.\<close>

fun port_ok :: "json \<Rightarrow> bool" where
  "port_ok (JInt n) = (1 \<le> n \<and> n \<le> 65535)"
| "port_ok (JBool b) = b"
| "port_ok _ = False"

definition node_of :: "string \<Rightarrow> json \<Rightarrow> json" where
  "node_of service port = jobj1 (service @ '':'' @ py_str port) (JInt 1)"

text \<open>\<open>route.get("plugins", {}).get(k, {})\<close> and \<open>(route.get("plugins") or {}).get(k, {})\<close>\<close>

definition plugin_of :: "json \<Rightarrow> string \<Rightarrow> json res" where
  "plugin_of route k = bindE (jget route ''plugins'' (JObj [])) (\<lambda>p. jget p k (JObj []))"

definition plugin_or :: "json \<Rightarrow> string \<Rightarrow> json res" where
  "plugin_or route k = bindE (jget route ''plugins'' JNull) (\<lambda>p. jget (or_object p) k (JObj []))"

text \<open>\<open>str(installation.get("revision"))\<close>\<close>

definition revision_text :: "json \<Rightarrow> string res" where
  "revision_text installation = bindE (jget installation ''revision'' JNull) (\<lambda>v. Inr (py_str v))"

text \<open>The document around the routes.\<close>

definition route_document :: "json \<Rightarrow> json list \<Rightarrow> json res" where
  "route_document installation routes =
     bindE (require_text installation ''installationId'') (\<lambda>i.
     bindE (jget installation ''revision'' JNull) (\<lambda>revision.
     bindE (require_text installation ''checksum'') (\<lambda>checksum.
     Inr (JObj [(''formatVersion'', JStr ''1.0''), (''installationId'', JStr i), (''installationRevision'', revision),
       (''installationChecksum'', JStr checksum), (''routes'', JList routes)]))))"

text \<open>\<open>(r.get(a) or {}).get(b) == v\<close>\<close>

definition or_field_is :: "json \<Rightarrow> string \<Rightarrow> string \<Rightarrow> string \<Rightarrow> bool res" where
  "or_field_is r a b v = bindE (jget r a JNull) (\<lambda>x. bindE (jget (or_object x) b JNull) (\<lambda>y. Inr (y = JStr v)))"

text \<open>\<open>p and q\<close>\<close>

definition and_then :: "bool res \<Rightarrow> bool res \<Rightarrow> bool res" where
  "and_then p q = bindE p (\<lambda>b. if b then q else Inr False)"

section \<open>Plugins\<close>

definition clear_headers :: "string list \<Rightarrow> string" where
  "clear_headers quoted = ''return function(conf, ctx) local headers={'' @ glue '','' quoted
     @ ''}; for _,name in ipairs(headers) do ngx.req.clear_header(name) end end''"

definition lua_phase :: "string \<Rightarrow> string \<Rightarrow> json" where
  "lua_phase phase code = JObj [(''phase'', JStr phase), (''functions'', JList [JStr code])]"

definition oidc_base :: "string \<Rightarrow> string \<Rightarrow> string \<Rightarrow> (string \<times> json) list" where
  "oidc_base audience ref issuer = [
     (''client_id'', JStr audience), (''client_secret'', JStr ref),
     (''discovery'', JStr (issuer @ ''/.well-known/openid-configuration'')),
     (''bearer_only'', JBool True), (''unauth_action'', JStr ''deny''),
     (''use_jwks'', JBool True), (''ssl_verify'', JBool True)]"

definition audience_claim :: "string \<times> json" where
  "audience_claim = (''claim_validator'', jobj1 ''audience''
     (JObj [(''required'', JBool True), (''match_with_client_id'', JBool True)]))"

definition oidc_plugin :: "string \<Rightarrow> string \<Rightarrow> string \<Rightarrow> string \<Rightarrow> json" where
  "oidc_plugin audience ref issuer scope =
     JObj (oidc_base audience ref issuer @ [(''required_scopes'', jstrs [scope]), audience_claim])"

definition true_table :: "string list \<Rightarrow> string" where
  "true_table names = glue '','' (map (\<lambda>a. ''['' @ lua_quote a @ '']=true'') names)"

text \<open>The Lua text that the access functions share.\<close>

definition lua_bearer :: string where
  "lua_bearer = ''return function(conf, ctx) ''
     @ ''local cjson=require('cjson.safe'); ''
     @ ''local auth=ngx.var.http_authorization; ''
     @ ''if not auth then return ngx.exit(401) end; ''
     @ ''local token=auth:match('^[Bb]earer%s+(.+)$'); ''
     @ ''if not token then return ngx.exit(401) end; ''
     @ ''local payload=token:match('^[^.]+%.([^.]+)%.[^.]+$'); ''
     @ ''if not payload then return ngx.exit(401) end; ''
     @ ''payload=payload:gsub('-','+'):gsub('_','/'); ''
     @ ''local rem=#payload%4; if rem>0 then payload=payload..string.rep('=',4-rem) end; ''"

definition lua_claims :: string where
  "lua_claims = lua_bearer @ ''local decoded=ngx.decode_base64(payload); ''
     @ ''local claims=decoded and cjson.decode(decoded) or nil; ''
     @ ''if type(claims)~='table' then return ngx.exit(401) end; ''"

definition lua_required :: string where
  "lua_required = ''local required={'sub','tenant_id','acr','iss','scope'}; ''
     @ ''for _,k in ipairs(required) do if claims[k]==nil or tostring(claims[k])=='' @ [CHR 0x27, CHR 0x27]
     @ '' then return ngx.exit(401) end end; ''
     @ ''local aud=claims['aud']; if type(aud)=='table' then aud=table.concat(aud,' ') end; ''
     @ ''if aud==nil or tostring(aud)=='' @ [CHR 0x27, CHR 0x27] @ '' then return ngx.exit(401) end; ''"

section \<open>The public MCP endpoint\<close>

text \<open>\<open>sorted(set(stripped))\<close>: equal elements once, then in order when they can be compared.\<close>

definition unique_values :: "json list \<Rightarrow> json list" where
  "unique_values vs = foldl (\<lambda>d v. if list_ex (json_eq v) d then d else d @ [v]) [] vs"

fun is_jstr :: "json \<Rightarrow> bool" where
  "is_jstr (JStr s) = True"
| "is_jstr _ = False"

fun is_number :: "json \<Rightarrow> bool" where
  "is_number (JInt n) = True"
| "is_number (JBool b) = True"
| "is_number _ = False"

fun number_of :: "json \<Rightarrow> int" where
  "number_of (JInt n) = n"
| "number_of (JBool b) = (if b then 1 else 0)"
| "number_of _ = 0"

definition sorted_values :: "json list \<Rightarrow> json list res" where
  "sorted_values vs =
     (if list_all is_jstr vs then Inr (sort_by (key_le py_str) vs)
      else if list_all is_number vs then Inr (sort_by (key_le number_of) vs)
      else if length vs = 1 then Inr vs
      else Inl (TypeError ''not supported between instances''))"

definition stripped_headers :: "json list \<Rightarrow> json list res" where
  "stripped_headers vs = bindE (jset vs) (\<lambda>_. sorted_values (unique_values vs))"

definition trusted_pre_function :: "json list \<Rightarrow> string" where
  "trusted_pre_function headers = clear_headers (map json_compact headers)"

definition trusted_post_function :: "string list \<Rightarrow> string" where
  "trusted_post_function actors = lua_claims
     @ ''local allowed={'' @ true_table actors @ ''}; ''
     @ ''local actor=claims['ouf_actor_type']; ''
     @ ''if type(actor)~='string' or not allowed[actor] then return ngx.exit(403) end; ''
     @ lua_required
     @ ''local sp=claims['azp'] or claims['client_id'] or '' @ [CHR 0x27, CHR 0x27] @ ''; ''
     @ ''ngx.req.set_header('X-OUF-Gateway-Verified','true'); ''
     @ ''ngx.req.set_header('X-OUF-Service-Principal',tostring(sp)); ''
     @ ''ngx.req.set_header('X-OUF-Principal-ID',tostring(claims['sub'])); ''
     @ ''ngx.req.set_header('X-OUF-Tenant-ID',tostring(claims['tenant_id'])); ''
     @ ''ngx.req.set_header('X-OUF-Actor-Type',tostring(actor)); ''
     @ ''ngx.req.set_header('X-OUF-Authentication-Context-Ref',tostring(claims['acr'])); ''
     @ ''ngx.req.set_header('X-OUF-Token-Issuer',tostring(claims['iss'])); ''
     @ ''ngx.req.set_header('X-OUF-Token-Audience',tostring(aud)); ''
     @ ''ngx.req.set_header('X-OUF-Granted-Scopes',tostring(claims['scope'])); ''
     @ ''ngx.req.clear_header('Authorization'); ''
     @ ''end''"

definition metadata_path :: string where
  "metadata_path = ''/.well-known/oauth-protected-resource''"

definition metadata_route_id :: string where
  "metadata_route_id = ''public-mcp-oauth-protected-resource''"

record mcp_fields =
  mf_audience :: string
  mf_scope :: string
  mf_actors :: "string list"
  mf_issuer :: string
  mf_metadata_url :: string
  mf_service :: string
  mf_port :: json
  mf_stripped :: json
  mf_policy :: json

text \<open>The checks of \<open>materialize_mcp_route\<close>.\<close>

definition mcp_checks :: "json \<Rightarrow> json \<Rightarrow> string \<Rightarrow> mcp_fields res" where
  "mcp_checks route installation ref =
     bindE (jneq (jget route ''uri'' JNull) (JStr ''/mcp'')) (\<lambda>bad.
     bindE (check (\<not> bad) ''MCP endpoint materializer only accepts /mcp'') (\<lambda>_.
     bindE (jneq (jget route ''methods'' JNull) (jstrs [''POST''])) (\<lambda>bad.
     bindE (check (\<not> bad) ''/mcp must be POST-only'') (\<lambda>_.
     bindE (jget route ''x-ouf-policy'' JNull) (\<lambda>policy.
     bindE (jget route ''x-ouf-trusted-identity'' JNull) (\<lambda>trusted.
     bindE (jget route ''x-ouf-backend-binding'' JNull) (\<lambda>backend.
     bindE (check (is_obj policy \<and> is_obj trusted \<and> is_obj backend) ''missing governed MCP route metadata'') (\<lambda>_.
     bindE (require_text policy ''identity'') (\<lambda>identity.
     bindE (check (identity = ''OIDC'') ''/mcp requires OIDC'') (\<lambda>_.
     bindE (require_text policy ''requiredAudience'') (\<lambda>audience.
     bindE (require_text policy ''requiredScope'') (\<lambda>scope.
     bindE (jget policy ''allowedActorTypes'' JNull) (\<lambda>actors.
     bindE (check (text_list actors) ''missing MCP allowedActorTypes'') (\<lambda>_.
     bindE (require_https_url installation ''issuerUrl'' False) (\<lambda>issuer.
     bindE (require_https_url installation ''publicApiBaseUrl'' True) (\<lambda>base.
     bindE (require_text backend ''service'') (\<lambda>service.
     bindE (jget backend ''port'' JNull) (\<lambda>port.
     bindE (require_text backend ''path'') (\<lambda>path.
     bindE (check (path = ''/mcp'') ''MCP backend path must remain /mcp'') (\<lambda>_.
     bindE (check (port_ok port) ''invalid MCP backend port'') (\<lambda>_.
     bindE (check (word_of ''._-'' service) ''invalid MCP backend service'') (\<lambda>_.
     bindE (jget trusted ''stripClientHeaders'' JNull) (\<lambda>stripped.
     bindE (check (nonempty_list stripped) ''trusted header strip list is required'') (\<lambda>_.
     bindE (jneq (jget trusted ''injectAfterVerification'' JNull) (jobj1 ''X-OUF-Gateway-Verified'' (JStr ''true''))) (\<lambda>bad.
     bindE (check (\<not> bad) ''Gateway verified marker contract changed'') (\<lambda>_.
     bindE (require (secret_ref ref) secret_error) (\<lambda>_.
     Inr \<lparr>mf_audience = audience, mf_scope = scope, mf_actors = texts actors, mf_issuer = issuer,
       mf_metadata_url = base @ metadata_path, mf_service = service, mf_port = port, mf_stripped = stripped,
       mf_policy = policy\<rparr>)))))))))))))))))))))))))))"

definition in_double_quotes :: "string \<Rightarrow> string" where
  "in_double_quotes s = [CHR 0x22] @ s @ [CHR 0x22]"

definition any_json_body :: json where
  "any_json_body = jobj1 ''anyOf'' (JList [jobj1 ''type'' (JStr ''object''), jobj1 ''type'' (JStr ''array'')])"

definition challenge_header :: "mcp_fields \<Rightarrow> json" where
  "challenge_header f = JObj [
     (''headers'', jobj1 ''set'' (jobj1 ''WWW-Authenticate'' (JStr (''Bearer resource_metadata=''
        @ in_double_quotes (mf_metadata_url f) @ '', scope='' @ in_double_quotes (mf_scope f))))),
     (''vars'', JList [JList [JStr ''status'', JStr ''=='', JInt 401]])]"

definition mcp_plugins :: "json \<Rightarrow> string \<Rightarrow> mcp_fields \<Rightarrow> json res" where
  "mcp_plugins route ref f =
     bindE (plugin_of route ''request-id'') (\<lambda>request_id.
     bindE (plugin_of route ''limit-count'') (\<lambda>limit.
     bindE (bindE (jget (mf_policy f) ''maxRequestBytes'' (JInt 1048576)) py_int) (\<lambda>size.
     bindE (bindE (jelements (mf_stripped f)) stripped_headers) (\<lambda>stripped.
     Inr (JObj [
       (''request-id'', request_id),
       (''limit-count'', limit),
       (''request-validation'', JObj [(''max_req_body_size'', JInt size), (''body_schema'', any_json_body)]),
       (''proxy-rewrite'', jobj1 ''uri'' (JStr ''/mcp'')),
       (''serverless-pre-function'', lua_phase ''rewrite'' (trusted_pre_function stripped)),
       (''openid-connect'', oidc_plugin (mf_audience f) ref (mf_issuer f) (mf_scope f)),
       (''response-rewrite'', challenge_header f),
       (''serverless-post-function'', lua_phase ''access'' (trusted_post_function (mf_actors f)))])))))"

definition http_upstream :: "json \<Rightarrow> json" where
  "http_upstream nodes = JObj [(''type'', JStr ''roundrobin''), (''scheme'', JStr ''http''), (''nodes'', nodes)]"

definition materialize_mcp_route :: "json \<Rightarrow> json \<Rightarrow> string \<Rightarrow> json res" where
  "materialize_mcp_route route installation ref =
     bindE (mcp_checks route installation ref) (\<lambda>f.
     bindE (mcp_plugins route ref f) (\<lambda>plugins.
     bindE (require_text route ''id'') (\<lambda>i.
     bindE (require_text installation ''installationId'') (\<lambda>inst.
     bindE (revision_text installation) (\<lambda>revision.
     Inr (JObj [
       (''id'', JStr i), (''uri'', JStr ''/mcp''), (''methods'', jstrs [''POST'']),
       (''labels'', JObj [(''ouf-managed'', JStr ''true''), (''ouf-installation'', JStr inst),
          (''ouf-installation-revision'', JStr revision), (''ouf-protocol'', JStr ''MCP'')]),
       (''plugins'', plugins), (''upstream'', http_upstream (node_of (mf_service f) (mf_port f)))]))))))"

section \<open>The protected-resource metadata\<close>

definition resource_metadata :: "string \<Rightarrow> string \<Rightarrow> string \<Rightarrow> json" where
  "resource_metadata issuer base scope = JObj [
     (''authorization_servers'', jstrs [issuer]), (''bearer_methods_supported'', jstrs [''header'']),
     (''resource'', JStr (base @ ''/mcp'')), (''resource_name'', JStr ''OUF MCP Server''),
     (''scopes_supported'', jstrs [scope])]"

definition mocking :: "json \<Rightarrow> json" where
  "mocking metadata = JObj [
     (''content_type'', JStr ''application/json''),
     (''response_example'', JStr (json_compact (canon metadata))),
     (''response_headers'', JObj [(''Cache-Control'', JStr ''public, max-age=300''), (''X-Content-Type-Options'', JStr ''nosniff'')]),
     (''response_status'', JInt 200), (''with_mock_header'', JBool False)]"

definition materialize_protected_resource_route :: "json \<Rightarrow> json \<Rightarrow> json res" where
  "materialize_protected_resource_route route installation =
     bindE (jget route ''x-ouf-policy'' JNull) (\<lambda>policy.
     bindE (check (is_obj policy) ''missing governed MCP route policy'') (\<lambda>_.
     bindE (require_https_url installation ''issuerUrl'' False) (\<lambda>issuer.
     bindE (require_https_url installation ''publicApiBaseUrl'' True) (\<lambda>base.
     bindE (require_text policy ''requiredScope'') (\<lambda>scope.
     bindE (require_text installation ''installationId'') (\<lambda>inst.
     bindE (revision_text installation) (\<lambda>revision.
     bindE (plugin_of route ''request-id'') (\<lambda>request_id.
     Inr (JObj [
       (''id'', JStr metadata_route_id), (''uri'', JStr metadata_path), (''methods'', jstrs [''GET'']),
       (''labels'', JObj [(''ouf-managed'', JStr ''true''), (''ouf-installation'', JStr inst),
          (''ouf-installation-revision'', JStr revision), (''ouf-protocol'', JStr ''OAUTH_PROTECTED_RESOURCE_METADATA'')]),
       (''plugins'', JObj [
          (''request-id'', request_id),
          (''limit-count'', JObj [(''count'', JInt 120), (''time_window'', JInt 60), (''rejected_code'', JInt 429)]),
          (''mocking'', mocking (resource_metadata issuer base scope))])])))))))))"

definition is_public_mcp :: "json \<Rightarrow> bool res" where
  "is_public_mcp r = (if \<not> is_obj r then Inr False
     else and_then (or_field_is r ''x-ouf-protocol'' ''name'' ''MCP'') (or_field_is r ''labels'' ''exposure'' ''public''))"

definition runtime_routes :: "json \<Rightarrow> json list res" where
  "runtime_routes runtime = bindE (jget runtime ''routes'' (JList [])) jelements"

definition materialize_ingress :: "json \<Rightarrow> string \<Rightarrow> json res" where
  "materialize_ingress runtime ref =
     bindE (jget runtime ''x-ouf-installation'' JNull) (\<lambda>installation.
     bindE (check (is_obj installation) ''resolved installation metadata is required'') (\<lambda>_.
     bindE (bindE (runtime_routes runtime) (filterE is_public_mcp)) (\<lambda>candidates.
     case candidates of
       [r] \<Rightarrow>
         bindE (materialize_mcp_route r installation ref) (\<lambda>route.
         bindE (materialize_protected_resource_route r installation) (\<lambda>resource.
         route_document installation [resource, route]))
     | _ \<Rightarrow> Inl (MaterializationError (''expected exactly one public MCP endpoint, found ''
         @ nat_text (length candidates))))))"

section \<open>Internal machine-to-machine routes\<close>

definition trusted_headers :: "string list" where
  "trusted_headers = [''X-OUF-Gateway-Verified'', ''X-OUF-Service-Principal'', ''X-OUF-Principal-ID'',
     ''X-OUF-Tenant-ID'', ''X-OUF-Actor-Type'', ''X-OUF-Authentication-Context-Ref'', ''X-OUF-Token-Issuer'',
     ''X-OUF-Token-Audience'', ''X-OUF-Granted-Scopes'']"

definition strip_untrusted_headers :: string where
  "strip_untrusted_headers = clear_headers (map lua_quote trusted_headers)"

definition workload_guard :: "string list \<Rightarrow> string list \<Rightarrow> string" where
  "workload_guard services actors = lua_claims
     @ ''local allowed_services={'' @ true_table services @ ''}; ''
     @ ''local allowed_actors={'' @ true_table actors @ ''}; ''
     @ ''local actor=claims['ouf_actor_type']; ''
     @ ''if type(actor)~='string' or not allowed_actors[actor] then return ngx.exit(403) end; ''
     @ ''local service=claims['client_id'] or claims['azp']; ''
     @ ''if type(service)~='string' or not allowed_services[service] then return ngx.exit(403) end; ''
     @ lua_required
     @ ''end''"

record m2m_fields =
  if_services :: "string list"
  if_scope :: string
  if_issuer :: string
  if_audience :: string
  if_service :: string
  if_port :: json
  if_path :: string
  if_uri :: string
  if_methods :: json
  if_wildcard :: bool

text \<open>\<open>methods[0] not in {...}\<close>: an element that cannot be hashed raises.\<close>

definition one_method :: "string set \<Rightarrow> string \<Rightarrow> json \<Rightarrow> unit res" where
  "one_method supported msg methods =
     (case methods of
        JList [m] \<Rightarrow> bindE (jset [m]) (\<lambda>_. check (m \<in> JStr ` supported) msg)
      | _ \<Rightarrow> check False msg)"

definition bounded_wildcard :: "string \<Rightarrow> string \<Rightarrow> bool" where
  "bounded_wildcard uri path \<longleftrightarrow>
     ends_with uri ''/*'' \<and> length (filter (\<lambda>c. c = CHR ''*'') uri) = 1 \<and> path = uri"

definition m2m_checks :: "json \<Rightarrow> json \<Rightarrow> string \<Rightarrow> m2m_fields res" where
  "m2m_checks route installation ref =
     bindE (jget route ''labels'' JNull) (\<lambda>labels.
     bindE (jget route ''x-ouf-policy'' JNull) (\<lambda>policy.
     bindE (jget route ''x-ouf-backend-binding'' JNull) (\<lambda>backend.
     bindE (jget route ''x-ouf-capability'' JNull) (\<lambda>capability.
     bindE (jget (or_object labels) ''exposure'' JNull) (\<lambda>exposure.
     bindE (check (exposure = JStr ''internal'') ''only internal routes are supported'') (\<lambda>_.
     bindE (check (is_obj policy) ''internal materializer requires M2M identity'') (\<lambda>_.
     bindE (require_text policy ''identity'') (\<lambda>identity.
     bindE (check (identity = ''M2M'') ''internal materializer requires M2M identity'') (\<lambda>_.
     bindE (check (is_obj backend) ''compiled backend binding is required'') (\<lambda>_.
     bindE (check (is_obj capability) ''governed capability metadata is required'') (\<lambda>_.
     bindE (jget policy ''allowedServiceIdentities'' JNull) (\<lambda>services.
     bindE (check (text_list services) ''allowed service identities are required'') (\<lambda>_.
     bindE (check (\<not> list_ex (\<lambda>s. starts_with s ''installation://'') (texts services))
       ''installation service identities must be projected before materialization'') (\<lambda>_.
     bindE (jneq (jget policy ''allowedActorTypes'' JNull) (jstrs [''SERVICE''])) (\<lambda>bad.
     bindE (check (\<not> bad) ''internal workload route must allow only SERVICE actor'') (\<lambda>_.
     bindE (require_text policy ''requiredScope'') (\<lambda>scope.
     bindE (require (secret_ref ref) secret_error) (\<lambda>_.
     bindE (require_text installation ''issuerUrl'') (\<lambda>issuer.
     bindE (require_text installation ''gatewayAudience'') (\<lambda>audience.
     bindE (require_text backend ''service'') (\<lambda>service.
     bindE (jget backend ''port'' JNull) (\<lambda>port.
     bindE (require_text backend ''path'') (\<lambda>path.
     bindE (require_text route ''uri'') (\<lambda>uri.
     bindE (jget route ''methods'' JNull) (\<lambda>methods.
     bindE (check (port_ok port) ''invalid backend port'') (\<lambda>_.
     bindE (check (word_of ''._-'' service) ''invalid backend service'') (\<lambda>_.
     bindE (jget route ''id'' JNull) (\<lambda>i.
     bindE (check (\<not> (i = JStr ''onboarding-managed-file-read''
         \<and> (service \<noteq> ''ouf-onboarding'' \<or> \<not> json_eq port (JInt 8080))))
       ''managed-file remote upstream requires a verified transport profile'') (\<lambda>_.
     bindE (one_method {''GET'', ''POST'', ''PUT'', ''DELETE''} ''exactly one supported method is required'' methods) (\<lambda>_.
     bindE (check (CHR ''*'' \<in> set uri \<longrightarrow> bounded_wildcard uri path)
       ''wildcard route must preserve exact bounded namespace'') (\<lambda>_.
     Inr \<lparr>if_services = texts services, if_scope = scope, if_issuer = rstrip_slash issuer, if_audience = audience,
       if_service = service, if_port = port, if_path = path, if_uri = uri, if_methods = methods,
       if_wildcard = (CHR ''*'' \<in> set uri)\<rparr>)))))))))))))))))))))))))))))))"

definition rewrite_to :: "bool \<Rightarrow> string \<Rightarrow> (string \<times> json) list" where
  "rewrite_to wildcard path = (if wildcard then [] else [(''proxy-rewrite'', jobj1 ''uri'' (JStr path))])"

definition m2m_route :: "m2m_fields \<Rightarrow> string \<Rightarrow> json \<Rightarrow> json \<Rightarrow> string \<Rightarrow> string \<Rightarrow> string \<Rightarrow> string \<Rightarrow> json" where
  "m2m_route f ref request_id limit i inst revision capability = JObj [
     (''id'', JStr i), (''uri'', JStr (if_uri f)), (''methods'', if_methods f),
     (''labels'', JObj [(''ouf-managed'', JStr ''true''), (''ouf-installation'', JStr inst),
        (''ouf-installation-revision'', JStr revision), (''ouf-capability'', JStr capability),
        (''ouf-exposure'', JStr ''internal'')]),
     (''plugins'', JObj ([
        (''request-id'', request_id), (''limit-count'', limit),
        (''serverless-pre-function'', lua_phase ''rewrite'' strip_untrusted_headers),
        (''openid-connect'', oidc_plugin (if_audience f) ref (if_issuer f) (if_scope f)),
        (''serverless-post-function'', lua_phase ''access'' (workload_guard (if_services f) [''SERVICE'']))]
        @ rewrite_to (if_wildcard f) (if_path f))),
     (''upstream'', http_upstream (node_of (if_service f) (if_port f)))]"

definition materialize_route :: "json \<Rightarrow> json \<Rightarrow> string \<Rightarrow> json res" where
  "materialize_route route installation ref =
     bindE (m2m_checks route installation ref) (\<lambda>f.
     bindE (plugin_or route ''request-id'') (\<lambda>request_id.
     bindE (plugin_or route ''limit-count'') (\<lambda>limit.
     bindE (require_text route ''id'') (\<lambda>i.
     bindE (require_text installation ''installationId'') (\<lambda>inst.
     bindE (revision_text installation) (\<lambda>revision.
     bindE (bindE (jget route ''x-ouf-capability'' JNull) (\<lambda>c. require_text c ''capabilityId'')) (\<lambda>capability.
     Inr (m2m_route f ref request_id limit i inst revision capability))))))))"

text \<open>\<open>list(dict.fromkeys(ids))\<close>, and the routes by their textual id, the last one of an id.\<close>

definition fromkeys :: "string list \<Rightarrow> string list" where
  "fromkeys ids = foldl (\<lambda>d x. if x \<in> set d then d else d @ [x]) [] ids"

fun index_route :: "(string, json) dict \<Rightarrow> json \<Rightarrow> (string, json) dict" where
  "index_route d (JObj kvs) = (case map_of kvs ''id'' of Some (JStr i) \<Rightarrow> dict_set i (JObj kvs) d | _ \<Rightarrow> d)"
| "index_route d _ = d"

definition text_join :: "string list \<Rightarrow> string" where
  "text_join xs = glue '','' xs"

definition indexed_routes :: "(string, json) dict \<Rightarrow> string list \<Rightarrow> json list" where
  "indexed_routes d ids = map (\<lambda>i. case map_of d i of Some r \<Rightarrow> r | None \<Rightarrow> JNull) ids"

definition materialize_internal :: "json \<Rightarrow> string list \<Rightarrow> string \<Rightarrow> json res" where
  "materialize_internal runtime ids ref =
     bindE (jget runtime ''x-ouf-installation'' JNull) (\<lambda>installation.
     bindE (check (is_obj installation) ''resolved installation metadata is required'') (\<lambda>_.
     let wanted = fromkeys ids in
     bindE (check (wanted \<noteq> []) ''at least one route id is required'') (\<lambda>_.
     bindE (runtime_routes runtime) (\<lambda>rs.
     let indexed = foldl index_route [] rs;
         missing = filter (\<lambda>i. i \<notin> set (dict_keys indexed)) wanted in
     bindE (check (missing = []) (''route not found: '' @ text_join missing)) (\<lambda>_.
     bindE (mapE (\<lambda>r. materialize_route r installation ref) (indexed_routes indexed wanted)) (\<lambda>routes.
     route_document installation routes))))))"

section \<open>The Authorization bundle route\<close>

definition bundle_workload_guard :: "string list \<Rightarrow> string list \<Rightarrow> string" where
  "bundle_workload_guard services actors = workload_guard services actors"

definition materialize_bundle_route :: "json \<Rightarrow> json \<Rightarrow> string \<Rightarrow> json res" where
  "materialize_bundle_route route installation ref =
     bindE (jneq (jget route ''uri'' JNull) (JStr ''/internal/capabilities/v1/authorization/policy-bundle/active'')) (\<lambda>bad.
     bindE (check (\<not> bad) ''unexpected Authorization bundle route path'') (\<lambda>_.
     bindE (jneq (jget route ''methods'' JNull) (jstrs [''GET''])) (\<lambda>bad.
     bindE (check (\<not> bad) ''Authorization bundle route must be GET-only'') (\<lambda>_.
     bindE (jget route ''x-ouf-policy'' JNull) (\<lambda>policy.
     bindE (jget route ''x-ouf-capability'' JNull) (\<lambda>capability.
     bindE (check (is_obj policy \<and> is_obj capability) ''missing governed Authorization route metadata'') (\<lambda>_.
     bindE (jneq (jget capability ''capabilityId'' JNull) (JStr ''authorization.bundle.read'')) (\<lambda>bad.
     bindE (check (\<not> bad) ''unexpected Authorization capability'') (\<lambda>_.
     bindE (require_text policy ''identity'') (\<lambda>identity.
     bindE (check (identity = ''M2M'') ''Authorization bundle route requires M2M identity'') (\<lambda>_.
     bindE (require_text policy ''requiredScope'') (\<lambda>scope.
     bindE (check (scope = ''authorization.bundle.read'') ''Authorization bundle scope changed'') (\<lambda>_.
     bindE (jget policy ''allowedServiceIdentities'' JNull) (\<lambda>services.
     bindE (jget policy ''allowedActorTypes'' JNull) (\<lambda>actors.
     bindE (check (text_list services) ''allowed service identities are required'') (\<lambda>_.
     bindE (check (json_eq actors (jstrs [''SERVICE''])) ''Authorization bundle route must allow only SERVICE actors'') (\<lambda>_.
     bindE (require (secret_ref ref) secret_error) (\<lambda>_.
     bindE (require_text installation ''issuerUrl'') (\<lambda>issuer.
     bindE (require_text installation ''gatewayAudience'') (\<lambda>audience.
     bindE (require_text route ''service_id'') (\<lambda>service.
     bindE (bindE (plugin_of route ''proxy-rewrite'') (\<lambda>p. jget p ''uri'' JNull)) (\<lambda>backend.
     bindE (check (backend = JStr ''/api/internal/v1/authorization/policy-bundle/active'')
       ''Authorization bundle backend path changed'') (\<lambda>_.
     bindE (check (word_of ''._-'' service) ''invalid Authorization backend service'') (\<lambda>_.
     bindE (require_text route ''id'') (\<lambda>i.
     bindE (jindex route ''uri'') (\<lambda>uri.
     bindE (require_text installation ''installationId'') (\<lambda>inst.
     bindE (revision_text installation) (\<lambda>revision.
     bindE (plugin_of route ''request-id'') (\<lambda>request_id.
     bindE (plugin_of route ''limit-count'') (\<lambda>limit.
     Inr (JObj [
       (''id'', JStr i), (''uri'', uri), (''methods'', jstrs [''GET'']),
       (''labels'', JObj [(''ouf-managed'', JStr ''true''), (''ouf-installation'', JStr inst),
          (''ouf-installation-revision'', JStr revision), (''ouf-capability'', JStr ''authorization.bundle.read'')]),
       (''plugins'', JObj [
          (''request-id'', request_id), (''limit-count'', limit), (''proxy-rewrite'', jobj1 ''uri'' backend),
          (''serverless-pre-function'', lua_phase ''rewrite'' strip_untrusted_headers),
          (''openid-connect'', oidc_plugin audience ref (rstrip_slash issuer) ''authorization.bundle.read''),
          (''serverless-post-function'', lua_phase ''access'' (bundle_workload_guard (texts services) [''SERVICE'']))]),
       (''upstream'', http_upstream (jobj1 (service @ '':8080'') (JInt 1)))])))))))))))))))))))))))))))))))"

definition is_bundle :: "json \<Rightarrow> bool res" where
  "is_bundle r = (if \<not> is_obj r then Inr False
     else and_then (or_field_is r ''x-ouf-capability'' ''capabilityId'' ''authorization.bundle.read'')
       (or_field_is r ''labels'' ''exposure'' ''internal''))"

definition materialize_bundle :: "json \<Rightarrow> string \<Rightarrow> json res" where
  "materialize_bundle runtime ref =
     bindE (jget runtime ''x-ouf-installation'' JNull) (\<lambda>installation.
     bindE (check (is_obj installation) ''resolved installation metadata is required'') (\<lambda>_.
     bindE (bindE (runtime_routes runtime) (filterE is_bundle)) (\<lambda>candidates.
     case candidates of
       [r] \<Rightarrow> bindE (materialize_bundle_route r installation ref) (\<lambda>route. route_document installation [route])
     | _ \<Rightarrow> Inl (MaterializationError (''expected exactly one Authorization bundle route, found ''
         @ nat_text (length candidates))))))"

end
