(* ===== verification/Candidate.thy ===== *)
theory Candidate
  imports Rollout Route_Build
begin

text \<open>
  The scripts that prepare the private directory of a container replacement:
  \<open>ops/udp/prepare_authorization_retrofit.py\<close> for the Authorization retrofit and
  \<open>ops/apisix/prepare_r4a_runtime.py\<close> for the staged rollout. The file system is the state; the output of
  \<open>docker inspect\<close>, JSON parsing and rendering, the fresh directory and the fresh key are parameters.
\<close>

section \<open>Private files\<close>

text \<open>\<open>path.stat()\<close> with owner root and the exact mode.\<close>

definition root_owned :: "files \<Rightarrow> path \<Rightarrow> nat \<Rightarrow> string \<Rightarrow> unit res" where
  "root_owned fs p mode msg = bindE (stat_of fs p) (\<lambda>f. require (fi_uid f = 0 \<and> fi_mode f = mode) (ValueError msg))"

text \<open>\<open>os.open(..., O_CREAT | O_EXCL)\<close>, owner and mode, then the text.\<close>

definition write_new :: "path \<Rightarrow> string \<Rightarrow> nat \<Rightarrow> nat \<Rightarrow> nat \<Rightarrow> (files, unit) io" where
  "write_new p txt uid gid mode = (\<lambda>fs.
     if fs p \<noteq> None then (Inl (OSError ''File exists''), fs)
     else (Inr (), fs(p \<mapsto> \<lparr>fi_uid = uid, fi_gid = gid, fi_mode = mode, fi_symlink = False, fi_dir = False, fi_text = txt\<rparr>)))"

text \<open>\<open>tempfile.mkdtemp\<close> of the process, which runs as root, and \<open>os.chmod(target, 0o700)\<close>\<close>

definition make_private :: "path \<Rightarrow> (files, unit) io" where
  "make_private p = (\<lambda>fs.
     if fs p \<noteq> None then (Inl (OSError ''File exists''), fs)
     else (Inr (), fs(p \<mapsto> \<lparr>fi_uid = 0, fi_gid = 0, fi_mode = 448, fi_symlink = False, fi_dir = True, fi_text = []\<rparr>)))"

text \<open>The environment of a container; \<open>env_map\<close> is the same loop with another message.\<close>

definition relabel :: "string \<Rightarrow> 'a res \<Rightarrow> 'a res" where
  "relabel msg m = (case m of Inl (ValueError _) \<Rightarrow> Inl (ValueError msg) | _ \<Rightarrow> m)"

definition container_env :: "string \<Rightarrow> json \<Rightarrow> (string, string) dict res" where
  "container_env msg c = bindE (bindE (jindex c ''Config'') (\<lambda>v. bindE (jindex v ''Env'') string_list))
     (\<lambda>xs. relabel msg (env_map xs))"

section \<open>The Authorization retrofit\<close>

definition auth_env :: "(string, string) dict" where
  "auth_env = [(''OUF_AUTHORIZATION_REGISTRY_TOKEN_FILE'', ''/run/ouf-udp-auth/token''),
     (''OUF_AUTHORIZATION_REFRESH_SECONDS'', ''30''), (''OUF_AUTHORIZATION_MAX_STALENESS_SECONDS'', ''300'')]"

definition search_required :: "string list" where
  "search_required = [''OUF_UDP_SEARCH_TENANT_ID'', ''OUF_UDP_SEARCH_ISSUER'', ''OUF_UDP_SEARCH_AUDIENCE'',
     ''OUF_UDP_SEARCH_WORKLOAD'', ''OUF_UDP_SEARCH_OWNER_KEY_FILE'']"

definition stop_retrofit :: "string \<Rightarrow> py_exn" where
  "stop_retrofit msg = SystemExit (''UDP_AUTH_RETROFIT_BLOCKED='' @ msg)"

definition private_dir :: "files \<Rightarrow> path \<Rightarrow> unit res" where
  "private_dir fs p = bindE (stat_of fs p) (\<lambda>f. require (fi_dir f \<and> fi_uid f = 0 \<and> fi_mode f mod 64 = 0)
     (ValueError ''backup root must be root-owned and private''))"

text \<open>The projection: the revision and the registry URL. \<open>isinstance(revision, int)\<close> holds for a bool too.\<close>

definition registry_of :: "json \<Rightarrow> (json \<times> string) res" where
  "registry_of projection =
     bindE (bindE (bindE (jindex projection ''iam'') (\<lambda>v. jindex v ''workloadClients'')) (\<lambda>v. jindex v ''udp'')) (\<lambda>udp_id.
     bindE (bindE (bindE (jindex projection ''gateway'') (\<lambda>v. jindex v ''publicApiBaseUrl'')) field_text) (\<lambda>base.
     bindE (jget projection ''revision'' JNull) (\<lambda>revision.
     let api = rstrip_slash base in
     bindE (require (udp_id = JStr ''ouf-udp'' \<and> is_number revision \<and> 3 \<le> number_of revision \<and> starts_with api ''https://'')
       (stop_retrofit ''installation projection invalid'')) (\<lambda>_.
     Inr (revision, api @ ''/internal/capabilities/v1/authorization/policy-bundle/active'')))))"

definition live_udp :: "json \<Rightarrow> (string, string) dict res" where
  "live_udp current =
     bindE (or_chain [bindE (running current) (\<lambda>b. Inr (\<not> b)), jneq (config_user current) (JStr ''10004:10004'')]) (\<lambda>bad.
     bindE (require (\<not> bad) (stop_retrofit ''unexpected live UDP'')) (\<lambda>_.
     bindE (container_env ''invalid Docker environment'' current) (\<lambda>env.
     bindE (require (set search_required \<subseteq> set (dict_keys env)) (stop_retrofit ''R4a search binding missing'')) (\<lambda>_.
     bindE (require (map_of env ''OUF_UDP_SEARCH_OWNER_KEY_FILE'' = Some ''/run/secrets/udp-search-owner.key'')
       (stop_retrofit ''unexpected search key target'')) (\<lambda>_. Inr env)))))"

definition existing_authorization :: "(string, string) dict \<Rightarrow> (string, string) dict" where
  "existing_authorization env = filter (\<lambda>(k, _). starts_with k ''OUF_AUTHORIZATION_'') env"

definition wanted_env :: "string \<Rightarrow> (string, string) dict" where
  "wanted_env url = auth_env @ [(''OUF_AUTHORIZATION_REGISTRY_URL'', url)]"

definition key_mount :: "json \<Rightarrow> json res" where
  "key_mount current =
     bindE (bindE (jget current ''Mounts'' JNull) (\<lambda>v. if json_truthy v then jelements v else Inr [])) (\<lambda>mounts.
     bindE (filterE (\<lambda>m. bindE (jget m ''Destination'' JNull) (\<lambda>d. Inr (json_eq d (JStr ''/run/secrets/udp-search-owner.key'')))) mounts) (\<lambda>key.
     case key of
       [m] \<Rightarrow> bindE (jget m ''RW'' JNull) (\<lambda>rw. bindE (require (rw = JBool False) (stop_retrofit ''search key mount missing'')) (\<lambda>_. Inr m))
     | _ \<Rightarrow> Inl (stop_retrofit ''search key mount missing'')))"

definition token_ready :: "files \<Rightarrow> unit res" where
  "token_ready fs =
     bindE (stat_of fs (token_dir @ [''token''])) (\<lambda>t. bindE (stat_of fs token_dir) (\<lambda>d.
     bindE (require (has_mode d 0 10004 488) (stop_retrofit ''token directory metadata'')) (\<lambda>_.
     require (\<not> fi_symlink t \<and> has_mode t 0 10004 288 \<and> fi_text t \<noteq> [] \<and> length (fi_text t) \<le> 16384)
       (stop_retrofit ''token metadata''))))"

record retrofit_plan =
  rp_env :: "(string, string) dict"
  rp_revision :: json
  rp_url :: string
  rp_key :: json

text \<open>Everything before the directory is made; \<open>None\<close> says that the environment is there already.\<close>

definition plan_for :: "files \<Rightarrow> json \<Rightarrow> string \<Rightarrow> json \<Rightarrow> (json \<times> retrofit_plan) option res" where
  "plan_for fs revision url current =
     bindE (live_udp current) (\<lambda>env.
     if existing_authorization env \<noteq> [] then
       (if set (existing_authorization env) = set (wanted_env url) then Inr None
        else Inl (stop_retrofit ''conflicting Authorization environment''))
     else bindE (key_mount current) (\<lambda>m.
       bindE (token_ready fs) (\<lambda>_.
       Inr (Some (current, \<lparr>rp_env = foldl (\<lambda>d (k, v). dict_set k v d) env (wanted_env url), rp_revision = revision,
         rp_url = url, rp_key = m\<rparr>)))))"

definition retrofit_plan_of ::
  "(string \<Rightarrow> json res) \<Rightarrow> files \<Rightarrow> path \<Rightarrow> path \<Rightarrow> json res \<Rightarrow> (json \<times> retrofit_plan) option res" where
  "retrofit_plan_of loads fs root projection live =
     bindE (private_dir fs root) (\<lambda>_.
     bindE (stat_of fs projection) (\<lambda>f. bindE (loads (fi_text f)) (\<lambda>doc.
     bindE (registry_of doc) (\<lambda>r.
     bindE live (plan_for fs (fst r) (snd r))))))"

definition retrofit_meta :: "json \<Rightarrow> retrofit_plan \<Rightarrow> json res" where
  "retrofit_meta current plan =
     bindE (jindex current ''Id'') (\<lambda>i. bindE (jindex current ''Image'') (\<lambda>img. bindE (jindex (rp_key plan) ''Source'') (\<lambda>s.
     Inr (JObj [(''old_id'', i), (''image_id'', img), (''projection_revision'', rp_revision plan),
       (''registry_url'', JStr (rp_url plan)), (''search_key_source'', s)]))))"

definition document_text :: "(json \<Rightarrow> string) \<Rightarrow> json \<Rightarrow> string" where
  "document_text dumps v = dumps v @ [CHR 0x0A]"

definition write_retrofit :: "(json \<Rightarrow> string) \<Rightarrow> path \<Rightarrow> json \<Rightarrow> retrofit_plan \<Rightarrow> (files, unit) io" where
  "write_retrofit dumps target current plan =
     bindS (make_private target) (\<lambda>_.
     bindS (write_new (target @ [''udp.inspect.json'']) (document_text dumps current) 0 0 384) (\<lambda>_.
     bindS (write_new (target @ [''udp.env'']) (env_text (rp_env plan)) 0 0 384) (\<lambda>_.
     bindS (liftS (retrofit_meta current plan)) (\<lambda>meta.
     write_new (target @ [''meta.json'']) (document_text dumps meta) 0 0 384))))"

definition prepare_retrofit ::
  "(string \<Rightarrow> json res) \<Rightarrow> (json \<Rightarrow> string) \<Rightarrow> path \<Rightarrow> path \<Rightarrow> path \<Rightarrow> json res \<Rightarrow> (files, path option) io" where
  "prepare_retrofit loads dumps root projection target live = (\<lambda>fs.
     case retrofit_plan_of loads fs root projection live of
       Inl e \<Rightarrow> (Inl e, fs)
     | Inr None \<Rightarrow> (Inr None, fs)
     | Inr (Some (current, plan)) \<Rightarrow> bindS (write_retrofit dumps target current plan) (\<lambda>_. returnS (Some target)) fs)"

section \<open>The staged rollout\<close>

definition search_key :: string where
  "search_key = ''OUF_UDP_SEARCH_OWNER_KEY''"

text \<open>\<open>{c["Name"]: c for c in docs}\<close>, \<open>{c["Name"]: c["Id"] for c in docs}\<close>, and \<open>==\<close> of dictionaries.\<close>

definition by_full_name :: "json list \<Rightarrow> (json \<times> json) list res" where
  "by_full_name cs = foldE (\<lambda>c d. bindE (jindex c ''Name'') (\<lambda>n. bindE (jset [n]) (\<lambda>_. Inr (dict_set n c d)))) cs []"

definition ids_by_name :: "json list \<Rightarrow> (json \<times> json) list res" where
  "ids_by_name cs = foldE (\<lambda>c d. bindE (jindex c ''Name'') (\<lambda>n. bindE (jindex c ''Id'') (\<lambda>i.
     bindE (jset [n]) (\<lambda>_. Inr (dict_set n i d))))) cs []"

definition same_dict :: "(json \<times> json) list \<Rightarrow> (json \<times> json) list \<Rightarrow> bool" where
  "same_dict d e \<longleftrightarrow> set (dict_keys d) = set (dict_keys e)
     \<and> list_all (\<lambda>(k, v). case map_of e k of None \<Rightarrow> False | Some w \<Rightarrow> json_eq v w) d"

definition both_names :: "json set" where
  "both_names = {JStr ''/ouf-udp'', JStr ''/ouf-apisix''}"

definition tenant_ok :: "string \<Rightarrow> bool" where
  "tenant_ok t \<longleftrightarrow> t \<noteq> [] \<and> length t \<le> 128 \<and> \<not> list_ex is_space t"

fun all_running :: "json list \<Rightarrow> bool res" where
  "all_running [] = Inr True"
| "all_running (c # cs) = bindE (running c) (\<lambda>b. if b then all_running cs else Inr False)"

text \<open>The snapshot names the two containers, and they are the ones that run now.\<close>

definition unchanged_since :: "json list \<Rightarrow> (json \<times> json) list \<Rightarrow> string \<Rightarrow> string \<Rightarrow> unit res" where
  "unchanged_since live containers changed stopped =
     bindE (ids_by_name live) (\<lambda>now.
     bindE (mapE (\<lambda>(n, c). bindE (jindex c ''Id'') (\<lambda>i. Inr (n, i))) containers) (\<lambda>before.
     bindE (require (same_dict now before) (ValueError changed)) (\<lambda>_.
     bindE (all_running live) (\<lambda>up. require up (ValueError stopped)))))"

definition container_of :: "(json \<times> json) list \<Rightarrow> string \<Rightarrow> json res" where
  "container_of d n = (case map_of d (JStr n) of None \<Rightarrow> Inl (KeyError n) | Some c \<Rightarrow> Inr c)"

definition mounts_of :: "json \<Rightarrow> json list res" where
  "mounts_of c = bindE (jindex c ''Mounts'') jelements"

fun any_mount :: "(json \<Rightarrow> bool res) \<Rightarrow> json list \<Rightarrow> bool res" where
  "any_mount p [] = Inr False"
| "any_mount p (m # ms) = bindE (p m) (\<lambda>b. if b then Inr True else any_mount p ms)"

definition config_mounted :: "string \<Rightarrow> json \<Rightarrow> bool res" where
  "config_mounted source m = or_chain [jneq (jindex m ''Source'') (JStr source),
     jneq (jindex m ''Destination'') (JStr ''/usr/local/apisix/conf/config.yaml''),
     bindE (jindex m ''RW'') (\<lambda>v. Inr (v \<noteq> JBool False))]"

text \<open>The bindings of the projection: text without line breaks.\<close>

definition projected_text :: "json \<Rightarrow> bool" where
  "projected_text v = (case v of JStr s \<Rightarrow> s \<noteq> [] \<and> CHR 0x0A \<notin> set s \<and> CHR 0x0D \<notin> set s | _ \<Rightarrow> False)"

definition search_binding :: "json \<Rightarrow> (string \<times> string \<times> string) res" where
  "search_binding p =
     bindE (bindE (jindex p ''gateway'') (\<lambda>v. jindex v ''issuerUrl'')) (\<lambda>issuer.
     bindE (bindE (jindex p ''gateway'') (\<lambda>v. jindex v ''requiredAudience'')) (\<lambda>audience.
     bindE (bindE (bindE (jindex p ''iam'') (\<lambda>v. jindex v ''workloadClients'')) (\<lambda>v. jindex v ''mcpServer'')) (\<lambda>workload.
     bindE (require (list_all projected_text [issuer, audience, workload]) (ValueError ''invalid installation projection'')) (\<lambda>_.
     Inr (py_str issuer, py_str audience, py_str workload)))))"

definition envs_header :: string where
  "envs_header = ''nginx_config:'' @ [CHR 0x0A] @ ''  envs:'' @ [CHR 0x0A]"

definition search_line :: string where
  "search_line = ''  - '' @ search_key @ [CHR 0x0A]"

definition extended_config :: "string \<Rightarrow> string res" where
  "extended_config original =
     bindE (require (count_sub envs_header original = 1 \<and> count_sub yaml_marker original = 1 \<and> \<not> contains original search_key)
       (ValueError ''unexpected APISIX env configuration'')) (\<lambda>_.
     let candidate = replace_first yaml_marker (yaml_marker @ search_line) original in
     bindE (require (replace_first search_line [] candidate = original) (ValueError ''APISIX config changed beyond new env name''))
       (\<lambda>_. Inr candidate))"

record runtime_plan =
  rt_apisix_env :: "(string, string) dict"
  rt_udp_env :: "(string, string) dict"
  rt_binding :: "string \<times> string \<times> string"
  rt_config :: string
  rt_source :: file_stat

text \<open>The checks before the environments are changed; \<open>config\<close> is the path that \<open>source\<close> names.\<close>

definition containers_ready ::
  "string \<Rightarrow> (json \<times> json) list \<Rightarrow> json list res \<Rightarrow> string \<Rightarrow> ((string, string) dict \<times> (string, string) dict) res" where
  "containers_ready tenant containers live source =
     bindE (require (set (dict_keys containers) = both_names \<and> tenant_ok tenant) (ValueError ''invalid snapshot or tenant'')) (\<lambda>_.
     bindE live (\<lambda>now.
     bindE (unchanged_since now containers ''container changed since private snapshot''
       ''both original containers must still be running'') (\<lambda>_.
     bindE (container_of containers ''/ouf-apisix'') (\<lambda>apisix. bindE (container_of containers ''/ouf-udp'') (\<lambda>udp.
     bindE (bindE (mounts_of apisix) (any_mount (\<lambda>m. bindE (config_mounted source m) (\<lambda>bad. Inr (\<not> bad))))) (\<lambda>mounted.
     bindE (require mounted (ValueError ''APISIX config path is not the mounted read-only source'')) (\<lambda>_.
     bindE (jneq (config_user udp) (JStr ''10004:10004'')) (\<lambda>other.
     bindE (require (\<not> other) (ValueError ''UDP service identity differs from file owner 10004:10004'')) (\<lambda>_.
     bindE (container_env ''invalid existing Docker environment'' apisix) (\<lambda>a.
     bindE (container_env ''invalid existing Docker environment'' udp) (\<lambda>u.
     bindE (require (search_key \<notin> set (dict_keys a) \<and> \<not> list_ex (\<lambda>k. starts_with k ''OUF_UDP_SEARCH_'') (dict_keys u))
       (ValueError ''search binding already configured'')) (\<lambda>_. Inr (a, u)))))))))))))"

definition runtime_plan_of ::
  "(string \<Rightarrow> json res) \<Rightarrow> files \<Rightarrow> path \<Rightarrow> path \<Rightarrow> string \<Rightarrow> path \<Rightarrow> string \<Rightarrow> json list res \<Rightarrow> string \<Rightarrow> runtime_plan res" where
  "runtime_plan_of loads fs snapshot config source projection tenant live key =
     bindE (root_owned fs (butlast snapshot) 448 ''expected root ownership and mode 0700'') (\<lambda>_.
     bindE (root_owned fs snapshot 384 ''expected root ownership and mode 0600'') (\<lambda>_.
     bindE (bindE (bindE (bindE (stat_of fs snapshot) (\<lambda>f. loads (fi_text f))) jelements) by_full_name) (\<lambda>containers.
     bindE (containers_ready tenant containers live source) (\<lambda>(a, u).
     bindE (bindE (bindE (stat_of fs projection) (\<lambda>f. loads (fi_text f))) search_binding) (\<lambda>b.
     bindE (stat_of fs config) (\<lambda>original.
     bindE (extended_config (fi_text original)) (\<lambda>candidate.
     bindE (require (key \<notin> snd ` set a) (ValueError ''new key collides with existing secret'')) (\<lambda>_.
     Inr \<lparr>rt_apisix_env = dict_set search_key key a, rt_udp_env = u, rt_binding = b, rt_config = candidate,
       rt_source = original\<rparr>))))))))"

text \<open>
  \<open>registry_url\<close> is a free name of \<open>prepare\<close>: no parameter, no local variable and no name of the module.
  Python looks it up when the arguments of \<open>udp_env.update\<close> are evaluated.
\<close>

definition registry_url :: "string res" where
  "registry_url = Inl (NameError ''registry_url'')"

definition search_env :: "string \<Rightarrow> string \<times> string \<times> string \<Rightarrow> string \<Rightarrow> (string, string) dict" where
  "search_env tenant b url = (case b of (issuer, audience, workload) \<Rightarrow>
     [(''OUF_UDP_SEARCH_TENANT_ID'', tenant), (''OUF_UDP_SEARCH_ISSUER'', issuer), (''OUF_UDP_SEARCH_AUDIENCE'', audience),
      (''OUF_UDP_SEARCH_WORKLOAD'', workload), (''OUF_UDP_SEARCH_OWNER_KEY_FILE'', ''/run/secrets/udp-search-owner.key''),
      (''OUF_AUTHORIZATION_REGISTRY_URL'', url), (''OUF_AUTHORIZATION_REGISTRY_TOKEN_FILE'', ''/run/ouf-udp-auth/token''),
      (''OUF_AUTHORIZATION_REFRESH_SECONDS'', ''30''), (''OUF_AUTHORIZATION_MAX_STALENESS_SECONDS'', ''300'')])"

definition write_runtime :: "path \<Rightarrow> string \<Rightarrow> runtime_plan \<Rightarrow> (string, string) dict \<Rightarrow> (files, unit) io" where
  "write_runtime target key plan udp_env =
     bindS (make_private target) (\<lambda>_.
     bindS (write_new (target @ [''apisix.env'']) (env_text (rt_apisix_env plan)) 0 0 384) (\<lambda>_.
     bindS (write_new (target @ [''udp.env'']) (env_text udp_env) 0 0 384) (\<lambda>_.
     bindS (write_new (target @ [''udp-search-owner.key'']) (key @ [CHR 0x0A]) 10004 10004 256) (\<lambda>_.
     write_new (target @ [''apisix-config.yaml'']) (rt_config plan) (fi_uid (rt_source plan)) (fi_gid (rt_source plan))
       (fi_mode (rt_source plan))))))"

definition prepare_runtime ::
  "(string \<Rightarrow> json res) \<Rightarrow> path \<Rightarrow> path \<Rightarrow> string \<Rightarrow> path \<Rightarrow> string \<Rightarrow> json list res \<Rightarrow> string \<Rightarrow> path \<Rightarrow> (files, path) io" where
  "prepare_runtime loads snapshot config source projection tenant live key target = (\<lambda>fs.
     bindS (liftS (runtime_plan_of loads fs snapshot config source projection tenant live key)) (\<lambda>plan.
     bindS (liftS registry_url) (\<lambda>url.
     bindS (write_runtime target key plan
       (foldl (\<lambda>d (k, v). dict_set k v d) (rt_udp_env plan) (search_env tenant (rt_binding plan) url))) (\<lambda>_.
     returnS target))) fs)"

text \<open>What \<open>main\<close> catches ends the script with a message; a \<open>NameError\<close> is not among them.\<close>

fun preparation_caught :: "py_exn \<Rightarrow> bool" where
  "preparation_caught (OSError _) = True"
| "preparation_caught (ValueError _) = True"
| "preparation_caught (KeyError _) = True"
| "preparation_caught (CalledProcessError _) = True"
| "preparation_caught _ = False"

definition preparation_main :: "(files, path) io \<Rightarrow> (files, path) io" where
  "preparation_main m = tryS m (\<lambda>e. if preparation_caught e then raiseS (SystemExit ''R4A_PREPARATION_BLOCKED'') else raiseS e)"

section \<open>The preflight of the staged rollout\<close>

definition candidate_files :: "string set" where
  "candidate_files = {''apisix.env'', ''udp.env'', ''udp-search-owner.key'', ''apisix-config.yaml''}"

definition ascii_text :: "string \<Rightarrow> bool" where
  "ascii_text s = list_all (\<lambda>c. c < CHR 0x80) s"

definition parse_env :: "string \<Rightarrow> (string, string) dict res" where
  "parse_env content =
     (let entries = text_lines content; names = map (takeWhile (\<lambda>c. c \<noteq> CHR ''='')) entries in
      bindE (require (ends_with content [CHR 0x0A] \<and> distinct names) (ValueError ''invalid candidate environment structure'')) (\<lambda>_.
      relabel ''invalid Docker environment'' (env_map entries)))"

definition preflight_udp_extra :: "string set" where
  "preflight_udp_extra = {''OUF_UDP_SEARCH_TENANT_ID'', ''OUF_UDP_SEARCH_ISSUER'', ''OUF_UDP_SEARCH_AUDIENCE'',
     ''OUF_UDP_SEARCH_WORKLOAD'', ''OUF_UDP_SEARCH_OWNER_KEY_FILE''}"

definition without :: "string set \<Rightarrow> (string, string) dict \<Rightarrow> (string, string) dict" where
  "without names d = filter (\<lambda>(k, _). k \<notin> names) d"

definition new_names :: "(string, string) dict \<Rightarrow> (string, string) dict \<Rightarrow> string set" where
  "new_names new old = set (dict_keys new) - set (dict_keys old)"

definition environments_ok ::
  "string \<Rightarrow> (string, string) dict \<Rightarrow> (string, string) dict \<Rightarrow> (string, string) dict \<Rightarrow> (string, string) dict \<Rightarrow> bool" where
  "environments_ok key a u old_a old_u \<longleftrightarrow>
     set (without {search_key} a) = set old_a \<and> set (without preflight_udp_extra u) = set old_u
     \<and> new_names a old_a = {search_key} \<and> new_names u old_u = preflight_udp_extra
     \<and> map_of a search_key = Some key
     \<and> map_of u ''OUF_UDP_SEARCH_OWNER_KEY_FILE'' = Some ''/run/secrets/udp-search-owner.key''"

definition candidate_key :: "files \<Rightarrow> path \<Rightarrow> string res" where
  "candidate_key fs candidate =
     bindE (stat_of fs (candidate @ [''udp-search-owner.key''])) (\<lambda>f.
     bindE (require (has_mode f 10004 10004 256) (ValueError ''UDP key file owner or mode differs'')) (\<lambda>_.
     bindE (require (ascii_text (fi_text f)) (ValueError ''ordinal not in range(128)'')) (\<lambda>_.
     let key = strip (fi_text f) in
     bindE (require (low_hex key) (ValueError ''invalid UDP key format'')) (\<lambda>_. Inr key))))"

definition candidate_env :: "files \<Rightarrow> path \<Rightarrow> string \<Rightarrow> (string, string) dict res" where
  "candidate_env fs candidate name = bindE (stat_of fs (candidate @ [name])) (\<lambda>f. parse_env (fi_text f))"

definition preflight_config :: "files \<Rightarrow> (string \<Rightarrow> path) \<Rightarrow> path \<Rightarrow> json \<Rightarrow> unit res" where
  "preflight_config fs split candidate apisix =
     bindE (mounts_of apisix) (\<lambda>mounts.
     bindE (filterE (\<lambda>m. bindE (jindex m ''Destination'') (\<lambda>d. Inr (json_eq d (JStr ''/usr/local/apisix/conf/config.yaml'')))) mounts) (\<lambda>ms.
     case ms of
       [m] \<Rightarrow>
         bindE (jindex m ''RW'') (\<lambda>rw. bindE (require (rw = JBool False) (ValueError ''original APISIX YAML mount is unexpected'')) (\<lambda>_.
         bindE (bindE (jindex m ''Source'') field_text) (\<lambda>source.
         bindE (stat_of fs (candidate @ [''apisix-config.yaml''])) (\<lambda>f. bindE (stat_of fs (split source)) (\<lambda>g.
         bindE (require (has_mode f (fi_uid g) (fi_gid g) (fi_mode g)) (ValueError ''candidate APISIX YAML permissions differ'')) (\<lambda>_.
         require (yaml_extended (fi_text g) (fi_text f)) (ValueError ''candidate APISIX YAML differs beyond R4a env inheritance'')))))))
     | _ \<Rightarrow> Inl (ValueError ''original APISIX YAML mount is unexpected'')))"

text \<open>The checks of \<open>check\<close>; \<open>names\<close> are the entries of the candidate directory.\<close>

definition preflight_checks ::
  "(string \<Rightarrow> json res) \<Rightarrow> (string \<Rightarrow> path) \<Rightarrow> files \<Rightarrow> path \<Rightarrow> path \<Rightarrow> string list \<Rightarrow> json list res \<Rightarrow> (json \<times> json) list res" where
  "preflight_checks loads split fs snapshot candidate names live =
     (let differs = ''private runtime path owner or mode differs'' in
     bindE (root_owned fs (butlast snapshot) 448 differs) (\<lambda>_.
     bindE (root_owned fs snapshot 384 differs) (\<lambda>_.
     bindE (root_owned fs candidate 448 differs) (\<lambda>_.
     bindE (require (butlast candidate = butlast snapshot) (ValueError ''candidate is outside the private snapshot directory'')) (\<lambda>_.
     bindE (bindE (bindE (bindE (stat_of fs snapshot) (\<lambda>f. loads (fi_text f))) jelements) by_full_name) (\<lambda>old.
     bindE (require (set (dict_keys old) = both_names) (ValueError ''unexpected original containers'')) (\<lambda>_.
     bindE (mapE (\<lambda>n. stat_of fs (candidate @ [n])) names) (\<lambda>entries.
     bindE (require (set names = candidate_files \<and> \<not> list_ex fi_symlink entries) (ValueError ''unexpected candidate files'')) (\<lambda>_.
     bindE (mapE (\<lambda>n. root_owned fs (candidate @ [n]) 384 differs) [''apisix.env'', ''udp.env'']) (\<lambda>_.
     bindE (candidate_key fs candidate) (\<lambda>key.
     bindE (candidate_env fs candidate ''apisix.env'') (\<lambda>a.
     bindE (candidate_env fs candidate ''udp.env'') (\<lambda>u.
     bindE (container_of old ''/ouf-apisix'') (\<lambda>apisix. bindE (container_of old ''/ouf-udp'') (\<lambda>udp.
     bindE (container_env ''invalid Docker environment'' apisix) (\<lambda>old_a.
     bindE (container_env ''invalid Docker environment'' udp) (\<lambda>old_u.
     bindE (require (environments_ok key a u old_a old_u) (ValueError ''candidate environment differs beyond R4a bindings'')) (\<lambda>_.
     bindE (preflight_config fs split candidate apisix) (\<lambda>_.
     bindE live (\<lambda>now.
     bindE (unchanged_since now old ''running containers changed since snapshot'' ''original services must be running'') (\<lambda>_.
     Inr old)))))))))))))))))))))"

section \<open>The report of the preflight\<close>

definition text_of_bool :: "bool \<Rightarrow> string" where
  "text_of_bool b = (if b then ''True'' else ''False'')"

text \<open>\<open>len(v or {})\<close> and \<open>json.dumps\<close> of a list of texts.\<close>

fun size_or_zero :: "json \<Rightarrow> nat res" where
  "size_or_zero (JObj kvs) = Inr (length kvs)"
| "size_or_zero (JList vs) = Inr (length vs)"
| "size_or_zero (JStr s) = Inr (length s)"
| "size_or_zero v = (if json_truthy v then Inl (TypeError ''object has no len()'') else Inr 0)"

definition dumps_texts :: "string list \<Rightarrow> string" where
  "dumps_texts xs = ''['' @ glue '', '' (map json_text xs) @ '']''"

definition network_line :: "json \<Rightarrow> string \<Rightarrow> string \<times> json \<Rightarrow> string res" where
  "network_line c name nw = (case nw of (network, n) \<Rightarrow>
     bindE (jget n ''Aliases'' JNull) (\<lambda>v. bindE (if json_truthy v then string_list v else Inr []) (\<lambda>xs.
     bindE (bindE (jindex c ''Id'') field_text) (\<lambda>i.
     Inr (name @ '' network='' @ network @ '' aliases=''
       @ dumps_texts (sort_by (key_le id) (remdups (filter (\<lambda>x. x \<notin> {name, take 12 i}) xs))))))))"

definition counted :: "json res \<Rightarrow> string res" where
  "counted m = bindE m (\<lambda>v. bindE (size_or_zero v) (\<lambda>n. Inr (nat_text n)))"

definition shown_field :: "json res \<Rightarrow> string res" where
  "shown_field m = bindE m (\<lambda>v. Inr (py_str v))"

definition flagged :: "json res \<Rightarrow> string res" where
  "flagged m = bindE m (\<lambda>v. Inr (text_of_bool (json_truthy v)))"

text \<open>A line of fields: each name is followed by the text of its value.\<close>

definition fields_line :: "string \<Rightarrow> (string \<times> string res) list \<Rightarrow> string res" where
  "fields_line name entries = bindE (mapE (\<lambda>(k, m). bindE m (\<lambda>t. Inr (k @ ''='' @ t))) entries)
     (\<lambda>ts. Inr (name @ '' '' @ glue '' '' ts))"

definition launch_line :: "json \<Rightarrow> json \<Rightarrow> string \<Rightarrow> string res" where
  "launch_line c host name = fields_line name [
     (''image'', shown_field (jindex c ''Image'')),
     (''user'', bindE (config_user c) (\<lambda>v. Inr (py_repr v))),
     (''memory'', shown_field (jindex host ''Memory'')),
     (''restart'', shown_field (bindE (jindex host ''RestartPolicy'') (\<lambda>p. jindex p ''Name''))),
     (''binds'', bindE (mounts_of c) (\<lambda>ms. Inr (nat_text (length ms)))),
     (''ports'', counted (bindE (jindex c ''NetworkSettings'') (\<lambda>n. jindex n ''Ports''))),
     (''entrypoint_items'', counted (bindE (jindex c ''Config'') (\<lambda>v. jget v ''Entrypoint'' JNull))),
     (''cmd_items'', counted (bindE (jindex c ''Config'') (\<lambda>v. jget v ''Cmd'' JNull)))]"

definition host_line :: "json \<Rightarrow> string \<Rightarrow> string res" where
  "host_line host name = fields_line name [
     (''primary_network'', shown_field (jget host ''NetworkMode'' JNull)),
     (''host_port_bindings'', counted (jget host ''PortBindings'' JNull)),
     (''publish_all'', flagged (jget host ''PublishAllPorts'' JNull)),
     (''read_only'', flagged (jget host ''ReadonlyRootfs'' JNull)),
     (''tmpfs'', counted (jget host ''Tmpfs'' JNull)),
     (''memory_swap'', shown_field (jget host ''MemorySwap'' JNull)),
     (''ipc'', shown_field (jget host ''IpcMode'' JNull)),
     (''log_driver'', shown_field (log_config host ''Type''))]"

definition advanced_options :: "string list" where
  "advanced_options = [''CapAdd'', ''CapDrop'', ''SecurityOpt'', ''Devices'', ''DeviceRequests'',
     ''Dns'', ''ExtraHosts'', ''Ulimits'', ''Sysctls'', ''Binds'', ''Mounts'',
     ''GroupAdd'', ''VolumesFrom'', ''Links'', ''PidMode'', ''UsernsMode'',
     ''CgroupnsMode'', ''IpcMode'', ''ShmSize'', ''NanoCpus'', ''CpuShares'',
     ''CpuQuota'', ''CpuPeriod'', ''PidsLimit'', ''OomKillDisable'', ''Init'']"

definition advanced_set :: "json \<Rightarrow> string \<Rightarrow> bool res" where
  "advanced_set host k = bindE (jget host k JNull) (\<lambda>v. Inr (json_truthy v \<and> v \<noteq> JStr ''private''))"

definition advanced_line :: "json \<Rightarrow> string \<Rightarrow> string res" where
  "advanced_line host name = bindE (filterE (advanced_set host) advanced_options)
     (\<lambda>ks. Inr (name @ '' advanced_option_names='' @ dumps_texts ks))"

definition needs_review :: "json \<Rightarrow> json \<Rightarrow> bool res" where
  "needs_review host networks = or_chain [
     field_set (jget host ''Privileged'' JNull),
     bindE (jget host ''NetworkMode'' JNull) (\<lambda>m. case m of
        JStr s \<Rightarrow> bindE (jin s networks) (\<lambda>b. Inr (\<not> b)) | _ \<Rightarrow> bindE (jset [m]) (\<lambda>_. Inr True))]"

fun object_items :: "json \<Rightarrow> (string \<times> json) list res" where
  "object_items (JObj kvs) = Inr kvs"
| "object_items _ = Inl (TypeError ''object has no attribute items'')"

definition container_report :: "json \<Rightarrow> string \<Rightarrow> string list res" where
  "container_report c name =
     bindE (jindex c ''HostConfig'') (\<lambda>host.
     bindE (bindE (jindex c ''NetworkSettings'') (\<lambda>n. jindex n ''Networks'')) (\<lambda>networks.
     bindE (object_items networks) (\<lambda>items.
     bindE (mapE (network_line c name) (sort_by (key_le fst) items)) (\<lambda>ns.
     bindE (launch_line c host name) (\<lambda>l. bindE (host_line host name) (\<lambda>h. bindE (advanced_line host name) (\<lambda>v.
     bindE (needs_review host networks) (\<lambda>review.
     Inr (ns @ [l, h, v] @ (if review then [name @ '' EXTRA_RUNTIME_REVIEW_REQUIRED=true''] else []))))))))))"

definition preflight_runtime ::
  "(string \<Rightarrow> json res) \<Rightarrow> (string \<Rightarrow> path) \<Rightarrow> files \<Rightarrow> path \<Rightarrow> path \<Rightarrow> string list \<Rightarrow> json list res \<Rightarrow> string list res" where
  "preflight_runtime loads split fs snapshot candidate names live =
     bindE (preflight_checks loads split fs snapshot candidate names live) (\<lambda>old.
     bindE (container_of old ''/ouf-udp'') (\<lambda>udp. bindE (container_report udp ''ouf-udp'') (\<lambda>us.
     bindE (container_of old ''/ouf-apisix'') (\<lambda>apisix. bindE (container_report apisix ''ouf-apisix'') (\<lambda>xs.
     Inr ([''PRIVATE_CANDIDATE_VERIFIED=true'', ''ORIGINAL_CONTAINERS_UNCHANGED=true''] @ us @ xs))))))"

end
