(* ===== verification/Rollout_Safety.thy ===== *)
theory Rollout_Safety
  imports Rollout
begin

text \<open>
  What the staged rollout guarantees against a docker engine that keeps its documented contract
  (\<open>faithful_docker\<close>): the original container survives every outcome, under its own name or the backup
  name, and the report that it was restored is true.
\<close>

section \<open>The contract of docker\<close>

text \<open>
  \<open>view w n\<close> is the container named \<open>n\<close>. Inspecting changes nothing and tells the container. A command that
  is answered has its effect; one that fails has it or has no effect. Renaming and creating need a free
  name, and a new container has a new id.
\<close>

record container =
  ct_id :: string
  ct_image :: string
  ct_running :: bool
  ct_restart :: string

type_synonym containers = "string \<Rightarrow> container option"

definition commits :: "('w \<Rightarrow> containers) \<Rightarrow> ('w, unit) io \<Rightarrow> (containers \<Rightarrow> containers \<Rightarrow> bool) \<Rightarrow> bool" where
  "commits view m eff \<longleftrightarrow> (\<forall>w r w'. m w = (r, w') \<longrightarrow> (view w' = view w \<or> eff (view w) (view w'))
     \<and> (r = Inr () \<longrightarrow> eff (view w) (view w')) \<and> (\<forall>e. r = Inl e \<longrightarrow> called_process e))"

definition shows_container :: "json \<Rightarrow> container \<Rightarrow> bool" where
  "shows_container d c \<longleftrightarrow> jindex d ''Id'' = Inr (JStr (ct_id c)) \<and> jindex d ''Image'' = Inr (JStr (ct_image c))
     \<and> running d = Inr (ct_running c)"

definition with_container :: "string \<Rightarrow> (container \<Rightarrow> container) \<Rightarrow> containers \<Rightarrow> containers \<Rightarrow> bool" where
  "with_container n f v v' \<longleftrightarrow> (\<exists>c. v n = Some c \<and> v' = v(n \<mapsto> f c))"

definition renamed :: "string \<Rightarrow> string \<Rightarrow> containers \<Rightarrow> containers \<Rightarrow> bool" where
  "renamed a b v v' \<longleftrightarrow> (\<exists>c. v a = Some c \<and> v b = None \<and> v' = v(b \<mapsto> c, a := None))"

definition created :: "string \<Rightarrow> containers \<Rightarrow> containers \<Rightarrow> bool" where
  "created n v v' \<longleftrightarrow> (\<exists>c. v n = None \<and> (\<forall>m d. v m = Some d \<longrightarrow> ct_id d \<noteq> ct_id c) \<and> v' = v(n \<mapsto> c))"

definition faithful_docker :: "'w docker \<Rightarrow> ('w \<Rightarrow> containers) \<Rightarrow> bool" where
  "faithful_docker dk view \<longleftrightarrow>
     (\<forall>n w r w'. dk_inspect dk n w = (r, w') \<longrightarrow> view w' = view w \<and> (\<forall>e. r = Inl e \<longrightarrow> called_process e)
        \<and> (\<forall>d. r = Inr d \<longrightarrow> (\<exists>c. view w n = Some c \<and> shows_container d c)))
     \<and> (\<forall>i. keeps view (dk_image dk i))
     \<and> (\<forall>n. commits view (dk_run dk (readiness_args n)) (\<lambda>v v'. v' = v))
     \<and> (\<forall>net n. commits view (dk_run dk [''network'', ''connect'', net, n]) (\<lambda>v v'. v' = v))
     \<and> (\<forall>p n. commits view (dk_run dk [''update'', ''--restart'', p, n]) (with_container n (ct_restart_update (\<lambda>_. p))))
     \<and> (\<forall>n. commits view (dk_run dk [''stop'', n]) (with_container n (ct_running_update (\<lambda>_. False))))
     \<and> (\<forall>n. commits view (dk_run dk [''start'', n]) (with_container n (ct_running_update (\<lambda>_. True))))
     \<and> (\<forall>n. commits view (dk_run dk [''rm'', n]) (\<lambda>v v'. v' = v(n := None)))
     \<and> (\<forall>a b. commits view (dk_run dk [''rename'', a, b]) (renamed a b))
     \<and> (\<forall>n rest. commits view (dk_run dk (''create'' # ''--name'' # n # rest)) (created n))"

text \<open>The ids under the names.\<close>

definition ids_of :: "('w \<Rightarrow> containers) \<Rightarrow> 'w \<Rightarrow> string \<Rightarrow> string option" where
  "ids_of view w n = map_option ct_id (view w n)"

lemma keeps_view_ids: "keeps view m \<Longrightarrow> keeps (ids_of view) m"
  by (auto simp: keeps_def ids_of_def fun_eq_iff)

lemma commits_keeps: "commits view m (\<lambda>v v'. v' = v) \<Longrightarrow> keeps view m"
  unfolding commits_def by (intro keepsI) blast

lemma commits_keeps_ids:
  assumes "commits view m (with_container n f)" and "\<And>c. ct_id (f c) = ct_id c"
  shows "keeps (ids_of view) m"
proof (rule keepsI)
  fix w r w' assume "m w = (r, w')"
  then have "view w' = view w \<or> with_container n f (view w) (view w')" using assms(1) unfolding commits_def by blast
  then show "ids_of view w' = ids_of view w"
    using assms(2) by (auto simp: with_container_def ids_of_def fun_eq_iff)
qed

section \<open>One command\<close>

lemma docker_inspect:
  assumes "faithful_docker dk view"
  shows "keeps view (dk_inspect dk n)" and "dk_inspect dk n w = (Inl e, w') \<Longrightarrow> called_process e"
    and "dk_inspect dk n w = (Inr d, w') \<Longrightarrow> \<exists>c. view w n = Some c \<and> shows_container d c"
  using assms unfolding faithful_docker_def by (auto intro!: keepsI)

lemma docker_commits:
  assumes "faithful_docker dk view"
  shows "commits view (dk_run dk (readiness_args n)) (\<lambda>v v'. v' = v)"
    and "commits view (dk_run dk [''network'', ''connect'', net, n]) (\<lambda>v v'. v' = v)"
    and "commits view (set_restart dk p n) (with_container n (ct_restart_update (\<lambda>_. p)))"
    and "commits view (dk_run dk [''stop'', n]) (with_container n (ct_running_update (\<lambda>_. False)))"
    and "commits view (dk_run dk [''start'', n]) (with_container n (ct_running_update (\<lambda>_. True)))"
    and "commits view (dk_run dk [''rm'', n]) (\<lambda>v v'. v' = v(n := None))"
    and "commits view (dk_run dk [''rename'', a, b]) (renamed a b)"
    and "commits view (dk_run dk (''create'' # ''--name'' # n # rest)) (created n)"
  using assms unfolding faithful_docker_def set_restart_def by blast+

lemma docker_keeps_ids:
  assumes "faithful_docker dk view"
  shows "keeps (ids_of view) (dk_inspect dk n)" "keeps (ids_of view) (set_restart dk p n)"
    "keeps (ids_of view) (dk_run dk [''stop'', n])" "keeps (ids_of view) (dk_run dk [''start'', n])"
    "keeps (ids_of view) (dk_run dk [''network'', ''connect'', net, n])" "keeps (ids_of view) (dk_run dk (readiness_args n))"
  by (rule keeps_view_ids [OF docker_inspect(1) [OF assms]] keeps_view_ids [OF commits_keeps [OF docker_commits(1) [OF assms]]]
      keeps_view_ids [OF commits_keeps [OF docker_commits(2) [OF assms]]] commits_keeps_ids [OF docker_commits(3) [OF assms]]
      commits_keeps_ids [OF docker_commits(4) [OF assms]] commits_keeps_ids [OF docker_commits(5) [OF assms]], simp?)+

lemma try_inspect_view: "faithful_docker dk view \<Longrightarrow> keeps view (try_inspect dk n)"
  unfolding try_inspect_def by (intro keeps_intros docker_inspect(1))

lemma try_inspect_shows:
  assumes "faithful_docker dk view" and "try_inspect dk n w = (r, w')"
  shows "\<exists>x. r = Inr x \<and> (\<forall>d. x = Some d \<longrightarrow> (\<exists>c. view w n = Some c \<and> shows_container d c))"
proof -
  obtain q v where q: "dk_inspect dk n w = (q, v)" by (cases "dk_inspect dk n w")
  show ?thesis
  proof (cases q)
    case (Inl e)
    with docker_inspect(2) [OF assms(1)] q assms(2) show ?thesis
      by (auto simp: try_inspect_def io_defs)
  next
    case (Inr d)
    with docker_inspect(3) [OF assms(1)] q assms(2) show ?thesis
      by (auto simp: try_inspect_def io_defs)
  qed
qed

lemma wait_ready_view: "faithful_docker dk view \<Longrightarrow> keeps view (wait_ready dk name msg k)"
proof (induction k)
  case (Suc k)
  then show ?case
    unfolding wait_ready.simps by (intro keeps_tryS commits_keeps [OF docker_commits(1)] keeps_if keeps_pure) simp_all
qed (simp add: keeps_intros)

lemma shows_truthy: "shows_container d c \<Longrightarrow> json_truthy d"
  by (cases d) (auto simp: shows_container_def split: option.splits)

lemma jneq_strings [simp]: "jneq (Inr (JStr a)) (JStr b) = Inr (a \<noteq> b)"
  by (simp add: jneq_def json_eq_def)

section \<open>The original survives\<close>

definition survives :: "('w \<Rightarrow> containers) \<Rightarrow> string \<Rightarrow> string \<Rightarrow> string \<Rightarrow> 'w \<Rightarrow> bool" where
  "survives view i name backup w \<longleftrightarrow> ids_of view w name = Some i \<or> ids_of view w backup = Some i"

lemma keeps_ids_survives: "keeps (ids_of view) m \<Longrightarrow> preserves (survives view i name backup) m"
  by (simp add: keeps_def preserves_def survives_def)

lemma keeps_ids_backup: "keeps (ids_of view) m \<Longrightarrow> preserves (\<lambda>w. ids_of view w n = Some i) m"
  by (simp add: keeps_def preserves_def)

lemma rm_other:
  assumes "faithful_docker dk view" and "name \<noteq> backup"
  shows "preserves (\<lambda>w. ids_of view w backup = Some i) (dk_run dk [''rm'', name])"
proof (rule preservesI)
  fix w r w' assume "ids_of view w backup = Some i" "dk_run dk [''rm'', name] w = (r, w')"
  moreover from this docker_commits(6) [OF assms(1)] have "view w' = view w \<or> view w' = (view w)(name := None)"
    unfolding commits_def by blast
  ultimately show "ids_of view w' backup = Some i" using assms(2) by (auto simp: ids_of_def)
qed

lemma rename_survives:
  assumes "faithful_docker dk view" and "a = name \<and> b = backup \<or> a = backup \<and> b = name"
  shows "preserves (survives view i name backup) (dk_run dk [''rename'', a, b])"
proof (rule preservesI)
  fix w r w' assume s: "survives view i name backup w" and run: "dk_run dk [''rename'', a, b] w = (r, w')"
  have "view w' = view w \<or> renamed a b (view w) (view w')"
    using run docker_commits(7) [OF assms(1)] unfolding commits_def by blast
  with s assms(2) show "survives view i name backup w'" 
    by (cases "backup = name") (auto simp: renamed_def survives_def ids_of_def)
qed

lemma create_survives:
  assumes "faithful_docker dk view"
  shows "preserves (survives view i name backup) (dk_run dk (''create'' # ''--name'' # name # rest))"
proof (rule preservesI)
  fix w r w' assume s: "survives view i name backup w" and run: "dk_run dk (''create'' # ''--name'' # name # rest) w = (r, w')"
  have "view w' = view w \<or> created name (view w) (view w')"
    using run docker_commits(8) [OF assms] unfolding commits_def by blast
  with s show "survives view i name backup w'"
    by (cases "backup = name") (auto simp: created_def survives_def ids_of_def)
qed

lemma remove_candidate_survives:
  assumes docker: "faithful_docker dk view" and "name \<noteq> backup" and s: "survives view i name backup w"
    and shown: "\<forall>d. current = Some d \<longrightarrow> (\<exists>c. view w name = Some c \<and> shows_container d c)"
    and run: "remove_candidate dk name (JStr i) current w = (r, w')"
  shows "survives view i name backup w'"
proof (cases current)
  case None
  with run s show ?thesis by (simp add: remove_candidate_def returnS_def)
next
  case (Some d)
  with shown obtain c where c: "view w name = Some c" "shows_container d c" by blast
  show ?thesis
  proof (cases "ct_id c = i")
    case True
    with c(2) have "json_truthy d" "jneq (jindex d ''Id'') (JStr i) = Inr False"
      by (simp_all add: shows_truthy) (simp add: shows_container_def)
    with Some run s show ?thesis by (simp add: remove_candidate_def io_defs)
  next
    case False
    then have b: "ids_of view w backup = Some i" using s c(1) by (simp add: survives_def ids_of_def)
    have "preserves (\<lambda>w. ids_of view w backup = Some i) (remove_candidate dk name (JStr i) current)"
      unfolding remove_candidate_def
      by (intro preserves_intros keeps_ids_backup docker_keeps_ids [OF docker] rm_other [OF docker assms(2)])
    from preservesD [OF this run b] show ?thesis by (simp add: survives_def)
  qed
qed

lemma rename_back_survives:
  "faithful_docker dk view \<Longrightarrow> preserves (survives view i name backup) (rename_back dk name backup old original)"
  unfolding rename_back_def by (intro preserves_intros rename_survives) simp_all

section \<open>Rollback\<close>

definition up_again :: "('w \<Rightarrow> containers) \<Rightarrow> string \<Rightarrow> string \<Rightarrow> 'w \<Rightarrow> bool" where
  "up_again view i name w \<longleftrightarrow>
     (\<exists>c. view w name = Some c \<and> ct_id c = i \<and> ct_running c \<and> ct_restart c = ''unless-stopped'')"

text \<open>The second half of a rollback: what holds the name must be the original, and it must run.\<close>

definition restart_original :: "'w docker \<Rightarrow> string \<Rightarrow> json \<Rightarrow> ('w, unit) io" where
  "restart_original dk service old_id =
     (let name = service_name service in
      bindS (dk_inspect dk name) (\<lambda>restored.
      bindS (liftS (jneq (jindex restored ''Id'') old_id)) (\<lambda>other.
      if other then raiseS (ValueError ''cannot restore original container'')
      else bindS (liftS (running restored)) (\<lambda>run.
        bindS (if run then returnS () else dk_run dk [''start'', name]) (\<lambda>_.
        bindS (set_restart dk ''unless-stopped'' name) (\<lambda>_.
        bindS (dk_inspect dk name) (\<lambda>now.
        bindS (liftS (running now)) (\<lambda>up.
        if \<not> up then raiseS (ValueError ''original container did not restart'')
        else if service = ''udp'' then wait_udp_ready dk name else returnS ()))))))))"

lemma roll_back_split:
  "roll_back dk service old_id backup =
     (let name = service_name service in
      bindS (try_inspect dk name) (\<lambda>current. bindS (remove_candidate dk name old_id current) (\<lambda>_.
      bindS (try_inspect dk backup) (\<lambda>original. bindS (rename_back dk name backup old_id original) (\<lambda>_.
      restart_original dk service old_id)))))"
  by (simp add: roll_back_def restart_original_def Let_def)

lemma restart_original_ids: "faithful_docker dk view \<Longrightarrow> keeps (ids_of view) (restart_original dk service old_id)"
  unfolding restart_original_def Let_def wait_udp_ready_def
  by (intro keeps_intros docker_keeps_ids keeps_view_ids [OF wait_ready_view])

lemma commitsD: "commits view m eff \<Longrightarrow> m w = (Inr (), w') \<Longrightarrow> eff (view w) (view w')"
  unfolding commits_def by blast

lemma restart_original_up:
  assumes docker: "faithful_docker dk view" and run: "restart_original dk service (JStr i) w = (Inr (), w')"
  shows "up_again view i (service_name service) w'"
proof -
  let ?n = "service_name service"
  from run obtain d w1 run' w2 w3 now w4 where
    d: "dk_inspect dk ?n w = (Inr d, w1)" "jneq (jindex d ''Id'') (JStr i) = Inr False" "running d = Inr run'"
    and s: "(if run' then returnS () else dk_run dk [''start'', ?n]) w1 = (Inr (), w2)"
    and u: "set_restart dk ''unless-stopped'' ?n w2 = (Inr (), w3)"
    and n: "dk_inspect dk ?n w3 = (Inr now, w4)" "running now = Inr True"
    and rest: "(if service = ''udp'' then wait_udp_ready dk ?n else returnS ()) w4 = (Inr (), w')"
    by (auto simp: restart_original_def Let_def bindS_Inr liftS_def raiseS_def split: if_splits)
  from docker_inspect(3) [OF docker d(1)] obtain c where c: "view w ?n = Some c" "shows_container d c" by blast
  have id: "ct_id c = i" using c(2) d(2) by (simp add: shows_container_def)
  have "view w1 = view w" by (rule keepsD [OF docker_inspect(1) [OF docker] d(1)])
  moreover have "\<exists>c2. view w2 ?n = Some c2 \<and> ct_id c2 = ct_id c1" if "view w1 ?n = Some c1" for c1
  proof (cases run')
    case True
    with s that show ?thesis by (simp add: returnS_def)
  next
    case False
    with s have "dk_run dk [''start'', ?n] w1 = (Inr (), w2)" by simp
    from commitsD [OF docker_commits(5) [OF docker] this] that show ?thesis by (auto simp: with_container_def)
  qed
  ultimately obtain c2 where c2: "view w2 ?n = Some c2" "ct_id c2 = i" using c(1) id by metis
  from commitsD [OF docker_commits(3) [OF docker] u] c2 have c3: "view w3 ?n = Some (c2\<lparr>ct_restart := ''unless-stopped''\<rparr>)"
    by (auto simp: with_container_def)
  from docker_inspect(3) [OF docker n(1)] c3 n(2) have "ct_running c2" by (auto simp: shows_container_def)
  moreover have "view w4 = view w3" by (rule keepsD [OF docker_inspect(1) [OF docker] n(1)])
  moreover have "keeps view (if service = ''udp'' then wait_udp_ready dk ?n else returnS ())"
    unfolding wait_udp_ready_def by (intro keeps_intros wait_ready_view [OF docker])
  from keepsD [OF this rest] have "view w' = view w4" .
  ultimately show ?thesis using c2 c3 by (auto simp: up_again_def)
qed

lemma roll_back_outcome:
  assumes docker: "faithful_docker dk view" and apart: "service_name service \<noteq> backup"
    and s: "survives view i (service_name service) backup w" and run: "roll_back dk service (JStr i) backup w = (r, w')"
  shows "survives view i (service_name service) backup w' \<and> (r = Inr () \<longrightarrow> up_again view i (service_name service) w')"
proof -
  let ?n = "service_name service"
  obtain t w1 where t: "try_inspect dk ?n w = (t, w1)" by (cases "try_inspect dk ?n w")
  from try_inspect_shows [OF docker t] obtain current where
    cur: "t = Inr current" "\<forall>d. current = Some d \<longrightarrow> (\<exists>c. view w ?n = Some c \<and> shows_container d c)" by blast
  have same: "view w1 = view w" by (rule keepsD [OF try_inspect_view [OF docker] t])
  obtain q w2 where q: "remove_candidate dk ?n (JStr i) current w1 = (q, w2)"
    by (cases "remove_candidate dk ?n (JStr i) current w1")
  have s1: "survives view i ?n backup w1" using s same by (simp add: survives_def ids_of_def)
  have s2: "survives view i ?n backup w2"
    using remove_candidate_survives [OF docker apart s1 _ q] cur(2) same by simp
  show ?thesis
  proof (cases q)
    case (Inl e)
    with run t cur(1) q s2 show ?thesis by (auto simp: roll_back_split Let_def bindS_def)
  next
    case (Inr u)
    let ?rest = "bindS (try_inspect dk backup) (\<lambda>original. bindS (rename_back dk ?n backup (JStr i) original)
        (\<lambda>_. restart_original dk service (JStr i)))"
    have rest: "?rest w2 = (r, w')"
      using run t cur(1) q Inr by (simp add: roll_back_split Let_def bindS_def)
    have "preserves (survives view i ?n backup) ?rest"
      by (intro preserves_bindS keeps_ids_survives keeps_view_ids [OF try_inspect_view] rename_back_survives
          restart_original_ids docker)
    from preservesD [OF this rest s2] have "survives view i ?n backup w'" .
    moreover have "up_again view i ?n w'" if "r = Inr ()"
      using rest that restart_original_up [OF docker] by (auto simp: bindS_Inr)
    ultimately show ?thesis by blast
  qed
qed

section \<open>Other containers\<close>

definition others :: "('w \<Rightarrow> containers) \<Rightarrow> string set \<Rightarrow> 'w \<Rightarrow> containers" where
  "others view names w = (\<lambda>n. if n \<in> names then None else view w n)"

lemma keeps_view_others: "keeps view m \<Longrightarrow> keeps (others view names) m"
  by (auto simp: keeps_def others_def)

lemma commits_others:
  assumes "commits view m eff" and "\<And>v v' n. eff v v' \<Longrightarrow> n \<notin> names \<Longrightarrow> v' n = v n"
  shows "keeps (others view names) m"
proof (rule keepsI)
  fix w r w' assume "m w = (r, w')"
  then have "view w' = view w \<or> eff (view w) (view w')" using assms(1) unfolding commits_def by blast
  then show "others view names w' = others view names w" using assms(2) by (auto simp: others_def fun_eq_iff)
qed

lemma docker_others:
  assumes docker: "faithful_docker dk view" and n: "n \<in> names"
  shows "keeps (others view names) (set_restart dk p n)" "keeps (others view names) (dk_run dk [''stop'', n])"
    "keeps (others view names) (dk_run dk [''start'', n])" "keeps (others view names) (dk_run dk [''rm'', n])"
    "keeps (others view names) (dk_run dk (''create'' # ''--name'' # n # rest))"
    "b \<in> names \<Longrightarrow> keeps (others view names) (dk_run dk [''rename'', n, b])"
  using n by (intro commits_others [OF docker_commits(3) [OF docker]] commits_others [OF docker_commits(4) [OF docker]]
      commits_others [OF docker_commits(5) [OF docker]] commits_others [OF docker_commits(6) [OF docker]]
      commits_others [OF docker_commits(8) [OF docker]] commits_others [OF docker_commits(7) [OF docker]],
      auto simp: with_container_def created_def renamed_def)+

lemma roll_back_others:
  assumes "faithful_docker dk view"
  shows "keeps (others view {service_name service, backup}) (roll_back dk service old_id backup)"
  unfolding roll_back_split restart_original_def remove_candidate_def rename_back_def wait_udp_ready_def Let_def
  by (intro keeps_intros keeps_view_others [OF try_inspect_view [OF assms]] keeps_view_others [OF docker_inspect(1) [OF assms]]
      keeps_view_others [OF wait_ready_view [OF assms]] docker_others [OF assms]) simp_all

section \<open>Staging\<close>

lemma bring_up_survives:
  assumes docker: "faithful_docker dk view" and args: "args = ''create'' # ''--name'' # service_name service # rest"
  shows "preserves (survives view i (service_name service) backup) (bring_up dk service backup digest args)"
  unfolding bring_up_def Let_def args wait_udp_ready_def
  by (intro preserves_intros keeps_ids_survives docker_keeps_ids [OF docker] rename_survives [OF docker]
      create_survives [OF docker] keeps_view_ids [OF wait_ready_view [OF docker]]) simp_all

lemma bring_up_others:
  assumes docker: "faithful_docker dk view" and args: "args = ''create'' # ''--name'' # service_name service # rest"
  shows "keeps (others view {service_name service, backup}) (bring_up dk service backup digest args)"
  unfolding bring_up_def Let_def args wait_udp_ready_def
  by (intro keeps_intros docker_others [OF docker] keeps_view_others [OF docker_inspect(1) [OF docker]]
      keeps_view_others [OF wait_ready_view [OF docker]] keeps_view_others [OF commits_keeps [OF docker_commits(2) [OF docker]]])
    simp_all

lemma bring_up_runs:
  assumes docker: "faithful_docker dk view" and args: "args = ''create'' # ''--name'' # service_name service # rest"
    and apart: "backup \<noteq> service_name service" and i: "ids_of view w (service_name service) = Some i"
    and run: "bring_up dk service backup digest args w = (Inr (), w')"
  shows "ids_of view w' backup = Some i \<and> (\<exists>c. view w' (service_name service) = Some c \<and> ct_image c = digest \<and> ct_running c)"
proof -
  let ?n = "service_name service"
  from run obtain w1 w2 w3 w4 w5 w6 d w7 where
    u: "set_restart dk ''no'' ?n w = (Inr (), w1)" and s: "dk_run dk [''stop'', ?n] w1 = (Inr (), w2)"
    and r: "dk_run dk [''rename'', ?n, backup] w2 = (Inr (), w3)" and c: "dk_run dk args w3 = (Inr (), w4)"
    and net: "(if service = ''apisix'' then dk_run dk [''network'', ''connect'', ''ouf-backend'', ?n] else returnS ()) w4 = (Inr (), w5)"
    and st: "dk_run dk [''start'', ?n] w5 = (Inr (), w6)" and d: "dk_inspect dk ?n w6 = (Inr d, w7)"
    and ok: "or_chain [jneq (jindex d ''Image'') (JStr digest), bindE (running d) (\<lambda>b. Inr (\<not> b))] = Inr False"
    and rest: "(if service = ''udp'' then wait_udp_ready dk ?n else returnS ()) w7 = (Inr (), w')"
    by (auto simp: bring_up_def Let_def bindS_Inr liftS_def raiseS_def split: if_splits)
  have i2: "ids_of view w2 ?n = Some i"
    using keepsD [OF docker_keeps_ids(2) [OF docker] u] keepsD [OF docker_keeps_ids(3) [OF docker] s] i by simp
  from commitsD [OF docker_commits(7) [OF docker] r] i2 have b3: "ids_of view w3 backup = Some i"
    using apart by (auto simp: renamed_def ids_of_def)
  from commitsD [OF docker_commits(8) [OF docker], of "?n" "rest" w3 w4] c args have "created ?n (view w3) (view w4)" by simp
  with b3 apart have b4: "ids_of view w4 backup = Some i" by (auto simp: created_def ids_of_def)
  have "keeps (ids_of view) (if service = ''apisix'' then dk_run dk [''network'', ''connect'', ''ouf-backend'', ?n] else returnS ())"
    by (intro keeps_intros docker_keeps_ids [OF docker])
  from keepsD [OF this net] b4 have b5: "ids_of view w5 backup = Some i" by simp
  have b7: "ids_of view w7 backup = Some i"
    using keepsD [OF docker_keeps_ids(4) [OF docker] st] keepsD [OF docker_keeps_ids(1) [OF docker] d] b5 by simp
  from docker_inspect(3) [OF docker d] obtain x where "view w6 ?n = Some x" "shows_container d x" by blast
  then have "view w6 ?n = Some x \<and> ct_image x = digest \<and> ct_running x"
    using ok by (auto simp: shows_container_def split: if_splits)
  moreover have "view w7 = view w6" by (rule keepsD [OF docker_inspect(1) [OF docker] d])
  moreover have "keeps view (if service = ''udp'' then wait_udp_ready dk ?n else returnS ())"
    unfolding wait_udp_ready_def by (intro keeps_intros wait_ready_view [OF docker])
  from keepsD [OF this rest] have "view w' = view w7" .
  ultimately show ?thesis using b7 by (auto simp: ids_of_def)
qed

text \<open>The errors that a computation can raise.\<close>

definition raises_only :: "(py_exn \<Rightarrow> bool) \<Rightarrow> ('w, 'a) io \<Rightarrow> bool" where
  "raises_only P m \<longleftrightarrow> (\<forall>w e w'. m w = (Inl e, w') \<longrightarrow> P e)"

lemma raises_only_intros:
  "raises_only P (returnS x)" "P e \<Longrightarrow> raises_only P (raiseS e)" "(\<And>e. r = Inl e \<Longrightarrow> P e) \<Longrightarrow> raises_only P (liftS r)"
  "raises_only P k \<Longrightarrow> (\<And>x. raises_only P (f x)) \<Longrightarrow> raises_only P (bindS k f)"
  "raises_only P m \<Longrightarrow> raises_only P n \<Longrightarrow> raises_only P (if b then m else n)"
  "(v = None \<Longrightarrow> raises_only P m) \<Longrightarrow> (\<And>x. v = Some x \<Longrightarrow> raises_only P (g x))
     \<Longrightarrow> raises_only P (case v of None \<Rightarrow> m | Some x \<Rightarrow> g x)"
  by (auto simp: raises_only_def io_defs bindS_Inl tryS_Inl split: option.splits prod.splits sum.splits)

lemma raises_only_tryS:
  "raises_only Q m \<Longrightarrow> (\<And>e. Q e \<Longrightarrow> raises_only P (h e)) \<Longrightarrow> raises_only P (tryS m h)"
  unfolding raises_only_def tryS_Inl by blast

definition other_error :: "py_exn \<Rightarrow> bool" where
  "other_error e \<longleftrightarrow> e \<noteq> ValueError ''candidate failed; original restored'' \<and> (\<forall>m. e \<noteq> SystemExit m)"

lemma commits_raises: "commits view m eff \<Longrightarrow> raises_only other_error m"
  by (fastforce simp: commits_def raises_only_def other_error_def)

lemma inspect_raises: "faithful_docker dk view \<Longrightarrow> raises_only other_error (dk_inspect dk n)"
  using docker_inspect(2) by (fastforce simp: raises_only_def other_error_def)

lemma json_raises:
  "jindex d k = Inl e \<Longrightarrow> other_error e" "running d = Inl e \<Longrightarrow> other_error e" "jneq (jindex d k) v = Inl e \<Longrightarrow> other_error e"
proof -
  have j: "jindex d k = Inl e \<Longrightarrow> other_error e" for d k
    by (cases d) (auto simp: other_error_def split: option.splits)
  then show "jindex d k = Inl e \<Longrightarrow> other_error e" "jneq (jindex d k) v = Inl e \<Longrightarrow> other_error e"
    by (auto simp: jneq_def bindE_Inl_iff)
  show "running d = Inl e \<Longrightarrow> other_error e"
    using j by (auto simp: running_def bindE_Inl_iff)
qed

lemma try_inspect_raises: "faithful_docker dk view \<Longrightarrow> raises_only other_error (try_inspect dk n)"
  unfolding raises_only_def using try_inspect_shows by fastforce

lemma wait_ready_raises:
  assumes docker: "faithful_docker dk view" and "other_error (ValueError msg)"
  shows "raises_only other_error (wait_ready dk name msg k)"
proof (induction k)
  case (Suc k)
  have "raises_only called_process (dk_run dk (readiness_args name))"
    using docker_commits(1) [OF docker] by (auto simp: commits_def raises_only_def)
  then show ?case
    unfolding wait_ready.simps using Suc assms(2)
    by (intro raises_only_tryS [where Q = called_process]) (simp_all add: raises_only_intros)
qed (simp add: raises_only_intros)

lemma roll_back_raises:
  assumes docker: "faithful_docker dk view"
  shows "raises_only other_error (roll_back dk service old_id backup)"
  unfolding roll_back_split restart_original_def remove_candidate_def rename_back_def wait_udp_ready_def Let_def
  by (intro raises_only_intros try_inspect_raises [OF docker] inspect_raises [OF docker] wait_ready_raises [OF docker]
      commits_raises [OF docker_commits(3) [OF docker]] commits_raises [OF docker_commits(4) [OF docker]]
      commits_raises [OF docker_commits(5) [OF docker]] commits_raises [OF docker_commits(6) [OF docker]]
      commits_raises [OF docker_commits(7) [OF docker]])
    (auto simp: other_error_def dest: json_raises [unfolded other_error_def])

lemma bring_up_raises:
  assumes docker: "faithful_docker dk view" and args: "args = ''create'' # ''--name'' # service_name service # rest"
  shows "raises_only other_error (bring_up dk service backup digest args)"
proof -
  have image: "other_error e" if "or_chain [jneq (jindex d ''Image'') v, bindE (running d) (\<lambda>b. Inr (\<not> b))] = Inl e" for d v e
    using that by (auto simp: bindE_Inl_iff split: if_splits dest: json_raises)
  show ?thesis
    unfolding bring_up_def Let_def args wait_udp_ready_def
    by (intro raises_only_intros inspect_raises [OF docker] wait_ready_raises [OF docker]
        commits_raises [OF docker_commits(2) [OF docker]]
        commits_raises [OF docker_commits(3) [OF docker]] commits_raises [OF docker_commits(4) [OF docker]]
        commits_raises [OF docker_commits(5) [OF docker]] commits_raises [OF docker_commits(7) [OF docker]]
        commits_raises [OF docker_commits(8) [OF docker]])
      ((erule image)?, simp_all add: other_error_def)
qed

definition backup_name :: "string \<Rightarrow> string" where
  "backup_name service = service_name service @ ''-r4a-original''"

lemma backup_apart: "service_name service \<noteq> backup_name service" "backup_name service \<noteq> service_name service"
  by (simp_all add: backup_name_def)

text \<open>Saving the state file touches no container and fails only as a file operation does.\<close>

definition plain_save :: "('w \<Rightarrow> containers) \<Rightarrow> (json \<Rightarrow> ('w, unit) io) \<Rightarrow> bool" where
  "plain_save view save \<longleftrightarrow> (\<forall>d. keeps view (save d)) \<and> (\<forall>d. raises_only (\<lambda>e. \<exists>m. e = OSError m) (save d))"

lemma stage_keeps:
  assumes docker: "faithful_docker dk view" and args: "args = ''create'' # ''--name'' # service_name service # rest"
    and save: "plain_save view save"
  shows "preserves (survives view i (service_name service) (backup_name service)) (stage_service dk save service (JStr i) args digest)"
    and "keeps (others view {service_name service, backup_name service}) (stage_service dk save service (JStr i) args digest)"
proof -
  have undo: "preserves (survives view i (service_name service) (backup_name service)) (roll_back dk service (JStr i) (backup_name service))"
    by (rule preservesI) (use roll_back_outcome [OF docker backup_apart(1)] in blast)
  have sv: "keeps view (save d)" for d using save by (simp add: plain_save_def)
  show "preserves (survives view i (service_name service) (backup_name service)) (stage_service dk save service (JStr i) args digest)"
    unfolding stage_service_def Let_def backup_name_def [symmetric]
    by (intro preserves_intros keeps_ids_survives keeps_view_ids [OF try_inspect_view [OF docker]] keeps_view_ids [OF sv]
        bring_up_survives [OF docker args] undo)
  show "keeps (others view {service_name service, backup_name service}) (stage_service dk save service (JStr i) args digest)"
    unfolding stage_service_def Let_def backup_name_def [symmetric]
    by (intro keeps_intros keeps_view_others [OF try_inspect_view [OF docker]] keeps_view_others [OF sv]
        bring_up_others [OF docker args] roll_back_others [OF docker])
qed

lemma stage_cases:
  assumes docker: "faithful_docker dk view" and args: "args = ''create'' # ''--name'' # service_name service # rest"
    and save: "plain_save view save" and i: "ids_of view w (service_name service) = Some i"
    and run: "stage_service dk save service (JStr i) args digest w = (r, w')"
  shows "(r = Inr () \<longrightarrow> ids_of view w' (backup_name service) = Some i
        \<and> (\<exists>c. view w' (service_name service) = Some c \<and> ct_image c = digest \<and> ct_running c))
     \<and> (r = Inl (ValueError ''candidate failed; original restored'') \<longrightarrow> up_again view i (service_name service) w')
     \<and> (\<forall>e. r = Inl e \<longrightarrow> e = ValueError ''candidate failed; original restored'' \<or> other_error e)"
proof -
  let ?n = "service_name service" and ?b = "backup_name service"
  obtain t w1 where t: "try_inspect dk ?b w = (t, w1)" by (cases "try_inspect dk ?b w")
  from try_inspect_shows [OF docker t] obtain taken where taken: "t = Inr taken" by blast
  have v1: "view w1 = view w" by (rule keepsD [OF try_inspect_view [OF docker] t])
  show ?thesis
  proof (cases taken)
    case (Some d)
    with run t taken show ?thesis
      by (auto simp: stage_service_def Let_def backup_name_def [symmetric] bindS_def raiseS_def other_error_def)
  next
    case None
    let ?st = "state_json \<lparr>rs_service = service, rs_old_id = JStr i, rs_backup = ?b\<rparr>"
    obtain q w2 where q: "save ?st w1 = (q, w2)" by (cases "save ?st w1")
    have v2: "view w2 = view w1" using save q by (auto simp: plain_save_def dest: keepsD)
    show ?thesis
    proof (cases q)
      case (Inl e)
      then have "\<exists>m. e = OSError m" using save q unfolding plain_save_def raises_only_def by blast
      with run t taken None q Inl show ?thesis
        by (auto simp: stage_service_def Let_def backup_name_def [symmetric] bindS_def other_error_def)
    next
      case (Inr u)
      obtain p w3 where p: "bring_up dk service ?b digest args w2 = (p, w3)" by (cases "bring_up dk service ?b digest args w2")
      have i2: "ids_of view w2 ?n = Some i" using i v1 v2 by (simp add: ids_of_def)
      let ?handler = "\<lambda>e. if called_process e \<or> value_error e
          then bindS (roll_back dk service (JStr i) ?b) (\<lambda>_. raiseS (ValueError ''candidate failed; original restored''))
          else raiseS e"
      have rest: "tryS (bring_up dk service ?b digest args) ?handler w2 = (r, w')"
        using run [unfolded stage_service_def Let_def, folded backup_name_def] t taken None q Inr by (simp add: bindS_def)
      show ?thesis
      proof (cases p)
        case (Inr x)
        with rest p have "bring_up dk service ?b digest args w2 = (Inr (), w')" "r = Inr ()" by (simp_all add: tryS_def)
        with bring_up_runs [OF docker args backup_apart(2) i2] show ?thesis by simp
      next
        case (Inl e)
        show ?thesis
        proof (cases "called_process e \<or> value_error e")
          case True
          obtain k w4 where k: "roll_back dk service (JStr i) ?b w3 = (k, w4)" by (cases "roll_back dk service (JStr i) ?b w3")
          have "survives view i ?n ?b w3"
            using preservesD [OF bring_up_survives [OF docker args] p] i2 by (simp add: survives_def)
          from roll_back_outcome [OF docker backup_apart(1) this k] have up: "k = Inr () \<longrightarrow> up_again view i ?n w4" by blast
          have "\<forall>e'. k = Inl e' \<longrightarrow> other_error e'"
            using roll_back_raises [OF docker, of service "JStr i" ?b] k by (auto simp: raises_only_def)
          moreover have "bindS (roll_back dk service (JStr i) ?b)
              (\<lambda>_. raiseS (ValueError ''candidate failed; original restored'')) w3 = (r, w')"
            using rest p Inl True by (simp add: tryS_def)
          ultimately show ?thesis using k up
            by (auto simp: bindS_def raiseS_def other_error_def split: sum.splits)
        next
          case False
          moreover have "other_error e"
            using bring_up_raises [OF docker args] p Inl unfolding raises_only_def by blast
          moreover have "raiseS e w3 = (r, w')" using rest p Inl False by (simp add: tryS_def)
          ultimately show ?thesis by (auto simp: raiseS_def other_error_def)
        qed
      qed
    qed
  qed
qed

section \<open>The script\<close>

lemma json_eq_string: "json_eq (JStr a) v \<longleftrightarrow> v = JStr a"
  by (cases v) (auto simp: json_eq_def)

lemma create_args_shape:
  "create_args join service candidate original host networks img = Inr args
     \<Longrightarrow> \<exists>rest. args = ''create'' # ''--name'' # service_name service # rest"
  by (auto simp: create_args_def Let_def bindE_Inr_iff split: if_splits)

lemma validate_launch_view:
  assumes docker: "faithful_docker dk view"
  shows "keeps view (validate_launch dk join service old candidate b)"
proof -
  have "keeps view (dk_image dk i)" for i using docker by (simp add: faithful_docker_def)
  then show ?thesis
    unfolding validate_launch_def Let_def
    by (auto split: prod.splits intro!: keeps_intros docker_inspect(1) [OF docker])
qed

lemma validate_launch_ok:
  assumes docker: "faithful_docker dk view"
    and run: "validate_launch dk join service old candidate b w = (Inr (args, digest), w')"
  shows "(\<exists>rest. args = ''create'' # ''--name'' # service_name service # rest) \<and> digest = snd (images service)
     \<and> (\<exists>original c. map_of old (service_name service) = Some original \<and> view w (service_name service) = Some c
          \<and> jindex original ''Id'' = Inr (JStr (ct_id c)))"
proof -
  let ?n = "service_name service"
  obtain img dg where im: "images service = (img, dg)" by (cases "images service")
  from run obtain original current w1 host networks where
    o: "map_of old ?n = Some original" and c: "dk_inspect dk ?n w = (Inr current, w1)"
    and same: "is_current current original = Inr True"
    and args: "create_args join service candidate original host networks img = Inr args" and dg: "digest = dg"
    by (auto simp: validate_launch_def Let_def im bindS_Inr liftS_def raiseS_def returnS_def split: if_splits option.splits)
  from docker_inspect(3) [OF docker c] obtain x where x: "view w ?n = Some x" "shows_container current x" by blast
  from same obtain v where "jindex original ''Id'' = Inr v" "json_eq (JStr (ct_id x)) v"
    using x(2) by (auto simp: is_current_def shows_container_def bindE_Inr_iff jneq_def split: if_splits)
  with create_args_shape [OF args] o x(1) dg im show ?thesis by (auto simp: json_eq_string)
qed

text \<open>
  C15. Whatever happens while a service is staged, checks, docker commands and readiness included, the original
  container survives under its own name or the backup name, and no other container changes. A staged
  service runs the reviewed image with the original kept for rollback; a dry run changes nothing; and
  when the script says that the original was restored, the original runs under its name again with its restart policy.
\<close>

theorem original_survives_rollout:
  assumes "faithful_docker dk view" and "plain_save view save" and "mode \<noteq> Rollback"
    and "ids_of view w (service_name service) = Some i"
    and "rollout_main dk loads split join save fs snap candidate service mode w = (r, w')"
  shows "survives view i (service_name service) (backup_name service) w'
     \<and> (\<forall>n. n \<notin> {service_name service, backup_name service} \<longrightarrow> view w' n = view w n)
     \<and> (r = Inr () \<longrightarrow> (if mode = Apply then ids_of view w' (backup_name service) = Some i
          \<and> (\<exists>c. view w' (service_name service) = Some c \<and> ct_image c = snd (images service) \<and> ct_running c)
        else view w' = view w))
     \<and> (r = Inl (SystemExit ''R4A_ROLLOUT_BLOCKED: candidate failed; original restored'')
          \<longrightarrow> view w' = view w \<or> up_again view i (service_name service) w')"
proof -
  let ?n = "service_name service" and ?b = "backup_name service"
  have still: ?thesis if "view w' = view w" "r = Inr () \<longrightarrow> mode \<noteq> Apply"
    using that assms(4) by (auto simp: survives_def ids_of_def)
  show ?thesis
  proof (cases "snapshot_and_candidate loads split fs snap candidate")
    case (Inl e)
    with assms(3,5) have "w' = w" "r = Inl (blocked e)" by (simp_all add: rollout_main_def io_defs)
    with still show ?thesis by simp
  next
    case old: (Inr old)
    obtain v w1 where v: "validate_launch dk join service old candidate (mode = Apply) w = (v, w1)"
      by (cases "validate_launch dk join service old candidate (mode = Apply) w")
    have v1: "view w1 = view w" by (rule keepsD [OF validate_launch_view [OF assms(1)] v])
    show ?thesis
    proof (cases v)
      case (Inl e)
      with assms(3,5) old v have "w' = w1" "r = Inl (blocked e)" by (simp_all add: rollout_main_def io_defs)
      with still v1 show ?thesis by simp
    next
      case (Inr ad)
      obtain args digest where ad: "ad = (args, digest)" by (cases ad)
      from validate_launch_ok [OF assms(1) v [unfolded Inr ad]] v1 assms(4) obtain rest original where
        args: "args = ''create'' # ''--name'' # ?n # rest" and dg: "digest = snd (images service)"
        and o: "map_of old ?n = Some original" "jindex original ''Id'' = Inr (JStr i)"
        by (auto simp: ids_of_def)
      show ?thesis
      proof (cases "fs (candidate @ [''rollout-'' @ service @ ''.json'']) = None \<and> mode = Apply")
        case False
        with assms(3,5) old v Inr ad have "w' = w1 \<and> (r = Inr () \<longrightarrow> mode \<noteq> Apply)"
          by (cases mode) (auto simp: rollout_main_def io_defs split: if_splits)
        with still v1 show ?thesis by simp
      next
        case True
        obtain q w2 where q: "stage_service dk save service (JStr i) args digest w1 = (q, w2)"
          by (cases "stage_service dk save service (JStr i) args digest w1")
        have i1: "ids_of view w1 ?n = Some i" using assms(4) v1 by (simp add: ids_of_def)
        have res: "w' = w2" "r = (case q of Inl e \<Rightarrow> Inl (blocked e) | Inr x \<Rightarrow> Inr x)"
          using assms(5) old v Inr ad True o q by (cases q; auto simp: rollout_main_def io_defs)+
        have "survives view i ?n ?b w2"
          using preservesD [OF stage_keeps(1) [OF assms(1) args assms(2)] q] i1 by (simp add: survives_def)
        moreover have "others view {?n, ?b} w1 = others view {?n, ?b} w"
          using v1 by (intro ext) (simp add: others_def)
        then have "others view {?n, ?b} w2 = others view {?n, ?b} w"
          using keepsD [OF stage_keeps(2) [OF assms(1) args assms(2)] q] by simp
        then have "\<forall>n. n \<notin> {?n, ?b} \<longrightarrow> view w2 n = view w n" unfolding others_def by metis
        moreover have "e = ValueError ''candidate failed; original restored''"
          if "blocked e = SystemExit ''R4A_ROLLOUT_BLOCKED: candidate failed; original restored''" "\<forall>m. e \<noteq> SystemExit m" for e
          using that by (cases e) auto
        moreover note stage_cases [OF assms(1) args assms(2) i1 q]
        ultimately show ?thesis using res dg True
          by (auto simp: other_error_def split: sum.splits)
      qed
    qed
  qed
qed

section \<open>An engine in memory\<close>

text \<open>The contract can be kept: an engine whose containers are a list; a fresh id is longer than every other.\<close>

type_synonym engine = "(string \<times> container) list"

definition engine_set :: "string \<Rightarrow> container \<Rightarrow> engine \<Rightarrow> engine" where
  "engine_set n c w = (n, c) # filter (\<lambda>(m, _). m \<noteq> n) w"

definition engine_remove :: "string \<Rightarrow> engine \<Rightarrow> engine" where
  "engine_remove n w = filter (\<lambda>(m, _). m \<noteq> n) w"

definition engine_change :: "string \<Rightarrow> (container \<Rightarrow> container) \<Rightarrow> engine \<Rightarrow> unit res \<times> engine" where
  "engine_change n f w = (case map_of w n of
     None \<Rightarrow> (Inl (CalledProcessError ''docker''), w) | Some c \<Rightarrow> (Inr (), engine_set n (f c) w))"

definition fresh_id :: "engine \<Rightarrow> string" where
  "fresh_id w = replicate (Suc (sum_list (map (\<lambda>(_, c). length (ct_id c)) w))) (CHR ''f'')"

definition engine_run :: "string \<Rightarrow> string list \<Rightarrow> engine \<Rightarrow> unit res \<times> engine" where
  "engine_run img args w =
     (case args of
        verb # a # rest \<Rightarrow>
          if verb = ''update'' \<and> length rest = 2 then engine_change (rest ! 1) (ct_restart_update (\<lambda>_. rest ! 0)) w
          else if verb = ''stop'' then engine_change a (ct_running_update (\<lambda>_. False)) w
          else if verb = ''start'' then engine_change a (ct_running_update (\<lambda>_. True)) w
          else if verb = ''rm'' then (Inr (), engine_remove a w)
          else if verb = ''rename'' \<and> rest \<noteq> [] then
            (case (map_of w a, map_of w (hd rest)) of
               (Some c, None) \<Rightarrow> (Inr (), engine_remove a (engine_set (hd rest) c w))
             | _ \<Rightarrow> (Inl (CalledProcessError ''docker''), w))
          else if verb = ''create'' \<and> rest \<noteq> [] then
            (if map_of w (hd rest) \<noteq> None then (Inl (CalledProcessError ''docker''), w)
             else (Inr (), engine_set (hd rest) \<lparr>ct_id = fresh_id w, ct_image = img, ct_running = False, ct_restart = ''no''\<rparr> w))
          else (Inr (), w)
      | _ \<Rightarrow> (Inr (), w))"

definition container_json :: "container \<Rightarrow> json" where
  "container_json c = JObj [(''Id'', JStr (ct_id c)), (''Image'', JStr (ct_image c)),
     (''State'', JObj [(''Running'', JBool (ct_running c))])]"

definition memory_docker :: "string \<Rightarrow> json \<Rightarrow> engine docker" where
  "memory_docker img info = \<lparr>dk_run = engine_run img,
     dk_inspect = (\<lambda>n w. (case map_of w n of None \<Rightarrow> Inl (CalledProcessError ''inspect'') | Some c \<Rightarrow> Inr (container_json c), w)),
     dk_image = (\<lambda>_. returnS info)\<rparr>"

lemma map_of_engine_remove: "map_of (engine_remove n w) = (map_of w)(n := None)"
  by (induction w) (auto simp: engine_remove_def fun_eq_iff)

lemma map_of_engine_set: "map_of (engine_set n c w) = (map_of w)(n \<mapsto> c)"
  using map_of_engine_remove [of n w] by (simp add: engine_set_def engine_remove_def fun_eq_iff)

lemma fresh_id_new:
  assumes "map_of w m = Some d"
  shows "ct_id d \<noteq> fresh_id w"
proof -
  have "length (ct_id d) \<le> sum_list (map (\<lambda>(_, c). length (ct_id c)) w)"
    using map_of_SomeD [OF assms] by (induction w) auto
  then show ?thesis unfolding fresh_id_def by (metis Suc_n_not_le_n length_replicate)
qed

lemma memory_docker_faithful: "faithful_docker (memory_docker img info) map_of"
proof -
  have change: "commits map_of (engine_change n f) (with_container n f)" for n f
    by (auto simp: commits_def engine_change_def with_container_def map_of_engine_set split: option.splits)
  have "commits map_of (engine_run img [''rm'', n]) (\<lambda>v v'. v' = v(n := None))" for n
    by (auto simp: commits_def engine_run_def map_of_engine_remove)
  moreover have "commits map_of (engine_run img [''rename'', a, b]) (renamed a b)" for a b
    by (auto simp: commits_def engine_run_def renamed_def map_of_engine_set map_of_engine_remove split: option.splits)
  moreover have "commits map_of (engine_run img (''create'' # ''--name'' # n # rest)) (created n)" for n rest
  proof -
    have "created n (map_of w) ((map_of w)(n \<mapsto> \<lparr>ct_id = fresh_id w, ct_image = img, ct_running = False, ct_restart = ''no''\<rparr>))"
      if "map_of w n = None" for w
      using that fresh_id_new [of w] unfolding created_def
      by (intro exI [of _ "\<lparr>ct_id = fresh_id w, ct_image = img, ct_running = False, ct_restart = ''no''\<rparr>"]) auto
    then show ?thesis by (auto simp: commits_def engine_run_def map_of_engine_set)
  qed
  moreover have "commits map_of (engine_run img (readiness_args n)) (\<lambda>v v'. v' = v)" for n
    by (auto simp: commits_def engine_run_def readiness_args_def)
  moreover have "commits map_of (engine_run img [''network'', ''connect'', net, n]) (\<lambda>v v'. v' = v)" for net n
    by (auto simp: commits_def engine_run_def)
  moreover have "engine_run img [''update'', ''--restart'', p, n] = engine_change n (ct_restart_update (\<lambda>_. p))"
    "engine_run img [''stop'', n] = engine_change n (ct_running_update (\<lambda>_. False))"
    "engine_run img [''start'', n] = engine_change n (ct_running_update (\<lambda>_. True))" for p n
    by (auto simp: engine_run_def)
  ultimately show ?thesis
    by (auto simp: faithful_docker_def memory_docker_def change shows_container_def container_json_def running_def
        intro: keeps_intros split: option.splits)
qed

definition reviewed_key :: string where
  "reviewed_key = replicate 64 (CHR ''a'')"

definition sample_udp_env :: "(string \<times> string) list" where
  "sample_udp_env = [(''OUF_UDP_SEARCH_TENANT_ID'', ''t''), (''OUF_UDP_SEARCH_ISSUER'', ''i''), (''OUF_UDP_SEARCH_AUDIENCE'', ''a''),
     (''OUF_UDP_SEARCH_WORKLOAD'', ''w''), (''OUF_UDP_SEARCH_OWNER_KEY_FILE'', ''/run/secrets/udp-search-owner.key''),
     (''OUF_AUTHORIZATION_REGISTRY_URL'', ''u''), (''OUF_AUTHORIZATION_REGISTRY_TOKEN_FILE'', ''/run/ouf-udp-auth/token''),
     (''OUF_AUTHORIZATION_REFRESH_SECONDS'', ''30''), (''OUF_AUTHORIZATION_MAX_STALENESS_SECONDS'', ''300'')]"

definition sample_apisix_env :: "(string \<times> string) list" where
  "sample_apisix_env = [(''OUF_UDP_SEARCH_OWNER_KEY'', reviewed_key)]"

definition sample_udp :: json where
  "sample_udp = JObj [(''Name'', JStr ''/ouf-udp''), (''Id'', JStr ''o''), (''Mounts'', JList []),
     (''Config'', JObj [(''Env'', JList []), (''User'', JStr ''10004:10004'')]),
     (''HostConfig'', JObj [(''Memory'', JInt 2147483648), (''MemorySwap'', JInt 4294967296), (''NetworkMode'', JStr ''ouf-backend''),
        (''RestartPolicy'', JObj [(''Name'', JStr ''unless-stopped'')]), (''ShmSize'', JInt 1),
        (''LogConfig'', JObj [(''Type'', JStr ''json-file'')]), (''IpcMode'', JStr ''private'')]),
     (''NetworkSettings'', JObj [(''Networks'', JObj [(''ouf-backend'', JObj [])])])]"

definition sample_apisix :: json where
  "sample_apisix = JObj [(''Name'', JStr ''/ouf-apisix''), (''Id'', JStr ''x''), (''Config'', JObj [(''Env'', JList [])]),
     (''Mounts'', JList [JObj [(''Destination'', JStr ''/usr/local/apisix/conf/config.yaml''), (''RW'', JBool False),
        (''Source'', JStr ''/conf'')]])]"

definition sample_files :: files where
  "sample_files = map_of (map (\<lambda>(p, u, m, d, t). (p, \<lparr>fi_uid = fst u, fi_gid = snd u, fi_mode = m, fi_symlink = False, fi_dir = d, fi_text = t\<rparr>))
     [([''s''], (0, 0), 448, True, []), ([''s'', ''snap''], (0, 0), 384, False, []), ([''s'', ''candidate-1''], (0, 0), 448, True, []),
      ([''s'', ''candidate-1'', ''udp.env''], (0, 0), 384, False, env_text sample_udp_env),
      ([''s'', ''candidate-1'', ''apisix.env''], (0, 0), 384, False, env_text sample_apisix_env),
      ([''run'', ''ouf-udp-auth''], (0, 10004), 488, True, []), ([''run'', ''ouf-udp-auth'', ''token''], (0, 10004), 288, False, ''t''),
      ([''s'', ''candidate-1'', ''udp-search-owner.key''], (10004, 10004), 256, False, reviewed_key),
      ([''conf''], (0, 0), 384, False, yaml_marker),
      ([''s'', ''candidate-1'', ''apisix-config.yaml''], (0, 0), 384, False,
        yaml_marker @ ''  - OUF_UDP_SEARCH_OWNER_KEY'' @ [CHR 0x0A])])"

text \<open>Lines of an environment file without line breaks inside.\<close>

definition plain_line :: "string \<Rightarrow> bool" where
  "plain_line s \<longleftrightarrow> set s \<inter> {CHR 0x0A, CHR 0x0B, CHR 0x0C, CHR 0x0D, CHR 0x1C, CHR 0x1D, CHR 0x1E, CHR 0x85} = {}"

lemma text_lines_line: "plain_line l \<Longrightarrow> text_lines (l @ CHR 0x0A # rest) = l # text_lines rest"
  by (induction l) (auto simp: plain_line_def)

lemma text_lines_env:
  "list_all (\<lambda>(k, v). plain_line k \<and> plain_line v) kvs \<Longrightarrow> text_lines (env_text kvs) = map (\<lambda>(k, v). k @ ''='' @ v) kvs"
proof (induction kvs)
  case Nil
  then show ?case by (simp add: env_text_def)
next
  case (Cons kv kvs)
  obtain k v where kv: "kv = (k, v)" by (cases kv)
  with Cons have "plain_line (k @ ''='' @ v)" by (auto simp: plain_line_def)
  from text_lines_line [OF this, of "env_text kvs"] Cons kv show ?case by (simp add: env_text_def)
qed

lemma env_map_env:
  assumes "list_all (\<lambda>(k, v). env_name k \<and> CHR 0x0A \<notin> set v \<and> CHR 0x0D \<notin> set v) kvs" and "distinct (map fst kvs)"
  shows "env_map (map (\<lambda>(k, v). k @ ''='' @ v) kvs) = Inr kvs"
proof -
  let ?f = "\<lambda>x out. let name = takeWhile (\<lambda>c. c \<noteq> CHR ''='') x; value = tl (dropWhile (\<lambda>c. c \<noteq> CHR ''='') x)
     in if CHR ''='' \<notin> set x \<or> \<not> env_name name \<or> name \<in> set (dict_keys out) \<or> CHR 0x0A \<in> set value \<or> CHR 0x0D \<in> set value
        then Inl (ValueError ''invalid environment format'') else Inr (out @ [(name, value)])"
  have eq: "CHR ''='' \<notin> set k" if "env_name k" for k
    using that by (auto simp: env_name_def list_all_iff is_alpha_def is_digit_def)
  have step: "?f (k @ CHR ''='' # v) out = Inr (out @ [(k, v)])"
    if "env_name k" "CHR 0x0A \<notin> set v" "CHR 0x0D \<notin> set v" "k \<notin> set (dict_keys out)" for k v out
  proof -
    have "\<forall>x \<in> set k. x \<noteq> CHR ''=''" using eq [OF that(1)] by metis
    then have "takeWhile (\<lambda>c. c \<noteq> CHR ''='') (k @ CHR ''='' # v) = k" "dropWhile (\<lambda>c. c \<noteq> CHR ''='') (k @ CHR ''='' # v) = CHR ''='' # v"
      by (simp_all add: takeWhile_append2 dropWhile_append2)
    with that show ?thesis by simp
  qed
  have "foldE ?f (map (\<lambda>(k, v). k @ ''='' @ v) kvs) out = Inr (out @ kvs)"
    if "list_all (\<lambda>(k, v). env_name k \<and> CHR 0x0A \<notin> set v \<and> CHR 0x0D \<notin> set v) kvs" "distinct (map fst (out @ kvs))" for out kvs
    using that
  proof (induction kvs arbitrary: out)
    case Nil
    then show ?case by simp
  next
    case (Cons kv kvs)
    obtain k v where kv: "kv = (k, v)" by (cases kv)
    have "?f (k @ CHR ''='' # v) out = Inr (out @ [(k, v)])"
      using Cons.prems kv by (intro step) (auto simp: dict_keys_def)
    moreover have "foldE ?f (map (\<lambda>(k, v). k @ ''='' @ v) kvs) (out @ [(k, v)]) = Inr ((out @ [(k, v)]) @ kvs)"
      using Cons.prems kv by (intro Cons.IH) auto
    ultimately show ?case using kv by simp
  qed
  from this [of kvs "[]"] assms show ?thesis by (simp add: env_map_def)
qed

lemma sample_env_read:
  "env_map (text_lines (env_text sample_udp_env)) = Inr sample_udp_env"
  "env_map (text_lines (env_text sample_apisix_env)) = Inr sample_apisix_env"
proof -
  have "list_all (\<lambda>(k, v). plain_line k \<and> plain_line v) sample_udp_env"
    "list_all (\<lambda>(k, v). env_name k \<and> CHR 0x0A \<notin> set v \<and> CHR 0x0D \<notin> set v) sample_udp_env" "distinct (map fst sample_udp_env)"
    by (simp_all add: sample_udp_env_def plain_line_def env_name_def is_alpha_def is_digit_def)
  then show "env_map (text_lines (env_text sample_udp_env)) = Inr sample_udp_env"
    by (simp only: text_lines_env env_map_env)
  have "list_all (\<lambda>(k, v). plain_line k \<and> plain_line v) sample_apisix_env"
    "list_all (\<lambda>(k, v). env_name k \<and> CHR 0x0A \<notin> set v \<and> CHR 0x0D \<notin> set v) sample_apisix_env" "distinct (map fst sample_apisix_env)"
    by (simp_all add: sample_apisix_env_def reviewed_key_def plain_line_def env_name_def is_alpha_def is_digit_def)
  then show "env_map (text_lines (env_text sample_apisix_env)) = Inr sample_apisix_env"
    by (simp only: text_lines_env env_map_env)
qed

lemma env_text_ends: "kvs \<noteq> [] \<Longrightarrow> ends_with (env_text kvs) [CHR 0x0A]"
proof (induction kvs rule: rev_induct)
  case (snoc kv kvs)
  obtain k v where "kv = (k, v)" by (cases kv)
  then show ?case by (simp add: env_text_def ends_with_def suffix_def)
qed simp

lemma sample_snapshot:
  "snapshot_and_candidate (\<lambda>_. Inr (JList [sample_udp, sample_apisix])) (\<lambda>_. [''conf'']) sample_files [''s'', ''snap''] [''s'', ''candidate-1'']
     = Inr [(''ouf-udp'', sample_udp), (''ouf-apisix'', sample_apisix)]"
proof -
  let ?c = "[''s'', ''candidate-1'']"
  have files: "sample_files [''s''] = Some \<lparr>fi_uid = 0, fi_gid = 0, fi_mode = 448, fi_symlink = False, fi_dir = True, fi_text = []\<rparr>"
    "sample_files [''s'', ''snap''] = Some \<lparr>fi_uid = 0, fi_gid = 0, fi_mode = 384, fi_symlink = False, fi_dir = False, fi_text = []\<rparr>"
    "sample_files ?c = Some \<lparr>fi_uid = 0, fi_gid = 0, fi_mode = 448, fi_symlink = False, fi_dir = True, fi_text = []\<rparr>"
    "sample_files [''s'', ''candidate-1'', ''udp.env''] = Some \<lparr>fi_uid = 0, fi_gid = 0, fi_mode = 384, fi_symlink = False, fi_dir = False, fi_text = env_text sample_udp_env\<rparr>"
    "sample_files [''s'', ''candidate-1'', ''apisix.env''] = Some \<lparr>fi_uid = 0, fi_gid = 0, fi_mode = 384, fi_symlink = False, fi_dir = False, fi_text = env_text sample_apisix_env\<rparr>"
    "sample_files [''run'', ''ouf-udp-auth''] = Some \<lparr>fi_uid = 0, fi_gid = 10004, fi_mode = 488, fi_symlink = False, fi_dir = True, fi_text = []\<rparr>"
    "sample_files [''run'', ''ouf-udp-auth'', ''token''] = Some \<lparr>fi_uid = 0, fi_gid = 10004, fi_mode = 288, fi_symlink = False, fi_dir = False, fi_text = ''t''\<rparr>"
    "sample_files [''s'', ''candidate-1'', ''udp-search-owner.key''] = Some \<lparr>fi_uid = 10004, fi_gid = 10004, fi_mode = 256, fi_symlink = False, fi_dir = False, fi_text = reviewed_key\<rparr>"
    "sample_files [''conf''] = Some \<lparr>fi_uid = 0, fi_gid = 0, fi_mode = 384, fi_symlink = False, fi_dir = False, fi_text = yaml_marker\<rparr>"
    "sample_files [''s'', ''candidate-1'', ''apisix-config.yaml''] = Some \<lparr>fi_uid = 0, fi_gid = 0, fi_mode = 384, fi_symlink = False, fi_dir = False,
        fi_text = yaml_marker @ ''  - OUF_UDP_SEARCH_OWNER_KEY'' @ [CHR 0x0A]\<rparr>"
    by (simp_all add: sample_files_def)
  have udp: "env_extends (env_additions ''udp'') [] sample_udp_env" "udp_env_ok sample_udp_env = Inr ()"
    by (auto simp: env_extends_def env_additions_def sample_udp_env_def dict_keys_def udp_env_ok_def)
  have api: "env_extends (env_additions ''apisix'') [] sample_apisix_env"
    by (auto simp: env_extends_def env_additions_def sample_apisix_env_def dict_keys_def)
  have "env_map [] = Inr []" by (simp add: env_map_def)
  moreover have "sample_udp_env \<noteq> []" "sample_apisix_env \<noteq> []" by (simp_all add: sample_udp_env_def sample_apisix_env_def)
  ultimately have checked_env: "check_env sample_files ?c (''udp'', sample_udp) = Inr ()" "check_env sample_files ?c (''apisix'', sample_apisix) = Inr ()"
    using udp api by (simp_all add: check_env_def private_file_def stat_of_def has_mode_def files sample_env_read env_text_ends
      sample_udp_def sample_apisix_def string_list_def)
  have checked_token: "check_token sample_files = Inr ()"
    by (simp add: check_token_def token_dir_def files stat_of_def has_mode_def)
  have "strip reviewed_key = reviewed_key" "low_hex reviewed_key"
    by (simp_all add: reviewed_key_def strip_def is_space_def low_hex_def list_all_iff)
  then have checked_key: "check_key sample_files ?c = Inr ()"
    by (simp add: check_key_def private_file_def stat_of_def has_mode_def files sample_env_read Let_def)
      (simp add: sample_apisix_env_def)
  have yaml: "yaml_extended yaml_marker (yaml_marker @ ''  - OUF_UDP_SEARCH_OWNER_KEY'' @ [CHR 0x0A])"
  proof -
    have "count_sub yaml_marker yaml_marker = 1"
    proof -
      have "yaml_marker \<noteq> []" by (simp add: yaml_marker_def)
      then show ?thesis by (simp add: count_sub.simps [of yaml_marker yaml_marker] count_sub.simps [of yaml_marker "[]"])
    qed
    moreover have "\<not> contains yaml_marker ''OUF_UDP_SEARCH_OWNER_KEY''"
      by (simp add: yaml_marker_def)
    moreover have "replace_first yaml_marker q yaml_marker = q" for q
      by (simp add: yaml_marker_def)
    ultimately show ?thesis by (simp add: yaml_extended_def)
  qed
  have checked_yaml: "check_yaml sample_files (\<lambda>_. [''conf'']) ?c sample_apisix = Inr ()"
    using yaml by (simp add: check_yaml_def sample_apisix_def stat_of_def files has_mode_def field_set_def Let_def)
  have "by_name (JList [sample_udp, sample_apisix]) = Inr [(''ouf-udp'', sample_udp), (''ouf-apisix'', sample_apisix)]"
    by (simp add: by_name_def sample_udp_def sample_apisix_def)
  then show ?thesis
    by (simp add: snapshot_and_candidate_def private_file_def stat_of_def files has_mode_def starts_with_def
        checked_env checked_token checked_key checked_yaml dict_keys_def)
qed

definition sample_image :: json where
  "sample_image = JObj [(''Id'', JStr (snd (images ''udp''))), (''Config'', JObj [(''User'', JStr ''10004:10004'')])]"

definition sample_engine :: engine where
  "sample_engine = [(''ouf-udp'', \<lparr>ct_id = ''o'', ct_image = ''before'', ct_running = True, ct_restart = ''unless-stopped''\<rparr>)]"

text \<open>The engine stages another image than the reviewed one: the rollout is rolled back.\<close>

theorem original_survives_rollout_witness:
  "\<exists>w'. rollout_main (memory_docker ''other'' sample_image) (\<lambda>_. Inr (JList [sample_udp, sample_apisix])) (\<lambda>_. [''conf''])
       (concat) (\<lambda>_. returnS ()) sample_files [''s'', ''snap''] [''s'', ''candidate-1''] ''udp'' Apply sample_engine
       = (Inl (SystemExit ''R4A_ROLLOUT_BLOCKED: candidate failed; original restored''), w')
     \<and> survives map_of ''o'' ''ouf-udp'' ''ouf-udp-r4a-original'' w'"
proof -
  let ?dk = "memory_docker ''other'' sample_image"
  have none: "sample_files ([''s'', ''candidate-1''] @ [''rollout-'' @ ''udp'' @ ''.json'']) = None"
    by (simp add: sample_files_def)
  let ?host = "JObj [(''Memory'', JInt 2147483648), (''MemorySwap'', JInt 4294967296), (''NetworkMode'', JStr ''ouf-backend''),
      (''RestartPolicy'', JObj [(''Name'', JStr ''unless-stopped'')]), (''ShmSize'', JInt 1),
      (''LogConfig'', JObj [(''Type'', JStr ''json-file'')]), (''IpcMode'', JStr ''private'')]"
  let ?nets = "JObj [(''ouf-backend'', JObj [])]"
  have fields: "jindex sample_udp ''HostConfig'' = Inr ?host" "bindE (jindex sample_udp ''NetworkSettings'') (\<lambda>n. jindex n ''Networks'') = Inr ?nets"
    "jindex sample_udp ''Id'' = Inr (JStr ''o'')"
    by (simp_all add: sample_udp_def)
  have user: "config_user sample_udp = Inr (JStr ''10004:10004'')" by (simp add: config_user_def sample_udp_def)
  have baseline: "baseline_differs ''udp'' sample_udp ?host ?nets = Inr False"
    using user by (simp add: baseline_differs_def names_differ_def jset_def field_set_def jneq_def) (simp add: sample_udp_def)
  have supported: "launch_unsupported ?host ?nets = Inr False"
    by (simp add: launch_unsupported_def unsupported_options_def field_set_def log_config_def jneq_def json_eq_def)
  have img: "candidate_image sample_image sample_udp (snd (images ''udp'')) = Inr ()"
    by (simp add: candidate_image_def sample_image_def sample_udp_def default_differs_def field_set_def jneq_def)
  obtain args where create: "create_args concat ''udp'' [''s'', ''candidate-1''] sample_udp ?host ?nets (fst (images ''udp'')) = Inr args"
    using user fields(3) by (simp add: create_args_def aliases_of_def)
  from create_args_shape [OF create] obtain rest where args: "args = ''create'' # ''--name'' # ''ouf-udp'' # rest"
    by (auto simp: service_name_def)
  have launch: "validate_launch ?dk concat ''udp'' [(''ouf-udp'', sample_udp), (''ouf-apisix'', sample_apisix)] [''s'', ''candidate-1''] True sample_engine
      = (Inr (args, snd (images ''udp'')), sample_engine)"
  proof -
    have "dk_inspect ?dk ''ouf-udp'' sample_engine = (Inr (container_json (snd (hd sample_engine))), sample_engine)"
      by (simp add: memory_docker_def sample_engine_def)
    moreover have "is_current (container_json (snd (hd sample_engine))) sample_udp = Inr True"
      using fields(3) by (simp add: is_current_def container_json_def sample_engine_def running_def)
    moreover have "dk_image ?dk i sample_engine = (Inr sample_image, sample_engine)" for i
      by (simp add: memory_docker_def returnS_def)
    ultimately show ?thesis
      using fields baseline supported img create
      by (simp add: validate_launch_def Let_def service_name_def split_beta bindS_def liftS_def returnS_def)
  qed
  obtain w' where stage: "stage_service ?dk (\<lambda>_. returnS ()) ''udp'' (JStr ''o'') args (snd (images ''udp'')) sample_engine
      = (Inl (ValueError ''candidate failed; original restored''), w')"
  proof -
    let ?old = "\<lambda>run mode. \<lparr>ct_id = ''o'', ct_image = ''before'', ct_running = run, ct_restart = mode\<rparr>"
    let ?new = "\<lambda>run mode. \<lparr>ct_id = ''ff'', ct_image = ''other'', ct_running = run, ct_restart = mode\<rparr>"
    have up: "bring_up ?dk ''udp'' ''ouf-udp-r4a-original'' (snd (images ''udp'')) args sample_engine
        = (Inl (ValueError ''candidate exited or has wrong image''),
           [(''ouf-udp'', ?new True ''no''), (''ouf-udp-r4a-original'', ?old False ''no'')])"
      by (simp add: bring_up_def service_name_def args set_restart_def memory_docker_def engine_run_def engine_change_def
          engine_set_def engine_remove_def sample_engine_def fresh_id_def container_json_def running_def images_def io_defs Let_def)
    have down: "\<exists>w'. roll_back ?dk ''udp'' (JStr ''o'') ''ouf-udp-r4a-original''
        [(''ouf-udp'', ?new True ''no''), (''ouf-udp-r4a-original'', ?old False ''no'')] = (Inr (), w')"
      by (simp add: roll_back_def try_inspect_def remove_candidate_def rename_back_def wait_udp_ready_def numeral_eq_Suc
          readiness_args_def service_name_def set_restart_def memory_docker_def engine_run_def engine_change_def
          engine_set_def engine_remove_def container_json_def running_def io_defs Let_def)
    have absent: "try_inspect ?dk ''ouf-udp-r4a-original'' sample_engine = (Inr None, sample_engine)"
      by (simp add: try_inspect_def memory_docker_def sample_engine_def io_defs)
    from down obtain w' where w': "roll_back ?dk ''udp'' (JStr ''o'') ''ouf-udp-r4a-original''
        [(''ouf-udp'', ?new True ''no''), (''ouf-udp-r4a-original'', ?old False ''no'')] = (Inr (), w')" by blast
    have "stage_service ?dk (\<lambda>_. returnS ()) ''udp'' (JStr ''o'') args (snd (images ''udp'')) sample_engine
        = (Inl (ValueError ''candidate failed; original restored''), w')"
      using absent up w' by (simp add: stage_service_def service_name_def bindS_def tryS_def returnS_def raiseS_def Let_def)
    then show thesis by (rule that)
  qed
  have run: "rollout_main ?dk (\<lambda>_. Inr (JList [sample_udp, sample_apisix])) (\<lambda>_. [''conf''])
       concat (\<lambda>_. returnS ()) sample_files [''s'', ''snap''] [''s'', ''candidate-1''] ''udp'' Apply sample_engine
       = (Inl (SystemExit ''R4A_ROLLOUT_BLOCKED: candidate failed; original restored''), w')"
    using none launch stage fields(3)
    by (simp add: rollout_main_def sample_snapshot service_name_def bindS_def liftS_def tryS_def raiseS_def)
  have save: "plain_save map_of (\<lambda>_. returnS () :: engine \<Rightarrow> unit res \<times> engine)"
    by (simp add: plain_save_def keeps_intros raises_only_intros)
  have i: "ids_of map_of sample_engine (service_name ''udp'') = Some ''o''"
    by (simp add: ids_of_def sample_engine_def service_name_def)
  from original_survives_rollout [OF memory_docker_faithful save _ i run] show ?thesis
    using run by (auto simp: service_name_def backup_name_def)
qed

end
