(* ===== verification/Retrofit.thy ===== *)
theory Retrofit
  imports Rollout
begin

text \<open>
  The UDP Authorization retrofit, \<open>ops/udp/rollout_authorization_retrofit.py\<close>: the prepared candidate is checked
  against the live container, which is then replaced, or the replacement is undone. Docker and files
  are those of the staged rollout; parsing a file as JSON is a parameter.
\<close>

definition retrofit_keys :: "string set" where
  "retrofit_keys = {''OUF_AUTHORIZATION_REGISTRY_URL'', ''OUF_AUTHORIZATION_REGISTRY_TOKEN_FILE'',
     ''OUF_AUTHORIZATION_REFRESH_SECONDS'', ''OUF_AUTHORIZATION_MAX_STALENESS_SECONDS''}"

definition retrofit_env_map :: "string list \<Rightarrow> (string, string) dict res" where
  "retrofit_env_map items = foldE (\<lambda>x out.
     let name = takeWhile (\<lambda>c. c \<noteq> CHR ''='') x; value = tl (dropWhile (\<lambda>c. c \<noteq> CHR ''='') x)
     in if CHR ''='' \<notin> set x \<or> name \<in> set (dict_keys out) then Inl (ValueError ''invalid env'')
        else Inr (out @ [(name, value)])) items []"

definition retrofit_ready :: "'w docker \<Rightarrow> string \<Rightarrow> ('w, unit) io" where
  "retrofit_ready dk name = wait_ready dk name ''UDP readiness failed'' 20"

section \<open>The candidate\<close>

definition read_json :: "(string \<Rightarrow> json res) \<Rightarrow> files \<Rightarrow> path \<Rightarrow> json res" where
  "read_json loads fs p = bindE (stat_of fs p) (\<lambda>f. loads (fi_text f))"

definition retrofit_env_ok :: "(string, string) dict \<Rightarrow> (string, string) dict \<Rightarrow> unit res" where
  "retrofit_env_ok previous env =
     (if \<not> env_extends retrofit_keys previous env
      then Inl (ValueError ''candidate changes more than Authorization environment'')
      else if map_of env ''OUF_AUTHORIZATION_REGISTRY_TOKEN_FILE'' \<noteq> Some ''/run/ouf-udp-auth/token''
      then Inl (ValueError ''unexpected token target'')
      else if map_of env ''OUF_AUTHORIZATION_REFRESH_SECONDS'' \<noteq> Some ''30''
        \<or> map_of env ''OUF_AUTHORIZATION_MAX_STALENESS_SECONDS'' \<noteq> Some ''300''
      then Inl (ValueError ''unexpected refresh bounds'') else Inr ())"

definition owner_key_mounts :: "json \<Rightarrow> json list res" where
  "owner_key_mounts old = bindE (jget old ''Mounts'' (JList [])) (\<lambda>v. bindE (jelements v) (filterE (\<lambda>m.
     bindE (jget m ''Destination'' JNull) (\<lambda>d. Inr (json_eq d (JStr ''/run/secrets/udp-search-owner.key''))))))"

definition retrofit_launch_ok :: "json \<Rightarrow> json \<Rightarrow> (json \<times> json) res" where
  "retrofit_launch_ok old meta =
     bindE (jindex old ''HostConfig'') (\<lambda>host.
     bindE (bindE (jindex old ''NetworkSettings'') (\<lambda>n. jindex n ''Networks'')) (\<lambda>nets.
     bindE (or_chain [names_differ nets {''ouf-backend''}, jneq (config_user old) (JStr ''10004:10004'')]) (\<lambda>bad.
     if bad then Inl (ValueError ''unexpected UDP network/user'')
     else bindE (or_chain [jneq (jindex host ''NetworkMode'') (JStr ''ouf-backend''),
         jneq (bindE (jindex host ''RestartPolicy'') (\<lambda>p. jindex p ''Name'')) (JStr ''unless-stopped'')]) (\<lambda>bad.
       if bad then Inl (ValueError ''unexpected UDP launch'')
       else bindE (owner_key_mounts old) (\<lambda>key.
         bindE (if length key \<noteq> 1 then Inr True
           else or_chain [bindE (jindex (hd key) ''RW'') (\<lambda>v. Inr (v \<noteq> JBool False)),
             bindE (jindex meta ''search_key_source'') (\<lambda>s. jneq (jindex (hd key) ''Source'') s)]) (\<lambda>bad.
         if bad then Inl (ValueError ''unexpected search key mount'') else Inr (host, nets)))))))"

definition retrofit_validate ::
  "'w docker \<Rightarrow> (string \<Rightarrow> json res) \<Rightarrow> files \<Rightarrow> path \<Rightarrow> ('w, json \<times> json \<times> json \<times> json) io" where
  "retrofit_validate dk loads fs candidate =
     bindS (liftS (stat_of fs candidate)) (\<lambda>st.
     if fi_uid st \<noteq> 0 \<or> fi_mode st \<noteq> 448 then raiseS (ValueError ''candidate metadata'')
     else bindS (liftS (read_json loads fs (candidate @ [''udp.inspect.json'']))) (\<lambda>old.
       bindS (liftS (read_json loads fs (candidate @ [''meta.json'']))) (\<lambda>meta.
       bindS (liftS (bindE (stat_of fs (candidate @ [''udp.env''])) (\<lambda>f. retrofit_env_map (text_lines (fi_text f))))) (\<lambda>env.
       bindS (liftS (bindE (bindE (jindex old ''Config'') (\<lambda>c. bindE (jindex c ''Env'') string_list)) retrofit_env_map)) (\<lambda>previous.
       bindS (liftS (retrofit_env_ok previous env)) (\<lambda>_.
       bindS (dk_inspect dk ''ouf-udp'') (\<lambda>live.
       bindS (liftS (or_chain [bindE (jindex meta ''old_id'') (\<lambda>i. jneq (jindex live ''Id'') i),
         bindE (jindex old ''Id'') (\<lambda>i. jneq (jindex live ''Id'') i), bindE (running live) (\<lambda>b. Inr (\<not> b))])) (\<lambda>changed.
       if changed then raiseS (ValueError ''live UDP changed since preparation'')
       else bindS (liftS (retrofit_launch_ok old meta)) (\<lambda>(host, nets). returnS (old, meta, host, nets))))))))))"

definition memory_args :: "json \<Rightarrow> string list res" where
  "memory_args host =
     bindE (jget host ''Memory'' JNull) (\<lambda>m. bindE (if json_truthy m then bindE (number_text m) (\<lambda>t. Inr [''--memory'', t]) else Inr []) (\<lambda>a.
     bindE (jget host ''MemorySwap'' JNull) (\<lambda>s. bindE (if json_truthy s then bindE (number_text s) (\<lambda>t. Inr [''--memory-swap'', t]) else Inr []) (\<lambda>b.
     Inr (a @ b)))))"

definition retrofit_args :: "(path \<Rightarrow> string) \<Rightarrow> json \<Rightarrow> json \<Rightarrow> json \<Rightarrow> json \<Rightarrow> path \<Rightarrow> string list res" where
  "retrofit_args join old meta host nets candidate =
     bindE (bindE (config_user old) field_text) (\<lambda>user. bindE (bindE (jindex host ''NetworkMode'') field_text) (\<lambda>net.
     bindE (bindE (jindex host ''ShmSize'') number_text) (\<lambda>shm. bindE (memory_args host) (\<lambda>mem.
     bindE (bindE (jindex meta ''search_key_source'') field_text) (\<lambda>source.
     bindE (aliases_of nets (JStr ''ouf-backend'') ''ouf-udp'' old) (\<lambda>aliases.
     bindE (bindE (jindex meta ''image_id'') field_text) (\<lambda>img.
     Inr ([''create'', ''--name'', ''ouf-udp'', ''--pull'', ''never'', ''--user'', user, ''--restart'', ''unless-stopped'',
         ''--network'', net, ''--shm-size'', shm, ''--log-driver'', ''json-file'', ''--env-file'', join (candidate @ [''udp.env''])]
       @ mem @ mount_arg source ''/run/secrets/udp-search-owner.key'' @ mount_arg ''/run/ouf-udp-auth'' ''/run/ouf-udp-auth''
       @ concat (map (\<lambda>a. [''--network-alias'', a]) aliases) @ [img]))))))))"

section \<open>Replacing the container\<close>

definition retrofit_bring_up :: "'w docker \<Rightarrow> string \<Rightarrow> json \<Rightarrow> string list \<Rightarrow> ('w, unit) io" where
  "retrofit_bring_up dk backup meta args =
     bindS (set_restart dk ''no'' ''ouf-udp'') (\<lambda>_.
     bindS (dk_run dk [''stop'', ''ouf-udp'']) (\<lambda>_.
     bindS (dk_run dk [''rename'', ''ouf-udp'', backup]) (\<lambda>_.
     bindS (dk_run dk args) (\<lambda>_.
     bindS (dk_run dk [''start'', ''ouf-udp'']) (\<lambda>_.
     bindS (retrofit_ready dk ''ouf-udp'') (\<lambda>_.
     bindS (dk_inspect dk ''ouf-udp'') (\<lambda>live.
     bindS (liftS (or_chain [bindE (jindex meta ''image_id'') (\<lambda>i. jneq (jindex live ''Image'') i), bindE (running live) (\<lambda>b. Inr (\<not> b))])) (\<lambda>bad.
     if bad then raiseS (ValueError ''new UDP runtime invalid'') else returnS ()))))))))"

text \<open>\<open>except Exception\<close> handles everything but the exits.\<close>

fun is_exit :: "py_exn \<Rightarrow> bool" where
  "is_exit (SystemExit _) = True"
| "is_exit _ = False"

text \<open>Whatever has the name is stopped and removed; errors of that are ignored.\<close>

definition discard_live :: "'w docker \<Rightarrow> ('w, unit) io" where
  "discard_live dk = tryS
     (bindS (dk_inspect dk ''ouf-udp'') (\<lambda>cur.
      bindS (set_restart dk ''no'' ''ouf-udp'') (\<lambda>_.
      bindS (liftS (running cur)) (\<lambda>run.
      bindS (if run then dk_run dk [''stop'', ''ouf-udp''] else returnS ()) (\<lambda>_.
      dk_run dk [''rm'', ''ouf-udp''])))))
     (\<lambda>e. if is_exit e then raiseS e else returnS ())"

definition put_back_original :: "'w docker \<Rightarrow> string \<Rightarrow> ('w, unit) io" where
  "put_back_original dk backup =
     bindS (dk_run dk [''rename'', backup, ''ouf-udp'']) (\<lambda>_.
     bindS (set_restart dk ''unless-stopped'' ''ouf-udp'') (\<lambda>_.
     bindS (dk_run dk [''start'', ''ouf-udp'']) (\<lambda>_.
     retrofit_ready dk ''ouf-udp'')))"

definition retrofit_backup :: "string \<Rightarrow> string" where
  "retrofit_backup old_id = ''ouf-udp-preauth-'' @ take 12 old_id"

text \<open>The part of \<open>main\<close> that replaces the container.\<close>

definition retrofit_apply ::
  "'w docker \<Rightarrow> (json \<Rightarrow> ('w, unit) io) \<Rightarrow> bool \<Rightarrow> json \<Rightarrow> string list \<Rightarrow> ('w, unit) io" where
  "retrofit_apply dk save staged meta args =
     (if staged then raiseS (SystemExit ''UDP_AUTH_RETROFIT_BLOCKED=rollout state exists'')
      else bindS (liftS (bindE (jindex meta ''old_id'') field_text)) (\<lambda>old_id. let backup = retrofit_backup old_id in
        bindS (try_inspect dk backup) (\<lambda>taken.
        if taken \<noteq> None then raiseS (SystemExit ''UDP_AUTH_RETROFIT_BLOCKED=backup name exists'')
        else bindS (save (JObj [(''old_id'', JStr old_id), (''backup'', JStr backup)])) (\<lambda>_.
          tryS (retrofit_bring_up dk backup meta args) (\<lambda>e.
            if is_exit e then raiseS e
            else bindS (discard_live dk) (\<lambda>_. bindS (put_back_original dk backup) (\<lambda>_. raiseS e)))))))"

definition retrofit_rollback :: "'w docker \<Rightarrow> json \<Rightarrow> ('w, unit) io" where
  "retrofit_rollback dk s =
     bindS (dk_inspect dk ''ouf-udp'') (\<lambda>live.
     bindS (liftS (bindE (jindex s ''old_id'') (\<lambda>i. jneq (jindex live ''Id'') i))) (\<lambda>other.
     if \<not> other then returnS ()
     else bindS (set_restart dk ''no'' ''ouf-udp'') (\<lambda>_.
       bindS (liftS (running live)) (\<lambda>run.
       bindS (if run then dk_run dk [''stop'', ''ouf-udp''] else returnS ()) (\<lambda>_.
       bindS (dk_run dk [''rm'', ''ouf-udp'']) (\<lambda>_.
       bindS (liftS (bindE (jindex s ''backup'') field_text)) (\<lambda>backup.
       bindS (dk_inspect dk backup) (\<lambda>b.
       bindS (liftS (bindE (jindex s ''old_id'') (\<lambda>i. jneq (jindex b ''Id'') i))) (\<lambda>mismatch.
       if mismatch then raiseS (SystemExit ''UDP_AUTH_RETROFIT_ROLLBACK_BLOCKED=identity mismatch'')
       else put_back_original dk backup)))))))))"

definition retrofit_main ::
  "'w docker \<Rightarrow> (string \<Rightarrow> json res) \<Rightarrow> (path \<Rightarrow> string) \<Rightarrow> (json \<Rightarrow> ('w, unit) io) \<Rightarrow> files \<Rightarrow> path
     \<Rightarrow> rollout_mode \<Rightarrow> ('w, unit) io" where
  "retrofit_main dk loads join save fs candidate mode =
     (let state = candidate @ [''rollout.json''] in
      if mode = Rollback then bindS (liftS (read_json loads fs state)) (retrofit_rollback dk)
      else bindS (retrofit_validate dk loads fs candidate) (\<lambda>(old, meta, host, nets).
        bindS (liftS (retrofit_args join old meta host nets candidate)) (\<lambda>args.
        if mode = Dry_Run then returnS () else retrofit_apply dk save (fs state \<noteq> None) meta args)))"

end
