(* ===== verification/Retrofit_Safety.thy ===== *)
theory Retrofit_Safety
  imports Rollout_Safety Retrofit
begin

text \<open>
  The retrofit against a faithful engine: a successful run keeps the original for rollback; its recovery, which
  removes whatever has the name, removes the original when the failure comes before the renaming.
\<close>

lemma retrofit_staged:
  assumes docker: "faithful_docker dk view" and args: "args = ''create'' # ''--name'' # ''ouf-udp'' # rest"
    and save: "plain_save view save" and meta: "jindex meta ''image_id'' = Inr (JStr img)" "jindex meta ''old_id'' = Inr (JStr i)"
    and i: "ids_of view w ''ouf-udp'' = Some i" and run: "retrofit_apply dk save False meta args w = (Inr (), w')"
  shows "ids_of view w' (retrofit_backup i) = Some i
     \<and> (\<exists>c. view w' ''ouf-udp'' = Some c \<and> ct_image c = img \<and> ct_running c)"
proof -
  let ?b = "retrofit_backup i"
  have apart: "?b \<noteq> ''ouf-udp''" by (simp add: retrofit_backup_def)
  from run meta(2) obtain w1 w2 where t: "try_inspect dk ?b w = (Inr None, w1)"
    and s: "save (JObj [(''old_id'', JStr i), (''backup'', JStr ?b)]) w1 = (Inr (), w2)"
    and up: "retrofit_bring_up dk ?b meta args w2 = (Inr (), w')"
    by (auto simp: retrofit_apply_def Let_def bindS_Inr tryS_Inr liftS_def raiseS_def split: if_splits)
  have "keeps view (save d)" for d using save by (simp add: plain_save_def)
  from keepsD [OF this s] keepsD [OF try_inspect_view [OF docker] t] i have i2: "ids_of view w2 ''ouf-udp'' = Some i"
    by (simp add: ids_of_def)
  from up meta(1) obtain w3 w4 w5 w6 w7 w8 d where
    u: "set_restart dk ''no'' ''ouf-udp'' w2 = (Inr (), w3)" and st: "dk_run dk [''stop'', ''ouf-udp''] w3 = (Inr (), w4)"
    and rn: "dk_run dk [''rename'', ''ouf-udp'', ?b] w4 = (Inr (), w5)" and c: "dk_run dk args w5 = (Inr (), w6)"
    and go: "dk_run dk [''start'', ''ouf-udp''] w6 = (Inr (), w7)" and wt: "retrofit_ready dk ''ouf-udp'' w7 = (Inr (), w8)"
    and d: "dk_inspect dk ''ouf-udp'' w8 = (Inr d, w')"
    and ok: "or_chain [jneq (jindex d ''Image'') (JStr img), bindE (running d) (\<lambda>b. Inr (\<not> b))] = Inr False"
    by (auto simp: retrofit_bring_up_def bindS_Inr liftS_def raiseS_def returnS_def split: if_splits)
  have i4: "ids_of view w4 ''ouf-udp'' = Some i"
    using keepsD [OF docker_keeps_ids(2) [OF docker] u] keepsD [OF docker_keeps_ids(3) [OF docker] st] i2 by simp
  from commitsD [OF docker_commits(7) [OF docker] rn] i4 apart have b5: "ids_of view w5 ?b = Some i"
    by (auto simp: renamed_def ids_of_def)
  from commitsD [OF docker_commits(8) [OF docker], of "''ouf-udp''" rest w5 w6] c args have "created ''ouf-udp'' (view w5) (view w6)" by simp
  with b5 apart have b6: "ids_of view w6 ?b = Some i" by (auto simp: created_def ids_of_def)
  have v8: "view w8 = view w7" using wt unfolding retrofit_ready_def by (rule keepsD [OF wait_ready_view [OF docker]])
  have v: "view w' = view w8" by (rule keepsD [OF docker_inspect(1) [OF docker] d])
  have "ids_of view w7 ?b = Some i" using keepsD [OF docker_keeps_ids(4) [OF docker] go] b6 by simp
  then have "ids_of view w' ?b = Some i" using v8 v by (simp add: ids_of_def)
  moreover from docker_inspect(3) [OF docker d] obtain x where "view w8 ''ouf-udp'' = Some x" "shows_container d x" by blast
  ultimately show ?thesis using ok v by (auto simp: shows_container_def split: if_splits)
qed

text \<open>An engine in memory that refuses to rename.\<close>

definition refusing_docker :: "string \<Rightarrow> json \<Rightarrow> engine docker" where
  "refusing_docker img info = (memory_docker img info)\<lparr>dk_run := (\<lambda>args w.
     if take 1 args = [''rename''] then (Inl (CalledProcessError ''rename''), w) else engine_run img args w)\<rparr>"

lemma refusing_docker_faithful: "faithful_docker (refusing_docker img info) map_of"
proof -
  have "commits map_of (\<lambda>w. (Inl (CalledProcessError ''rename''), w)) (renamed a b)" for a b :: string
    by (auto simp: commits_def)
  then show ?thesis
    using memory_docker_faithful [of img info]
    by (simp add: faithful_docker_def refusing_docker_def memory_docker_def readiness_args_def)
qed

text \<open>
  C27. The recovery of the retrofit does not check which container it removes: when docker refuses the renaming of
  the original, an engine that keeps its contract otherwise, the script removes the original container, finds
  nothing to rename back and ends with an error and no container at all.
\<close>

theorem retrofit_recovery_loses_original:
  "faithful_docker (refusing_docker img info) map_of
     \<and> retrofit_apply (refusing_docker img info) (\<lambda>_. returnS ()) False (JObj [(''old_id'', JStr (ct_id c))]) args
         [(''ouf-udp'', c)] = (Inl (CalledProcessError ''rename''), [])"
proof
  show "faithful_docker (refusing_docker img info) map_of" by (rule refusing_docker_faithful)
  let ?dk = "refusing_docker img info" and ?stopped = "c\<lparr>ct_restart := ''no'', ct_running := False\<rparr>"
  let ?b = "retrofit_backup (ct_id c)"
  have up: "retrofit_bring_up ?dk ?b meta args [(''ouf-udp'', c)] = (Inl (CalledProcessError ''rename''), [(''ouf-udp'', ?stopped)])" for meta
    by (simp add: retrofit_bring_up_def set_restart_def refusing_docker_def memory_docker_def engine_run_def engine_change_def
        engine_set_def io_defs)
  have discard: "discard_live ?dk [(''ouf-udp'', ?stopped)] = (Inr (), [])"
    by (simp add: discard_live_def set_restart_def refusing_docker_def memory_docker_def engine_run_def engine_change_def
        engine_set_def engine_remove_def container_json_def running_def io_defs)
  have put: "put_back_original ?dk ?b [] = (Inl (CalledProcessError ''rename''), [])"
    by (simp add: put_back_original_def refusing_docker_def io_defs)
  have absent: "try_inspect ?dk ?b [(''ouf-udp'', c)] = (Inr None, [(''ouf-udp'', c)])"
    by (simp add: try_inspect_def refusing_docker_def memory_docker_def retrofit_backup_def io_defs)
  show "retrofit_apply ?dk (\<lambda>_. returnS ()) False (JObj [(''old_id'', JStr (ct_id c))]) args [(''ouf-udp'', c)]
      = (Inl (CalledProcessError ''rename''), [])"
    using absent up discard put by (simp add: retrofit_apply_def Let_def bindS_def tryS_def liftS_def returnS_def)
qed

end
