(* ===== verification/Candidate_Safety.thy ===== *)
theory Candidate_Safety
  imports Candidate Retrofit_Safety "HOL-Library.Countable"
begin

text \<open>
  The prepared directories against the scripts that check and use them: the Authorization retrofit
  accepts what its preparation wrote, and the preflight of the staged rollout refuses what the rollout
  demands.
\<close>

section \<open>The staged rollout\<close>

lemma relabel_Inr: "relabel msg m = Inr x \<longleftrightarrow> m = Inr x"
  by (cases m) (auto simp: relabel_def split: py_exn.splits)

text \<open>Indexing by the name and by the name without its slash finds the same container.\<close>

lemma names_kept:
  assumes "foldE (\<lambda>c d. bindE (jindex c ''Name'') (\<lambda>n. bindE (jset [n]) (\<lambda>_. Inr (dict_set n c d)))) cs d = Inr e"
  shows "set (dict_keys d) \<subseteq> set (dict_keys e) \<and> (\<forall>c \<in> set cs. \<exists>n \<in> set (dict_keys e). jindex c ''Name'' = Inr n)"
  using assms
proof (induction cs arbitrary: d)
  case (Cons c cs)
  from Cons.prems obtain n where n: "jindex c ''Name'' = Inr n"
    and rest: "foldE (\<lambda>c d. bindE (jindex c ''Name'') (\<lambda>n. bindE (jset [n]) (\<lambda>_. Inr (dict_set n c d)))) cs (dict_set n c d) = Inr e"
    by (auto simp: bindE_Inr_iff)
  from Cons.IH [OF rest] n show ?case by (auto simp: dict_keys_dict_set split: if_splits)
qed simp

lemma same_udp:
  assumes full: "by_full_name cs = Inr e" and name: "by_name (JList cs) = Inr d" and both: "set (dict_keys e) = both_names"
  shows "map_of e (JStr ''/ouf-udp'') = map_of d ''ouf-udp''"
proof -
  let ?f = "\<lambda>c d. bindE (jindex c ''Name'') (\<lambda>n. bindE (jset [n]) (\<lambda>_. Inr (dict_set n c d)))"
  let ?g = "\<lambda>c d. bindE (jindex c ''Name'') (\<lambda>n. case n of JStr s \<Rightarrow> Inr (dict_set (tl s) c d)
     | _ \<Rightarrow> Inl (TypeError ''not subscriptable''))"
  have "map_of e' (JStr ''/ouf-udp'') = map_of d' ''ouf-udp''"
    if "foldE ?f xs e0 = Inr e'" "foldE ?g xs d0 = Inr d'" "map_of e0 (JStr ''/ouf-udp'') = map_of d0 ''ouf-udp''"
      "\<forall>c \<in> set xs. \<exists>n \<in> both_names. jindex c ''Name'' = Inr n" for xs e0 d0 e' d'
    using that
  proof (induction xs arbitrary: e0 d0)
    case (Cons c xs)
    from Cons.prems(4) obtain s where s: "jindex c ''Name'' = Inr (JStr s)" "s = ''/ouf-udp'' \<or> s = ''/ouf-apisix''"
      by (auto simp: both_names_def)
    with Cons.prems(1,2) have "foldE ?f xs (dict_set (JStr s) c e0) = Inr e'" "foldE ?g xs (dict_set (tl s) c d0) = Inr d'"
      by (auto simp: bindE_Inr_iff)
    moreover have "map_of (dict_set (JStr s) c e0) (JStr ''/ouf-udp'') = map_of (dict_set (tl s) c d0) ''ouf-udp''"
      using s(2) Cons.prems(3) by (auto simp: dict_set_lookup)
    ultimately show ?case using Cons.IH Cons.prems(4) by simp
  qed simp
  moreover have "\<forall>c \<in> set cs. \<exists>n \<in> both_names. jindex c ''Name'' = Inr n"
    using names_kept full both unfolding by_full_name_def by blast
  ultimately show ?thesis using full name by (simp add: by_full_name_def by_name_def)
qed

lemma both_Some:
  "(case a of None \<Rightarrow> Inl e | Some u \<Rightarrow> (case b of None \<Rightarrow> Inl e | Some x \<Rightarrow> f u x)) = Inr y
     \<longleftrightarrow> (\<exists>u x. a = Some u \<and> b = Some x \<and> f u x = Inr y)"
  by (auto split: option.splits)

text \<open>The environment of the UDP candidate as the rollout reads it.\<close>

lemma rollout_udp_env:
  assumes "check_env fs candidate (''udp'', udp) = Inr ()"
  obtains f now previous where "stat_of fs (candidate @ [''udp.env'']) = Inr f" "env_map (text_lines (fi_text f)) = Inr now"
    "container_env msg udp = Inr previous" "new_names now previous = env_additions ''udp''"
  using assms
  by (auto simp: check_env_def Let_def bindE_Inr_iff container_env_def relabel_Inr env_extends_def new_names_def split: if_splits)

text \<open>
  C29. The preflight of the staged rollout refuses every candidate that the rollout accepts: the rollout
  demands nine new names in the environment of the UDP, the five of the search binding and four for the
  Authorization registry, and \<open>preflight_r4a_runtime.py\<close> accepts exactly five.
\<close>

theorem preflight_refuses_rollout_candidate:
  assumes "snapshot_and_candidate loads split fs snapshot candidate = Inr old"
  shows "preflight_runtime loads split' fs snapshot candidate names live \<noteq> Inr lines"
proof
  assume pre: "preflight_runtime loads split' fs snapshot candidate names live = Inr lines"
  then obtain docs cs e u udp old_u where docs: "bindE (stat_of fs snapshot) (\<lambda>f. loads (fi_text f)) = Inr docs"
    and cs: "jelements docs = Inr cs" "by_full_name cs = Inr e" "set (dict_keys e) = both_names"
    and u: "candidate_env fs candidate ''udp.env'' = Inr u"
    and udp: "container_of e ''/ouf-udp'' = Inr udp" "container_env ''invalid Docker environment'' udp = Inr old_u"
    and five: "new_names u old_u = preflight_udp_extra"
    by (auto simp: preflight_runtime_def preflight_checks_def Let_def bindE_Inr_iff require_Inr_iff environments_ok_def
      simp del: mapE.simps)
  from assms docs obtain udp' where old: "by_name docs = Inr old" and udp': "map_of old ''ouf-udp'' = Some udp'"
    and env: "check_env fs candidate (''udp'', udp') = Inr ()"
    by (auto simp: snapshot_and_candidate_def bindE_Inr_iff both_Some split: if_splits)
  have "by_name (JList cs) = Inr old" using old cs(1) by (simp add: by_name_def)
  from same_udp [OF cs(2) this cs(3)] udp(1) udp' have "udp = udp'" by (auto simp: container_of_def split: option.splits)
  with rollout_udp_env [OF env, of "''invalid Docker environment''"] udp(2) obtain f now where
    f: "stat_of fs (candidate @ [''udp.env'']) = Inr f" "env_map (text_lines (fi_text f)) = Inr now"
    "new_names now old_u = env_additions ''udp''" by (metis sum.inject(2))
  from u f(1,2) have "u = now" by (auto simp: candidate_env_def parse_env_def Let_def bindE_Inr_iff relabel_Inr)
  moreover have "''OUF_AUTHORIZATION_REGISTRY_URL'' \<in> env_additions ''udp'' - preflight_udp_extra"
    by (simp add: preflight_udp_extra_def env_additions_def)
  ultimately show False using five f(3) by simp
qed

theorem preflight_refuses_rollout_candidate_witness:
  "snapshot_and_candidate (\<lambda>_. Inr (JList [sample_udp, sample_apisix])) (\<lambda>_. [''conf'']) sample_files [''s'', ''snap''] [''s'', ''candidate-1'']
     = Inr [(''ouf-udp'', sample_udp), (''ouf-apisix'', sample_apisix)]
   \<and> (\<forall>names live lines. preflight_runtime (\<lambda>_. Inr (JList [sample_udp, sample_apisix])) (\<lambda>_. [''conf'']) sample_files [''s'', ''snap'']
        [''s'', ''candidate-1''] names live \<noteq> Inr lines)"
  using preflight_refuses_rollout_candidate [OF sample_snapshot] sample_snapshot by blast

section \<open>The Authorization retrofit\<close>

text \<open>What the loop of \<open>env_map\<close> has checked, and that the looser loop of the rollout reads the same.\<close>

lemma env_map_facts:
  assumes "env_map xs = Inr kvs"
  shows "list_all (\<lambda>(k, v). env_name k) kvs \<and> distinct (map fst kvs) \<and> retrofit_env_map xs = Inr kvs"
proof -
  let ?f = "\<lambda>x out. let name = takeWhile (\<lambda>c. c \<noteq> CHR ''='') x; value = tl (dropWhile (\<lambda>c. c \<noteq> CHR ''='') x)
     in if CHR ''='' \<notin> set x \<or> \<not> env_name name \<or> name \<in> set (dict_keys out) \<or> CHR 0x0A \<in> set value \<or> CHR 0x0D \<in> set value
        then Inl (ValueError ''invalid environment format'') else Inr (out @ [(name, value)])"
  let ?g = "\<lambda>x out. let name = takeWhile (\<lambda>c. c \<noteq> CHR ''='') x; value = tl (dropWhile (\<lambda>c. c \<noteq> CHR ''='') x)
     in if CHR ''='' \<notin> set x \<or> name \<in> set (dict_keys out) then Inl (ValueError ''invalid env'')
        else Inr (out @ [(name, value)])"
  have "list_all (\<lambda>(k, v). env_name k) kvs \<and> distinct (map fst kvs) \<and> foldE ?g xs out = Inr kvs"
    if "foldE ?f xs out = Inr kvs" "list_all (\<lambda>(k, v). env_name k) out" "distinct (map fst out)" for out
    using that
  proof (induction xs arbitrary: out)
    case (Cons x xs)
    let ?k = "takeWhile (\<lambda>c. c \<noteq> CHR ''='') x" and ?v = "tl (dropWhile (\<lambda>c. c \<noteq> CHR ''='') x)"
    from Cons.prems(1) have ok: "CHR ''='' \<in> set x" "env_name ?k" "?k \<notin> set (dict_keys out)"
      and rest: "foldE ?f xs (out @ [(?k, ?v)]) = Inr kvs"
      by (auto simp: Let_def bindE_Inr_iff split: if_splits)
    from Cons.IH [OF rest] ok Cons.prems(2,3) show ?case by (simp add: Let_def dict_keys_def)
  qed simp
  from this [of "[]"] assms show ?thesis by (simp add: env_map_def retrofit_env_map_def)
qed

lemma env_name_plain: "env_name k \<Longrightarrow> plain_line k \<and> CHR ''='' \<notin> set k"
  by (auto simp: env_name_def plain_line_def list_all_iff is_alpha_def is_digit_def)

lemma retrofit_env_map_env:
  assumes "list_all (\<lambda>(k, v). CHR ''='' \<notin> set k) kvs" and "distinct (map fst kvs)"
  shows "retrofit_env_map (map (\<lambda>(k, v). k @ ''='' @ v) kvs) = Inr kvs"
proof -
  let ?g = "\<lambda>x out. let name = takeWhile (\<lambda>c. c \<noteq> CHR ''='') x; value = tl (dropWhile (\<lambda>c. c \<noteq> CHR ''='') x)
     in if CHR ''='' \<notin> set x \<or> name \<in> set (dict_keys out) then Inl (ValueError ''invalid env'')
        else Inr (out @ [(name, value)])"
  have step: "?g (k @ CHR ''='' # v) out = Inr (out @ [(k, v)])"
    if "CHR ''='' \<notin> set k" "k \<notin> set (dict_keys out)" for k v out
  proof -
    have "\<forall>x \<in> set k. x \<noteq> CHR ''=''" using that(1) by metis
    then have "takeWhile (\<lambda>c. c \<noteq> CHR ''='') (k @ CHR ''='' # v) = k" "dropWhile (\<lambda>c. c \<noteq> CHR ''='') (k @ CHR ''='' # v) = CHR ''='' # v"
      by (simp_all add: takeWhile_append2 dropWhile_append2)
    with that show ?thesis by simp
  qed
  have "foldE ?g (map (\<lambda>(k, v). k @ ''='' @ v) kvs) out = Inr (out @ kvs)"
    if "list_all (\<lambda>(k, v). CHR ''='' \<notin> set k) kvs" "distinct (map fst (out @ kvs))" for out
    using that
  proof (induction kvs arbitrary: out)
    case (Cons kv kvs)
    obtain k v where kv: "kv = (k, v)" by (cases kv)
    have "?g (k @ CHR ''='' # v) out = Inr (out @ [(k, v)])"
      using Cons.prems kv by (intro step) (auto simp: dict_keys_def)
    moreover have "foldE ?g (map (\<lambda>(k, v). k @ ''='' @ v) kvs) (out @ [(k, v)]) = Inr ((out @ [(k, v)]) @ kvs)"
      using Cons.prems kv by (intro Cons.IH) auto
    ultimately show ?case using kv by simp
  qed simp
  from this [of "[]"] assms show ?thesis by (simp add: retrofit_env_map_def)
qed

lemma dict_set_new: "k \<notin> set (dict_keys d) \<Longrightarrow> dict_set k v d = d @ [(k, v)]"
  by (induction d) (auto simp: dict_keys_def)

lemma fold_dict_set_new:
  "distinct (map fst kvs) \<Longrightarrow> set (map fst kvs) \<inter> set (dict_keys d) = {}
   \<Longrightarrow> foldl (\<lambda>d (k, v). dict_set k v d) d kvs = d @ kvs"
  by (induction kvs arbitrary: d) (auto simp: dict_set_new dict_keys_def)

lemma wanted_keys: "set (map fst (wanted_env url)) = retrofit_keys" "distinct (map fst (wanted_env url))"
  by (auto simp: wanted_env_def auth_env_def retrofit_keys_def)

lemma wanted_prefix: "k \<in> retrofit_keys \<Longrightarrow> starts_with k ''OUF_AUTHORIZATION_''"
  by (auto simp: retrofit_keys_def starts_with_def)

lemma extended_environment:
  assumes "env_map xs = Inr env" and "existing_authorization env = []" and "list_all (\<lambda>(k, v). plain_line v) env" and "plain_line url"
  shows "foldl (\<lambda>d (k, v). dict_set k v d) env (wanted_env url) = env @ wanted_env url
    \<and> retrofit_env_map (text_lines (env_text (env @ wanted_env url))) = Inr (env @ wanted_env url)
    \<and> retrofit_env_ok env (env @ wanted_env url) = Inr ()"
proof -
  note facts = env_map_facts [OF assms(1)]
  have apart: "set (map fst (wanted_env url)) \<inter> set (dict_keys env) = {}"
    using assms(2) wanted_prefix unfolding wanted_keys
    by (auto simp: existing_authorization_def dict_keys_def filter_empty_conv)
  have names: "list_all (\<lambda>(k, v). env_name k) (wanted_env url)"
    by (simp add: wanted_env_def auth_env_def env_name_def is_alpha_def is_digit_def)
  have "list_all (\<lambda>(k, v). plain_line v) (wanted_env url)"
    using assms(4) by (simp add: wanted_env_def auth_env_def plain_line_def)
  with assms(3) facts names have plain: "list_all (\<lambda>(k, v). plain_line k \<and> plain_line v) (env @ wanted_env url)"
    and keys: "list_all (\<lambda>(k, v). CHR ''='' \<notin> set k) (env @ wanted_env url)"
    using env_name_plain by (auto simp: list_all_iff)
  have dist: "distinct (map fst (env @ wanted_env url))"
    using facts apart wanted_keys(2) by (auto simp: dict_keys_def)
  from apart have old: "retrofit_keys \<inter> set (map fst env) = {}" by (simp only: wanted_keys dict_keys_def)
  have "filter (\<lambda>(k, _). k \<notin> retrofit_keys) env = env"
    by (rule filter_True) (use old in force)
  moreover have "filter (\<lambda>(k, _). k \<notin> retrofit_keys) (wanted_env url) = []"
    by (simp add: wanted_env_def auth_env_def retrofit_keys_def)
  ultimately have "filter (\<lambda>(k, _). k \<notin> retrofit_keys) (env @ wanted_env url) = env" by simp
  moreover have "set (dict_keys (env @ wanted_env url)) - set (dict_keys env) = retrofit_keys"
    using apart wanted_keys(1) [of url] by (auto simp: dict_keys_def)
  ultimately have "env_extends retrofit_keys env (env @ wanted_env url)" by (simp add: env_extends_def)
  moreover have "map_of (env @ wanted_env url) k = map_of (wanted_env url) k" if "k \<in> retrofit_keys" for k
  proof -
    have "map_of env k = None" using that old by (force simp: map_of_eq_None_iff)
    then show ?thesis by (auto simp: map_add_def split: option.splits)
  qed
  ultimately have "retrofit_env_ok env (env @ wanted_env url) = Inr ()"
    by (simp add: retrofit_env_ok_def retrofit_keys_def wanted_env_def auth_env_def)
  then show ?thesis
    using fold_dict_set_new [OF wanted_keys(2) apart] text_lines_env [OF plain] retrofit_env_map_env [OF keys dist] by simp
qed

lemma write_new_Inr:
  "write_new p txt uid gid mode fs = (Inr u, fs') \<longleftrightarrow> fs p = None
     \<and> fs' = fs(p \<mapsto> \<lparr>fi_uid = uid, fi_gid = gid, fi_mode = mode, fi_symlink = False, fi_dir = False, fi_text = txt\<rparr>)"
  by (auto simp: write_new_def)

lemma make_private_Inr:
  "make_private p fs = (Inr u, fs') \<longleftrightarrow> fs p = None
     \<and> fs' = fs(p \<mapsto> \<lparr>fi_uid = 0, fi_gid = 0, fi_mode = 448, fi_symlink = False, fi_dir = True, fi_text = []\<rparr>)"
  by (auto simp: make_private_def)

text \<open>What a finished preparation has decided and written.\<close>

lemma prepare_retrofit_done:
  assumes "prepare_retrofit loads dumps root projection target live fs = (Inr (Some t), fs')"
  obtains current plan meta where "t = target" "retrofit_plan_of loads fs root projection live = Inr (Some (current, plan))"
    "retrofit_meta current plan = Inr meta"
    "stat_of fs' target = Inr \<lparr>fi_uid = 0, fi_gid = 0, fi_mode = 448, fi_symlink = False, fi_dir = True, fi_text = []\<rparr>"
    "\<exists>f. stat_of fs' (target @ [''udp.inspect.json'']) = Inr f \<and> fi_text f = document_text dumps current"
    "\<exists>f. stat_of fs' (target @ [''udp.env'']) = Inr f \<and> fi_text f = env_text (rp_env plan)"
    "\<exists>f. stat_of fs' (target @ [''meta.json'']) = Inr f \<and> fi_text f = document_text dumps meta"
    "\<forall>p. p \<noteq> target \<and> p \<notin> (\<lambda>n. target @ [n]) ` {''udp.inspect.json'', ''udp.env'', ''meta.json''} \<longrightarrow> fs' p = fs p"
proof -
  from assms obtain current plan where plan: "retrofit_plan_of loads fs root projection live = Inr (Some (current, plan))"
    and "bindS (write_retrofit dumps target current plan) (\<lambda>_. returnS (Some target)) fs = (Inr (Some t), fs')"
    by (auto simp: prepare_retrofit_def split: sum.splits option.splits)
  then have t: "t = target" and w: "write_retrofit dumps target current plan fs = (Inr (), fs')"
    by (auto simp: bindS_Inr returnS_def)
  from w obtain meta where "retrofit_meta current plan = Inr meta" and fs': "fs' = fs
      (target \<mapsto> \<lparr>fi_uid = 0, fi_gid = 0, fi_mode = 448, fi_symlink = False, fi_dir = True, fi_text = []\<rparr>,
       target @ [''udp.inspect.json''] \<mapsto> \<lparr>fi_uid = 0, fi_gid = 0, fi_mode = 384, fi_symlink = False, fi_dir = False,
         fi_text = document_text dumps current\<rparr>,
       target @ [''udp.env''] \<mapsto> \<lparr>fi_uid = 0, fi_gid = 0, fi_mode = 384, fi_symlink = False, fi_dir = False,
         fi_text = env_text (rp_env plan)\<rparr>,
       target @ [''meta.json''] \<mapsto> \<lparr>fi_uid = 0, fi_gid = 0, fi_mode = 384, fi_symlink = False, fi_dir = False,
         fi_text = document_text dumps meta\<rparr>)"
    by (auto simp: write_retrofit_def bindS_Inr write_new_Inr make_private_Inr liftS_def)
  with t plan show thesis by (intro that [of current plan meta]) (auto simp: stat_of_def)
qed

lemma plan_for_facts:
  assumes "plan_for fs revision url current = Inr (Some (current', plan))"
  obtains xs env where "current' = current" "bindE (jindex current ''Config'') (\<lambda>v. bindE (jindex v ''Env'') string_list) = Inr xs"
    "env_map xs = Inr env" "existing_authorization env = []" "rp_url plan = url"
    "rp_env plan = foldl (\<lambda>d (k, v). dict_set k v d) env (wanted_env url)"
proof -
  from assms obtain env where env: "live_udp current = Inr env"
    and rest: "(if existing_authorization env \<noteq> [] then
        (if set (existing_authorization env) = set (wanted_env url) then Inr None
         else Inl (stop_retrofit ''conflicting Authorization environment''))
      else bindE (key_mount current) (\<lambda>m. bindE (token_ready fs) (\<lambda>_.
        Inr (Some (current, \<lparr>rp_env = foldl (\<lambda>d (k, v). dict_set k v d) env (wanted_env url), rp_revision = revision,
          rp_url = url, rp_key = m\<rparr>))))) = Inr (Some (current', plan))"
    unfolding plan_for_def bindE_Inr_iff [of "live_udp current"] by blast
  from rest have none: "existing_authorization env = []" by (auto split: if_splits)
  have "bindE (key_mount current) (\<lambda>m. bindE (token_ready fs) (\<lambda>_.
        Inr (Some (current, \<lparr>rp_env = foldl (\<lambda>d (k, v). dict_set k v d) env (wanted_env url), rp_revision = revision,
          rp_url = url, rp_key = m\<rparr>)))) = Inr (Some (current', plan))"
    using rest by (simp add: none)
  then obtain m where "Inr (Some (current, \<lparr>rp_env = foldl (\<lambda>d (k, v). dict_set k v d) env (wanted_env url),
      rp_revision = revision, rp_url = url, rp_key = m\<rparr>)) = (Inr (Some (current', plan)) :: (json \<times> retrofit_plan) option res)"
    unfolding bindE_Inr_iff by blast
  then have plan: "current' = current" "rp_url plan = url" "rp_env plan = foldl (\<lambda>d (k, v). dict_set k v d) env (wanted_env url)"
    by (simp_all only: sum.inject option.inject prod.inject) (auto simp only: retrofit_plan.select_convs)
  from env obtain xs where "bindE (jindex current ''Config'') (\<lambda>v. bindE (jindex v ''Env'') string_list) = Inr xs" "env_map xs = Inr env"
    unfolding live_udp_def container_env_def bindE_Inr_iff relabel_Inr Inr_inject by blast
  with none plan that show thesis by blast
qed

lemma retrofit_plan_facts:
  assumes "retrofit_plan_of loads fs root projection (Inr current) = Inr (Some (current', plan))"
  obtains f doc revision url where "stat_of fs projection = Inr f" "loads (fi_text f) = Inr doc"
    "registry_of doc = Inr (revision, url)" "plan_for fs revision url current = Inr (Some (current', plan))"
proof -
  from assms obtain f doc r where "stat_of fs projection = Inr f" "loads (fi_text f) = Inr doc" "registry_of doc = Inr r"
    "plan_for fs (fst r) (snd r) current = Inr (Some (current', plan))"
    unfolding retrofit_plan_of_def bindE_Inr_iff by auto
  with that [of f doc "fst r" "snd r"] show thesis by simp
qed

text \<open>
  C30. What \<open>prepare_authorization_retrofit.py\<close> wrote, \<open>rollout_authorization_retrofit.py\<close> accepts: the only
  check that is left is that of the launch options. This supposes that the container still runs with the
  id it had, that parsing a written document returns the value that was rendered, and that no value of the
  old environment and no registry URL has a character at which \<open>splitlines\<close> breaks a line: the preparation
  refuses line feeds and carriage returns only, and a form feed would break the line that the rollout reads.
\<close>

theorem prepared_retrofit_validates:
  assumes "prepare_retrofit loads dumps root projection target (Inr current) fs = (Inr (Some t), fs')"
    and "loads (document_text dumps current) = Inr current"
    and "\<forall>plan meta. retrofit_meta current plan = Inr meta \<longrightarrow> loads (document_text dumps meta) = Inr meta"
    and "\<forall>xs env. bindE (jindex current ''Config'') (\<lambda>v. bindE (jindex v ''Env'') string_list) = Inr xs \<and> env_map xs = Inr env
      \<longrightarrow> list_all (\<lambda>(k, v). plain_line v) env"
    and "\<forall>f doc revision url. stat_of fs projection = Inr f \<and> loads (fi_text f) = Inr doc \<and> registry_of doc = Inr (revision, url)
      \<longrightarrow> plain_line url"
    and "dk_inspect dk ''ouf-udp'' w = (Inr now, w')" and "jindex now ''Id'' = jindex current ''Id''" and "running now = Inr True"
  shows "\<exists>meta. jindex meta ''old_id'' = jindex current ''Id''
    \<and> retrofit_validate dk loads fs' target w =
        (bindE (retrofit_launch_ok current meta) (\<lambda>(host, nets). Inr (current, meta, host, nets)), w')"
proof -
  from assms(1) obtain current' plan meta where t: "t = target"
    and plan: "retrofit_plan_of loads fs root projection (Inr current) = Inr (Some (current', plan))"
    and meta: "retrofit_meta current' plan = Inr meta"
    and dir: "stat_of fs' target = Inr \<lparr>fi_uid = 0, fi_gid = 0, fi_mode = 448, fi_symlink = False, fi_dir = True, fi_text = []\<rparr>"
    and files: "\<exists>f. stat_of fs' (target @ [''udp.inspect.json'']) = Inr f \<and> fi_text f = document_text dumps current'"
      "\<exists>f. stat_of fs' (target @ [''udp.env'']) = Inr f \<and> fi_text f = env_text (rp_env plan)"
      "\<exists>f. stat_of fs' (target @ [''meta.json'']) = Inr f \<and> fi_text f = document_text dumps meta"
    by (rule prepare_retrofit_done)
  from plan obtain f doc revision url where doc: "stat_of fs projection = Inr f" "loads (fi_text f) = Inr doc"
    "registry_of doc = Inr (revision, url)" and pf: "plan_for fs revision url current = Inr (Some (current', plan))"
    by (rule retrofit_plan_facts)
  from pf obtain xs env where c: "current' = current"
    and xs: "bindE (jindex current ''Config'') (\<lambda>v. bindE (jindex v ''Env'') string_list) = Inr xs" "env_map xs = Inr env"
    and none: "existing_authorization env = []" and env: "rp_env plan = foldl (\<lambda>d (k, v). dict_set k v d) env (wanted_env url)"
    by (rule plan_for_facts)
  have "list_all (\<lambda>(k, v). plain_line v) env" "plain_line url" using assms(4,5) xs doc by blast+
  from extended_environment [OF xs(2) none this] have ext: "rp_env plan = env @ wanted_env url"
    "retrofit_env_map (text_lines (env_text (env @ wanted_env url))) = Inr (env @ wanted_env url)"
    "retrofit_env_ok env (env @ wanted_env url) = Inr ()" by (simp_all add: env)
  have read: "read_json loads fs' (target @ [''udp.inspect.json'']) = Inr current"
    "read_json loads fs' (target @ [''meta.json'']) = Inr meta"
    "bindE (stat_of fs' (target @ [''udp.env''])) (\<lambda>f. retrofit_env_map (text_lines (fi_text f))) = Inr (env @ wanted_env url)"
    "bindE (bindE (jindex current ''Config'') (\<lambda>c. bindE (jindex c ''Env'') string_list)) retrofit_env_map = Inr env"
    using files assms(2) assms(3) [THEN spec, THEN spec, THEN mp, OF meta [unfolded c]] ext env_map_facts [OF xs(2)] xs(1)
    by (auto simp: read_json_def c)
  from meta obtain i where i: "jindex current ''Id'' = Inr i" "jindex meta ''old_id'' = Inr i"
    by (auto simp: retrofit_meta_def bindE_Inr_iff c)
  then have same: "or_chain [bindE (jindex meta ''old_id'') (\<lambda>i. jneq (jindex now ''Id'') i),
      bindE (jindex current ''Id'') (\<lambda>i. jneq (jindex now ''Id'') i), bindE (running now) (\<lambda>b. Inr (\<not> b))] = Inr False"
    using assms(7,8) by (simp add: jneq_def)
  have "retrofit_validate dk loads fs' target w =
      (bindE (retrofit_launch_ok current meta) (\<lambda>(host, nets). Inr (current, meta, host, nets)), w')"
    using dir read ext(3) same assms(6)
    by (cases "retrofit_launch_ok current meta") (auto simp: retrofit_validate_def io_defs simp del: or_chain.simps)
  with i show ?thesis by auto
qed

text \<open>A rendering with its parser, a private root and a running container.\<close>

instance json :: countable
  by countable_datatype

definition sample_dumps :: "json \<Rightarrow> string" where
  "sample_dumps v = replicate (to_nat v) CHR ''x''"

definition sample_loads :: "string \<Rightarrow> json res" where
  "sample_loads s = Inr (from_nat (length s - 1))"

lemma sample_loads_dumps: "sample_loads (document_text sample_dumps v) = Inr v"
  by (simp add: sample_loads_def document_text_def sample_dumps_def)

definition sample_registry :: json where
  "sample_registry = JObj [(''iam'', JObj [(''workloadClients'', JObj [(''udp'', JStr ''ouf-udp'')])]),
     (''gateway'', JObj [(''publicApiBaseUrl'', JStr ''https://api/'')]), (''revision'', JInt 3)]"

definition sample_live :: json where
  "sample_live = JObj [(''Id'', JStr ''o''), (''Image'', JStr ''i''), (''State'', JObj [(''Running'', JBool True)]),
     (''Config'', JObj [(''User'', JStr ''10004:10004''), (''Env'', jstrs [''OUF_UDP_SEARCH_TENANT_ID=t'',
        ''OUF_UDP_SEARCH_ISSUER=i'', ''OUF_UDP_SEARCH_AUDIENCE=a'', ''OUF_UDP_SEARCH_WORKLOAD=w'',
        ''OUF_UDP_SEARCH_OWNER_KEY_FILE=/run/secrets/udp-search-owner.key''])]),
     (''Mounts'', JList [JObj [(''Destination'', JStr ''/run/secrets/udp-search-owner.key''), (''RW'', JBool False),
        (''Source'', JStr ''/k'')]])]"

definition sample_live_env :: "(string, string) dict" where
  "sample_live_env = [(''OUF_UDP_SEARCH_TENANT_ID'', ''t''), (''OUF_UDP_SEARCH_ISSUER'', ''i''), (''OUF_UDP_SEARCH_AUDIENCE'', ''a''),
     (''OUF_UDP_SEARCH_WORKLOAD'', ''w''), (''OUF_UDP_SEARCH_OWNER_KEY_FILE'', ''/run/secrets/udp-search-owner.key'')]"

definition sample_root :: files where
  "sample_root = map_of (map (\<lambda>(p, g, m, d, t). (p, \<lparr>fi_uid = 0, fi_gid = g, fi_mode = m, fi_symlink = False, fi_dir = d, fi_text = t\<rparr>))
     [([''b''], 0, 448, True, []), ([''p''], 0, 384, False, document_text sample_dumps sample_registry),
      (token_dir, 10004, 488, True, []), (token_dir @ [''token''], 10004, 288, False, ''t'')])"

lemma sample_live_environment:
  "bindE (jindex sample_live ''Config'') (\<lambda>v. bindE (jindex v ''Env'') string_list)
     = Inr (map (\<lambda>(k, v). k @ ''='' @ v) sample_live_env)"
  "env_map (map (\<lambda>(k, v). k @ ''='' @ v) sample_live_env) = Inr sample_live_env"
proof -
  show "bindE (jindex sample_live ''Config'') (\<lambda>v. bindE (jindex v ''Env'') string_list)
     = Inr (map (\<lambda>(k, v). k @ ''='' @ v) sample_live_env)"
    by (simp add: sample_live_def sample_live_env_def string_list_def jstrs_def)
  show "env_map (map (\<lambda>(k, v). k @ ''='' @ v) sample_live_env) = Inr sample_live_env"
    by (rule env_map_env) (simp_all add: sample_live_env_def env_name_def is_alpha_def is_digit_def)
qed

lemma sample_live_udp: "live_udp sample_live = Inr sample_live_env"
proof -
  have "container_env ''invalid Docker environment'' sample_live = Inr sample_live_env"
    using sample_live_environment by (simp add: container_env_def relabel_Inr)
  moreover have "running sample_live = Inr True" "jneq (config_user sample_live) (JStr ''10004:10004'') = Inr False"
    by (simp_all add: sample_live_def running_def config_user_def jneq_def)
  ultimately show ?thesis
    by (simp add: live_udp_def) (simp add: sample_live_env_def search_required_def dict_keys_def)
qed

lemma sample_registry_of:
  "registry_of sample_registry = Inr (JInt 3, ''https://api/internal/capabilities/v1/authorization/policy-bundle/active'')"
  by (simp add: registry_of_def sample_registry_def rstrip_slash_def starts_with_def require_def)

lemma sample_plan:
  "\<exists>plan. retrofit_plan_of sample_loads sample_root [''b''] [''p''] (Inr sample_live) = Inr (Some (sample_live, plan))
     \<and> jindex (rp_key plan) ''Source'' = Inr (JStr ''/k'')"
proof -
  have stats: "stat_of sample_root [''b''] = Inr \<lparr>fi_uid = 0, fi_gid = 0, fi_mode = 448, fi_symlink = False, fi_dir = True, fi_text = []\<rparr>"
    "stat_of sample_root [''p''] = Inr \<lparr>fi_uid = 0, fi_gid = 0, fi_mode = 384, fi_symlink = False, fi_dir = False,
       fi_text = document_text sample_dumps sample_registry\<rparr>"
    "stat_of sample_root token_dir = Inr \<lparr>fi_uid = 0, fi_gid = 10004, fi_mode = 488, fi_symlink = False, fi_dir = True, fi_text = []\<rparr>"
    "stat_of sample_root (token_dir @ [''token'']) = Inr \<lparr>fi_uid = 0, fi_gid = 10004, fi_mode = 288, fi_symlink = False,
       fi_dir = False, fi_text = ''t''\<rparr>"
    by (simp_all add: stat_of_def sample_root_def token_dir_def)
  then have ready: "private_dir sample_root [''b''] = Inr ()" "token_ready sample_root = Inr ()"
    by (simp_all add: private_dir_def token_ready_def has_mode_def require_def)
  have none: "existing_authorization sample_live_env = []"
    by (simp add: existing_authorization_def sample_live_env_def starts_with_def)
  obtain m where m: "key_mount sample_live = Inr m" "jindex m ''Source'' = Inr (JStr ''/k'')"
    by (simp add: key_mount_def sample_live_def require_def)
  show ?thesis
    using stats ready none m by (simp add: retrofit_plan_of_def plan_for_def sample_loads_dumps sample_registry_of sample_live_udp)
qed

theorem prepared_retrofit_validates_witness:
  "\<exists>fs' meta. prepare_retrofit sample_loads sample_dumps [''b''] [''p''] [''b'', ''c''] (Inr sample_live) sample_root
       = (Inr (Some [''b'', ''c'']), fs')
     \<and> retrofit_validate (memory_docker ''i'' JNull) sample_loads fs' [''b'', ''c''] sample_engine
       = (bindE (retrofit_launch_ok sample_live meta) (\<lambda>(host, nets). Inr (sample_live, meta, host, nets)), sample_engine)"
proof -
  let ?dk = "memory_docker ''i'' JNull" and ?t = "[''b'', ''c'']"
  obtain plan where plan: "retrofit_plan_of sample_loads sample_root [''b''] [''p''] (Inr sample_live) = Inr (Some (sample_live, plan))"
    "jindex (rp_key plan) ''Source'' = Inr (JStr ''/k'')" using sample_plan by blast
  have "\<exists>meta. retrofit_meta sample_live plan = Inr meta"
    using plan(2) by (simp add: retrofit_meta_def) (simp add: sample_live_def)
  then have "\<exists>fs'. prepare_retrofit sample_loads sample_dumps [''b''] [''p''] ?t (Inr sample_live) sample_root = (Inr (Some ?t), fs')"
    using plan(1) by (auto simp: prepare_retrofit_def write_retrofit_def io_defs make_private_def write_new_def
      sample_root_def token_dir_def)
  then obtain fs' where fs': "prepare_retrofit sample_loads sample_dumps [''b''] [''p''] ?t (Inr sample_live) sample_root = (Inr (Some ?t), fs')" ..
  have env: "\<forall>xs env. bindE (jindex sample_live ''Config'') (\<lambda>v. bindE (jindex v ''Env'') string_list) = Inr xs \<and> env_map xs = Inr env
      \<longrightarrow> list_all (\<lambda>(k, v). plain_line v) env"
    using sample_live_environment by (auto simp: sample_live_env_def plain_line_def)
  have url: "\<forall>f doc revision url. stat_of sample_root [''p''] = Inr f \<and> sample_loads (fi_text f) = Inr doc
      \<and> registry_of doc = Inr (revision, url) \<longrightarrow> plain_line url"
    using sample_registry_of by (auto simp: stat_of_def sample_root_def token_dir_def sample_loads_dumps plain_line_def)
  let ?now = "container_json \<lparr>ct_id = ''o'', ct_image = ''before'', ct_running = True, ct_restart = ''unless-stopped''\<rparr>"
  have "dk_inspect ?dk ''ouf-udp'' sample_engine = (Inr ?now, sample_engine)" "jindex ?now ''Id'' = jindex sample_live ''Id''"
    "running ?now = Inr True"
    by (simp_all add: memory_docker_def sample_engine_def container_json_def sample_live_def running_def)
  from prepared_retrofit_validates [OF fs' sample_loads_dumps _ env url this] sample_loads_dumps fs' show ?thesis by blast
qed

fun the_list :: "json \<Rightarrow> json list" where
  "the_list (JList vs) = vs"
| "the_list _ = []"

text \<open>The preparation of the staged rollout does reach the free name.\<close>

definition sample_snapshot_docs :: json where
  "sample_snapshot_docs = JList [
     JObj [(''Name'', JStr ''/ouf-udp''), (''Id'', JStr ''u''), (''State'', JObj [(''Running'', JBool True)]),
       (''Config'', JObj [(''User'', JStr ''10004:10004''), (''Env'', JList [])])],
     JObj [(''Name'', JStr ''/ouf-apisix''), (''Id'', JStr ''x''), (''State'', JObj [(''Running'', JBool True)]),
       (''Config'', JObj [(''Env'', JList [])]), (''Mounts'', JList [JObj [(''Source'', JStr ''/conf''),
          (''Destination'', JStr ''/usr/local/apisix/conf/config.yaml''), (''RW'', JBool False)]])]]"

definition sample_search_projection :: json where
  "sample_search_projection = JObj [(''gateway'', JObj [(''issuerUrl'', JStr ''i''), (''requiredAudience'', JStr ''a'')]),
     (''iam'', JObj [(''workloadClients'', JObj [(''mcpServer'', JStr ''w'')])])]"

definition sample_prepared :: files where
  "sample_prepared = map_of (map (\<lambda>(p, m, t). (p, \<lparr>fi_uid = 0, fi_gid = 0, fi_mode = m, fi_symlink = False, fi_dir = False, fi_text = t\<rparr>))
     [([''s''], 448, []), ([''s'', ''snap''], 384, ''docs''), ([''projection''], 384, ''projection''),
      ([''conf''], 384, envs_header @ yaml_marker)])"

lemma preparation_reaches_registry_url:
  "is_ok (runtime_plan_of (\<lambda>t. Inr (if t = ''docs'' then sample_snapshot_docs else sample_search_projection)) sample_prepared
     [''s'', ''snap''] [''conf''] ''/conf'' [''projection''] ''lab'' (Inr (the_list sample_snapshot_docs)) ''k'')"
  by code_simp

end
