(* ===== verification/Route_Human.thy ===== *)
theory Route_Human
  imports Route_Build Route_Files
begin

text \<open>
  The materialisers of the routes for human callers: \<open>materialize_trusted_human_onboarding_runtime.py\<close>,
  \<open>materialize_semantic_human_runtime.py\<close>, \<open>materialize_trusted_human_authorization_runtime.py\<close>,
  \<open>materialize_trusted_human_installation_runtime.py\<close> and \<open>materialize_managed_file_ths.py\<close>.
\<close>

section \<open>Onboarding lifecycle routes\<close>

definition onboarding_route_ids :: "string list" where
  "onboarding_route_ids = [''trusted-human-onboarding-sources-get'', ''trusted-human-onboarding-sources-post'',
     ''trusted-human-onboarding-lifecycle-get'', ''trusted-human-onboarding-lifecycle-post'',
     ''trusted-human-onboarding-lifecycle-put'', ''trusted-human-onboarding-approvals-get'',
     ''trusted-human-onboarding-approvals-post'', ''trusted-human-managed-file-upload'',
     ''trusted-human-managed-file-actions-post'', ''trusted-human-managed-file-preview-get'',
     ''trusted-human-ingestion-onboarding-readiness'']"

definition lifecycle_guard :: string where
  "lifecycle_guard = lua_bearer
     @ ''local claims=cjson.decode(ngx.decode_base64(payload) or '' @ [CHR 0x27, CHR 0x27] @ ''); ''
     @ ''if type(claims)~='table' then return ngx.exit(401) end; ''
     @ ''if claims['ouf_actor_type']~='HUMAN' then return ngx.exit(403) end; ''
     @ ''end''"

text \<open>\<open>type(timeout) is int and 1 <= timeout <= 60\<close>\<close>

fun timeout_ok :: "json \<Rightarrow> bool" where
  "timeout_ok (JInt n) = (1 \<le> n \<and> n \<le> 60)"
| "timeout_ok _ = False"

text \<open>\<open>route.get("id", " ").startswith(p)\<close>\<close>

definition id_starts :: "json \<Rightarrow> string \<Rightarrow> bool res" where
  "id_starts route p = bindE (jget route ''id'' (JStr '' '')) (\<lambda>v. case v of
      JStr s \<Rightarrow> Inr (starts_with s p) | _ \<Rightarrow> Inl (TypeError ''object has no attribute startswith''))"

record human_fields =
  hf_policy :: json
  hf_capability :: json
  hf_issuer :: string
  hf_audience :: string
  hf_scope :: string
  hf_service :: string
  hf_port :: json
  hf_uri :: string
  hf_path :: string
  hf_methods :: json
  hf_timeout :: int

definition human_checks :: "json \<Rightarrow> json \<Rightarrow> string \<Rightarrow> human_fields res" where
  "human_checks route installation ref =
     bindE (jget route ''labels'' JNull) (\<lambda>labels.
     bindE (jget route ''x-ouf-policy'' JNull) (\<lambda>policy.
     bindE (jget route ''x-ouf-backend-binding'' JNull) (\<lambda>backend.
     bindE (jget route ''x-ouf-capability'' JNull) (\<lambda>capability.
     bindE (jget (or_object labels) ''exposure'' JNull) (\<lambda>exposure.
     bindE (check (exposure = JStr ''public'') ''trusted HUMAN route must be public'') (\<lambda>_.
     bindE (check (is_obj policy) ''trusted HUMAN route requires OIDC'') (\<lambda>_.
     bindE (require_text policy ''identity'') (\<lambda>identity.
     bindE (check (identity = ''OIDC'') ''trusted HUMAN route requires OIDC'') (\<lambda>_.
     bindE (jneq (jget policy ''allowedActorTypes'' JNull) (jstrs [''HUMAN''])) (\<lambda>bad.
     bindE (check (\<not> bad) ''trusted HUMAN route must allow only HUMAN'') (\<lambda>_.
     bindE (check (is_obj backend \<and> is_obj capability) ''compiled route metadata required'') (\<lambda>_.
     bindE (require (secret_ref ref) secret_error) (\<lambda>_.
     bindE (require_text installation ''issuerUrl'') (\<lambda>issuer.
     bindE (require_text installation ''gatewayAudience'') (\<lambda>audience.
     bindE (require_text policy ''requiredScope'') (\<lambda>scope.
     bindE (require_text backend ''service'') (\<lambda>service.
     bindE (jget backend ''port'' JNull) (\<lambda>port.
     bindE (require_text route ''uri'') (\<lambda>uri.
     bindE (require_text backend ''path'') (\<lambda>path.
     bindE (jget route ''methods'' JNull) (\<lambda>methods.
     bindE (jget policy ''timeoutSeconds'' (JInt 10)) (\<lambda>timeout.
     bindE (check (timeout_ok timeout) ''bounded HUMAN lifecycle timeout required'') (\<lambda>_.
     bindE (check (port_ok port \<and> word_of ''._-'' service) ''invalid backend'') (\<lambda>_.
     bindE (id_starts route ''trusted-human-managed-file-'') (\<lambda>managed.
     bindE (check (\<not> (managed \<and> (service \<noteq> ''ouf-onboarding'' \<or> \<not> json_eq port (JInt 8080))))
       ''managed-file remote upstream requires a verified transport profile'') (\<lambda>_.
     bindE (one_method {''GET'', ''POST'', ''PUT''} ''unsupported HUMAN lifecycle method'' methods) (\<lambda>_.
     bindE (check (CHR ''*'' \<in> set uri \<longrightarrow> bounded_wildcard uri path)
       ''wildcard HUMAN route must preserve bounded namespace'') (\<lambda>_.
     Inr \<lparr>hf_policy = policy, hf_capability = capability, hf_issuer = rstrip_slash issuer, hf_audience = audience,
       hf_scope = scope, hf_service = service, hf_port = port, hf_uri = uri, hf_path = path, hf_methods = methods,
       hf_timeout = number_of timeout\<rparr>))))))))))))))))))))))))))))"

text \<open>The OIDC plugin without the token headers.\<close>

definition no_token_headers :: "(string \<times> json) list" where
  "no_token_headers = [(''set_access_token_header'', JBool False), (''set_id_token_header'', JBool False),
     (''set_userinfo_header'', JBool False)]"

definition human_oidc :: "string \<Rightarrow> string \<Rightarrow> string \<Rightarrow> string \<Rightarrow> json" where
  "human_oidc audience ref issuer scope =
     JObj (oidc_base audience ref issuer @ [(''required_scopes'', jstrs [scope]), audience_claim] @ no_token_headers)"

definition timed_upstream :: "json \<Rightarrow> int \<Rightarrow> int \<Rightarrow> json" where
  "timed_upstream nodes t t' = JObj [(''type'', JStr ''roundrobin''), (''scheme'', JStr ''http''), (''nodes'', nodes),
     (''retries'', JInt 0), (''timeout'', JObj [(''connect'', JInt t), (''send'', JInt t), (''read'', JInt t')])]"

definition streaming_plugin :: "json \<Rightarrow> bool \<Rightarrow> (string \<times> json) list res" where
  "streaming_plugin route streaming = bindE (jget route ''id'' JNull) (\<lambda>i.
     Inr (if i = JStr ''trusted-human-managed-file-upload'' \<and> streaming then [(''proxy-control'', unbuffered)] else []))"

definition lifecycle_route ::
  "human_fields \<Rightarrow> string \<Rightarrow> json \<Rightarrow> json \<Rightarrow> int \<Rightarrow> (string \<times> json) list \<Rightarrow> string \<Rightarrow> string \<Rightarrow> string \<Rightarrow> string \<Rightarrow> json" where
  "lifecycle_route f ref request_id limit size_bytes stream i inst revision capability = JObj [
     (''id'', JStr i), (''uri'', JStr (hf_uri f)), (''methods'', hf_methods f),
     (''labels'', JObj [(''ouf-managed'', JStr ''true''), (''ouf-installation'', JStr inst),
        (''ouf-installation-revision'', JStr revision), (''ouf-capability'', JStr capability),
        (''ouf-surface'', JStr ''TRUSTED_HUMAN_ONBOARDING'')]),
     (''plugins'', JObj ([
        (''request-id'', request_id), (''limit-count'', limit), (''client-control'', size_limit size_bytes),
        (''serverless-pre-function'', lua_phase ''rewrite'' strip_untrusted_headers),
        (''openid-connect'', human_oidc (hf_audience f) ref (hf_issuer f) (hf_scope f)),
        (''serverless-post-function'', lua_phase ''access'' lifecycle_guard)]
        @ stream @ rewrite_to (CHR ''*'' \<in> set (hf_uri f)) (hf_path f))),
     (''upstream'', timed_upstream (node_of (hf_service f) (hf_port f)) (min 10 (hf_timeout f)) (hf_timeout f))]"

definition human_route :: "json \<Rightarrow> json \<Rightarrow> string \<Rightarrow> bool \<Rightarrow> json res" where
  "human_route route installation ref streaming =
     bindE (human_checks route installation ref) (\<lambda>f.
     bindE (plugin_or route ''request-id'') (\<lambda>request_id.
     bindE (plugin_or route ''limit-count'') (\<lambda>limit.
     bindE (bindE (jget (hf_policy f) ''maxRequestBytes'' (JInt 5242880)) py_int) (\<lambda>size_bytes.
     bindE (streaming_plugin route streaming) (\<lambda>stream.
     bindE (require_text route ''id'') (\<lambda>i.
     bindE (require_text installation ''installationId'') (\<lambda>inst.
     bindE (revision_text installation) (\<lambda>revision.
     bindE (require_text (hf_capability f) ''capabilityId'') (\<lambda>capability.
     Inr (lifecycle_route f ref request_id limit size_bytes stream i inst revision capability))))))))))"

definition by_id :: "(json \<times> json) list \<Rightarrow> string list \<Rightarrow> json list" where
  "by_id d ids = map (\<lambda>i. case map_of d (JStr i) of Some r \<Rightarrow> r | None \<Rightarrow> JNull) ids"

definition materialize_onboarding :: "json \<Rightarrow> string \<Rightarrow> bool \<Rightarrow> json res" where
  "materialize_onboarding runtime ref streaming =
     bindE (jget runtime ''x-ouf-installation'' JNull) (\<lambda>installation.
     bindE (check (is_obj installation) ''resolved installation metadata is required'') (\<lambda>_.
     bindE (bindE (runtime_routes runtime) index_ids) (\<lambda>indexed.
     let missing = filter (\<lambda>i. JStr i \<notin> set (dict_keys indexed)) onboarding_route_ids in
     bindE (check (missing = []) (''route not found: '' @ text_join missing)) (\<lambda>_.
     bindE (mapE (\<lambda>r. human_route r installation ref streaming) (by_id indexed onboarding_route_ids)) (\<lambda>routes.
     route_document installation routes)))))"

section \<open>The semantic routes\<close>

text \<open>\<open>route['labels'][k] = v\<close> and \<open>route[k] = v\<close> on a materialised route.\<close>

fun set_key :: "string \<Rightarrow> json \<Rightarrow> json \<Rightarrow> json res" where
  "set_key k v (JObj kvs) = Inr (JObj (dict_set k v kvs))"
| "set_key k v _ = Inl (TypeError ''object does not support item assignment'')"

fun set_path :: "string list \<Rightarrow> json \<Rightarrow> json \<Rightarrow> json res" where
  "set_path [] v r = Inr v"
| "set_path [k] v r = set_key k v r"
| "set_path (k # ks) v r = bindE (jindex r k) (\<lambda>sub. bindE (set_path ks v sub) (\<lambda>sub'. set_key k sub' r))"

definition semantic_binding :: "string \<times> string \<times> string \<times> string \<Rightarrow> json \<Rightarrow> bool res" where
  "semantic_binding c binding = (case c of (i, verb, uri, scope) \<Rightarrow>
     or_chain [Inr (\<not> json_truthy binding), jneq (jget binding ''uri'' JNull) (JStr uri),
       jneq (jget binding ''methods'' JNull) (jstrs [verb])])"

definition in_services :: "json \<Rightarrow> string set \<Rightarrow> bool res" where
  "in_services v names = bindE (jset [v]) (\<lambda>_. Inr (v \<in> JStr ` names))"

definition semantic_drifted :: "string \<times> string \<times> string \<times> string \<Rightarrow> json \<Rightarrow> bool res" where
  "semantic_drifted c binding = (case c of (i, verb, uri, scope) \<Rightarrow>
     bindE (jindex binding ''x-ouf-policy'') (\<lambda>policy.
     bindE (jindex binding ''x-ouf-backend-binding'') (\<lambda>backend.
     or_chain [
       jneq (jget policy ''requiredScope'' JNull) (JStr scope), jneq (jget policy ''identity'' JNull) (JStr ''OIDC''),
       jneq (jget policy ''allowedActorTypes'' JNull) (jstrs [''HUMAN'']),
       jneq (bindE (jindex binding ''x-ouf-capability'') (\<lambda>c. jget c ''capabilityId'' JNull)) (JStr scope),
       bindE (bindE (jget backend ''service'' JNull) (\<lambda>s. in_services s {''ouf-semantic'', ''ouf-semantic-registry''}))
         (\<lambda>ok. Inr (\<not> ok)),
       jneq (jget backend ''port'' JNull) (JInt 8080), jneq (jget backend ''path'' JNull) (JStr uri),
       jneq (jget binding ''vars'' JNull) (semantic_vars i)])))"

definition semantic_extras :: "string \<Rightarrow> json \<Rightarrow> json \<Rightarrow> json res" where
  "semantic_extras i binding route =
     bindE (set_path [''labels'', ''ouf-surface''] (JStr ''TRUSTED_HUMAN_SEMANTIC'') route) (\<lambda>r.
     if map_of semantic_regex i = None then Inr r else bindE (jindex binding ''vars'') (\<lambda>v. set_key ''vars'' v r))"

definition semantic_one :: "json \<Rightarrow> string \<Rightarrow> (json \<times> json) list \<Rightarrow> string \<times> string \<times> string \<times> string \<Rightarrow> json res" where
  "semantic_one installation ref indexed c =
     (let i = fst c; binding = (case map_of indexed (JStr i) of None \<Rightarrow> JNull | Some b \<Rightarrow> b) in
      bindE (semantic_binding c binding) (\<lambda>bad.
      if bad then Inl (ValueError (''SEMANTIC_BINDING_MISSING_OR_CHANGED:'' @ i))
      else bindE (semantic_drifted c binding) (\<lambda>drift.
        if drift then Inl (ValueError (''SEMANTIC_BINDING_CONTRACT_CHANGED:'' @ i))
        else bindE (human_route binding installation ref False) (semantic_extras i binding))))"

definition materialize_semantic :: "json \<Rightarrow> string \<Rightarrow> json res" where
  "materialize_semantic runtime ref =
     bindE (jindex runtime ''x-ouf-installation'') (\<lambda>installation.
     bindE (bindE (bindE (jindex runtime ''routes'') jelements) index_ids) (\<lambda>indexed.
     bindE (mapE (semantic_one installation ref indexed) semantic_routes) (\<lambda>routes.
     bindE (jindex installation ''installationId'') (\<lambda>i.
     bindE (jindex installation ''revision'') (\<lambda>revision.
     Inr (JObj [(''formatVersion'', JStr ''1.0''), (''installationId'', i), (''installationRevision'', revision),
       (''routes'', JList routes)]))))))"

section \<open>The managed-file picker\<close>

definition picker_cap :: string where
  "picker_cap = ''ouf.managed-source.file.upload''"

definition picker_strip :: string where
  "picker_strip = ''return function() for k,_ in pairs(ngx.req.get_headers(0)) do ''
     @ ''local n=k:lower(); if n:sub(1,6)=='x-ouf-' or n=='authorization' ''
     @ ''then ngx.req.clear_header(k) end end end''"

definition filter_id :: "string \<Rightarrow> json list \<Rightarrow> json list res" where
  "filter_id i rs = filterE (\<lambda>r. bindE (jget r ''id'' JNull) (\<lambda>v. Inr (v = JStr i))) rs"

definition picker_mismatch :: "json \<Rightarrow> bool res" where
  "picker_mismatch binding =
     bindE (jindex binding ''x-ouf-policy'') (\<lambda>policy.
     bindE (jindex binding ''x-ouf-capability'') (\<lambda>capability.
     bindE (jindex binding ''x-ouf-backend-binding'') (\<lambda>backend.
     or_chain [
       jneq (jget binding ''uri'' JNull) (JStr ''/api/managed-sources/v1/files''),
       jneq (jindex policy ''identity'') (JStr ''OIDC''), jneq (jindex policy ''requiredScope'') (JStr picker_cap),
       jneq (jindex policy ''allowedActorTypes'') (jstrs [''HUMAN'']),
       jneq (jindex capability ''capabilityId'') (JStr picker_cap),
       jneq (jindex backend ''service'') (JStr ''ouf-onboarding''), jneq (jindex backend ''port'') (JInt 8080),
       jneq (jindex backend ''path'') (JStr ''/api/managed-sources/v1/files'')])))"

definition picker_page :: "json \<Rightarrow> json" where
  "picker_page inst = JObj [
     (''id'', JStr picker_id), (''uri'', JStr ''/trusted-human/managed-files/*''), (''methods'', jstrs [''GET'', ''POST'']),
     (''labels'', JObj [(''ouf-managed'', JStr ''true''), (''ouf-installation'', inst),
        (''ouf-capability'', JStr picker_cap), (''ouf-surface'', JStr ''TRUSTED_HUMAN_MANAGED_FILE'')]),
     (''plugins'', JObj [(''client-control'', size_limit 10485760), (''proxy-control'', unbuffered),
        (''serverless-pre-function'', lua_phase ''rewrite'' picker_strip)]),
     (''upstream'', JObj [(''type'', JStr ''roundrobin''), (''scheme'', JStr ''http''), (''nodes'', onboarding_nodes),
        (''retries'', JInt 0), (''timeout'', JObj [(''connect'', JInt 10), (''send'', JInt 30), (''read'', JInt 30)])])]"

definition picker_login :: json where
  "picker_login = JObj [
     (''id'', JStr login_id), (''uris'', jstrs login_uris), (''methods'', jstrs [''GET'']),
     (''plugins'', JObj [(''client-control'', size_limit 65536),
        (''serverless-pre-function'', lua_phase ''rewrite'' picker_strip)]),
     (''upstream'', JObj [(''type'', JStr ''roundrobin''), (''nodes'', onboarding_nodes), (''retries'', JInt 0),
        (''timeout'', JObj [(''connect'', JInt 3), (''send'', JInt 3), (''read'', JInt 10)])])]"

definition materialize_picker :: "json \<Rightarrow> json res" where
  "materialize_picker runtime =
     bindE (jindex runtime ''x-ouf-installation'') (\<lambda>installation.
     bindE (bindE (bindE (jindex runtime ''routes'') jelements) (filter_id ''trusted-human-managed-file-upload'')) (\<lambda>bindings.
     case bindings of
       [binding] \<Rightarrow>
         bindE (picker_mismatch binding) (\<lambda>bad.
         if bad then Inl (ValueError ''managed-file HUMAN binding mismatch'')
         else bindE (jindex installation ''installationId'') (\<lambda>inst.
           bindE (jindex installation ''revision'') (\<lambda>revision.
           Inr (JObj [(''formatVersion'', JStr ''1.0''), (''installationId'', inst), (''installationRevision'', revision),
             (''routes'', JList [picker_page inst, picker_login])]))))
     | _ \<Rightarrow> Inl (ValueError ''exact managed-file HUMAN binding required'')))"

section \<open>The trusted-human Authorization namespace\<close>

definition max_body :: int where
  "max_body = 5 * 1024 * 1024"

text \<open>\<open>tuple(r.get("methods") or [])\<close>, and \<open>r["methods"][0]\<close>\<close>

definition methods_tuple :: "json \<Rightarrow> json list res" where
  "methods_tuple r = bindE (jget r ''methods'' JNull) (\<lambda>v. if json_truthy v then jelements v else Inr [])"

definition first_item :: "json \<Rightarrow> json res" where
  "first_item v = (case v of
      JList (x # _) \<Rightarrow> Inr x
    | JStr (c # _) \<Rightarrow> Inr (JStr [c])
    | JObj _ \<Rightarrow> Inl (KeyError ''0'')
    | _ \<Rightarrow> Inl (TypeError ''list index out of range''))"

definition auth_validate :: "json \<Rightarrow> unit res" where
  "auth_validate route =
     bindE (jneq (jget route ''uri'' JNull) (JStr auth_namespace)) (\<lambda>bad.
     bindE (check (\<not> bad) ''unexpected trusted HUMAN Authorization namespace'') (\<lambda>_.
     bindE (methods_tuple route) (\<lambda>ms.
     bindE (jset ms) (\<lambda>_.
     bindE (check (ms \<in> (\<lambda>m. [JStr m]) ` set auth_methods) ''unexpected trusted HUMAN Authorization method'') (\<lambda>_.
     bindE (jget route ''x-ouf-capability'' JNull) (\<lambda>cap0. let cap = or_object cap0 in
     bindE (jget route ''x-ouf-policy'' JNull) (\<lambda>policy0. let policy = or_object policy0 in
     bindE (jneq (jget cap ''capabilityId'' JNull) (JStr ''authorization.policy.admin'')) (\<lambda>bad.
     bindE (check (\<not> bad) ''unexpected Authorization admin capability'') (\<lambda>_.
     bindE (or_chain [jneq (jget cap ''owner'' JNull) (JStr ''authorization''),
       jneq (jget cap ''operationType'' JNull) (JStr ''COMMAND'')]) (\<lambda>bad.
     bindE (check (\<not> bad) ''Authorization admin capability semantics changed'') (\<lambda>_.
     bindE (or_chain [bindE (jget cap ''toolEligible'' JNull) (\<lambda>v. Inr (json_truthy v)),
       bindE (jget cap ''humanRequired'' JNull) (\<lambda>v. Inr (\<not> json_truthy v))]) (\<lambda>bad.
     bindE (check (\<not> bad) ''Authorization admin capability must remain HUMAN-only'') (\<lambda>_.
     bindE (jneq (jget policy ''identity'' JNull) (JStr ''OIDC'')) (\<lambda>bad.
     bindE (check (\<not> bad) ''trusted HUMAN Authorization requires OIDC'') (\<lambda>_.
     bindE (jneq (jget policy ''requiredScope'' JNull) (JStr ''authorization.policy.admin'')) (\<lambda>bad.
     bindE (check (\<not> bad) ''Authorization admin scope changed'') (\<lambda>_.
     bindE (jneq (jget policy ''allowedActorTypes'' JNull) (jstrs [''HUMAN''])) (\<lambda>bad.
     bindE (check (\<not> bad) ''trusted HUMAN Authorization must allow HUMAN only'') (\<lambda>_.
     bindE (or_chain [jneq (jget policy ''maxRequestBytes'' JNull) (JInt max_body),
       jneq (jget policy ''timeoutSeconds'' JNull) (JInt 10)]) (\<lambda>bad.
     bindE (check (\<not> bad) ''trusted HUMAN Authorization limits changed'') (\<lambda>_.
     bindE (jneq (jget route ''service_id'' JNull) (JStr ''ouf-onboarding'')) (\<lambda>bad.
     bindE (check (\<not> bad) ''trusted HUMAN Authorization owner changed'') (\<lambda>_.
     bindE (bindE (jget route ''plugins'' JNull) (\<lambda>p. jin ''proxy-rewrite'' (or_object p))) (\<lambda>bad.
     check (\<not> bad) ''wildcard namespace must preserve request path''))))))))))))))))))))))))"

definition auth_binding :: "json \<Rightarrow> bool res" where
  "auth_binding r = (if \<not> is_obj r then Inr False
     else and_then (bindE (jget r ''uri'' JNull) (\<lambda>u. Inr (u = JStr auth_namespace)))
       (or_field_is r ''labels'' ''exposure'' ''public''))"

text \<open>\<open>METHODS.index(r["methods"][0])\<close>\<close>

fun index_in :: "string list \<Rightarrow> json \<Rightarrow> nat res" where
  "index_in [] v = Inl (ValueError ''tuple.index(x): x not in tuple'')"
| "index_in (m # ms) v = (if v = JStr m then Inr 0 else bindE (index_in ms v) (\<lambda>n. Inr (Suc n)))"

definition method_rank :: "json \<Rightarrow> (nat \<times> json) res" where
  "method_rank r = bindE (bindE (jindex r ''methods'') first_item) (\<lambda>m. bindE (index_in auth_methods m) (\<lambda>n. Inr (n, r)))"

definition guarded_plugins :: "json \<Rightarrow> json \<Rightarrow> json \<Rightarrow> (string \<times> json) list \<Rightarrow> json" where
  "guarded_plugins request_id limit oidc access = JObj ([
     (''request-id'', request_id), (''limit-count'', limit), (''client-control'', size_limit max_body),
     (''serverless-pre-function'', lua_phase ''rewrite'' (trusted_pre_function (map JStr trusted_headers))),
     (''openid-connect'', oidc)] @ access)"

definition auth_route :: "json \<Rightarrow> string \<Rightarrow> string \<Rightarrow> string \<Rightarrow> json \<Rightarrow> json res" where
  "auth_route installation issuer audience ref route =
     bindE (auth_validate route) (\<lambda>_.
     bindE (bindE (jindex route ''methods'') first_item) (\<lambda>m.
     bindE (plugin_or route ''request-id'') (\<lambda>request_id.
     bindE (plugin_or route ''limit-count'') (\<lambda>limit.
     bindE (require_text route ''id'') (\<lambda>i.
     bindE (require_text installation ''installationId'') (\<lambda>inst.
     bindE (revision_text installation) (\<lambda>revision.
     Inr (JObj [
       (''id'', JStr i), (''uri'', JStr auth_namespace), (''methods'', JList [m]),
       (''labels'', JObj [(''ouf-managed'', JStr ''true''), (''ouf-installation'', JStr inst),
          (''ouf-installation-revision'', JStr revision), (''ouf-capability'', JStr ''authorization.policy.admin''),
          (''ouf-surface'', JStr ''TRUSTED_HUMAN'')]),
       (''plugins'', guarded_plugins request_id limit (human_oidc audience ref issuer ''authorization.policy.admin'') []),
       (''upstream'', timed_upstream onboarding_nodes 10 10)]))))))))"

definition materialize_authorization :: "json \<Rightarrow> string \<Rightarrow> json res" where
  "materialize_authorization runtime ref =
     bindE (jget runtime ''x-ouf-installation'' JNull) (\<lambda>installation.
     bindE (check (is_obj installation) ''resolved installation metadata is required'') (\<lambda>_.
     bindE (require_https_url installation ''issuerUrl'' False) (\<lambda>issuer.
     bindE (require_text installation ''gatewayAudience'') (\<lambda>audience.
     bindE (require (secret_ref ref) secret_error) (\<lambda>_.
     bindE (bindE (runtime_routes runtime) (filterE auth_binding)) (\<lambda>bindings.
     bindE (check (length bindings = 4) (''expected four trusted HUMAN Authorization bindings, found ''
       @ nat_text (length bindings))) (\<lambda>_.
     bindE (mapE methods_tuple bindings) (\<lambda>ms.
     bindE (jset (concat ms)) (\<lambda>_.
     bindE (check (set ms = (\<lambda>m. [JStr m]) ` set auth_methods)
       ''trusted HUMAN Authorization requires GET/POST/PUT/DELETE'') (\<lambda>_.
     bindE (mapE method_rank bindings) (\<lambda>ranked.
     bindE (mapE (auth_route installation issuer audience ref) (map snd (sort_by (key_le fst) ranked))) (\<lambda>routes.
     route_document installation routes))))))))))))"

section \<open>The trusted-human Installation namespace\<close>

definition installation_namespace :: string where
  "installation_namespace = ''/api/trusted-human/v1/installations/*''"

definition installation_guard :: string where
  "installation_guard = lua_claims
     @ ''if claims['ouf_actor_type']~='HUMAN' then return ngx.exit(403) end; ''
     @ ''end''"

definition correlation_plugin :: json where
  "correlation_plugin = JObj [(''header_name'', JStr ''X-Correlation-ID''), (''include_in_response'', JBool True),
     (''algorithm'', JStr ''uuid'')]"

definition remote_limit :: json where
  "remote_limit = JObj [(''count'', JInt 120), (''time_window'', JInt 60), (''rejected_code'', JInt 429),
     (''key_type'', JStr ''var''), (''key'', JStr ''remote_addr''), (''policy'', JStr ''local'')]"

definition installation_route :: "string \<Rightarrow> string \<Rightarrow> string \<Rightarrow> string \<Rightarrow> string \<Rightarrow> string \<Rightarrow> json" where
  "installation_route inst revision issuer audience ref m = JObj [
     (''id'', JStr (''trusted-human-installation-'' @ lower m)), (''uri'', JStr installation_namespace),
     (''methods'', jstrs [m]),
     (''labels'', JObj [(''ouf-managed'', JStr ''true''), (''ouf-installation'', JStr inst),
        (''ouf-installation-revision'', JStr revision), (''ouf-surface'', JStr ''TRUSTED_HUMAN''),
        (''ouf-owner'', JStr ''installation'')]),
     (''plugins'', guarded_plugins correlation_plugin remote_limit
        (JObj (oidc_base audience ref issuer @ [audience_claim] @ no_token_headers))
        [(''serverless-post-function'', lua_phase ''access'' installation_guard)]),
     (''upstream'', timed_upstream onboarding_nodes 10 10)]"

definition materialize_installation :: "json \<Rightarrow> string \<Rightarrow> json res" where
  "materialize_installation installation ref =
     bindE (check (is_obj installation) ''resolved installation metadata is required'') (\<lambda>_.
     bindE (require_https_url installation ''issuerUrl'' False) (\<lambda>issuer.
     bindE (require_text installation ''gatewayAudience'') (\<lambda>audience.
     bindE (require_text installation ''installationId'') (\<lambda>inst.
     bindE (require_text installation ''checksum'') (\<lambda>checksum.
     bindE (require (secret_ref ref) secret_error) (\<lambda>_.
     bindE (revision_text installation) (\<lambda>revision.
     bindE (jget installation ''revision'' JNull) (\<lambda>number.
     Inr (JObj [(''formatVersion'', JStr ''1.0''), (''installationId'', JStr inst), (''installationRevision'', number),
       (''installationChecksum'', JStr checksum),
       (''routes'', JList (map (installation_route inst revision issuer audience ref) installation_methods))])))))))))"

text \<open>What \<open>main\<close> reads of a projection.\<close>

definition installation_of_projection :: "json \<Rightarrow> json res" where
  "installation_of_projection projection =
     bindE (jget projection ''gateway'' JNull) (\<lambda>g. let gateway = or_object g in
     bindE (jget projection ''installationId'' JNull) (\<lambda>i.
     bindE (jget projection ''revision'' JNull) (\<lambda>revision.
     bindE (jget projection ''checksum'' JNull) (\<lambda>checksum.
     bindE (jget gateway ''issuerUrl'' JNull) (\<lambda>issuer.
     bindE (jget gateway ''requiredAudience'' JNull) (\<lambda>audience.
     Inr (JObj [(''installationId'', i), (''revision'', revision), (''checksum'', checksum), (''issuerUrl'', issuer),
       (''gatewayAudience'', audience)])))))))"

end
