(* ===== verification/Route_Build_Safety.thy ===== *)
theory Route_Build_Safety
  imports Route_Build Route_Scripts_Safety
begin

text \<open>
  What the materialisers of the ingress and internal routes write: quoted names cannot leave their
  place in the Lua text, an internal route keeps its workload guard, and the deployers accept it.
\<close>

section \<open>Names in the Lua text\<close>

text \<open>
  A reader of Lua's quoted strings and of the tables \<open>["a"]=true,...\<close>: the text after the opening
  quote gives the string and what follows the closing quote.
\<close>

definition lua_escapes :: "(char \<times> char) list" where
  "lua_escapes = [(CHR ''n'', CHR 0x0A), (CHR ''r'', CHR 0x0D), (CHR ''t'', CHR 0x09), (CHR ''b'', CHR 0x08),
     (CHR ''f'', CHR 0x0C), (CHR 0x22, CHR 0x22), (CHR 0x5C, CHR 0x5C)]"

fun read_literal :: "string \<Rightarrow> (string \<times> string) option" where
  "read_literal [] = None"
| "read_literal (c # s) =
     (if c = CHR 0x22 then Some ([], s)
      else if c = CHR 0x5C
      then (case s of [] \<Rightarrow> None
            | e # t \<Rightarrow> (case map_of lua_escapes e of None \<Rightarrow> None
                | Some d \<Rightarrow> map_option (\<lambda>(x, r). (d # x, r)) (read_literal t)))
      else map_option (\<lambda>(x, r). (c # x, r)) (read_literal s))"

definition read_entry :: "string \<Rightarrow> (string \<times> string) option" where
  "read_entry s = Option.bind (after_prefix [CHR ''['', CHR 0x22] s) (\<lambda>t. Option.bind (read_literal t) (\<lambda>(x, r).
     map_option (Pair x) (after_prefix '']=true'' r)))"

fun read_entries :: "nat \<Rightarrow> string \<Rightarrow> (string list \<times> string) option" where
  "read_entries 0 s = None"
| "read_entries (Suc n) s = Option.bind (read_entry s) (\<lambda>(x, r).
     case after_prefix '','' r of
       None \<Rightarrow> Some ([x], r)
     | Some t \<Rightarrow> map_option (\<lambda>(xs, r'). (x # xs, r')) (read_entries n t))"

definition read_table :: "string \<Rightarrow> (string list \<times> string) option" where
  "read_table s = read_entries (length s) s"

definition quotable :: "char \<Rightarrow> bool" where
  "quotable c \<longleftrightarrow> (CHR '' '' \<le> c \<and> c \<le> CHR ''~'') \<or> c \<in> snd ` set lua_escapes"

lemma quotable_plain:
  "quotable c \<longleftrightarrow> (CHR '' '' \<le> c \<and> c \<le> CHR ''~'') \<or> c \<in> {CHR 0x0A, CHR 0x0D, CHR 0x09, CHR 0x08, CHR 0x0C}"
proof -
  have escapes: "snd ` set lua_escapes = {CHR 0x22, CHR 0x5C} \<union> {CHR 0x0A, CHR 0x0D, CHR 0x09, CHR 0x08, CHR 0x0C}"
    unfolding lua_escapes_def by (simp add: insert_commute)
  have "c \<in> {CHR 0x22, CHR 0x5C} \<Longrightarrow> CHR '' '' \<le> c \<and> c \<le> CHR ''~''" by (elim insertE emptyE) simp_all
  then show ?thesis unfolding quotable_def escapes by blast
qed

lemma read_json_char:
  "quotable c \<Longrightarrow> read_literal (json_char c @ s) = map_option (\<lambda>(x, r). (c # x, r)) (read_literal s)"
  by (auto simp: quotable_def json_char_def lua_escapes_def)

lemma read_json_text:
  "list_all quotable s \<Longrightarrow> read_literal (concat (map json_char s) @ CHR 0x22 # r) = Some (s, r)"
  by (induction s) (simp_all add: read_json_char)

lemma read_quoted_entry:
  assumes "list_all quotable s"
  shows "read_entry (''['' @ lua_quote s @ '']=true'' @ r) = Some (s, r)"
  using assms by (simp add: read_entry_def lua_quote_def json_text_def after_prefix_def read_json_text)

lemma true_table_Cons:
  "true_table (a # b # names) = ''['' @ lua_quote a @ '']=true'' @ '','' @ true_table (b # names)"
  "true_table [a] = ''['' @ lua_quote a @ '']=true''"
  by (simp_all add: true_table_def)

lemma read_quoted_entries:
  assumes "list_all (list_all quotable) names" and "names \<noteq> []" and "length names \<le> n"
    and "after_prefix '','' r = None"
  shows "read_entries n (true_table names @ r) = Some (names, r)"
  using assms
proof (induction names arbitrary: n)
  case Nil
  then show ?case by simp
next
  case (Cons a names)
  from Cons.prems(3) obtain m where n: "n = Suc m" "length names \<le> m" by (cases n) auto
  have a: "list_all quotable a" using Cons.prems(1) by simp
  show ?case
  proof (cases names)
    case Nil
    then show ?thesis using read_quoted_entry [OF a, of r] Cons.prems(4) by (simp add: n true_table_Cons)
  next
    case (Cons b bs)
    have ih: "read_entries m (true_table names @ r) = Some (names, r)"
      using Cons.IH Cons.prems n(2) Cons by simp
    from read_quoted_entry [OF a, of "'','' @ true_table names @ r"] ih show ?thesis
      by (simp add: n Cons true_table_Cons after_prefix_def)
  qed
qed

lemma true_table_length: "length names \<le> length (true_table names)"
proof (induction names rule: induct_list012)
  case (3 a b names)
  then show ?case by (simp add: true_table_Cons)
qed (simp_all add: true_table_Cons true_table_def)

lemma read_quoted_table:
  assumes "list_all (list_all quotable) names" and "names \<noteq> []" and "after_prefix '','' r = None"
  shows "read_table (true_table names @ r) = Some (names, r)"
  unfolding read_table_def
  using true_table_length [of names] by (intro read_quoted_entries assms) simp

text \<open>
  A character that JSON writes with a four-digit escape has no reading: Lua has no such escape, so the
  text of a name with one cannot be read.
\<close>

lemma read_json_unquotable: "\<not> quotable c \<Longrightarrow> read_literal (json_char c @ s) = None"
  by (auto simp: quotable_def json_char_def lua_escapes_def)

lemma read_json_text_none:
  "\<not> list_all quotable s \<Longrightarrow> read_literal (concat (map json_char s) @ r) = None"
proof (induction s)
  case (Cons c s)
  then show ?case by (cases "quotable c") (simp_all add: read_json_char read_json_unquotable)
qed simp

lemma read_entry_none:
  "\<not> list_all quotable s \<Longrightarrow> read_entry (''['' @ lua_quote s @ r) = None"
  using read_json_text_none [of s "CHR 0x22 # r"]
  by (simp add: read_entry_def lua_quote_def json_text_def after_prefix_def)

lemma read_entries_none:
  assumes "\<not> list_all (list_all quotable) names" and "length names \<le> n"
  shows "read_entries n (true_table names @ r) = None"
  using assms
proof (induction names arbitrary: n)
  case Nil
  then show ?case by simp
next
  case (Cons a names)
  from Cons.prems(2) obtain m where n: "n = Suc m" "length names \<le> m" by (cases n) auto
  show ?case
  proof (cases "list_all quotable a")
    case False
    then show ?thesis
      using read_entry_none [OF False, of "'']=true'' @ r"]
        read_entry_none [OF False, of "'']=true'' @ '','' @ true_table names @ r"]
      by (cases names) (simp_all add: n true_table_Cons)
  next
    case True
    with Cons.prems(1) obtain b bs where names: "names = b # bs" by (cases names) auto
    have "read_entries m (true_table names @ r) = None" using Cons True n(2) by simp
    with read_quoted_entry [OF True, of "'','' @ true_table names @ r"] show ?thesis
      by (simp add: n names true_table_Cons after_prefix_def)
  qed
qed

text \<open>
  C21. The access function of an internal route admits exactly the configured services or cannot be loaded
  at all. After the fixed claims code stands the allow-list. When the names are made of printable ASCII and
  the control characters that have a short escape, a reader of Lua's quoted strings finds in it exactly the
  services of the binding, and the fixed text of the guard follows it: a name cannot close its quotes and
  add code or another name. When a name has any other character, the list has no reading, because JSON
  writes such a character with an escape that Lua does not have.
\<close>

theorem guard_admits_configured:
  assumes "services \<noteq> []"
  shows "\<exists>after. workload_guard services actors = lua_claims @ ''local allowed_services={'' @ after
    \<and> (if \<forall>s \<in> set services. \<forall>c \<in> set s. (CHR '' '' \<le> c \<and> c \<le> CHR ''~'')
            \<or> c \<in> {CHR 0x0A, CHR 0x0D, CHR 0x09, CHR 0x08, CHR 0x0C}
       then \<exists>rest. read_table after = Some (services, rest) \<and> starts_with rest ''}; local allowed_actors={''
       else read_table after = None)"
proof -
  obtain more where guard: "workload_guard services actors = lua_claims @ ''local allowed_services={'' @ true_table services
      @ ''}; '' @ ''local allowed_actors={'' @ more"
    by (rule that [OF workload_guard_def])
  define rest where "rest = ''}; '' @ ''local allowed_actors={'' @ more"
  have rest: "starts_with rest ''}; local allowed_actors={''" "after_prefix '','' rest = None"
    by (simp_all add: rest_def starts_with_def after_prefix_def)
  have plain: "list_all quotable = (\<lambda>s. \<forall>c \<in> set s. (CHR '' '' \<le> c \<and> c \<le> CHR ''~'')
      \<or> c \<in> {CHR 0x0A, CHR 0x0D, CHR 0x09, CHR 0x08, CHR 0x0C})"
    by (rule ext, subst list_all_iff, rule ball_cong [OF refl quotable_plain])
  have q: "(\<forall>s \<in> set services. \<forall>c \<in> set s. (CHR '' '' \<le> c \<and> c \<le> CHR ''~'')
      \<or> c \<in> {CHR 0x0A, CHR 0x0D, CHR 0x09, CHR 0x08, CHR 0x0C}) \<longleftrightarrow> list_all (list_all quotable) services"
    unfolding plain by (simp only: list_all_iff)
  have "read_table (true_table services @ rest) = None" if "\<not> list_all (list_all quotable) services"
    unfolding read_table_def
    by (rule read_entries_none [OF that]) (use true_table_length [of services] in simp)
  then have "if list_all (list_all quotable) services
    then \<exists>r. read_table (true_table services @ rest) = Some (services, r) \<and> starts_with r ''}; local allowed_actors={''
    else read_table (true_table services @ rest) = None"
    using read_quoted_table [OF _ assms rest(2)] rest(1)
    by (cases "list_all (list_all quotable) services") (simp_all only: if_P if_not_P simp_thms, blast)
  with guard [folded rest_def] show ?thesis unfolding q by blast
qed

theorem guard_admits_configured_witness:
  "(\<exists>after rest. workload_guard [''a'' @ [CHR 0x22] @ '']=true,'', ''ouf-udp''] [''SERVICE'']
        = lua_claims @ ''local allowed_services={'' @ after
      \<and> read_table after = Some ([''a'' @ [CHR 0x22] @ '']=true,'', ''ouf-udp''], rest))
   \<and> (\<exists>after. workload_guard [''mobilit'' @ [CHR 0xE0]] [''SERVICE'']
        = lua_claims @ ''local allowed_services={'' @ after \<and> read_table after = None)"
proof
  let ?good = "[''a'' @ [CHR 0x22] @ '']=true,'', ''ouf-udp'']" and ?bad = "[''mobilit'' @ [CHR 0xE0]]"
  let ?plain = "\<lambda>services. \<forall>s \<in> set services. \<forall>c \<in> set s. (CHR '' '' \<le> c \<and> c \<le> CHR ''~'')
      \<or> c \<in> {CHR 0x0A, CHR 0x0D, CHR 0x09, CHR 0x08, CHR 0x0C}"
  have good: "?plain ?good" and bad: "\<not> ?plain ?bad" by simp_all
  have "?good \<noteq> []" "?bad \<noteq> []" by simp_all
  note guards = this [THEN guard_admits_configured, of "[''SERVICE'']"]
  show "\<exists>after rest. workload_guard ?good [''SERVICE''] = lua_claims @ ''local allowed_services={'' @ after
      \<and> read_table after = Some (?good, rest)"
    using guards(1) [unfolded if_P [OF good]] by blast
  show "\<exists>after. workload_guard ?bad [''SERVICE''] = lua_claims @ ''local allowed_services={'' @ after
      \<and> read_table after = None"
    using guards(2) [unfolded if_not_P [OF bad]] .
qed

section \<open>Stripping\<close>

lemma word_no_space: "word_of ''._-'' s \<Longrightarrow> c \<in> set s \<Longrightarrow> \<not> is_space c"
  by (auto simp: word_of_def list_all_iff is_space_def is_alpha_def is_digit_def)

lemma strip_no_space: "(\<And>c. c \<in> set s \<Longrightarrow> \<not> is_space c) \<Longrightarrow> strip s = s"
proof -
  assume free: "\<And>c. c \<in> set s \<Longrightarrow> \<not> is_space c"
  have "dropWhile is_space t = t" if "set t \<subseteq> set s" for t
    using free that by (cases t) auto
  from this [of s] this [of "rev s"] show ?thesis by (simp add: strip_def)
qed

lemma strip_word: "word_of ''._-'' s \<Longrightarrow> strip s = s"
  by (rule strip_no_space) (rule word_no_space)

lemma require_text_Inr:
  "require_text v k = Inr s \<longleftrightarrow> (\<exists>t. jget v k JNull = Inr (JStr t) \<and> s = strip t \<and> s \<noteq> [])"
  by (cases "jget v k JNull") (auto simp: require_text_def split: json.splits)

lemma check_Inr [simp]: "check b msg = Inr u \<longleftrightarrow> b"
  by (simp add: check_def require_def)

section \<open>One internal route\<close>

lemma m2m_checks_facts:
  assumes "m2m_checks route installation ref = Inr f"
  obtains policy services where "jget route ''x-ouf-policy'' JNull = Inr policy"
    "jget policy ''allowedServiceIdentities'' JNull = Inr services" "text_list services" "if_services f = texts services"
    "\<not> list_ex (\<lambda>s. starts_with s ''installation://'') (texts services)" "secret_ref ref"
    "one_method {''GET'', ''POST'', ''PUT'', ''DELETE''} ''exactly one supported method is required'' (if_methods f) = Inr ()"
    "require_text policy ''requiredScope'' = Inr (if_scope f)"
    "require_text installation ''gatewayAudience'' = Inr (if_audience f)"
    "require_text route ''uri'' = Inr (if_uri f)"
    "word_of ''._-'' (if_service f)" "port_ok (if_port f)"
    "if_wildcard f \<longrightarrow> bounded_wildcard (if_uri f) (if_path f)"
  using assms by (auto simp: m2m_checks_def bindE_Inr_iff require_Inr_iff)

lemma materialize_route_cases:
  assumes "materialize_route route installation ref = Inr v"
  obtains f i inst revision capability request_id limit where "m2m_checks route installation ref = Inr f"
    "require_text route ''id'' = Inr i" "v = m2m_route f ref request_id limit i inst revision capability"
  using assms unfolding materialize_route_def bindE_Inr_iff Inr_inject by blast

lemma one_method_Inr:
  "one_method supported msg methods = Inr u \<Longrightarrow> \<exists>m \<in> supported. methods = JList [JStr m]"
  by (auto simp: one_method_def bindE_Inr_iff jset_def split: json.splits list.splits if_splits)

text \<open>A materialised route passes the deployer's check when its path is absolute.\<close>

lemma internal_route_accepted:
  assumes v: "materialize_route route installation ref = Inr v" and i: "require_text route ''id'' = Inr i"
    and word: "word_of ''._-'' i" and new: "i \<notin> set ids"
  shows "validate_route v ids =
    (if starts_with (route_uri (the_fields v)) ''/'' then Inr (ids @ [i]) else Inl (ValueError ''invalid route uri''))"
    and "route_id (the_fields v) = Inr i"
proof -
  from v obtain f i' inst revision capability request_id limit where f: "m2m_checks route installation ref = Inr f"
    "require_text route ''id'' = Inr i'" and V: "v = m2m_route f ref request_id limit i' inst revision capability"
    by (rule materialize_route_cases)
  have i': "i' = i" using f(2) i by simp
  from f(1) obtain m where m: "if_methods f = JList [JStr m]"
    by (rule m2m_checks_facts) (auto dest: one_method_Inr)
  show "validate_route v ids =
    (if starts_with (route_uri (the_fields v)) ''/'' then Inr (ids @ [i]) else Inl (ValueError ''invalid route uri''))"
    using word new by (simp add: V m2m_route_def i' m validate_route_def or_get_def or_object_def required_plugins_def
        check_plugin_def route_uri_def)
  show "route_id (the_fields v) = Inr i"
    by (simp add: V m2m_route_def i' route_id_def)
qed

section \<open>The internal materialisation\<close>

lemma fromkeys_acc: "distinct d \<Longrightarrow>
  distinct (foldl (\<lambda>d x. if x \<in> set d then d else d @ [x]) d xs)
  \<and> set (foldl (\<lambda>d x. if x \<in> set d then d else d @ [x]) d xs) = set d \<union> set xs"
  by (induction xs arbitrary: d) auto

lemma distinct_fromkeys [simp]: "distinct (fromkeys xs)"
  using fromkeys_acc [of "[]" xs] by (simp add: fromkeys_def)

lemma set_fromkeys [simp]: "set (fromkeys xs) = set xs"
  using fromkeys_acc [of "[]" xs] by (simp add: fromkeys_def)

lemma index_route_id:
  assumes "map_of (foldl index_route d rs) i = Some r"
    and "\<And>j q. map_of d j = Some q \<Longrightarrow> q \<in> S \<and> jget q ''id'' JNull = Inr (JStr j)" and "set rs \<subseteq> S"
  shows "r \<in> S \<and> jget r ''id'' JNull = Inr (JStr i)"
  using assms
proof (induction rs arbitrary: d)
  case Nil
  then show ?case by simp
next
  case (Cons x rs)
  have "map_of (index_route d x) j = Some q \<Longrightarrow> q \<in> S \<and> jget q ''id'' JNull = Inr (JStr j)" for j q
    using Cons.prems(2) [of j q] Cons.prems(3)
    by (cases x) (auto simp: dict_set_lookup split: option.splits json.splits if_splits)
  with Cons.IH [of "index_route d x"] Cons.prems show ?case by simp
qed

text \<open>The bindings that a materialisation uses, one per wanted id.\<close>

lemma indexed_routes_bound:
  assumes "filter (\<lambda>i. i \<notin> set (dict_keys (foldl index_route [] rs))) ids = []"
  shows "list_all2 (\<lambda>i r. r \<in> set rs \<and> jget r ''id'' JNull = Inr (JStr i)) ids
    (indexed_routes (foldl index_route [] rs) ids)"
proof -
  define d where "d = foldl index_route [] rs"
  have "(case map_of d i of Some r \<Rightarrow> r | None \<Rightarrow> JNull) \<in> set rs
      \<and> jget (case map_of d i of Some r \<Rightarrow> r | None \<Rightarrow> JNull) ''id'' JNull = Inr (JStr i)" if "i \<in> set ids" for i
  proof -
    from assms that have "i \<in> set (dict_keys d)" by (auto simp: filter_empty_conv d_def)
    then obtain r where r: "map_of d i = Some r" by (auto simp: dict_keys_def map_of_eq_None_iff dest!: weak_map_of_SomeI)
    from index_route_id [OF r [unfolded d_def], of "set rs"] r show ?thesis by simp
  qed
  then show ?thesis by (simp add: indexed_routes_def d_def [symmetric] list_all2_map2 list_all2_same)
qed

lemma accepted_in_order:
  assumes "list_all2 (\<lambda>i r. jget r ''id'' JNull = Inr (JStr i)) ids bs"
    and "list_all2 (\<lambda>r v. materialize_route r installation ref = Inr v) bs vs"
    and "list_all (word_of ''._-'') ids" and "distinct (before @ ids)"
  shows "map (\<lambda>v. route_id (the_fields v)) vs = map Inr ids \<and> foldE validate_route vs before =
    (if list_all (\<lambda>v. starts_with (route_uri (the_fields v)) ''/'') vs then Inr (before @ ids)
     else Inl (ValueError ''invalid route uri''))"
  using assms
proof (induction ids arbitrary: bs vs before)
  case Nil
  then show ?case by simp
next
  case (Cons i ids)
  from Cons.prems(1,2) obtain b bs' v vs' where split: "bs = b # bs'" "vs = v # vs'"
    and b: "jget b ''id'' JNull = Inr (JStr i)" "materialize_route b installation ref = Inr v"
    and rest: "list_all2 (\<lambda>i r. jget r ''id'' JNull = Inr (JStr i)) ids bs'"
      "list_all2 (\<lambda>r v. materialize_route r installation ref = Inr v) bs' vs'"
    by (auto simp: list_all2_Cons1)
  have word: "word_of ''._-'' i" using Cons.prems(3) by simp
  then have named: "require_text b ''id'' = Inr i"
    using b(1) strip_word [OF word] by (auto simp: require_text_Inr word_of_def)
  have new: "i \<notin> set before" using Cons.prems(4) by simp
  note head = internal_route_accepted [OF b(2) named word new]
  have dist: "distinct ((before @ [i]) @ ids)" using Cons.prems(4) by auto
  from Cons.IH [OF rest _ dist] Cons.prems(3) head show ?case by (simp add: split)
qed

lemma materialize_internal_cases:
  assumes "materialize_internal runtime ids ref = Inr doc"
  obtains installation rs vs where "jget runtime ''x-ouf-installation'' JNull = Inr installation"
    "fromkeys ids \<noteq> []" "runtime_routes runtime = Inr rs"
    "filter (\<lambda>i. i \<notin> set (dict_keys (foldl index_route [] rs))) (fromkeys ids) = []"
    "list_all2 (\<lambda>r v. materialize_route r installation ref = Inr v)
       (indexed_routes (foldl index_route [] rs) (fromkeys ids)) vs"
    "route_document installation vs = Inr doc"
  using assms by (auto simp: materialize_internal_def bindE_Inr_iff Let_def mapE_Inr_iff)

lemma route_document_routes: "route_document installation vs = Inr doc \<Longrightarrow> jget doc ''routes'' JNull = Inr (JList vs)"
  by (auto simp: route_document_def bindE_Inr_iff)

text \<open>
  A governed internal route of a runtime: the access function admits the services of a binding of the
  runtime with the same id, none of them a placeholder, and the token check is the strict one with a
  reference to the client secret.
\<close>

definition governed_internal :: "json list \<Rightarrow> string \<Rightarrow> string \<Rightarrow> json \<Rightarrow> bool" where
  "governed_internal bs ref i v \<longleftrightarrow>
     (\<exists>b \<in> set bs. \<exists>policy services plugins audience issuer scope.
        jget b ''id'' JNull = Inr (JStr i) \<and> jget b ''x-ouf-policy'' JNull = Inr policy
        \<and> jget policy ''allowedServiceIdentities'' JNull = Inr services \<and> text_list services
        \<and> (\<forall>s \<in> set (texts services). \<not> starts_with s ''installation://'')
        \<and> require_text policy ''requiredScope'' = Inr scope
        \<and> jget v ''plugins'' JNull = Inr plugins
        \<and> jget plugins ''serverless-pre-function'' JNull = Inr (lua_phase ''rewrite'' strip_untrusted_headers)
        \<and> jget plugins ''serverless-post-function'' JNull
            = Inr (lua_phase ''access'' (workload_guard (texts services) [''SERVICE'']))
        \<and> jget plugins ''openid-connect'' JNull = Inr (oidc_plugin audience ref issuer scope) \<and> secret_ref ref)"

lemma materialized_governed:
  assumes "materialize_route b installation ref = Inr v" and "b \<in> set bs" and "jget b ''id'' JNull = Inr (JStr i)"
  shows "governed_internal bs ref i v"
proof -
  from assms(1) obtain f j inst revision capability request_id limit where f: "m2m_checks b installation ref = Inr f"
    and v: "v = m2m_route f ref request_id limit j inst revision capability"
    by (rule materialize_route_cases)
  from f show ?thesis
  proof (rule m2m_checks_facts)
    fix policy services
    assume "jget b ''x-ouf-policy'' JNull = Inr policy" "jget policy ''allowedServiceIdentities'' JNull = Inr services"
      "text_list services" "if_services f = texts services"
      "\<not> list_ex (\<lambda>s. starts_with s ''installation://'') (texts services)" "secret_ref ref"
      "require_text policy ''requiredScope'' = Inr (if_scope f)"
    with assms(2,3) show ?thesis
      unfolding governed_internal_def v m2m_route_def
      by (intro bexI [of _ b] exI [of _ policy] exI [of _ services] exI conjI) (auto simp: list_ex_iff)
  qed
qed

text \<open>
  C13. What \<open>materialize_apisix_internal_m2m_routes.py\<close> writes for well-formed ids is what
  \<open>deploy_internal_m2m_routes.py\<close> accepts: one route per wanted id, in order and without
  duplicates; each keeps the allow-list, the scope and the strict token check of its binding; the
  deployer's validation returns exactly these ids, and the only thing it can still refuse is a path
  that does not start with a slash.
\<close>

theorem internal_materialization_deploys:
  assumes "materialize_internal runtime ids ref = Inr doc" and "list_all (word_of ''._-'') ids"
  shows "\<exists>bs vs. runtime_routes runtime = Inr bs \<and> jget doc ''routes'' JNull = Inr (JList vs)
    \<and> list_all2 (\<lambda>i v. route_id (the_fields v) = Inr i \<and> governed_internal bs ref i v) (fromkeys ids) vs
    \<and> validate_routes (JList vs) =
        (if list_all (\<lambda>v. starts_with (route_uri (the_fields v)) ''/'') vs then Inr (fromkeys ids)
         else Inl (ValueError ''invalid route uri''))"
proof -
  from assms(1) obtain installation bs vs where some: "fromkeys ids \<noteq> []" and bs: "runtime_routes runtime = Inr bs"
    and all: "filter (\<lambda>i. i \<notin> set (dict_keys (foldl index_route [] bs))) (fromkeys ids) = []"
    and vs: "list_all2 (\<lambda>r v. materialize_route r installation ref = Inr v)
       (indexed_routes (foldl index_route [] bs) (fromkeys ids)) vs"
    and doc: "route_document installation vs = Inr doc"
    by (rule materialize_internal_cases)
  note bound = indexed_routes_bound [OF all]
  have named: "list_all2 (\<lambda>i r. jget r ''id'' JNull = Inr (JStr i)) (fromkeys ids)
      (indexed_routes (foldl index_route [] bs) (fromkeys ids))"
    using bound by (rule list_all2_mono) simp
  have words: "list_all (word_of ''._-'') (fromkeys ids)" using assms(2) by (simp add: list_all_iff)
  note order = accepted_in_order [OF named vs words, of "[]", simplified]
  have len: "length vs = length (fromkeys ids)" using bound vs by (simp add: list_all2_lengthD)
  have "list_all2 (\<lambda>i v. governed_internal bs ref i v) (fromkeys ids) vs"
    by (rule list_all2_trans [OF _ bound vs]) (blast intro: materialized_governed)
  moreover have "list_all2 (\<lambda>i v. route_id (the_fields v) = Inr i) (fromkeys ids) vs"
    using order len by (simp add: list_all2_conv_all_nth) (metis nth_map)
  ultimately have "list_all2 (\<lambda>i v. route_id (the_fields v) = Inr i \<and> governed_internal bs ref i v) (fromkeys ids) vs"
    by (simp add: list_all2_conv_all_nth)
  moreover have "vs \<noteq> []" using some len by (metis length_0_conv)
  ultimately show ?thesis
    using bs route_document_routes [OF doc] order by (auto simp: validate_routes_def)
qed

definition sample_m2m_binding :: json where
  "sample_m2m_binding = JObj [
     (''id'', JStr ''udp-read''), (''uri'', JStr ''/internal/udp/*''), (''methods'', jstrs [''GET'']),
     (''labels'', jobj1 ''exposure'' (JStr ''internal'')),
     (''x-ouf-policy'', JObj [(''identity'', JStr ''M2M''), (''allowedServiceIdentities'', jstrs [''ouf-udp'']),
        (''allowedActorTypes'', jstrs [''SERVICE'']), (''requiredScope'', JStr ''udp.read'')]),
     (''x-ouf-capability'', jobj1 ''capabilityId'' (JStr ''udp.read'')),
     (''x-ouf-backend-binding'', JObj [(''service'', JStr ''ouf-udp''), (''port'', JInt 8080), (''path'', JStr ''/internal/udp/*'')])]"

definition sample_installation :: json where
  "sample_installation = JObj [(''installationId'', JStr ''inst''), (''revision'', JInt 3), (''checksum'', JStr ''c''),
     (''issuerUrl'', JStr ''https://id.example/realms/ouf''), (''gatewayAudience'', JStr ''gw'')]"

definition sample_build :: json where
  "sample_build = JObj [(''x-ouf-installation'', sample_installation), (''routes'', JList [sample_m2m_binding])]"

lemmas build_eval = jobj1_def jstrs_def or_object_def check_def jneq_def json_eq_def require_text_def strip_def is_space_def
  secret_ref_def starts_with_def one_method_def jset_def word_of_def is_alpha_def is_digit_def ends_with_def
  bounded_wildcard_def sort_by_def key_le_def dict_keys_def runtime_routes_def revision_text_def plugin_or_def
  plugin_of_def route_document_def Let_def suffix_to_prefix

lemma sample_materialized: "\<exists>doc. materialize_internal sample_build [''udp-read'', ''udp-read''] ''$ENV://S'' = Inr doc"
  by (simp add: materialize_internal_def sample_build_def sample_installation_def sample_m2m_binding_def build_eval
      fromkeys_def indexed_routes_def materialize_route_def m2m_checks_def)

theorem internal_materialization_deploys_witness:
  "\<exists>doc. materialize_internal sample_build [''udp-read'', ''udp-read''] ''$ENV://S'' = Inr doc
    \<and> (\<exists>bs vs. runtime_routes sample_build = Inr bs \<and> jget doc ''routes'' JNull = Inr (JList vs)
    \<and> list_all2 (\<lambda>i v. route_id (the_fields v) = Inr i \<and> governed_internal bs ''$ENV://S'' i v)
        (fromkeys [''udp-read'', ''udp-read'']) vs
    \<and> validate_routes (JList vs) =
        (if list_all (\<lambda>v. starts_with (route_uri (the_fields v)) ''/'') vs then Inr (fromkeys [''udp-read'', ''udp-read''])
         else Inl (ValueError ''invalid route uri'')))"
proof -
  obtain doc where doc: "materialize_internal sample_build [''udp-read'', ''udp-read''] ''$ENV://S'' = Inr doc"
    using sample_materialized by blast
  have "list_all (word_of ''._-'') [''udp-read'', ''udp-read'']"
    by (simp add: word_of_def is_alpha_def is_digit_def)
  from internal_materialization_deploys [OF doc this] doc show ?thesis by blast
qed

section \<open>The public MCP endpoint\<close>

lemma unique_acc:
  "set (foldl (\<lambda>d v. if list_ex (json_eq v) d then d else d @ [v]) d vs) \<subseteq> set d \<union> set vs
   \<and> (\<forall>v \<in> set d \<union> set vs. \<exists>u \<in> set (foldl (\<lambda>d v. if list_ex (json_eq v) d then d else d @ [v]) d vs). json_eq v u)"
proof (induction vs arbitrary: d)
  case Nil
  then show ?case using json_eq_refl by fastforce
next
  case (Cons x vs)
  show ?case
  proof (cases "list_ex (json_eq x) d")
    case True
    then obtain y where y: "y \<in> set d" "json_eq x y" by (auto simp: list_ex_iff)
    from Cons.IH [of d] y True show ?thesis
      by (auto, meson json_eq_trans Un_iff)
  next
    case False
    from Cons.IH [of "d @ [x]"] False show ?thesis by auto
  qed
qed

lemma stripped_headers_cover:
  assumes "stripped_headers vs = Inr hs"
  shows "set hs \<subseteq> set vs" and "\<forall>v \<in> set vs. \<exists>h \<in> set hs. json_eq v h"
proof -
  have "set hs = set (unique_values vs)"
    using assms by (auto simp: stripped_headers_def sorted_values_def bindE_Inr_iff split: if_splits)
  then show "set hs \<subseteq> set vs" "\<forall>v \<in> set vs. \<exists>h \<in> set hs. json_eq v h"
    using unique_acc [of "[]" vs] by (auto simp: unique_values_def)
qed

lemma require_https_url_Inr:
  "require_https_url v k b = Inr s \<longleftrightarrow>
     (\<exists>t u. require_text v k = Inr t \<and> s = rstrip_slash t \<and> urlsplit s = Inr u \<and> https_url b u)"
  by (auto simp: require_https_url_def bindE_Inr_iff Let_def split: if_splits)

lemma nonempty_list_iff: "nonempty_list v \<longleftrightarrow> (\<exists>vs. v = JList vs \<and> vs \<noteq> [])"
  by (cases v) auto

lemma mcp_checks_facts:
  assumes "mcp_checks route installation ref = Inr f"
  obtains policy trusted actors vs base where "jget route ''x-ouf-policy'' JNull = Inr policy"
    "jget route ''x-ouf-trusted-identity'' JNull = Inr trusted" "mf_policy f = policy"
    "jget policy ''allowedActorTypes'' JNull = Inr actors" "text_list actors" "mf_actors f = texts actors"
    "require_text policy ''requiredScope'' = Inr (mf_scope f)"
    "require_https_url installation ''issuerUrl'' False = Inr (mf_issuer f)"
    "require_https_url installation ''publicApiBaseUrl'' True = Inr base" "mf_metadata_url f = base @ metadata_path"
    "jget trusted ''stripClientHeaders'' JNull = Inr (JList vs)" "mf_stripped f = JList vs" "vs \<noteq> []" "secret_ref ref"
  using assms by (auto simp: mcp_checks_def bindE_Inr_iff require_Inr_iff nonempty_list_iff)

lemma mcp_plugins_Inr:
  assumes "mcp_plugins route ref f = Inr p" and "mf_stripped f = JList vs"
  shows "jget p ''openid-connect'' JNull = Inr (oidc_plugin (mf_audience f) ref (mf_issuer f) (mf_scope f))
    \<and> jget p ''serverless-post-function'' JNull = Inr (lua_phase ''access'' (trusted_post_function (mf_actors f)))
    \<and> jget p ''response-rewrite'' JNull = Inr (challenge_header f)
    \<and> (\<exists>hs. stripped_headers vs = Inr hs
        \<and> jget p ''serverless-pre-function'' JNull = Inr (lua_phase ''rewrite'' (trusted_pre_function hs)))"
  using assms by (auto simp: mcp_plugins_def bindE_Inr_iff)

lemma filterE_one:
  assumes "filterE p xs = Inr [x]"
  shows "x \<in> set xs \<and> p x = Inr True \<and> (\<forall>y \<in> set xs. p y = Inr True \<longrightarrow> y = x)"
proof -
  from filterE_Inr [OF assms] have "filter (\<lambda>x. p x = Inr True) xs = [x]" by simp
  then have "set (filter (\<lambda>x. p x = Inr True) xs) = {x}" by simp
  then show ?thesis by auto
qed

text \<open>
  The governed public endpoint: POST only, the strict token check of an HTTPS issuer without
  credentials in its URL, a secret by reference, the declared actors, every declared header cleared
  before the request is authenticated.
\<close>

definition governed_mcp :: "json \<Rightarrow> string \<Rightarrow> json \<Rightarrow> json \<Rightarrow> string \<Rightarrow> string \<Rightarrow> bool" where
  "governed_mcp b ref p v issuer scope \<longleftrightarrow>
     (\<exists>policy trusted actors vs hs u audience.
        jget v ''uri'' JNull = Inr (JStr ''/mcp'') \<and> jget v ''methods'' JNull = Inr (jstrs [''POST''])
        \<and> jget v ''plugins'' JNull = Inr p
        \<and> jget b ''x-ouf-policy'' JNull = Inr policy \<and> jget policy ''allowedActorTypes'' JNull = Inr actors
        \<and> text_list actors \<and> require_text policy ''requiredScope'' = Inr scope
        \<and> jget b ''x-ouf-trusted-identity'' JNull = Inr trusted \<and> jget trusted ''stripClientHeaders'' JNull = Inr (JList vs)
        \<and> set hs \<subseteq> set vs \<and> (\<forall>h \<in> set vs. \<exists>h' \<in> set hs. json_eq h h')
        \<and> jget p ''serverless-pre-function'' JNull = Inr (lua_phase ''rewrite'' (trusted_pre_function hs))
        \<and> jget p ''openid-connect'' JNull = Inr (oidc_plugin audience ref issuer scope) \<and> secret_ref ref
        \<and> jget p ''serverless-post-function'' JNull = Inr (lua_phase ''access'' (trusted_post_function (texts actors)))
        \<and> urlsplit issuer = Inr u \<and> https_url False u)"

lemma mcp_route_governed:
  assumes "materialize_mcp_route b installation ref = Inr v"
  obtains p f base where "governed_mcp b ref p v (mf_issuer f) (mf_scope f)"
    "jget p ''response-rewrite'' JNull = Inr (challenge_header f)"
    "require_https_url installation ''issuerUrl'' False = Inr (mf_issuer f)"
    "require_https_url installation ''publicApiBaseUrl'' True = Inr base" "mf_metadata_url f = base @ metadata_path"
proof -
  from assms obtain f p i inst revision where f: "mcp_checks b installation ref = Inr f" and p: "mcp_plugins b ref f = Inr p"
    and v: "v = JObj [
       (''id'', JStr i), (''uri'', JStr ''/mcp''), (''methods'', jstrs [''POST'']),
       (''labels'', JObj [(''ouf-managed'', JStr ''true''), (''ouf-installation'', JStr inst),
          (''ouf-installation-revision'', JStr revision), (''ouf-protocol'', JStr ''MCP'')]),
       (''plugins'', p), (''upstream'', http_upstream (node_of (mf_service f) (mf_port f)))]"
    unfolding materialize_mcp_route_def bindE_Inr_iff Inr_inject by blast
  from f show thesis
  proof (rule mcp_checks_facts)
    fix policy trusted actors vs base
    assume b: "jget b ''x-ouf-policy'' JNull = Inr policy" "jget b ''x-ouf-trusted-identity'' JNull = Inr trusted"
      "jget policy ''allowedActorTypes'' JNull = Inr actors" "text_list actors" "mf_actors f = texts actors"
      "require_text policy ''requiredScope'' = Inr (mf_scope f)"
      "jget trusted ''stripClientHeaders'' JNull = Inr (JList vs)" "mf_stripped f = JList vs" "secret_ref ref"
    assume url: "require_https_url installation ''issuerUrl'' False = Inr (mf_issuer f)"
      "require_https_url installation ''publicApiBaseUrl'' True = Inr base" "mf_metadata_url f = base @ metadata_path"
    from url(1) obtain u where u: "urlsplit (mf_issuer f) = Inr u" "https_url False u"
      by (auto simp: require_https_url_Inr)
    from mcp_plugins_Inr [OF p b(8)] obtain hs where hs: "stripped_headers vs = Inr hs"
      and "jget p ''serverless-pre-function'' JNull = Inr (lua_phase ''rewrite'' (trusted_pre_function hs))"
      and "jget p ''response-rewrite'' JNull = Inr (challenge_header f)"
      and "jget p ''openid-connect'' JNull = Inr (oidc_plugin (mf_audience f) ref (mf_issuer f) (mf_scope f))"
      and "jget p ''serverless-post-function'' JNull = Inr (lua_phase ''access'' (trusted_post_function (mf_actors f)))"
      by blast
    with b u stripped_headers_cover [OF hs] have "governed_mcp b ref p v (mf_issuer f) (mf_scope f)"
      unfolding governed_mcp_def
      by (intro exI [of _ policy] exI [of _ trusted] exI [of _ actors] exI [of _ vs] exI [of _ hs] exI [of _ u]
          exI [of _ "mf_audience f"]) (simp add: v)
    with that url \<open>jget p ''response-rewrite'' JNull = Inr (challenge_header f)\<close> show thesis by blast
  qed
qed

text \<open>
  The metadata route answers itself, to GET only, and describes the issuer and the scope of the
  endpoint; the challenge of the endpoint points to it.
\<close>

definition describes_mcp :: "json \<Rightarrow> json \<Rightarrow> string \<Rightarrow> string \<Rightarrow> string \<Rightarrow> bool" where
  "describes_mcp w p issuer base scope \<longleftrightarrow>
     jget w ''uri'' JNull = Inr (JStr metadata_path) \<and> jget w ''methods'' JNull = Inr (jstrs [''GET''])
     \<and> jlookup w ''upstream'' = None
     \<and> (\<exists>q. jget w ''plugins'' JNull = Inr q \<and> jget q ''mocking'' JNull = Inr (mocking (resource_metadata issuer base scope)))
     \<and> (\<exists>f. jget p ''response-rewrite'' JNull = Inr (challenge_header f)
          \<and> mf_metadata_url f = base @ metadata_path \<and> mf_scope f = scope)"

lemma protected_resource_Inr:
  assumes "materialize_protected_resource_route b installation = Inr w"
  obtains policy issuer base scope q where "jget b ''x-ouf-policy'' JNull = Inr policy"
    "require_https_url installation ''issuerUrl'' False = Inr issuer"
    "require_https_url installation ''publicApiBaseUrl'' True = Inr base" "require_text policy ''requiredScope'' = Inr scope"
    "jget w ''uri'' JNull = Inr (JStr metadata_path)" "jget w ''methods'' JNull = Inr (jstrs [''GET''])"
    "jlookup w ''upstream'' = None" "jget w ''plugins'' JNull = Inr q"
    "jget q ''mocking'' JNull = Inr (mocking (resource_metadata issuer base scope))"
  using assms by (auto simp: materialize_protected_resource_route_def bindE_Inr_iff)

lemma single_case_Inr:
  "(case xs of [] \<Rightarrow> Inl e | x # ys \<Rightarrow> (case ys of [] \<Rightarrow> f x | _ # _ \<Rightarrow> Inl e')) = Inr y \<longleftrightarrow> (\<exists>x. xs = [x] \<and> f x = Inr y)"
  by (cases xs; cases "tl xs") auto

lemma materialize_ingress_cases:
  assumes "materialize_ingress runtime ref = Inr doc"
  obtains installation bs b v w where "runtime_routes runtime = Inr bs" "filterE is_public_mcp bs = Inr [b]"
    "materialize_mcp_route b installation ref = Inr v" "materialize_protected_resource_route b installation = Inr w"
    "route_document installation [w, v] = Inr doc"
  using assms by (auto simp: materialize_ingress_def bindE_Inr_iff single_case_Inr)

text \<open>
  C16. A runtime that \<open>materialize_apisix_runtime.py\<close> accepts has exactly one public MCP binding, and
  the document holds two routes: the governed endpoint of that binding (POST, strict token check of an
  HTTPS issuer, secret by reference, declared actors only, every declared client header cleared) and
  the metadata route, which serves GET without an upstream and names the same issuer, base and scope
  as the endpoint's challenge.
\<close>

theorem mcp_ingress_governed:
  assumes "materialize_ingress runtime ref = Inr doc"
  shows "\<exists>bs b v w p issuer base scope. runtime_routes runtime = Inr bs \<and> b \<in> set bs \<and> is_public_mcp b = Inr True
    \<and> (\<forall>c \<in> set bs. is_public_mcp c = Inr True \<longrightarrow> c = b)
    \<and> jget doc ''routes'' JNull = Inr (JList [w, v]) \<and> governed_mcp b ref p v issuer scope
    \<and> describes_mcp w p issuer base scope"
proof -
  from assms obtain installation bs b v w where bs: "runtime_routes runtime = Inr bs" "filterE is_public_mcp bs = Inr [b]"
    and v: "materialize_mcp_route b installation ref = Inr v"
    and w: "materialize_protected_resource_route b installation = Inr w"
    and doc: "route_document installation [w, v] = Inr doc"
    by (rule materialize_ingress_cases)
  from v obtain p f base where p: "governed_mcp b ref p v (mf_issuer f) (mf_scope f)"
    and challenge: "jget p ''response-rewrite'' JNull = Inr (challenge_header f)" "mf_metadata_url f = base @ metadata_path"
    and url: "require_https_url installation ''issuerUrl'' False = Inr (mf_issuer f)"
      "require_https_url installation ''publicApiBaseUrl'' True = Inr base"
    by (rule mcp_route_governed)
  from p obtain policy where policy: "jget b ''x-ouf-policy'' JNull = Inr policy" "require_text policy ''requiredScope'' = Inr (mf_scope f)"
    unfolding governed_mcp_def by blast
  from w have "describes_mcp w p (mf_issuer f) base (mf_scope f)"
    by (rule protected_resource_Inr) (use url policy challenge in \<open>auto simp: describes_mcp_def\<close>)
  with bs(1) filterE_one [OF bs(2)] p route_document_routes [OF doc] show ?thesis by blast
qed

definition sample_mcp :: json where
  "sample_mcp = JObj [
     (''id'', JStr ''mcp''), (''uri'', JStr ''/mcp''), (''methods'', jstrs [''POST'']),
     (''labels'', jobj1 ''exposure'' (JStr ''public'')), (''x-ouf-protocol'', jobj1 ''name'' (JStr ''MCP'')),
     (''x-ouf-policy'', JObj [(''identity'', JStr ''OIDC''), (''requiredAudience'', JStr ''gw''), (''requiredScope'', JStr ''mcp''),
        (''allowedActorTypes'', jstrs [''HUMAN''])]),
     (''x-ouf-trusted-identity'', JObj [(''stripClientHeaders'', jstrs [''X-OUF-Tenant-ID'', ''X-OUF-Actor-Type'']),
        (''injectAfterVerification'', jobj1 ''X-OUF-Gateway-Verified'' (JStr ''true''))]),
     (''x-ouf-backend-binding'', JObj [(''service'', JStr ''ouf-mcp''), (''port'', JInt 8080), (''path'', JStr ''/mcp'')])]"

definition sample_ingress :: json where
  "sample_ingress = JObj [(''x-ouf-installation'', JObj [(''installationId'', JStr ''inst''), (''revision'', JInt 3),
     (''checksum'', JStr ''c''), (''issuerUrl'', JStr ''https://id.example/r''), (''publicApiBaseUrl'', JStr ''https://api.example'')]),
     (''routes'', JList [sample_mcp])]"

lemmas url_eval = urlsplit_def strip_unsafe_def split_scheme_def partition_at_def scheme_char_def is_alpha_def is_digit_def
  lower_def to_lower_def split_netloc_def netloc_ok_def or_empty_text_def https_url_def url_host_def url_username_def
  url_password_def rpartition_at_def

lemma sample_urls:
  "require_https_url (JObj [(''installationId'', JStr ''inst''), (''revision'', JInt 3),
     (''checksum'', JStr ''c''), (''issuerUrl'', JStr ''https://id.example/r''), (''publicApiBaseUrl'', JStr ''https://api.example'')])
     ''issuerUrl'' False = Inr ''https://id.example/r''"
  "require_https_url (JObj [(''installationId'', JStr ''inst''), (''revision'', JInt 3),
     (''checksum'', JStr ''c''), (''issuerUrl'', JStr ''https://id.example/r''), (''publicApiBaseUrl'', JStr ''https://api.example'')])
     ''publicApiBaseUrl'' True = Inr ''https://api.example''"
  by (simp_all add: require_https_url_def require_text_def strip_def is_space_def rstrip_slash_def Let_def url_eval)

lemma sample_ingress_materialized: "\<exists>doc. materialize_ingress sample_ingress ''$ENV://S'' = Inr doc"
  by (simp add: materialize_ingress_def sample_ingress_def sample_mcp_def build_eval filterE.simps is_public_mcp_def
      and_then_def or_field_is_def materialize_mcp_route_def mcp_checks_def mcp_plugins_def sample_urls
      stripped_headers_def sorted_values_def unique_values_def materialize_protected_resource_route_def)

theorem mcp_ingress_governed_witness:
  "\<exists>doc. materialize_ingress sample_ingress ''$ENV://S'' = Inr doc
    \<and> (\<exists>bs b v w p issuer base scope. runtime_routes sample_ingress = Inr bs \<and> b \<in> set bs \<and> is_public_mcp b = Inr True
    \<and> (\<forall>c \<in> set bs. is_public_mcp c = Inr True \<longrightarrow> c = b)
    \<and> jget doc ''routes'' JNull = Inr (JList [w, v]) \<and> governed_mcp b ''$ENV://S'' p v issuer scope
    \<and> describes_mcp w p issuer base scope)"
proof -
  obtain doc where "materialize_ingress sample_ingress ''$ENV://S'' = Inr doc"
    using sample_ingress_materialized by blast
  with mcp_ingress_governed [OF this] show ?thesis by blast
qed

end
