(* ===== verification/Route_Human_Safety.thy ===== *)
theory Route_Human_Safety
  imports Route_Human Route_Files_Safety Route_Build_Safety
begin

text \<open>
  The materialisers of the routes for human callers against the deployers of the same routes: what
  each deployer accepts of what its materialiser writes.
\<close>

lemma human_checks_facts:
  assumes "human_checks route installation ref = Inr f"
  obtains "require_text route ''uri'' = Inr (hf_uri f)" "jget route ''methods'' JNull = Inr (hf_methods f)"
    "jget route ''x-ouf-policy'' JNull = Inr (hf_policy f)" "jget route ''x-ouf-capability'' JNull = Inr (hf_capability f)"
    "require_text (hf_policy f) ''requiredScope'' = Inr (hf_scope f)"
    "\<exists>backend. jget route ''x-ouf-backend-binding'' JNull = Inr backend \<and> require_text backend ''service'' = Inr (hf_service f)
       \<and> jget backend ''port'' JNull = Inr (hf_port f)"
    "secret_ref ref"
  using assms by (auto simp: human_checks_def bindE_Inr_iff require_Inr_iff)

lemma human_route_cases:
  assumes "human_route route installation ref streaming = Inr v"
  obtains f request_id limit size_bytes stream i inst revision capability where
    "human_checks route installation ref = Inr f" "require_text route ''id'' = Inr i"
    "streaming_plugin route streaming = Inr stream"
    "bindE (jget (hf_policy f) ''maxRequestBytes'' (JInt 5242880)) py_int = Inr size_bytes"
    "require_text (hf_capability f) ''capabilityId'' = Inr capability"
    "v = lifecycle_route f ref request_id limit size_bytes stream i inst revision capability"
  using assms unfolding human_route_def bindE_Inr_iff Inr_inject by blast

lemma lifecycle_route_id: "jget (lifecycle_route f ref request_id limit size_bytes stream i inst revision capability) ''id'' JNull = Inr (JStr i)"
  by (simp add: lifecycle_route_def)

section \<open>Onboarding lifecycle\<close>

lemma require_plain_text:
  "jget v k JNull = Inr (JStr s) \<Longrightarrow> strip s = s \<Longrightarrow> s \<noteq> [] \<Longrightarrow> require_text v k = Inr s"
  by (auto simp: require_text_Inr)

lemma by_id_bound:
  assumes "index_ids rs = Inr d" and "filter (\<lambda>i. JStr i \<notin> set (dict_keys d)) ids = []"
  shows "list_all2 (\<lambda>i r. jget r ''id'' JNull = Inr (JStr i)) ids (by_id d ids)"
proof -
  have "jget (case map_of d (JStr i) of Some r \<Rightarrow> r | None \<Rightarrow> JNull) ''id'' JNull = Inr (JStr i)" if "i \<in> set ids" for i
  proof -
    from assms(2) that have "JStr i \<in> set (dict_keys d)" by (auto simp: filter_empty_conv)
    then obtain r where r: "map_of d (JStr i) = Some r"
      by (auto simp: dict_keys_def map_of_eq_None_iff dest!: weak_map_of_SomeI)
    from index_ids_keys [OF assms(1) r] r show ?thesis by simp
  qed
  then show ?thesis by (simp add: by_id_def list_all2_map2 list_all2_same)
qed

lemma human_route_named:
  assumes "human_route route installation ref streaming = Inr v" and "jget route ''id'' JNull = Inr (JStr i)"
    and "strip i = i" and "i \<noteq> []"
  shows "jget v ''id'' JNull = Inr (JStr i)"
  using require_plain_text [OF assms(2-4)] lifecycle_route_id
  by (rule_tac human_route_cases [OF assms(1)]) simp

lemma onboarding_ids_plain: "\<forall>i \<in> set onboarding_route_ids. strip i = i \<and> i \<noteq> []"
  by (simp add: onboarding_route_ids_def strip_def is_space_def)

lemma materialize_onboarding_ids:
  assumes "materialize_onboarding runtime ref streaming = Inr doc"
  obtains vs where "jget doc ''routes'' JNull = Inr (JList vs)"
    "list_all2 (\<lambda>i v. jget v ''id'' JNull = Inr (JStr i)) onboarding_route_ids vs"
proof -
  from assms obtain installation d rs vs where d: "index_ids rs = Inr d"
    and all: "filter (\<lambda>i. JStr i \<notin> set (dict_keys d)) onboarding_route_ids = []"
    and vs: "list_all2 (\<lambda>r v. human_route r installation ref streaming = Inr v) (by_id d onboarding_route_ids) vs"
    and doc: "route_document installation vs = Inr doc"
    by (auto simp: materialize_onboarding_def bindE_Inr_iff Let_def mapE_Inr_iff)
  have bound: "list_all2 (\<lambda>i r. i \<in> set onboarding_route_ids \<and> jget r ''id'' JNull = Inr (JStr i)) onboarding_route_ids
      (by_id d onboarding_route_ids)"
    using by_id_bound [OF d all] by (simp add: list_all2_conv_all_nth)
  have step: "jget v ''id'' JNull = Inr (JStr i)"
    if "i \<in> set onboarding_route_ids \<and> jget r ''id'' JNull = Inr (JStr i)"
      and "human_route r installation ref streaming = Inr v" for i r v
    using that onboarding_ids_plain by (intro human_route_named [OF that(2)]) auto
  have "list_all2 (\<lambda>i v. jget v ''id'' JNull = Inr (JStr i)) onboarding_route_ids vs"
    by (rule list_all2_trans [OF _ bound vs]) (rule step)
  with that route_document_routes [OF doc] show thesis by blast
qed

lemma id_set_named:
  assumes "list_all2 (\<lambda>i v. jget v ''id'' JNull = Inr (JStr i)) ids vs"
  shows "id_set vs = Inr (JStr ` set ids)"
proof -
  have "mapE (\<lambda>r. jget r ''id'' JNull) vs = Inr (map JStr ids)"
    using assms by (simp add: mapE_Inr_iff list_all2_conv_all_nth)
  then show ?thesis by (simp add: id_set_def jset_def list_all_iff)
qed

text \<open>
  C19. No deployment of the onboarding lifecycle can succeed: \<open>materialize_trusted_human_onboarding_runtime.py\<close>
  writes eleven routes, the readiness route of the ingestion among them, and
  \<open>deploy_trusted_human_onboarding.py\<close> still knows ten and demands exactly these. Whatever runtime was
  materialised, the deployer refuses the document before its first request.
\<close>

theorem onboarding_materialization_refused:
  assumes "materialize_onboarding runtime ref streaming = Inr doc"
  shows "onboarding_main ad (Materialize doc) w = (Inl (ValueError ''unexpected onboarding lifecycle route set''), w)"
proof -
  from assms obtain vs where vs: "jget doc ''routes'' JNull = Inr (JList vs)"
    "list_all2 (\<lambda>i v. jget v ''id'' JNull = Inr (JStr i)) onboarding_route_ids vs"
    by (rule materialize_onboarding_ids)
  have "''trusted-human-ingestion-onboarding-readiness'' \<in> set onboarding_route_ids - set onboarding_ids"
    by (simp add: onboarding_route_ids_def onboarding_ids_def)
  then have "set onboarding_route_ids \<noteq> set onboarding_ids" by blast
  then have "JStr ` set onboarding_route_ids \<noteq> JStr ` set onboarding_ids"
    by (simp add: inj_image_eq_iff inj_def)
  with vs(1) id_set_named [OF vs(2)] show ?thesis by (simp add: onboarding_main_def bindS_lift raiseS_def)
qed

section \<open>A runtime with all bindings\<close>

lemma mapE_total: "\<forall>x \<in> set xs. \<exists>y. f x = Inr y \<Longrightarrow> \<exists>ys. mapE f xs = Inr ys"
  by (induction xs) auto

lemma index_ids_distinct:
  assumes "list_all2 (\<lambda>i v. is_obj v \<and> jget v ''id'' JNull = Inr (JStr i)) ids vs" and "distinct ids"
  shows "index_ids vs = Inr (zip (map JStr ids) vs)"
proof -
  let ?f = "\<lambda>r d. if \<not> is_obj r then Inr d else bindE (jget r ''id'' JNull) (\<lambda>i. bindE (jset [i]) (\<lambda>_. Inr (dict_set i r d)))"
  have "foldE ?f vs d = Inr (d @ zip (map JStr ids) vs)"
    if "JStr ` set ids \<inter> set (dict_keys d) = {}" for d
    using assms that
  proof (induction ids vs arbitrary: d rule: list_all2_induct)
    case Nil
    then show ?case by simp
  next
    case (Cons i ids v vs)
    from Cons have ids: "distinct ids" "i \<notin> set ids" and v: "is_obj v" "jget v ''id'' JNull = Inr (JStr i)" by simp_all
    have new: "JStr i \<notin> set (dict_keys d)" using Cons.prems by auto
    have "JStr ` set ids \<inter> set (dict_keys (d @ [(JStr i, v)])) = {}"
      using Cons.prems ids(2) by (auto simp: dict_keys_def)
    from Cons.IH [OF ids(1) this] v new show ?case by (simp add: jset_def dict_set_append)
  qed
  from this [of "[]"] show ?thesis by (simp add: index_ids_def dict_keys_def)
qed

lemma zip_self_map: "zip (map f xs) (map g xs) = map (\<lambda>x. (f x, g x)) xs"
  by (induction xs) auto

definition sample_lifecycle :: "string \<Rightarrow> json" where
  "sample_lifecycle i = JObj [
     (''id'', JStr i), (''uri'', JStr ''/api/x''), (''methods'', jstrs [''POST'']),
     (''labels'', jobj1 ''exposure'' (JStr ''public'')),
     (''x-ouf-policy'', JObj [(''identity'', JStr ''OIDC''), (''allowedActorTypes'', jstrs [''HUMAN'']), (''requiredScope'', JStr ''s'')]),
     (''x-ouf-capability'', jobj1 ''capabilityId'' (JStr ''c'')),
     (''x-ouf-backend-binding'', JObj [(''service'', JStr ''ouf-onboarding''), (''port'', JInt 8080), (''path'', JStr ''/api/x'')])]"

definition sample_lifecycle_runtime :: json where
  "sample_lifecycle_runtime = JObj [(''x-ouf-installation'', sample_installation),
     (''routes'', JList (map sample_lifecycle onboarding_route_ids))]"

lemmas human_eval = sample_installation_def size_limit_def streaming_plugin_def id_starts_def

lemma sample_lifecycle_route:
  assumes "strip i = i" "i \<noteq> []"
  shows "is_ok (human_route (sample_lifecycle i) sample_installation ''$ENV://S'' False)"
  using assms
  by (simp add: human_route_def human_checks_def sample_lifecycle_def human_eval build_eval)

lemma distinct_onboarding_ids: "distinct onboarding_route_ids"
  by (simp add: onboarding_route_ids_def)

lemma sample_lifecycle_materialized: "\<exists>doc. materialize_onboarding sample_lifecycle_runtime ''$ENV://S'' False = Inr doc"
proof -
  let ?d = "map (\<lambda>i. (JStr i, sample_lifecycle i)) onboarding_route_ids"
  have index: "index_ids (map sample_lifecycle onboarding_route_ids) = Inr ?d"
    using index_ids_distinct [of onboarding_route_ids "map sample_lifecycle onboarding_route_ids"]
    by (simp add: list.rel_map list_all2_same sample_lifecycle_def zip_self_map distinct_onboarding_ids)
  have keys: "set (dict_keys ?d) = JStr ` set onboarding_route_ids" by (simp add: dict_keys_def image_image)
  have found: "by_id ?d ids = map sample_lifecycle ids" if "set ids \<subseteq> set onboarding_route_ids" for ids
    using that by (simp add: by_id_def map_of_map [symmetric] comp_def map_of_eq_None_iff split: option.split)
      (auto simp: map_of_eq_None_iff image_iff dest!: map_of_SomeD)
  have "\<exists>v. human_route (sample_lifecycle i) sample_installation ''$ENV://S'' False = Inr v" if "i \<in> set onboarding_route_ids" for i
    using sample_lifecycle_route [of i] onboarding_ids_plain that by (simp add: is_ok_iff)
  then have "\<exists>vs. mapE (\<lambda>r. human_route r sample_installation ''$ENV://S'' False) (map sample_lifecycle onboarding_route_ids) = Inr vs"
    by (intro mapE_total) simp
  then obtain vs where "mapE (\<lambda>r. human_route r sample_installation ''$ENV://S'' False) (map sample_lifecycle onboarding_route_ids) = Inr vs"
    by blast
  then show ?thesis
    using index keys found [of onboarding_route_ids]
    by (auto simp: materialize_onboarding_def sample_lifecycle_runtime_def runtime_routes_def route_document_def
        check_def require_def filter_empty_conv require_text_def sample_installation_def strip_def is_space_def Let_def)
qed

theorem onboarding_materialization_refused_witness:
  "\<exists>doc. materialize_onboarding sample_lifecycle_runtime ''$ENV://S'' False = Inr doc
    \<and> onboarding_main memory_admin (Materialize doc) (\<lambda>_. None)
        = (Inl (ValueError ''unexpected onboarding lifecycle route set''), (\<lambda>_. None))"
proof -
  obtain doc where doc: "materialize_onboarding sample_lifecycle_runtime ''$ENV://S'' False = Inr doc"
    using sample_lifecycle_materialized ..
  show ?thesis by (rule exI [of _ doc], rule conjI, rule doc, rule onboarding_materialization_refused [OF doc])
qed

end
