(* ===== verification/Route_Human_Deploys.thy ===== *)
theory Route_Human_Deploys
  imports Route_Human_Safety
begin

text \<open>
  The semantic, picker, Installation and Authorization materialisations against their deployers: each
  document is accepted, except where the theorem names what the deployer asks for in addition.
\<close>

section \<open>The semantic routes\<close>

lemma bool_as_int_JStr: "canon (bool_as_int v) = JStr s \<longleftrightarrow> v = JStr s"
  by (cases v) auto

lemma json_eq_JStr [simp]: "json_eq v (JStr s) \<longleftrightarrow> v = JStr s"
  by (auto simp: json_eq_def bool_as_int_JStr)

lemma canon_JInt: "canon (bool_as_int v) = JInt n \<longleftrightarrow> v = JInt n \<or> (\<exists>b. v = JBool b \<and> n = (if b then 1 else 0))"
  by (cases v) auto

lemma json_eq_port: "json_eq v (JInt 8080) \<longleftrightarrow> v = JInt 8080"
  by (auto simp: json_eq_def canon_JInt)

lemma jneq_False: "jneq m v = Inr False \<longleftrightarrow> (\<exists>x. m = Inr x \<and> json_eq x v)"
  by (auto simp: jneq_def bindE_Inr_iff)

lemma or_chain_False: "or_chain ms = Inr False \<longleftrightarrow> (\<forall>m \<in> set ms. m = Inr False)"
  by (induction ms) (auto simp: bindE_Inr_iff)

text \<open>What the two tests of a binding fix.\<close>

lemma semantic_bound:
  assumes "semantic_binding (i, verb, uri, scope) b = Inr False" and "semantic_drifted (i, verb, uri, scope) b = Inr False"
  obtains policy backend capability methods service where "jget b ''uri'' JNull = Inr (JStr uri)"
    "jget b ''methods'' JNull = Inr methods" "json_eq methods (jstrs [verb])"
    "jindex b ''x-ouf-policy'' = Inr policy" "jget policy ''requiredScope'' JNull = Inr (JStr scope)"
    "jindex b ''x-ouf-backend-binding'' = Inr backend" "jget backend ''service'' JNull = Inr (JStr service)"
    "service \<in> {''ouf-semantic'', ''ouf-semantic-registry''}" "jget backend ''port'' JNull = Inr (JInt 8080)"
    "jindex b ''x-ouf-capability'' = Inr capability" "jget capability ''capabilityId'' JNull = Inr (JStr scope)"
    "\<exists>vars. jget b ''vars'' JNull = Inr vars \<and> json_eq vars (semantic_vars i)"
  using assms
  by (auto simp: semantic_binding_def semantic_drifted_def or_chain_False jneq_False bindE_Inr_iff in_services_def json_eq_port
      simp del: or_chain.simps)

lemma jindex_jget: "jindex v k = Inr x \<Longrightarrow> jget v k d = Inr x"
  by (cases v) (auto split: option.splits)

definition plain_semantic :: "string \<times> string \<times> string \<times> string \<Rightarrow> bool" where
  "plain_semantic c \<longleftrightarrow> (case c of (i, verb, uri, scope) \<Rightarrow>
     strip i = i \<and> i \<noteq> [] \<and> strip uri = uri \<and> strip scope = scope)"

lemma plain_semantic_routes: "\<forall>c \<in> set semantic_routes. plain_semantic c"
  by (simp add: semantic_routes_def plain_semantic_def strip_def is_space_def)

definition expected_limit :: "string \<Rightarrow> int" where
  "expected_limit i = (if i = ''semantic-rdf-import'' then 8388608 else 65536)"

definition route_limit :: "json \<Rightarrow> json res" where
  "route_limit v = bindE (jget v ''plugins'' JNull) (\<lambda>p. jget p ''client-control'' JNull)"

lemma json_eq_ints [simp]: "json_eq (JInt m) (JInt n) \<longleftrightarrow> m = n"
  by (simp add: json_eq_def)

lemma or_chain_one: "or_chain (xs @ Inr b # ys) = Inr b" if "\<forall>x \<in> set xs. x = Inr False" "\<forall>y \<in> set ys. y = Inr False"
  using that
proof (induction xs)
  case Nil
  then show ?case using or_chain_False [of ys] by simp
qed simp

lemma port_8080: "int_text 8080 = ''8080''"
  by (simp add: int_text_def nat_text.simps char_of_def bit_iff_odd)

text \<open>A materialised semantic route meets the deployer's contract except for its body limit.\<close>

lemma semantic_document_contract:
  assumes u: "u = lifecycle_route f ref request_id limit size_bytes [] i inst revision scope"
    and v: "semantic_extras i b u = Inr v"
    and f: "hf_uri f = uri" "json_eq (hf_methods f) (jstrs [verb])" "hf_scope f = scope"
      "hf_service f \<in> {''ouf-semantic'', ''ouf-semantic-registry''}" "hf_port f = JInt 8080"
    and vars: "jget b ''vars'' JNull = Inr vars" "json_eq vars (semantic_vars i)"
  shows "jget v ''id'' JNull = Inr (JStr i)" "is_obj v" "route_limit v = Inr (size_limit size_bytes)"
    "semantic_contract v (i, verb, uri, scope) = Inr (size_bytes \<noteq> expected_limit i)"
proof -
  let ?labels = "JObj [(''ouf-managed'', JStr ''true''), (''ouf-installation'', JStr inst),
        (''ouf-installation-revision'', JStr revision), (''ouf-capability'', JStr scope),
        (''ouf-surface'', JStr ''TRUSTED_HUMAN_SEMANTIC'')]"
  obtain plugins upstream more where v': "v = JObj ([(''id'', JStr i), (''uri'', JStr uri), (''methods'', hf_methods f), (''labels'', ?labels),
       (''plugins'', plugins), (''upstream'', upstream)] @ more)"
    and more: "\<exists>w. jget (JObj more) ''vars'' JNull = Inr w \<and> json_eq w (semantic_vars i)"
    and plugins: "plugins = JObj ([
        (''request-id'', request_id), (''limit-count'', limit), (''client-control'', size_limit size_bytes),
        (''serverless-pre-function'', lua_phase ''rewrite'' strip_untrusted_headers),
        (''openid-connect'', human_oidc (hf_audience f) ref (hf_issuer f) (hf_scope f)),
        (''serverless-post-function'', lua_phase ''access'' lifecycle_guard)]
        @ rewrite_to (CHR ''*'' \<in> set (hf_uri f)) (hf_path f))"
    and upstream: "upstream = timed_upstream (node_of (hf_service f) (hf_port f)) (min 10 (hf_timeout f)) (hf_timeout f)"
  proof (cases "map_of semantic_regex i")
    case None
    then show ?thesis
      using v by (intro that [of _ _ "[]"]) (auto simp: semantic_extras_def u lifecycle_route_def semantic_vars_def f(1))
  next
    case (Some p)
    from v Some obtain w where w: "jindex b ''vars'' = Inr w"
      by (auto simp: semantic_extras_def u lifecycle_route_def bindE_Inr_iff)
    with vars have "json_eq w (semantic_vars i)" using jindex_jget [OF w, of JNull] by simp
    with v w Some show ?thesis
      by (intro that [of _ _ "[(''vars'', w)]"]) (auto simp: semantic_extras_def u lifecycle_route_def f(1))
  qed
  show "jget v ''id'' JNull = Inr (JStr i)" "is_obj v" by (simp_all add: v')
  show "route_limit v = Inr (size_limit size_bytes)" by (simp add: route_limit_def v' plugins)
  from more have got: "\<exists>w. jget v ''vars'' JNull = Inr w \<and> json_eq w (semantic_vars i)" by (simp add: v')
  have node: "node_of (hf_service f) (hf_port f) = jobj1 (hf_service f @ '':8080'') (JInt 1)"
    by (simp add: node_of_def f(5) port_8080)
  show "semantic_contract v (i, verb, uri, scope) = Inr (size_bytes \<noteq> expected_limit i)"
    using got f(2,4)
    by (auto simp: semantic_contract_def v' plugins upstream or_object_def get_get_def human_oidc_def oidc_base_def
        audience_claim_def size_limit_def jobj1_def timed_upstream_def node f(3) expected_limit_def jneq_def Let_def)
qed

lemma semantic_one_accepted:
  assumes one: "semantic_one installation ref d c = Inr v" and plain: "plain_semantic c" and d: "index_ids rs = Inr d"
  shows "jget v ''id'' JNull = Inr (JStr (fst c)) \<and> is_obj v
    \<and> (\<exists>n. route_limit v = Inr (size_limit n) \<and> semantic_contract v c = Inr (n \<noteq> expected_limit (fst c)))"
proof -
  obtain i verb uri scope where c: "c = (i, verb, uri, scope)" by (cases c)
  define b where "b = (case map_of d (JStr i) of None \<Rightarrow> JNull | Some b \<Rightarrow> b)"
  from one obtain u where ok: "semantic_binding c b = Inr False" "semantic_drifted c b = Inr False"
    and u: "human_route b installation ref False = Inr u" and v: "semantic_extras i b u = Inr v"
    by (auto simp: semantic_one_def c b_def [symmetric] bindE_Inr_iff Let_def split: if_splits)
  from ok(1) have "b \<noteq> JNull" by (auto simp: semantic_binding_def c)
  then have "map_of d (JStr i) = Some b" by (auto simp: b_def split: option.splits)
  from index_ids_keys [OF d this] have bi: "jget b ''id'' JNull = Inr (JStr i)" .
  have texts: "strip i = i" "i \<noteq> []" "strip uri = uri" "strip scope = scope"
    using plain by (simp_all add: plain_semantic_def c)
  from ok [unfolded c] show ?thesis
  proof (rule semantic_bound)
    fix policy backend capability methods service
    assume b: "jget b ''uri'' JNull = Inr (JStr uri)" "jget b ''methods'' JNull = Inr methods" "json_eq methods (jstrs [verb])"
      "jindex b ''x-ouf-policy'' = Inr policy" "jget policy ''requiredScope'' JNull = Inr (JStr scope)"
      "jindex b ''x-ouf-backend-binding'' = Inr backend" "jget backend ''service'' JNull = Inr (JStr service)"
      "service \<in> {''ouf-semantic'', ''ouf-semantic-registry''}" "jget backend ''port'' JNull = Inr (JInt 8080)"
      "jindex b ''x-ouf-capability'' = Inr capability" "jget capability ''capabilityId'' JNull = Inr (JStr scope)"
      "\<exists>vars. jget b ''vars'' JNull = Inr vars \<and> json_eq vars (semantic_vars i)"
    have service: "strip service = service" using b(8) by (auto simp: strip_def is_space_def)
    from u obtain f request_id limit size_bytes stream j inst revision cap where
      f: "human_checks b installation ref = Inr f" "require_text b ''id'' = Inr j" "streaming_plugin b False = Inr stream"
        "require_text (hf_capability f) ''capabilityId'' = Inr cap"
      and U: "u = lifecycle_route f ref request_id limit size_bytes stream j inst revision cap"
      by (rule human_route_cases)
    have j: "j = i" using f(2) bi texts by (simp add: require_text_Inr)
    have stream: "stream = []" using f(3) by (auto simp: streaming_plugin_def bindE_Inr_iff)
    from b(12) obtain vars where vars: "jget b ''vars'' JNull = Inr vars" "json_eq vars (semantic_vars i)" by blast
    from f(1) have fields: "hf_uri f = uri" "json_eq (hf_methods f) (jstrs [verb])" "hf_scope f = scope"
      "hf_service f \<in> {''ouf-semantic'', ''ouf-semantic-registry''}" "hf_port f = JInt 8080" "cap = scope"
      using b f(4) jindex_jget [OF b(4), of JNull] jindex_jget [OF b(6), of JNull] jindex_jget [OF b(10), of JNull] texts service
      by (auto elim!: human_checks_facts simp: require_text_Inr)
    note shape = semantic_document_contract [OF U [unfolded j stream fields(6)] v fields(1-5) vars]
    from shape show ?thesis by (auto simp: c)
  qed
qed

text \<open>
  C14. \<open>materialize_semantic_human_runtime.py\<close> writes the eight semantic routes, in the order of the
  contract, and \<open>deploy_semantic_human.py\<close> accepts the document exactly when every route has the body
  limit it asks for, 8 MiB for the RDF import and 64 KiB elsewhere: the materialiser takes the limit of
  the binding as it is, everything else the deployer checks holds already.
\<close>

theorem semantic_materialization_deploys:
  assumes "materialize_semantic runtime ref = Inr doc"
  shows "\<exists>vs. jget doc ''routes'' JNull = Inr (JList vs) \<and> map (\<lambda>v. route_id (the_fields v)) vs = map Inr semantic_ids
    \<and> (validate_semantic doc = Inr vs \<longleftrightarrow>
        list_all2 (\<lambda>i v. route_limit v = Inr (size_limit (expected_limit i))) semantic_ids vs)"
proof -
  from assms obtain installation rs d vs where d: "index_ids rs = Inr d"
    and one: "list_all2 (\<lambda>c v. semantic_one installation ref d c = Inr v) semantic_routes vs"
    and doc: "jget doc ''routes'' JNull = Inr (JList vs)"
    by (auto simp: materialize_semantic_def bindE_Inr_iff mapE_Inr_iff)
  have all: "list_all2 (\<lambda>c v. jget v ''id'' JNull = Inr (JStr (fst c)) \<and> is_obj v
    \<and> (\<exists>n. route_limit v = Inr (size_limit n) \<and> semantic_contract v c = Inr (n \<noteq> expected_limit (fst c)))) semantic_routes vs"
    using plain_semantic_routes by (intro list.rel_mono_strong [OF one] semantic_one_accepted [OF _ _ d]) auto
  then have named: "list_all2 (\<lambda>i v. is_obj v \<and> jget v ''id'' JNull = Inr (JStr i)) semantic_ids vs"
    by (auto simp: semantic_ids_def list.rel_map elim: list_all2_mono)
  have dist: "distinct semantic_ids" by (simp add: semantic_ids_def semantic_routes_def)
  define ix where "ix = zip (map JStr semantic_ids) vs"
  have index: "index_ids vs = Inr ix" unfolding ix_def by (rule index_ids_distinct [OF named dist])
  have len: "length vs = length semantic_routes" using one by (simp add: list_all2_lengthD)
  have keys: "set (dict_keys ix) = JStr ` set semantic_ids"
    using len by (simp add: ix_def dict_keys_def semantic_ids_def image_image)
  have ids: "map (\<lambda>v. route_id (the_fields v)) vs = map Inr semantic_ids"
    using named by (auto simp: list_all2_conv_all_nth intro!: nth_equalityI got_id)
  have at: "map_of ix (JStr (fst (semantic_routes ! k))) = Some (vs ! k)" if "k < length semantic_routes" for k
    using that len dist by (intro map_of_is_SomeI) (auto simp: ix_def distinct_map inj_on_def semantic_ids_def in_set_zip intro!: exI [of _ k])
  have "validate_semantic doc = mapE (semantic_route ix) semantic_routes"
    by (simp add: validate_semantic_def doc index len keys)
  moreover have "mapE (semantic_route ix) semantic_routes = Inr vs \<longleftrightarrow>
      list_all2 (\<lambda>c v. semantic_contract v c = Inr False) semantic_routes vs"
    using all at len by (auto simp: mapE_Inr_iff list_all2_conv_all_nth semantic_route_def bindE_Inr_iff)
  moreover have "list_all2 (\<lambda>c v. semantic_contract v c = Inr False) semantic_routes vs \<longleftrightarrow>
      list_all2 (\<lambda>i v. route_limit v = Inr (size_limit (expected_limit i))) semantic_ids vs"
    using all by (fastforce simp: list_all2_conv_all_nth semantic_ids_def size_limit_def jobj1_def)
  ultimately show ?thesis using doc ids by auto
qed

definition sample_semantic_binding :: "string \<times> string \<times> string \<times> string \<Rightarrow> json" where
  "sample_semantic_binding c = (case c of (i, verb, uri, scope) \<Rightarrow> JObj [
     (''id'', JStr i), (''uri'', JStr uri), (''methods'', jstrs [verb]), (''vars'', semantic_vars i),
     (''labels'', jobj1 ''exposure'' (JStr ''public'')),
     (''x-ouf-policy'', JObj [(''identity'', JStr ''OIDC''), (''allowedActorTypes'', jstrs [''HUMAN'']), (''requiredScope'', JStr scope),
        (''maxRequestBytes'', JInt (expected_limit i))]),
     (''x-ouf-capability'', jobj1 ''capabilityId'' (JStr scope)),
     (''x-ouf-backend-binding'', JObj [(''service'', JStr ''ouf-semantic''), (''port'', JInt 8080), (''path'', JStr uri)])])"

definition sample_semantic_runtime :: json where
  "sample_semantic_runtime = JObj [(''x-ouf-installation'', sample_installation),
     (''routes'', JList (map sample_semantic_binding semantic_routes))]"

definition routable :: "string \<times> string \<times> string \<times> string \<Rightarrow> bool" where
  "routable c \<longleftrightarrow> plain_semantic c \<and> (case c of (i, verb, uri, scope) \<Rightarrow> uri \<noteq> [] \<and> scope \<noteq> [] \<and> verb \<in> {''GET'', ''POST''}
     \<and> \<not> starts_with i ''trusted-human-managed-file-'' \<and> (CHR ''*'' \<in> set uri \<longrightarrow> bounded_wildcard uri uri))"

lemma semantic_routable: "\<forall>c \<in> set semantic_routes. routable c"
  using plain_semantic_routes
  by (simp add: semantic_routes_def routable_def starts_with_def bounded_wildcard_def ends_with_def suffix_to_prefix)

lemma sample_semantic_one:
  assumes "routable c" and "map_of d (JStr (fst c)) = Some (sample_semantic_binding c)"
  shows "\<exists>v. semantic_one sample_installation ''$ENV://S'' d c = Inr v"
proof -
  obtain i verb uri scope where c: "c = (i, verb, uri, scope)" by (cases c)
  have "strip i = i" "i \<noteq> []" "strip uri = uri" "uri \<noteq> []" "strip scope = scope" "scope \<noteq> []" "verb \<in> {''GET'', ''POST''}"
    "\<not> starts_with i ''trusted-human-managed-file-''" "CHR ''*'' \<in> set uri \<longrightarrow> bounded_wildcard uri uri"
    using assms(1) by (auto simp: c routable_def plain_semantic_def)
  moreover have "strip ''OIDC'' = ''OIDC''" "strip ''ouf-semantic'' = ''ouf-semantic''" "strip ''gw'' = ''gw''" "strip ''inst'' = ''inst''"
    "strip ''https://id.example/realms/ouf'' = ''https://id.example/realms/ouf''" "word_of ''._-'' ''ouf-semantic''"
    by (simp_all add: strip_def is_space_def word_of_def is_alpha_def is_digit_def)
  moreover have "secret_ref ''$ENV://S''" by (simp add: secret_ref_def starts_with_def)
  ultimately show ?thesis using assms(2)
    by (auto simp: c semantic_one_def sample_semantic_binding_def semantic_binding_def semantic_drifted_def jneq_def
        in_services_def jset_def human_route_def human_checks_def sample_installation_def check_def require_def require_text_def
        or_object_def jobj1_def id_starts_def one_method_def jstrs_def plugin_or_def streaming_plugin_def revision_text_def
        semantic_extras_def lifecycle_route_def Let_def)
qed

lemma sample_semantic_materialized: "\<exists>doc. materialize_semantic sample_semantic_runtime ''$ENV://S'' = Inr doc"
proof -
  define d where "d = map (\<lambda>c. (JStr (fst c), sample_semantic_binding c)) semantic_routes"
  have dist: "distinct (map fst semantic_routes)" by (simp add: semantic_routes_def)
  have "list_all2 (\<lambda>i v. is_obj v \<and> jget v ''id'' JNull = Inr (JStr i)) (map fst semantic_routes)
      (map sample_semantic_binding semantic_routes)"
    by (auto simp: list.rel_map list_all2_same sample_semantic_binding_def split: prod.split)
  from index_ids_distinct [OF this dist] have index: "index_ids (map sample_semantic_binding semantic_routes) = Inr d"
    by (simp add: d_def zip_map_map zip_same_conv_map)
  have "map_of d (JStr (fst c)) = Some (sample_semantic_binding c)" if "c \<in> set semantic_routes" for c
    using dist that unfolding d_def by (intro map_of_is_SomeI) (auto simp: distinct_map inj_on_def)
  then have "\<exists>vs. mapE (semantic_one sample_installation ''$ENV://S'' d) semantic_routes = Inr vs"
    using semantic_routable by (intro mapE_total ballI sample_semantic_one) auto
  then obtain vs where "mapE (semantic_one sample_installation ''$ENV://S'' d) semantic_routes = Inr vs" by blast
  then show ?thesis
    by (simp add: materialize_semantic_def sample_semantic_runtime_def index) (simp add: sample_installation_def)
qed

theorem semantic_materialization_deploys_witness:
  "\<exists>doc. materialize_semantic sample_semantic_runtime ''$ENV://S'' = Inr doc
    \<and> (\<exists>vs. jget doc ''routes'' JNull = Inr (JList vs) \<and> map (\<lambda>v. route_id (the_fields v)) vs = map Inr semantic_ids
    \<and> (validate_semantic doc = Inr vs \<longleftrightarrow>
        list_all2 (\<lambda>i v. route_limit v = Inr (size_limit (expected_limit i))) semantic_ids vs))"
proof -
  obtain doc where doc: "materialize_semantic sample_semantic_runtime ''$ENV://S'' = Inr doc"
    using sample_semantic_materialized ..
  show ?thesis by (rule exI [of _ doc], rule conjI, rule doc, rule semantic_materialization_deploys [OF doc])
qed

end
