(* ===== verification/Route_Picker_Deploys.thy ===== *)
theory Route_Picker_Deploys
  imports Route_Human_Safety
begin

text \<open>
  The picker and the Authorization and Installation namespaces: the deployers accept what the
  materialisers write.
\<close>

section \<open>The managed-file picker\<close>

lemma materialize_picker_cases:
  assumes "materialize_picker runtime = Inr doc"
  obtains inst revision where "doc = JObj [(''formatVersion'', JStr ''1.0''), (''installationId'', inst),
    (''installationRevision'', revision), (''routes'', JList [picker_page inst, picker_login])]"
proof -
  have "\<exists>inst revision. doc = JObj [(''formatVersion'', JStr ''1.0''), (''installationId'', inst),
    (''installationRevision'', revision), (''routes'', JList [picker_page inst, picker_login])]"
    using assms unfolding materialize_picker_def bindE_Inr_iff single_case_Inr
    by (auto simp: bindE_Inr_iff split: if_splits)
  with that show thesis by blast
qed

lemma picker_login_distinct: "picker_id \<noteq> login_id"
  by (simp add: picker_id_def login_id_def)

lemma clears_header: "contains picker_strip ''ngx.req.clear_header(k)''"
  by (simp add: picker_strip_def)

text \<open>
  Whatever \<open>materialize_managed_file_ths.py\<close> writes, \<open>deploy_managed_file_ths.py\<close> selects from it
  exactly the picker page of the installation and the OIDC login route: its checks of both routes never
  refuse a materialised document.
\<close>

theorem picker_materialization_deploys:
  assumes "materialize_picker runtime = Inr doc"
  shows "\<exists>inst. select_picker doc = Inr (picker_page inst) \<and> select_login doc = Inr picker_login"
proof -
  from assms obtain inst revision where doc: "doc = JObj [(''formatVersion'', JStr ''1.0''), (''installationId'', inst),
    (''installationRevision'', revision), (''routes'', JList [picker_page inst, picker_login])]"
    by (rule materialize_picker_cases)
  have page: "is_obj (picker_page inst)" "jget (picker_page inst) ''id'' JNull = Inr (JStr picker_id)"
    "jindex (picker_page inst) ''id'' = Inr (JStr picker_id)" by (simp_all add: picker_page_def)
  have login: "is_obj picker_login" "jget picker_login ''id'' JNull = Inr (JStr login_id)"
    "jindex picker_login ''id'' = Inr (JStr login_id)" by (simp_all add: picker_login_def)
  have "id_set [picker_page inst, picker_login] = Inr {JStr picker_id, JStr login_id}"
    using page login by (simp add: id_set_def jset_def insert_commute)
  then have "select_picker doc = Inr (picker_page inst)"
    using page login by (simp add: select_picker_def doc jneq_def) (simp add: picker_page_def get_get_def)
  moreover have "select_login doc = Inr picker_login"
    using page login picker_login_distinct clears_header
    by (simp add: select_login_def doc) (simp add: picker_login_def keys_differ_def jset_def jneq_def lua_phase_def
        login_upstream_def size_limit_def jobj1_def jstrs_def)
  ultimately show ?thesis by blast
qed

definition sample_upload_binding :: json where
  "sample_upload_binding = JObj [(''id'', JStr ''trusted-human-managed-file-upload''), (''uri'', JStr ''/api/managed-sources/v1/files''),
     (''x-ouf-policy'', JObj [(''identity'', JStr ''OIDC''), (''requiredScope'', JStr picker_cap), (''allowedActorTypes'', jstrs [''HUMAN''])]),
     (''x-ouf-capability'', jobj1 ''capabilityId'' (JStr picker_cap)),
     (''x-ouf-backend-binding'', JObj [(''service'', JStr ''ouf-onboarding''), (''port'', JInt 8080),
        (''path'', JStr ''/api/managed-sources/v1/files'')])]"

definition sample_picker_runtime :: json where
  "sample_picker_runtime = JObj [(''x-ouf-installation'', sample_installation), (''routes'', JList [sample_upload_binding])]"

theorem picker_materialization_deploys_witness:
  "\<exists>doc. materialize_picker sample_picker_runtime = Inr doc
    \<and> (\<exists>inst. select_picker doc = Inr (picker_page inst) \<and> select_login doc = Inr picker_login)"
proof -
  have "\<exists>doc. materialize_picker sample_picker_runtime = Inr doc"
    by (simp add: materialize_picker_def sample_picker_runtime_def sample_installation_def filter_id_def sample_upload_binding_def
        picker_mismatch_def jneq_def jobj1_def jstrs_def)
  then obtain doc where doc: "materialize_picker sample_picker_runtime = Inr doc" ..
  show ?thesis by (rule exI [of _ doc], rule conjI, rule doc, rule picker_materialization_deploys [OF doc])
qed

section \<open>Namespaces\<close>

lemma id_set_texts:
  assumes "list_all2 (\<lambda>v i. jget v ''id'' JNull = Inr (JStr i)) vs ids"
  shows "id_set vs = Inr (JStr ` set ids)"
proof (rule id_set_named)
  show "list_all2 (\<lambda>i v. jget v ''id'' JNull = Inr (JStr i)) ids vs"
    using assms by (simp add: list_all2_conv_all_nth)
qed

lemma method_sets_named:
  assumes "list_all2 (\<lambda>v m. jget v ''methods'' (JList []) = Inr (JList [JStr m])) vs ms"
  shows "method_sets vs = Inr ((\<lambda>m. [JStr m]) ` set ms)"
proof -
  have "mapE (\<lambda>r. bindE (jget r ''methods'' (JList [])) jelements) vs = Inr (map (\<lambda>m. [JStr m]) ms)"
    using assms by (simp add: mapE_Inr_iff list_all2_conv_all_nth)
  then show ?thesis by (auto simp: method_sets_def jset_def list_all_iff)
qed

lemma uris_agree:
  assumes "\<forall>v \<in> set vs. jget v ''uri'' JNull = Inr (JStr uri)"
  shows "any_uri_differs uri vs = Inr False"
  using assms unfolding any_uri_differs_def by (induction vs) (simp_all add: jneq_def)

lemma namespace_accepted:
  assumes "jget doc ''routes'' JNull = Inr (JList vs)" and "length vs = n"
    and "list_all2 (\<lambda>v i. jget v ''id'' JNull = Inr (JStr i)) vs js"
    and "list_all2 (\<lambda>v m. jget v ''methods'' (JList []) = Inr (JList [JStr m])) vs ms" and "set ms = set methods"
    and "\<forall>v \<in> set vs. jget v ''uri'' JNull = Inr (JStr uri)"
  shows "namespace_routes says n ids methods uri doc = (if set js = set ids then Inr vs else Inl (ValueError (says ! 1)))"
proof -
  have "JStr ` set js = JStr ` set ids \<longleftrightarrow> set js = set ids" by (simp add: inj_image_eq_iff inj_def)
  then show ?thesis
    using assms(1,2,5) id_set_texts [OF assms(3)] method_sets_named [OF assms(4)] uris_agree [OF assms(6)]
    by (simp add: namespace_routes_def)
qed

lemma installation_materialization_deploys:
  assumes "materialize_installation installation ref = Inr doc"
  shows "\<exists>vs. namespace_routes installation_says 2 installation_ids installation_methods
    ''/api/trusted-human/v1/installations/*'' doc = Inr vs"
proof -
  from assms obtain inst revision issuer audience where
    doc: "jget doc ''routes'' JNull = Inr (JList (map (installation_route inst revision issuer audience ref) installation_methods))"
    by (auto simp: materialize_installation_def bindE_Inr_iff simp del: map_eq_conv)
  have "namespace_routes installation_says 2 installation_ids installation_methods ''/api/trusted-human/v1/installations/*'' doc
    = (if set installation_ids = set installation_ids
       then Inr (map (installation_route inst revision issuer audience ref) installation_methods)
       else Inl (ValueError (installation_says ! 1)))"
    by (rule namespace_accepted [OF doc, where ms = installation_methods])
      (simp_all add: installation_ids_def list.rel_map list_all2_same installation_route_def installation_methods_def
        jstrs_def installation_namespace_def)
  then show ?thesis by auto
qed

section \<open>The Authorization namespace\<close>

lemma method_of_tuple:
  assumes "methods_tuple r = Inr [JStr m]" and "bindE (jindex r ''methods'') first_item = Inr x"
  shows "x = JStr m"
proof -
  from assms(2) obtain v where v: "jindex r ''methods'' = Inr v" "first_item v = Inr x" by (auto simp: bindE_Inr_iff)
  from v(1) have "jget r ''methods'' JNull = Inr v" by (cases r) (auto split: option.splits)
  with assms(1) have "jelements v = Inr [JStr m]" by (auto simp: methods_tuple_def split: if_splits)
  with v(2) show ?thesis by (cases v) (auto simp: first_item_def split: list.splits)
qed

lemma auth_route_shape:
  assumes "auth_route installation issuer audience ref b = Inr v"
  obtains i m plugins where "require_text b ''id'' = Inr i" "bindE (jindex b ''methods'') first_item = Inr m"
    "jget v ''id'' JNull = Inr (JStr i)" "jget v ''uri'' JNull = Inr (JStr auth_namespace)"
    "jget v ''methods'' (JList []) = Inr (JList [m])" "jget v ''plugins'' JNull = Inr plugins"
    "jget plugins ''openid-connect'' JNull = Inr (human_oidc audience ref issuer ''authorization.policy.admin'')"
  using assms by (auto simp: auth_route_def guarded_plugins_def bindE_Inr_iff)

lemma ranked_bindings:
  assumes "list_all2 (\<lambda>r p. method_rank r = Inr p) bs ranked"
  shows "map snd ranked = bs"
  using assms by (induction rule: list_all2_induct) (auto simp: method_rank_def bindE_Inr_iff)

definition auth_guarded :: "string \<Rightarrow> json \<Rightarrow> bool" where
  "auth_guarded ref v \<longleftrightarrow> (\<exists>plugins audience issuer. jget v ''plugins'' JNull = Inr plugins
     \<and> jget plugins ''openid-connect'' JNull = Inr (human_oidc audience ref issuer ''authorization.policy.admin''))"

text \<open>
  \<open>materialize_trusted_human_authorization_runtime.py\<close> writes four routes of the Authorization
  namespace, one per method, each with the token check for the admin scope and a secret by reference;
  \<open>deploy_trusted_human_authorization.py\<close> accepts the document exactly when the ids of the bindings
  are the four that it manages, and refuses it for its ids otherwise.
\<close>

theorem authorization_materialization_deploys:
  assumes "materialize_authorization runtime ref = Inr doc"
  shows "\<exists>vs js. jget doc ''routes'' JNull = Inr (JList vs) \<and> (\<forall>v \<in> set vs. auth_guarded ref v) \<and> secret_ref ref
    \<and> map (\<lambda>v. route_id (the_fields v)) vs = map Inr js
    \<and> namespace_routes authorization_says 4 auth_current_ids auth_methods auth_namespace doc =
        (if set js = set auth_current_ids then Inr vs else Inl (ValueError ''unexpected trusted HUMAN route IDs''))"
proof -
  from assms obtain installation issuer audience bs ms ranked vs where four: "length bs = 4" and ref: "secret_ref ref"
    and ms: "list_all2 (\<lambda>b t. methods_tuple b = Inr t) bs ms" "set ms = (\<lambda>m. [JStr m]) ` set auth_methods"
    and ranked: "list_all2 (\<lambda>r p. method_rank r = Inr p) bs ranked"
    and vs: "list_all2 (\<lambda>b v. auth_route installation issuer audience ref b = Inr v) (map snd (sort_by (key_le fst) ranked)) vs"
    and doc: "route_document installation vs = Inr doc"
    by (auto simp: materialize_authorization_def bindE_Inr_iff require_Inr_iff mapE_Inr_iff)
  define cs where "cs = map snd (sort_by (key_le fst) ranked)"
  have len: "length vs = 4" using vs four ranked by (simp add: list_all2_lengthD [symmetric])
  have cs: "set cs = set bs" using ranked_bindings [OF ranked] unfolding cs_def by (metis set_map sort_by_set)
  have tuple: "\<exists>m \<in> set auth_methods. methods_tuple b = Inr [JStr m]" if "b \<in> set bs" for b
    using list_all2_members(1) [OF ms(1)] ms(2) that by fastforce
  have cover: "\<exists>b \<in> set bs. methods_tuple b = Inr [JStr m]" if "m \<in> set auth_methods" for m
    using list_all2_members(2) [OF ms(1)] ms(2) that by fastforce
  define verb where "verb b = (THE m. methods_tuple b = Inr [JStr m])" for b
  have verb: "verb b = m" if "methods_tuple b = Inr [JStr m]" for b m using that by (simp add: verb_def)
  have shapes: "list_all2 (\<lambda>b v. \<exists>i. jget v ''id'' JNull = Inr (JStr i) \<and> jget v ''uri'' JNull = Inr (JStr auth_namespace)
      \<and> jget v ''methods'' (JList []) = Inr (JList [JStr (verb b)]) \<and> auth_guarded ref v) cs vs"
  proof (rule list.rel_mono_strong [OF vs [folded cs_def]])
    fix b v
    assume b: "b \<in> set cs" and v: "auth_route installation issuer audience ref b = Inr v"
    from tuple b cs obtain m where m: "methods_tuple b = Inr [JStr m]" by blast
    from v show "\<exists>i. jget v ''id'' JNull = Inr (JStr i) \<and> jget v ''uri'' JNull = Inr (JStr auth_namespace)
      \<and> jget v ''methods'' (JList []) = Inr (JList [JStr (verb b)]) \<and> auth_guarded ref v"
      by (rule auth_route_shape) (auto simp: auth_guarded_def verb [OF m] dest: method_of_tuple [OF m])
  qed
  then obtain js where js: "list_all2 (\<lambda>v i. jget v ''id'' JNull = Inr (JStr i)) vs js"
    by (rule_tac that [of "map (\<lambda>v. THE i. jget v ''id'' JNull = Inr (JStr i)) vs"])
      (auto simp: list_all2_conv_all_nth)
  have methods: "list_all2 (\<lambda>v m. jget v ''methods'' (JList []) = Inr (JList [JStr m])) vs (map verb cs)"
    using shapes by (auto simp: list_all2_conv_all_nth)
  have "set (map verb cs) = set auth_methods"
    using tuple cover verb cs by (auto simp: image_iff) metis
  from namespace_accepted [OF route_document_routes [OF doc] len js methods this]
  have "namespace_routes authorization_says 4 auth_current_ids auth_methods auth_namespace doc =
        (if set js = set auth_current_ids then Inr vs else Inl (ValueError ''unexpected trusted HUMAN route IDs''))"
    using list_all2_members(2) [OF shapes] by (simp add: authorization_says_def)
  moreover have "map (\<lambda>v. route_id (the_fields v)) vs = map Inr js"
    using js by (auto simp: list_all2_conv_all_nth intro!: nth_equalityI got_id)
  moreover have "\<forall>v \<in> set vs. auth_guarded ref v" using list_all2_members(2) [OF shapes] by blast
  ultimately show ?thesis using route_document_routes [OF doc] ref by blast
qed

definition sample_auth_binding :: "string \<Rightarrow> json" where
  "sample_auth_binding m = JObj [(''id'', JStr (''trusted-human-authorization-'' @ lower m)), (''uri'', JStr auth_namespace),
     (''methods'', jstrs [m]), (''labels'', jobj1 ''exposure'' (JStr ''public'')), (''service_id'', JStr ''ouf-onboarding''),
     (''x-ouf-capability'', JObj [(''capabilityId'', JStr ''authorization.policy.admin''), (''owner'', JStr ''authorization''),
        (''operationType'', JStr ''COMMAND''), (''toolEligible'', JBool False), (''humanRequired'', JBool True)]),
     (''x-ouf-policy'', JObj [(''identity'', JStr ''OIDC''), (''requiredScope'', JStr ''authorization.policy.admin''),
        (''allowedActorTypes'', jstrs [''HUMAN'']), (''maxRequestBytes'', JInt 5242880), (''timeoutSeconds'', JInt 10)])]"

definition sample_auth_runtime :: json where
  "sample_auth_runtime = JObj [(''x-ouf-installation'', sample_installation),
     (''routes'', JList (map sample_auth_binding [''DELETE'', ''GET'', ''POST'', ''PUT'']))]"

lemma lower_methods: "lower ''GET'' = ''get''" "lower ''POST'' = ''post''" "lower ''PUT'' = ''put''" "lower ''DELETE'' = ''delete''"
  by code_simp+

lemma sample_auth_text:
  "m \<in> set auth_methods \<Longrightarrow> require_text (sample_auth_binding m) ''id'' = Inr (''trusted-human-authorization-'' @ lower m)"
  by (rule require_plain_text) (auto simp: sample_auth_binding_def auth_methods_def lower_methods strip_def is_space_def)

lemma sample_auth_binding_facts:
  assumes "m \<in> set auth_methods"
  shows "auth_binding (sample_auth_binding m) = Inr True" "methods_tuple (sample_auth_binding m) = Inr [JStr m]"
    "auth_validate (sample_auth_binding m) = Inr ()"
    "bindE (jindex (sample_auth_binding m) ''methods'') first_item = Inr (JStr m)"
    "plugin_or (sample_auth_binding m) k = Inr (JObj [])"
proof -
  show methods: "methods_tuple (sample_auth_binding m) = Inr [JStr m]"
    by (simp add: methods_tuple_def sample_auth_binding_def jstrs_def)
  show "auth_binding (sample_auth_binding m) = Inr True"
    by (simp add: auth_binding_def sample_auth_binding_def and_then_def or_field_is_def or_object_def jobj1_def)
  show "auth_validate (sample_auth_binding m) = Inr ()"
    using assms methods
    by (simp add: auth_validate_def jset_def) (simp add: sample_auth_binding_def jneq_def or_object_def check_def max_body_def jstrs_def Let_def)
  show "bindE (jindex (sample_auth_binding m) ''methods'') first_item = Inr (JStr m)"
    by (simp add: sample_auth_binding_def jstrs_def first_item_def)
  show "plugin_or (sample_auth_binding m) k = Inr (JObj [])"
    by (simp add: plugin_or_def sample_auth_binding_def or_object_def)
qed

lemma sample_auth_materialized: "\<exists>doc. materialize_authorization sample_auth_runtime ''$ENV://S'' = Inr doc"
proof -
  have all: "m \<in> set auth_methods" if "m \<in> {''DELETE'', ''GET'', ''POST'', ''PUT''}" for m
    using that by (auto simp: auth_methods_def)
  note facts = sample_auth_binding_facts [OF all] sample_auth_text [OF all]
  have route: "\<exists>v. auth_route sample_installation issuer audience ref (sample_auth_binding m) = Inr v"
    if "m \<in> {''DELETE'', ''GET'', ''POST'', ''PUT''}" for m issuer audience ref
    using facts [OF that] by (simp add: auth_route_def) (simp add: sample_installation_def require_text_def strip_def is_space_def revision_text_def)
  have rank: "\<exists>n. method_rank (sample_auth_binding m) = Inr (n, sample_auth_binding m)"
    if "m \<in> {''DELETE'', ''GET'', ''POST'', ''PUT''}" for m
    using facts(4) [OF that] that unfolding method_rank_def by (auto simp: auth_methods_def)
  define bs where "bs = map sample_auth_binding [''DELETE'', ''GET'', ''POST'', ''PUT'']"
  have bindings: "filterE auth_binding bs = Inr bs" using facts(1) by (simp add: bs_def)
  have tuples: "mapE methods_tuple bs = Inr (map (\<lambda>m. [JStr m]) [''DELETE'', ''GET'', ''POST'', ''PUT''])"
    using facts(2) by (simp add: bs_def)
  have "\<exists>p. method_rank b = Inr p" if "b \<in> set bs" for b using that rank unfolding bs_def by (simp, blast)
  then have "\<exists>ranked. mapE method_rank bs = Inr ranked" by (intro mapE_total) blast
  then obtain ranked where ranked: "mapE method_rank bs = Inr ranked" by blast
  have "set (map snd (sort_by (key_le fst) ranked)) = set bs"
    using ranked_bindings [of bs ranked] ranked by (metis mapE_Inr_iff set_map sort_by_set)
  then have "\<exists>vs. mapE (auth_route sample_installation ''https://id.example/realms/ouf'' ''gw'' ''$ENV://S'')
      (map snd (sort_by (key_le fst) ranked)) = Inr vs"
    using route by (intro mapE_total) (auto simp: bs_def)
  then obtain vs where vs: "mapE (auth_route sample_installation ''https://id.example/realms/ouf'' ''gw'' ''$ENV://S'')
      (map snd (sort_by (key_le fst) ranked)) = Inr vs" by blast
  have settings: "require_https_url sample_installation ''issuerUrl'' False = Inr ''https://id.example/realms/ouf''"
    "require_text sample_installation ''gatewayAudience'' = Inr ''gw''" "is_obj sample_installation"
    by (simp_all add: sample_installation_def require_https_url_def require_text_def strip_def is_space_def rstrip_slash_def Let_def url_eval)
  have "set (map (\<lambda>m. [JStr m]) [''DELETE'', ''GET'', ''POST'', ''PUT'']) = (\<lambda>m. [JStr m]) ` set auth_methods"
    by (auto simp: auth_methods_def)
  then have "materialize_authorization sample_auth_runtime ''$ENV://S'' = route_document sample_installation vs"
    using settings bindings tuples ranked vs
    by (simp add: materialize_authorization_def sample_auth_runtime_def bs_def [symmetric] runtime_routes_def check_def
        require_def secret_ref_def starts_with_def jset_def) (simp add: bs_def)
  moreover have "\<exists>doc. route_document sample_installation vs = Inr doc"
    by (simp add: route_document_def sample_installation_def require_text_def strip_def is_space_def)
  ultimately show ?thesis by simp
qed

theorem authorization_materialization_deploys_witness:
  "\<exists>doc. materialize_authorization sample_auth_runtime ''$ENV://S'' = Inr doc
    \<and> (\<exists>vs js. jget doc ''routes'' JNull = Inr (JList vs) \<and> (\<forall>v \<in> set vs. auth_guarded ''$ENV://S'' v) \<and> secret_ref ''$ENV://S''
    \<and> map (\<lambda>v. route_id (the_fields v)) vs = map Inr js
    \<and> namespace_routes authorization_says 4 auth_current_ids auth_methods auth_namespace doc =
        (if set js = set auth_current_ids then Inr vs else Inl (ValueError ''unexpected trusted HUMAN route IDs'')))"
proof -
  obtain doc where doc: "materialize_authorization sample_auth_runtime ''$ENV://S'' = Inr doc"
    using sample_auth_materialized ..
  show ?thesis by (rule exI [of _ doc], rule conjI, rule doc, rule authorization_materialization_deploys [OF doc])
qed

end
