(* ===== verification/Route_Mediation.thy ===== *)
theory Route_Mediation
  imports Route_Human Route_Status
begin

text \<open>
  The mediation materialisers: \<open>delegation_functions.py\<close>, which puts reviewed Lua files into a route, and
  the scripts that derive mediated routes from the execute template of an installation,
  \<open>materialize_apisix_execute_runtime.py\<close>, \<open>materialize_permission_proposals.py\<close>,
  \<open>materialize_operational_execute.py\<close>, \<open>materialize_object_search.py\<close>, \<open>materialize_managed_file_mcp.py\<close> and
  \<open>materialize_managed_upload.py\<close>. The texts of the Lua files and the parsed JSON schemas are
  parameters.
\<close>

record sources =
  so_lua :: "string \<Rightarrow> string"
  so_schema :: "string \<Rightarrow> json"

section \<open>Editing documents\<close>

fun get_path :: "string list \<Rightarrow> json \<Rightarrow> json res" where
  "get_path [] v = Inr v"
| "get_path (k # ks) v = bindE (jindex v k) (get_path ks)"

definition set_all :: "(string list \<times> json) list \<Rightarrow> json \<Rightarrow> json res" where
  "set_all edits v = foldE (\<lambda>(ks, x) r. set_path ks x r) edits v"

definition update_path :: "string list \<Rightarrow> (json \<Rightarrow> json res) \<Rightarrow> json \<Rightarrow> json res" where
  "update_path ks f v = bindE (get_path ks v) (\<lambda>x. bindE (f x) (\<lambda>y. set_path ks y v))"

fun append_item :: "json \<Rightarrow> json \<Rightarrow> json res" where
  "append_item x (JList xs) = Inr (JList (xs @ [x]))"
| "append_item x _ = Inl (TypeError ''object has no attribute append'')"

fun insert_first :: "json \<Rightarrow> json \<Rightarrow> json res" where
  "insert_first x (JList xs) = Inr (JList (x # xs))"
| "insert_first x _ = Inl (TypeError ''object has no attribute insert'')"

text \<open>\<open>d.pop(k, None)\<close>\<close>

fun drop_key :: "string \<Rightarrow> json \<Rightarrow> json res" where
  "drop_key k (JObj kvs) = Inr (JObj (filter (\<lambda>(j, _). j \<noteq> k) kvs))"
| "drop_key k _ = Inl (TypeError ''object has no attribute pop'')"

definition append_routes :: "json list \<Rightarrow> json \<Rightarrow> json res" where
  "append_routes new doc = foldE (\<lambda>r d. update_path [''routes''] (append_item r) d) new doc"

text \<open>\<open>next(r for r in rs if r[k] == v)\<close>\<close>

fun next_with :: "(json \<Rightarrow> json res) \<Rightarrow> string \<Rightarrow> json list \<Rightarrow> json res" where
  "next_with f s [] = Inl (RuntimeError ''StopIteration'')"
| "next_with f s (r # rs) = bindE (f r) (\<lambda>v. if v = JStr s then Inr r else next_with f s rs)"

definition execute_uri :: string where
  "execute_uri = ''/internal/capabilities/v1/execute''"

definition routes_of :: "json \<Rightarrow> json list res" where
  "routes_of doc = bindE (jindex doc ''routes'') jelements"

definition execute_template :: "json \<Rightarrow> json res" where
  "execute_template doc = bindE (routes_of doc) (next_with (\<lambda>r. jindex r ''uri'') execute_uri)"

definition fail_if :: "bool res \<Rightarrow> string \<Rightarrow> unit res" where
  "fail_if m msg = bindE m (\<lambda>bad. require (\<not> bad) (ValueError msg))"

text \<open>\<open>(r.get("x-ouf-capability") or {}).get("capabilityId") == cap and r.get("labels", {}).get("exposure") == "internal"\<close>\<close>

definition internal_capability :: "string \<Rightarrow> json \<Rightarrow> bool res" where
  "internal_capability cap r = and_then (or_field_is r ''x-ouf-capability'' ''capabilityId'' cap)
     (bindE (get_get r ''labels'' ''exposure'') (\<lambda>v. Inr (v = JStr ''internal'')))"

definition the_only :: "string \<Rightarrow> json list \<Rightarrow> json res" where
  "the_only msg rs = (case rs of [r] \<Rightarrow> Inr r | _ \<Rightarrow> Inl (ValueError msg))"

definition capability_binding :: "json \<Rightarrow> string \<Rightarrow> string \<Rightarrow> json res" where
  "capability_binding runtime cap msg =
     bindE (bindE (routes_of runtime) (filterE (internal_capability cap))) (the_only msg)"

definition truthy_field :: "json \<Rightarrow> string \<Rightarrow> bool res" where
  "truthy_field v k = bindE (jget v k JNull) (\<lambda>x. Inr (json_truthy x))"

definition negated :: "bool res \<Rightarrow> bool res" where
  "negated m = bindE m (\<lambda>b. Inr (\<not> b))"

text \<open>\<open>v not in xs\<close>\<close>

definition not_in :: "json \<Rightarrow> json res \<Rightarrow> bool res" where
  "not_in v m = bindE m (\<lambda>xs. case v of
      JStr s \<Rightarrow> negated (jin s xs)
    | _ \<Rightarrow> (case xs of JStr _ \<Rightarrow> Inl (TypeError ''in requires string as left operand'')
        | _ \<Rightarrow> bindE (jelements xs) (\<lambda>ys. Inr (\<not> list_ex (json_eq v) ys))))"

definition rewrite_uri :: "json \<Rightarrow> json res" where
  "rewrite_uri r = get_path [''plugins'', ''proxy-rewrite'', ''uri''] r"

definition lua_at :: "string \<Rightarrow> string list" where
  "lua_at plugin = [''plugins'', plugin, ''functions'']"

section \<open>Reviewed Lua functions\<close>

definition operational_caps :: "(string \<times> string \<times> string \<times> int \<times> string \<times> string \<times> int) list" where
  "operational_caps = [
     (''ouf.operations.summary'', ''mcp'', ''ouf-mcp-server'', 8080, ''/api/internal/v1/mcp/operations/summary'', ''operations.status.read'', 5),
     (''ouf.operations.incidents'', ''mcp'', ''ouf-mcp-server'', 8080, ''/api/internal/v1/mcp/operations/incidents'', ''operations.incident.read'', 5),
     (''ouf.ingestion.operations.summary'', ''ingestion'', ''ouf-ingestion-runtime'', 8080,
       ''/api/internal/v1/ingestion/operations/summary'', ''operations.status.read'', 3),
     (''ouf.ingestion.operations.incidents'', ''ingestion'', ''ouf-ingestion-runtime'', 8080,
       ''/api/internal/v1/ingestion/operations/incidents'', ''operations.incident.read'', 3),
     (''ouf.gateway.operations.summary'', ''gateway'', ''ouf-gateway-control-plane'', 8081,
       ''/api/internal/v1/gateway/operations/summary'', ''operations.status.read'', 3),
     (''ouf.gateway.operations.incidents'', ''gateway'', ''ouf-gateway-control-plane'', 8081,
       ''/api/internal/v1/gateway/operations/incidents'', ''operations.incident.read'', 3)]"

definition proposal_caps :: "(string \<times> string \<times> string \<times> string) list" where
  "proposal_caps = [
     (''ouf.semantic.propose'', ''create'', ''COMMAND'', ''ouf.semantic.propose''),
     (''ouf.semantic.review.prepare'', ''validate'', ''COMMAND'', ''ouf.semantic.review.prepare''),
     (''ouf.semantic.approval.request'', ''review'', ''COMMAND'', ''ouf.semantic.approval.request''),
     (''ouf.semantic.proposal.read'', ''read'', ''READ'', ''ouf.semantic.proposal.read'')]"

text \<open>The operational binding of a function: capability, owner and scope.\<close>

type_synonym binding = "string \<times> string \<times> string"

definition owner_kinds :: "string list" where
  "owner_kinds = [''execute_permissions'', ''execute_semantic_proposals'', ''execute_object_search'', ''execute_managed_file'',
     ''execute_managed_upload'', ''execute_semantic_read'']"

definition function_kinds :: "string list" where
  "function_kinds = [''issue_delegation'', ''execute_status'', ''execute_permissions'', ''execute_operational'',
     ''execute_semantic_proposals'', ''execute_object_search'', ''execute_managed_file'', ''execute_managed_upload'',
     ''execute_semantic_read'']"

definition resolved_setting :: "json \<Rightarrow> bool" where
  "resolved_setting v = (case v of JStr s \<Rightarrow> strip s \<noteq> [] \<and> \<not> starts_with s ''installation://'' | _ \<Rightarrow> False)"

definition owner_constant :: "string \<Rightarrow> string option \<Rightarrow> (string \<times> string) list res" where
  "owner_constant kind owner_key =
     (if kind \<notin> set owner_kinds then Inr []
      else case owner_key of
        Some k \<Rightarrow> if env_name_ok k then Inr [(''OWNER_KEY_ENV'', k)] else Inl (ValueError ''owner receipt key environment required'')
      | None \<Rightarrow> Inl (ValueError ''owner receipt key environment required''))"

definition proposal_constants :: "string \<Rightarrow> binding option \<Rightarrow> (string \<times> string) list res" where
  "proposal_constants kind b =
     (if kind \<noteq> ''execute_semantic_proposals'' then Inr []
      else case b of
        None \<Rightarrow> Inl (ValueError ''closed semantic binding required'')
      | Some (cap, owner, scope) \<Rightarrow>
          (case map_of proposal_caps cap of
             None \<Rightarrow> Inl (ValueError ''semantic binding is not approved'')
           | Some (mode, operation, wanted) \<Rightarrow>
               if owner \<noteq> ''semantic'' \<or> scope \<noteq> wanted then Inl (ValueError ''semantic binding is not approved'')
               else Inr [(''CAPABILITY'', cap), (''REQUIRED_SCOPE'', wanted), (''OPERATION'', operation),
                 (''OWNER_PATH'', ''/api/semantic/v1/proposal-commands/'' @ mode)]))"

definition operational_constants :: "string \<Rightarrow> binding option \<Rightarrow> (string \<times> string) list res" where
  "operational_constants kind b =
     (if kind \<noteq> ''execute_operational'' then Inr []
      else case b of
        None \<Rightarrow> Inl (ValueError ''closed operational binding required'')
      | Some (cap, owner, scope) \<Rightarrow>
          (case map_of operational_caps cap of
             None \<Rightarrow> Inl (ValueError ''operational binding is not approved'')
           | Some (wanted, _, _, _, wanted_scope, _) \<Rightarrow>
               if owner \<noteq> wanted \<or> scope \<noteq> wanted_scope then Inl (ValueError ''operational binding is not approved'')
               else Inr [(''CAPABILITY'', cap), (''OWNER'', wanted), (''REQUIRED_SCOPE'', wanted_scope)]))"

definition newline :: string where
  "newline = [CHR 0x0A]"

definition lua_function ::
  "sources \<Rightarrow> string \<Rightarrow> json \<Rightarrow> string \<Rightarrow> string option \<Rightarrow> binding option \<Rightarrow> string res" where
  "lua_function src kind installation key_env owner_key b =
     bindE (require (env_name_ok key_env) (ValueError ''invalid delegation key environment name'')) (\<lambda>_.
     bindE (bindE (jindex installation ''issuerUrl'') text_value) (\<lambda>issuer.
     bindE (jindex installation ''gatewayAudience'') (\<lambda>audience.
     bindE (jindex installation ''mcpServiceIdentity'') (\<lambda>workload.
     bindE (require (list_all resolved_setting [JStr key_env, JStr (rstrip_slash issuer), audience, workload])
       (ValueError ''resolved delegation settings required'')) (\<lambda>_.
     bindE (owner_constant kind owner_key) (\<lambda>owner.
     bindE (proposal_constants kind b) (\<lambda>proposal.
     bindE (operational_constants kind b) (\<lambda>operational.
     let values = [(''DELEGATION_KEY_ENV'', key_env), (''ISSUER'', rstrip_slash issuer), (''AUDIENCE'', py_str audience),
           (''MCP_WORKLOAD'', py_str workload)] @ owner @ proposal @ operational;
         constants = glue newline (map (\<lambda>(k, v). ''local '' @ k @ '' = '' @ json_text v) values) in
     if kind \<notin> set function_kinds then Inl (ValueError ''invalid function'')
     else Inr (''return function(conf, ctx)'' @ newline @ constants @ newline @ so_lua src ''delegation'' @ newline
       @ so_lua src kind @ newline @ ''end'')))))))))"

definition lua_value ::
  "sources \<Rightarrow> string \<Rightarrow> json \<Rightarrow> string \<Rightarrow> string option \<Rightarrow> binding option \<Rightarrow> json res" where
  "lua_value src kind installation key_env owner_key b =
     bindE (lua_function src kind installation key_env owner_key b) (\<lambda>s. Inr (JStr s))"

section \<open>The status profile\<close>

definition status_path :: string where
  "status_path = ''/api/internal/v1/mcp/operations/status''"

definition status_checks :: "json \<Rightarrow> (json \<times> json) res" where
  "status_checks runtime =
     bindE (jindex runtime ''x-ouf-installation'') (\<lambda>installation.
     bindE (require_https_url installation ''issuerUrl'' False) (\<lambda>_.
     bindE (require_text installation ''gatewayAudience'') (\<lambda>_.
     bindE (require_text installation ''mcpServiceIdentity'') (\<lambda>workload.
     bindE (bindE (routes_of runtime) (filterE (\<lambda>r. bindE (jget r ''uri'' JNull) (\<lambda>u. Inr (u = JStr execute_uri))))) (\<lambda>mediation.
     bindE (the_only ''exactly one POST execute binding required'' mediation) (\<lambda>m.
     bindE (fail_if (jneq (jget m ''methods'' JNull) (jstrs [''POST''])) ''exactly one POST execute binding required'') (\<lambda>_.
     bindE (fail_if (or_chain [jneq (get_path [''x-ouf-policy'', ''identity''] m) (JStr ''M2M''),
         jneq (get_path [''x-ouf-mediation'', ''serviceIdentity''] m) (JStr workload)])
       ''execute workload binding is unresolved or invalid'') (\<lambda>_.
     bindE (capability_binding runtime ''ouf.system.status'' ''exactly one internal system status binding required'') (\<lambda>status.
     bindE (jindex status ''x-ouf-capability'') (\<lambda>cap.
     bindE (jindex status ''x-ouf-policy'') (\<lambda>policy.
     bindE (fail_if (or_chain [jneq (jindex cap ''owner'') (JStr ''mcp''), jneq (jindex cap ''operationType'') (JStr ''READ''),
         truthy_field cap ''humanRequired'', negated (truthy_field cap ''toolEligible'')])
       ''status capability is not delegable READ'') (\<lambda>_.
     bindE (fail_if (or_chain [jneq (jindex policy ''identity'') (JStr ''M2M''),
         not_in (JStr workload) (jindex policy ''allowedServiceIdentities''),
         jneq (jindex policy ''requiredScope'') (JStr ''operations.status.read''),
         not_in (JStr ''HUMAN'') (jindex policy ''allowedActorTypes'')])
       ''status service/scope/actor policy mismatch'') (\<lambda>_.
     bindE (fail_if (or_chain [jneq (jget policy ''maxRequestBytes'' JNull) (JInt 65536),
         jneq (jget policy ''timeoutSeconds'' JNull) (JInt 3)])
       ''status profile limits changed; review materialization'') (\<lambda>_.
     bindE (fail_if (or_chain [jneq (jindex status ''service_id'') (JStr ''ouf-mcp-server''),
         jneq (rewrite_uri status) (JStr status_path)]) ''unexpected status owner binding'') (\<lambda>_.
     Inr (installation, m))))))))))))))))"

definition clear_delegation :: string where
  "clear_delegation = ''return function(conf, ctx) ngx.req.clear_header('X-OUF-Delegation') end''"

definition keep_delegation :: string where
  "keep_delegation = ''return function(conf, ctx) for name,_ in pairs(ngx.req.get_headers(0)) do ''
     @ ''if name:lower():sub(1,6)=='x-ouf-' and name:lower()~='x-ouf-delegation' ''
     @ ''then ngx.req.clear_header(name) end end end''"

definition token_header_edits :: "string list \<Rightarrow> (string list \<times> json) list" where
  "token_header_edits path = map (\<lambda>(k, v). (path @ [k], v)) no_token_headers"

text \<open>The ingress route that issues delegations.\<close>

definition delegating_ingress :: "sources \<Rightarrow> json \<Rightarrow> string \<Rightarrow> json \<Rightarrow> json res" where
  "delegating_ingress src installation key_env ingress =
     bindE (set_all (token_header_edits [''plugins'', ''openid-connect'']) ingress) (\<lambda>r.
     bindE (update_path (lua_at ''serverless-pre-function'') (append_item (JStr clear_delegation)) r) (\<lambda>r.
     bindE (lua_value src ''issue_delegation'' installation key_env None None) (\<lambda>code.
     update_path (lua_at ''serverless-post-function'') (insert_first code) r)))"

definition status_upstream :: json where
  "status_upstream = timed_upstream (jobj1 ''ouf-mcp-server:8080'' (JInt 1)) 3 3"

definition execute_document :: "json \<Rightarrow> json \<Rightarrow> json \<Rightarrow> json \<Rightarrow> json \<Rightarrow> json \<Rightarrow> json \<Rightarrow> json" where
  "execute_document i uri labels oidc limit schema code = JObj [
     (''id'', i), (''uri'', uri), (''methods'', jstrs [''POST'']), (''labels'', labels),
     (''plugins'', JObj [
        (''openid-connect'', oidc), (''limit-count'', limit),
        (''request-validation'', JObj [(''max_req_body_size'', JInt 65536), (''body_schema'', schema)]),
        (''serverless-pre-function'', lua_phase ''rewrite'' keep_delegation),
        (''serverless-post-function'', JObj [(''phase'', JStr ''access''), (''functions'', JList [code])]),
        (''proxy-rewrite'', jobj1 ''uri'' (JStr status_path))]),
     (''upstream'', status_upstream)]"

definition execute_route :: "sources \<Rightarrow> json \<Rightarrow> string \<Rightarrow> json \<Rightarrow> json \<Rightarrow> json res" where
  "execute_route src installation key_env m ingress =
     bindE (bindE (get_path [''plugins'', ''openid-connect''] ingress) (drop_key ''required_scopes'')) (\<lambda>oidc0.
     bindE (set_all (token_header_edits []) oidc0) (\<lambda>oidc.
     bindE (jindex m ''id'') (\<lambda>i.
     bindE (jindex m ''uri'') (\<lambda>uri.
     bindE (bindE (jindex ingress ''labels'') (set_key ''ouf-mediation'' (JStr ''status-execute-v1''))) (\<lambda>labels.
     bindE (get_path [''plugins'', ''limit-count''] ingress) (\<lambda>limit.
     bindE (lua_value src ''execute_status'' installation key_env None None) (\<lambda>code.
     Inr (execute_document i uri labels oidc limit (so_schema src ''mcp-gateway-status-dispatch-v1.json'') code))))))))"

text \<open>The ingress is the second of the two routes, so its changes stay in the document.\<close>

fun replace_uri :: "string \<Rightarrow> json \<Rightarrow> json list \<Rightarrow> json list" where
  "replace_uri u v [] = []"
| "replace_uri u v (r # rs) = (if jlookup r ''uri'' = Some (JStr u) then v # rs else r # replace_uri u v rs)"

definition materialize_execute :: "sources \<Rightarrow> json \<Rightarrow> string \<Rightarrow> string \<Rightarrow> json res" where
  "materialize_execute src runtime ref key_env =
     bindE (status_checks runtime) (\<lambda>(installation, m).
     bindE (materialize_ingress runtime ref) (\<lambda>doc.
     bindE (routes_of doc) (\<lambda>rs.
     bindE (next_with (\<lambda>r. jindex r ''uri'') ''/mcp'' rs) (\<lambda>ingress.
     bindE (delegating_ingress src installation key_env ingress) (\<lambda>ingress'.
     bindE (execute_route src installation key_env m ingress') (\<lambda>execute.
     set_all [([''routes''], JList (replace_uri ''/mcp'' ingress' rs @ [execute])), ([''delegationKeyEnv''], JStr key_env)] doc))))))"

section \<open>Permission proposals\<close>

definition permission_caps :: "(string \<times> string \<times> string) list" where
  "permission_caps = [(''authorization.permissions.read'', ''read'', ''READ''),
     (''authorization.permissions.propose'', ''propose'', ''COMMAND''), (''authorization.proposal.read'', ''status'', ''READ'')]"

text \<open>The part of a binding check that the mediation scripts share.\<close>

definition delegated_policy :: "json \<Rightarrow> json \<Rightarrow> string \<Rightarrow> json \<Rightarrow> int \<Rightarrow> int \<Rightarrow> bool res list" where
  "delegated_policy policy workload scope actors bytes seconds = [
     jneq (jindex policy ''identity'') (JStr ''M2M''), jneq (jindex policy ''requiredScope'') (JStr scope),
     jneq (jindex policy ''allowedActorTypes'') actors, not_in workload (jindex policy ''allowedServiceIdentities''),
     jneq (jindex policy ''maxRequestBytes'') (JInt bytes), jneq (jindex policy ''timeoutSeconds'') (JInt seconds)]"

definition delegable :: "json \<Rightarrow> string \<Rightarrow> string \<Rightarrow> bool res list" where
  "delegable cap owner operation = [
     jneq (jindex cap ''owner'') (JStr owner), jneq (jindex cap ''operationType'') (JStr operation),
     truthy_field cap ''humanRequired'', negated (truthy_field cap ''toolEligible'')]"

definition workload_of :: "json \<Rightarrow> json res" where
  "workload_of runtime = get_path [''x-ouf-installation'', ''mcpServiceIdentity''] runtime"

text \<open>\<open>next(s for s in schemas if s["properties"]["CapabilityID"]["const"] == cap)\<close>\<close>

definition schema_capability :: "json \<Rightarrow> json res" where
  "schema_capability s = get_path [''properties'', ''CapabilityID'', ''const''] s"

definition one_of :: "sources \<Rightarrow> string \<Rightarrow> json list res" where
  "one_of src name = bindE (jindex (so_schema src name) ''oneOf'') jelements"

definition onboarding_internal :: "string \<Rightarrow> string" where
  "onboarding_internal mode = ''/api/internal/v1/authorization/permissions/'' @ mode"

definition permission_route ::
  "sources \<Rightarrow> json \<Rightarrow> string \<Rightarrow> string \<Rightarrow> json \<Rightarrow> json list \<Rightarrow> string \<times> string \<times> string \<Rightarrow> json res" where
  "permission_route src runtime key_env owner_key template schemas c = (case c of (cap, mode, operation) \<Rightarrow>
     bindE (capability_binding runtime cap (''exact permission binding required: '' @ cap)) (\<lambda>b.
     bindE (jindex b ''x-ouf-policy'') (\<lambda>p.
     bindE (jindex b ''x-ouf-capability'') (\<lambda>k.
     bindE (fail_if (bindE (or_chain ([jneq (jindex b ''service_id'') (JStr ''ouf-onboarding''),
          jneq (rewrite_uri b) (JStr (onboarding_internal mode))] @ delegable k ''authorization'' operation)) (\<lambda>bad.
          if bad then Inr True
          else bindE (workload_of runtime) (\<lambda>w. or_chain (delegated_policy p w cap (jstrs [''HUMAN'']) 65536 3))))
       (''permission binding mismatch: '' @ cap)) (\<lambda>_.
     bindE (next_with schema_capability cap schemas) (\<lambda>schema.
     bindE (bindE (jindex runtime ''x-ouf-installation'')
       (\<lambda>i. lua_value src ''execute_permissions'' i key_env (Some owner_key) None)) (\<lambda>code.
     set_all [([''id''], JStr (''mcp-permissions-'' @ mode)), ([''uri''], JStr (execute_uri @ ''/authorization/'' @ mode)),
       ([''labels'', ''ouf-mediation''], JStr ''permission-proposals-v1''),
       ([''plugins'', ''request-validation'', ''body_schema''], schema),
       (lua_at ''serverless-post-function'', JList [code]), ([''plugins'', ''proxy-rewrite'', ''uri''], JStr (onboarding_internal mode)),
       ([''upstream'', ''nodes''], onboarding_nodes)] template)))))))"

definition ths_strip :: string where
  "ths_strip = ''return function() local h=ngx.req.get_headers(0); for k,_ in pairs(h) do ''
     @ ''if k:lower():sub(1,6)=='x-ouf-' or k:lower()=='authorization' ''
     @ ''then ngx.req.clear_header(k) end end end''"

definition ths_route :: "string \<Rightarrow> string list \<Rightarrow> string list \<Rightarrow> json" where
  "ths_route suf uris methods = JObj [
     (''id'', JStr (''authorization-ths-'' @ suf)), (''uris'', jstrs uris), (''methods'', jstrs methods),
     (''plugins'', JObj [(''client-control'', size_limit 65536), (''serverless-pre-function'', lua_phase ''rewrite'' ths_strip)]),
     (''upstream'', login_upstream)]"

definition ths_routes :: "json list" where
  "ths_routes = [
     ths_route ''page'' [''/trusted-human/authorization/'', ''/trusted-human/authorization/permissions.js'',
       ''/trusted-human/authorization/permissions.css''] [''GET''],
     ths_route ''api'' [''/trusted-human/authorization/api/proposals/*''] [''GET'', ''POST''],
     ths_route ''login'' login_uris [''GET'']]"

definition materialize_permissions :: "sources \<Rightarrow> json \<Rightarrow> string \<Rightarrow> string \<Rightarrow> string \<Rightarrow> json res" where
  "materialize_permissions src runtime ref key_env owner_key =
     bindE (materialize_execute src runtime ref key_env) (\<lambda>doc.
     bindE (execute_template doc) (\<lambda>template.
     bindE (one_of src ''mcp-gateway-permissions-dispatch-v1.json'') (\<lambda>schemas.
     bindE (mapE (permission_route src runtime key_env owner_key template schemas) permission_caps) (\<lambda>routes.
     bindE (append_routes (routes @ ths_routes) doc) (set_key ''authorizationOwnerKeyEnv'' (JStr owner_key))))))"

section \<open>Operational mediation\<close>

definition limit_field :: json where
  "limit_field = JObj [(''type'', JStr ''integer''), (''minimum'', JInt 1), (''maximum'', JInt 100)]"

definition since_field :: json where
  "since_field = JObj [(''type'', JStr ''string''), (''format'', JStr ''date-time''), (''maxLength'', JInt 100),
     (''pattern'', JStr ''^.+T.+(Z|[+-][0-9]{2}:[0-9]{2})$'')]"

definition cursor_field :: json where
  "cursor_field = JObj [(''type'', JStr ''string''), (''format'', JStr ''uuid''),
     (''pattern'', JStr (''^(?!00000000-0000-0000-0000-000000000000$)''
        @ ''[0-9a-f]{8}-[0-9a-f]{4}-[0-9a-f]{4}-[0-9a-f]{4}-[0-9a-f]{12}$''))]"

definition true_only :: json where
  "true_only = jobj1 ''enum'' (JList [JBool True])"

definition closed_object :: "string list \<Rightarrow> (string \<times> json) list \<Rightarrow> json" where
  "closed_object required props = JObj ([(''type'', JStr ''object''), (''additionalProperties'', JBool False)]
     @ (if required = [] then [] else [(''required'', jstrs required)]) @ [(''properties'', JObj props)])"

text \<open>The dictionary \<open>query\<close>; \<open>snapshot\<close> is added to the same object that \<open>regular\<close> holds.\<close>

definition query_fields :: "string \<Rightarrow> bool \<Rightarrow> (string \<times> json) list" where
  "query_fields owner incidents = [(''limit'', limit_field), (''since'', since_field)]
     @ (if owner \<noteq> ''gateway'' then [(''sourceId'', JObj [(''type'', JStr ''string''), (''minLength'', JInt 1), (''maxLength'', JInt 200)])] else [])
     @ (if incidents then [(''state'', jobj1 ''enum'' (jstrs [''OPEN'', ''RECOVERING'', ''RESOLVED''])), (''snapshot'', true_only)] else [])"

definition dispatch_arguments :: "string \<Rightarrow> bool \<Rightarrow> json" where
  "dispatch_arguments owner incidents =
     (let query = query_fields owner incidents; regular = closed_object [] query in
      if \<not> incidents then regular
      else jobj1 ''oneOf'' (JList [
        regular,
        closed_object [''cursor''] [(''cursor'', cursor_field)],
        closed_object [''snapshot'', ''coverage''] (filter (\<lambda>(k, _). k \<noteq> ''since'') query @ [(''coverage'', true_only)]),
        closed_object [''cursor'', ''coverage''] [(''cursor'', cursor_field), (''coverage'', true_only)],
        closed_object [''resumeFrom''] [(''resumeFrom'', cursor_field), (''limit'', limit_field)]]))"

definition dispatch_schema :: "sources \<Rightarrow> string \<Rightarrow> json res" where
  "dispatch_schema src capability =
     (case map_of operational_caps capability of
        None \<Rightarrow> Inl (KeyError capability)
      | Some (owner, _) \<Rightarrow> set_all [
          ([''properties'', ''CapabilityID''], jobj1 ''const'' (JStr capability)),
          ([''properties'', ''GatewayBindingRef''], jobj1 ''const'' (JStr (''capability://'' @ capability))),
          ([''properties'', ''Owner''], jobj1 ''const'' (JStr owner)),
          ([''properties'', ''MaxResultBytes'', ''maximum''], JInt (512 * 1024)),
          ([''properties'', ''Arguments''], dispatch_arguments owner (ends_with capability ''.incidents''))]
          (so_schema src ''mcp-gateway-status-dispatch-v1.json''))"

definition dashed :: "string \<Rightarrow> string" where
  "dashed s = map (\<lambda>c. if c = CHR ''.'' then CHR ''-'' else c) s"

definition operational_drift ::
  "json \<Rightarrow> json \<Rightarrow> string \<times> string \<times> string \<times> int \<times> string \<times> string \<times> int \<Rightarrow> bool res" where
  "operational_drift b workload c = (case c of (capability, owner, service, port, path, scope, timeout) \<Rightarrow>
     bindE (jindex b ''x-ouf-capability'') (\<lambda>cap.
     bindE (jindex b ''x-ouf-policy'') (\<lambda>policy.
     or_chain [
       jneq (jindex cap ''owner'') (JStr owner), jneq (jindex cap ''operationType'') (JStr ''READ''),
       truthy_field cap ''humanRequired'', jneq (jget cap ''toolEligible'' JNull) (JBool (owner = ''mcp'')),
       jneq (jindex b ''service_id'') (JStr service), jneq (rewrite_uri b) (JStr path),
       jneq (jindex policy ''identity'') (JStr ''M2M''), jneq (jindex policy ''allowedServiceIdentities'') (JList [workload]),
       jneq (jindex policy ''allowedActorTypes'')
         (jstrs (if owner = ''mcp'' then [''HUMAN_USER'', ''MCP_SERVER''] else [''MCP_SERVER''])),
       jneq (jindex policy ''requiredScope'') (JStr scope), jneq (jindex policy ''maxRequestBytes'') (JInt 65536),
       jneq (jindex policy ''timeoutSeconds'') (JInt timeout)])))"

definition operational_route ::
  "sources \<Rightarrow> json \<Rightarrow> json \<Rightarrow> json \<Rightarrow> string \<Rightarrow> json \<Rightarrow> string \<times> string \<times> string \<times> int \<times> string \<times> string \<times> int \<Rightarrow> json res" where
  "operational_route src runtime installation workload key_env template c =
     (case c of (capability, owner, service, port, path, scope, timeout) \<Rightarrow>
     bindE (capability_binding runtime capability (''exact operational binding required: '' @ capability)) (\<lambda>b.
     bindE (fail_if (operational_drift b workload c) (''operational binding drift: '' @ capability)) (\<lambda>_.
     bindE (dispatch_schema src capability) (\<lambda>schema.
     bindE (lua_value src ''execute_operational'' installation key_env None (Some (capability, owner, scope))) (\<lambda>code.
     set_all [([''id''], JStr (''operational-execute-'' @ dashed capability)), ([''uri''], JStr (execute_uri @ ''/'' @ capability)),
       ([''labels'', ''ouf-mediation''], JStr ''operational-execute-v1''),
       ([''plugins'', ''request-validation'', ''body_schema''], schema),
       (lua_at ''serverless-post-function'', JList [code]), ([''plugins'', ''proxy-rewrite'', ''uri''], JStr path),
       ([''upstream''], timed_upstream (node_of service (JInt port)) timeout timeout)] template)))))"

definition materialize_operational :: "sources \<Rightarrow> json \<Rightarrow> string \<Rightarrow> string \<Rightarrow> string option \<Rightarrow> json res" where
  "materialize_operational src runtime ref key_env owner_key =
     bindE (case owner_key of None \<Rightarrow> materialize_execute src runtime ref key_env
       | Some k \<Rightarrow> materialize_permissions src runtime ref key_env k) (\<lambda>doc.
     bindE (jindex runtime ''x-ouf-installation'') (\<lambda>installation.
     bindE (jindex installation ''mcpServiceIdentity'') (\<lambda>workload.
     bindE (bindE (routes_of doc) (next_with (\<lambda>r. jget r ''uri'' JNull) execute_uri)) (\<lambda>template.
     bindE (mapE (operational_route src runtime installation workload key_env template) operational_caps) (\<lambda>routes.
     bindE (append_routes routes doc) (set_key ''operationalExecuteProfile'' (JStr ''ouf.operational-execute.v1'')))))))"

section \<open>Object search\<close>

definition search_cap :: string where
  "search_cap = ''urban.object.search''"

definition search_path :: string where
  "search_path = ''/api/udp/v1/objects/search''"

definition search_mismatch :: "json \<Rightarrow> json \<Rightarrow> bool res" where
  "search_mismatch runtime b =
     bindE (jindex b ''x-ouf-policy'') (\<lambda>p.
     bindE (jindex b ''x-ouf-capability'') (\<lambda>cap.
     bindE (or_chain ([jneq (jindex b ''service_id'') (JStr ''ouf-udp-object-resolution''), jneq (rewrite_uri b) (JStr search_path),
       jneq (jindex b ''methods'') (jstrs [''POST'']),
       jneq (jindex cap ''owner'') (JStr ''udp''), jneq (jindex cap ''operationType'') (JStr ''SEARCH''),
       negated (truthy_field cap ''toolEligible''), truthy_field cap ''humanRequired''])) (\<lambda>bad.
     if bad then Inr True
     else bindE (workload_of runtime) (\<lambda>w. or_chain (delegated_policy p w search_cap (jstrs [''HUMAN'']) 65536 3)))))"

definition materialize_search :: "sources \<Rightarrow> json \<Rightarrow> string \<Rightarrow> string \<Rightarrow> string \<Rightarrow> string \<Rightarrow> json res" where
  "materialize_search src runtime ref key_env owner_key udp_key =
     bindE (require (distinct [key_env, owner_key, udp_key] \<and> env_name_ok udp_key)
       (ValueError ''three distinct named signing keys required'')) (\<lambda>_.
     bindE (materialize_operational src runtime ref key_env (Some owner_key)) (\<lambda>doc.
     bindE (capability_binding runtime search_cap ''exact UDP search binding required'') (\<lambda>b.
     bindE (fail_if (search_mismatch runtime b) ''UDP search binding mismatch'') (\<lambda>_.
     bindE (execute_template doc) (\<lambda>template.
     bindE (bindE (jindex runtime ''x-ouf-installation'')
       (\<lambda>i. lua_value src ''execute_object_search'' i key_env (Some udp_key) None)) (\<lambda>code.
     bindE (set_all [([''id''], JStr ''execute-urban-object-search''), ([''uri''], JStr (execute_uri @ ''/'' @ search_cap)),
       ([''labels'', ''ouf-mediation''], JStr ''udp-search-execute-v1''),
       ([''plugins'', ''request-validation'', ''body_schema''], so_schema src ''mcp-gateway-object-search-dispatch-v1.json''),
       (lua_at ''serverless-post-function'', JList [code]), ([''plugins'', ''proxy-rewrite'', ''uri''], JStr search_path),
       ([''upstream'', ''nodes''], jobj1 ''ouf-udp-object-resolution:8080'' (JInt 1))] template) (\<lambda>route.
     bindE (append_routes [route] doc) (set_key ''udpOwnerKeyEnv'' (JStr udp_key)))))))))"

section \<open>Delegated managed files\<close>

definition file_modes :: "(string \<times> string \<times> string) list" where
  "file_modes = [(''profile'', ''ouf.managed-source.file.profile'', ''COMMAND''), (''preview'', ''ouf.managed-source.preview'', ''READ''),
     (''create'', ''ouf.managed-source.onboarding.create'', ''COMMAND''), (''handoff'', ''ouf.managed-source.file.upload'', ''COMMAND'')]"

definition file_execute_uri :: "string \<Rightarrow> string" where
  "file_execute_uri mode = execute_uri @ ''/managed.file/'' @ mode"

definition file_owner_path :: "string \<Rightarrow> string" where
  "file_owner_path mode = ''/api/internal/v1/onboarding/managed-file-mcp/'' @ mode"

definition bound_mode :: "string \<Rightarrow> string" where
  "bound_mode mode = (if mode = ''handoff'' then ''upload'' else mode)"

definition file_mismatch :: "json \<Rightarrow> json \<Rightarrow> string \<times> string \<times> string \<Rightarrow> bool res" where
  "file_mismatch runtime b c = (case c of (mode, cap, operation) \<Rightarrow>
     bindE (jindex b ''x-ouf-policy'') (\<lambda>p.
     bindE (jindex b ''x-ouf-capability'') (\<lambda>k.
     bindE (or_chain ([jneq (jget b ''uri'' JNull) (JStr (file_execute_uri (bound_mode mode))),
       jneq (jindex b ''service_id'') (JStr ''ouf-onboarding''),
       jneq (get_path [''x-ouf-backend-binding'', ''service''] b) (JStr ''ouf-onboarding''),
       jneq (get_path [''x-ouf-backend-binding'', ''port''] b) (JInt 8080),
       jneq (rewrite_uri b) (JStr (file_owner_path (bound_mode mode))), jneq (jindex b ''methods'') (jstrs [''POST'']),
       jneq (jindex k ''capabilityId'') (JStr cap)] @ delegable k ''onboarding'' operation)) (\<lambda>bad.
     if bad then Inr True
     else bindE (workload_of runtime) (\<lambda>w. or_chain (delegated_policy p w cap (jstrs [''HUMAN''])
       (if mode = ''handoff'' then 10485760 else 65536) (if mode = ''handoff'' then 30 else 3)))))))"

definition handoff_schema :: "string \<Rightarrow> json list \<Rightarrow> json res" where
  "handoff_schema cap schemas = bindE (next_with schema_capability ''ouf.managed-source.file.profile'' schemas)
     (set_all [([''properties'', ''GatewayBindingRef'', ''const''], JStr (''capability://'' @ cap)),
       ([''properties'', ''CapabilityID'', ''const''], JStr cap),
       ([''properties'', ''Arguments''], JObj [(''type'', JStr ''object''), (''additionalProperties'', JBool False),
          (''required'', jstrs [''handoffId'']),
          (''properties'', jobj1 ''handoffId'' (JObj [(''type'', JStr ''string''), (''format'', JStr ''uuid'')]))])])"

definition file_schema :: "string \<Rightarrow> string \<Rightarrow> json list \<Rightarrow> json res" where
  "file_schema mode cap schemas =
     bindE (filterE (\<lambda>s. bindE (schema_capability s) (\<lambda>v. Inr (v = JStr cap))) schemas) (\<lambda>matching.
     if mode = ''handoff'' then handoff_schema cap schemas
     else Inr (case matching of [s] \<Rightarrow> s | _ \<Rightarrow> jobj1 ''oneOf'' (JList matching)))"

definition correlation_edit :: "string list \<times> json" where
  "correlation_edit = ([''plugins'', ''request-id''], correlation_plugin)"

definition file_source :: "string \<Rightarrow> string" where
  "file_source mode = ''mcp-managed-file-'' @ bound_mode mode"

definition file_route ::
  "sources \<Rightarrow> json \<Rightarrow> string \<Rightarrow> string \<Rightarrow> json \<Rightarrow> json list \<Rightarrow> string \<times> string \<times> string \<Rightarrow> json res" where
  "file_route src runtime key_env owner_key template schemas c = (case c of (mode, cap, operation) \<Rightarrow>
     bindE (bindE (routes_of runtime) (filter_id (file_source mode))) (\<lambda>candidates.
     bindE (the_only (''exact managed-file binding required: '' @ mode) candidates) (\<lambda>b.
     bindE (fail_if (file_mismatch runtime b c) (''managed-file binding mismatch: '' @ mode)) (\<lambda>_.
     bindE (file_schema mode cap schemas) (\<lambda>schema.
     bindE (bindE (jindex runtime ''x-ouf-installation'')
       (\<lambda>i. lua_value src ''execute_managed_file'' i key_env (Some owner_key) None)) (\<lambda>code.
     set_all [([''id''], JStr (''mcp-managed-file-'' @ mode)), ([''uri''], JStr (file_execute_uri mode)),
       ([''labels'', ''ouf-mediation''], JStr ''managed-file-delegation-v1''), ([''labels'', ''ouf-managed''], JStr ''true''),
       ([''labels'', ''ouf-exposure''], JStr ''internal''), ([''plugins'', ''request-validation'', ''body_schema''], schema),
       correlation_edit, (lua_at ''serverless-post-function'', JList [code]),
       ([''plugins'', ''proxy-rewrite'', ''uri''], JStr (file_owner_path mode)),
       ([''upstream'', ''nodes''], onboarding_nodes)] template))))))"

definition materialize_files :: "sources \<Rightarrow> json \<Rightarrow> string \<Rightarrow> string \<Rightarrow> string \<Rightarrow> json res" where
  "materialize_files src runtime ref key_env owner_key =
     bindE (materialize_permissions src runtime ref key_env owner_key) (\<lambda>doc.
     bindE (execute_template doc) (\<lambda>template.
     bindE (one_of src ''mcp-gateway-managed-file-dispatch-v1.json'') (\<lambda>schemas.
     bindE (mapE (file_route src runtime key_env owner_key template schemas) file_modes) (\<lambda>routes.
     append_routes routes doc))))"

section \<open>The streaming upload\<close>

definition upload_strip :: string where
  "upload_strip = ''return function(conf, ctx) for name,_ in pairs(ngx.req.get_headers(0)) do ''
     @ ''local n=name:lower(); if n:sub(1,6)=='x-ouf-' ''
     @ ''and n~='x-ouf-delegation' and n~='x-ouf-file-id' ''
     @ ''then ngx.req.clear_header(name) end end end''"

definition upload_mismatch :: "json \<Rightarrow> json \<Rightarrow> bool res" where
  "upload_mismatch runtime b =
     bindE (jindex b ''x-ouf-policy'') (\<lambda>p.
     bindE (jindex b ''x-ouf-capability'') (\<lambda>k.
     bindE (or_chain ([jneq (jindex b ''uri'') (JStr (file_execute_uri ''upload'')), jneq (jindex b ''methods'') (jstrs [''POST'']),
       jneq (jindex b ''service_id'') (JStr ''ouf-onboarding''),
       jneq (get_path [''x-ouf-backend-binding'', ''service''] b) (JStr ''ouf-onboarding''),
       jneq (get_path [''x-ouf-backend-binding'', ''port''] b) (JInt 8080),
       jneq (rewrite_uri b) (JStr (file_owner_path ''upload'')),
       jneq (jindex k ''capabilityId'') (JStr picker_cap)] @ delegable k ''onboarding'' ''COMMAND'')) (\<lambda>bad.
     if bad then Inr True
     else bindE (workload_of runtime) (\<lambda>w. or_chain (delegated_policy p w picker_cap (jstrs [''HUMAN'']) 10485760 30)))))"

definition upload_edits :: "string \<Rightarrow> json \<Rightarrow> json res" where
  "upload_edits code template =
     bindE (set_all [([''id''], JStr upload_id), ([''uri''], JStr (file_execute_uri ''upload'')),
       ([''labels'', ''ouf-mediation''], JStr ''managed-file-streaming-upload-v1''), ([''labels'', ''ouf-managed''], JStr ''true''),
       ([''labels'', ''ouf-exposure''], JStr ''internal'')] template) (\<lambda>r.
     bindE (update_path [''plugins''] (drop_key ''request-validation'') r) (\<lambda>r.
     set_all [correlation_edit, (lua_at ''serverless-pre-function'', JList [JStr upload_strip]),
       ([''plugins'', ''client-control''], size_limit 10485760), ([''plugins'', ''proxy-control''], unbuffered),
       (lua_at ''serverless-post-function'', JList [JStr code]),
       ([''plugins'', ''proxy-rewrite'', ''uri''], JStr (file_owner_path ''upload'')),
       ([''upstream'', ''nodes''], onboarding_nodes),
       ([''upstream'', ''timeout''], JObj [(''connect'', JInt 10), (''send'', JInt 30), (''read'', JInt 30)])] r))"

definition materialize_upload :: "sources \<Rightarrow> json \<Rightarrow> string \<Rightarrow> string \<Rightarrow> string \<Rightarrow> json res" where
  "materialize_upload src runtime ref key_env owner_key =
     bindE (materialize_permissions src runtime ref key_env owner_key) (\<lambda>doc.
     bindE (execute_template doc) (\<lambda>template.
     bindE (bindE (routes_of runtime) (filter_id upload_id)) (\<lambda>matches.
     bindE (the_only ''exact delegated upload binding required'' matches) (\<lambda>b.
     bindE (fail_if (upload_mismatch runtime b) ''delegated upload binding mismatch'') (\<lambda>_.
     bindE (bindE (jindex runtime ''x-ouf-installation'')
       (\<lambda>i. lua_function src ''execute_managed_upload'' i key_env (Some owner_key) None)) (\<lambda>code.
     upload_edits code template))))))"

end
