(* ===== verification/Route_Extend.thy ===== *)
theory Route_Extend
  imports Route_Mediation
begin

text \<open>
  The scripts that add routes to a retained installation without rebuilding it:
  \<open>materialize_semantic_read.py\<close>, \<open>materialize_semantic_proposals.py\<close> and
  \<open>materialize_onboarding_review.py\<close>. A route whose id or path is taken is refused.
\<close>

section \<open>The established template\<close>

definition required_template :: "string list" where
  "required_template = [''openid-connect'', ''limit-count'', ''request-validation'', ''serverless-pre-function'']"

definition lacks_plugin :: "json \<Rightarrow> bool res" where
  "lacks_plugin template =
     or_chain (map (\<lambda>k. bindE (jget template ''plugins'' (JObj [])) (\<lambda>p. negated (jin k p))) required_template)"

text \<open>\<open>[r for r in rs if r.get("uri") == execute]\<close>\<close>

definition templates_of :: "json list \<Rightarrow> json list res" where
  "templates_of rs = filterE (\<lambda>r. bindE (jget r ''uri'' JNull) (\<lambda>u. Inr (u = JStr execute_uri))) rs"

definition is_field :: "string \<Rightarrow> json \<Rightarrow> json \<Rightarrow> bool res" where
  "is_field k v r = bindE (jget r k JNull) (\<lambda>x. Inr (json_eq x v))"

definition or_else :: "bool res \<Rightarrow> bool res \<Rightarrow> bool res" where
  "or_else p q = bindE p (\<lambda>b. if b then Inr True else q)"

text \<open>\<open>any(r.get("id") == i or r.get("uri") == u for r in rs)\<close>\<close>

definition taken :: "json list \<Rightarrow> json \<Rightarrow> json \<Rightarrow> bool res" where
  "taken rs i u = or_chain (map (\<lambda>r. or_else (is_field ''id'' i r) (is_field ''uri'' u r)) rs)"

text \<open>The copy of a document with its route list replaced, and the loop over what is added.\<close>

definition with_routes :: "json list \<Rightarrow> json \<Rightarrow> json res" where
  "with_routes rs doc = set_key ''routes'' (JList rs) doc"

section \<open>Semantic reads\<close>

definition semantic_read_edits :: "sources \<Rightarrow> string \<Rightarrow> string \<Rightarrow> json \<Rightarrow> json \<Rightarrow> json \<Rightarrow> (string list \<times> json) list" where
  "semantic_read_edits src name uri i code upstream = [
     ([''id''], i), ([''uri''], JStr uri), ([''methods''], jstrs [''POST'']),
     ([''labels'', ''ouf-mediation''], JStr ''semantic-read-v1''),
     ([''plugins'', ''request-validation''], JObj [(''max_req_body_size'', JInt 65536),
        (''body_schema'', so_schema src (''mcp-gateway-semantic-'' @ name @ ''-dispatch-v1.json''))]),
     ([''plugins'', ''serverless-post-function''], JObj [(''phase'', JStr ''access''), (''functions'', JList [code])]),
     ([''plugins'', ''proxy-rewrite''], jobj1 ''uri'' (JStr (''/api/internal/v1/semantic/consultation/'' @ name))),
     ([''upstream''], upstream)]"

definition read_timeouts :: "(string list \<times> json) list" where
  "read_timeouts = [([''upstream'', ''retries''], JInt 0),
     ([''upstream'', ''timeout''], JObj [(''connect'', JInt 3), (''send'', JInt 3), (''read'', JInt 3)])]"

definition semantic_read_route ::
  "sources \<Rightarrow> json list \<Rightarrow> json \<Rightarrow> string \<Rightarrow> string \<Rightarrow> json \<Rightarrow> json \<Rightarrow> (string \<Rightarrow> json) \<Rightarrow> string \<Rightarrow> json res" where
  "semantic_read_route src rs installation key_env semantic_key upstream template ids name =
     (let uri = execute_uri @ ''/semantic/'' @ name in
      bindE (fail_if (taken rs (ids name) (JStr uri)) ''semantic route already exists; reconcile before materialization'') (\<lambda>_.
      bindE (lua_value src ''execute_semantic_read'' installation key_env (Some semantic_key) None) (\<lambda>code.
      bindE (set_all (semantic_read_edits src name uri (ids name) code upstream) template) (\<lambda>r.
      bindE (drop_key ''service_id'' r) (set_all read_timeouts)))))"

text \<open>The route ids are the dictionary with the keys \<open>search\<close> and \<open>get\<close>.\<close>

definition bound_upstream :: "json \<Rightarrow> bool res" where
  "bound_upstream v =
     (if \<not> is_obj v then Inr False
      else bindE (jget v ''scheme'' JNull) (\<lambda>s.
        if s \<notin> {JStr ''http'', JStr ''https''} then Inr False
        else truthy_field v ''nodes''))"

definition route_ids_ok :: "(string, json) dict \<Rightarrow> bool res" where
  "route_ids_ok ids =
     (if set (dict_keys ids) \<noteq> {''search'', ''get''} then Inr False
      else bindE (jset (map snd ids)) (\<lambda>s. Inr (card s = 2 \<and> list_all (\<lambda>(_, v). filled_text v) ids)))"

definition id_named :: "(string, json) dict \<Rightarrow> string \<Rightarrow> json" where
  "id_named ids k = (case map_of ids k of None \<Rightarrow> JNull | Some v \<Rightarrow> v)"

definition materialize_semantic_read ::
  "sources \<Rightarrow> json \<Rightarrow> json \<Rightarrow> string \<Rightarrow> string \<Rightarrow> json \<Rightarrow> (string, json) dict \<Rightarrow> json res" where
  "materialize_semantic_read src existing installation key_env semantic_key upstream ids =
     bindE (require (key_env \<noteq> semantic_key) (ValueError ''distinct delegation and semantic owner signing keys required'')) (\<lambda>_.
     bindE (fail_if (negated (route_ids_ok ids)) ''two distinct installation-owned route IDs required'') (\<lambda>_.
     bindE (routes_of existing) (\<lambda>rs.
     bindE (bindE (templates_of rs) (the_only ''one established execute template required'')) (\<lambda>template.
     bindE (fail_if (lacks_plugin template) ''authenticated bounded execute template required'') (\<lambda>_.
     bindE (fail_if (negated (bound_upstream upstream)) ''resolved semantic upstream binding required'') (\<lambda>_.
     bindE (mapE (semantic_read_route src rs installation key_env semantic_key upstream template (id_named ids))
       [''search'', ''get'']) (\<lambda>new. with_routes (rs @ new) existing)))))))"

section \<open>Semantic proposals\<close>

definition proposal_path :: "string \<Rightarrow> string" where
  "proposal_path mode = ''/api/semantic/v1/proposal-commands/'' @ mode"

definition proposal_mismatch :: "json \<Rightarrow> json \<Rightarrow> string \<times> string \<times> string \<times> string \<Rightarrow> bool res" where
  "proposal_mismatch installation b c = (case c of (cap, mode, operation, scope) \<Rightarrow>
     bindE (jindex b ''x-ouf-policy'') (\<lambda>p.
     bindE (jindex b ''x-ouf-capability'') (\<lambda>k.
     or_chain ([jneq (jindex b ''service_id'') (JStr ''ouf-semantic-registry''), jneq (rewrite_uri b) (JStr (proposal_path mode))]
       @ delegable k ''semantic'' operation @ [
       jneq (jindex p ''identity'') (JStr ''M2M''), jneq (jindex p ''requiredScope'') (JStr scope),
       jneq (jindex p ''allowedActorTypes'') (jstrs (if mode = ''read'' then [''HUMAN''] else [''HUMAN'', ''AI_AGENT'', ''SERVICE''])),
       bindE (jindex p ''allowedServiceIdentities'') (\<lambda>v. jneq (bindE (jindex installation ''mcpServiceIdentity'')
         (\<lambda>w. Inr (JList [w]))) v),
       jneq (jindex p ''maxRequestBytes'') (JInt 65536), jneq (jindex p ''timeoutSeconds'') (JInt 3)]))))"

definition proposal_step ::
  "sources \<Rightarrow> json \<Rightarrow> json \<Rightarrow> string \<Rightarrow> string \<Rightarrow> json \<Rightarrow> json list \<Rightarrow> string \<times> string \<times> string \<times> string \<Rightarrow> json list \<Rightarrow> json list res" where
  "proposal_step src runtime installation key_env owner_key template schemas c rs = (case c of (cap, mode, operation, scope) \<Rightarrow>
     bindE (capability_binding runtime cap (''exact semantic proposal binding required: '' @ cap)) (\<lambda>b.
     bindE (fail_if (proposal_mismatch installation b c) (''semantic proposal binding mismatch: '' @ cap)) (\<lambda>_.
     let i = JStr (''semantic-proposal-'' @ mode); u = JStr (execute_uri @ ''/semantic/'' @ mode) in
     bindE (fail_if (taken rs i u) ''semantic proposal route already exists; reconcile before materialization'') (\<lambda>_.
     bindE (next_with schema_capability cap schemas) (\<lambda>schema.
     bindE (lua_value src ''execute_semantic_proposals'' installation key_env (Some owner_key) (Some (cap, ''semantic'', scope))) (\<lambda>code.
     bindE (set_all [([''id''], i), ([''uri''], u), ([''labels'', ''ouf-mediation''], JStr ''semantic-proposal-v1''),
       ([''plugins'', ''request-validation'', ''body_schema''], schema), (lua_at ''serverless-post-function'', JList [code]),
       ([''plugins'', ''proxy-rewrite'', ''uri''], JStr (proposal_path mode)),
       ([''upstream''], timed_upstream (jobj1 ''ouf-semantic-registry:8080'' (JInt 1)) 3 3)] template) (\<lambda>r.
     Inr (rs @ [r]))))))))"

text \<open>\<open>len(ids) != len(set(ids))\<close>\<close>

definition ids_repeat :: "json list \<Rightarrow> bool res" where
  "ids_repeat rs = bindE (mapE (\<lambda>r. jget r ''id'' JNull) rs) (\<lambda>ids.
     bindE (jset ids) (\<lambda>_. Inr (length (unique_values ids) \<noteq> length ids)))"

definition add_to_existing :: "sources \<Rightarrow> json \<Rightarrow> json \<Rightarrow> string \<Rightarrow> string \<Rightarrow> json res" where
  "add_to_existing src existing runtime key_env owner_key =
     bindE (require (key_env \<noteq> owner_key) (ValueError ''distinct delegation and semantic owner signing keys required'')) (\<lambda>_.
     bindE (routes_of existing) (\<lambda>rs.
     bindE (bindE (templates_of rs) (the_only ''one established execute template required'')) (\<lambda>template.
     bindE (fail_if (lacks_plugin template) ''authenticated bounded execute template required'') (\<lambda>_.
     bindE (fail_if (ids_repeat rs) ''existing route IDs must be unique'') (\<lambda>_.
     bindE (one_of src ''mcp-gateway-semantic-proposals-v1.json'') (\<lambda>schemas.
     bindE (jindex runtime ''x-ouf-installation'') (\<lambda>installation.
     bindE (foldE (proposal_step src runtime installation key_env owner_key template schemas) proposal_caps rs) (\<lambda>rs'.
     bindE (with_routes rs' existing) (\<lambda>doc.
     set_all [([''semanticProposalProfile''], JStr ''ouf.semantic-proposal-channel.v1''),
       ([''semanticProposalOwnerKeyEnv''], JStr owner_key)] doc)))))))))"

definition materialize_proposals :: "sources \<Rightarrow> json \<Rightarrow> string \<Rightarrow> string \<Rightarrow> string \<Rightarrow> string option \<Rightarrow> json res" where
  "materialize_proposals src runtime ref key_env owner_key authorization_key =
     (case authorization_key of
        None \<Rightarrow> Inl (ValueError ''existing authorization owner key environment required to preserve THS routes'')
      | Some k \<Rightarrow> bindE (materialize_operational src runtime ref key_env (Some k))
          (\<lambda>doc. add_to_existing src doc runtime key_env owner_key))"

section \<open>Onboarding review\<close>

definition review_modes :: "(string \<times> string \<times> string) list" where
  "review_modes = [(''review-prepare'', ''ouf.managed-source.onboarding.review.prepare'', ''COMMAND''),
     (''review-read'', ''ouf.managed-source.onboarding.read'', ''READ'')]"

definition review_timeout :: "string \<Rightarrow> int" where
  "review_timeout mode = (if mode = ''review-prepare'' then 10 else 3)"

definition review_backend :: "string \<Rightarrow> string \<Rightarrow> json" where
  "review_backend service path = JObj [(''service'', JStr service), (''port'', JInt 8080), (''path'', JStr path)]"

text \<open>\<open>_append\<close>: the id must be free, and the path for each of the methods.\<close>

definition methods_meet :: "json \<Rightarrow> json \<Rightarrow> bool res" where
  "methods_meet r route =
     bindE (bindE (bindE (jget r ''methods'' (JList [])) jelements) jset) (\<lambda>a.
     bindE (bindE (bindE (jindex route ''methods'') jelements) jset) (\<lambda>b. Inr (a \<inter> b \<noteq> {})))"

definition clashes :: "json \<Rightarrow> json \<Rightarrow> bool res" where
  "clashes route r =
     bindE (jindex route ''id'') (\<lambda>i. or_else (is_field ''id'' i r)
       (bindE (jget r ''uri'' JNull) (\<lambda>u. bindE (jindex route ''uri'') (\<lambda>u'.
         and_then (Inr (json_eq u u')) (methods_meet r route)))))"

definition append_review :: "json \<Rightarrow> json list \<Rightarrow> json list res" where
  "append_review route rs =
     bindE (fail_if (or_chain (map (clashes route) rs)) ''review route already exists; reconcile before materialization'')
       (\<lambda>_. Inr (rs @ [route]))"

definition review_mismatch :: "json \<Rightarrow> json \<Rightarrow> string \<times> string \<times> string \<Rightarrow> bool res" where
  "review_mismatch installation b c = (case c of (mode, cap, operation) \<Rightarrow>
     bindE (jindex b ''x-ouf-policy'') (\<lambda>policy.
     bindE (jindex b ''x-ouf-capability'') (\<lambda>k.
     or_chain ([jneq (jget b ''uri'' JNull) (JStr (file_execute_uri mode)), jneq (jget b ''methods'' JNull) (jstrs [''POST'']),
       jneq (jget b ''service_id'' JNull) (JStr ''ouf-onboarding''),
       jneq (jindex b ''x-ouf-backend-binding'') (review_backend ''ouf-onboarding'' (file_owner_path mode)),
       jneq (rewrite_uri b) (JStr (file_owner_path mode)), jneq (jindex k ''capabilityId'') (JStr cap)]
       @ delegable k ''onboarding'' operation @ [
       jneq (jindex policy ''identity'') (JStr ''M2M''), jneq (jindex policy ''requiredScope'') (JStr cap),
       jneq (jindex policy ''allowedActorTypes'') (jstrs [''HUMAN'']),
       bindE (jindex policy ''allowedServiceIdentities'') (\<lambda>v. jneq (bindE (jindex installation ''mcpServiceIdentity'')
         (\<lambda>w. Inr (JList [w]))) v),
       jneq (jindex policy ''maxRequestBytes'') (JInt 65536), jneq (jindex policy ''timeoutSeconds'') (JInt (review_timeout mode))]))))"

definition review_step ::
  "sources \<Rightarrow> json \<Rightarrow> json \<Rightarrow> string \<Rightarrow> string \<Rightarrow> json \<Rightarrow> string \<times> string \<times> string \<Rightarrow> json list \<Rightarrow> json list res" where
  "review_step src runtime installation key_env owner_key template c rs = (case c of (mode, cap, operation) \<Rightarrow>
     bindE (bindE (routes_of runtime) (filter_id (''mcp-managed-file-'' @ mode))) (\<lambda>matches.
     bindE (the_only ''exact onboarding review binding required'' matches) (\<lambda>b.
     bindE (fail_if (review_mismatch installation b c) ''onboarding review binding mismatch'') (\<lambda>_.
     bindE (lua_value src ''execute_managed_file'' installation key_env (Some owner_key) None) (\<lambda>code.
     bindE (set_all [([''id''], JStr (''mcp-managed-file-'' @ mode)), ([''uri''], JStr (file_execute_uri mode)),
       ([''methods''], jstrs [''POST'']), ([''labels'', ''ouf-mediation''], JStr ''onboarding-review-v1''),
       ([''plugins'', ''request-validation''], JObj [(''max_req_body_size'', JInt 65536),
          (''body_schema'', so_schema src (''mcp-gateway-onboarding-'' @ mode @ ''-dispatch-v1.json''))]),
       ([''plugins'', ''serverless-post-function''], JObj [(''phase'', JStr ''access''), (''functions'', JList [code])]),
       ([''plugins'', ''proxy-rewrite''], jobj1 ''uri'' (JStr (file_owner_path mode))),
       ([''upstream''], JObj [(''type'', JStr ''roundrobin''), (''scheme'', JStr ''http''), (''nodes'', onboarding_nodes),
          (''retries'', JInt 0), (''timeout'', JObj [(''connect'', JInt 3), (''send'', JInt (review_timeout mode)),
            (''read'', JInt (review_timeout mode))])])] template) (\<lambda>route.
     append_review route rs))))))"

definition permission_login :: json where
  "permission_login = JObj [
     (''id'', JStr login_id), (''uris'', jstrs login_uris), (''methods'', jstrs [''GET'']),
     (''plugins'', JObj [(''client-control'', size_limit 65536),
        (''serverless-pre-function'', lua_phase ''rewrite'' ths_strip)]),
     (''upstream'', login_upstream)]"

definition login_retained :: "json list \<Rightarrow> bool res" where
  "login_retained rs = bindE (filter_id login_id rs) (\<lambda>current.
     Inr (case current of [r] \<Rightarrow> json_eq r picker_login \<or> json_eq r permission_login | _ \<Rightarrow> False))"

definition review_flows :: "(string \<times> string) list" where
  "review_flows = [(''onboarding'', ''ouf.onboarding.configuration.write''), (''semantic'', ''ouf.semantic.review'')]"

definition review_page :: "json \<Rightarrow> string \<times> string \<Rightarrow> json res" where
  "review_page page fc = (case fc of (flow, capability) \<Rightarrow>
     bindE (set_all [([''id''], JStr (''trusted-human-'' @ flow @ ''-review'')), ([''uri''], JStr (''/trusted-human/'' @ flow @ ''/*'')),
       ([''labels'', ''ouf-capability''], JStr capability), ([''labels'', ''ouf-surface''], JStr ''TRUSTED_HUMAN_WORKFLOW''),
       ([''plugins'', ''client-control''], size_limit 65536)] page) (\<lambda>r.
     bindE (update_path [''plugins''] (drop_key ''proxy-control'') r) (\<lambda>r.
     set_all [([''upstream'', ''timeout''], JObj [(''connect'', JInt 3), (''send'', JInt 3),
       (''read'', JInt (if flow = ''onboarding'' then 60 else 10))])] r)))"

definition review_page_step :: "json \<Rightarrow> string \<times> string \<Rightarrow> json list \<Rightarrow> json list res" where
  "review_page_step page fc rs = bindE (review_page page fc) (\<lambda>r. append_review r rs)"

text \<open>\<open>{r["id"]: r for r in runtime["routes"]}\<close>\<close>

definition routes_by_id :: "json list \<Rightarrow> (json \<times> json) list res" where
  "routes_by_id rs = foldE (\<lambda>r d. bindE (jindex r ''id'') (\<lambda>i. bindE (jset [i]) (\<lambda>_. Inr (dict_set i r d)))) rs []"

definition indexed_by :: "(json \<times> json) list \<Rightarrow> string \<Rightarrow> json res" where
  "indexed_by d i = (case map_of d (JStr i) of None \<Rightarrow> Inl (KeyError i) | Some r \<Rightarrow> Inr r)"

definition readiness_id :: string where
  "readiness_id = ''trusted-human-ingestion-onboarding-readiness''"

definition compatibility_id :: string where
  "compatibility_id = ''r4a-onboarding-ingestion-compatibility-read''"

text \<open>The owner check of the readiness and compatibility bindings.\<close>

definition owner_mismatch :: "json \<Rightarrow> string \<Rightarrow> string \<Rightarrow> string \<Rightarrow> string \<Rightarrow> int \<Rightarrow> bool res" where
  "owner_mismatch b path verb service scope seconds = or_chain [
     jneq (jindex b ''uri'') (JStr path), jneq (jindex b ''methods'') (jstrs [verb]),
     jneq (jindex b ''x-ouf-backend-binding'') (review_backend service path),
     jneq (get_path [''x-ouf-policy'', ''requiredScope''] b) (JStr scope),
     jneq (get_path [''x-ouf-policy'', ''timeoutSeconds''] b) (JInt seconds)]"

definition readiness_step :: "json \<Rightarrow> string \<Rightarrow> (json \<times> json) list \<Rightarrow> json list \<Rightarrow> json list res" where
  "readiness_step installation ref d rs =
     bindE (indexed_by d readiness_id) (\<lambda>b.
     bindE (fail_if (owner_mismatch b ''/api/trusted-human/v1/ingestion/onboarding-readiness'' ''POST'' ''ouf-ingestion-runtime''
       ''ouf.onboarding.configuration.write'' 35) ''readiness owner binding mismatch'') (\<lambda>_.
     bindE (human_route b installation ref False) (\<lambda>r. append_review r rs)))"

definition compatibility_step :: "json \<Rightarrow> string \<Rightarrow> (json \<times> json) list \<Rightarrow> json list \<Rightarrow> json list res" where
  "compatibility_step runtime ref d rs =
     bindE (indexed_by d compatibility_id) (\<lambda>b.
     bindE (fail_if (owner_mismatch b ''/api/internal/v1/onboarding/compatibility/ingestion-runtime'' ''GET'' ''ouf-onboarding''
       ''ouf.onboarding.configuration.read'' 10) ''compatibility owner binding mismatch'') (\<lambda>_.
     bindE (bindE (materialize_internal runtime [compatibility_id] ref) routes_of) (\<lambda>made.
     bindE (case made of r # _ \<Rightarrow> Inr r | [] \<Rightarrow> Inl (TypeError ''list index out of range'')) (\<lambda>r.
     bindE (set_all [([''upstream'', ''retries''], JInt 0),
       ([''upstream'', ''timeout''], JObj [(''connect'', JInt 3), (''send'', JInt 3), (''read'', JInt 10)])] r) (\<lambda>r.
     append_review r rs)))))"

definition review_routes :: "sources \<Rightarrow> json list \<Rightarrow> json \<Rightarrow> string \<Rightarrow> string \<Rightarrow> json list res" where
  "review_routes src rs runtime key_env owner_key =
     bindE (bindE (templates_of rs) (the_only ''one authenticated bounded execute template required'')) (\<lambda>template.
     bindE (fail_if (lacks_plugin template) ''one authenticated bounded execute template required'') (\<lambda>_.
     bindE (jindex runtime ''x-ouf-installation'') (\<lambda>installation.
     bindE (foldE (review_step src runtime installation key_env owner_key template) review_modes rs) (\<lambda>rs1.
     bindE (bindE (materialize_picker runtime) routes_of) (\<lambda>human.
     bindE (case human of [page, login] \<Rightarrow> Inr page | _ \<Rightarrow> Inl (TypeError ''list index out of range'')) (\<lambda>page.
     bindE (fail_if (negated (login_retained rs1)) ''existing owner OAuth login route must match; reconcile before materialization'') (\<lambda>_.
     bindE (foldE (review_page_step page) review_flows rs1) (\<lambda>rs2.
     bindE (bindE (get_path [''plugins'', ''openid-connect'', ''client_secret''] template) text_value) (\<lambda>ref.
     bindE (bindE (routes_of runtime) routes_by_id) (\<lambda>d.
     bindE (readiness_step installation ref d rs2) (compatibility_step runtime ref d)))))))))))"

definition materialize_review :: "sources \<Rightarrow> json \<Rightarrow> json \<Rightarrow> string \<Rightarrow> string \<Rightarrow> json res" where
  "materialize_review src existing runtime key_env owner_key =
     bindE (require (key_env \<noteq> owner_key) (ValueError ''distinct delegation and owner signing keys required'')) (\<lambda>_.
     bindE (routes_of existing) (\<lambda>rs.
     bindE (review_routes src rs runtime key_env owner_key) (\<lambda>rs'.
     with_routes rs' existing)))"

end
