(* ===== verification/Route_Mediation_Safety.thy ===== *)
theory Route_Mediation_Safety
  imports Route_Extend Route_Build_Safety
begin

text \<open>
  The mediated routes against their deployers, and the scripts that extend an installation: what was
  there stays, what is added is new.
\<close>

section \<open>Editing one key\<close>

lemma jget_dict_set: "jget (JObj (dict_set k v kvs)) j d = (if j = k then Inr v else jget (JObj kvs) j d)"
  by (simp add: dict_set_lookup)

lemma set_key_Inr: "set_key k v r = Inr r' \<Longrightarrow> jget r' j d = (if j = k then Inr v else jget r j d)"
  by (cases r) (auto simp: dict_set_lookup)

lemma set_path_other:
  assumes "set_path (k # ks) v r = Inr r'" and "j \<noteq> k"
  shows "jget r' j d = jget r j d"
proof (cases ks)
  case Nil
  with assms show ?thesis using set_key_Inr [of k v r r' j d] by simp
next
  case (Cons k' ks')
  with assms obtain sub' where "set_key k sub' r = Inr r'" by (auto simp: bindE_Inr_iff)
  from set_key_Inr [OF this, of j d] assms(2) show ?thesis by simp
qed

lemma set_all_Cons: "set_all ((ks, v) # edits) r = bindE (set_path ks v r) (set_all edits)"
  by (cases "set_path ks v r") (simp_all add: set_all_def)

lemma set_all_Nil: "set_all [] r = Inr r"
  by (simp add: set_all_def)

lemma set_all_other:
  assumes "set_all edits r = Inr r'" and "\<forall>(ks, v) \<in> set edits. ks \<noteq> [] \<and> hd ks \<noteq> j"
  shows "jget r' j d = jget r j d"
  using assms
proof (induction edits arbitrary: r)
  case Nil
  then show ?case by (simp add: set_all_Nil)
next
  case (Cons e edits)
  obtain ks v where e: "e = (ks, v)" by (cases e)
  with Cons.prems obtain k ks' where ks: "ks = k # ks'" "k \<noteq> j" by (cases ks) auto
  from Cons.prems(1) obtain m where m: "set_path ks v r = Inr m" "set_all edits m = Inr r'"
    unfolding e set_all_Cons bindE_Inr_iff by blast
  have "jget m j d = jget r j d" using m(1) ks by (intro set_path_other [of k ks' v]) auto
  with Cons.IH [OF m(2)] Cons.prems(2) show ?case by simp
qed

lemma update_path_other:
  assumes "update_path (k # ks) f r = Inr r'" and "j \<noteq> k"
  shows "jget r' j d = jget r j d"
  using assms set_path_other by (auto simp: update_path_def bindE_Inr_iff simp del: set_path.simps get_path.simps)

lemma jget_jindex: "jget r k JNull = Inr v \<Longrightarrow> v \<noteq> JNull \<Longrightarrow> jindex r k = Inr v"
  by (cases r) (auto split: option.splits)

text \<open>The route list after routes were appended.\<close>

lemma append_routes_Inr:
  assumes "append_routes new doc = Inr doc'" and "jget doc ''routes'' JNull = Inr (JList rs)"
  shows "jget doc' ''routes'' JNull = Inr (JList (rs @ new)) \<and> (\<forall>k d. k \<noteq> ''routes'' \<longrightarrow> jget doc' k d = jget doc k d)"
  using assms
proof (induction new arbitrary: doc rs)
  case Nil
  then show ?case by (simp add: append_routes_def)
next
  case (Cons r new)
  from Cons.prems(1) obtain m where m: "update_path [''routes''] (append_item r) doc = Inr m" "append_routes new m = Inr doc'"
    by (auto simp: append_routes_def bindE_Inr_iff)
  have "jindex doc ''routes'' = Inr (JList rs)" using Cons.prems(2) by (rule jget_jindex) simp
  with m(1) have "set_key ''routes'' (JList (rs @ [r])) doc = Inr m"
    by (auto simp: update_path_def bindE_Inr_iff)
  from set_key_Inr [OF this] Cons.IH [OF m(2), of "rs @ [r]"] show ?case by simp
qed

section \<open>Reading what was edited\<close>

fun apart :: "string list \<Rightarrow> string list \<Rightarrow> bool" where
  "apart (k # ks) (p # ps) \<longleftrightarrow> k \<noteq> p \<or> apart ks ps"
| "apart _ _ \<longleftrightarrow> False"

text \<open>An edit of the list writes the value at the path, and no later edit touches it.\<close>

fun writes :: "(string list \<times> json) list \<Rightarrow> string list \<Rightarrow> json \<Rightarrow> bool" where
  "writes [] ps v \<longleftrightarrow> False"
| "writes ((ks, x) # es) ps v \<longleftrightarrow> (ks = ps \<and> x = v \<and> list_all (\<lambda>(k, _). apart k ps) es) \<or> writes es ps v"

lemma set_key_jindex: "set_key k v r = Inr r' \<Longrightarrow> jindex r' j = (if j = k then Inr v else jindex r j)"
  by (cases r) (auto simp: dict_set_lookup)

lemma set_path_get: "set_path ks v r = Inr r' \<Longrightarrow> ks \<noteq> [] \<Longrightarrow> get_path ks r' = Inr v"
proof (induction ks v r arbitrary: r' rule: set_path.induct)
  case (2 k v r)
  then show ?case using set_key_jindex [of k v r r' k] by simp
next
  case (3 k k' ks v r)
  from "3.prems"(1) obtain sub sub' where "jindex r k = Inr sub" "set_path (k' # ks) v sub = Inr sub'"
    "set_key k sub' r = Inr r'" by (auto simp: bindE_Inr_iff)
  with "3.IH" [of sub sub'] set_key_jindex [of k sub' r r' k] show ?case by simp
qed simp

lemma set_path_apart: "set_path ks v r = Inr r' \<Longrightarrow> apart ks ps \<Longrightarrow> get_path ps r' = get_path ps r"
proof (induction ks v r arbitrary: r' ps rule: set_path.induct)
  case (2 k v r)
  then obtain p ps' where "ps = p # ps'" "k \<noteq> p" by (cases ps) auto
  with "2.prems"(1) set_key_jindex [of k v r r' p] show ?case by simp
next
  case (3 k k' ks v r)
  from "3.prems"(1) obtain sub sub' where s: "jindex r k = Inr sub" "set_path (k' # ks) v sub = Inr sub'"
    "set_key k sub' r = Inr r'" by (auto simp: bindE_Inr_iff)
  from "3.prems"(2) obtain p ps' where p: "ps = p # ps'" by (cases ps) auto
  with s "3.IH" [of sub sub' ps'] "3.prems"(2) set_key_jindex [OF s(3), of p] show ?case
    by (cases "k = p") auto
qed simp

lemma set_all_apart:
  "set_all edits r = Inr r' \<Longrightarrow> list_all (\<lambda>(k, _). apart k ps) edits \<Longrightarrow> get_path ps r' = get_path ps r"
proof (induction edits arbitrary: r)
  case (Cons e edits)
  obtain ks v where e: "e = (ks, v)" by (cases e)
  from Cons.prems(1) obtain m where m: "set_path ks v r = Inr m" "set_all edits m = Inr r'"
    unfolding e set_all_Cons bindE_Inr_iff by blast
  with Cons.IH [OF m(2)] Cons.prems(2) set_path_apart [OF m(1), of ps] show ?case by (simp add: e)
qed (simp add: set_all_Nil)

lemma set_all_writes: "set_all edits r = Inr r' \<Longrightarrow> writes edits ps v \<Longrightarrow> ps \<noteq> [] \<Longrightarrow> get_path ps r' = Inr v"
proof (induction edits arbitrary: r)
  case (Cons e edits)
  obtain ks x where e: "e = (ks, x)" by (cases e)
  from Cons.prems(1) obtain m where m: "set_path ks x r = Inr m" "set_all edits m = Inr r'"
    unfolding e set_all_Cons bindE_Inr_iff by blast
  show ?case
  proof (cases "writes edits ps v")
    case True
    with Cons.IH [OF m(2)] Cons.prems(3) show ?thesis by simp
  next
    case False
    with Cons.prems(2) have "ks = ps" "x = v" "list_all (\<lambda>(k, _). apart k ps) edits" by (simp_all add: e)
    with set_all_apart [OF m(2)] set_path_get [OF m(1)] Cons.prems(3) show ?thesis by simp
  qed
qed simp

lemma map_of_filter_key: "map_of (filter (\<lambda>(j, _). j \<noteq> k) kvs) p = (if p = k then None else map_of kvs p)"
  by (induction kvs) auto

lemma drop_key_get: "drop_key k r = Inr r' \<Longrightarrow> p \<noteq> k \<Longrightarrow> get_path (p # ps) r' = get_path (p # ps) r"
  by (cases r) (auto simp: map_of_filter_key)

lemma drop_key_gone: "drop_key k r = Inr r' \<Longrightarrow> get_path (k # ps) r' = Inl (KeyError k)"
  by (cases r) (auto simp: map_of_filter_key)

section \<open>Semantic reads\<close>

text \<open>
  What a semantic read route is: its id and path are those of the name and free in the old list, it
  accepts POST only, keeps the token check and the limit of the template, and goes to the named
  consultation path with no retry and three seconds.
\<close>

definition established :: "string list" where
  "established = [''openid-connect'', ''limit-count'', ''serverless-pre-function'']"

definition semantic_read_bound :: "json list \<Rightarrow> json \<Rightarrow> (string, json) dict \<Rightarrow> string \<Rightarrow> json \<Rightarrow> bool" where
  "semantic_read_bound rs template ids name r \<longleftrightarrow>
     get_path [''id''] r = Inr (id_named ids name)
     \<and> get_path [''uri''] r = Inr (JStr (execute_uri @ ''/semantic/'' @ name))
     \<and> list_all (\<lambda>x. is_field ''id'' (id_named ids name) x = Inr False
          \<and> is_field ''uri'' (JStr (execute_uri @ ''/semantic/'' @ name)) x = Inr False) rs
     \<and> get_path [''methods''] r = Inr (jstrs [''POST''])
     \<and> list_all (\<lambda>p. get_path [''plugins'', p] r = get_path [''plugins'', p] template) established
     \<and> get_path [''plugins'', ''proxy-rewrite'', ''uri''] r = Inr (JStr (''/api/internal/v1/semantic/consultation/'' @ name))
     \<and> get_path [''plugins'', ''request-validation'', ''max_req_body_size''] r = Inr (JInt 65536)
     \<and> get_path [''upstream'', ''retries''] r = Inr (JInt 0)
     \<and> get_path [''upstream'', ''timeout'', ''read''] r = Inr (JInt 3)
     \<and> get_path [''service_id''] r = Inl (KeyError ''service_id'')"

lemma bindE_get_path_Nil: "bindE m (get_path []) = m"
  by (cases m) auto

lemma fail_if_Inr: "fail_if m msg = Inr u \<longleftrightarrow> m = Inr False"
  by (cases m) (auto simp: fail_if_def)

lemma the_only_Inr: "the_only msg rs = Inr r \<longleftrightarrow> rs = [r]"
  by (auto simp: the_only_def split: list.splits)

lemma taken_False:
  "taken rs i u = Inr False \<longleftrightarrow> list_all (\<lambda>x. is_field ''id'' i x = Inr False \<and> is_field ''uri'' u x = Inr False) rs"
  by (induction rs) (auto simp: taken_def or_else_def bindE_Inr_iff split: if_splits)

lemma get_path_append: "get_path ks v = Inr w \<Longrightarrow> get_path (ks @ ps) v = get_path ps w"
  by (induction ks arbitrary: v) (auto simp: bindE_Inr_iff)

lemma semantic_read_route_bound:
  assumes "semantic_read_route src rs installation key_env semantic_key upstream template ids name = Inr r"
    and ids: "ids = id_named named"
  shows "semantic_read_bound rs template named name r"
proof -
  let ?uri = "execute_uri @ ''/semantic/'' @ name"
  from assms(1) obtain code a b where free: "taken rs (ids name) (JStr ?uri) = Inr False"
    and a: "set_all (semantic_read_edits src name ?uri (ids name) code upstream) template = Inr a"
    and b: "drop_key ''service_id'' a = Inr b" and r: "set_all read_timeouts b = Inr r"
    by (auto simp: semantic_read_route_def Let_def bindE_Inr_iff fail_if_Inr)
  have late: "get_path (p # ps) r = get_path (p # ps) a" if "p \<noteq> ''upstream''" "p \<noteq> ''service_id''" for p ps
    using set_all_apart [OF r, of "p # ps"] drop_key_get [OF b, of p ps] that by (simp add: read_timeouts_def)
  have w: "get_path ps a = Inr v" if "writes (semantic_read_edits src name ?uri (ids name) code upstream) ps v" "ps \<noteq> []"
    for ps v using set_all_writes [OF a] that by blast
  have keep: "get_path [''plugins'', p] r = get_path [''plugins'', p] template" if "p \<in> set established" for p
    using late [of "''plugins''" "[p]"] set_all_apart [OF a, of "[''plugins'', p]"] that
    by (auto simp: established_def semantic_read_edits_def)
  have up: "get_path [''upstream'', ''retries''] r = Inr (JInt 0)"
    "get_path [''upstream'', ''timeout''] r = Inr (JObj [(''connect'', JInt 3), (''send'', JInt 3), (''read'', JInt 3)])"
    using set_all_writes [OF r, of "[''upstream'', ''retries'']"] set_all_writes [OF r, of "[''upstream'', ''timeout'']"]
    by (simp_all add: read_timeouts_def del: get_path.simps)
  have "get_path [''service_id''] r = Inl (KeyError ''service_id'')"
    using set_all_apart [OF r, of "[''service_id'']"] drop_key_gone [OF b, of "[]"] by (simp add: read_timeouts_def)
  moreover have "get_path [''plugins'', ''proxy-rewrite''] r = Inr (jobj1 ''uri'' (JStr (''/api/internal/v1/semantic/consultation/'' @ name)))"
    "get_path [''plugins'', ''request-validation''] r = Inr (JObj [(''max_req_body_size'', JInt 65536),
       (''body_schema'', so_schema src (''mcp-gateway-semantic-'' @ name @ ''-dispatch-v1.json''))])"
    using late [of "''plugins''" "[''proxy-rewrite'']"] late [of "''plugins''" "[''request-validation'']"]
      w [of "[''plugins'', ''proxy-rewrite'']"] w [of "[''plugins'', ''request-validation'']"]
    by (simp_all add: semantic_read_edits_def del: get_path.simps)
  moreover have "get_path [''id''] r = Inr (ids name)" "get_path [''uri''] r = Inr (JStr ?uri)"
    "get_path [''methods''] r = Inr (jstrs [''POST''])"
    using late [of "''id''" "[]"] late [of "''uri''" "[]"] late [of "''methods''" "[]"]
      w [of "[''id'']"] w [of "[''uri'']"] w [of "[''methods'']"]
    by (simp_all add: semantic_read_edits_def del: get_path.simps)
  ultimately show ?thesis
    using free keep up get_path_append [of "[''plugins'', ''proxy-rewrite'']" r _ "[''uri'']"]
      get_path_append [of "[''plugins'', ''request-validation'']" r _ "[''max_req_body_size'']"]
      get_path_append [OF up(2), of "[''read'']"]
    by (simp add: semantic_read_bound_def taken_False ids list_all_iff jobj1_def)
qed

lemma two_ids:
  assumes "route_ids_ok ids = Inr True" and "distinct (dict_keys ids)"
  shows "id_named ids ''search'' \<noteq> id_named ids ''get''"
proof -
  from assms have k: "set (map fst ids) = {''search'', ''get''}" and c: "card (set (map snd ids)) = 2"
    by (auto simp: route_ids_ok_def jset_def dict_keys_def split: if_splits)
  from k assms(2) have "length ids = 2" using distinct_card [of "map fst ids"] by (simp add: dict_keys_def)
  then obtain i a j b where "ids = [(i, a), (j, b)]"
    by (auto simp: numeral_2_eq_2 length_Suc_conv)
  with k c show ?thesis by (auto simp: id_named_def doubleton_eq_iff card_insert_if split: if_splits)
qed

text \<open>
  C17. A semantic read materialisation leaves every route and every other field of the installation as
  it was and adds exactly two routes, the search and the get; both are bound to their purpose, their
  ids are the two configured ones, which differ, and neither id nor path was in use. The keys that sign
  delegations and owner receipts are different.
\<close>

theorem semantic_read_appends_two:
  assumes "materialize_semantic_read src existing installation key_env semantic_key upstream ids = Inr doc"
    and "distinct (dict_keys ids)"
  shows "key_env \<noteq> semantic_key \<and> id_named ids ''search'' \<noteq> id_named ids ''get''
    \<and> (\<exists>rs template a b. routes_of existing = Inr rs \<and> templates_of rs = Inr [template]
        \<and> routes_of doc = Inr (rs @ [a, b])
        \<and> semantic_read_bound rs template ids ''search'' a \<and> semantic_read_bound rs template ids ''get'' b
        \<and> (\<forall>k. k \<noteq> ''routes'' \<longrightarrow> jindex doc k = jindex existing k))"
proof -
  from assms(1) obtain rs template new where k: "key_env \<noteq> semantic_key" and ok: "route_ids_ok ids = Inr True"
    and rs: "routes_of existing = Inr rs"
    and t: "bindE (templates_of rs) (the_only ''one established execute template required'') = Inr template"
    and new: "mapE (semantic_read_route src rs installation key_env semantic_key upstream template (id_named ids))
       [''search'', ''get''] = Inr new" and doc: "with_routes (rs @ new) existing = Inr doc"
    by (auto simp: materialize_semantic_read_def bindE_Inr_iff fail_if_Inr negated_def require_def split: if_splits)
  from t have "templates_of rs = Inr [template]"
    by (auto simp: bindE_Inr_iff the_only_Inr)
  moreover from new obtain a b where "new = [a, b]"
    and "semantic_read_bound rs template ids ''search'' a" "semantic_read_bound rs template ids ''get'' b"
    by (auto simp: bindE_Inr_iff semantic_read_route_bound)
  moreover from doc have "set_key ''routes'' (JList (rs @ new)) existing = Inr doc" by (simp add: with_routes_def)
  then have j: "jindex doc k = (if k = ''routes'' then Inr (JList (rs @ new)) else jindex existing k)" for k
    by (rule set_key_jindex)
  moreover from j have "routes_of doc = Inr (rs @ new)" by (simp add: routes_of_def)
  moreover have "id_named ids ''search'' \<noteq> id_named ids ''get''"
    using two_ids [OF ok assms(2)] .
  ultimately show ?thesis using k rs by auto
qed

text \<open>An installation with one execute template, and its two consultation routes.\<close>

definition sample_template :: json where
  "sample_template = JObj [
     (''id'', JStr ''execute''), (''uri'', JStr execute_uri), (''methods'', jstrs [''POST'']),
     (''labels'', JObj [(''ouf-managed'', JStr ''true'')]), (''service_id'', JStr ''ouf-mcp-server''),
     (''plugins'', JObj [
        (''openid-connect'', JObj [(''bearer_only'', JBool True)]), (''limit-count'', JObj [(''count'', JInt 10)]),
        (''request-validation'', JObj []), (''serverless-pre-function'', lua_phase ''rewrite'' keep_delegation),
        (''serverless-post-function'', JObj []), (''proxy-rewrite'', JObj [])]),
     (''upstream'', status_upstream)]"

definition sample_existing :: json where
  "sample_existing = JObj [(''delegationKeyEnv'', JStr ''DELEGATION_KEY''), (''routes'', JList [sample_template])]"

definition sample_settings :: json where
  "sample_settings = JObj [(''issuerUrl'', JStr ''https://idp.city''), (''gatewayAudience'', JStr ''ouf-gateway''),
     (''mcpServiceIdentity'', JStr ''ouf-mcp'')]"

definition sample_sources :: sources where
  "sample_sources = \<lparr>so_lua = (\<lambda>_. ''local x = 1''), so_schema = (\<lambda>_. JObj [(''type'', JStr ''object'')])\<rparr>"

definition sample_upstream :: json where
  "sample_upstream = JObj [(''type'', JStr ''roundrobin''), (''scheme'', JStr ''http''),
     (''nodes'', jobj1 ''ouf-semantic-registry:8080'' (JInt 1))]"

definition sample_ids :: "(string, json) dict" where
  "sample_ids = [(''search'', JStr ''semantic-search''), (''get'', JStr ''semantic-get'')]"

lemma sample_read_succeeds:
  "is_ok (materialize_semantic_read sample_sources sample_existing sample_settings ''DELEGATION_KEY'' ''SEMANTIC_KEY''
     sample_upstream sample_ids)"
  by code_simp

theorem semantic_read_appends_two_witness:
  "\<exists>doc rs template a b. materialize_semantic_read sample_sources sample_existing sample_settings ''DELEGATION_KEY''
       ''SEMANTIC_KEY'' sample_upstream sample_ids = Inr doc
     \<and> templates_of rs = Inr [template] \<and> routes_of doc = Inr (rs @ [a, b])
     \<and> semantic_read_bound rs template sample_ids ''search'' a \<and> semantic_read_bound rs template sample_ids ''get'' b"
proof -
  obtain doc where doc: "materialize_semantic_read sample_sources sample_existing sample_settings ''DELEGATION_KEY''
       ''SEMANTIC_KEY'' sample_upstream sample_ids = Inr doc"
    using sample_read_succeeds unfolding is_ok_iff by blast
  have "distinct (dict_keys sample_ids)" by code_simp
  from semantic_read_appends_two [OF doc this] obtain rs template a b where "templates_of rs = Inr [template]"
    "routes_of doc = Inr (rs @ [a, b])" "semantic_read_bound rs template sample_ids ''search'' a"
    "semantic_read_bound rs template sample_ids ''get'' b" by (elim conjE exE) (rule that)
  with doc show ?thesis by (intro exI conjI)
qed

section \<open>Semantic proposals\<close>

text \<open>
  What a proposal route is: its id and path are those of the mode and were free, the token check, the
  limit, the header filter and the methods are those of the template, and the internal binding it
  stands for was found exactly once and matches the fixed owner, scope and actors.
\<close>

definition proposal_bound ::
  "json \<Rightarrow> json \<Rightarrow> json \<Rightarrow> json list \<Rightarrow> string \<times> string \<times> string \<times> string \<Rightarrow> json \<Rightarrow> bool" where
  "proposal_bound runtime installation template rs c r = (case c of (cap, mode, operation, scope) \<Rightarrow>
     get_path [''id''] r = Inr (JStr (''semantic-proposal-'' @ mode))
     \<and> get_path [''uri''] r = Inr (JStr (execute_uri @ ''/semantic/'' @ mode))
     \<and> list_all (\<lambda>x. is_field ''id'' (JStr (''semantic-proposal-'' @ mode)) x = Inr False
          \<and> is_field ''uri'' (JStr (execute_uri @ ''/semantic/'' @ mode)) x = Inr False) rs
     \<and> get_path [''methods''] r = get_path [''methods''] template
     \<and> list_all (\<lambda>p. get_path [''plugins'', p] r = get_path [''plugins'', p] template) established
     \<and> rewrite_uri r = Inr (JStr (proposal_path mode))
     \<and> get_path [''upstream''] r = Inr (timed_upstream (jobj1 ''ouf-semantic-registry:8080'' (JInt 1)) 3 3)
     \<and> (\<exists>b. capability_binding runtime cap (''exact semantic proposal binding required: '' @ cap) = Inr b
          \<and> proposal_mismatch installation b c = Inr False))"

lemma proposal_step_bound:
  assumes "proposal_step src runtime installation key_env owner_key template schemas c rs = Inr rs'"
  obtains r where "rs' = rs @ [r]" and "proposal_bound runtime installation template rs c r"
proof -
  obtain cap mode operation scope where c: "c = (cap, mode, operation, scope)" by (cases c)
  let ?i = "JStr (''semantic-proposal-'' @ mode)" and ?u = "JStr (execute_uri @ ''/semantic/'' @ mode)"
  from assms obtain b schema code r where b: "capability_binding runtime cap (''exact semantic proposal binding required: '' @ cap) = Inr b"
    and m: "proposal_mismatch installation b c = Inr False" and free: "taken rs ?i ?u = Inr False"
    and r: "set_all [([''id''], ?i), ([''uri''], ?u), ([''labels'', ''ouf-mediation''], JStr ''semantic-proposal-v1''),
       ([''plugins'', ''request-validation'', ''body_schema''], schema), (lua_at ''serverless-post-function'', JList [code]),
       ([''plugins'', ''proxy-rewrite'', ''uri''], JStr (proposal_path mode)),
       ([''upstream''], timed_upstream (jobj1 ''ouf-semantic-registry:8080'' (JInt 1)) 3 3)] template = Inr r"
    and rs': "rs' = rs @ [r]"
    by (auto simp: proposal_step_def c Let_def bindE_Inr_iff fail_if_Inr)
  have "proposal_bound runtime installation template rs c r"
    using b m free set_all_writes [OF r, of "[''id'']"] set_all_writes [OF r, of "[''uri'']"]
      set_all_writes [OF r, of "[''plugins'', ''proxy-rewrite'', ''uri'']"] set_all_writes [OF r, of "[''upstream'']"]
      set_all_apart [OF r, of "[''methods'']"] set_all_apart [OF r, of "[''plugins'', ''openid-connect'']"]
      set_all_apart [OF r, of "[''plugins'', ''limit-count'']"] set_all_apart [OF r, of "[''plugins'', ''serverless-pre-function'']"]
    by (simp add: proposal_bound_def c taken_False rewrite_uri_def established_def lua_at_def del: get_path.simps)
  with rs' that show ?thesis by blast
qed

lemma proposal_bound_shorter:
  "proposal_bound runtime installation template (rs @ rs') c r \<Longrightarrow> proposal_bound runtime installation template rs c r"
  by (auto simp: proposal_bound_def split: prod.splits)

lemma proposals_fold:
  "foldE (proposal_step src runtime installation key_env owner_key template schemas) cs rs = Inr rs'
   \<Longrightarrow> \<exists>new. rs' = rs @ new \<and> list_all2 (proposal_bound runtime installation template rs) cs new"
proof (induction cs arbitrary: rs)
  case Nil
  then show ?case by simp
next
  case (Cons c cs)
  from Cons.prems obtain m where "proposal_step src runtime installation key_env owner_key template schemas c rs = Inr m"
    and rest: "foldE (proposal_step src runtime installation key_env owner_key template schemas) cs m = Inr rs'"
    by (auto simp: bindE_Inr_iff)
  then obtain r where r: "m = rs @ [r]" "proposal_bound runtime installation template rs c r"
    by (meson proposal_step_bound)
  from Cons.IH [OF rest] obtain new where new: "rs' = m @ new" "list_all2 (proposal_bound runtime installation template m) cs new"
    by blast
  from new(2) have "list_all2 (proposal_bound runtime installation template rs) cs new"
    unfolding r(1) by (rule list_all2_mono) (rule proposal_bound_shorter)
  with r new show ?case by (intro exI [of _ "r # new"]) simp
qed

text \<open>
  C18. Adding the semantic proposals keeps every route of the retained installation in its place and
  adds one route for each of the four capabilities, in their order. Each new route is bound to its
  capability: a free id and path, the guards of the established template, and one declared binding
  with the fixed owner, scope, actors and limits. Besides the routes only the two profile fields change.
\<close>

theorem proposals_extend_installation:
  assumes "add_to_existing src existing runtime key_env owner_key = Inr doc"
  shows "key_env \<noteq> owner_key
    \<and> (\<exists>rs installation template new. routes_of existing = Inr rs \<and> ids_repeat rs = Inr False
        \<and> jindex runtime ''x-ouf-installation'' = Inr installation \<and> templates_of rs = Inr [template]
        \<and> routes_of doc = Inr (rs @ new)
        \<and> list_all2 (proposal_bound runtime installation template rs) proposal_caps new)
    \<and> (\<forall>k. k \<notin> {''routes'', ''semanticProposalProfile'', ''semanticProposalOwnerKeyEnv''} \<longrightarrow> jindex doc k = jindex existing k)"
proof -
  from assms obtain rs template schemas installation rs' mid where k: "key_env \<noteq> owner_key"
    and rs: "routes_of existing = Inr rs" "ids_repeat rs = Inr False" "jindex runtime ''x-ouf-installation'' = Inr installation"
    and t: "bindE (templates_of rs) (the_only ''one established execute template required'') = Inr template"
    and f: "foldE (proposal_step src runtime installation key_env owner_key template schemas) proposal_caps rs = Inr rs'"
    and mid: "with_routes rs' existing = Inr mid"
    and doc: "set_all [([''semanticProposalProfile''], JStr ''ouf.semantic-proposal-channel.v1''),
       ([''semanticProposalOwnerKeyEnv''], JStr owner_key)] mid = Inr doc"
    by (auto simp: add_to_existing_def bindE_Inr_iff fail_if_Inr require_def split: if_splits)
  from proposals_fold [OF f] obtain new where new: "rs' = rs @ new"
    "list_all2 (proposal_bound runtime installation template rs) proposal_caps new" by blast
  have m: "jindex mid k = (if k = ''routes'' then Inr (JList rs') else jindex existing k)" for k
    using mid unfolding with_routes_def by (rule set_key_jindex)
  have d: "jindex doc k = jindex mid k" if "k \<noteq> ''semanticProposalProfile''" "k \<noteq> ''semanticProposalOwnerKeyEnv''" for k
    using set_all_apart [OF doc, of "[k]"] that by (simp add: bindE_get_path_Nil)
  have "routes_of doc = Inr rs'" using d m by (simp add: routes_of_def)
  moreover from t have "templates_of rs = Inr [template]" by (auto simp: bindE_Inr_iff the_only_Inr)
  ultimately show ?thesis using k rs new d m by auto
qed

definition sample_capability :: "string \<Rightarrow> string \<Rightarrow> string \<Rightarrow> json" where
  "sample_capability cap owner operation = JObj [(''capabilityId'', JStr cap), (''owner'', JStr owner),
     (''operationType'', JStr operation), (''humanRequired'', JBool False), (''toolEligible'', JBool True)]"

definition sample_policy :: "string \<Rightarrow> string list \<Rightarrow> int \<Rightarrow> int \<Rightarrow> json" where
  "sample_policy scope actors bytes seconds = JObj [(''identity'', JStr ''M2M''), (''requiredScope'', JStr scope),
     (''allowedActorTypes'', jstrs actors), (''allowedServiceIdentities'', jstrs [''ouf-mcp'']),
     (''maxRequestBytes'', JInt bytes), (''timeoutSeconds'', JInt seconds)]"

definition sample_proposal :: "string \<times> string \<times> string \<times> string \<Rightarrow> json" where
  "sample_proposal c = (case c of (cap, mode, operation, scope) \<Rightarrow> JObj [
     (''id'', JStr (''internal-'' @ mode)), (''service_id'', JStr ''ouf-semantic-registry''),
     (''labels'', JObj [(''exposure'', JStr ''internal'')]),
     (''plugins'', JObj [(''proxy-rewrite'', jobj1 ''uri'' (JStr (proposal_path mode)))]),
     (''x-ouf-capability'', sample_capability cap ''semantic'' operation),
     (''x-ouf-policy'', sample_policy scope (if mode = ''read'' then [''HUMAN''] else [''HUMAN'', ''AI_AGENT'', ''SERVICE'']) 65536 3)])"

definition sample_proposal_runtime :: json where
  "sample_proposal_runtime = JObj [(''x-ouf-installation'', sample_settings), (''routes'', JList (map sample_proposal proposal_caps))]"

definition sample_dispatch :: "string \<Rightarrow> json" where
  "sample_dispatch cap = JObj [(''properties'', JObj [(''CapabilityID'', jobj1 ''const'' (JStr cap))])]"

definition proposal_sources :: sources where
  "proposal_sources = \<lparr>so_lua = (\<lambda>_. ''local x = 1''),
     so_schema = (\<lambda>_. JObj [(''oneOf'', JList (map (\<lambda>(cap, _). sample_dispatch cap) proposal_caps))])\<rparr>"

lemma sample_proposals_succeed:
  "is_ok (add_to_existing proposal_sources sample_existing sample_proposal_runtime ''DELEGATION_KEY'' ''SEMANTIC_KEY'')"
  by code_simp

theorem proposals_extend_installation_witness:
  "\<exists>doc rs installation template new. add_to_existing proposal_sources sample_existing sample_proposal_runtime
       ''DELEGATION_KEY'' ''SEMANTIC_KEY'' = Inr doc
     \<and> routes_of doc = Inr (rs @ new) \<and> list_all2 (proposal_bound sample_proposal_runtime installation template rs) proposal_caps new"
proof -
  obtain doc where doc: "add_to_existing proposal_sources sample_existing sample_proposal_runtime
       ''DELEGATION_KEY'' ''SEMANTIC_KEY'' = Inr doc"
    using sample_proposals_succeed unfolding is_ok_iff by blast
  from proposals_extend_installation [OF doc] obtain rs installation template new where "routes_of doc = Inr (rs @ new)"
    "list_all2 (proposal_bound sample_proposal_runtime installation template rs) proposal_caps new"
    by (elim conjE exE) (rule that)
  with doc show ?thesis by (intro exI conjI)
qed

end
