(* ===== verification/Spec2Isabelle.thy ===== *)
theory Spec2Isabelle
  imports Publication_Safety Etcd Pressure Owner_Api_Safety Alert_Safety Boundaries Dispatch_Safety Projection
    Route_Files_Safety Route_Status_Safety Candidate_Safety Route_Human_Deploys Route_Picker_Deploys
    Route_Mediation_Safety
begin

text \<open>
  A verification library for the OUF API gateway: the control plane that compiles, publishes and
  activates a gateway configuration, the operational plane that records incidents, serves them to
  owners and sends alerts, the mediators through which tools reach governed backends, and the scripts
  that write routes for the APISIX gateway and install them. The library follows the Python sources
  under \<open>src/\<close>; every theory opens with what it holds and names its source files.

  Parts and how they interact.

  \<^item> Configuration. \<open>Compile\<close> (\<open>tools/compile_config.py\<close>) turns documents into one artifact;
    \<open>Projection\<close> (\<open>tools/apply_installation_projection.py\<close>) replaces the symbolic installation of the
    artifact by a concrete one; \<open>Activation\<close> (\<open>tools/activation_gate.py\<close>) decides whether a route may
    become active.
  \<^item> Publication. \<open>Control_Plane\<close> (\<open>tools/apisix_control_plane.py\<close>, \<open>tools/apisix_admin_http.py\<close>) is the
    adapter with its HTTP transport; \<open>Publication\<close> (\<open>tools/publication.py\<close>) coalesces changes, stages,
    verifies, activates, rolls back and keeps the file store; \<open>Etcd\<close> (\<open>tools/etcd_resilience.py\<close>) is the
    gate in front of it. Failures become incidents of the incident store.
  \<^item> Operations. \<open>Incidents\<close> (\<open>tools/operational_incidents.py\<close>) is the store with its history;
    \<open>Pressure\<close> (\<open>tools/operational_pressure.py\<close>) the concurrency controller; \<open>Cursor\<close> and \<open>Bookmarks\<close>
    (\<open>tools/operational_cursor.py\<close>, \<open>tools/operational_bookmarks.py\<close>) page over a captured snapshot and
    resume from a position of the history; \<open>Owner_Api\<close> (\<open>tools/gateway_operational_api.py\<close>) serves all
    of them under the owner's policy; \<open>Alert_Outbox\<close> (\<open>tools/operational_alert_outbox.py\<close>) derives
    deliveries from the history and sends each at most as often as allowed.
  \<^item> Mediation. \<open>Boundaries\<close> (\<open>tools/identity_boundary.py\<close> and the files it names) turns credentials into
    identities and destinations into addresses; \<open>Dispatch\<close> (\<open>tools/mcp_dispatch.py\<close> and the two
    mediators beside it) sends an admitted request to the compiled backend, accepts evidence and
    recovers it from its owner.
  \<^item> Routes. \<open>Url\<close>, \<open>Route_Build\<close>, \<open>Route_Human\<close>, \<open>Route_Mediation\<close> and \<open>Route_Extend\<close> are the
    materialisers (\<open>tools/materialize_*.py\<close>, \<open>tools/delegation_functions.py\<close>) that write APISIX routes
    from a resolved runtime; \<open>Route_Deploy\<close>, \<open>Route_Scripts\<close>, \<open>Route_Files\<close> and \<open>Route_Status\<close> are the
    scripts under \<open>ops/apisix\<close> that install what was written and roll back; \<open>Rollout\<close> and \<open>Retrofit\<close>
    (\<open>ops/apisix/rollout_r4a_runtime.py\<close>, \<open>ops/udp/rollout_authorization_retrofit.py\<close>) replace running
    containers, from the private directories that the scripts of \<open>Candidate\<close> prepare and check
    (\<open>ops/apisix/prepare_r4a_runtime.py\<close>, \<open>ops/apisix/preflight_r4a_runtime.py\<close>,
    \<open>ops/udp/prepare_authorization_retrofit.py\<close>).

  How code becomes definitions. A Python exception is a value of \<open>py_exn\<close>, one constructor for each
  class that the code raises or catches; a function that may raise returns \<open>py_exn + 'a\<close>, and one with
  effects is a function of the world to a result and the world after it, which is kept when an exception
  is raised. A SQL table is the list of its rows inside a record, a transaction is undone by an
  exception, constraints and triggers are part of the operations. JSON values are the datatype
  \<open>json\<close>, objects keep their order, and \<open>==\<close> is \<open>json_eq\<close>, for which the order of keys does not matter
  and \<open>True\<close> equals 1. Times are microseconds, Python integers are \<open>int\<close>, text is a list of characters
  below 256. The definitions keep the order of the checks of the source, so that the first failing
  check decides the exception.

  Parameters. Code outside \<open>src/\<close> is an argument: the curl command and the docker engine of the
  deployers (\<open>'w admin\<close>, \<open>'w docker\<close>, \<open>'w host\<close>), the Admin API behind the port of the publisher, hash
  and signature functions, name resolution, the owner's authorization answer, fresh tokens, and for
  the mediation materialisers the texts of the Lua files and the parsed JSON schemas (\<open>sources\<close>).
  What a theorem needs of them is a named hypothesis that states documented behaviour:
  \<open>faithful_admin\<close> (a written route is read back with the defaults of the server, a deleted one is
  gone, other ids do not change, a failed request may or may not have been executed), \<open>faithful_docker\<close>
  (a container keeps its id under renaming, a command only touches the container it names). Each
  such theorem has a witness with an implementation in memory.

  What the groups of lemmas show.

  \<^item> \<open>Publication_Safety\<close>: the active manifest changes only to a verified manifest of the same
    publication, a store error never damages the recorded history, what is reported is what happened,
    and over the HTTP transport activation cannot succeed. \<open>Compile\<close>: no two compiled routes are declared
    for the same method, path and URI regex; overlapping patterns are not excluded. \<open>Etcd\<close>: a restore is accepted exactly when it is the desired state.
  \<^item> \<open>Incidents\<close>, \<open>Pressure\<close>, \<open>Cursor_Safety\<close>, \<open>Bookmark_Safety\<close>, \<open>Owner_Api_Safety\<close>, \<open>Alert_Safety\<close>: the
    invariants of every table under every operation, the state machine of deliveries as a step relation
    with its reachable states, that paging ends and shows the snapshot completely and only to its
    reader, unless a page is too large to be answered, that bookmarks stand for items that were shown
    unless a page was refused for its size (a page counts as read before that check), that answers hold
    only what the owner granted, and that alert reconciliation makes progress.
  \<^item> \<open>Boundaries\<close>, \<open>Dispatch_Safety\<close>: a request reaches only the backend of its one compiled route, after
    every check, and recovery trusts only the owner's evidence.
  \<^item> \<open>Route_Deploy_Safety\<close>, \<open>Route_Scripts_Safety\<close>, \<open>Route_Files_Safety\<close>, \<open>Route_Status_Safety\<close>,
    \<open>Rollout_Safety\<close>, \<open>Retrofit_Safety\<close>, \<open>Candidate_Safety\<close>: an installation succeeds with every route as written, or leaves
    what was there, or says which ids it could not restore; a rollout never loses the original
    container, the retrofit can; the retrofit accepts what its preparation wrote as long as no
    value has a line break of \<open>splitlines\<close>, and the preflight of the staged rollout refuses what the
    rollout demands; its preparation evaluates a name that the source never binds.
  \<^item> \<open>Route_Build_Safety\<close>, \<open>Route_Human_Safety\<close>, \<open>Route_Human_Deploys\<close>, \<open>Route_Picker_Deploys\<close>,
    \<open>Route_Mediation_Safety\<close>: quoting is safe for names of printable ASCII, every materialised route carries its guards, each
    deployer accepts what its materialiser writes up to what the theorem names (the onboarding
    deployer refuses all of it), and the scripts that extend an installation only append.

  Shared interfaces are locales, interpreted on the definitions of the components: \<open>admin_laws\<close>, what the
  adapter asks of an Admin port, which gives \<open>plane_laws\<close>, what the publisher asks of a control plane,
  interpreted on the HTTP transport; \<open>incident_sink\<close>, where the publisher reports, interpreted on the
  incident store; \<open>total_preorder\<close>, the orders by which rows are sorted.

  Bounds and fuel. Loops over lists are structural recursion. Polling loops (readiness of a container, a
  health check) have the number of attempts of the source as their fuel. Following cursors has no bound in
  the source; the theorem asks for more fuel than there are items, which is enough. Digit and calendar
  functions terminate by a measure.

  Not modelled: argument parsing, printing, sleeping, files beyond their parsed content and threads.
  YAML and JSON-schema validation of documents are inputs, the Lua that runs inside APISIX is text, except
  for the allow-lists of the workload guard, which the library reads back. The remaining scripts
  (\<open>ops/apisix/preflight_r4a_route.py\<close>, \<open>prepare_r4a_route.py\<close>, \<open>preflight_managed_file_attachment.py\<close>,
  \<open>snapshot_*\<close>, \<open>probe_*\<close>, \<open>repair_*\<close>, \<open>ops/policy_token\<close>, \<open>scripts/*\<close>) are sequences of calls to docker, SQL and the file system around a few
  comparisons, and the HTTP server of \<open>tools/pairwise_server.py\<close> only carries requests to the
  mediators; shell scripts, configuration, schemas and documents have no model.
\<close>

end
